(* ===== verification/Prelude.thy ===== *)
theory Prelude
  imports Main "HOL-Library.Sublist"
begin

text \<open>
  Shared vocabulary of the development.

  \<^item> Strings. A JavaScript string is a list of code units. The model uses \<^typ>\<open>string\<close>, whose
    characters are the code units 0 to 255; every string the modelled code compares, splits or
    matches with a regular expression lies in that range. The regular expressions of the source
    are written as predicates over characters and lengths.
  \<^item> Effects. An \<open>async\<close> method of the source is a value of type \<open>('s, 'a) act\<close>: a function from the
    state of the world to a result and the next state. A result is \<open>Inl e\<close> for a rejected promise
    or a thrown error and \<open>Inr v\<close> for a value. The \<open>wp\<close> rules reason about such actions.
  \<^item> Objects. A plain object whose keys are data is an association list with the first-insertion
    order of JavaScript.
\<close>

named_theorems act_simps \<open>unfolding rules of the effect combinators\<close>
named_theorems wp \<open>weakest-precondition rules of the effect combinators\<close>
named_theorems text_simps \<open>evaluation rules of the string predicates\<close>

subsection \<open>Strings\<close>

definition startsWith :: "string \<Rightarrow> string \<Rightarrow> bool" where
  "startsWith s p \<longleftrightarrow> prefix p s"

definition endsWith :: "string \<Rightarrow> string \<Rightarrow> bool" where
  "endsWith s p \<longleftrightarrow> suffix p s"

definition code_in :: "nat \<Rightarrow> nat \<Rightarrow> char \<Rightarrow> bool" where
  "code_in lo hi c \<longleftrightarrow> lo \<le> (of_char c :: nat) \<and> (of_char c :: nat) \<le> hi"

definition is_digit :: "char \<Rightarrow> bool" where
  "is_digit c \<longleftrightarrow> code_in 48 57 c"

definition is_lower :: "char \<Rightarrow> bool" where
  "is_lower c \<longleftrightarrow> code_in 97 122 c"

definition is_upper :: "char \<Rightarrow> bool" where
  "is_upper c \<longleftrightarrow> code_in 65 90 c"

text \<open>The class \<open>[0-9a-f-]\<close> of the run identifiers and \<open>[a-z0-9-]\<close> of resource names.\<close>

definition is_hex_dash :: "char \<Rightarrow> bool" where
  "is_hex_dash c \<longleftrightarrow> is_digit c \<or> code_in 97 102 c \<or> c = CHR ''-''"

definition is_hex :: "char \<Rightarrow> bool" where
  "is_hex c \<longleftrightarrow> is_digit c \<or> code_in 97 102 c"

definition is_name_char :: "char \<Rightarrow> bool" where
  "is_name_char c \<longleftrightarrow> is_digit c \<or> is_lower c \<or> c = CHR ''-''"

definition is_name_start :: "char \<Rightarrow> bool" where
  "is_name_start c \<longleftrightarrow> is_digit c \<or> is_lower c"

lemmas char_class_defs = code_in_def is_digit_def is_lower_def is_upper_def is_hex_dash_def
  is_hex_def is_name_char_def is_name_start_def

text \<open>\<open>/^reg-[0-9a-f-]{36}$/\<close>\<close>

definition is_run_id :: "string \<Rightarrow> bool" where
  "is_run_id s \<longleftrightarrow> take 4 s = ''reg-'' \<and> length s = 40 \<and> list_all is_hex_dash (drop 4 s)"

text \<open>White space of \<open>\s\<close> and of \<open>trim\<close> in the code units 0 to 255.\<close>

definition is_space :: "char \<Rightarrow> bool" where
  "is_space c \<longleftrightarrow> code_in 9 13 c \<or> c = CHR '' '' \<or> (of_char c :: nat) = 160"

definition trim :: "string \<Rightarrow> string" where
  "trim s = rev (dropWhile is_space (rev (dropWhile is_space s)))"

text \<open>\<open>toLowerCase\<close> on the letters A to Z and on the letters 192 to 222 other than 215.\<close>

definition lower_char :: "char \<Rightarrow> char" where
  "lower_char c = (let n = (of_char c :: nat)
     in if 65 \<le> n \<and> n \<le> 90 \<or> 192 \<le> n \<and> n \<le> 222 \<and> n \<noteq> 215 then char_of (n + 32) else c)"

definition toLowerCase :: "string \<Rightarrow> string" where
  "toLowerCase s = map lower_char s"

fun join :: "string \<Rightarrow> string list \<Rightarrow> string" where
  "join sep [] = []"
| "join sep [x] = x"
| "join sep (x # y # xs) = x @ sep @ join sep (y # xs)"

text \<open>\<open>s.split(c)\<close> for a separator of one character.\<close>

fun split_on :: "char \<Rightarrow> string \<Rightarrow> string list" where
  "split_on c [] = [[]]"
| "split_on c (x # xs) =
     (if x = c then [] # split_on c xs
      else (case split_on c xs of [] \<Rightarrow> [[x]] | y # ys \<Rightarrow> (x # y) # ys))"

text \<open>\<open>s.indexOf(c)\<close>, where \<^const>\<open>None\<close> stands for \<open>-1\<close>.\<close>

fun indexOf :: "char \<Rightarrow> string \<Rightarrow> nat option" where
  "indexOf c [] = None"
| "indexOf c (x # xs) = (if x = c then Some 0 else map_option Suc (indexOf c xs))"

subsubsection \<open>Decimal numerals\<close>

definition digit_char :: "nat \<Rightarrow> char" where
  "digit_char d = char_of (48 + d)"

fun show_nat :: "nat \<Rightarrow> string" where
  "show_nat n = (if n < 10 then [digit_char n] else show_nat (n div 10) @ [digit_char (n mod 10)])"

declare show_nat.simps [simp del]

definition show_int :: "int \<Rightarrow> string" where
  "show_int i = (if i < 0 then CHR ''-'' # show_nat (nat (- i)) else show_nat (nat i))"

definition digit_value :: "char \<Rightarrow> nat" where
  "digit_value c = (of_char c :: nat) - 48"

definition digits_value :: "string \<Rightarrow> nat" where
  "digits_value s = foldl (\<lambda>n c. 10 * n + digit_value c) 0 s"

text \<open>A numeral of exactly \<open>k\<close> digits: \<open>String(n).padStart(k, '0')\<close> for \<open>n < 10 ^ k\<close>.\<close>

fun pad_nat :: "nat \<Rightarrow> nat \<Rightarrow> string" where
  "pad_nat 0 n = []"
| "pad_nat (Suc k) n = pad_nat k (n div 10) @ [digit_char (n mod 10)]"

text \<open>Reading back what was printed.\<close>

lemma digit_char_code:
  assumes "d < 10"
  shows "(of_char (digit_char d) :: nat) = 48 + d"
  using assms by (simp add: digit_char_def)

lemma is_digit_digit_char [simp]: "d < 10 \<Longrightarrow> is_digit (digit_char d)"
  by (simp add: is_digit_def code_in_def digit_char_code)

lemma digit_value_digit_char [simp]: "d < 10 \<Longrightarrow> digit_value (digit_char d) = d"
  by (simp add: digit_value_def digit_char_code)

lemma digits_value_snoc: "digits_value (s @ [c]) = 10 * digits_value s + digit_value c"
  by (simp add: digits_value_def)

lemma digits_value_Nil [simp]: "digits_value [] = 0"
  by (simp add: digits_value_def)

lemma length_pad_nat [simp]: "length (pad_nat k n) = k"
  by (induction k arbitrary: n) auto

lemma digits_pad_nat [simp]: "list_all is_digit (pad_nat k n)"
  by (induction k arbitrary: n) auto

lemma digits_value_pad_nat [simp]: "n < 10 ^ k \<Longrightarrow> digits_value (pad_nat k n) = n"
  by (induction k arbitrary: n) (auto simp: digits_value_snoc less_mult_imp_div_less mult.commute)

lemma show_nat_not_Nil [simp]: "show_nat n \<noteq> []"
  by (subst show_nat.simps) simp

lemma digits_show_nat [simp]: "list_all is_digit (show_nat n)"
proof (induction n rule: show_nat.induct)
  case (1 n)
  then show ?case by (subst show_nat.simps) auto
qed

lemma digits_value_show_nat [simp]: "digits_value (show_nat n) = n"
proof (induction n rule: show_nat.induct)
  case (1 n)
  show ?case
  proof (cases "n < 10")
    case True
    then show ?thesis by (subst show_nat.simps) (simp add: digits_value_def)
  next
    case False
    with 1 show ?thesis by (subst show_nat.simps) (simp add: digits_value_snoc)
  qed
qed

lemma show_nat_inj: "show_nat m = show_nat n \<Longrightarrow> m = n"
  by (metis digits_value_show_nat)

lemma is_digit_minus [simp]: "\<not> is_digit (CHR ''-'')"
  by (simp add: char_class_defs)

lemma show_nat_no_minus [simp]: "show_nat n \<noteq> CHR ''-'' # t" "CHR ''-'' # t \<noteq> show_nat n"
  using digits_show_nat [of n] by (metis is_digit_minus list.pred_inject(2))+

lemma show_int_inj: "show_int i = show_int j \<Longrightarrow> i = j"
  by (auto simp: show_int_def dest!: show_nat_inj split: if_splits)

subsubsection \<open>Splitting, joining and trimming\<close>

lemma split_on_not_Nil [simp]: "split_on c s \<noteq> []"
  by (induction s) (auto split: list.splits)

lemma split_on_no_sep: "c \<notin> set s \<Longrightarrow> split_on c s = [s]"
  by (induction s) auto

lemma split_on_append: "c \<notin> set s \<Longrightarrow> split_on c (s @ c # t) = s # split_on c t"
  by (induction s) auto

lemma split_on_pieces: "x \<in> set (split_on c s) \<Longrightarrow> c \<notin> set x"
  by (induction s arbitrary: x) (auto split: list.splits if_splits)

lemma split_on_join:
  "xs \<noteq> [] \<Longrightarrow> (\<And>x. x \<in> set xs \<Longrightarrow> c \<notin> set x) \<Longrightarrow> split_on c (join [c] xs) = xs"
proof (induction xs rule: induct_list012)
  case (3 x y zs)
  then have "split_on c (join [c] (y # zs)) = y # zs" by auto
  with 3 show ?case by (simp add: split_on_append)
qed (auto simp: split_on_no_sep)

lemma join_split_on: "join [c] (split_on c s) = s"
proof (induction s)
  case (Cons x xs)
  then show ?case
    by (cases "split_on c xs"; cases "tl (split_on c xs)") (auto split: list.splits)
qed simp

lemma trim_no_leading_space: "trim s = c # t \<Longrightarrow> \<not> is_space c"
proof -
  assume eq: "trim s = c # t"
  let ?d = "dropWhile is_space s"
  have "suffix (dropWhile is_space (rev ?d)) (rev ?d)" by (rule suffix_dropWhile)
  then obtain p where "rev ?d = p @ dropWhile is_space (rev ?d)" by (auto simp: suffix_def)
  then have "?d = rev (dropWhile is_space (rev ?d)) @ rev p" by (metis rev_append rev_rev_ident)
  then have "?d = c # (t @ rev p)" using eq by (simp add: trim_def)
  then have "hd ?d = c" and "?d \<noteq> []" by auto
  then show "\<not> is_space c" using hd_dropWhile [of is_space s] by metis
qed

lemma dropWhile_hd: "s = [] \<or> \<not> p (hd s) \<Longrightarrow> dropWhile p s = s"
  by (cases s) auto

lemma trim_fixed: "s = [] \<or> \<not> is_space (hd s) \<and> \<not> is_space (last s) \<Longrightarrow> trim s = s"
  by (auto simp: trim_def dropWhile_hd hd_rev)

subsection \<open>Effects\<close>

text \<open>
  An action over the state \<open>'s\<close> that may fail with an error \<open>'e\<close>. The combinators follow
  \<open>return\<close>, sequential \<open>await\<close>, \<open>throw\<close> and \<open>try\<close>/\<open>catch\<close> of the source.
\<close>

type_synonym ('s, 'e, 'a) act = "'s \<Rightarrow> ('e + 'a) \<times> 's"

definition ret :: "'a \<Rightarrow> ('s, 'e, 'a) act" where
  "ret x = (\<lambda>s. (Inr x, s))"

definition throw :: "'e \<Rightarrow> ('s, 'e, 'a) act" where
  "throw e = (\<lambda>s. (Inl e, s))"

definition bnd :: "('s, 'e, 'a) act \<Rightarrow> ('a \<Rightarrow> ('s, 'e, 'b) act) \<Rightarrow> ('s, 'e, 'b) act" where
  "bnd m f = (\<lambda>s. case m s of (Inl e, t) \<Rightarrow> (Inl e, t) | (Inr x, t) \<Rightarrow> f x t)"

definition seq :: "('s, 'e, 'a) act \<Rightarrow> ('s, 'e, 'b) act \<Rightarrow> ('s, 'e, 'b) act" where
  "seq m n = bnd m (\<lambda>_. n)"

definition catch :: "('s, 'e, 'a) act \<Rightarrow> ('e \<Rightarrow> ('s, 'e, 'a) act) \<Rightarrow> ('s, 'e, 'a) act" where
  "catch m h = (\<lambda>s. case m s of (Inl e, t) \<Rightarrow> h e t | (Inr x, t) \<Rightarrow> (Inr x, t))"

definition gets :: "('s \<Rightarrow> 'a) \<Rightarrow> ('s, 'e, 'a) act" where
  "gets f = (\<lambda>s. (Inr (f s), s))"

definition modify :: "('s \<Rightarrow> 's) \<Rightarrow> ('s, 'e, unit) act" where
  "modify f = (\<lambda>s. (Inr (), f s))"

lemmas [act_simps] = ret_def throw_def bnd_def seq_def catch_def gets_def modify_def

text \<open>When a combined action ends with a value.\<close>

named_theorems ok_iffs \<open>success of the effect combinators\<close>

lemma bnd_ok [ok_iffs]: "bnd m f s = (Inr x, t) \<longleftrightarrow> (\<exists>y u. m s = (Inr y, u) \<and> f y u = (Inr x, t))"
  by (auto simp: bnd_def split: prod.splits sum.splits)

lemma seq_ok [ok_iffs]: "seq m n s = (Inr x, t) \<longleftrightarrow> (\<exists>y u. m s = (Inr y, u) \<and> n u = (Inr x, t))"
  by (simp add: seq_def bnd_ok)

lemma catch_ok [ok_iffs]:
  "catch m h s = (Inr x, t) \<longleftrightarrow> m s = (Inr x, t) \<or> (\<exists>e u. m s = (Inl e, u) \<and> h e u = (Inr x, t))"
  by (auto simp: catch_def split: prod.splits sum.splits)

lemma basic_ok [ok_iffs]:
  "ret y s = (Inr x, t) \<longleftrightarrow> x = y \<and> t = s" "throw e s \<noteq> (Inr x, t)"
  "gets f s = (Inr x, t) \<longleftrightarrow> x = f s \<and> t = s" "modify g s = (Inr u, t) \<longleftrightarrow> t = g s"
  by (auto simp: act_simps)

text \<open>
  \<open>triple P m Q E\<close>: from a state that satisfies \<open>P\<close> the action ends with a value and a state that
  satisfy \<open>Q\<close>, or with an error and a state that satisfy \<open>E\<close>.
\<close>

definition triple ::
  "('s \<Rightarrow> bool) \<Rightarrow> ('s, 'e, 'a) act \<Rightarrow> ('a \<Rightarrow> 's \<Rightarrow> bool) \<Rightarrow> ('e \<Rightarrow> 's \<Rightarrow> bool) \<Rightarrow> bool" where
  "triple P m Q E \<longleftrightarrow>
     (\<forall>s. P s \<longrightarrow> (case m s of (Inl e, t) \<Rightarrow> E e t | (Inr x, t) \<Rightarrow> Q x t))"

lemma tripleI:
  assumes "\<And>s x t. P s \<Longrightarrow> m s = (Inr x, t) \<Longrightarrow> Q x t"
    and "\<And>s e t. P s \<Longrightarrow> m s = (Inl e, t) \<Longrightarrow> E e t"
  shows "triple P m Q E"
  using assms by (auto simp: triple_def split: prod.splits sum.splits)

lemma tripleD_ok: "triple P m Q E \<Longrightarrow> P s \<Longrightarrow> m s = (Inr x, t) \<Longrightarrow> Q x t"
  by (auto simp: triple_def dest: spec [of _ s])

lemma tripleD_err: "triple P m Q E \<Longrightarrow> P s \<Longrightarrow> m s = (Inl e, t) \<Longrightarrow> E e t"
  by (auto simp: triple_def dest: spec [of _ s])

lemma triple_weaken:
  assumes "triple P' m Q' E'" and "\<And>s. P s \<Longrightarrow> P' s"
    and "\<And>x t. Q' x t \<Longrightarrow> Q x t" and "\<And>e t. E' e t \<Longrightarrow> E e t"
  shows "triple P m Q E"
proof (rule tripleI)
  show "Q x t" if "P s" and "m s = (Inr x, t)" for s x t
    using tripleD_ok [OF assms(1) assms(2) [OF that(1)] that(2)] by (rule assms(3))
  show "E e t" if "P s" and "m s = (Inl e, t)" for s e t
    using tripleD_err [OF assms(1) assms(2) [OF that(1)] that(2)] by (rule assms(4))
qed

lemma triple_ret [wp]: "triple (Q x) (ret x) Q E"
  by (simp add: triple_def ret_def)

lemma triple_throw [wp]: "triple (E e) (throw e) Q E"
  by (simp add: triple_def throw_def)

lemma triple_gets [wp]: "triple (\<lambda>s. Q (f s) s) (gets f) Q E"
  by (simp add: triple_def gets_def)

lemma triple_modify [wp]: "triple (\<lambda>s. Q () (f s)) (modify f) Q E"
  by (simp add: triple_def modify_def)

lemma triple_bnd [wp]:
  assumes "\<And>x. triple (R x) (f x) Q E" and "triple P m R E"
  shows "triple P (bnd m f) Q E"
  using assms unfolding triple_def bnd_def
  by (fastforce split: prod.splits sum.splits)

lemma triple_seq [wp]:
  assumes "triple R n Q E" and "triple P m (\<lambda>_. R) E"
  shows "triple P (seq m n) Q E"
  unfolding seq_def using assms by (rule triple_bnd)

lemma triple_catch [wp]:
  assumes "\<And>e. triple (R e) (h e) Q E" and "triple P m Q R"
  shows "triple P (catch m h) Q E"
  using assms unfolding triple_def catch_def
  by (fastforce split: prod.splits sum.splits)

lemma triple_if [wp]:
  assumes "c \<Longrightarrow> triple P m Q E" and "\<not> c \<Longrightarrow> triple P' n Q E"
  shows "triple (\<lambda>s. if c then P s else P' s) (if c then m else n) Q E"
  using assms by (cases c) (auto simp: triple_def)

text \<open>A predicate of the state that an action keeps, whatever its outcome.\<close>

definition keeps :: "('s \<Rightarrow> bool) \<Rightarrow> ('s, 'e, 'a) act \<Rightarrow> bool" where
  "keeps I m \<longleftrightarrow> (\<forall>s. I s \<longrightarrow> I (snd (m s)))"

named_theorems keeps_intros \<open>preservation rules of the effect combinators\<close>

lemma keepsD: "keeps I m \<Longrightarrow> I s \<Longrightarrow> I (snd (m s))"
  by (simp add: keeps_def)

lemma keeps_basic [keeps_intros]: "keeps I (ret x)" "keeps I (throw e)" "keeps I (gets f)"
  by (simp_all add: keeps_def act_simps)

lemma keeps_modify [keeps_intros]: "(\<And>s. I s \<Longrightarrow> I (f s)) \<Longrightarrow> keeps I (modify f)"
  by (simp add: keeps_def modify_def)

lemma keeps_bnd [keeps_intros]: "keeps I m \<Longrightarrow> (\<And>x. keeps I (f x)) \<Longrightarrow> keeps I (bnd m f)"
  unfolding keeps_def bnd_def by (fastforce split: prod.splits sum.splits)

lemma keeps_seq [keeps_intros]: "keeps I m \<Longrightarrow> keeps I n \<Longrightarrow> keeps I (seq m n)"
  unfolding seq_def by (rule keeps_bnd)

lemma keeps_catch [keeps_intros]: "keeps I m \<Longrightarrow> (\<And>e. keeps I (h e)) \<Longrightarrow> keeps I (catch m h)"
  unfolding keeps_def catch_def by (fastforce split: prod.splits sum.splits)

lemma keeps_if [keeps_intros]:
  "(c \<Longrightarrow> keeps I m) \<Longrightarrow> (\<not> c \<Longrightarrow> keeps I n) \<Longrightarrow> keeps I (if c then m else n)"
  by simp

lemma keeps_option [keeps_intros]:
  "(x = None \<Longrightarrow> keeps I m) \<Longrightarrow> (\<And>y. x = Some y \<Longrightarrow> keeps I (f y)) \<Longrightarrow>
   keeps I (case x of None \<Rightarrow> m | Some y \<Rightarrow> f y)"
  by (cases x) auto

text \<open>An action that leads from \<open>P\<close> to \<open>Q\<close>, whatever its outcome.\<close>

definition leads :: "('s \<Rightarrow> bool) \<Rightarrow> ('s, 'e, 'a) act \<Rightarrow> ('s \<Rightarrow> bool) \<Rightarrow> bool" where
  "leads P m Q \<longleftrightarrow> (\<forall>s. P s \<longrightarrow> Q (snd (m s)))"

lemma leadsD: "leads P m Q \<Longrightarrow> P s \<Longrightarrow> Q (snd (m s))"
  by (simp add: leads_def)

lemma leads_of_keeps: "keeps P m \<Longrightarrow> (\<And>s. P s \<Longrightarrow> Q s) \<Longrightarrow> leads P m Q"
  by (simp add: leads_def keeps_def)

lemma leads_weaken: "leads P m Q \<Longrightarrow> (\<And>s. P' s \<Longrightarrow> P s) \<Longrightarrow> (\<And>s. Q s \<Longrightarrow> Q' s) \<Longrightarrow> leads P' m Q'"
  by (simp add: leads_def)

lemma leads_bnd:
  assumes "keeps P m" and "\<And>x. leads P (f x) Q" and "\<And>s. P s \<Longrightarrow> Q s"
  shows "leads P (bnd m f) Q"
  unfolding leads_def
proof (intro allI impI)
  fix s assume "P s"
  then have "P (snd (m s))" using assms(1) by (rule keepsD [rotated])
  then show "Q (snd (bnd m f s))"
    using assms(2,3) by (auto simp: bnd_def leads_def split: prod.split sum.split)
qed

lemma leads_seq:
  "keeps P m \<Longrightarrow> leads P n Q \<Longrightarrow> (\<And>s. P s \<Longrightarrow> Q s) \<Longrightarrow> leads P (seq m n) Q"
  unfolding seq_def by (rule leads_bnd)

lemma leads_if:
  "(c \<Longrightarrow> leads P m Q) \<Longrightarrow> (\<not> c \<Longrightarrow> leads P n Q) \<Longrightarrow> leads P (if c then m else n) Q"
  by simp

lemma leads_option:
  "(x = None \<Longrightarrow> leads P m Q) \<Longrightarrow> (\<And>y. x = Some y \<Longrightarrow> leads P (f y) Q) \<Longrightarrow>
   leads P (case x of None \<Rightarrow> m | Some y \<Rightarrow> f y) Q"
  by (cases x) auto

subsection \<open>Objects\<close>

type_synonym 'v obj = "(string \<times> 'v) list"

text \<open>\<open>o[k]\<close> and \<open>o[k] = v\<close>: a new key goes to the end, an old one keeps its place.\<close>

definition oget :: "'v obj \<Rightarrow> string \<Rightarrow> 'v option" where
  "oget ob k = map_of ob k"

fun oset :: "string \<Rightarrow> 'v \<Rightarrow> 'v obj \<Rightarrow> 'v obj" where
  "oset k v [] = [(k, v)]"
| "oset k v ((k', v') # ob) = (if k = k' then (k, v) # ob else (k', v') # oset k v ob)"

definition odelete :: "string \<Rightarrow> 'v obj \<Rightarrow> 'v obj" where
  "odelete k ob = filter (\<lambda>p. fst p \<noteq> k) ob"

definition hasOwn :: "'v obj \<Rightarrow> string \<Rightarrow> bool" where
  "hasOwn ob k \<longleftrightarrow> k \<in> set (map fst ob)"

text \<open>\<open>Object.assign(a, b)\<close> and \<open>{...a, ...b}\<close>.\<close>

definition oassign :: "'v obj \<Rightarrow> 'v obj \<Rightarrow> 'v obj" where
  "oassign a b = fold (\<lambda>(k, v). oset k v) b a"

lemma oget_oset [simp]: "oget (oset k v ob) k' = (if k' = k then Some v else oget ob k')"
  unfolding oget_def by (induction k v ob rule: oset.induct) auto

lemma oget_odelete [simp]: "oget (odelete k ob) k' = (if k' = k then None else oget ob k')"
  unfolding oget_def odelete_def by (induction ob) auto

lemma oget_Nil [simp]: "oget [] k = None"
  by (simp add: oget_def)

lemma oget_Cons [simp]: "oget ((k', v) # ob) k = (if k = k' then Some v else oget ob k)"
  by (simp add: oget_def)

lemma keys_oset: "set (map fst (oset k v ob)) = insert k (set (map fst ob))"
  by (induction k v ob rule: oset.induct) auto

lemma distinct_oset: "distinct (map fst ob) \<Longrightarrow> distinct (map fst (oset k v ob))"
proof (induction k v ob rule: oset.induct)
  case (2 k v k' v' ob)
  then show ?case using keys_oset [of k v ob] by auto
qed simp

lemma hasOwn_oget: "hasOwn ob k \<longleftrightarrow> oget ob k \<noteq> None"
  by (induction ob) (auto simp: hasOwn_def)

lemma oassign_Nil [simp]: "oassign a [] = a"
  by (simp add: oassign_def)

lemma oassign_Cons [simp]: "oassign a ((k, v) # b) = oassign (oset k v a) b"
  by (simp add: oassign_def)

lemma oget_None_notin: "k \<notin> fst ` set ob \<Longrightarrow> oget ob k = None"
  by (simp add: oget_def map_of_eq_None_iff)

lemma oget_oassign:
  "distinct (map fst b) \<Longrightarrow> oget (oassign a b) k = (case oget b k of None \<Rightarrow> oget a k | Some v \<Rightarrow> Some v)"
proof (induction b arbitrary: a)
  case (Cons p b)
  then show ?case by (cases p) (auto simp: oget_None_notin split: option.splits)
qed simp

lemma keys_oassign: "fst ` set (oassign a b) = fst ` set a \<union> fst ` set b"
proof (induction b arbitrary: a)
  case (Cons p b)
  obtain k v where p: "p = (k, v)" by (cases p)
  have "fst ` set (oset k v a) = insert k (fst ` set a)" using keys_oset [of k v a] by simp
  with Cons p show ?case by simp
qed simp

end
