(* ===== verification/Json.thy ===== *)
theory Json
  imports Prelude
begin

text \<open>
  Values that JavaScript code receives without a static guarantee: the result of \<open>JSON.parse\<close> and
  the fields of such a result. A property that is absent reads as \<open>undefined\<close>, which is \<^const>\<open>None\<close>
  here. Numbers are integers (\<open>JInt\<close>) or anything else a number can be, kept by its text
  (\<open>JFloat\<close>). The string conversion \<open>js_to_string\<close> is the one that \<open>RegExp.test\<close>, template strings and
  \<open>Object.hasOwn\<close> apply to their argument: an array of one string converts to that string.
\<close>

datatype jsval = JNull | JBool bool | JInt int | JFloat string | JStr string
  | JArr "jsval list" | JObj "(string \<times> jsval) list"

subsection \<open>Reading values\<close>

fun jget :: "jsval \<Rightarrow> string \<Rightarrow> jsval option" where
  "jget (JObj ob) k = oget ob k"
| "jget _ k = None"

fun is_object :: "jsval \<Rightarrow> bool" where
  "is_object (JObj ob) = True"
| "is_object _ = False"

fun is_string :: "jsval \<Rightarrow> bool" where
  "is_string (JStr s) = True"
| "is_string _ = False"

fun is_bool :: "jsval \<Rightarrow> bool" where
  "is_bool (JBool b) = True"
| "is_bool _ = False"

text \<open>\<open>if (v)\<close>\<close>

fun truthy :: "jsval \<Rightarrow> bool" where
  "truthy JNull = False"
| "truthy (JBool b) = b"
| "truthy (JInt i) = (i \<noteq> 0)"
| "truthy (JFloat s) = (s \<noteq> ''NaN'')"
| "truthy (JStr s) = (s \<noteq> [])"
| "truthy (JArr xs) = True"
| "truthy (JObj ob) = True"

definition truthy_opt :: "jsval option \<Rightarrow> bool" where
  "truthy_opt v = (case v of None \<Rightarrow> False | Some x \<Rightarrow> truthy x)"

text \<open>\<open>v ?? d\<close>\<close>

definition nullish :: "jsval option \<Rightarrow> jsval option \<Rightarrow> jsval option" where
  "nullish v d = (case v of None \<Rightarrow> d | Some JNull \<Rightarrow> d | Some x \<Rightarrow> Some x)"

text \<open>\<open>a === b\<close> on two values that were parsed separately: two objects are never the same.\<close>

fun strict_eq :: "jsval \<Rightarrow> jsval \<Rightarrow> bool" where
  "strict_eq (JArr xs) v = False"
| "strict_eq (JObj ob) v = False"
| "strict_eq (JFloat s) v = (s \<noteq> ''NaN'' \<and> v = JFloat s)"
| "strict_eq u v = (u = v)"

text \<open>\<open>isDeepStrictEqual\<close> on parsed values, whose keys are distinct: the order of keys does not matter.\<close>

function deep_equal :: "jsval \<Rightarrow> jsval \<Rightarrow> bool" where
  "deep_equal (JArr xs) v = (case v of JArr ys \<Rightarrow> list_all2 deep_equal xs ys | _ \<Rightarrow> False)"
| "deep_equal (JObj a) v = (case v of
     JObj b \<Rightarrow> length a = length b \<and> (\<forall>(k, x) \<in> set a. \<exists>y \<in> set_option (oget b k). deep_equal x y)
   | _ \<Rightarrow> False)"
| "deep_equal JNull v = (v = JNull)"
| "deep_equal (JBool b) v = (v = JBool b)"
| "deep_equal (JInt i) v = (v = JInt i)"
| "deep_equal (JFloat s) v = (v = JFloat s)"
| "deep_equal (JStr s) v = (v = JStr s)"
  by pat_completeness auto
termination
proof (relation "measure (\<lambda>(u, v). size u)")
  show "((z, z'), (JArr xs, v)) \<in> measure (\<lambda>(u, v). size u)" if "z \<in> set xs" for xs v z z'
    using size_list_estimation' [OF that order_refl, of size] by simp
  show "((x, y), (JObj a, v)) \<in> measure (\<lambda>(u, v). size u)" if "p \<in> set a" "(k, x) = p" for a v p k x y
    using size_list_estimation' [OF that(1), of "size x" "size_prod (\<lambda>x. 0) size"] that(2) by auto
qed simp_all

text \<open>\<open>['a', 'b'].includes(v)\<close> and \<open>v === 'a'\<close>: no conversion takes place.\<close>

fun one_of :: "string list \<Rightarrow> jsval option \<Rightarrow> bool" where
  "one_of xs (Some (JStr s)) = (s \<in> set xs)"
| "one_of xs _ = False"

definition max_safe :: int where
  "max_safe = 9007199254740991"

fun isSafeInteger :: "jsval option \<Rightarrow> bool" where
  "isSafeInteger (Some (JInt i)) = (- max_safe \<le> i \<and> i \<le> max_safe)"
| "isSafeInteger _ = False"

text \<open>An integer between two bounds.\<close>

fun int_between :: "int \<Rightarrow> int \<Rightarrow> jsval option \<Rightarrow> bool" where
  "int_between lo hi (Some (JInt i)) = (lo \<le> i \<and> i \<le> hi)"
| "int_between lo hi _ = False"

subsection \<open>Conversion to a string\<close>

fun js_to_string :: "jsval \<Rightarrow> string" where
  "js_to_string JNull = ''null''"
| "js_to_string (JBool b) = (if b then ''true'' else ''false'')"
| "js_to_string (JInt i) = show_int i"
| "js_to_string (JFloat s) = s"
| "js_to_string (JStr s) = s"
| "js_to_string (JArr xs) = join '','' (map (\<lambda>x. if x = JNull then [] else js_to_string x) xs)"
| "js_to_string (JObj ob) = ''[object Object]''"

definition text_of :: "jsval option \<Rightarrow> string" where
  "text_of v = (case v of None \<Rightarrow> ''undefined'' | Some x \<Rightarrow> js_to_string x)"

lemma text_of_simps [simp]: "text_of None = ''undefined''" "text_of (Some x) = js_to_string x"
  by (simp_all add: text_of_def)

subsection \<open>Compact JSON text\<close>

definition hex_digit :: "nat \<Rightarrow> char" where
  "hex_digit n = char_of (if n < 10 then 48 + n else 87 + n)"

fun json_char :: "char \<Rightarrow> string" where
  "json_char c =
     (let n = (of_char c :: nat)
      in if n = 34 then [char_of (92::nat), CHR 0x22]
         else if n = 92 then [char_of (92::nat), char_of (92::nat)]
         else if n = 8 then [char_of (92::nat), CHR ''b'']
         else if n = 9 then [char_of (92::nat), CHR ''t'']
         else if n = 10 then [char_of (92::nat), CHR ''n'']
         else if n = 12 then [char_of (92::nat), CHR ''f'']
         else if n = 13 then [char_of (92::nat), CHR ''r'']
         else if n < 32 then [char_of (92::nat), CHR ''u'', CHR ''0'', CHR ''0'', hex_digit (n div 16), hex_digit (n mod 16)]
         else [c])"

definition json_quote :: "string \<Rightarrow> string" where
  "json_quote s = CHR 0x22 # concat (map json_char s) @ [CHR 0x22]"

fun stringify :: "jsval \<Rightarrow> string" where
  "stringify JNull = ''null''"
| "stringify (JBool b) = (if b then ''true'' else ''false'')"
| "stringify (JInt i) = show_int i"
| "stringify (JFloat s) = (if s \<in> {''NaN'', ''Infinity'', ''-Infinity''} then ''null'' else s)"
| "stringify (JStr s) = json_quote s"
| "stringify (JArr xs) = ''['' @ join '','' (map stringify xs) @ '']''"
| "stringify (JObj ob) = ''{'' @ join '','' (map (\<lambda>(k, v). json_quote k @ '':'' @ stringify v) ob) @ ''}''"

subsection \<open>Objects with optional fields\<close>

text \<open>\<open>...(x !== undefined ? {k: x} : {})\<close>\<close>

definition field :: "string \<Rightarrow> jsval option \<Rightarrow> jsval obj" where
  "field k v = (case v of None \<Rightarrow> [] | Some x \<Rightarrow> [(k, x)])"

lemma oget_append: "oget (a @ b) k = (case oget a k of None \<Rightarrow> oget b k | Some v \<Rightarrow> Some v)"
  by (auto simp: oget_def map_add_def split: option.splits)

lemma oget_field [simp]: "oget (field k v) k' = (if k = k' then v else None)"
  by (simp add: field_def split: option.splits)

lemma keys_field: "fst ` set (field k v) \<subseteq> {k}"
  by (cases v) (auto simp: field_def)

text \<open>A property read on an object built with optional fields.\<close>

lemma jget_JObj [simp]: "jget (JObj ob) = oget ob"
  by (rule ext) simp

lemma one_of_iff: "one_of xs v \<longleftrightarrow> (\<exists>s. v = Some (JStr s) \<and> s \<in> set xs)"
  by (cases "(xs, v)" rule: one_of.cases) auto

lemma int_between_iff: "int_between lo hi v \<longleftrightarrow> (\<exists>i. v = Some (JInt i) \<and> lo \<le> i \<and> i \<le> hi)"
  by (cases "(lo, hi, v)" rule: int_between.cases) auto

end
