(* ===== verification/Harness_Errors.thy ===== *)
theory Harness_Errors
  imports Json
begin

text \<open>
  The error vocabulary of the regression harness (\<open>regression/core/errors.ts\<close>): reason codes with
  their public messages, stage names, the class \<open>HarnessError\<close> and the guards \<open>requireSafe\<close>,
  \<open>requireProof\<close> and \<open>atStage\<close>. A reason or stage that arrives from outside is a string until
  \<open>reason_of\<close> or \<open>stage_of\<close> recognises it, which is the source's test with \<open>Object.hasOwn\<close> and
  \<open>includes\<close>.
\<close>

subsection \<open>Reason codes\<close>

datatype (plugins only: code size) ReasonCode =
    R_CONFIG | R_PREREQUISITE | R_PREPARATION_FAILED | R_DEPENDENCY | R_PRIVATE_FILE | R_TLS
    | R_AUTH | R_API | R_COMPONENT | R_IDENTITY | R_CAPABILITY | R_APPLICATION_MODEL
    | R_GPU_PROVIDER | R_GPU_VALIDATION | R_REVISION | R_HOST | R_BUSY | R_OBSERVER | R_MUTATION
    | R_LOCK_BUSY | R_LOCK_STALE | R_LOCK_LOST | R_OWNERSHIP | R_CLEANUP | R_CONFLICT
    | R_DEADLINE | R_UNEXPECTED | R_PROCESS_STATE | R_MISSING_EVIDENCE | R_REPORT_EXPORT
    | R_CI_ACCESS | R_CACHE_RACE_WINDOW | R_LAB | R_RECOVERY | R_CANCELLED | R_EXTERNAL_RUNNER

definition all_reasons :: "ReasonCode list" where
  "all_reasons =
    [R_CONFIG, R_PREREQUISITE, R_PREPARATION_FAILED, R_DEPENDENCY, R_PRIVATE_FILE, R_TLS, R_AUTH
     , R_API, R_COMPONENT, R_IDENTITY, R_CAPABILITY, R_APPLICATION_MODEL, R_GPU_PROVIDER
     , R_GPU_VALIDATION, R_REVISION, R_HOST, R_BUSY, R_OBSERVER, R_MUTATION, R_LOCK_BUSY
     , R_LOCK_STALE, R_LOCK_LOST, R_OWNERSHIP, R_CLEANUP, R_CONFLICT, R_DEADLINE, R_UNEXPECTED
     , R_PROCESS_STATE, R_MISSING_EVIDENCE, R_REPORT_EXPORT, R_CI_ACCESS, R_CACHE_RACE_WINDOW
     , R_LAB, R_RECOVERY, R_CANCELLED, R_EXTERNAL_RUNNER]"

primrec reason_name :: "ReasonCode \<Rightarrow> string" where
  "reason_name R_CONFIG = ''CONFIG''"
| "reason_name R_PREREQUISITE = ''PREREQUISITE''"
| "reason_name R_PREPARATION_FAILED = ''PREPARATION_FAILED''"
| "reason_name R_DEPENDENCY = ''DEPENDENCY''"
| "reason_name R_PRIVATE_FILE = ''PRIVATE_FILE''"
| "reason_name R_TLS = ''TLS''"
| "reason_name R_AUTH = ''AUTH''"
| "reason_name R_API = ''API''"
| "reason_name R_COMPONENT = ''COMPONENT''"
| "reason_name R_IDENTITY = ''IDENTITY''"
| "reason_name R_CAPABILITY = ''CAPABILITY''"
| "reason_name R_APPLICATION_MODEL = ''APPLICATION_MODEL''"
| "reason_name R_GPU_PROVIDER = ''GPU_PROVIDER''"
| "reason_name R_GPU_VALIDATION = ''GPU_VALIDATION''"
| "reason_name R_REVISION = ''REVISION''"
| "reason_name R_HOST = ''HOST''"
| "reason_name R_BUSY = ''BUSY''"
| "reason_name R_OBSERVER = ''OBSERVER''"
| "reason_name R_MUTATION = ''MUTATION''"
| "reason_name R_LOCK_BUSY = ''LOCK_BUSY''"
| "reason_name R_LOCK_STALE = ''LOCK_STALE''"
| "reason_name R_LOCK_LOST = ''LOCK_LOST''"
| "reason_name R_OWNERSHIP = ''OWNERSHIP''"
| "reason_name R_CLEANUP = ''CLEANUP''"
| "reason_name R_CONFLICT = ''CONFLICT''"
| "reason_name R_DEADLINE = ''DEADLINE''"
| "reason_name R_UNEXPECTED = ''UNEXPECTED''"
| "reason_name R_PROCESS_STATE = ''PROCESS_STATE''"
| "reason_name R_MISSING_EVIDENCE = ''MISSING_EVIDENCE''"
| "reason_name R_REPORT_EXPORT = ''REPORT_EXPORT''"
| "reason_name R_CI_ACCESS = ''CI_ACCESS''"
| "reason_name R_CACHE_RACE_WINDOW = ''CACHE_RACE_WINDOW''"
| "reason_name R_LAB = ''LAB''"
| "reason_name R_RECOVERY = ''RECOVERY''"
| "reason_name R_CANCELLED = ''CANCELLED''"
| "reason_name R_EXTERNAL_RUNNER = ''EXTERNAL_RUNNER''"

primrec reasons :: "ReasonCode \<Rightarrow> string" where
  "reasons R_CONFIG =
     ''The private lab configuration is missing or invalid.''"
| "reasons R_PREREQUISITE =
     ''This required live case needs a separately prepared identity, application, peer, '' @
     ''runtime or maintenance fixture; it was not substituted by a mock or a read-only '' @
     ''check.''"
| "reasons R_PREPARATION_FAILED =
     ''Automatic preparation failed. This dependent live check could not start; inspect '' @
     ''the original HAR-02 preparation failure.''"
| "reasons R_DEPENDENCY =
     ''An earlier step in this scenario failed or was blocked. This dependent check was '' @
     ''not reached.''"
| "reasons R_PRIVATE_FILE =
     ''A private input or output is missing, unsafe, unreadable or a symbolic link.''"
| "reasons R_TLS =
     ''A configured endpoint failed verified HTTPS/DNS connectivity.''"
| "reasons R_AUTH =
     ''The real dashboard login or expected administrator identity could not be verified.''"
| "reasons R_API =
     ''A required authenticated API read failed or returned an unexpected contract.''"
| "reasons R_COMPONENT =
     ''An owning UI component suite failed or timed out. A bounded '' @
     ''component-failure.json diagnostic is retained when available.''"
| "reasons R_IDENTITY =
     ''The appliance or node does not match the pinned lab identity.''"
| "reasons R_CAPABILITY =
     ''An expected compute target or engine is unavailable.''"
| "reasons R_APPLICATION_MODEL =
     ''No small advertised CPU application model has verified native context for every '' @
     ''selected application and its context edit within available RAM. The ordinary CPU '' @
     ''smoke model is not a compatible substitute.''"
| "reasons R_GPU_PROVIDER =
     ''This appliance has no physical GPU for the provider required by this scenario. '' @
     ''Independent provider scenarios still run.''"
| "reasons R_GPU_VALIDATION =
     ''The selected physical GPU and engine have not passed the required current-boot '' @
     ''validation. Run Hardware verification for this exact GPU and engine.''"
| "reasons R_REVISION =
     ''The requested deployed revision or image digest was not observed.''"
| "reasons R_HOST =
     ''The host worker or node is unavailable, stale or has changed boot identity.''"
| "reasons R_BUSY =
     ''A host operation, update or unrelated workload makes the selected lab busy.''"
| "reasons R_OBSERVER =
     ''The Kubernetes observer is unavailable or has excessive permissions.''"
| "reasons R_MUTATION =
     ''The requested API action is outside this test run's strict allowlist and was not '' @
     ''sent.''"
| "reasons R_LOCK_BUSY =
     ''Another run owns the lab lease.''"
| "reasons R_LOCK_STALE =
     ''An expired lab lease cannot yet be recovered: its drain window or exact private '' @
     ''run evidence is not verified.''"
| "reasons R_LOCK_LOST =
     ''Lab lease ownership or heartbeat was lost; new mutations are forbidden.''"
| "reasons R_OWNERSHIP =
     ''Cleanup ownership is ambiguous or the live resource UID has changed.''"
| "reasons R_CLEANUP =
     ''Owned-resource cleanup could not be verified. Later writes are fenced; the next '' @
     ''registered run inspects its recovery journal.''"
| "reasons R_CONFLICT =
     ''An intervening revision prevents automatic restoration.''"
| "reasons R_DEADLINE =
     ''The stage deadline expired without matching current-generation evidence.''"
| "reasons R_UNEXPECTED =
     ''The harness failed unexpectedly; private diagnostics require review.''"
| "reasons R_PROCESS_STATE =
     ''The previous runner did not prove that all worker processes stopped. Exact '' @
     ''process or Kubernetes termination evidence is required before recovery; this is '' @
     ''not another run owning the lease.''"
| "reasons R_MISSING_EVIDENCE =
     ''The runner did not record a required test/layer result or a causal prerequisite. '' @
     ''This is a harness reporting failure, not a missing lab prerequisite.''"
| "reasons R_REPORT_EXPORT =
     ''Execution finished, but a sanitized report download could not be published. The '' @
     ''recorded test results were retained; this does not imply a cleanup failure.''"
| "reasons R_CI_ACCESS =
     ''The exact native companion build has no public acceptance proof and its legacy '' @
     ''Actions artifacts require authentication. Publish the workflow acceptance check; '' @
     ''no Appliance administrator credential can replace it.''"
| "reasons R_CACHE_RACE_WINDOW =
     ''Cache cleanup finished before the competing model intent was observed. No '' @
     ''overlapping race was proved; repeat this existing case with a populated cache.''"
| "reasons R_LAB =
     ''This target is not the registered disposable regression appliance. Live writes '' @
     ''were refused.''"
| "reasons R_RECOVERY =
     ''A previous test did not prove restoration. Dependent live writes are fenced; '' @
     ''independent tests continue.''"
| "reasons R_CANCELLED =
     ''The run was stopped by the operator. Remaining tests were not executed.''"
| "reasons R_EXTERNAL_RUNNER =
     ''This test can restart, disconnect or replace the Appliance hosting this runner. '' @
     ''Run it from the external Docker runner; it cannot be independently verified by an '' @
     ''in-Appliance Job.''"

text \<open>Reasons that mean an absent prerequisite instead of a product failure.\<close>

definition blockedReasons :: "ReasonCode list" where
  "blockedReasons =
    [R_PREREQUISITE, R_PREPARATION_FAILED, R_DEPENDENCY, R_PRIVATE_FILE, R_TLS, R_IDENTITY
     , R_CAPABILITY, R_APPLICATION_MODEL, R_GPU_PROVIDER, R_GPU_VALIDATION, R_HOST, R_BUSY
     , R_OBSERVER, R_LOCK_BUSY, R_LOCK_STALE, R_LOCK_LOST, R_LAB, R_RECOVERY, R_CANCELLED
     , R_EXTERNAL_RUNNER, R_CI_ACCESS, R_CACHE_RACE_WINDOW]"

subsection \<open>Stages\<close>

datatype (plugins only: code size) Stage =
    S_preflight | S_host_boot | S_host_readiness | S_login_form | S_login_return
    | S_login_session | S_kubernetes_access | S_kubernetes_revoke | S_kubeconfig_export
    | S_kubeconfig_copy | S_kubeconfig_download | S_model_estimate | S_model_create
    | S_model_ready | S_module_ready | S_app_ready | S_gateway_ready | S_model_stopped
    | S_model_failure | S_external_ready | S_external_stopped | S_cleanup | S_license_review
    | S_license_activate | S_license_reject | S_license_restart | S_license_restore
    | S_recovery_barrier | S_recovery_journal | S_recovery_resource | S_recovery_module
    | S_recovery_sharing | S_report_evidence | S_report_export | S_baseline_models
    | S_baseline_pods | S_baseline_intents | S_baseline_claims | S_baseline_routes
    | S_baseline_host | S_baseline_keys | S_flux_ready | S_gpu_backend | S_gpu_binding
    | S_gpu_validation | S_gpu_slots | S_model_route | S_model_inference | S_model_update
    | S_companion_evidence | S_runner_execution

definition stages :: "Stage list" where
  "stages =
    [S_preflight, S_host_boot, S_host_readiness, S_login_form, S_login_return, S_login_session
     , S_kubernetes_access, S_kubernetes_revoke, S_kubeconfig_export, S_kubeconfig_copy
     , S_kubeconfig_download, S_model_estimate, S_model_create, S_model_ready, S_module_ready
     , S_app_ready, S_gateway_ready, S_model_stopped, S_model_failure, S_external_ready
     , S_external_stopped, S_cleanup, S_license_review, S_license_activate, S_license_reject
     , S_license_restart, S_license_restore, S_recovery_barrier, S_recovery_journal
     , S_recovery_resource, S_recovery_module, S_recovery_sharing, S_report_evidence
     , S_report_export, S_baseline_models, S_baseline_pods, S_baseline_intents
     , S_baseline_claims, S_baseline_routes, S_baseline_host, S_baseline_keys, S_flux_ready
     , S_gpu_backend, S_gpu_binding, S_gpu_validation, S_gpu_slots, S_model_route
     , S_model_inference, S_model_update, S_companion_evidence, S_runner_execution]"

primrec stage_name :: "Stage \<Rightarrow> string" where
  "stage_name S_preflight = ''preflight''"
| "stage_name S_host_boot = ''host-boot''"
| "stage_name S_host_readiness = ''host-readiness''"
| "stage_name S_login_form = ''login-form''"
| "stage_name S_login_return = ''login-return''"
| "stage_name S_login_session = ''login-session''"
| "stage_name S_kubernetes_access = ''kubernetes-access''"
| "stage_name S_kubernetes_revoke = ''kubernetes-revoke''"
| "stage_name S_kubeconfig_export = ''kubeconfig-export''"
| "stage_name S_kubeconfig_copy = ''kubeconfig-copy''"
| "stage_name S_kubeconfig_download = ''kubeconfig-download''"
| "stage_name S_model_estimate = ''model-estimate''"
| "stage_name S_model_create = ''model-create''"
| "stage_name S_model_ready = ''model-ready''"
| "stage_name S_module_ready = ''module-ready''"
| "stage_name S_app_ready = ''app-ready''"
| "stage_name S_gateway_ready = ''gateway-ready''"
| "stage_name S_model_stopped = ''model-stopped''"
| "stage_name S_model_failure = ''model-failure''"
| "stage_name S_external_ready = ''external-ready''"
| "stage_name S_external_stopped = ''external-stopped''"
| "stage_name S_cleanup = ''cleanup''"
| "stage_name S_license_review = ''license-review''"
| "stage_name S_license_activate = ''license-activate''"
| "stage_name S_license_reject = ''license-reject''"
| "stage_name S_license_restart = ''license-restart''"
| "stage_name S_license_restore = ''license-restore''"
| "stage_name S_recovery_barrier = ''recovery-barrier''"
| "stage_name S_recovery_journal = ''recovery-journal''"
| "stage_name S_recovery_resource = ''recovery-resource''"
| "stage_name S_recovery_module = ''recovery-module''"
| "stage_name S_recovery_sharing = ''recovery-sharing''"
| "stage_name S_report_evidence = ''report-evidence''"
| "stage_name S_report_export = ''report-export''"
| "stage_name S_baseline_models = ''baseline-models''"
| "stage_name S_baseline_pods = ''baseline-pods''"
| "stage_name S_baseline_intents = ''baseline-intents''"
| "stage_name S_baseline_claims = ''baseline-claims''"
| "stage_name S_baseline_routes = ''baseline-routes''"
| "stage_name S_baseline_host = ''baseline-host''"
| "stage_name S_baseline_keys = ''baseline-keys''"
| "stage_name S_flux_ready = ''flux-ready''"
| "stage_name S_gpu_backend = ''gpu-backend''"
| "stage_name S_gpu_binding = ''gpu-binding''"
| "stage_name S_gpu_validation = ''gpu-validation''"
| "stage_name S_gpu_slots = ''gpu-slots''"
| "stage_name S_model_route = ''model-route''"
| "stage_name S_model_inference = ''model-inference''"
| "stage_name S_model_update = ''model-update''"
| "stage_name S_companion_evidence = ''companion-evidence''"
| "stage_name S_runner_execution = ''runner-execution''"

text \<open>\<open>Object.hasOwn(reasons, s)\<close> and \<open>stages.includes(s)\<close>, with the code that was recognised.\<close>

definition reason_of :: "string \<Rightarrow> ReasonCode option" where
  "reason_of s = find (\<lambda>r. reason_name r = s) all_reasons"

definition stage_of :: "string \<Rightarrow> Stage option" where
  "stage_of s = find (\<lambda>r. stage_name r = s) stages"

subsection \<open>The error class and the guards\<close>

datatype Outcome = Blocked | Failed

fun outcome_name :: "Outcome \<Rightarrow> string" where
  "outcome_name Blocked = ''Blocked''"
| "outcome_name Failed = ''Failed''"

text \<open>The class of an instance: the base class or a subclass with the field it adds.\<close>

datatype error_class =
    PlainError | KubernetesCommandError "jsval obj" | ModelCreateRejected int | SharingWriteRejected int | AdministrationRejected int | MutationNotSubmitted |
    DashboardSessionExpired

record HarnessError =
  he_code :: ReasonCode
  he_outcome :: Outcome
  he_stage :: "Stage option"
  he_causeReason :: "ReasonCode option"
  he_causeStage :: "Stage option"
  he_class :: error_class

text \<open>An error value of the source: a harness error or any other exception, kept by its message.\<close>

datatype js_error = Harness HarnessError | Other string

definition default_outcome :: "ReasonCode \<Rightarrow> Outcome" where
  "default_outcome code = (if code \<in> set blockedReasons then Blocked else Failed)"

text \<open>
  The constructor with all arguments. A cause stage without a cause reason is dropped, as
  \<open>safeCause\<close> does.
\<close>

definition mkHarnessError ::
  "ReasonCode \<Rightarrow> Outcome option \<Rightarrow> Stage option \<Rightarrow> (ReasonCode \<times> Stage option) option \<Rightarrow> HarnessError" where
  "mkHarnessError code outcome stage cause =
     \<lparr>he_code = code,
      he_outcome = (case outcome of None \<Rightarrow> default_outcome code | Some x \<Rightarrow> x),
      he_stage = stage,
      he_causeReason = map_option fst cause,
      he_causeStage = (case cause of None \<Rightarrow> None | Some (_, st) \<Rightarrow> st),
      he_class = PlainError\<rparr>"

definition harness_message :: "HarnessError \<Rightarrow> string" where
  "harness_message e =
     ''['' @ reason_name (he_code e) @ ''] '' @ reasons (he_code e) @
     '' [outcome:'' @ outcome_name (he_outcome e) @ '']'' @
     (case he_stage e of None \<Rightarrow> [] | Some st \<Rightarrow> '' [stage:'' @ stage_name st @ '']'') @
     (case he_causeReason e of None \<Rightarrow> []
      | Some r \<Rightarrow> '' [cause:'' @ reason_name r @ '']'' @
          (case he_causeStage e of None \<Rightarrow> [] | Some st \<Rightarrow> '' [cause-stage:'' @ stage_name st @ '']''))"

abbreviation hard :: "ReasonCode \<Rightarrow> js_error" where
  "hard code \<equiv> Harness (mkHarnessError code None None None)"

definition requireSafe :: "bool \<Rightarrow> ReasonCode \<Rightarrow> ('s, js_error, unit) act" where
  "requireSafe c code = (if c then ret () else throw (hard code))"

definition requireProof :: "bool \<Rightarrow> ReasonCode \<Rightarrow> ('s, js_error, unit) act" where
  "requireProof c code =
     (if c then ret ()
      else throw (Harness (mkHarnessError code
             (Some (if code = R_PREREQUISITE then Blocked else Failed)) None None)))"

definition atStage :: "Stage \<Rightarrow> ('s, js_error, 'a) act \<Rightarrow> ('s, js_error, 'a) act" where
  "atStage stage action = catch action (\<lambda>err. throw (Harness
     (case err of
        Harness e \<Rightarrow> mkHarnessError (he_code e) (Some (he_outcome e))
          (Some (case he_stage e of None \<Rightarrow> stage | Some st \<Rightarrow> st))
          (map_option (\<lambda>r. (r, he_causeStage e)) (he_causeReason e))
      | Other _ \<Rightarrow> mkHarnessError R_UNEXPECTED (Some Failed) (Some stage) None)))"

subsection \<open>Lemmas\<close>

lemma all_reasons_complete: "r \<in> set all_reasons"
  by (cases r) (simp_all add: all_reasons_def)

lemma stages_complete: "st \<in> set stages"
  by (cases st) (simp_all add: stages_def)

text \<open>Names are read back because no two codes share one.\<close>

lemma reason_names_distinct: "distinct (map reason_name all_reasons)"
  by code_simp

lemma stage_names_distinct: "distinct (map stage_name stages)"
  by code_simp

lemma find_inj_on:
  assumes "distinct (map f xs)" and "x \<in> set xs"
  shows "find (\<lambda>y. f y = f x) xs = Some x"
  using assms
proof (induction xs)
  case (Cons y ys)
  then show ?case by (cases "y = x") (auto simp: image_iff)
qed simp

lemma reason_of_name [simp]: "reason_of (reason_name r) = Some r"
  unfolding reason_of_def by (rule find_inj_on [OF reason_names_distinct all_reasons_complete])

lemma stage_of_name [simp]: "stage_of (stage_name st) = Some st"
  unfolding stage_of_def by (rule find_inj_on [OF stage_names_distinct stages_complete])

lemma reason_of_Some: "reason_of s = Some r \<Longrightarrow> s = reason_name r"
  by (auto simp: reason_of_def find_Some_iff)

lemma stage_of_Some: "stage_of s = Some st \<Longrightarrow> s = stage_name st"
  by (auto simp: stage_of_def find_Some_iff)

lemma requireSafe_run [simp]:
  "requireSafe c code s = (if c then (Inr (), s) else (Inl (hard code), s))"
  by (simp add: requireSafe_def act_simps)

lemma requireSafe_ok [ok_iffs]: "requireSafe c code s = (Inr x, t) \<longleftrightarrow> c \<and> t = s"
  by auto

lemma triple_requireSafe [wp]:
  "triple (\<lambda>s. if c then Q () s else E (hard code) s) (requireSafe c code) Q E"
  by (simp add: triple_def)

lemma keeps_requireSafe [keeps_intros]: "keeps I (requireSafe c code)"
  by (simp add: keeps_def)

lemma keeps_requireProof [keeps_intros]: "keeps I (requireProof c code)"
  by (simp add: keeps_def requireProof_def act_simps)

lemma keeps_atStage [keeps_intros]: "keeps I m \<Longrightarrow> keeps I (atStage st m)"
  unfolding atStage_def by (intro keeps_intros)

lemma atStage_keeps_first_stage:
  assumes "action s = (Inl (Harness e), t)" and "he_stage e = Some st"
  shows "\<exists>e'. atStage stage action s = (Inl (Harness e'), t) \<and> he_stage e' = Some st \<and>
           he_code e' = he_code e \<and> he_outcome e' = he_outcome e"
  using assms by (simp add: atStage_def act_simps mkHarnessError_def)

end
