(* ===== verification/Iso_Time.thy ===== *)
theory Iso_Time
  imports Prelude
begin

text \<open>
  The part of JavaScript's \<open>Date\<close> that the lease code uses: \<open>toISOString\<close> for a time at or after
  1970 and \<open>Date.parse\<close> for date-time strings in UTC, the form in which the Kubernetes API returns
  \<open>MicroTime\<close> values. Other strings are unparseable in the model (\<open>NaN\<close> in the source). As in V8, a
  day number up to 31 is accepted in every month and digits after the milliseconds are ignored.
  \<open>leaseTime\<close> is the function of the same name in \<open>regression/core/lease.ts\<close>.
\<close>

subsection \<open>Calendar\<close>

definition leap_year :: "nat \<Rightarrow> bool" where
  "leap_year y \<longleftrightarrow> y mod 4 = 0 \<and> (y mod 100 \<noteq> 0 \<or> y mod 400 = 0)"

definition year_days :: "nat \<Rightarrow> nat" where
  "year_days y = (if leap_year y then 366 else 365)"

definition month_lengths :: "nat \<Rightarrow> nat list" where
  "month_lengths y = [31, if leap_year y then 29 else 28, 31, 30, 31, 30, 31, 31, 30, 31, 30, 31]"

text \<open>The year of a day count that starts on the first of January of year \<open>y\<close>.\<close>

function split_year :: "nat \<Rightarrow> nat \<Rightarrow> nat \<times> nat" where
  "split_year y d = (if d < year_days y then (y, d) else split_year (Suc y) (d - year_days y))"
  by pat_completeness auto
termination
  by (relation "measure snd") (auto simp: year_days_def)

declare split_year.simps [simp del]

text \<open>Month number from \<open>m\<close> on and the day in it, counted from 0.\<close>

fun split_month :: "nat list \<Rightarrow> nat \<Rightarrow> nat \<Rightarrow> nat \<times> nat" where
  "split_month [] m d = (m, d)"
| "split_month (l # ls) m d = (if d < l then (m, d) else split_month ls (Suc m) (d - l))"

definition days_before_year :: "nat \<Rightarrow> int" where
  "days_before_year y = int (sum_list (map year_days [1970..<y])) - int (sum_list (map year_days [y..<1970]))"

definition days_of_date :: "nat \<Rightarrow> nat \<Rightarrow> nat \<Rightarrow> int" where
  "days_of_date y m d = days_before_year y + int (sum_list (take (m - 1) (month_lengths y))) + int d - 1"

subsection \<open>Printing and parsing\<close>

definition show_year :: "nat \<Rightarrow> string" where
  "show_year y = (if y \<le> 9999 then pad_nat 4 y else CHR ''+'' # pad_nat 6 y)"

definition toISOString :: "nat \<Rightarrow> string" where
  "toISOString ms =
     (let (y, dy) = split_year 1970 (ms div 86400000);
          (m, d) = split_month (month_lengths y) 1 dy;
          t = ms mod 86400000
      in show_year y @ ''-'' @ pad_nat 2 m @ ''-'' @ pad_nat 2 (d + 1) @ ''T'' @
         pad_nat 2 (t div 3600000) @ '':'' @ pad_nat 2 (t div 60000 mod 60) @ '':'' @
         pad_nat 2 (t div 1000 mod 60) @ ''.'' @ pad_nat 3 (t mod 1000) @ ''Z'')"

text \<open>\<open>s.replace(/\.(\d{3})Z$/, '.$1000Z')\<close>\<close>

definition micro_digits :: "string \<Rightarrow> string" where
  "micro_digits s =
     (let n = length s; tl5 = drop (n - 5) s
      in if 5 \<le> n \<and> hd tl5 = CHR ''.'' \<and> list_all is_digit (take 3 (drop 1 tl5)) \<and> last s = CHR ''Z''
         then butlast s @ ''000Z'' else s)"

definition leaseTime :: "nat \<Rightarrow> string" where
  "leaseTime ms = micro_digits (toISOString ms)"

text \<open>The fraction and the zone designator at the end of a date-time string, in milliseconds.\<close>

definition parse_fraction :: "string \<Rightarrow> nat option" where
  "parse_fraction s =
     (if s = ''Z'' then Some 0
      else if 3 \<le> length s \<and> hd s = CHR ''.'' \<and> last s = CHR ''Z'' \<and> list_all is_digit (butlast (tl s))
      then Some (digits_value (take 3 (butlast (tl s) @ ''00''))) else None)"

definition date_fields :: "nat \<Rightarrow> nat \<Rightarrow> nat \<Rightarrow> nat \<Rightarrow> nat \<Rightarrow> nat \<Rightarrow> nat \<Rightarrow> int option" where
  "date_fields y m d h mi sec ms =
     (if 1 \<le> m \<and> m \<le> 12 \<and> 1 \<le> d \<and> d \<le> 31 \<and> mi \<le> 59 \<and> sec \<le> 59 \<and>
         (h \<le> 23 \<or> h = 24 \<and> mi = 0 \<and> sec = 0 \<and> ms = 0)
      then Some (days_of_date y m d * 86400000 + int (h * 3600000 + mi * 60000 + sec * 1000 + ms))
      else None)"

definition date_parse :: "string \<Rightarrow> int option" where
  "date_parse s =
     (let field = (\<lambda>i n. take n (drop i s))
      in if 20 \<le> length s \<and> field 4 1 = ''-'' \<and> field 7 1 = ''-'' \<and> field 10 1 = ''T'' \<and>
            field 13 1 = '':'' \<and> field 16 1 = '':'' \<and>
            list_all is_digit (field 0 4 @ field 5 2 @ field 8 2 @ field 11 2 @ field 14 2 @ field 17 2)
         then (case parse_fraction (drop 19 s) of
             None \<Rightarrow> None
           | Some ms \<Rightarrow> date_fields (digits_value (field 0 4)) (digits_value (field 5 2))
               (digits_value (field 8 2)) (digits_value (field 11 2)) (digits_value (field 14 2))
               (digits_value (field 17 2)) ms)
         else None)"

subsection \<open>Round trip\<close>

lemma split_year_bounds:
  assumes "split_year y0 d0 = (y, d)"
  shows "y0 \<le> y \<and> d < year_days y \<and> d0 = sum_list (map year_days [y0..<y]) + d"
  using assms
proof (induction y0 d0 arbitrary: y d rule: split_year.induct)
  case (1 y0 d0)
  show ?case
  proof (cases "d0 < year_days y0")
    case True
    with 1(2) show ?thesis by (simp add: split_year.simps)
  next
    case False
    with 1(2) have "split_year (Suc y0) (d0 - year_days y0) = (y, d)"
      by (subst (asm) split_year.simps) simp
    with 1(1) False have "Suc y0 \<le> y" "d < year_days y"
      "d0 - year_days y0 = sum_list (map year_days [Suc y0..<y]) + d" by blast+
    with False show ?thesis by (simp add: upt_conv_Cons)
  qed
qed

lemma split_month_bounds:
  assumes "split_month ls m0 d0 = (m, d)" and "d0 < sum_list ls"
  shows "m0 \<le> m \<and> m < m0 + length ls \<and> d < ls ! (m - m0) \<and> d0 = sum_list (take (m - m0) ls) + d"
  using assms
proof (induction ls m0 d0 arbitrary: m d rule: split_month.induct)
  case (2 l ls m0 d0)
  show ?case
  proof (cases "d0 < l")
    case False
    with 2 have "Suc m0 \<le> m" "m < Suc m0 + length ls" "d < ls ! (m - Suc m0)"
      "d0 - l = sum_list (take (m - Suc m0) ls) + d"
      by (force simp: not_less)+
    moreover from this have "m - m0 = Suc (m - Suc m0)" by simp
    ultimately show ?thesis using False by simp
  qed (use 2 in auto)
qed simp

lemma sum_month_lengths: "sum_list (month_lengths y) = year_days y"
  by (simp add: month_lengths_def year_days_def)

lemma month_length_bound: "i < 12 \<Longrightarrow> month_lengths y ! i \<le> 31"
  by (auto simp: month_lengths_def nth_Cons' split: if_splits)

lemma year_sum_lower: "y0 \<le> y \<Longrightarrow> 365 * (y - y0) \<le> sum_list (map year_days [y0..<y])"
proof (induction "y - y0" arbitrary: y)
  case (Suc k)
  then obtain z where z: "y = Suc z" "y0 \<le> z" "k = z - y0" by (cases y) auto
  then have "365 * (z - y0) \<le> sum_list (map year_days [y0..<z])" using Suc by simp
  moreover have "365 \<le> year_days z" by (simp add: year_days_def)
  ultimately show ?case using z by (simp add: Suc_diff_le)
qed simp

text \<open>Every day number below \<open>365 * 8030\<close> lies in a year of four digits.\<close>

lemma split_year_four_digits:
  assumes "split_year 1970 d0 = (y, d)" and "d0 < 2930950"
  shows "1970 \<le> y \<and> y < 10000"
proof -
  from split_year_bounds [OF assms(1)] have y: "1970 \<le> y"
    and "sum_list (map year_days [1970..<y]) \<le> d0" by auto
  with year_sum_lower [OF y] assms(2) have "365 * (y - 1970) < 365 * 8030" by simp
  with y show ?thesis by simp
qed

text \<open>Parsing a string that has the layout of \<open>toISOString\<close> with three or six fraction digits.\<close>

lemma date_parse_layout:
  assumes "Y = pad_nat 4 y" "M = pad_nat 2 m" "D = pad_nat 2 d"
    "H = pad_nat 2 h" "I = pad_nat 2 mi" "S = pad_nat 2 sec" "F = pad_nat 3 ms"
    and "y < 10000" "m < 100" "d < 100" "h < 100" "mi < 100" "sec < 100" "ms < 1000"
    and Z: "Z = ''Z'' \<or> Z = ''000Z''"
  shows "date_parse (Y @ ''-'' @ M @ ''-'' @ D @ ''T'' @ H @ '':'' @ I @ '':'' @ S @ ''.'' @ F @ Z)
         = date_fields y m d h mi sec ms"
proof -
  have len: "length Y = 4" "length M = 2" "length D = 2" "length H = 2" "length I = 2"
    "length S = 2" "length F = 3" using assms(1-7) by simp_all
  have dig: "list_all is_digit Y" "list_all is_digit M" "list_all is_digit D" "list_all is_digit H"
    "list_all is_digit I" "list_all is_digit S" "list_all is_digit F"
    unfolding assms(1-7) by (rule digits_pad_nat)+
  have val: "digits_value Y = y" "digits_value M = m" "digits_value D = d" "digits_value H = h"
    "digits_value I = mi" "digits_value S = sec" "digits_value F = ms"
    unfolding assms(1-7) using assms(8-14) by (simp_all del: pad_nat.simps)
  have zero: "is_digit (CHR ''0'')" by (simp add: char_class_defs)
  have frac: "parse_fraction (''.'' @ F @ Z) = Some ms"
    using Z len dig val zero by (auto simp: parse_fraction_def butlast_append)
  show ?thesis
    using len dig frac val by (simp add: date_parse_def)
qed

text \<open>The layout of both printed forms.\<close>

definition iso_layout :: "nat \<Rightarrow> nat \<Rightarrow> nat \<Rightarrow> nat \<Rightarrow> string \<Rightarrow> string" where
  "iso_layout y m d t Z = pad_nat 4 y @ ''-'' @ pad_nat 2 m @ ''-'' @ pad_nat 2 d @ ''T'' @
     pad_nat 2 (t div 3600000) @ '':'' @ pad_nat 2 (t div 60000 mod 60) @ '':'' @
     pad_nat 2 (t div 1000 mod 60) @ ''.'' @ pad_nat 3 (t mod 1000) @ Z"

lemma toISOString_layout:
  assumes "split_year 1970 (ms div 86400000) = (y, dy)" and "split_month (month_lengths y) 1 dy = (m, d)"
    and "y \<le> 9999"
  shows "toISOString ms = iso_layout y m (d + 1) (ms mod 86400000) ''Z''"
  unfolding toISOString_def using assms by (simp del: pad_nat.simps add: show_year_def iso_layout_def Let_def)

lemma micro_digits_layout: "micro_digits (iso_layout y m d t ''Z'') = iso_layout y m d t ''000Z''"
proof -
  let ?p = "pad_nat 4 y @ ''-'' @ pad_nat 2 m @ ''-'' @ pad_nat 2 d @ ''T'' @
     pad_nat 2 (t div 3600000) @ '':'' @ pad_nat 2 (t div 60000 mod 60) @ '':'' @
     pad_nat 2 (t div 1000 mod 60)"
  have "micro_digits (?p @ ''.'' @ F @ ''Z'') = ?p @ ''.'' @ F @ ''000Z''"
    if "length F = 3" "list_all is_digit F" for F
    using that by (simp del: pad_nat.simps add: micro_digits_def butlast_append)
  then show ?thesis by (simp del: pad_nat.simps add: iso_layout_def)
qed

text \<open>The hour, minute, second and millisecond of a time of day add up to it.\<close>

lemma time_of_day:
  "t div 3600000 * 3600000 + t div 60000 mod 60 * 60000 + t div 1000 mod 60 * 1000 + t mod 1000 = (t::nat)"
proof -
  have "t div 60000 = t div 3600000 * 60 + t div 60000 mod 60"
    using div_mod_decomp [of "t div 60000" 60] by (simp add: div_mult2_eq [symmetric])
  moreover have "t div 1000 = t div 60000 * 60 + t div 1000 mod 60"
    using div_mod_decomp [of "t div 1000" 60] by (simp add: div_mult2_eq [symmetric])
  moreover have "t = t div 1000 * 1000 + t mod 1000" by (rule div_mod_decomp)
  ultimately show ?thesis by linarith
qed

text \<open>The date of a time up to the year 9994, and that its printed forms are read back.\<close>

lemma iso_date:
  assumes "ms < 2930950 * 86400000"
  obtains y m d where "toISOString ms = iso_layout y m d (ms mod 86400000) ''Z''" "y < 10000" "1 \<le> m" "m \<le> 12"
    "1 \<le> d" "d \<le> 31" "days_of_date y m d = int (ms div 86400000)"
proof -
  obtain y dy where sy: "split_year 1970 (ms div 86400000) = (y, dy)" by fastforce
  obtain m d where sm: "split_month (month_lengths y) 1 dy = (m, d)" by fastforce
  have days: "ms div 86400000 < 2930950" using assms by (simp add: less_mult_imp_div_less)
  note y = split_year_four_digits [OF sy days]
  from split_year_bounds [OF sy] have dy: "dy < sum_list (month_lengths y)"
    and day0: "ms div 86400000 = sum_list (map year_days [1970..<y]) + dy"
    by (auto simp: sum_month_lengths)
  from split_month_bounds [OF sm dy] have m: "1 \<le> m" "m \<le> 12" "m - 1 < 12"
    and dm: "d < month_lengths y ! (m - 1)" and dsum: "dy = sum_list (take (m - 1) (month_lengths y)) + d"
    by (auto simp: month_lengths_def)
  have "d < 31" using dm month_length_bound [OF m(3), of y] by linarith
  moreover have "days_of_date y m (d + 1) = int (ms div 86400000)"
    using day0 dsum y by (simp add: days_of_date_def days_before_year_def)
  ultimately show ?thesis using toISOString_layout [OF sy sm] y m by (intro that [of y m "d + 1"]) auto
qed

lemma date_parse_iso:
  assumes "y < 10000" "1 \<le> m" "m \<le> 12" "1 \<le> d" "d \<le> 31" "days_of_date y m d = int (ms div 86400000)"
    and "Z = ''Z'' \<or> Z = ''000Z''"
  shows "date_parse (iso_layout y m d (ms mod 86400000) Z) = Some (int ms)"
proof -
  let ?t = "ms mod 86400000"
  have tb: "?t div 3600000 \<le> 23" "?t div 60000 mod 60 \<le> 59" "?t div 1000 mod 60 \<le> 59" "?t mod 1000 < 1000"
    by (simp_all add: less_mult_imp_div_less flip: less_Suc_eq_le)
  have "date_parse (iso_layout y m d ?t Z) = date_fields y m d (?t div 3600000) (?t div 60000 mod 60)
      (?t div 1000 mod 60) (?t mod 1000)"
    unfolding iso_layout_def by (rule date_parse_layout) (use assms tb in simp_all)
  also have "\<dots> = Some (int (ms div 86400000) * 86400000 + int ?t)"
    unfolding date_fields_def assms(6) time_of_day using assms tb by simp
  also have "\<dots> = Some (int ms)"
    by (metis div_mult_mod_eq of_nat_add of_nat_mult of_nat_numeral)
  finally show ?thesis .
qed

lemma date_parse_leaseTime:
  assumes "ms < 2930950 * 86400000"
  shows "date_parse (leaseTime ms) = Some (int ms)"
  using assms by (rule iso_date) (auto simp: leaseTime_def micro_digits_layout intro: date_parse_iso)

lemma date_parse_toISOString:
  assumes "ms < 2930950 * 86400000"
  shows "date_parse (toISOString ms) = Some (int ms)"
  using assms by (rule iso_date) (auto intro: date_parse_iso)

text \<open>\<open>/^\d{4}-\d\d-\d\dT\d\d:\d\d:\d\d\.\d{3}Z$/\<close>\<close>

definition is_iso_millis :: "string \<Rightarrow> bool" where
  "is_iso_millis s \<longleftrightarrow> length s = 24 \<and>
     list_all is_digit (take 4 s @ take 2 (drop 5 s) @ take 2 (drop 8 s) @ take 2 (drop 11 s) @
       take 2 (drop 14 s) @ take 2 (drop 17 s) @ take 3 (drop 20 s)) \<and>
     s ! 4 = CHR ''-'' \<and> s ! 7 = CHR ''-'' \<and> s ! 10 = CHR ''T'' \<and> s ! 13 = CHR '':'' \<and> s ! 16 = CHR '':'' \<and>
     s ! 19 = CHR ''.'' \<and> s ! 23 = CHR ''Z''"

lemma is_iso_millis_layout: "is_iso_millis (iso_layout y m d t ''Z'')"
proof -
  have "is_iso_millis (Y @ ''-'' @ M @ ''-'' @ D @ ''T'' @ H @ '':'' @ I @ '':'' @ S @ ''.'' @ F @ ''Z'')"
    if "length Y = 4" "length M = 2" "length D = 2" "length H = 2" "length I = 2" "length S = 2" "length F = 3"
      "list_all is_digit (Y @ M @ D @ H @ I @ S @ F)" for Y M D H I S F
    using that by (simp add: is_iso_millis_def nth_append)
  then show ?thesis unfolding iso_layout_def by (simp del: pad_nat.simps)
qed

lemma is_iso_millis_toISOString: "ms < 2930950 * 86400000 \<Longrightarrow> is_iso_millis (toISOString ms)"
  by (erule iso_date) (simp add: is_iso_millis_layout)

end
