(* ===== verification/Lab_Lease.thy ===== *)
theory Lab_Lease
  imports Harness_Errors Iso_Time
begin

text \<open>
  The lab lock (\<open>regression/core/lease.ts\<close>): a Kubernetes \<open>Lease\<close> that one runner holds at a time.
  The class \<open>LabLease\<close> is the record of its private fields; each method is an action over that
  record and the world \<open>'w\<close>. What the class calls is the record \<open>lease_env\<close>: the store (the
  Kubernetes API behind \<open>LeaseStore\<close>), the clock \<open>now\<close>, and the private file write of a receipt.
  These are parameters. The chain of promises in \<open>exclusive\<close> runs the methods of one object one
  after the other, so a method of the model is one uninterrupted action of its object; other
  runners act inside the calls of the environment.
\<close>

subsection \<open>Data\<close>

record LeaseMetadata =
  lm_name :: string
  lm_namespace :: string
  lm_uid :: "string option"
  lm_resourceVersion :: string
  lm_labels :: "string obj"
  lm_annotations :: "string obj option"

record LeaseSpec =
  ls_holderIdentity :: "string option"
  ls_renewTime :: "string option"
  ls_leaseDurationSeconds :: "int option"

record Lease =
  le_apiVersion :: string
  le_kind :: string
  le_metadata :: LeaseMetadata
  le_spec :: LeaseSpec

abbreviation lease_uid :: "Lease \<Rightarrow> string option" where
  "lease_uid l \<equiv> lm_uid (le_metadata l)"

abbreviation lease_version :: "Lease \<Rightarrow> string" where
  "lease_version l \<equiv> lm_resourceVersion (le_metadata l)"

abbreviation lease_holder :: "Lease \<Rightarrow> string option" where
  "lease_holder l \<equiv> ls_holderIdentity (le_spec l)"

text \<open>\<open>!lease.spec.holderIdentity\<close>: the field is absent or empty.\<close>

definition no_holder :: "Lease \<Rightarrow> bool" where
  "no_holder l \<longleftrightarrow> lease_holder l = None \<or> lease_holder l = Some []"

text \<open>\<open>Date.parse(lease.spec.renewTime ?? '')\<close>\<close>

definition renewed_at :: "Lease \<Rightarrow> int option" where
  "renewed_at l = (case ls_renewTime (le_spec l) of None \<Rightarrow> None | Some s \<Rightarrow> date_parse s)"

definition leaseHolderReason :: "Lease \<Rightarrow> nat \<Rightarrow> ReasonCode option" where
  "leaseHolderReason lease now =
     (if no_holder lease then None
      else case (ls_leaseDurationSeconds (le_spec lease), renewed_at lease) of
          (Some duration, Some renewed) \<Rightarrow>
            if 0 < duration \<and> renewed + duration * 1000 \<le> int now then Some R_LOCK_STALE else Some R_LOCK_BUSY
        | _ \<Rightarrow> Some R_LOCK_BUSY)"

subsection \<open>The object and its environment\<close>

record LeaseReceipt =
  lr_runId :: string
  lr_targetUid :: string
  lr_leaseUid :: string
  lr_owner :: string
  lr_state :: string

record 'w lease_env =
  env_read :: "('w, js_error, Lease) act"
  env_replace :: "Lease \<Rightarrow> ('w, js_error, Lease) act"
  env_now :: "'w \<Rightarrow> nat \<times> 'w"
  env_writeBeside :: "string \<Rightarrow> string \<Rightarrow> LeaseReceipt \<Rightarrow> ('w, js_error, unit) act"
  env_runUid :: "string option"

text \<open>\<open>receipt\<close> is the journal of the run: its file name and run identifier.\<close>

record LabLease =
  ll_owner :: string
  ll_targetUid :: string
  ll_durationSeconds :: int
  ll_ordinaryDurationSeconds :: int
  ll_offlineReserved :: bool
  ll_held :: bool
  ll_fenced :: bool
  ll_lastHeartbeat :: nat
  ll_receipt :: "(string \<times> string) option"

definition newLabLease :: "string \<Rightarrow> string \<Rightarrow> int \<Rightarrow> (string \<times> string) option \<Rightarrow> LabLease" where
  "newLabLease owner targetUid durationSeconds receipt =
     \<lparr>ll_owner = owner, ll_targetUid = targetUid, ll_durationSeconds = durationSeconds,
      ll_ordinaryDurationSeconds = durationSeconds, ll_offlineReserved = False, ll_held = False,
      ll_fenced = False, ll_lastHeartbeat = 0, ll_receipt = receipt\<rparr>"

type_synonym ('w, 'a) lease_act = "(LabLease \<times> 'w, js_error, 'a) act"

definition in_world :: "('w, js_error, 'a) act \<Rightarrow> ('w, 'a) lease_act" where
  "in_world m = (\<lambda>(l, w). case m w of (r, w') \<Rightarrow> (r, (l, w')))"

definition clock :: "'w lease_env \<Rightarrow> ('w, nat) lease_act" where
  "clock env = (\<lambda>(l, w). case env_now env w of (t, w') \<Rightarrow> (Inr t, (l, w')))"

abbreviation self :: "('w, LabLease) lease_act" where
  "self \<equiv> gets fst"

definition update_self :: "(LabLease \<Rightarrow> LabLease) \<Rightarrow> ('w, unit) lease_act" where
  "update_self f = modify (\<lambda>(l, w). (f l, w))"

definition storeRead :: "'w lease_env \<Rightarrow> ('w, Lease) lease_act" where
  "storeRead env = in_world (env_read env)"

definition storeReplace :: "'w lease_env \<Rightarrow> Lease \<Rightarrow> ('w, Lease) lease_act" where
  "storeReplace env lease = in_world (env_replace env lease)"

subsection \<open>Receipts and validation\<close>

text \<open>\<open>journalFile\<close> of \<open>private-files.ts\<close>: the name must match \<open>/^[a-z0-9][a-z0-9.-]{0,127}$/\<close> without \<open>..\<close>.\<close>

definition is_journal_file_name :: "string \<Rightarrow> bool" where
  "is_journal_file_name name \<longleftrightarrow>
     name \<noteq> [] \<and> length name \<le> 128 \<and> is_name_start (hd name) \<and>
     list_all (\<lambda>c. is_name_char c \<or> c = CHR ''.'') (tl name) \<and> \<not> sublist ''..'' name"

definition recordReceipt :: "'w lease_env \<Rightarrow> string \<Rightarrow> Lease \<Rightarrow> ('w, unit) lease_act" where
  "recordReceipt env state lease = bnd self (\<lambda>l.
     case ll_receipt l of
       None \<Rightarrow> ret ()
     | Some (filename, runId) \<Rightarrow>
         (case lease_uid lease of
            None \<Rightarrow> throw (hard R_OWNERSHIP)
          | Some uid \<Rightarrow>
              let name = ''lease-'' @ ll_owner l @ ''.json''
              in seq (requireSafe (is_run_id (ll_owner l)) R_OWNERSHIP)
                (seq (requireSafe (is_journal_file_name name) R_PRIVATE_FILE)
                  (in_world (env_writeBeside env filename name
                     \<lparr>lr_runId = runId, lr_targetUid = ll_targetUid l, lr_leaseUid = uid,
                      lr_owner = ll_owner l, lr_state = state\<rparr>)))))"

definition valid_lease :: "string \<Rightarrow> Lease \<Rightarrow> bool" where
  "valid_lease targetUid lease \<longleftrightarrow>
     le_kind lease = ''Lease'' \<and> le_apiVersion lease = ''coordination.k8s.io/v1'' \<and>
     lm_namespace (le_metadata lease) = ''magicstick-regression'' \<and>
     lm_name (le_metadata lease) = ''lab-lock'' \<and> lease_version lease \<noteq> [] \<and>
     oget (lm_labels (le_metadata lease)) ''regression.magicstick.dev/appliance-uid'' = Some targetUid"

definition validate :: "Lease \<Rightarrow> ('w, unit) lease_act" where
  "validate lease = bnd self (\<lambda>l. requireSafe (valid_lease (ll_targetUid l) lease) R_IDENTITY)"

text \<open>\<open>const lease = await this.store.read(); this.validate(lease)\<close>\<close>

definition readValid :: "'w lease_env \<Rightarrow> ('w, Lease) lease_act" where
  "readValid env = bnd (storeRead env) (\<lambda>lease. seq (validate lease) (ret lease))"

text \<open>
  The local expiry fence: \<open>held && !fenced && now() >= lastHeartbeat && now() - lastHeartbeat <
  durationSeconds * 1000\<close>, with the short-circuit order of the source.
\<close>

definition locallyFresh :: "'w lease_env \<Rightarrow> ('w, bool) lease_act" where
  "locallyFresh env = bnd self (\<lambda>l.
     if ll_held l \<and> \<not> ll_fenced l then
       bnd (clock env) (\<lambda>t1.
         if ll_lastHeartbeat l \<le> t1 then
           bnd (clock env) (\<lambda>t2.
             ret (int t2 - int (ll_lastHeartbeat l) < ll_durationSeconds l * 1000))
         else ret False)
     else ret False)"

text \<open>\<open>catch { this.held = false; this.fenced = true; throw new HarnessError('LOCK_LOST') }\<close>\<close>

definition fence :: "('w, 'a) lease_act" where
  "fence = seq (update_self (\<lambda>l. l\<lparr>ll_held := False, ll_fenced := True\<rparr>)) (throw (hard R_LOCK_LOST))"

definition assertHeldInternal :: "'w lease_env \<Rightarrow> ('w, unit) lease_act" where
  "assertHeldInternal env = catch
     (bnd (locallyFresh env) (\<lambda>fresh.
        seq (requireSafe fresh R_LOCK_LOST)
        (bnd (readValid env) (\<lambda>lease. bnd self (\<lambda>l.
           seq (requireSafe (lease_holder lease = Some (ll_owner l) \<and>
                  ls_leaseDurationSeconds (le_spec lease) = Some (ll_durationSeconds l)) R_LOCK_LOST)
             (case renewed_at lease of
                None \<Rightarrow> throw (hard R_LOCK_LOST)
              | Some renewed \<Rightarrow> bnd (clock env) (\<lambda>t.
                  requireSafe (int t < renewed + ll_durationSeconds l * 1000) R_LOCK_LOST)))))))
     (\<lambda>_. fence)"

subsection \<open>Acquisition\<close>

definition own_spec :: "LabLease \<Rightarrow> nat \<Rightarrow> LeaseSpec \<Rightarrow> LeaseSpec" where
  "own_spec l t sp = sp\<lparr>ls_holderIdentity := Some (ll_owner l), ls_renewTime := Some (leaseTime t),
     ls_leaseDurationSeconds := Some (ll_durationSeconds l)\<rparr>"

definition annotations_of :: "Lease \<Rightarrow> string obj" where
  "annotations_of lease = (case lm_annotations (le_metadata lease) of None \<Rightarrow> [] | Some a \<Rightarrow> a)"

definition set_annotations :: "string obj \<Rightarrow> Lease \<Rightarrow> Lease" where
  "set_annotations a lease = lease\<lparr>le_metadata := (le_metadata lease)\<lparr>lm_annotations := Some a\<rparr>\<rparr>"

text \<open>\<open>/^[a-f0-9-]{36}$/\<close> on \<open>REGRESSION_RUN_UID\<close>\<close>

definition is_uuid_like :: "string \<Rightarrow> bool" where
  "is_uuid_like s \<longleftrightarrow> length s = 36 \<and> list_all is_hex_dash s"

definition acquired_lease :: "'w lease_env \<Rightarrow> LabLease \<Rightarrow> string option \<Rightarrow> nat \<Rightarrow> Lease \<Rightarrow> Lease" where
  "acquired_lease env l recoveryRunId t lease =
     (let ann = oassign (annotations_of lease)
            [(''regression.magicstick.dev/recovering'', ''false''),
             (''regression.magicstick.dev/recovery-original-owner'', []),
             (''regression.magicstick.dev/run-id'', case recoveryRunId of None \<Rightarrow> ll_owner l | Some r \<Rightarrow> r)];
          ann' = (case env_runUid env of
              None \<Rightarrow> ann
            | Some u \<Rightarrow> if is_uuid_like u then oset ''regression.magicstick.dev/kubernetes-run-uid'' u ann else ann)
      in set_annotations ann' (lease\<lparr>le_spec := own_spec l t (le_spec lease)\<rparr>))"

text \<open>\<open>this.held = true; this.lastHeartbeat = this.now(); await this.assertHeldInternal()\<close>\<close>

definition takeHold :: "'w lease_env \<Rightarrow> ('w, unit) lease_act" where
  "takeHold env = bnd (clock env) (\<lambda>t.
     seq (update_self (\<lambda>l. l\<lparr>ll_held := True, ll_lastHeartbeat := t\<rparr>)) (assertHeldInternal env))"

definition settleLostReply :: "'w lease_env \<Rightarrow> Lease \<Rightarrow> ('w, unit) lease_act" where
  "settleLostReply env lease = catch
     (bnd (readValid env) (\<lambda>current. bnd self (\<lambda>l.
        if lease_uid current = lease_uid lease \<and> lease_holder current \<noteq> Some (ll_owner l)
        then recordReceipt env ''released'' current else ret ())))
     (\<lambda>_. ret ())"

definition acquireInternal :: "'w lease_env \<Rightarrow> string option \<Rightarrow> ('w, unit) lease_act" where
  "acquireInternal env recoveryRunId = bnd self (\<lambda>l.
     seq (requireSafe (\<not> ll_held l \<and> \<not> ll_fenced l) R_LOCK_LOST)
     (bnd (readValid env) (\<lambda>lease.
      bnd (clock env) (\<lambda>t0.
        case leaseHolderReason lease t0 of
          Some reason \<Rightarrow> throw (hard reason)
        | None \<Rightarrow>
            seq (requireSafe (recoveryRunId = None \<or> recoveryRunId = Some [] \<or>
                   (\<exists>r \<in> set_option recoveryRunId. is_run_id r)) R_CONFIG)
            (bnd (clock env) (\<lambda>t1.
              seq (recordReceipt env ''requested'' lease)
              (seq (catch (bnd (storeReplace env (acquired_lease env l recoveryRunId t1 lease)) (\<lambda>_. ret ()))
                     (\<lambda>_. seq (settleLostReply env lease) (throw (hard R_LOCK_BUSY))))
                (takeHold env))))))))"

definition same_claim :: "Lease \<Rightarrow> Lease \<Rightarrow> bool" where
  "same_claim lease expected \<longleftrightarrow>
     lease_uid expected \<noteq> None \<and> lease_uid expected \<noteq> Some [] \<and>
     lease_uid lease = lease_uid expected \<and> lease_version lease = lease_version expected \<and>
     lease_holder lease = lease_holder expected \<and>
     ls_renewTime (le_spec lease) = ls_renewTime (le_spec expected) \<and>
     ls_leaseDurationSeconds (le_spec lease) = ls_leaseDurationSeconds (le_spec expected)"

text \<open>\<open>this.now() >= Date.parse(renewTime) + leaseDurationSeconds * 1000 + 60_000\<close>\<close>

definition drained :: "Lease \<Rightarrow> nat \<Rightarrow> bool" where
  "drained lease now \<longleftrightarrow>
     (case (ls_leaseDurationSeconds (le_spec lease), renewed_at lease) of
        (Some duration, Some renewed) \<Rightarrow> renewed + duration * 1000 + 60000 \<le> int now
      | _ \<Rightarrow> False)"

text \<open>An original owner that is \<open>undefined\<close> leaves no annotation behind: JSON drops the key.\<close>

definition recovered_lease :: "LabLease \<Rightarrow> string \<Rightarrow> nat \<Rightarrow> Lease \<Rightarrow> Lease" where
  "recovered_lease l runId t lease =
     (let ann = annotations_of lease;
          key = ''regression.magicstick.dev/recovery-original-owner'';
          original = (if oget ann ''regression.magicstick.dev/recovering'' = Some ''true''
            then oget ann key else lease_holder lease);
          ann' = oassign ann [(''regression.magicstick.dev/run-id'', runId),
                   (''regression.magicstick.dev/recovering'', ''true'')]
      in set_annotations (case original of None \<Rightarrow> odelete key ann' | Some v \<Rightarrow> oset key v ann')
           (lease\<lparr>le_spec := own_spec l t (le_spec lease)\<rparr>))"

definition acquireRecoveryInternal :: "'w lease_env \<Rightarrow> Lease \<Rightarrow> string \<Rightarrow> ('w, unit) lease_act" where
  "acquireRecoveryInternal env expected runId = bnd self (\<lambda>l.
     seq (requireSafe (\<not> ll_held l \<and> \<not> ll_fenced l \<and> is_run_id runId) R_RECOVERY)
     (seq (validate expected)
     (bnd (readValid env) (\<lambda>lease.
      seq (requireSafe (same_claim lease expected) R_LOCK_STALE)
      (bnd (clock env) (\<lambda>t0.
       seq (requireSafe (leaseHolderReason lease t0 = Some R_LOCK_STALE) R_LOCK_STALE)
       (bnd (clock env) (\<lambda>t1.
        seq (requireSafe (drained lease t1) R_LOCK_STALE)
        (bnd (clock env) (\<lambda>t2.
         seq (catch (bnd (storeReplace env (recovered_lease l runId t2 lease)) (\<lambda>_. ret ()))
                (\<lambda>_. throw (hard R_LOCK_BUSY)))
           (takeHold env)))))))))))"

subsection \<open>Renewal, outage windows and release\<close>

definition renewed_lease :: "nat \<Rightarrow> Lease \<Rightarrow> Lease" where
  "renewed_lease t lease = lease\<lparr>le_spec := (le_spec lease)\<lparr>ls_renewTime := Some (leaseTime t)\<rparr>\<rparr>"

definition heartbeatInternal :: "'w lease_env \<Rightarrow> ('w, unit) lease_act" where
  "heartbeatInternal env =
     seq (assertHeldInternal env)
     (seq (catch
        (bnd (readValid env) (\<lambda>lease. bnd self (\<lambda>l.
           seq (requireSafe (lease_holder lease = Some (ll_owner l)) R_LOCK_LOST)
           (bnd (clock env) (\<lambda>t.
              bnd (storeReplace env (renewed_lease t lease)) (\<lambda>_. ret ()))))))
        (\<lambda>_. fence))
     (bnd (clock env) (\<lambda>t. update_self (\<lambda>l. l\<lparr>ll_lastHeartbeat := t\<rparr>))))"

definition backgroundHeartbeat :: "'w lease_env \<Rightarrow> ('w, unit) lease_act" where
  "backgroundHeartbeat env = bnd self (\<lambda>l.
     if ll_offlineReserved l then
       bnd (locallyFresh env) (\<lambda>fresh. if fresh then ret () else fence)
     else heartbeatInternal env)"

definition resized_lease :: "int \<Rightarrow> nat \<Rightarrow> Lease \<Rightarrow> Lease" where
  "resized_lease seconds t lease = lease\<lparr>le_spec := (le_spec lease)
     \<lparr>ls_leaseDurationSeconds := Some seconds, ls_renewTime := Some (leaseTime t)\<rparr>\<rparr>"

definition resizeInternal :: "'w lease_env \<Rightarrow> int \<Rightarrow> ('w, unit) lease_act" where
  "resizeInternal env seconds =
     seq (assertHeldInternal env)
     (catch
        (bnd (readValid env) (\<lambda>lease. bnd self (\<lambda>l.
           seq (requireSafe (lease_holder lease = Some (ll_owner l) \<and>
                  ls_leaseDurationSeconds (le_spec lease) = Some (ll_durationSeconds l)) R_LOCK_LOST)
           (bnd (clock env) (\<lambda>t0.
            seq (requireSafe (case renewed_at lease of None \<Rightarrow> False
                   | Some renewed \<Rightarrow> int t0 < renewed + ll_durationSeconds l * 1000) R_LOCK_LOST)
            (bnd (clock env) (\<lambda>t1.
             seq (bnd (storeReplace env (resized_lease seconds t1 lease)) (\<lambda>_. ret ()))
             (bnd (clock env) (\<lambda>t2.
                update_self (\<lambda>l. l\<lparr>ll_durationSeconds := seconds, ll_lastHeartbeat := t2\<rparr>)))))))))
        )
        (\<lambda>_. fence))"

definition reserveOfflineWindow :: "'w lease_env \<Rightarrow> int \<Rightarrow> ('w, unit) lease_act" where
  "reserveOfflineWindow env seconds = bnd self (\<lambda>l.
     seq (requireSafe (\<not> ll_offlineReserved l \<and> ll_ordinaryDurationSeconds l \<le> seconds \<and> seconds \<le> 2100) R_CONFIG)
     (seq (resizeInternal env seconds)
       (update_self (\<lambda>l. l\<lparr>ll_offlineReserved := True\<rparr>))))"

definition finishOfflineWindow :: "'w lease_env \<Rightarrow> ('w, unit) lease_act" where
  "finishOfflineWindow env = bnd self (\<lambda>l.
     seq (requireSafe (ll_offlineReserved l) R_CONFIG)
     (seq (resizeInternal env (ll_ordinaryDurationSeconds l))
       (update_self (\<lambda>l. l\<lparr>ll_offlineReserved := False\<rparr>))))"

definition released_lease :: "nat \<Rightarrow> Lease \<Rightarrow> Lease" where
  "released_lease t lease = lease\<lparr>le_spec := (le_spec lease)
     \<lparr>ls_holderIdentity := Some [], ls_renewTime := Some (leaseTime t)\<rparr>\<rparr>"

definition releaseInternal :: "'w lease_env \<Rightarrow> ('w, unit) lease_act" where
  "releaseInternal env =
     seq (assertHeldInternal env)
     (seq (catch
        (bnd (readValid env) (\<lambda>lease. bnd self (\<lambda>l.
           seq (requireSafe (lease_holder lease = Some (ll_owner l)) R_LOCK_LOST)
           (bnd (clock env) (\<lambda>t.
            seq (bnd (storeReplace env (released_lease t lease)) (\<lambda>_. ret ()))
            (bnd (readValid env) (\<lambda>released.
             seq (requireSafe (lease_uid released = lease_uid lease \<and> no_holder released) R_LOCK_LOST)
               (recordReceipt env ''released'' released))))))))
        (\<lambda>_. fence))
     (update_self (\<lambda>l. l\<lparr>ll_held := False\<rparr>)))"

subsection \<open>Public methods\<close>

text \<open>The public methods of the class; each one runs its internal part under \<open>exclusive\<close>.\<close>

datatype lease_call =
    Acquire "string option" | AcquireRecovery Lease string | AssertHeld | Heartbeat
  | BackgroundHeartbeat | ReserveOfflineWindow int | FinishOfflineWindow | Release

fun run_call :: "'w lease_env \<Rightarrow> lease_call \<Rightarrow> ('w, unit) lease_act" where
  "run_call env (Acquire r) = acquireInternal env r"
| "run_call env (AcquireRecovery expected runId) = acquireRecoveryInternal env expected runId"
| "run_call env AssertHeld = assertHeldInternal env"
| "run_call env Heartbeat = heartbeatInternal env"
| "run_call env BackgroundHeartbeat = backgroundHeartbeat env"
| "run_call env (ReserveOfflineWindow n) = reserveOfflineWindow env n"
| "run_call env FinishOfflineWindow = finishOfflineWindow env"
| "run_call env Release = releaseInternal env"

text \<open>A sequence of calls on one object; a failed call leaves the object as it is for the next one.\<close>

fun run_calls :: "'w lease_env \<Rightarrow> lease_call list \<Rightarrow> LabLease \<times> 'w \<Rightarrow> LabLease \<times> 'w" where
  "run_calls env [] s = s"
| "run_calls env (c # cs) s = run_calls env cs (snd (run_call env c s))"

subsection \<open>Lemmas on single steps\<close>

lemma in_world_run [simp]: "in_world m (l, w) = (case m w of (r, w') \<Rightarrow> (r, (l, w')))"
  by (simp add: in_world_def)

lemma update_self_run [simp]: "update_self f (l, w) = (Inr (), (f l, w))"
  by (simp add: update_self_def modify_def)

lemma fence_run [simp]:
  "fence (l, w) = (Inl (hard R_LOCK_LOST), (l\<lparr>ll_held := False, ll_fenced := True\<rparr>, w))"
  by (simp add: fence_def act_simps)

lemmas lease_internal_defs = acquireInternal_def acquireRecoveryInternal_def heartbeatInternal_def
  backgroundHeartbeat_def reserveOfflineWindow_def finishOfflineWindow_def releaseInternal_def
  resizeInternal_def takeHold_def settleLostReply_def readValid_def validate_def recordReceipt_def
  storeRead_def storeReplace_def

lemma keeps_in_world [keeps_intros]:
  "(\<And>l w. I (l, w) \<Longrightarrow> I (l, snd (m w))) \<Longrightarrow> keeps I (in_world m)"
  by (auto simp: keeps_def split: prod.splits) (metis snd_conv)

lemma keeps_clock [keeps_intros]:
  "(\<And>l w. I (l, w) \<Longrightarrow> I (l, snd (env_now env w))) \<Longrightarrow> keeps I (clock env)"
  by (auto simp: keeps_def clock_def split: prod.splits) (metis snd_conv)

lemma keeps_update_self [keeps_intros]:
  "(\<And>l w. I (l, w) \<Longrightarrow> I (f l, w)) \<Longrightarrow> keeps I (update_self f)"
  by (auto simp: keeps_def)

lemma keeps_fence [keeps_intros]:
  "(\<And>l w. I (l, w) \<Longrightarrow> I (l\<lparr>ll_held := False, ll_fenced := True\<rparr>, w)) \<Longrightarrow> keeps I fence"
  by (auto simp: keeps_def)

subsubsection \<open>The fence\<close>

lemma locallyFresh_fenced:
  "ll_fenced l \<Longrightarrow> locallyFresh env (l, w) = (Inr False, (l, w))"
  by (simp add: locallyFresh_def act_simps)

lemma assertHeld_fenced:
  assumes "ll_fenced l"
  shows "assertHeldInternal env (l, w) = (Inl (hard R_LOCK_LOST), (l\<lparr>ll_held := False, ll_fenced := True\<rparr>, w))"
  using assms by (simp add: assertHeldInternal_def catch_def bnd_def seq_def locallyFresh_fenced)

lemma resize_fenced:
  assumes "ll_fenced l"
  shows "resizeInternal env n (l, w) = (Inl (hard R_LOCK_LOST), (l\<lparr>ll_held := False, ll_fenced := True\<rparr>, w))"
  using assms by (simp add: resizeInternal_def seq_def bnd_def assertHeld_fenced)

lemma fenced_call_fails:
  assumes "ll_fenced l"
  shows "\<exists>e l'. run_call env c (l, w) = (Inl e, (l', w)) \<and> ll_fenced l' \<and> (ll_held l' \<longrightarrow> ll_held l)"
  using assms
  by (cases c) (auto simp: acquireInternal_def acquireRecoveryInternal_def heartbeatInternal_def
      backgroundHeartbeat_def reserveOfflineWindow_def finishOfflineWindow_def releaseInternal_def
      seq_def bnd_def gets_def assertHeld_fenced resize_fenced locallyFresh_fenced)

lemma fenced_calls_fail:
  assumes "ll_fenced l"
  shows "\<exists>l'. run_calls env cs (l, w) = (l', w) \<and> ll_fenced l' \<and> (ll_held l' \<longrightarrow> ll_held l)"
  using assms
proof (induction cs arbitrary: l)
  case (Cons c cs)
  from fenced_call_fails [OF Cons.prems, of env c w] obtain e l1
    where "run_call env c (l, w) = (Inl e, (l1, w))" "ll_fenced l1" "ll_held l1 \<longrightarrow> ll_held l" by blast
  moreover from Cons.IH [OF this(2)] obtain l2
    where "run_calls env cs (l1, w) = (l2, w)" "ll_fenced l2" "ll_held l2 \<longrightarrow> ll_held l1" by blast
  ultimately show ?case by auto
qed auto

subsubsection \<open>Local invariant\<close>

text \<open>
  A fenced object does not hold the lease. Outside a reserved outage window its duration is the
  ordinary one; inside, the duration lies between the ordinary one and 2100 seconds.
\<close>

definition lease_inv :: "LabLease \<Rightarrow> bool" where
  "lease_inv l \<longleftrightarrow> \<not> (ll_held l \<and> ll_fenced l) \<and>
     (if ll_offlineReserved l
      then ll_ordinaryDurationSeconds l \<le> ll_durationSeconds l \<and> ll_durationSeconds l \<le> 2100
      else ll_durationSeconds l = ll_ordinaryDurationSeconds l)"

text \<open>
  Most helper actions change the world only. Those that can fail the lease also fence the object.
\<close>

definition worldless :: "(LabLease \<times> 'w \<Rightarrow> bool) \<Rightarrow> bool" where
  "worldless I \<longleftrightarrow> (\<forall>l w w'. I (l, w) \<longrightarrow> I (l, w'))"

definition fenceable :: "(LabLease \<times> 'w \<Rightarrow> bool) \<Rightarrow> bool" where
  "fenceable I \<longleftrightarrow> (\<forall>l w. I (l, w) \<longrightarrow> I (l\<lparr>ll_held := False, ll_fenced := True\<rparr>, w))"

lemma worldlessD: "worldless I \<Longrightarrow> I (l, w) \<Longrightarrow> I (l, w')"
  unfolding worldless_def by blast

lemma fenceableD: "fenceable I \<Longrightarrow> I (l, w) \<Longrightarrow> I (l\<lparr>ll_held := False, ll_fenced := True\<rparr>, w)"
  unfolding fenceable_def by blast

lemma keeps_worldless [keeps_intros]:
  assumes "worldless I"
  shows "keeps I (in_world m)" "keeps I (clock env)"
  by (rule keeps_in_world keeps_clock; erule worldlessD [OF assms])+

lemma keeps_fenceable [keeps_intros]: "fenceable I \<Longrightarrow> keeps I fence"
  by (rule keeps_fence) (rule fenceableD)

lemma keeps_helpers [keeps_intros]:
  assumes "worldless I"
  shows "keeps I (storeRead env)" "keeps I (storeReplace env x)" "keeps I (validate lease)"
    "keeps I (readValid env)" "keeps I (recordReceipt env st lease)" "keeps I (settleLostReply env lease)"
    "keeps I (locallyFresh env)"
  using assms
  unfolding storeRead_def storeReplace_def validate_def readValid_def recordReceipt_def
    settleLostReply_def locallyFresh_def Let_def
  by (auto intro!: keeps_intros split: option.split)

lemma keeps_assertHeld [keeps_intros]:
  assumes "worldless I" and "fenceable I"
  shows "keeps I (assertHeldInternal env)"
  using assms unfolding assertHeldInternal_def by (auto intro!: keeps_intros)

abbreviation inv_state :: "LabLease \<times> 'w \<Rightarrow> bool" where
  "inv_state s \<equiv> lease_inv (fst s)"

lemma inv_state_kinds [simp]: "worldless inv_state" "fenceable inv_state"
  by (auto simp: worldless_def fenceable_def lease_inv_def)

lemma object_fixed [simp]: "worldless (\<lambda>s. fst s = l)"
  by (simp add: worldless_def)

lemma leads_takeHold:
  assumes "lease_inv l" and "\<not> ll_fenced l"
  shows "leads (\<lambda>s. fst s = l) (takeHold env) inv_state"
  unfolding takeHold_def
proof (rule leads_bnd)
  fix t
  have "keeps inv_state (assertHeldInternal env)" by (rule keeps_assertHeld) simp_all
  then show "leads (\<lambda>s. fst s = l)
      (seq (update_self (\<lambda>l. l\<lparr>ll_held := True, ll_lastHeartbeat := t\<rparr>)) (assertHeldInternal env)) inv_state"
    using assms by (auto simp: leads_def keeps_def seq_def bnd_def lease_inv_def)
qed (use assms in \<open>auto intro!: keeps_intros\<close>)

text \<open>A method that starts with a guard on the object, then works from a fixed object.\<close>

lemma keeps_guarded:
  assumes "\<And>l. c l \<Longrightarrow> I' l \<Longrightarrow> leads (\<lambda>s. fst s = l) (m l) (\<lambda>s. I' (fst s))"
  shows "keeps (\<lambda>s. I' (fst s)) (bnd (gets fst) (\<lambda>l. seq (requireSafe (c l) code) (m l)))"
  using assms by (auto simp: keeps_def leads_def act_simps)

lemma keeps_acquire: "keeps inv_state (acquireInternal env r)"
  unfolding acquireInternal_def
proof (rule keeps_guarded)
  fix l assume "\<not> ll_held l \<and> \<not> ll_fenced l" and inv: "lease_inv l"
  then have hold: "leads (\<lambda>s. fst s = l) (takeHold env) inv_state" by (simp add: leads_takeHold)
  show "leads (\<lambda>s. fst s = l) (bnd (readValid env) (\<lambda>lease. bnd (clock env) (\<lambda>t0.
        case leaseHolderReason lease t0 of
          None \<Rightarrow> seq (requireSafe (r = None \<or> r = Some [] \<or> (\<exists>r \<in> set_option r. is_run_id r)) R_CONFIG)
            (bnd (clock env) (\<lambda>t1. seq (recordReceipt env ''requested'' lease)
              (seq (catch (bnd (storeReplace env (acquired_lease env l r t1 lease)) (\<lambda>_. ret ()))
                     (\<lambda>_. seq (settleLostReply env lease) (throw (hard R_LOCK_BUSY)))) (takeHold env))))
        | Some reason \<Rightarrow> throw (hard reason)))) inv_state"
    by (intro leads_bnd leads_seq leads_option hold leads_of_keeps keeps_intros) (use inv in auto)
qed

lemma keeps_acquireRecovery: "keeps inv_state (acquireRecoveryInternal env expected runId)"
  unfolding acquireRecoveryInternal_def
proof (rule keeps_guarded)
  fix l assume "\<not> ll_held l \<and> \<not> ll_fenced l \<and> is_run_id runId" and inv: "lease_inv l"
  then have hold: "leads (\<lambda>s. fst s = l) (takeHold env) inv_state" by (simp add: leads_takeHold)
  show "leads (\<lambda>s. fst s = l) (seq (validate expected) (bnd (readValid env) (\<lambda>lease.
      seq (requireSafe (same_claim lease expected) R_LOCK_STALE) (bnd (clock env) (\<lambda>t0.
       seq (requireSafe (leaseHolderReason lease t0 = Some R_LOCK_STALE) R_LOCK_STALE) (bnd (clock env) (\<lambda>t1.
        seq (requireSafe (drained lease t1) R_LOCK_STALE) (bnd (clock env) (\<lambda>t2.
         seq (catch (bnd (storeReplace env (recovered_lease l runId t2 lease)) (\<lambda>_. ret ()))
                (\<lambda>_. throw (hard R_LOCK_BUSY))) (takeHold env))))))))))
      inv_state"
    by (intro leads_bnd leads_seq hold keeps_intros) (use inv in auto)
qed

lemma lease_inv_updates [simp]:
  "lease_inv l \<Longrightarrow> lease_inv (l\<lparr>ll_lastHeartbeat := t\<rparr>)" "lease_inv l \<Longrightarrow> lease_inv (l\<lparr>ll_held := False\<rparr>)"
  by (auto simp: lease_inv_def)

lemma keeps_heartbeat: "keeps inv_state (heartbeatInternal env)"
  unfolding heartbeatInternal_def by (intro keeps_intros) auto

lemma keeps_background: "keeps inv_state (backgroundHeartbeat env)"
  unfolding backgroundHeartbeat_def by (intro keeps_intros keeps_heartbeat) auto

lemma keeps_release: "keeps inv_state (releaseInternal env)"
  unfolding releaseInternal_def by (intro keeps_intros) auto

text \<open>
  Resizing: an error leaves the durations alone, a success sets the current one. The predicate \<open>D d\<close>
  fixes everything the window operations look at.
\<close>

definition window_state :: "LabLease \<Rightarrow> int \<Rightarrow> LabLease \<times> 'w \<Rightarrow> bool" where
  "window_state l d s \<longleftrightarrow> \<not> (ll_held (fst s) \<and> ll_fenced (fst s)) \<and>
     ll_offlineReserved (fst s) = ll_offlineReserved l \<and>
     ll_ordinaryDurationSeconds (fst s) = ll_ordinaryDurationSeconds l \<and> ll_durationSeconds (fst s) = d"

lemma window_state_kinds [simp]: "worldless (window_state l d)" "fenceable (window_state l d)"
  by (auto simp: worldless_def fenceable_def window_state_def)

lemma triple_of_keeps: "keeps I m \<Longrightarrow> triple I m (\<lambda>_. I) (\<lambda>_. I)"
  by (rule tripleI) (metis keepsD snd_conv)+

lemma triple_resize:
  "triple (window_state l d) (resizeInternal env n) (\<lambda>_. window_state l n) (\<lambda>_. window_state l d)"
proof -
  have upd: "triple (window_state l d)
      (bnd (clock env) (\<lambda>t2. update_self (\<lambda>l. l\<lparr>ll_durationSeconds := n, ll_lastHeartbeat := t2\<rparr>)))
      (\<lambda>_. window_state l n) (\<lambda>_. window_state l d)"
    by (rule triple_bnd [where R = "\<lambda>_. window_state l d"])
      (auto simp: triple_def window_state_def clock_def split: prod.splits)
  have fen: "triple (window_state l d) fence (\<lambda>_. window_state l n) (\<lambda>_. window_state l d)"
    by (auto simp: triple_def window_state_def)
  show ?thesis
    unfolding resizeInternal_def
    by (rule triple_seq [where R = "window_state l d"])
      ((rule triple_catch [where R = "\<lambda>_. window_state l d"], rule fen,
        (rule triple_bnd [where R = "\<lambda>_. window_state l d"] triple_seq [where R = "window_state l d"] upd |
         rule triple_of_keeps, intro keeps_intros; simp)+) |
       rule triple_of_keeps, intro keeps_intros; simp)+
qed

text \<open>A resize followed by a change of the window flag, from an object that satisfies the invariant.\<close>

lemma leads_window:
  fixes env :: "'w lease_env"
  assumes "lease_inv l" and "if b then ll_ordinaryDurationSeconds l \<le> n \<and> n \<le> 2100 else n = ll_ordinaryDurationSeconds l"
  shows "leads (\<lambda>s. fst s = l) (seq (resizeInternal env n) (update_self (\<lambda>l. l\<lparr>ll_offlineReserved := b\<rparr>))) inv_state"
  unfolding leads_def
proof (intro allI impI)
  fix s :: "LabLease \<times> 'w" assume "fst s = l"
  then have w: "window_state l (ll_durationSeconds l) s"
    using assms(1) by (simp add: window_state_def lease_inv_def)
  show "inv_state (snd (seq (resizeInternal env n) (update_self (\<lambda>l. l\<lparr>ll_offlineReserved := b\<rparr>)) s))"
    using tripleD_ok [OF triple_resize w] tripleD_err [OF triple_resize w] assms
    by (auto simp: seq_def bnd_def window_state_def lease_inv_def split: prod.split sum.split if_splits)
qed

lemma keeps_reserve: "keeps inv_state (reserveOfflineWindow env n)"
  unfolding reserveOfflineWindow_def by (rule keeps_guarded, rule leads_window) auto

lemma keeps_finish: "keeps inv_state (finishOfflineWindow env)"
  unfolding finishOfflineWindow_def by (rule keeps_guarded, rule leads_window) auto

lemma keeps_run_call: "keeps inv_state (run_call env c)"
  by (cases c) (simp_all add: keeps_acquire keeps_acquireRecovery keeps_heartbeat keeps_background
      keeps_reserve keeps_finish keeps_release keeps_intros)

lemma lease_inv_new: "lease_inv (newLabLease owner target d receipt)"
  by (simp add: lease_inv_def newLabLease_def)

lemma lease_inv_run_calls: "lease_inv (fst s) \<Longrightarrow> lease_inv (fst (run_calls env cs s))"
proof (induction cs arbitrary: s)
  case (Cons c cs)
  from keepsD [OF keeps_run_call Cons.prems] show ?case using Cons.IH by simp
qed simp

subsubsection \<open>Outcomes of acquisition and release\<close>

lemma leaseHolderReason_cases:
  "leaseHolderReason lease t = None \<longleftrightarrow> no_holder lease"
  "leaseHolderReason lease t = Some r \<Longrightarrow> r = R_LOCK_STALE \<or> r = R_LOCK_BUSY"
  by (auto simp: leaseHolderReason_def split: option.splits if_splits)

lemma leaseHolderReason_stale:
  "leaseHolderReason lease t = Some R_LOCK_STALE \<longleftrightarrow>
     \<not> no_holder lease \<and> (\<exists>d r. ls_leaseDurationSeconds (le_spec lease) = Some d \<and> 0 < d \<and>
       renewed_at lease = Some r \<and> r + d * 1000 \<le> int t)"
  by (auto simp: leaseHolderReason_def split: option.splits if_splits)

lemma readValid_ok:
  "readValid env (l, w) = (Inr lease, s) \<longleftrightarrow>
     (\<exists>w1. env_read env w = (Inr lease, w1) \<and> valid_lease (ll_targetUid l) lease \<and> s = (l, w1))"
  by (auto simp: readValid_def storeRead_def validate_def act_simps split: prod.splits sum.splits if_splits)

lemma assertHeld_ok:
  assumes "assertHeldInternal env (l, w) = (Inr (), (l', w'))"
  shows "l' = l \<and> ll_held l \<and> \<not> ll_fenced l"
proof -
  have keep: "keeps (\<lambda>s. fst s = l) (bnd (locallyFresh env) (\<lambda>fresh.
        seq (requireSafe fresh R_LOCK_LOST)
        (bnd (readValid env) (\<lambda>lease. bnd self (\<lambda>l.
           seq (requireSafe (lease_holder lease = Some (ll_owner l) \<and>
                  ls_leaseDurationSeconds (le_spec lease) = Some (ll_durationSeconds l)) R_LOCK_LOST)
             (case renewed_at lease of
                None \<Rightarrow> throw (hard R_LOCK_LOST)
              | Some renewed \<Rightarrow> bnd (clock env) (\<lambda>t.
                  requireSafe (int t < renewed + ll_durationSeconds l * 1000) R_LOCK_LOST)))))))"
    by (intro keeps_intros) auto
  have "l' = l"
    using assms keepsD [OF keep, of "(l, w)"]
    by (auto simp: assertHeldInternal_def catch_def split: prod.splits sum.splits)
  moreover have "ll_held l \<and> \<not> ll_fenced l"
  proof (rule ccontr)
    assume "\<not> (ll_held l \<and> \<not> ll_fenced l)"
    then have "locallyFresh env (l, w) = (Inr False, (l, w))" by (auto simp: locallyFresh_def act_simps)
    with assms show False by (simp add: assertHeldInternal_def catch_def bnd_def seq_def)
  qed
  ultimately show ?thesis by simp
qed

lemma clock_ok [ok_iffs]: "clock env (l, w) = (Inr t, s) \<longleftrightarrow> (\<exists>w'. env_now env w = (t, w') \<and> s = (l, w'))"
  by (auto simp: clock_def split: prod.splits)

lemma takeHold_ok:
  assumes "takeHold env (l, w) = (Inr (), (l', w'))"
  shows "ll_held l' \<and> \<not> ll_fenced l'"
  using assms by (auto simp: takeHold_def bnd_def seq_def clock_def split: prod.splits sum.splits
      dest: assertHeld_ok)

lemma acquire_ok:
  assumes "acquireInternal env r (l, w) = (Inr (), (l', w'))"
  shows "\<exists>lease w1. env_read env w = (Inr lease, w1) \<and> valid_lease (ll_targetUid l) lease \<and>
    no_holder lease \<and> \<not> ll_held l \<and> \<not> ll_fenced l \<and> ll_held l' \<and> \<not> ll_fenced l'"
proof -
  from assms obtain lease w1 t0 w2 where st: "\<not> ll_held l" "\<not> ll_fenced l"
    and w1: "env_read env w = (Inr lease, w1)" "valid_lease (ll_targetUid l) lease"
    and body: "(case leaseHolderReason lease t0 of
          None \<Rightarrow> seq (requireSafe (r = None \<or> r = Some [] \<or> (\<exists>r \<in> set_option r. is_run_id r)) R_CONFIG)
            (bnd (clock env) (\<lambda>t1. seq (recordReceipt env ''requested'' lease)
              (seq (catch (bnd (storeReplace env (acquired_lease env l r t1 lease)) (\<lambda>_. ret ()))
                     (\<lambda>_. seq (settleLostReply env lease) (throw (hard R_LOCK_BUSY)))) (takeHold env))))
        | Some reason \<Rightarrow> throw (hard reason)) (l, w2) = (Inr (), (l', w'))"
    unfolding acquireInternal_def by (auto simp: ok_iffs readValid_ok simp del: requireSafe_run)
  show ?thesis
  proof (cases "leaseHolderReason lease t0")
    case None
    with body have "\<exists>s. takeHold env s = (Inr (), (l', w'))" by (auto simp: ok_iffs simp del: requireSafe_run)
    then have "ll_held l' \<and> \<not> ll_fenced l'" using takeHold_ok by (metis prod.collapse)
    with None w1 st show ?thesis by (auto simp: leaseHolderReason_cases)
  next
    case (Some reason)
    with body show ?thesis by (simp add: ok_iffs)
  qed
qed

lemma acquire_refused:
  assumes "env_read env w = (Inr lease, w1)" "valid_lease (ll_targetUid l) lease"
    and "env_now env w1 = (t, w2)" "\<not> no_holder lease" "\<not> ll_held l" "\<not> ll_fenced l"
  shows "\<exists>reason. leaseHolderReason lease t = Some reason \<and> reason \<in> {R_LOCK_STALE, R_LOCK_BUSY} \<and>
    acquireInternal env r (l, w) = (Inl (hard reason), (l, w2))"
proof -
  from assms(4) obtain reason where reason: "leaseHolderReason lease t = Some reason"
    using leaseHolderReason_cases(1) [of lease t] by (cases "leaseHolderReason lease t") auto
  have "readValid env (l, w) = (Inr lease, (l, w1))" using assms by (simp add: readValid_ok)
  then have "acquireInternal env r (l, w) = (Inl (hard reason), (l, w2))"
    using assms reason by (simp add: acquireInternal_def bnd_def seq_def gets_def clock_def throw_def)
  with reason leaseHolderReason_cases(2) [OF reason] show ?thesis by auto
qed

end
