(* ===== verification/Lease_Protocol.thy ===== *)
theory Lease_Protocol
  imports Lab_Lease
begin

text \<open>
  What the lab lock promises between runners. The abstract state is the lease object on the API
  server with its history and the time; a step is the passing of time or a compare-and-swap by one
  runner that the rules of the lock permit. The rules are those that the methods of \<open>LabLease\<close>
  follow: take a lease without holder, recover a lease whose holder has been expired for 60 seconds,
  or change a lease that one already holds.

  \<open>serves\<close> states what the methods rely on: the API server applies a replacement only to the version
  it names and gives every stored object a fresh version, the clock is accurate, and other runners
  follow the rules. A reply may be lost after the server has applied the change.
\<close>

subsection \<open>Abstract lock\<close>

record lock_state =
  lk_current :: Lease
  lk_past :: "Lease set"
  lk_time :: nat

definition commit_ok :: "string \<Rightarrow> nat \<Rightarrow> Lease \<Rightarrow> Lease \<Rightarrow> bool" where
  "commit_ok a t base new \<longleftrightarrow> lease_uid new = lease_uid base \<and>
     (no_holder base \<and> lease_holder new = Some a \<or>
      leaseHolderReason base t = Some R_LOCK_STALE \<and> drained base t \<and> lease_holder new = Some a \<or>
      lease_holder base = Some a \<and> (lease_holder new = Some a \<or> lease_holder new = Some []))"

definition with_version :: "string \<Rightarrow> Lease \<Rightarrow> Lease" where
  "with_version v lease = lease\<lparr>le_metadata := (le_metadata lease)\<lparr>lm_resourceVersion := v\<rparr>\<rparr>"

inductive lock_step :: "string option \<Rightarrow> lock_state \<Rightarrow> lock_state \<Rightarrow> bool" where
  tick: "lk_time s \<le> t \<Longrightarrow> lock_step None s (s\<lparr>lk_time := t\<rparr>)"
| commit: "commit_ok a (lk_time s) (lk_current s) new \<Longrightarrow> v \<notin> lease_version ` lk_past s \<Longrightarrow>
     lock_step (Some a) s
       (s\<lparr>lk_current := with_version v new, lk_past := insert (with_version v new) (lk_past s)\<rparr>)"

inductive_cases lock_step_tickE: "lock_step None s t"
inductive_cases lock_step_commitE: "lock_step (Some a) s t"

definition any_step :: "lock_state \<Rightarrow> lock_state \<Rightarrow> bool" where
  "any_step s t \<longleftrightarrow> (\<exists>a. lock_step a s t)"

definition other_step :: "string \<Rightarrow> lock_state \<Rightarrow> lock_state \<Rightarrow> bool" where
  "other_step me s t \<longleftrightarrow> (\<exists>a. a \<noteq> Some me \<and> lock_step a s t)"

definition lock_wf :: "lock_state \<Rightarrow> bool" where
  "lock_wf s \<longleftrightarrow> lk_current s \<in> lk_past s \<and> inj_on lease_version (lk_past s)"

lemma with_version_simps [simp]:
  "lease_version (with_version v x) = v" "le_spec (with_version v x) = le_spec x"
  "lease_uid (with_version v x) = lease_uid x"
  by (simp_all add: with_version_def)

lemma lock_step_mono:
  assumes "lock_step a s t"
  shows "lk_time s \<le> lk_time t \<and> lk_past s \<subseteq> lk_past t \<and> (lock_wf s \<longrightarrow> lock_wf t)"
  using assms by cases (auto simp: lock_wf_def inj_on_insert)

lemma any_steps_mono:
  assumes "any_step\<^sup>*\<^sup>* s t"
  shows "lk_time s \<le> lk_time t \<and> lk_past s \<subseteq> lk_past t \<and> (lock_wf s \<longrightarrow> lock_wf t)"
  using assms
proof induction
  case (step t u)
  then show ?case using lock_step_mono unfolding any_step_def by (meson order_trans)
qed simp

lemma other_any: "(other_step me)\<^sup>*\<^sup>* s t \<Longrightarrow> any_step\<^sup>*\<^sup>* s t"
  by (rule rtranclp_mono [THEN predicate2D, rotated]) (auto simp: other_step_def any_step_def)

text \<open>Staleness and the drain window only grow with time.\<close>

lemma drained_mono: "drained lease t \<Longrightarrow> t \<le> t' \<Longrightarrow> drained lease t'"
  by (auto simp: drained_def split: option.splits)

lemma stale_mono:
  "leaseHolderReason lease t = Some R_LOCK_STALE \<Longrightarrow> t \<le> t' \<Longrightarrow> leaseHolderReason lease t' = Some R_LOCK_STALE"
  by (fastforce simp: leaseHolderReason_stale)

lemma commit_ok_mono: "commit_ok a t base new \<Longrightarrow> t \<le> t' \<Longrightarrow> commit_ok a t' base new"
  unfolding commit_ok_def using drained_mono stale_mono by blast

subsection \<open>Exclusive possession\<close>

text \<open>
  As long as its expiry plus the drain window has not passed, a held lease is changed by nobody
  but its holder.
\<close>

lemma possession_step:
  assumes "other_step me s t" and "lease_holder (lk_current s) = Some me" and "me \<noteq> []"
    and "ls_leaseDurationSeconds (le_spec (lk_current s)) = Some d" and "renewed_at (lk_current s) = Some r"
    and "int (lk_time t) < r + d * 1000 + 60000"
  shows "lk_current t = lk_current s"
proof -
  from assms(1) obtain a where a: "a \<noteq> Some me" "lock_step a s t" by (auto simp: other_step_def)
  from a(2) show ?thesis
  proof cases
    case (commit b new v)
    have "\<not> drained (lk_current s) (lk_time s)"
      using assms(4-6) commit by (simp add: drained_def)
    with commit assms a have False by (auto simp: commit_ok_def no_holder_def)
    then show ?thesis ..
  qed simp
qed

lemma possession_kept:
  assumes "(other_step me)\<^sup>*\<^sup>* s t" and "lease_holder (lk_current s) = Some me" and "me \<noteq> []"
    and "ls_leaseDurationSeconds (le_spec (lk_current s)) = Some d" and "renewed_at (lk_current s) = Some r"
    and "int (lk_time t) < r + d * 1000 + 60000"
  shows "lk_current t = lk_current s"
  using assms
proof induction
  case (step t u)
  have "lk_time t \<le> lk_time u" using step(2) lock_step_mono by (auto simp: other_step_def)
  with step have "lk_current t = lk_current s" by simp
  with step show ?case using possession_step [OF step(2), of d r] by simp
qed simp

subsection \<open>What the methods rely on\<close>

definition serves_read :: "'w lease_env \<Rightarrow> ('w \<Rightarrow> lock_state) \<Rightarrow> string \<Rightarrow> bool" where
  "serves_read env view me \<longleftrightarrow> (\<forall>w r w'. env_read env w = (r, w') \<longrightarrow>
     (\<exists>s. (other_step me)\<^sup>*\<^sup>* (view w) s \<and> (other_step me)\<^sup>*\<^sup>* s (view w') \<and>
       (\<forall>lease. r = Inr lease \<longrightarrow> lease = lk_current s)))"

definition serves_replace :: "'w lease_env \<Rightarrow> ('w \<Rightarrow> lock_state) \<Rightarrow> string \<Rightarrow> bool" where
  "serves_replace env view me \<longleftrightarrow> (\<forall>w new r w'. env_replace env new w = (r, w') \<longrightarrow>
     (\<exists>s t. (other_step me)\<^sup>*\<^sup>* (view w) s \<and> (other_step me)\<^sup>*\<^sup>* t (view w') \<and>
       (t = s \<and> (\<exists>e. r = Inl e) \<or>
        lease_version new = lease_version (lk_current s) \<and>
        (\<exists>v. v \<notin> lease_version ` lk_past s \<and>
          t = s\<lparr>lk_current := with_version v new, lk_past := insert (with_version v new) (lk_past s)\<rparr>))))"

definition serves_clock :: "'w lease_env \<Rightarrow> ('w \<Rightarrow> lock_state) \<Rightarrow> string \<Rightarrow> bool" where
  "serves_clock env view me \<longleftrightarrow> (\<forall>w t w'. env_now env w = (t, w') \<longrightarrow>
     (other_step me)\<^sup>*\<^sup>* (view w) (view w') \<and> lk_time (view w) \<le> t \<and> t \<le> lk_time (view w'))"

definition serves_write :: "'w lease_env \<Rightarrow> ('w \<Rightarrow> lock_state) \<Rightarrow> string \<Rightarrow> bool" where
  "serves_write env view me \<longleftrightarrow> (\<forall>w f n x r w'. env_writeBeside env f n x w = (r, w') \<longrightarrow>
     (other_step me)\<^sup>*\<^sup>* (view w) (view w'))"

definition serves :: "'w lease_env \<Rightarrow> ('w \<Rightarrow> lock_state) \<Rightarrow> string \<Rightarrow> bool" where
  "serves env view me \<longleftrightarrow> serves_read env view me \<and> serves_replace env view me \<and>
     serves_clock env view me \<and> serves_write env view me"

text \<open>A successful check bounds the time left for the holder's own requests.\<close>

lemma assertHeld_reads:
  assumes "assertHeldInternal env (l, w) = (Inr (), (l', w'))"
  obtains w1 w2 lease renewed t where "locallyFresh env (l, w) = (Inr True, (l, w1))"
    "env_read env w1 = (Inr lease, w2)" "lease_holder lease = Some (ll_owner l)"
    "ls_leaseDurationSeconds (le_spec lease) = Some (ll_durationSeconds l)"
    "renewed_at lease = Some renewed" "env_now env w2 = (t, w')"
    "int t < renewed + ll_durationSeconds l * 1000"
proof -
  have fence_not_ok: "fence s \<noteq> (Inr x, s')" for x :: unit and s s' :: "LabLease \<times> 'a"
    by (cases s) simp
  have fresh_keeps: "fst (snd (locallyFresh env (l, w))) = l"
    using keepsD [OF keeps_helpers(7) [OF object_fixed [of l]], of "(l, w)"] by simp
  from assms obtain s1 lease s2 where fr: "locallyFresh env (l, w) = (Inr True, s1)"
    and rd: "readValid env s1 = (Inr lease, s2)"
    and rest: "(case renewed_at lease of None \<Rightarrow> throw (hard R_LOCK_LOST)
       | Some renewed \<Rightarrow> bnd (clock env) (\<lambda>t.
           requireSafe (int t < renewed + ll_durationSeconds (fst s2) * 1000) R_LOCK_LOST)) s2 = (Inr (), (l', w'))"
    and own: "lease_holder lease = Some (ll_owner (fst s2))"
      "ls_leaseDurationSeconds (le_spec lease) = Some (ll_durationSeconds (fst s2))"
    unfolding assertHeldInternal_def
    by (auto simp: ok_iffs fence_not_ok simp del: requireSafe_run fence_run)
  from fr fresh_keeps obtain w1 where s1: "s1 = (l, w1)" by (cases s1) auto
  with rd obtain w2 where w2: "env_read env w1 = (Inr lease, w2)" "s2 = (l, w2)" by (auto simp: readValid_ok)
  from rest w2 obtain renewed t where "renewed_at lease = Some renewed" "env_now env w2 = (t, w')"
    "int t < renewed + ll_durationSeconds l * 1000"
    by (cases "renewed_at lease") (auto simp: ok_iffs simp del: requireSafe_run)
  then show thesis using that fr s1 w2 own by simp
qed

subsection \<open>Calls follow the rules of the lock\<close>

text \<open>
  \<open>since s0 me s\<close>: the owner of the object is \<open>me\<close> and the lock has moved from \<open>s0\<close> by permitted steps.
  \<open>knows\<close> adds a lease that was read on the way and a time that has passed.
\<close>

definition since :: "('w \<Rightarrow> lock_state) \<Rightarrow> lock_state \<Rightarrow> string \<Rightarrow> LabLease \<times> 'w \<Rightarrow> bool" where
  "since view s0 me s \<longleftrightarrow> ll_owner (fst s) = me \<and> lock_wf s0 \<and> any_step\<^sup>*\<^sup>* s0 (view (snd s))"

definition knows :: "('w \<Rightarrow> lock_state) \<Rightarrow> lock_state \<Rightarrow> string \<Rightarrow> Lease \<Rightarrow> nat \<Rightarrow> LabLease \<times> 'w \<Rightarrow> bool" where
  "knows view s0 me base t s \<longleftrightarrow>
     since view s0 me s \<and> base \<in> lk_past (view (snd s)) \<and> t \<le> lk_time (view (snd s))"

lemma since_step: "since view s0 me (l, w) \<Longrightarrow> any_step\<^sup>*\<^sup>* (view w) (view w') \<Longrightarrow> since view s0 me (l, w')"
  by (auto simp: since_def)

lemma knows_step: "knows view s0 me b t (l, w) \<Longrightarrow> any_step\<^sup>*\<^sup>* (view w) (view w') \<Longrightarrow> knows view s0 me b t (l, w')"
  using any_steps_mono by (fastforce simp: knows_def intro: since_step)

lemma knows_since: "knows view s0 me b t s \<Longrightarrow> since view s0 me s"
  by (simp add: knows_def)

text \<open>The calls of the environment, as permitted steps.\<close>

lemma serves_readD:
  assumes "serves env view me" and "env_read env w = (r, w')"
  shows "\<exists>s. any_step\<^sup>*\<^sup>* (view w) s \<and> any_step\<^sup>*\<^sup>* s (view w') \<and> (\<forall>lease. r = Inr lease \<longrightarrow> lease = lk_current s)"
proof -
  from assms obtain s where "(other_step me)\<^sup>*\<^sup>* (view w) s" "(other_step me)\<^sup>*\<^sup>* s (view w')"
    "\<forall>lease. r = Inr lease \<longrightarrow> lease = lk_current s"
    unfolding serves_def serves_read_def by meson
  then show ?thesis using other_any by metis
qed

lemma serves_clockD:
  assumes "serves env view me" and "env_now env w = (t, w')"
  shows "any_step\<^sup>*\<^sup>* (view w) (view w')" "lk_time (view w) \<le> t" "t \<le> lk_time (view w')"
proof -
  from assms have "(other_step me)\<^sup>*\<^sup>* (view w) (view w') \<and> lk_time (view w) \<le> t \<and> t \<le> lk_time (view w')"
    unfolding serves_def serves_clock_def by meson
  then show "any_step\<^sup>*\<^sup>* (view w) (view w')" "lk_time (view w) \<le> t" "t \<le> lk_time (view w')"
    using other_any by metis+
qed

lemma serves_writeD:
  assumes "serves env view me" and "env_writeBeside env f n x w = (r, w')"
  shows "any_step\<^sup>*\<^sup>* (view w) (view w')"
proof -
  from assms have "(other_step me)\<^sup>*\<^sup>* (view w) (view w')"
    unfolding serves_def serves_write_def by meson
  then show ?thesis by (rule other_any)
qed

text \<open>A replacement of a version that was read is a permitted step if the rules allow it.\<close>

lemma serves_replaceD:
  assumes "serves env view me" and "env_replace env new w = (r, w')"
    and "lock_wf (view w)" "base \<in> lk_past (view w)" "lease_version new = lease_version base"
    and "commit_ok me t base new" "t \<le> lk_time (view w)"
  shows "any_step\<^sup>*\<^sup>* (view w) (view w')"
proof -
  from assms(1,2) obtain s u where su: "(other_step me)\<^sup>*\<^sup>* (view w) s" "(other_step me)\<^sup>*\<^sup>* u (view w')"
    and cas: "u = s \<or> lease_version new = lease_version (lk_current s) \<and>
        (\<exists>v. v \<notin> lease_version ` lk_past s \<and>
          u = s\<lparr>lk_current := with_version v new, lk_past := insert (with_version v new) (lk_past s)\<rparr>)"
    unfolding serves_def serves_replace_def by meson
  note m = any_steps_mono [OF other_any [OF su(1)]]
  have "any_step\<^sup>*\<^sup>* s u"
    using cas
  proof
    assume c: "lease_version new = lease_version (lk_current s) \<and>
        (\<exists>v. v \<notin> lease_version ` lk_past s \<and>
          u = s\<lparr>lk_current := with_version v new, lk_past := insert (with_version v new) (lk_past s)\<rparr>)"
    have "lk_current s \<in> lk_past s" "inj_on lease_version (lk_past s)" "base \<in> lk_past s"
      using m assms(3,4) by (auto simp: lock_wf_def)
    then have "lk_current s = base" using c assms(5) by (auto dest: inj_onD)
    then have "commit_ok me (lk_time s) (lk_current s) new" using commit_ok_mono [OF assms(6)] assms(7) m by simp
    with c have "any_step s u" unfolding any_step_def by (auto intro: lock_step.commit)
    then show ?thesis by blast
  qed simp
  with su show ?thesis by (meson other_any rtranclp_trans)
qed

definition progressive :: "('w \<Rightarrow> lock_state) \<Rightarrow> (LabLease \<times> 'w \<Rightarrow> bool) \<Rightarrow> bool" where
  "progressive view P \<longleftrightarrow> (\<forall>l w w'. P (l, w) \<longrightarrow> any_step\<^sup>*\<^sup>* (view w) (view w') \<longrightarrow> P (l, w')) \<and>
     (\<forall>l l' w. P (l, w) \<longrightarrow> ll_owner l' = ll_owner l \<longrightarrow> P (l', w))"

lemma progressive_known [simp]: "progressive view (since view s0 me)" "progressive view (knows view s0 me b t)"
  unfolding progressive_def
  by (intro conjI allI impI, erule (1) since_step, simp add: since_def)
    (intro conjI allI impI, erule (1) knows_step, simp add: since_def knows_def)

lemma progressive_time: "progressive view (\<lambda>s. t \<le> lk_time (view (snd s)))"
  unfolding progressive_def by (auto dest!: any_steps_mono)

lemma keeps_progressive:
  fixes env :: "'w lease_env"
  assumes env: "serves env view me" and P: "progressive view P"
  shows "keeps P (storeRead env)" "keeps P (clock env)" "keeps P (in_world (env_writeBeside env f n x))"
    "keeps P (fence :: ('w, 'a) lease_act)" "(\<And>l. ll_owner (g l) = ll_owner l) \<Longrightarrow> keeps P (update_self g)"
proof -
  have step: "P (l, w) \<Longrightarrow> any_step\<^sup>*\<^sup>* (view w) (view w') \<Longrightarrow> P (l, w')" for l w w'
    using P unfolding progressive_def by blast
  have obj: "P (l, w) \<Longrightarrow> ll_owner l' = ll_owner l \<Longrightarrow> P (l', w)" for l l' w
    using P unfolding progressive_def by blast
  have rd: "any_step\<^sup>*\<^sup>* (view w) (view (snd (env_read env w)))" for w
    using serves_readD [OF env, of w "fst (env_read env w)" "snd (env_read env w)"]
    by (auto intro: rtranclp_trans)
  show "keeps P (storeRead env)"
    unfolding storeRead_def by (rule keeps_in_world) (rule step [OF _ rd])
  show "keeps P (clock env)"
    by (rule keeps_clock, erule step) (rule serves_clockD(1) [OF env], rule surjective_pairing)
  show "keeps P (in_world (env_writeBeside env f n x))"
    by (rule keeps_in_world, erule step) (rule serves_writeD [OF env], rule surjective_pairing)
  show "keeps P (fence :: ('w, 'a) lease_act)"
    by (rule keeps_fence, erule obj) simp
  show "(\<And>l. ll_owner (g l) = ll_owner l) \<Longrightarrow> keeps P (update_self g)"
    by (rule keeps_update_self) (auto intro: obj)
qed

lemma keeps_progressive_helpers:
  assumes env: "serves env view me" and P: "progressive view P"
  shows "keeps P (validate lease)" "keeps P (readValid env)" "keeps P (recordReceipt env st lease)"
    "keeps P (settleLostReply env lease)" "keeps P (locallyFresh env)" "keeps P (assertHeldInternal env)"
    "keeps P (takeHold env)"
  unfolding validate_def readValid_def recordReceipt_def settleLostReply_def locallyFresh_def
    assertHeldInternal_def takeHold_def Let_def
  by (auto intro!: keeps_intros keeps_progressive [OF env P] split: option.split)

text \<open>Rules that carry what was read and when.\<close>

lemma leads_readValid:
  assumes env: "serves env view me" and f: "\<And>lease. leads (knows view s0 me lease 0) (f lease) (since view s0 me)"
  shows "leads (since view s0 me) (bnd (readValid env) f) (since view s0 me)"
  unfolding leads_def
proof (intro allI impI)
  fix s assume s: "since view s0 me s"
  obtain l w where lw: "s = (l, w)" by (cases s)
  have keep: "since view s0 me (snd (readValid env s))"
    using keepsD [OF keeps_progressive_helpers(2) [OF env progressive_known(1)] s] .
  show "since view s0 me (snd (bnd (readValid env) f s))"
  proof -
    obtain r s' where Pair: "readValid env s = (r, s')" by (cases "readValid env s")
    show ?thesis
    proof (cases r)
      case (Inl e)
      with Pair keep show ?thesis by (simp add: bnd_def)
    next
      case (Inr lease)
      with Pair lw obtain w1 where w1: "env_read env w = (Inr lease, w1)" "s' = (l, w1)"
        by (auto simp: readValid_ok)
      from serves_readD [OF env w1(1)] obtain u where u: "any_step\<^sup>*\<^sup>* (view w) u"
        "any_step\<^sup>*\<^sup>* u (view w1)" "lease = lk_current u" by blast
      have "lock_wf u" using s lw any_steps_mono [of s0 u] u(1) by (auto simp: since_def intro: rtranclp_trans)
      then have "lease \<in> lk_past (view w1)" using u any_steps_mono [OF u(2)] by (auto simp: lock_wf_def)
      then have "knows view s0 me lease 0 s'" using keep Pair w1 by (simp add: knows_def)
      then show ?thesis using Pair Inr leadsD [OF f] by (simp add: bnd_def)
    qed
  qed
qed

lemma leads_clock:
  assumes env: "serves env view me" and f: "\<And>t'. t \<le> t' \<Longrightarrow> leads (knows view s0 me b t') (f t') (since view s0 me)"
  shows "leads (knows view s0 me b t) (bnd (clock env) f) (since view s0 me)"
  unfolding leads_def
proof (intro allI impI)
  fix s assume s: "knows view s0 me b t s"
  obtain l w where lw: "s = (l, w)" by (cases s)
  obtain t' w' where now: "env_now env w = (t', w')" by fastforce
  note c = serves_clockD [OF env now]
  from s lw c have "t \<le> t'" and "knows view s0 me b t (l, w')"
    by (auto simp: knows_def intro: knows_step [unfolded knows_def] order_trans) (auto simp: knows_def intro: since_step dest: any_steps_mono)
  then have "t \<le> t'" "knows view s0 me b t' (l, w')" using c by (auto simp: knows_def)
  then show "since view s0 me (snd (bnd (clock env) f s))"
    using lw now leadsD [OF f] by (simp add: bnd_def clock_def)
qed

lemma leads_guard: "(c \<Longrightarrow> leads P n Q) \<Longrightarrow> (\<And>s. P s \<Longrightarrow> Q s) \<Longrightarrow> leads P (seq (requireSafe c code) n) Q"
  by (auto simp: leads_def seq_def bnd_def)

lemma leads_self:
  assumes "\<And>s. P s \<Longrightarrow> ll_owner (fst s) = me" and "\<And>l. ll_owner l = me \<Longrightarrow> leads P (f l) Q"
  shows "leads P (bnd self f) Q"
  using assms by (auto simp: leads_def bnd_def gets_def)

lemma keeps_replace:
  assumes env: "serves env view me" and "lease_version new = lease_version b" and "commit_ok me t b new"
  shows "keeps (knows view s0 me b t) (storeReplace env new)"
  unfolding storeReplace_def
proof (rule keeps_in_world)
  fix l w assume k: "knows view s0 me b t (l, w)"
  then have "lock_wf (view w)" using any_steps_mono by (fastforce simp: knows_def since_def)
  with k assms have "any_step\<^sup>*\<^sup>* (view w) (view (snd (env_replace env new w)))"
    by (intro serves_replaceD [OF env surjective_pairing]) (auto simp: knows_def)
  with k show "knows view s0 me b t (l, snd (env_replace env new w))" by (rule knows_step)
qed

text \<open>The leases that the methods write are permitted successors of the lease they read.\<close>

lemma written_version [simp]:
  "lease_version (acquired_lease env l r t b) = lease_version b" "lease_version (recovered_lease l i t b) = lease_version b"
  "lease_version (renewed_lease t b) = lease_version b" "lease_version (resized_lease n t b) = lease_version b"
  "lease_version (released_lease t b) = lease_version b"
  by (simp_all add: acquired_lease_def recovered_lease_def renewed_lease_def resized_lease_def
      released_lease_def set_annotations_def Let_def)

lemma written_uid [simp]:
  "lease_uid (acquired_lease env l r t b) = lease_uid b" "lease_uid (recovered_lease l i t b) = lease_uid b"
  "lease_uid (renewed_lease t b) = lease_uid b" "lease_uid (resized_lease n t b) = lease_uid b"
  "lease_uid (released_lease t b) = lease_uid b"
  by (simp_all add: acquired_lease_def recovered_lease_def renewed_lease_def resized_lease_def
      released_lease_def set_annotations_def Let_def)

lemma written_holder [simp]:
  "lease_holder (acquired_lease env l r t b) = Some (ll_owner l)" "lease_holder (recovered_lease l i t b) = Some (ll_owner l)"
  "lease_holder (renewed_lease t b) = lease_holder b" "lease_holder (resized_lease n t b) = lease_holder b"
  "lease_holder (released_lease t b) = Some []"
  by (simp_all add: acquired_lease_def recovered_lease_def renewed_lease_def resized_lease_def
      released_lease_def set_annotations_def own_spec_def Let_def)

lemma acquire_refines:
  assumes env: "serves env view me"
  shows "leads (since view s0 me) (acquireInternal env r) (since view s0 me)"
  unfolding acquireInternal_def
proof (rule leads_self)
  fix l :: LabLease assume me: "ll_owner l = me"
  have wr: "keeps (knows view s0 me lease t') (catch (bnd (storeReplace env (acquired_lease env l r t lease)) (\<lambda>_. ret ()))
      (\<lambda>_. seq (settleLostReply env lease) (throw (hard R_LOCK_BUSY))))" if "no_holder lease" for lease t t'
    using that me by (intro keeps_intros keeps_replace [OF env] keeps_progressive_helpers [OF env])
      (auto simp: commit_ok_def)
  show "leads (since view s0 me) (seq (requireSafe (\<not> ll_held l \<and> \<not> ll_fenced l) R_LOCK_LOST)
     (bnd (readValid env) (\<lambda>lease. bnd (clock env) (\<lambda>t0. case leaseHolderReason lease t0 of
          None \<Rightarrow> seq (requireSafe (r = None \<or> r = Some [] \<or> (\<exists>r \<in> set_option r. is_run_id r)) R_CONFIG)
            (bnd (clock env) (\<lambda>t1. seq (recordReceipt env ''requested'' lease)
              (seq (catch (bnd (storeReplace env (acquired_lease env l r t1 lease)) (\<lambda>_. ret ()))
                     (\<lambda>_. seq (settleLostReply env lease) (throw (hard R_LOCK_BUSY)))) (takeHold env))))
        | Some reason \<Rightarrow> throw (hard reason))))) (since view s0 me)"
    by (intro leads_guard leads_readValid [OF env] leads_clock [OF env] leads_option leads_seq wr
        leads_of_keeps [OF keeps_progressive_helpers(7) [OF env progressive_known(2)]]
        leads_of_keeps [OF keeps_basic(2)] keeps_progressive_helpers(3) [OF env progressive_known(2)])
      (auto simp: leaseHolderReason_cases dest: knows_since)
qed (simp add: since_def)

lemma recovery_refines:
  assumes env: "serves env view me"
  shows "leads (since view s0 me) (acquireRecoveryInternal env expected runId) (since view s0 me)"
  unfolding acquireRecoveryInternal_def
proof (rule leads_self)
  fix l :: LabLease assume me: "ll_owner l = me"
  have wr: "keeps (knows view s0 me lease t2)
      (catch (bnd (storeReplace env (recovered_lease l runId t2 lease)) (\<lambda>_. ret ())) (\<lambda>_. throw (hard R_LOCK_BUSY)))"
    if "leaseHolderReason lease t0 = Some R_LOCK_STALE" "drained lease t1" "t0 \<le> t1" "t1 \<le> t2" for lease t0 t1 t2
  proof -
    have "leaseHolderReason lease t2 = Some R_LOCK_STALE \<and> drained lease t2"
      using that stale_mono drained_mono order_trans by meson
    then show ?thesis
      using me by (intro keeps_intros keeps_replace [OF env]) (auto simp: commit_ok_def)
  qed
  show "leads (since view s0 me) (seq (requireSafe (\<not> ll_held l \<and> \<not> ll_fenced l \<and> is_run_id runId) R_RECOVERY)
     (seq (validate expected) (bnd (readValid env) (\<lambda>lease.
      seq (requireSafe (same_claim lease expected) R_LOCK_STALE) (bnd (clock env) (\<lambda>t0.
       seq (requireSafe (leaseHolderReason lease t0 = Some R_LOCK_STALE) R_LOCK_STALE) (bnd (clock env) (\<lambda>t1.
        seq (requireSafe (drained lease t1) R_LOCK_STALE) (bnd (clock env) (\<lambda>t2.
         seq (catch (bnd (storeReplace env (recovered_lease l runId t2 lease)) (\<lambda>_. ret ()))
                (\<lambda>_. throw (hard R_LOCK_BUSY))) (takeHold env))))))))))) (since view s0 me)"
    by (intro leads_guard leads_seq keeps_progressive_helpers(1) [OF env progressive_known(1)]
        leads_readValid [OF env] leads_clock [OF env] wr
        leads_of_keeps [OF keeps_progressive_helpers(7) [OF env progressive_known(2)]]; (assumption | erule knows_since)?)
qed (simp add: since_def)

text \<open>A change of a lease that the object has just seen itself holding.\<close>

lemma own_write:
  assumes env: "serves env view me" and "lease_holder lease = Some me"
    and "lease_holder new = Some me \<or> lease_holder new = Some []" "lease_version new = lease_version lease"
    "lease_uid new = lease_uid lease"
  shows "keeps (knows view s0 me lease t) (bnd (storeReplace env new) (\<lambda>_. ret ()))"
  using assms by (intro keeps_intros keeps_replace [OF env]) (auto simp: commit_ok_def)

lemma leads_catch_fence:
  assumes "serves env view me" and "leads (since view s0 me) m (since view s0 me)"
  shows "keeps (since view s0 me) (catch m (\<lambda>_. fence))"
  using assms(2) keepsD [OF keeps_progressive(4) [OF assms(1) progressive_known(1)]]
  by (fastforce simp: keeps_def leads_def catch_def split: prod.split sum.split)

lemma heartbeat_refines:
  assumes env: "serves env view me"
  shows "keeps (since view s0 me) (heartbeatInternal env)"
proof -
  have body: "leads (since view s0 me) (bnd (readValid env) (\<lambda>lease. bnd self (\<lambda>l.
           seq (requireSafe (lease_holder lease = Some (ll_owner l)) R_LOCK_LOST)
           (bnd (clock env) (\<lambda>t. bnd (storeReplace env (renewed_lease t lease)) (\<lambda>_. ret ())))))) (since view s0 me)"
    by (intro leads_readValid [OF env] leads_self leads_guard leads_clock [OF env] leads_of_keeps own_write [OF env])
      (auto simp: knows_def since_def)
  show ?thesis
    unfolding heartbeatInternal_def
    by (intro keeps_intros leads_catch_fence [OF env body] keeps_progressive [OF env progressive_known(1)]
        keeps_progressive_helpers [OF env progressive_known(1)]) simp
qed

lemma resize_refines:
  assumes env: "serves env view me"
  shows "keeps (since view s0 me) (resizeInternal env n)"
proof -
  have upd: "leads (knows view s0 me lease t) (bnd (clock env) (\<lambda>t2.
      update_self (\<lambda>l. l\<lparr>ll_durationSeconds := n, ll_lastHeartbeat := t2\<rparr>))) (since view s0 me)" for lease t
    by (intro leads_clock [OF env] leads_of_keeps keeps_progressive(5) [OF env progressive_known(2)])
      (auto simp: knows_def)
  have body: "leads (since view s0 me) (bnd (readValid env) (\<lambda>lease. bnd self (\<lambda>l.
           seq (requireSafe (lease_holder lease = Some (ll_owner l) \<and>
                  ls_leaseDurationSeconds (le_spec lease) = Some (ll_durationSeconds l)) R_LOCK_LOST)
           (bnd (clock env) (\<lambda>t0.
            seq (requireSafe (case renewed_at lease of None \<Rightarrow> False
                   | Some renewed \<Rightarrow> int t0 < renewed + ll_durationSeconds l * 1000) R_LOCK_LOST)
            (bnd (clock env) (\<lambda>t1.
             seq (bnd (storeReplace env (resized_lease n t1 lease)) (\<lambda>_. ret ()))
             (bnd (clock env) (\<lambda>t2.
                update_self (\<lambda>l. l\<lparr>ll_durationSeconds := n, ll_lastHeartbeat := t2\<rparr>))))))))))
      (since view s0 me)"
    by (intro leads_readValid [OF env] leads_self leads_guard leads_clock [OF env] leads_seq upd own_write [OF env])
      (auto simp: knows_def since_def)
  show ?thesis
    unfolding resizeInternal_def
    by (intro keeps_intros leads_catch_fence [OF env body] keeps_progressive_helpers [OF env progressive_known(1)])
qed

lemma release_refines:
  assumes env: "serves env view me"
  shows "keeps (since view s0 me) (releaseInternal env)"
proof -
  have tail: "keeps (knows view s0 me lease t) (bnd (readValid env) (\<lambda>released.
             seq (requireSafe (lease_uid released = lease_uid lease \<and> no_holder released) R_LOCK_LOST)
               (recordReceipt env ''released'' released)))" for lease t
    by (intro keeps_intros keeps_progressive_helpers [OF env progressive_known(2)])
  have body: "leads (since view s0 me) (bnd (readValid env) (\<lambda>lease. bnd self (\<lambda>l.
           seq (requireSafe (lease_holder lease = Some (ll_owner l)) R_LOCK_LOST)
           (bnd (clock env) (\<lambda>t.
            seq (bnd (storeReplace env (released_lease t lease)) (\<lambda>_. ret ()))
            (bnd (readValid env) (\<lambda>released.
             seq (requireSafe (lease_uid released = lease_uid lease \<and> no_holder released) R_LOCK_LOST)
               (recordReceipt env ''released'' released)))))))) (since view s0 me)"
    by (intro leads_readValid [OF env] leads_self leads_guard leads_clock [OF env] leads_seq
        own_write [OF env] leads_of_keeps [OF tail]) (auto simp: knows_def since_def)
  show ?thesis
    unfolding releaseInternal_def
    by (intro keeps_intros leads_catch_fence [OF env body] keeps_progressive [OF env progressive_known(1)]
        keeps_progressive_helpers [OF env progressive_known(1)]) simp
qed

lemma call_refines:
  assumes env: "serves env view me"
  shows "keeps (since view s0 me) (run_call env c)"
proof (cases c)
  case (Acquire r)
  then show ?thesis using acquire_refines [OF env] by (simp add: keeps_def leads_def)
next
  case (AcquireRecovery e i)
  then show ?thesis using recovery_refines [OF env] by (simp add: keeps_def leads_def)
next
  case BackgroundHeartbeat
  show ?thesis unfolding BackgroundHeartbeat run_call.simps backgroundHeartbeat_def
    by (intro keeps_intros heartbeat_refines [OF env] keeps_progressive [OF env progressive_known(1)]
        keeps_progressive_helpers [OF env progressive_known(1)])
next
  case (ReserveOfflineWindow n)
  show ?thesis unfolding ReserveOfflineWindow run_call.simps reserveOfflineWindow_def
    by (intro keeps_intros resize_refines [OF env] keeps_progressive [OF env progressive_known(1)]) simp
next
  case FinishOfflineWindow
  show ?thesis unfolding FinishOfflineWindow run_call.simps finishOfflineWindow_def
    by (intro keeps_intros resize_refines [OF env] keeps_progressive [OF env progressive_known(1)]) simp
qed (simp_all add: keeps_progressive_helpers [OF env progressive_known(1)] heartbeat_refines [OF env] release_refines [OF env])

lemma assertHeld_window:
  assumes env: "serves env view (ll_owner l)" and me: "ll_owner l \<noteq> []"
    and ok: "assertHeldInternal env (l, w) = (Inr (), (l', w'))"
    and others: "(other_step (ll_owner l))\<^sup>*\<^sup>* (view w') s" and time: "lk_time s \<le> lk_time (view w) + 60000"
  shows "lease_holder (lk_current s) = Some (ll_owner l)"
proof -
  obtain w1 w2 lease renewed t
    where fr: "locallyFresh env (l, w) = (Inr True, (l, w1))" and rd: "env_read env w1 = (Inr lease, w2)"
      and own: "lease_holder lease = Some (ll_owner l)" "ls_leaseDurationSeconds (le_spec lease) = Some (ll_durationSeconds l)"
      "renewed_at lease = Some renewed" and now: "env_now env w2 = (t, w')"
      and t: "int t < renewed + ll_durationSeconds l * 1000" by (rule assertHeld_reads [OF ok])
  have t1: "lk_time (view w) \<le> lk_time (view w1)"
    using keepsD [OF keeps_progressive_helpers(5) [OF env progressive_time [of view "lk_time (view w)"]], of "(l, w)"] fr
    by simp
  have "serves_read env view (ll_owner l)" using env by (simp add: serves_def)
  from this [unfolded serves_read_def, rule_format, OF rd]
  obtain u where a: "(other_step (ll_owner l))\<^sup>*\<^sup>* (view w1) u"
    and u: "(other_step (ll_owner l))\<^sup>*\<^sup>* u (view w2)" "lease = lk_current u" by auto
  have t2: "lk_time (view w1) \<le> lk_time (view w2)"
    using any_steps_mono [OF other_any [OF a]] any_steps_mono [OF other_any [OF u(1)]] by simp
  have "lk_time (view w2) \<le> t" "(other_step (ll_owner l))\<^sup>*\<^sup>* (view w2) (view w')"
    using env now unfolding serves_def serves_clock_def by blast+
  then have late: "int (lk_time s) < renewed + ll_durationSeconds l * 1000 + 60000"
    and path: "(other_step (ll_owner l))\<^sup>*\<^sup>* u s"
    using t1 t2 t time u(1) others by (simp, meson rtranclp_trans)
  have "lk_current s = lk_current u"
    by (rule possession_kept [OF path _ me _ _ late]) (use own u in auto)
  with own u show ?thesis by simp
qed

subsection \<open>A server that keeps its history\<close>

text \<open>
  A concrete environment: one lease with its older versions and a clock that stands still between
  calls. It shows that the assumptions of \<open>serves\<close> can hold, and runs the methods on examples.
\<close>

record kept_world =
  kw_current :: Lease
  kw_older :: "Lease list"
  kw_time :: nat

definition kept_view :: "kept_world \<Rightarrow> lock_state" where
  "kept_view w = \<lparr>lk_current = kw_current w, lk_past = set (kw_current w # kw_older w), lk_time = kw_time w\<rparr>"

definition fresh_version :: "kept_world \<Rightarrow> string" where
  "fresh_version w = concat (map lease_version (kw_current w # kw_older w)) @ ''x''"

definition kept_env :: "kept_world lease_env" where
  "kept_env = \<lparr>env_read = (\<lambda>w. (Inr (kw_current w), w)),
     env_replace = (\<lambda>new w. if lease_version new = lease_version (kw_current w)
       then (let stored = with_version (fresh_version w) new
             in (Inr stored, w\<lparr>kw_current := stored, kw_older := kw_current w # kw_older w\<rparr>))
       else (Inl (Other ''Conflict''), w)),
     env_now = (\<lambda>w. (kw_time w, w)),
     env_writeBeside = (\<lambda>_ _ _ w. (Inr (), w)),
     env_runUid = None\<rparr>"

lemma length_concat_member: "x \<in> set xs \<Longrightarrow> length x \<le> length (concat xs)"
  by (induction xs) auto

lemma fresh_version_notin: "fresh_version w \<notin> lease_version ` lk_past (kept_view w)"
proof
  assume "fresh_version w \<in> lease_version ` lk_past (kept_view w)"
  then have "fresh_version w \<in> set (map lease_version (kw_current w # kw_older w))"
    by (auto simp: kept_view_def)
  from length_concat_member [OF this] show False by (simp add: fresh_version_def)
qed

lemma kept_env_serves: "serves kept_env kept_view me"
  unfolding serves_def serves_read_def serves_replace_def serves_clock_def serves_write_def
proof (intro conjI allI impI)
  fix w new r w' assume eq: "env_replace kept_env new w = (r, w')"
  show "\<exists>s t. (other_step me)\<^sup>*\<^sup>* (kept_view w) s \<and> (other_step me)\<^sup>*\<^sup>* t (kept_view w') \<and>
       (t = s \<and> (\<exists>e. r = Inl e) \<or> lease_version new = lease_version (lk_current s) \<and>
        (\<exists>v. v \<notin> lease_version ` lk_past s \<and>
          t = s\<lparr>lk_current := with_version v new, lk_past := insert (with_version v new) (lk_past s)\<rparr>))"
    using eq fresh_version_notin [of w]
    by (intro exI [of _ "kept_view w"] exI [of _ "kept_view w'"])
      (auto simp: kept_env_def kept_view_def Let_def split: if_splits)
qed (auto simp: kept_env_def kept_view_def)

definition free_lease :: Lease where
  "free_lease = \<lparr>le_apiVersion = ''coordination.k8s.io/v1'', le_kind = ''Lease'',
     le_metadata = \<lparr>lm_name = ''lab-lock'', lm_namespace = ''magicstick-regression'', lm_uid = Some ''u1'',
       lm_resourceVersion = ''1'', lm_labels = [(''regression.magicstick.dev/appliance-uid'', ''box'')],
       lm_annotations = None\<rparr>,
     le_spec = \<lparr>ls_holderIdentity = None, ls_renewTime = None, ls_leaseDurationSeconds = None\<rparr>\<rparr>"

definition lease_of_run :: "string \<Rightarrow> nat \<Rightarrow> int \<Rightarrow> Lease" where
  "lease_of_run owner t d = free_lease\<lparr>le_spec := \<lparr>ls_holderIdentity = Some owner,
     ls_renewTime = Some (leaseTime t), ls_leaseDurationSeconds = Some d\<rparr>\<rparr>"

definition kept_start :: "Lease \<Rightarrow> nat \<Rightarrow> kept_world" where
  "kept_start lease t = \<lparr>kw_current = lease, kw_older = [], kw_time = t\<rparr>"

definition runner :: "string \<Rightarrow> LabLease" where
  "runner owner = newLabLease owner ''box'' 60 None"

lemma kept_start_wf: "lock_wf (kept_view (kept_start lease t))"
  by (simp add: lock_wf_def kept_view_def kept_start_def)

subsection \<open>Properties\<close>

text \<open>
  C1: Every call on a \<open>LabLease\<close> moves the lock by permitted steps only, whatever the outcome of the
  call and whether or not replies are lost: it takes a lease without holder, recovers one that has
  been expired for 60 seconds, or changes one that its owner holds.
\<close>

theorem lease_calls_follow_protocol:
  assumes "serves env view (ll_owner l)" and "lock_wf (view w)"
  shows "any_step\<^sup>*\<^sup>* (view w) (view (snd (snd (run_call env c (l, w)))))"
proof -
  have "since view (view w) (ll_owner l) (l, w)" using assms(2) by (simp add: since_def)
  from keepsD [OF call_refines [OF assms(1)] this] show ?thesis by (simp add: since_def)
qed

theorem lease_calls_follow_protocol_witness:
  "serves kept_env kept_view ''A'' \<and> lock_wf (kept_view (kept_start free_lease 5000)) \<and>
   any_step\<^sup>*\<^sup>* (kept_view (kept_start free_lease 5000))
     (kept_view (snd (snd (run_call kept_env (Acquire None) (runner ''A'', kept_start free_lease 5000)))))"
  using lease_calls_follow_protocol [of kept_env kept_view "runner ''A''" "kept_start free_lease 5000" "Acquire None"]
    kept_env_serves [of "''A''"] kept_start_wf [of free_lease 5000]
  by (simp add: runner_def newLabLease_def)

text \<open>
  C2: After a successful \<open>assertHeld\<close> no other runner takes the lease within the next 60 seconds,
  counted from the start of the check. This is the drain window that outlasts the bounded writes
  which follow the check.
\<close>

theorem lease_check_excludes_others:
  assumes "serves env view (ll_owner l)" and "ll_owner l \<noteq> []"
    and "run_call env AssertHeld (l, w) = (Inr (), (l', w'))"
    and "(other_step (ll_owner l))\<^sup>*\<^sup>* (view w') s" and "lk_time s \<le> lk_time (view w) + 60000"
  shows "lease_holder (lk_current s) = Some (ll_owner l)"
  using assertHeld_window [OF assms(1,2) _ assms(4,5)] assms(3) by simp

definition holding_runner :: LabLease where
  "holding_runner = (runner ''A'')\<lparr>ll_held := True, ll_lastHeartbeat := 5000\<rparr>"

lemmas kept_run_simps = kept_env_def kept_start_def lease_of_run_def free_lease_def runner_def
  newLabLease_def valid_lease_def no_holder_def renewed_at_def date_parse_leaseTime clock_def
  holding_runner_def assertHeldInternal_def locallyFresh_def readValid_def storeRead_def validate_def act_simps

lemma holding_runner_check:
  "run_call kept_env AssertHeld (holding_runner, kept_start (lease_of_run ''A'' 5000 60) 6000) =
     (Inr (), (holding_runner, kept_start (lease_of_run ''A'' 5000 60) 6000))"
  by (simp add: kept_run_simps)

theorem lease_check_excludes_others_witness:
  "lease_holder (lk_current (kept_view (kept_start (lease_of_run ''A'' 5000 60) 6000))) = Some ''A''"
proof -
  have o: "ll_owner holding_runner = ''A''" by (simp add: holding_runner_def runner_def newLabLease_def)
  show ?thesis
    using lease_check_excludes_others [OF kept_env_serves _ holding_runner_check, of "kept_view (kept_start (lease_of_run ''A'' 5000 60) 6000)"]
    unfolding o by simp
qed

text \<open>
  C3: The fence is final. Once an object has lost the lease, every sequence of calls on it leaves the
  world untouched (no read, no write, no clock reading, no file), every single call fails, and the
  object stays fenced.
\<close>

theorem lease_fence_is_final:
  assumes "ll_fenced l"
  shows "(\<exists>l'. run_calls env cs (l, w) = (l', w) \<and> ll_fenced l') \<and>
    (\<exists>e l'. run_call env c (l, w) = (Inl e, (l', w)) \<and> ll_fenced l')"
  using fenced_calls_fail [OF assms, of env cs w] fenced_call_fails [OF assms, of env c w] by blast

theorem lease_fence_is_final_witness:
  "\<exists>e l'. run_call kept_env Heartbeat ((runner ''A'')\<lparr>ll_fenced := True\<rparr>, kept_start free_lease 0) =
     (Inl e, (l', kept_start free_lease 0)) \<and> ll_fenced l'"
  using lease_fence_is_final [of "(runner ''A'')\<lparr>ll_fenced := True\<rparr>" kept_env "[]" "kept_start free_lease 0" Heartbeat]
  by simp

text \<open>
  In every state that calls can reach from a new object, a fenced object does not hold the lease
  and the duration is the ordinary one outside a reserved outage window, and between the ordinary
  one and 2100 seconds inside.
\<close>

theorem lease_object_invariant:
  "lease_inv (fst (run_calls env cs (newLabLease owner target d receipt, w)))"
  by (rule lease_inv_run_calls) (simp add: lease_inv_new)

text \<open>
  C4: Ordinary acquisition never takes over a holder: if it succeeds, the lease it read was the valid
  lab lease without any holder, and afterwards the object holds it unfenced.
\<close>

theorem lease_acquire_never_steals:
  assumes "run_call env (Acquire r) (l, w) = (Inr (), (l', w'))"
  shows "(\<exists>lease w1. env_read env w = (Inr lease, w1) \<and> valid_lease (ll_targetUid l) lease \<and> no_holder lease) \<and>
    ll_held l' \<and> \<not> ll_fenced l'"
  using acquire_ok [of env r l w l' w'] assms by auto

lemma runner_acquires:
  "\<exists>w. run_call kept_env (Acquire None) (runner ''A'', kept_start free_lease 5000) = (Inr (), (holding_runner, w))"
  by (simp add: kept_run_simps storeReplace_def acquireInternal_def leaseHolderReason_def recordReceipt_def
      takeHold_def acquired_lease_def set_annotations_def own_spec_def with_version_def Let_def fresh_version_def)

theorem lease_acquire_never_steals_witness:
  "\<exists>w. run_call kept_env (Acquire None) (runner ''A'', kept_start free_lease 5000) = (Inr (), (holding_runner, w)) \<and>
     no_holder free_lease \<and> ll_held holding_runner \<and> \<not> ll_fenced holding_runner"
proof -
  obtain w where run: "run_call kept_env (Acquire None) (runner ''A'', kept_start free_lease 5000) = (Inr (), (holding_runner, w))"
    using runner_acquires by blast
  from lease_acquire_never_steals [OF run] run show ?thesis by (simp add: kept_env_def kept_start_def)
qed

text \<open>
  Acquisition of a lease that has a holder fails with \<open>LOCK_STALE\<close> exactly when the recorded expiry
  has passed and with \<open>LOCK_BUSY\<close> otherwise (also when the expiry is missing or unreadable), after one
  read and one clock reading and without any write.
\<close>

theorem lease_acquire_refuses_holder:
  assumes "env_read env w = (Inr lease, w1)" "valid_lease (ll_targetUid l) lease"
    and "env_now env w1 = (t, w2)" "\<not> no_holder lease" "\<not> ll_held l" "\<not> ll_fenced l"
  shows "run_call env (Acquire r) (l, w) =
    (Inl (hard (if \<exists>d renewed. ls_leaseDurationSeconds (le_spec lease) = Some d \<and> 0 < d \<and>
           renewed_at lease = Some renewed \<and> renewed + d * 1000 \<le> int t
         then R_LOCK_STALE else R_LOCK_BUSY)), (l, w2))"
  using acquire_refused [OF assms, of r] leaseHolderReason_stale [of lease t] assms(4) by auto

theorem lease_acquire_refuses_holder_witness:
  "run_call kept_env (Acquire None) (runner ''B'', kept_start (lease_of_run ''A'' 5000 60) 6000) =
     (Inl (hard R_LOCK_BUSY), (runner ''B'', kept_start (lease_of_run ''A'' 5000 60) 6000))"
proof -
  have now: "env_now kept_env (kept_start (lease_of_run ''A'' 5000 60) 6000) =
      (6000, kept_start (lease_of_run ''A'' 5000 60) 6000)"
    by (simp add: kept_env_def kept_start_def)
  have rd: "env_read kept_env (kept_start (lease_of_run ''A'' 5000 60) 6000) =
      (Inr (lease_of_run ''A'' 5000 60), kept_start (lease_of_run ''A'' 5000 60) 6000)"
    by (simp add: kept_env_def kept_start_def)
  have ren: "renewed_at (lease_of_run ''A'' 5000 60) = Some 5000"
    by (simp add: renewed_at_def lease_of_run_def date_parse_leaseTime)
  show ?thesis
    using lease_acquire_refuses_holder [OF rd _ now, of "runner ''B''" None] ren
    by (simp add: lease_of_run_def free_lease_def valid_lease_def runner_def newLabLease_def no_holder_def)
qed

text \<open>
  A time written to the lease is read back exactly: for every time up to the year 9994,
  \<open>Date.parse\<close> of what \<open>leaseTime\<close> prints is that time in milliseconds.
\<close>

theorem lease_time_roundtrip:
  assumes "ms < 2930950 * 86400000"
  shows "date_parse (leaseTime ms) = Some (int ms)"
  using assms by (rule date_parse_leaseTime)

theorem lease_time_roundtrip_witness: "date_parse (leaseTime 1700000000123) = Some 1700000000123"
  using lease_time_roundtrip [of 1700000000123] by simp

end
