(* ===== verification/Kubernetes_Command.thy ===== *)
theory Kubernetes_Command
  imports Harness_Errors
begin

text \<open>
  Classification of \<open>kubectl\<close> failures (\<open>regression/core/kubernetes-command.ts\<close>): what of a failed
  command's output may leave the subprocess boundary, and the validation of such a diagnostic when
  it is read back. \<open>JSON.parse\<close> on the command's output is the parameter \<open>parse\<close>; every statement
  holds for any such function. A result \<^const>\<open>None\<close> of a parser is the error \<open>CONFIG\<close>.
\<close>

subsection \<open>Vocabulary\<close>

definition statusCodes :: "(string \<times> int) list" where
  "statusCodes = [(''BadRequest'', 400), (''Unauthorized'', 401), (''Forbidden'', 403), (''NotFound'', 404),
     (''MethodNotAllowed'', 405), (''NotAcceptable'', 406), (''AlreadyExists'', 409), (''Conflict'', 409),
     (''Gone'', 410), (''Expired'', 410), (''RequestEntityTooLarge'', 413), (''UnsupportedMediaType'', 415),
     (''Invalid'', 422), (''TooManyRequests'', 429), (''InternalError'', 500), (''ServiceUnavailable'', 503),
     (''Timeout'', 504), (''ServerTimeout'', 500)]"

definition matchesStatus :: "jsval \<Rightarrow> jsval option \<Rightarrow> bool" where
  "matchesStatus reason code =
     (if reason = JStr ''InternalError'' then code = Some JNull \<or> int_between 500 599 code
      else map_option JInt (map_of statusCodes (js_to_string reason)) = code)"

definition commandFailures :: "string list" where
  "commandFailures = [''api'', ''timeout'', ''spawn'', ''input'', ''signal'', ''output-limit'', ''unknown'']"

definition commandSignals :: "string list" where
  "commandSignals = [''SIGTERM'', ''SIGKILL'', ''SIGINT'', ''SIGHUP'', ''SIGPIPE'', ''OTHER'']"

definition is_statusReason :: "string \<Rightarrow> bool" where
  "is_statusReason s \<longleftrightarrow> map_of statusCodes s \<noteq> None"

subsection \<open>Validation of a diagnostic\<close>

definition valid_command_diagnostic :: "jsval \<Rightarrow> bool" where
  "valid_command_diagnostic v \<longleftrightarrow>
     (let failure = jget v ''commandFailure''; status = jget v ''httpStatus'';
          reason = jget v ''kubernetesReason''; code = jget v ''exitCode''; sig = jget v ''processSignal''
      in truthy v \<and> one_of commandFailures failure \<and>
         (status = Some JNull \<or> int_between 100 599 status) \<and>
         (case reason of None \<Rightarrow> True
          | Some r \<Rightarrow> is_statusReason (js_to_string r) \<and> matchesStatus r status) \<and>
         (code = None \<or> int_between 0 255 code) \<and>
         (sig = None \<or> one_of commandSignals sig) \<and>
         (failure = Some (JStr ''api'') \<or> status = Some JNull \<and> reason = None) \<and>
         (failure \<noteq> Some (JStr ''api'') \<or> code = Some (JInt 1) \<and> sig = None) \<and>
         (failure \<noteq> Some (JStr ''signal'') \<or> sig \<noteq> None))"

definition parseKubernetesCommandDiagnostic :: "jsval \<Rightarrow> jsval obj option" where
  "parseKubernetesCommandDiagnostic v =
     (if valid_command_diagnostic v
      then Some (field ''commandFailure'' (jget v ''commandFailure'') @ field ''httpStatus'' (jget v ''httpStatus'') @
        field ''kubernetesReason'' (jget v ''kubernetesReason'') @ field ''exitCode'' (jget v ''exitCode'') @
        field ''processSignal'' (jget v ''processSignal''))
      else None)"

text \<open>\<open>new KubernetesCommandError(value)\<close>\<close>

definition newKubernetesCommandError :: "jsval obj \<Rightarrow> js_error" where
  "newKubernetesCommandError value =
     (case parseKubernetesCommandDiagnostic (JObj value) of
        None \<Rightarrow> hard R_CONFIG
      | Some d \<Rightarrow> Harness ((mkHarnessError R_OBSERVER None None None)\<lparr>he_class := KubernetesCommandError d\<rparr>))"

subsection \<open>Classification\<close>

definition is_letter :: "char \<Rightarrow> bool" where
  "is_letter c \<longleftrightarrow> is_lower c \<or> is_upper c"

text \<open>\<open>/^Error from server \(([A-Za-z]+)\):/\<close>\<close>

definition server_error_reason :: "string \<Rightarrow> string option" where
  "server_error_reason s =
     (let p = ''Error from server (''; rest = drop (length p) s; name = takeWhile is_letter rest
      in if startsWith s p \<and> name \<noteq> [] \<and> startsWith (dropWhile is_letter rest) ''):'' then Some name else None)"

text \<open>The object \<open>{commandFailure: 'unknown', httpStatus: null, ...exit}\<close> and its siblings.\<close>

definition failure_object :: "string \<Rightarrow> jsval \<Rightarrow> jsval obj \<Rightarrow> jsval obj" where
  "failure_object failure status rest = (''commandFailure'', JStr failure) # (''httpStatus'', status) # rest"

definition exit_field :: "int option \<Rightarrow> jsval obj" where
  "exit_field exitCode = (case exitCode of None \<Rightarrow> []
     | Some c \<Rightarrow> if 0 \<le> c \<and> c \<le> 255 then [(''exitCode'', JInt c)] else [])"

definition is_failure_status :: "jsval \<Rightarrow> bool" where
  "is_failure_status s \<longleftrightarrow>
     is_object s \<and> one_of [''Status''] (jget s ''kind'') \<and>
     text_of (jget s ''apiVersion'') \<in> {''v1'', ''meta.k8s.io/v1''} \<and>
     one_of [''Failure''] (jget s ''status'') \<and> int_between 400 599 (jget s ''code'')"

definition known_reason :: "jsval \<Rightarrow> jsval option" where
  "known_reason s = (case jget s ''reason'' of
     Some (JStr r) \<Rightarrow> if is_statusReason r then Some (JStr r) else None | _ \<Rightarrow> None)"

definition kubernetesCommandFailure ::
  "(string \<Rightarrow> jsval option) \<Rightarrow> string \<Rightarrow> string \<Rightarrow> int option \<Rightarrow> string option \<Rightarrow> jsval obj" where
  "kubernetesCommandFailure parse stdout stderr exitCode signal =
     (let exit = exit_field exitCode; unknown = failure_object ''unknown'' JNull exit
      in case signal of
        Some sg \<Rightarrow> failure_object ''signal'' JNull
          (exit @ [(''processSignal'', JStr (if sg \<in> set commandSignals then sg else ''OTHER''))])
      | None \<Rightarrow>
        if exitCode \<noteq> Some 1 then unknown
        else
          let body = (if length stdout \<le> 64 * 1024 then parse stdout else None);
              by_prefix = (case server_error_reason (dropWhile is_space stderr) of
                 Some reason \<Rightarrow>
                   (case map_of statusCodes reason of
                      Some code \<Rightarrow> failure_object ''api''
                        (if reason = ''InternalError'' then JNull else JInt code)
                        ((''kubernetesReason'', JStr reason) # exit)
                    | None \<Rightarrow> unknown)
               | None \<Rightarrow> unknown)
          in case body of
               None \<Rightarrow> by_prefix
             | Some s \<Rightarrow>
                 if is_failure_status s then
                   case (known_reason s, jget s ''code'') of
                     (Some r, code) \<Rightarrow>
                       if matchesStatus r code
                       then failure_object ''api'' (case code of Some c \<Rightarrow> c | None \<Rightarrow> JNull) (exit @ [(''kubernetesReason'', r)])
                       else unknown
                   | (None, code) \<Rightarrow> failure_object ''api'' (case code of Some c \<Rightarrow> c | None \<Rightarrow> JNull) exit
                 else by_prefix)"

subsection \<open>Lemmas\<close>

lemma statusCodes_range: "map_of statusCodes r = Some c \<Longrightarrow> 100 \<le> c \<and> c \<le> 599"
  by (auto simp: statusCodes_def split: if_splits)

lemma is_failure_statusD:
  assumes "is_failure_status s"
  obtains ob c where "s = JObj ob" "oget ob ''code'' = Some (JInt c)" "400 \<le> c" "c \<le> 599"
  using assms by (cases s) (auto simp: is_failure_status_def int_between_iff)

lemma known_reasonD:
  assumes "known_reason s = Some r"
  obtains n where "r = JStr n" "is_statusReason n" "jget s ''reason'' = Some (JStr n)"
  using assms by (auto simp: known_reason_def split: option.splits jsval.splits if_splits)

lemma exit_field_one [simp]: "exit_field (Some 1) = [(''exitCode'', JInt 1)]"
  by (simp add: exit_field_def)

lemma oget_exit_field:
  "oget (exit_field c) k = (case c of Some n \<Rightarrow> if 0 \<le> n \<and> n \<le> 255 \<and> k = ''exitCode'' then Some (JInt n) else None | None \<Rightarrow> None)"
  by (auto simp: exit_field_def split: option.splits)

text \<open>The three shapes of a classified failure.\<close>

lemma failure_cases:
  obtains
    (signal) sg where "signal \<noteq> None" "sg \<in> set commandSignals"
      "kubernetesCommandFailure parse stdout stderr exitCode signal =
         failure_object ''signal'' JNull (exit_field exitCode @ [(''processSignal'', JStr sg)])"
  | (api) status rest where "signal = None" "exitCode = Some 1"
      "kubernetesCommandFailure parse stdout stderr exitCode signal = failure_object ''api'' status rest"
      "rest = [(''exitCode'', JInt 1)] \<or>
       (\<exists>r. is_statusReason r \<and> matchesStatus (JStr r) (Some status) \<and>
         (rest = [(''exitCode'', JInt 1), (''kubernetesReason'', JStr r)] \<or>
          rest = [(''kubernetesReason'', JStr r), (''exitCode'', JInt 1)]))"
      "status = JNull \<or> (\<exists>c. status = JInt c \<and> 100 \<le> c \<and> c \<le> 599)"
  | (unknown) "signal = None" "kubernetesCommandFailure parse stdout stderr exitCode signal = failure_object ''unknown'' JNull (exit_field exitCode)"
proof (cases signal)
  case (Some sg)
  then show ?thesis
    by (intro signal [of "if sg \<in> set commandSignals then sg else ''OTHER''"])
      (auto simp: kubernetesCommandFailure_def commandSignals_def)
next
  case none: None
  show ?thesis
  proof (cases "exitCode = Some 1")
    case False
    with none show ?thesis by (intro unknown) (auto simp: kubernetesCommandFailure_def)
  next
    case True
    let ?body = "if length stdout \<le> 64 * 1024 then parse stdout else None"
    show ?thesis
    proof (cases "\<exists>s. ?body = Some s \<and> is_failure_status s")
      case body: True
      then obtain s where s: "?body = Some s" "is_failure_status s" by blast
      from s(2) obtain ob c where c: "s = JObj ob" "oget ob ''code'' = Some (JInt c)" "400 \<le> c" "c \<le> 599"
        by (rule is_failure_statusD)
      show ?thesis
      proof (cases "known_reason s")
        case None
        with s c none True show ?thesis
          by (intro api [of "JInt c" "[(''exitCode'', JInt 1)]"]) (auto simp: kubernetesCommandFailure_def Let_def)
      next
        case (Some r)
        then obtain n where n: "r = JStr n" "is_statusReason n" by (rule known_reasonD)
        show ?thesis
        proof (cases "matchesStatus r (Some (JInt c))")
          case m: True
          with s c n Some none True show ?thesis
            by (intro api [of "JInt c" "[(''exitCode'', JInt 1), (''kubernetesReason'', JStr n)]"])
              (auto simp: kubernetesCommandFailure_def Let_def)
        next
          case False
          with s c n Some none True show ?thesis
            by (intro unknown) (auto simp: kubernetesCommandFailure_def Let_def)
        qed
      qed
    next
      case False
      then have eq: "kubernetesCommandFailure parse stdout stderr exitCode signal =
          (case server_error_reason (dropWhile is_space stderr) of
             Some reason \<Rightarrow> (case map_of statusCodes reason of
               Some code \<Rightarrow> failure_object ''api'' (if reason = ''InternalError'' then JNull else JInt code)
                 ((''kubernetesReason'', JStr reason) # exit_field exitCode)
             | None \<Rightarrow> failure_object ''unknown'' JNull (exit_field exitCode))
           | None \<Rightarrow> failure_object ''unknown'' JNull (exit_field exitCode))"
        using none True by (auto simp: kubernetesCommandFailure_def Let_def split: option.splits)
      show ?thesis
      proof (cases "\<exists>r code. server_error_reason (dropWhile is_space stderr) = Some r \<and> map_of statusCodes r = Some code")
        case p: True
        then obtain r code where r: "server_error_reason (dropWhile is_space stderr) = Some r" "map_of statusCodes r = Some code"
          by blast
        show ?thesis
          using none True eq r statusCodes_range [OF r(2)]
          by (intro api [of "if r = ''InternalError'' then JNull else JInt code" "[(''kubernetesReason'', JStr r), (''exitCode'', JInt 1)]"])
            (auto simp: is_statusReason_def matchesStatus_def)
      next
        case False
        with eq none show ?thesis by (intro unknown) (auto split: option.splits)
      qed
    qed
  qed
qed

subsection \<open>Properties\<close>

text \<open>
  Whatever a failed command printed, its classification passes the validation that every reader of
  a diagnostic applies, unchanged in every field. So the constructor of \<open>KubernetesCommandError\<close> never
  throws on it.
\<close>

theorem kubernetes_failure_revalidates:
  "\<exists>d. parseKubernetesCommandDiagnostic (JObj (kubernetesCommandFailure parse stdout stderr exitCode signal)) = Some d \<and>
     (\<forall>k. oget d k = oget (kubernetesCommandFailure parse stdout stderr exitCode signal) k)"
proof (cases rule: failure_cases [of signal parse stdout stderr exitCode])
  case (signal sg)
  then show ?thesis
    by (auto simp: parseKubernetesCommandDiagnostic_def valid_command_diagnostic_def Let_def failure_object_def
        oget_append oget_exit_field commandFailures_def field_def split: option.split)
next
  case (api status rest)
  then show ?thesis
    by (auto simp: parseKubernetesCommandDiagnostic_def valid_command_diagnostic_def Let_def failure_object_def
        oget_append commandFailures_def field_def split: option.split)
next
  case unknown
  then show ?thesis
    by (auto simp: parseKubernetesCommandDiagnostic_def valid_command_diagnostic_def Let_def failure_object_def
        oget_append oget_exit_field commandFailures_def field_def split: option.split)
qed

text \<open>
  A retryable conflict is never made up. If a failure is classified as HTTP 409 with the reason
  \<open>Conflict\<close>, the process ended by itself with exit code 1 and either its output is a Kubernetes status
  object of that code and reason, or its error output begins with the server's fixed prefix for that
  reason.
\<close>

theorem kubernetes_conflict_confirmed:
  assumes "oget (kubernetesCommandFailure parse stdout stderr exitCode signal) ''httpStatus'' = Some (JInt 409)"
    and "oget (kubernetesCommandFailure parse stdout stderr exitCode signal) ''kubernetesReason'' = Some (JStr ''Conflict'')"
  shows "exitCode = Some 1 \<and> signal = None \<and>
    ((\<exists>s. parse stdout = Some s \<and> is_failure_status s \<and> jget s ''code'' = Some (JInt 409) \<and>
        jget s ''reason'' = Some (JStr ''Conflict'')) \<or>
     server_error_reason (dropWhile is_space stderr) = Some ''Conflict'')"
proof -
  from assms(1) have "signal = None" "exitCode = Some 1"
    by (cases rule: failure_cases [of signal parse stdout stderr exitCode]; auto simp: failure_object_def)+
  with assms show ?thesis
    by (auto simp: kubernetesCommandFailure_def Let_def failure_object_def oget_append known_reason_def
        split: option.splits if_splits jsval.splits)
qed

theorem kubernetes_conflict_confirmed_witness:
  "server_error_reason ''Error from server (Conflict): x'' = Some ''Conflict''"
proof -
  have m: "server_error_reason (dropWhile is_space ''Error from server (Conflict): x'') = Some ''Conflict''"
    by code_simp
  have "kubernetesCommandFailure (\<lambda>_. None) [] ''Error from server (Conflict): x'' (Some 1) None =
      [(''commandFailure'', JStr ''api''), (''httpStatus'', JInt 409), (''kubernetesReason'', JStr ''Conflict''), (''exitCode'', JInt 1)]"
    using m by (simp add: kubernetesCommandFailure_def failure_object_def statusCodes_def)
  with kubernetes_conflict_confirmed [of "\<lambda>_. None" "[]" "''Error from server (Conflict): x''" "Some 1" None]
  show ?thesis by (simp add: is_space_def code_in_def)
qed

end
