(* ===== verification/Cleanup_Diagnostic.thy ===== *)
theory Cleanup_Diagnostic
  imports Kubernetes_Command Iso_Time
begin

text \<open>
  Cleanup diagnostics (\<open>regression/core/cleanup-diagnostic.ts\<close>): a bounded history of what a cleanup
  observed, kept in memory by a \<open>CleanupRecorder\<close> and written to one private file per journal entry.
  An observation is an object of the source with many optional fields and stays one here
  (\<open>jsval obj\<close>); its parser rebuilds it from known fields only. The file system, the clock and the hash
  function are parameters (\<open>diag_env\<close>). A parser result \<^const>\<open>None\<close> is the error \<open>CONFIG\<close>. An error
  that is not a harness error carries its code or message; \<open>ENOENT\<close> is the code of a missing file.
\<close>

subsection \<open>Observations\<close>

definition cleanupOperations :: "string list" where
  "cleanupOperations = [''guard'', ''lookup'', ''remove'', ''verify'', ''persist'']"

definition observationStates :: "string list" where
  "observationStates = [''running'', ''passed'', ''failed'']"

definition resourceKinds :: "string list" where
  "resourceKinds = [''model'', ''app'', ''key'', ''identity'']"

definition integer_ok :: "jsval option \<Rightarrow> bool" where
  "integer_ok v \<longleftrightarrow> int_between 0 1000000000 v"

definition timestamp :: "jsval option \<Rightarrow> bool" where
  "timestamp v \<longleftrightarrow> (case v of Some (JStr s) \<Rightarrow> is_iso_millis s \<and> date_parse s \<noteq> None | _ \<Rightarrow> False)"

definition nullableBoolean :: "jsval \<Rightarrow> bool" where
  "nullableBoolean v \<longleftrightarrow> v = JNull \<or> is_bool v"

text \<open>\<open>if (v[key] !== undefined) requireSafe(check(v[key]))\<close> for the keys of a list.\<close>

definition optional :: "(string \<Rightarrow> jsval option) \<Rightarrow> string list \<Rightarrow> (jsval \<Rightarrow> bool) \<Rightarrow> bool" where
  "optional f keys p \<longleftrightarrow> (\<forall>k \<in> set keys. case f k of None \<Rightarrow> True | Some x \<Rightarrow> p x)"

definition booleanKeys :: "string list" where
  "booleanKeys = [''exists'', ''uidMatches'', ''generationMatches'', ''deleting'', ''resourceVersionChanged'', ''intentMatches'']"

definition baseKeys :: "string list" where
  "baseKeys = [''operation'', ''state'', ''at'', ''elapsedMs''] @ booleanKeys @ [''requestAttempted'', ''retrying'',
     ''attempt'', ''expectedGeneration'', ''observedGeneration'', ''timeoutMs'', ''podCount'', ''catalogCount'',
     ''reason'', ''stage'', ''method'', ''endpoint'', ''httpStatus'']"

definition valid_base :: "jsval \<Rightarrow> bool" where
  "valid_base v \<longleftrightarrow>
     (let f = jget v
      in truthy v \<and> one_of cleanupOperations (f ''operation'') \<and> one_of observationStates (f ''state'') \<and>
         timestamp (f ''at'') \<and> integer_ok (f ''elapsedMs'') \<and>
         optional f booleanKeys nullableBoolean \<and>
         optional f [''requestAttempted'', ''retrying''] is_bool \<and>
         optional f [''attempt''] (\<lambda>x. int_between 1 3 (Some x)) \<and>
         optional f [''expectedGeneration'', ''observedGeneration'', ''timeoutMs''] (\<lambda>x. integer_ok (Some x)) \<and>
         optional f [''podCount'', ''catalogCount''] (\<lambda>x. x = JNull \<or> integer_ok (Some x)) \<and>
         optional f [''reason''] (\<lambda>x. reason_of (js_to_string x) \<noteq> None) \<and>
         optional f [''stage''] (\<lambda>x. one_of (map stage_name stages) (Some x)) \<and>
         optional f [''method''] (\<lambda>x. one_of [''GET'', ''POST'', ''PUT'', ''DELETE''] (Some x)) \<and>
         optional f [''endpoint''] (\<lambda>x. one_of [''model-activation'', ''model-catalog'', ''api-key''] (Some x)) \<and>
         optional f [''httpStatus''] (\<lambda>x. x = JNull \<or> int_between 100 599 (Some x)))"

text \<open>A new object with the listed fields of \<open>v\<close> that are present.\<close>

definition rebuild :: "string list \<Rightarrow> (string \<Rightarrow> jsval option) \<Rightarrow> jsval obj" where
  "rebuild keys f = concat (map (\<lambda>k. field k (f k)) keys)"

definition parseCleanupObservation :: "jsval \<Rightarrow> jsval obj option" where
  "parseCleanupObservation v =
     (if \<not> valid_base v then None
      else if jget v ''commandFailure'' \<noteq> None
      then map_option (oassign (rebuild baseKeys (jget v))) (parseKubernetesCommandDiagnostic v)
      else if jget v ''kubernetesReason'' = None \<and> jget v ''exitCode'' = None \<and> jget v ''processSignal'' = None
      then Some (rebuild baseKeys (jget v))
      else None)"

subsection \<open>Diagnostics\<close>

record CleanupDiagnostic =
  cd_runId :: jsval
  cd_ownerRunId :: "jsval option"
  cd_scope :: jsval
  cd_kind :: string
  cd_state :: string
  cd_observations :: int
  cd_omittedObservations :: int
  cd_history :: "jsval obj list"
  cd_firstFailure :: "jsval obj option"
  cd_collection :: string

text \<open>\<open>/^[a-f0-9]{64}$/\<close>\<close>

definition is_scope :: "string \<Rightarrow> bool" where
  "is_scope s \<longleftrightarrow> length s = 64 \<and> list_all is_hex s"

definition collections :: "string list" where
  "collections = [''captured'', ''write-failed'', ''invalid'']"

text \<open>The object as \<open>JSON.stringify\<close> and \<open>parseCleanupDiagnostic\<close> see it.\<close>

definition diagnostic_json :: "CleanupDiagnostic \<Rightarrow> jsval" where
  "diagnostic_json d = JObj ([(''version'', JInt 1), (''runId'', cd_runId d), (''scope'', cd_scope d),
     (''kind'', JStr (cd_kind d)), (''state'', JStr (cd_state d)), (''observations'', JInt (cd_observations d)),
     (''omittedObservations'', JInt (cd_omittedObservations d)), (''collection'', JStr (cd_collection d)),
     (''history'', JArr (map JObj (cd_history d)))] @
     field ''firstFailure'' (map_option JObj (cd_firstFailure d)) @ field ''ownerRunId'' (cd_ownerRunId d))"

definition last_state :: "jsval list \<Rightarrow> jsval option" where
  "last_state hs = (if hs = [] then None else jget (last hs) ''state'')"

text \<open>\<open>v ? f(v) : absent\<close> for a field that may be absent or falsy.\<close>

definition if_truthy :: "jsval option \<Rightarrow> jsval option" where
  "if_truthy v = (case v of None \<Rightarrow> None | Some x \<Rightarrow> if truthy x then Some x else None)"

fun str_of :: "jsval option \<Rightarrow> string" where
  "str_of (Some (JStr s)) = s"
| "str_of _ = []"

fun int_of_js :: "jsval option \<Rightarrow> int" where
  "int_of_js (Some (JInt i)) = i"
| "int_of_js _ = 0"

fun items_of :: "jsval option \<Rightarrow> jsval list option" where
  "items_of (Some (JArr xs)) = Some xs"
| "items_of _ = None"

text \<open>\<open>xs.map(f)\<close> where \<open>f\<close> may throw.\<close>

fun map_opt :: "('a \<Rightarrow> 'b option) \<Rightarrow> 'a list \<Rightarrow> 'b list option" where
  "map_opt f [] = Some []"
| "map_opt f (x # xs) = (case f x of None \<Rightarrow> None | Some y \<Rightarrow> map_option ((#) y) (map_opt f xs))"

definition valid_envelope :: "jsval \<Rightarrow> jsval list \<Rightarrow> bool" where
  "valid_envelope d hs \<longleftrightarrow>
     (let f = jget d
      in f ''version'' = Some (JInt 1) \<and> is_run_id (text_of (f ''runId'')) \<and> is_scope (text_of (f ''scope'')) \<and>
         one_of resourceKinds (f ''kind'') \<and> one_of observationStates (f ''state'') \<and>
         integer_ok (f ''observations'') \<and> integer_ok (f ''omittedObservations'') \<and>
         0 < length hs \<and> length hs \<le> 12 \<and>
         int_of_js (f ''observations'') = int (length hs) + int_of_js (f ''omittedObservations'') \<and>
         one_of collections (f ''collection'') \<and>
         (f ''ownerRunId'' = None \<or> is_run_id (text_of (f ''ownerRunId''))) \<and>
         f ''state'' = last_state hs \<and>
         (case if_truthy (f ''firstFailure'') of None \<Rightarrow> True | Some o1 \<Rightarrow> one_of [''failed''] (jget o1 ''state'')))"

definition parseCleanupDiagnostic :: "jsval \<Rightarrow> CleanupDiagnostic option" where
  "parseCleanupDiagnostic d =
     (case items_of (jget d ''history'') of
        None \<Rightarrow> None
      | Some hs \<Rightarrow>
          if \<not> valid_envelope d hs then None
          else case map_opt parseCleanupObservation hs of
              None \<Rightarrow> None
            | Some history \<Rightarrow>
                (case map_opt parseCleanupObservation (case if_truthy (jget d ''firstFailure'') of None \<Rightarrow> [] | Some o1 \<Rightarrow> [o1]) of
                   None \<Rightarrow> None
                 | Some ff \<Rightarrow> Some
                     \<lparr>cd_runId = (case jget d ''runId'' of Some r \<Rightarrow> r | None \<Rightarrow> JNull),
                      cd_ownerRunId = if_truthy (jget d ''ownerRunId''),
                      cd_scope = (case jget d ''scope'' of Some r \<Rightarrow> r | None \<Rightarrow> JNull),
                      cd_kind = str_of (jget d ''kind''), cd_state = str_of (jget d ''state''),
                      cd_observations = int_of_js (jget d ''observations''),
                      cd_omittedObservations = int_of_js (jget d ''omittedObservations''),
                      cd_history = history, cd_firstFailure = (case ff of [] \<Rightarrow> None | x # _ \<Rightarrow> Some x),
                      cd_collection = str_of (jget d ''collection'')\<rparr>))"

definition cleanupForTrace :: "CleanupDiagnostic \<Rightarrow> string \<Rightarrow> CleanupDiagnostic option" where
  "cleanupForTrace value runId =
     (case parseCleanupDiagnostic (diagnostic_json value) of
        None \<Rightarrow> None
      | Some d \<Rightarrow>
          if \<not> is_run_id runId then None
          else parseCleanupDiagnostic (diagnostic_json
            (d\<lparr>cd_runId := JStr runId,
              cd_ownerRunId := (if cd_runId d \<noteq> JStr runId
                then Some (case cd_ownerRunId d of Some r \<Rightarrow> r | None \<Rightarrow> cd_runId d) else cd_ownerRunId d)\<rparr>)))"

subsection \<open>The recorder\<close>

text \<open>
  Paths of \<open>node:path\<close>, for the absolute paths without empty, \<open>.\<close> or \<open>..\<close> segments that the harness uses.
\<close>

definition dirname :: "string \<Rightarrow> string" where
  "dirname p = rev (drop 1 (dropWhile (\<lambda>c. c \<noteq> CHR ''/'') (rev p)))"

definition path_join :: "string list \<Rightarrow> string" where
  "path_join ps = join ''/'' ps"

record 'w diag_env =
  de_now :: "'w \<Rightarrow> nat \<times> 'w"
  de_isFile :: "string \<Rightarrow> ('w, js_error, bool) act"
  de_readJson :: "string \<Rightarrow> ('w, js_error, jsval) act"
  de_write :: "string \<Rightarrow> jsval \<Rightarrow> ('w, js_error, unit) act"
  de_sha256 :: "string \<Rightarrow> string"

text \<open>\<open>previous\<close> is the last observation without its times; the source compares their JSON texts.\<close>

record CleanupRecorder =
  rc_filename :: string
  rc_diagnostic :: CleanupDiagnostic
  rc_started :: int
  rc_previous :: "jsval obj option"
  rc_loaded :: bool
  rc_writable :: bool
  rc_epoch :: nat
  rc_retired :: bool

type_synonym ('w, 'a) rec_act = "(CleanupRecorder \<times> 'w, js_error, 'a) act"

definition rec_world :: "('w, js_error, 'a) act \<Rightarrow> ('w, 'a) rec_act" where
  "rec_world m = (\<lambda>(r, w). case m w of (x, w') \<Rightarrow> (x, (r, w')))"

definition rec_clock :: "'w diag_env \<Rightarrow> ('w, nat) rec_act" where
  "rec_clock env = (\<lambda>(r, w). case de_now env w of (t, w') \<Rightarrow> (Inr t, (r, w')))"

definition rec_update :: "(CleanupRecorder \<Rightarrow> CleanupRecorder) \<Rightarrow> ('w, unit) rec_act" where
  "rec_update f = modify (\<lambda>(r, w). (f r, w))"

definition newCleanupRecorder ::
  "'w diag_env \<Rightarrow> string \<Rightarrow> jsval \<Rightarrow> string \<Rightarrow> string \<Rightarrow> string option \<Rightarrow> nat \<Rightarrow> CleanupRecorder" where
  "newCleanupRecorder env filename runId kind name uid now =
     (let scope = de_sha256 env (stringify (JArr [runId, JStr filename, JStr kind, JStr name,
                    case uid of None \<Rightarrow> JNull | Some u \<Rightarrow> JStr u]))
      in \<lparr>rc_filename = path_join [dirname filename, ''cleanup-diagnostics'', scope @ ''.json''],
          rc_diagnostic = \<lparr>cd_runId = runId, cd_ownerRunId = None, cd_scope = JStr scope, cd_kind = kind,
            cd_state = ''running'', cd_observations = 0, cd_omittedObservations = 0, cd_history = [],
            cd_firstFailure = None, cd_collection = ''captured''\<rparr>,
          rc_started = int now, rc_previous = None, rc_loaded = False, rc_writable = True,
          rc_epoch = 0, rc_retired = False\<rparr>)"

definition snapshot :: "CleanupRecorder \<Rightarrow> (js_error + CleanupDiagnostic option)" where
  "snapshot r =
     (if cd_history (rc_diagnostic r) = [] then Inr None
      else case parseCleanupDiagnostic (diagnostic_json (rc_diagnostic r)) of
          None \<Rightarrow> Inl (hard R_CONFIG)
        | Some d \<Rightarrow> Inr (Some d))"

text \<open>An earlier capture of the same entry is continued; an unreadable one stops the writing.\<close>

definition loadCapture :: "'w diag_env \<Rightarrow> ('w, unit) rec_act" where
  "loadCapture env = bnd (gets fst) (\<lambda>r.
     if rc_loaded r then ret ()
     else seq (rec_update (\<lambda>r. r\<lparr>rc_loaded := True\<rparr>)) (catch
       (bnd (rec_world (de_isFile env (rc_filename r))) (\<lambda>plain.
         seq (requireSafe plain R_PRIVATE_FILE)
         (bnd (rec_world (de_readJson env (rc_filename r))) (\<lambda>v.
           case parseCleanupDiagnostic v of
             None \<Rightarrow> throw (hard R_CONFIG)
           | Some old \<Rightarrow>
               seq (requireSafe (cd_scope old = cd_scope (rc_diagnostic r) \<and> cd_runId old = cd_runId (rc_diagnostic r) \<and>
                      cd_kind old = cd_kind (rc_diagnostic r)) R_CONFIG)
               (rec_update (\<lambda>r. r\<lparr>rc_diagnostic := old,
                  rc_started := (case date_parse (str_of (oget (hd (cd_history old)) ''at'')) of Some t \<Rightarrow> t | None \<Rightarrow> 0)\<rparr>))))))
       (\<lambda>err. if err = Other ''ENOENT'' then ret ()
          else rec_update (\<lambda>r. r\<lparr>rc_diagnostic := (rc_diagnostic r)\<lparr>cd_collection := ''write-failed''\<rparr>, rc_writable := False\<rparr>))))"

definition time_fields :: "nat \<Rightarrow> nat \<Rightarrow> int \<Rightarrow> jsval obj" where
  "time_fields t1 t2 started = [(''at'', JStr (toISOString t1)),
     (''elapsedMs'', JInt (min 1000000000 (max 0 (int t2 - started))))]"

text \<open>The observation that stands for one that does not parse.\<close>

definition invalid_observation :: "jsval obj \<Rightarrow> jsval obj \<Rightarrow> jsval obj" where
  "invalid_observation time value = time @
     [(''operation'', if one_of cleanupOperations (oget value ''operation'') then JStr (str_of (oget value ''operation'')) else JStr ''guard''),
      (''state'', JStr ''failed''), (''reason'', JStr ''CONFIG''), (''stage'', JStr ''cleanup'')]"

definition addObservation :: "jsval obj \<Rightarrow> CleanupRecorder \<Rightarrow> CleanupRecorder" where
  "addObservation ob r =
     (let d = rc_diagnostic r; key = odelete ''elapsedMs'' (odelete ''at'' ob); hs = cd_history d;
          same = rc_previous r = Some key \<and> 1 < length hs;
          pushed = hs @ [ob];
          history = (if same then butlast hs @ [ob]
                     else if 12 < length pushed then hd pushed # drop 2 pushed else pushed);
          omitted = (if same \<or> 12 < length pushed then cd_omittedObservations d + 1 else cd_omittedObservations d);
          st = str_of (oget ob ''state'')
      in r\<lparr>rc_diagnostic := d\<lparr>cd_observations := cd_observations d + 1, cd_omittedObservations := omitted,
             cd_history := history,
             cd_firstFailure := (if st = ''failed'' \<and> cd_firstFailure d = None then Some ob else cd_firstFailure d),
             cd_state := st\<rparr>,
           rc_previous := (if same then rc_previous r else Some key)\<rparr>)"

definition writeCapture :: "'w diag_env \<Rightarrow> CleanupDiagnostic option \<Rightarrow> ('w, unit) rec_act" where
  "writeCapture env body = bnd (gets fst) (\<lambda>r. case body of
     None \<Rightarrow> ret ()
   | Some d \<Rightarrow>
       if rc_writable r
       then catch (rec_world (de_write env (rc_filename r) (diagnostic_json d)))
         (\<lambda>_. rec_update (\<lambda>r. r\<lparr>rc_diagnostic := (rc_diagnostic r)\<lparr>cd_collection := ''write-failed''\<rparr>\<rparr>))
       else ret ())"

text \<open>The update that \<open>record\<close> makes before it writes.\<close>

definition note_value :: "jsval obj \<Rightarrow> jsval obj \<Rightarrow> CleanupRecorder \<Rightarrow> CleanupRecorder" where
  "note_value value time r = (case parseCleanupObservation (JObj (oassign value time)) of
     Some ob \<Rightarrow> addObservation ob r
   | None \<Rightarrow> addObservation (invalid_observation time value) (r\<lparr>rc_diagnostic := (rc_diagnostic r)\<lparr>cd_collection := ''invalid''\<rparr>\<rparr>))"

definition recordObservation :: "'w diag_env \<Rightarrow> jsval obj \<Rightarrow> nat option \<Rightarrow> ('w, unit) rec_act" where
  "recordObservation env value observeEpoch =
     seq (loadCapture env) (bnd (gets fst) (\<lambda>r.
       if observeEpoch \<noteq> None \<and> (observeEpoch \<noteq> Some (rc_epoch r) \<or> rc_retired r) then ret ()
       else bnd (rec_clock env) (\<lambda>t1. bnd (rec_clock env) (\<lambda>t2.
         seq (rec_update (note_value value (time_fields t1 t2 (rc_started r))))
           (bnd (gets fst) (\<lambda>r. case snapshot r of
                Inl e \<Rightarrow> throw e
              | Inr body \<Rightarrow> writeCapture env body))))))"

text \<open>\<open>begin\<close> starts an epoch and hands out a callback that is silent after the epoch.\<close>

definition beginEpoch :: "('w, nat) rec_act" where
  "beginEpoch = seq (rec_update (\<lambda>r. r\<lparr>rc_epoch := rc_epoch r + 1, rc_retired := False\<rparr>)) (gets (\<lambda>s. rc_epoch (fst s)))"

definition observeIn :: "'w diag_env \<Rightarrow> nat \<Rightarrow> jsval obj \<Rightarrow> ('w, unit) rec_act" where
  "observeIn env epoch value = bnd (gets fst) (\<lambda>r.
     if epoch = rc_epoch r \<and> \<not> rc_retired r then recordObservation env value (Some epoch) else ret ())"

definition error_reason :: "js_error \<Rightarrow> ReasonCode" where
  "error_reason err = (case err of
     Harness e \<Rightarrow> (case he_causeReason e of Some r \<Rightarrow> r | None \<Rightarrow> he_code e) | Other _ \<Rightarrow> R_UNEXPECTED)"

definition error_stage :: "js_error \<Rightarrow> Stage option" where
  "error_stage err = (case err of
     Harness e \<Rightarrow> (case he_causeStage e of Some st \<Rightarrow> Some st | None \<Rightarrow> he_stage e) | Other _ \<Rightarrow> None)"

definition error_command :: "js_error \<Rightarrow> jsval obj" where
  "error_command err = (case err of
     Harness e \<Rightarrow> (case he_class e of KubernetesCommandError d \<Rightarrow> d | _ \<Rightarrow> []) | Other _ \<Rightarrow> [])"

text \<open>The object that \<open>failure\<close> passes on: the last observation, overwritten field by field.\<close>

definition failure_value :: "CleanupRecorder \<Rightarrow> string \<Rightarrow> js_error \<Rightarrow> jsval obj" where
  "failure_value r operation err =
     (let hs = cd_history (rc_diagnostic r)
      in oassign (if hs = [] then [] else last hs)
           ([(''operation'', JStr operation), (''state'', JStr ''failed''), (''reason'', JStr (reason_name (error_reason err)))] @
            error_command err @
            (case error_stage err of None \<Rightarrow> [] | Some st \<Rightarrow> [(''stage'', JStr (stage_name st))])))"

definition recordFailure :: "'w diag_env \<Rightarrow> string \<Rightarrow> js_error \<Rightarrow> ('w, unit) rec_act" where
  "recordFailure env operation err =
     seq (rec_update (\<lambda>r. r\<lparr>rc_retired := True\<rparr>)) (bnd (gets fst) (\<lambda>r.
       recordObservation env (failure_value r operation err) None))"

definition recordComplete :: "'w diag_env \<Rightarrow> ('w, unit) rec_act" where
  "recordComplete env = seq (rec_update (\<lambda>r. r\<lparr>rc_retired := True\<rparr>))
     (recordObservation env [(''operation'', JStr ''persist''), (''state'', JStr ''passed'')] None)"

subsection \<open>Rendering and compaction\<close>

definition dot_sep :: string where
  "dot_sep = [CHR '' '', CHR 0xB7, CHR '' '']"

text \<open>A field of three values, a field printed as it is, and one with a default for \<open>null\<close>.\<close>

definition tri_text :: "jsval obj \<Rightarrow> string \<Rightarrow> string \<Rightarrow> string \<Rightarrow> string \<Rightarrow> string" where
  "tri_text ob k label yes no = (case oget ob k of
     None \<Rightarrow> []
   | Some v \<Rightarrow> dot_sep @ label @ (if v = JNull then ''unknown'' else if truthy v then yes else no))"

definition plain_text :: "jsval obj \<Rightarrow> string \<Rightarrow> string \<Rightarrow> string" where
  "plain_text ob k label = (case oget ob k of None \<Rightarrow> [] | Some v \<Rightarrow> dot_sep @ label @ js_to_string v)"

definition or_text :: "jsval option \<Rightarrow> string \<Rightarrow> string" where
  "or_text v dflt = (case v of None \<Rightarrow> dflt | Some JNull \<Rightarrow> dflt | Some x \<Rightarrow> js_to_string x)"

definition truthy_text :: "jsval obj \<Rightarrow> string \<Rightarrow> string \<Rightarrow> string" where
  "truthy_text ob k label = (case if_truthy (oget ob k) of None \<Rightarrow> [] | Some v \<Rightarrow> dot_sep @ label @ js_to_string v)"

definition render_observation :: "jsval obj \<Rightarrow> string" where
  "render_observation ob =
     text_of (oget ob ''operation'') @ '': '' @ text_of (oget ob ''state'') @ truthy_text ob ''reason'' [] @ truthy_text ob ''stage'' [] @
     dot_sep @ text_of (oget ob ''elapsedMs'') @ '' ms'' @
     (case oget ob ''timeoutMs'' of None \<Rightarrow> [] | Some v \<Rightarrow> '' / '' @ js_to_string v @ '' ms budget'') @
     tri_text ob ''exists'' ''object '' ''present'' ''absent'' @
     tri_text ob ''uidMatches'' ''UID '' ''matches'' ''changed'' @
     tri_text ob ''generationMatches'' ''revision '' ''matches'' ''changed'' @
     plain_text ob ''expectedGeneration'' ''expected revision '' @
     plain_text ob ''observedGeneration'' ''observed revision '' @
     tri_text ob ''resourceVersionChanged'' ''resource version '' ''changed'' ''unchanged'' @
     tri_text ob ''intentMatches'' ''model intent '' ''matches'' ''changed'' @
     tri_text ob ''deleting'' ''deletion '' ''in progress'' ''not marked'' @
     (if oget ob ''podCount'' = None then [] else dot_sep @ ''pods '' @ or_text (oget ob ''podCount'') ''unknown'') @
     (if oget ob ''catalogCount'' = None then [] else dot_sep @ ''catalog '' @ or_text (oget ob ''catalogCount'') ''unknown'') @
     (case if_truthy (oget ob ''method'') of None \<Rightarrow> []
      | Some m \<Rightarrow> dot_sep @ js_to_string m @ '' '' @ or_text (oget ob ''endpoint'') ''endpoint-unavailable'') @
     (if if_truthy (oget ob ''method'') \<noteq> None \<or> oget ob ''httpStatus'' \<noteq> None
      then dot_sep @ ''HTTP '' @ or_text (oget ob ''httpStatus'') ''unknown'' else []) @
     truthy_text ob ''kubernetesReason'' ''Kubernetes '' @ truthy_text ob ''commandFailure'' ''command '' @
     plain_text ob ''exitCode'' ''exit '' @ truthy_text ob ''processSignal'' ''signal '' @
     (case oget ob ''attempt'' of None \<Rightarrow> [] | Some v \<Rightarrow> dot_sep @ ''attempt '' @ js_to_string v @ ''/3'') @
     (case oget ob ''retrying'' of None \<Rightarrow> []
      | Some v \<Rightarrow> dot_sep @ ''retry '' @ (if truthy v then ''after identity recheck'' else ''not scheduled'')) @
     (case oget ob ''requestAttempted'' of None \<Rightarrow> []
      | Some v \<Rightarrow> dot_sep @ ''request '' @ (if truthy v then ''attempted'' else ''not attempted''))"

definition cleanupDiagnosticText :: "CleanupDiagnostic \<Rightarrow> string list option" where
  "cleanupDiagnosticText value =
     (case parseCleanupDiagnostic (diagnostic_json value) of
        None \<Rightarrow> None
      | Some d \<Rightarrow> Some ([''Resource '' @ cd_kind d @ dot_sep @ ''reference '' @
             (case cd_scope d of JArr xs \<Rightarrow> js_to_string (JArr (take 12 xs)) | v \<Rightarrow> take 12 (js_to_string v)) @
             dot_sep @ cd_state d @ dot_sep @ ''capture '' @ cd_collection d] @
          (case cd_firstFailure d of None \<Rightarrow> [] | Some ob \<Rightarrow> [''First failure: '' @ render_observation ob]) @
          [''Last observation: '' @ render_observation (last (cd_history d))] @
          map render_observation (cd_history d) @
          [show_int (cd_omittedObservations d) @ '' repeated/older observations compacted.'']))"

text \<open>
  The end of \<open>runCleanupCaptures\<close>: captures in the order of their last observation, reduced to 16 by
  removing the first passed one, or the second one when none has passed.
\<close>

definition capture_time :: "CleanupDiagnostic \<Rightarrow> int" where
  "capture_time d = (case date_parse (str_of (oget (last (cd_history d)) ''at'')) of Some t \<Rightarrow> t | None \<Rightarrow> 0)"

definition remove_at :: "nat \<Rightarrow> 'a list \<Rightarrow> 'a list" where
  "remove_at i xs = take i xs @ drop (Suc i) xs"

fun findIndex :: "('a \<Rightarrow> bool) \<Rightarrow> 'a list \<Rightarrow> nat option" where
  "findIndex p [] = None"
| "findIndex p (x # xs) = (if p x then Some 0 else map_option Suc (findIndex p xs))"

definition passed :: "CleanupDiagnostic \<Rightarrow> bool" where
  "passed d \<longleftrightarrow> cd_state d = ''passed''"

definition drop_index :: "CleanupDiagnostic list \<Rightarrow> nat" where
  "drop_index ds = (case findIndex passed ds of Some i \<Rightarrow> i | None \<Rightarrow> 1)"

function compactCaptures :: "CleanupDiagnostic list \<Rightarrow> nat \<Rightarrow> CleanupDiagnostic list \<times> nat" where
  "compactCaptures ds omitted =
     (if 16 < length ds then compactCaptures (remove_at (drop_index ds) ds) (Suc omitted) else (ds, omitted))"
  by pat_completeness auto

definition finishCaptures :: "CleanupDiagnostic list \<Rightarrow> nat \<Rightarrow> CleanupDiagnostic list \<times> nat" where
  "finishCaptures ds omitted = compactCaptures (sort_key capture_time ds) omitted"

subsection \<open>Compaction\<close>

lemma findIndex_Some: "findIndex p xs = Some i \<Longrightarrow> i < length xs \<and> p (xs ! i) \<and> (\<forall>j < i. \<not> p (xs ! j))"
proof (induction xs arbitrary: i)
  case (Cons x xs)
  then show ?case by (auto split: if_splits simp: nth_Cons split: nat.splits)
qed simp

lemma findIndex_None: "findIndex p xs = None \<longleftrightarrow> filter p xs = []"
  by (induction xs) auto

lemma length_remove_at: "i < length xs \<Longrightarrow> Suc (length (remove_at i xs)) = length xs"
  by (simp add: remove_at_def)

lemma drop_index_less: "16 < length ds \<Longrightarrow> drop_index ds < length ds"
  by (auto simp: drop_index_def split: option.splits dest: findIndex_Some)

termination compactCaptures
proof (relation "measure (\<lambda>(ds, _). length ds)")
  fix ds :: "CleanupDiagnostic list" and n :: nat assume "16 < length ds"
  from length_remove_at [OF drop_index_less [OF this]]
  show "((remove_at (drop_index ds) ds, Suc n), ds, n) \<in> measure (\<lambda>(ds, _). length ds)" by simp
qed simp

declare compactCaptures.simps [simp del]

lemma filter_remove_at:
  assumes "i < length xs" and "p (xs ! i)"
  shows "filter (\<lambda>x. \<not> p x) (remove_at i xs) = filter (\<lambda>x. \<not> p x) xs"
proof -
  have "xs = take i xs @ xs ! i # drop (Suc i) xs" using assms(1) by (rule id_take_nth_drop)
  then have "filter (\<lambda>x. \<not> p x) xs = filter (\<lambda>x. \<not> p x) (take i xs) @ filter (\<lambda>x. \<not> p x) (xs ! i # drop (Suc i) xs)"
    by (metis filter_append)
  with assms(2) show ?thesis by (simp add: remove_at_def)
qed

lemma compactCaptures_spec:
  assumes "compactCaptures ds n = (ds', n')"
  shows "length ds' \<le> 16 \<and> n' + length ds' = n + length ds \<and>
    (length (filter (\<lambda>d. \<not> passed d) ds) \<le> 16 \<longrightarrow> filter (\<lambda>d. \<not> passed d) ds' = filter (\<lambda>d. \<not> passed d) ds)"
  using assms
proof (induction ds n rule: compactCaptures.induct)
  case (1 ds n)
  show ?case
  proof (cases "16 < length ds")
    case False
    with 1(2) show ?thesis by (simp add: compactCaptures.simps)
  next
    case True
    let ?i = "drop_index ds" and ?r = "remove_at (drop_index ds) ds"
    have rec: "compactCaptures ?r (Suc n) = (ds', n')" using 1(2) True by (simp add: compactCaptures.simps)
    note IH = 1(1) [OF True rec]
    have len: "Suc (length ?r) = length ds" by (rule length_remove_at [OF drop_index_less [OF True]])
    have "filter (\<lambda>d. \<not> passed d) ?r = filter (\<lambda>d. \<not> passed d) ds" if few: "length (filter (\<lambda>d. \<not> passed d) ds) \<le> 16"
    proof -
      have "length (filter passed ds) + length (filter (\<lambda>d. \<not> passed d) ds) = length ds" by (rule sum_length_filter_compl)
      then have "filter passed ds \<noteq> []" using True few by auto
      then obtain i where i: "findIndex passed ds = Some i" using findIndex_None [of passed ds] by auto
      from findIndex_Some [OF this] show ?thesis using i by (simp add: drop_index_def filter_remove_at)
    qed
    with IH len show ?thesis by auto
  qed
qed

subsection \<open>Parsing observations\<close>

definition observationKeys :: "string list" where
  "observationKeys = baseKeys @ [''commandFailure'', ''kubernetesReason'', ''exitCode'', ''processSignal'']"

lemma oget_rebuild [simp]: "oget (rebuild keys f) k = (if k \<in> set keys then f k else None)"
  unfolding rebuild_def by (induction keys) (auto simp: oget_append split: option.splits)

lemma rebuild_cong: "(\<And>k. k \<in> set keys \<Longrightarrow> f k = g k) \<Longrightarrow> rebuild keys f = rebuild keys g"
  unfolding rebuild_def by (induction keys) auto

lemma optional_cong: "(\<And>k. k \<in> set keys \<Longrightarrow> f k = g k) \<Longrightarrow> optional f keys p = optional g keys p"
  unfolding optional_def by simp

text \<open>Both parsers look at the known keys only.\<close>

lemma valid_base_cong:
  assumes "truthy v = truthy v'" and eq: "\<And>k. k \<in> set baseKeys \<Longrightarrow> jget v k = jget v' k"
  shows "valid_base v = valid_base v'"
proof -
  have "optional (jget v) ks p = optional (jget v') ks p" if "set ks \<subseteq> set baseKeys" for ks p
    using that by (intro optional_cong eq) auto
  then show ?thesis
    using assms(1) eq by (simp add: Let_def valid_base_def baseKeys_def booleanKeys_def)
qed

lemma parse_command_cong:
  assumes "truthy v = truthy v'" and eq: "\<And>k. k \<in> set observationKeys \<Longrightarrow> jget v k = jget v' k"
  shows "parseKubernetesCommandDiagnostic v = parseKubernetesCommandDiagnostic v'"
  using assms
  by (simp add: parseKubernetesCommandDiagnostic_def valid_command_diagnostic_def Let_def observationKeys_def baseKeys_def)

lemma parse_observation_cong:
  assumes "truthy v = truthy v'" and eq: "\<And>k. k \<in> set observationKeys \<Longrightarrow> jget v k = jget v' k"
  shows "parseCleanupObservation v = parseCleanupObservation v'"
proof -
  have base: "jget v k = jget v' k" if "k \<in> set baseKeys" for k using that eq by (simp add: observationKeys_def)
  have "valid_base v = valid_base v'" by (rule valid_base_cong [OF assms(1) base])
  moreover have "rebuild baseKeys (jget v) = rebuild baseKeys (jget v')" by (rule rebuild_cong [OF base])
  ultimately show ?thesis
    using parse_command_cong [OF assms] eq by (simp add: parseCleanupObservation_def observationKeys_def)
qed

lemma parse_command_lookup:
  assumes "parseKubernetesCommandDiagnostic v = Some ob"
  shows "oget ob k = (if k \<in> {''commandFailure'', ''httpStatus'', ''kubernetesReason'', ''exitCode'', ''processSignal''}
    then jget v k else None)" and "distinct (map fst ob)"
  using assms
  by (auto simp: parseKubernetesCommandDiagnostic_def oget_append field_def split: if_splits option.splits)

lemma valid_base_truthy: "valid_base v \<Longrightarrow> truthy v"
  by (simp add: Let_def valid_base_def)

text \<open>The rebuilt object has the fields of the input at the known keys and no others.\<close>

lemma parse_observation_lookup:
  assumes "parseCleanupObservation v = Some ob"
  shows "oget ob k = (if k \<in> set observationKeys then jget v k else None)" and "valid_base v"
proof -
  from assms show "valid_base v" by (simp add: parseCleanupObservation_def split: if_splits)
  show "oget ob k = (if k \<in> set observationKeys then jget v k else None)"
  proof (cases "jget v ''commandFailure'' = None")
    case True
    with assms show ?thesis
      by (auto simp: parseCleanupObservation_def observationKeys_def baseKeys_def booleanKeys_def split: if_splits)
  next
    case False
    with assms obtain c where c: "parseKubernetesCommandDiagnostic v = Some c" "ob = oassign (rebuild baseKeys (jget v)) c"
      by (auto simp: parseCleanupObservation_def split: if_splits)
    have "oget ob k = (case oget c k of None \<Rightarrow> oget (rebuild baseKeys (jget v)) k | Some x \<Rightarrow> Some x)"
      unfolding c(2) by (rule oget_oassign [OF parse_command_lookup(2) [OF c(1)]])
    then show ?thesis
      using parse_command_lookup(1) [OF c(1), of k] by (auto simp: observationKeys_def baseKeys_def split: option.splits)
  qed
qed

lemma parse_observation_again:
  assumes "parseCleanupObservation v = Some ob"
  shows "parseCleanupObservation (JObj ob) = Some ob"
proof -
  have "parseCleanupObservation (JObj ob) = parseCleanupObservation v"
    using parse_observation_lookup [OF assms] valid_base_truthy by (intro parse_observation_cong) auto
  with assms show ?thesis by simp
qed

text \<open>A well-formed observation parses; a canonical one parses to itself.\<close>

definition wf_obs :: "jsval obj \<Rightarrow> bool" where
  "wf_obs ob \<longleftrightarrow> parseCleanupObservation (JObj ob) \<noteq> None"

lemma wf_obs_parsed: "parseCleanupObservation v = Some ob \<Longrightarrow> wf_obs ob"
  by (simp add: wf_obs_def parse_observation_again)

lemma wf_obs_state: "wf_obs ob \<Longrightarrow> \<exists>st \<in> set observationStates. oget ob ''state'' = Some (JStr st)"
  by (auto simp: wf_obs_def Let_def parseCleanupObservation_def valid_base_def one_of_iff split: if_splits)

lemma time_fields_lookup [simp]:
  "oget (time_fields t1 t2 st) k = (if k = ''at'' then Some (JStr (toISOString t1))
     else if k = ''elapsedMs'' then Some (JInt (min 1000000000 (max 0 (int t2 - st)))) else None)"
  by (simp add: time_fields_def)

lemma wf_invalid_observation:
  assumes "t1 < 2930950 * 86400000"
  shows "wf_obs (invalid_observation (time_fields t1 t2 st) value)"
proof -
  have "timestamp (Some (JStr (toISOString t1)))"
    using is_iso_millis_toISOString [OF assms] date_parse_toISOString [OF assms] by (simp add: timestamp_def)
  moreover have "reason_of ''CONFIG'' = Some R_CONFIG" "stage_of ''cleanup'' = Some S_cleanup"
    using reason_of_name [of R_CONFIG] stage_of_name [of S_cleanup] by simp_all
  moreover have "''cleanup'' \<in> set (map stage_name stages)"
    using stages_complete [of S_cleanup] by (force simp: image_iff)
  ultimately show ?thesis
    by (auto simp: wf_obs_def Let_def parseCleanupObservation_def valid_base_def invalid_observation_def oget_append
        optional_def booleanKeys_def integer_ok_def one_of_iff cleanupOperations_def observationStates_def)
qed

subsection \<open>Well-formed diagnostics\<close>

definition diag_wf :: "CleanupDiagnostic \<Rightarrow> bool" where
  "diag_wf d \<longleftrightarrow>
     is_run_id (js_to_string (cd_runId d)) \<and> is_scope (js_to_string (cd_scope d)) \<and>
     cd_kind d \<in> set resourceKinds \<and> cd_state d \<in> set observationStates \<and> cd_collection d \<in> set collections \<and>
     (\<forall>r \<in> set_option (cd_ownerRunId d). is_run_id (js_to_string r)) \<and>
     0 \<le> cd_omittedObservations d \<and> cd_observations d = int (length (cd_history d)) + cd_omittedObservations d \<and>
     length (cd_history d) \<le> 12 \<and> (\<forall>ob \<in> set (cd_history d). wf_obs ob) \<and>
     (cd_history d \<noteq> [] \<longrightarrow> oget (last (cd_history d)) ''state'' = Some (JStr (cd_state d))) \<and>
     (\<forall>ob \<in> set_option (cd_firstFailure d). wf_obs ob \<and> oget ob ''state'' = Some (JStr ''failed''))"

lemma map_opt_Some: "map_opt f xs = Some ys \<Longrightarrow> length ys = length xs \<and> (\<forall>y \<in> set ys. \<exists>x \<in> set xs. f x = Some y)"
proof (induction xs arbitrary: ys)
  case (Cons x xs)
  then obtain y zs where "f x = Some y" "map_opt f xs = Some zs" "ys = y # zs" by (auto split: option.splits)
  with Cons.IH show ?case by auto
qed simp

lemma map_opt_total: "(\<And>x. x \<in> set xs \<Longrightarrow> f x \<noteq> None) \<Longrightarrow> map_opt f xs = Some (map (\<lambda>x. the (f x)) xs)"
  by (induction xs) (auto split: option.splits)

lemma map_opt_last: "map_opt f xs = Some ys \<Longrightarrow> xs \<noteq> [] \<Longrightarrow> f (last xs) = Some (last ys)"
proof (induction xs arbitrary: ys)
  case (Cons x xs)
  then obtain y zs where "f x = Some y" "map_opt f xs = Some zs" "ys = y # zs" by (auto split: option.splits)
  with Cons.IH map_opt_Some [of f xs zs] show ?case by (cases zs) auto
qed simp

lemma run_id_truthy: "is_run_id (js_to_string r) \<Longrightarrow> truthy r"
proof (cases r)
  case (JInt i)
  assume "is_run_id (js_to_string r)"
  then have "take 4 (show_int i) = ''reg-''" using JInt by (simp add: is_run_id_def)
  moreover have "hd (show_int i) = CHR ''-'' \<or> is_digit (hd (show_int i))"
    using digits_show_nat [of "nat i"] show_nat_not_Nil [of "nat i"]
    by (cases "show_nat (nat i)") (auto simp: show_int_def)
  ultimately have False by (cases "show_int i") (auto simp: char_class_defs)
  then show ?thesis ..
next
  case (JBool b)
  assume "is_run_id (js_to_string r)"
  then show ?thesis using JBool by (cases b) (auto simp: is_run_id_def)
qed (auto simp: is_run_id_def)

lemma diagnostic_fields:
  "jget (diagnostic_json d) ''version'' = Some (JInt 1)" "jget (diagnostic_json d) ''runId'' = Some (cd_runId d)"
  "jget (diagnostic_json d) ''scope'' = Some (cd_scope d)" "jget (diagnostic_json d) ''kind'' = Some (JStr (cd_kind d))"
  "jget (diagnostic_json d) ''state'' = Some (JStr (cd_state d))"
  "jget (diagnostic_json d) ''observations'' = Some (JInt (cd_observations d))"
  "jget (diagnostic_json d) ''omittedObservations'' = Some (JInt (cd_omittedObservations d))"
  "jget (diagnostic_json d) ''collection'' = Some (JStr (cd_collection d))"
  "jget (diagnostic_json d) ''history'' = Some (JArr (map JObj (cd_history d)))"
  "jget (diagnostic_json d) ''firstFailure'' = map_option JObj (cd_firstFailure d)"
  "jget (diagnostic_json d) ''ownerRunId'' = cd_ownerRunId d"
  by (simp_all add: diagnostic_json_def oget_append split: option.split)

lemma map_opt_map: "map_opt f (map g xs) = map_opt (\<lambda>x. f (g x)) xs"
  by (induction xs) (auto split: option.splits)

text \<open>The parser's view of a well-formed diagnostic that is not empty.\<close>

definition canonical :: "CleanupDiagnostic \<Rightarrow> CleanupDiagnostic" where
  "canonical d = d\<lparr>cd_history := map (\<lambda>ob. the (parseCleanupObservation (JObj ob))) (cd_history d),
     cd_firstFailure := map_option (\<lambda>ob. the (parseCleanupObservation (JObj ob))) (cd_firstFailure d)\<rparr>"

lemma wf_envelope:
  assumes "diag_wf d" and "cd_history d \<noteq> []" and "cd_observations d \<le> 1000000000"
  shows "valid_envelope (diagnostic_json d) (map JObj (cd_history d))"
proof -
  have "if_truthy (map_option JObj (cd_firstFailure d)) = map_option JObj (cd_firstFailure d)"
    by (simp add: if_truthy_def split: option.splits)
  then show ?thesis
    using assms
    by (cases "cd_ownerRunId d"; cases "cd_firstFailure d")
      (auto simp: valid_envelope_def diagnostic_fields Let_def diag_wf_def integer_ok_def last_state_def last_map one_of_iff)
qed

lemma parse_wf_diagnostic:
  assumes "diag_wf d" and "cd_history d \<noteq> []" and "cd_observations d \<le> 1000000000"
  shows "parseCleanupDiagnostic (diagnostic_json d) = Some (canonical d)"
proof -
  have hist: "map_opt parseCleanupObservation (map JObj (cd_history d)) =
      Some (map (\<lambda>ob. the (parseCleanupObservation (JObj ob))) (cd_history d))"
    unfolding map_opt_map using assms(1) by (intro map_opt_total) (auto simp: diag_wf_def wf_obs_def)
  have own: "if_truthy (cd_ownerRunId d) = cd_ownerRunId d"
    using assms(1) run_id_truthy by (cases "cd_ownerRunId d") (auto simp: if_truthy_def diag_wf_def)
  show ?thesis
  proof (cases "cd_firstFailure d")
    case None
    then show ?thesis
      using wf_envelope [OF assms] hist own
      by (simp add: parseCleanupDiagnostic_def diagnostic_fields canonical_def if_truthy_def)
  next
    case (Some ob)
    with assms(1) have "parseCleanupObservation (JObj ob) \<noteq> None" by (simp add: diag_wf_def wf_obs_def)
    with Some show ?thesis
      using wf_envelope [OF assms] hist own
      by (auto simp: parseCleanupDiagnostic_def diagnostic_fields canonical_def if_truthy_def)
  qed
qed

text \<open>What the parser accepts is well-formed and canonical.\<close>

lemma parse_diagnostic_elim:
  assumes "parseCleanupDiagnostic v = Some d"
  obtains hs ffs where "items_of (jget v ''history'') = Some hs" "valid_envelope v hs"
    "map_opt parseCleanupObservation hs = Some (cd_history d)"
    "map_opt parseCleanupObservation (case if_truthy (jget v ''firstFailure'') of None \<Rightarrow> [] | Some o1 \<Rightarrow> [o1]) = Some ffs"
    "cd_firstFailure d = (case ffs of [] \<Rightarrow> None | x # _ \<Rightarrow> Some x)"
    "cd_runId d = (case jget v ''runId'' of Some r \<Rightarrow> r | None \<Rightarrow> JNull)" "cd_ownerRunId d = if_truthy (jget v ''ownerRunId'')"
    "cd_scope d = (case jget v ''scope'' of Some r \<Rightarrow> r | None \<Rightarrow> JNull)" "cd_kind d = str_of (jget v ''kind'')"
    "cd_state d = str_of (jget v ''state'')" "cd_observations d = int_of_js (jget v ''observations'')"
    "cd_omittedObservations d = int_of_js (jget v ''omittedObservations'')" "cd_collection d = str_of (jget v ''collection'')"
  using assms by (auto simp: parseCleanupDiagnostic_def split: option.splits if_splits)
lemma parsed_diagnostic_wf:
  assumes "parseCleanupDiagnostic v = Some d"
  shows "diag_wf d" and "cd_history d \<noteq> []" and "cd_observations d \<le> 1000000000" and "canonical d = d"
proof -
  from assms obtain hs ffs where hs: "items_of (jget v ''history'') = Some hs" "valid_envelope v hs"
    "map_opt parseCleanupObservation hs = Some (cd_history d)"
    "map_opt parseCleanupObservation (case if_truthy (jget v ''firstFailure'') of None \<Rightarrow> [] | Some o1 \<Rightarrow> [o1]) = Some ffs"
    and d: "cd_firstFailure d = (case ffs of [] \<Rightarrow> None | x # _ \<Rightarrow> Some x)"
    "cd_runId d = (case jget v ''runId'' of Some r \<Rightarrow> r | None \<Rightarrow> JNull)" "cd_ownerRunId d = if_truthy (jget v ''ownerRunId'')"
    "cd_scope d = (case jget v ''scope'' of Some r \<Rightarrow> r | None \<Rightarrow> JNull)" "cd_kind d = str_of (jget v ''kind'')"
    "cd_state d = str_of (jget v ''state'')" "cd_observations d = int_of_js (jget v ''observations'')"
    "cd_omittedObservations d = int_of_js (jget v ''omittedObservations'')" "cd_collection d = str_of (jget v ''collection'')"
    by (rule parse_diagnostic_elim)
  note env = hs(2) [unfolded valid_envelope_def Let_def]
  have len: "length (cd_history d) = length hs" "\<forall>ob \<in> set (cd_history d). \<exists>x. parseCleanupObservation x = Some ob"
    using map_opt_Some [OF hs(3)] by blast+
  show ne: "cd_history d \<noteq> []" using len env by auto
  show bound: "cd_observations d \<le> 1000000000" using env d by (auto simp: integer_ok_def int_between_iff)
  have ff: "\<exists>x. parseCleanupObservation x = Some ob \<and> one_of [''failed''] (jget x ''state'')"
    if "cd_firstFailure d = Some ob" for ob
    using that hs(4) d(1) env by (auto split: option.splits list.splits)
  have "parseCleanupObservation (last hs) = Some (last (cd_history d))" using map_opt_last [OF hs(3)] env by auto
  from parse_observation_lookup(1) [OF this, of "''state''"]
  have last: "oget (last (cd_history d)) ''state'' = last_state hs"
    using env by (auto simp: last_state_def observationKeys_def baseKeys_def)
  have ffw: "wf_obs ob \<and> oget ob ''state'' = Some (JStr ''failed'')" if "cd_firstFailure d = Some ob" for ob
    using ff [OF that] parse_observation_lookup(1) [of _ ob "''state''"]
    by (auto simp: wf_obs_parsed one_of_iff observationKeys_def baseKeys_def)
  have ids: "is_run_id (js_to_string (cd_runId d))" "is_scope (js_to_string (cd_scope d))"
    using env d by (cases "jget v ''runId''"; cases "jget v ''scope''"; simp add: is_run_id_def is_scope_def)+
  have own: "\<forall>r \<in> set_option (cd_ownerRunId d). is_run_id (js_to_string r)"
    using env d by (auto simp: if_truthy_def split: option.splits if_splits)
  have kinds: "cd_kind d \<in> set resourceKinds" "cd_state d \<in> set observationStates" "cd_collection d \<in> set collections"
    "jget v ''state'' = Some (JStr (cd_state d))"
    using env d by (auto simp: one_of_iff)
  have counts: "0 \<le> cd_omittedObservations d" "cd_observations d = int (length hs) + cd_omittedObservations d" "length hs \<le> 12"
    using env d by (auto simp: integer_ok_def int_between_iff)
  show "diag_wf d"
    unfolding diag_wf_def using ids own kinds counts len ne last env ffw wf_obs_parsed by fastforce
  show "canonical d = d"
  proof -
    have "the (parseCleanupObservation (JObj ob)) = ob" if "ob \<in> set (cd_history d)" for ob
      using len(2) that parse_observation_again by fastforce
    moreover have "the (parseCleanupObservation (JObj ob)) = ob" if "cd_firstFailure d = Some ob" for ob
      using ff [OF that] parse_observation_again by fastforce
    ultimately show ?thesis by (cases "cd_firstFailure d") (simp_all add: canonical_def map_idI)
  qed
qed

text \<open>Adding an observation keeps a diagnostic well-formed.\<close>

lemma drop_second_length: "12 < length (hs @ [ob]) \<Longrightarrow> length hs \<le> 12 \<Longrightarrow> length (hd (hs @ [ob]) # drop 2 (hs @ [ob])) = 12"
  by simp

lemma addObservation_wf:
  assumes "diag_wf (rc_diagnostic r)" and ob: "wf_obs ob"
  shows "diag_wf (rc_diagnostic (addObservation ob r)) \<and> cd_history (rc_diagnostic (addObservation ob r)) \<noteq> []"
proof -
  let ?d = "rc_diagnostic r" and ?hs = "cd_history (rc_diagnostic r)"
  let ?key = "odelete ''elapsedMs'' (odelete ''at'' ob)"
  let ?same = "rc_previous r = Some ?key \<and> 1 < length ?hs"
  let ?new = "rc_diagnostic (addObservation ob r)"
  obtain st where st: "st \<in> set observationStates" "oget ob ''state'' = Some (JStr st)" using wf_obs_state [OF ob] by blast
  note wf = assms(1) [unfolded diag_wf_def]
  have hist: "cd_history ?new = (if ?same then butlast ?hs @ [ob]
      else if 12 < length (?hs @ [ob]) then hd (?hs @ [ob]) # drop 2 (?hs @ [ob]) else ?hs @ [ob])"
    and om: "cd_omittedObservations ?new = (if ?same \<or> 12 < length (?hs @ [ob]) then cd_omittedObservations ?d + 1 else cd_omittedObservations ?d)"
    and rest: "cd_observations ?new = cd_observations ?d + 1" "cd_state ?new = st" "cd_runId ?new = cd_runId ?d"
      "cd_scope ?new = cd_scope ?d" "cd_kind ?new = cd_kind ?d" "cd_collection ?new = cd_collection ?d"
      "cd_ownerRunId ?new = cd_ownerRunId ?d"
      "cd_firstFailure ?new = (if st = ''failed'' \<and> cd_firstFailure ?d = None then Some ob else cd_firstFailure ?d)"
    using st by (simp_all add: addObservation_def Let_def)
  have len: "length (cd_history ?new) \<le> 12" "cd_history ?new \<noteq> []" "last (cd_history ?new) = ob"
    "int (length (cd_history ?new)) + cd_omittedObservations ?new = int (length ?hs) + cd_omittedObservations ?d + 1"
    using wf unfolding hist om by (auto simp: last_drop)
  have sub: "set (cd_history ?new) \<subseteq> insert ob (set ?hs)"
    unfolding hist by (auto dest: in_set_butlastD in_set_dropD simp: hd_append split: if_splits)
  have "\<forall>o1 \<in> set (cd_history ?new). wf_obs o1" using sub wf ob by blast
  moreover have "\<forall>o1 \<in> set_option (cd_firstFailure ?new). wf_obs o1 \<and> oget o1 ''state'' = Some (JStr ''failed'')"
    using wf ob st rest by (auto split: if_splits)
  moreover have "0 \<le> cd_omittedObservations ?new" using wf om by auto
  ultimately show ?thesis using len wf st rest unfolding diag_wf_def by simp
qed

text \<open>The invariant of the recorder and its methods.\<close>

definition rec_inv :: "CleanupRecorder \<times> 'w \<Rightarrow> bool" where
  "rec_inv s \<longleftrightarrow> diag_wf (rc_diagnostic (fst s))"

definition clock_in_range :: "'w diag_env \<Rightarrow> bool" where
  "clock_in_range env \<longleftrightarrow> (\<forall>w. fst (de_now env w) < 2930950 * 86400000)"

lemma rec_runs [simp]:
  "rec_world m (r, w) = (case m w of (x, w') \<Rightarrow> (x, (r, w')))" "rec_update f (r, w) = (Inr (), (f r, w))"
  "rec_clock env (r, w) = (case de_now env w of (t, w') \<Rightarrow> (Inr t, (r, w')))"
  by (simp_all add: rec_world_def rec_update_def rec_clock_def modify_def)

lemma diag_wf_collection: "diag_wf d \<Longrightarrow> c \<in> set collections \<Longrightarrow> diag_wf (d\<lparr>cd_collection := c\<rparr>)"
  by (simp add: diag_wf_def)

lemma collections_simps [simp]: "''write-failed'' \<in> set collections" "''invalid'' \<in> set collections"
  by (simp_all add: collections_def)

lemma keeps_rec_world [keeps_intros]: "(\<And>r w. I (r, w) \<Longrightarrow> I (r, snd (m w))) \<Longrightarrow> keeps I (rec_world m)"
  by (auto simp: keeps_def split: prod.splits) (metis snd_conv)

lemma keeps_rec_update [keeps_intros]: "(\<And>r w. I (r, w) \<Longrightarrow> I (f r, w)) \<Longrightarrow> keeps I (rec_update f)"
  by (auto simp: keeps_def)

lemma loadCapture_ok: "\<exists>s'. loadCapture env s = (Inr (), s')"
  by (cases s) (auto simp: loadCapture_def act_simps split: prod.splits sum.splits)

lemma loadCapture_inv: "keeps rec_inv (loadCapture env)"
  unfolding loadCapture_def
  by (intro keeps_intros)
    (auto simp: rec_inv_def diag_wf_collection split: option.split intro!: keeps_intros dest: parsed_diagnostic_wf)

lemma writeCapture_ok: "\<exists>s'. writeCapture env body s = (Inr (), s')"
  by (cases s; cases body) (auto simp: writeCapture_def act_simps split: prod.splits sum.splits)

lemma writeCapture_inv: "keeps rec_inv (writeCapture env body)"
  unfolding writeCapture_def
  by (intro keeps_intros) (auto simp: rec_inv_def diag_wf_collection split: prod.split)

lemma writeCapture_count:
  "cd_observations (rc_diagnostic (fst (snd (writeCapture env body s)))) = cd_observations (rc_diagnostic (fst s))"
  by (cases s; cases body) (auto simp: writeCapture_def act_simps split: prod.splits sum.splits)

lemma note_value_wf:
  assumes "diag_wf (rc_diagnostic r)" and "t1 < 2930950 * 86400000"
  shows "diag_wf (rc_diagnostic (note_value value (time_fields t1 t2 st) r)) \<and>
    cd_history (rc_diagnostic (note_value value (time_fields t1 t2 st) r)) \<noteq> []"
proof (cases "parseCleanupObservation (JObj (oassign value (time_fields t1 t2 st)))")
  case None
  have "diag_wf (rc_diagnostic (r\<lparr>rc_diagnostic := (rc_diagnostic r)\<lparr>cd_collection := ''invalid''\<rparr>\<rparr>))"
    using assms(1) by (simp add: diag_wf_collection)
  from addObservation_wf [OF this wf_invalid_observation [OF assms(2)]] show ?thesis
    using None by (simp add: note_value_def)
next
  case (Some ob)
  from addObservation_wf [OF assms(1) wf_obs_parsed [OF Some]] Some show ?thesis by (simp add: note_value_def)
qed

lemma recordObservation_run:
  assumes "loadCapture env s = (Inr (), (r, w))" and "ep = None \<or> ep = Some (rc_epoch r) \<and> \<not> rc_retired r"
    and "de_now env w = (t1, w1)" "de_now env w1 = (t2, w2)"
  shows "recordObservation env value ep s =
    (case snapshot (note_value value (time_fields t1 t2 (rc_started r)) r) of
       Inl e \<Rightarrow> (Inl e, (note_value value (time_fields t1 t2 (rc_started r)) r, w2))
     | Inr body \<Rightarrow> writeCapture env body (note_value value (time_fields t1 t2 (rc_started r)) r, w2))"
  using assms by (auto simp: recordObservation_def act_simps split: sum.splits)

lemma recordObservation_correct:
  assumes inv: "rec_inv s" and clock: "clock_in_range env"
    and run: "recordObservation env value ep s = (res, s')"
  shows "rec_inv s' \<and> (res = Inr () \<or> res = Inl (hard R_CONFIG) \<and> 1000000000 < cd_observations (rc_diagnostic (fst s')))"
proof -
  obtain r w where ld: "loadCapture env s = (Inr (), (r, w))" using loadCapture_ok [of env s] by auto
  have wf: "diag_wf (rc_diagnostic r)" using keepsD [OF loadCapture_inv inv, of env] ld by (simp add: rec_inv_def)
  show ?thesis
  proof (cases "ep = None \<or> ep = Some (rc_epoch r) \<and> \<not> rc_retired r")
    case False
    with ld run have "res = Inr ()" "s' = (r, w)"
      by (auto simp: recordObservation_def act_simps split: if_splits)
    with wf show ?thesis by (simp add: rec_inv_def)
  next
    case True
    obtain t1 w1 where now: "de_now env w = (t1, w1)" by fastforce
    obtain t2 w2 where now2: "de_now env w1 = (t2, w2)" by fastforce
    let ?n = "note_value value (time_fields t1 t2 (rc_started r)) r"
    have "t1 < 2930950 * 86400000" using clock now by (metis clock_in_range_def fst_conv)
    from note_value_wf [OF wf this] have n: "diag_wf (rc_diagnostic ?n)" "cd_history (rc_diagnostic ?n) \<noteq> []" by blast+
    note run' = run [unfolded recordObservation_run [OF ld True now now2]]
    show ?thesis
    proof (cases "cd_observations (rc_diagnostic ?n) \<le> 1000000000")
      case le: True
      from parse_wf_diagnostic [OF n le] have snap: "snapshot ?n = Inr (Some (canonical (rc_diagnostic ?n)))"
        using n(2) by (simp add: snapshot_def)
      from run' snap have wr: "writeCapture env (Some (canonical (rc_diagnostic ?n))) (?n, w2) = (res, s')" by simp
      then have "res = Inr ()" using writeCapture_ok by (metis prod.inject)
      moreover have "rec_inv s'" using keepsD [OF writeCapture_inv, of "(?n, w2)"] n(1) wr by (metis fst_conv rec_inv_def snd_conv)
      ultimately show ?thesis by simp
    next
      case False
      then have "parseCleanupDiagnostic (diagnostic_json (rc_diagnostic ?n)) = None"
        by (auto simp: parseCleanupDiagnostic_def diagnostic_fields valid_envelope_def integer_ok_def Let_def
            split: option.splits)
      then have "snapshot ?n = Inl (hard R_CONFIG)" using n(2) by (simp add: snapshot_def)
      with run' n(1) False show ?thesis by (auto simp: rec_inv_def)
    qed
  qed
qed

lemma newCleanupRecorder_inv:
  assumes "is_run_id (js_to_string runId)" "kind \<in> set resourceKinds" "\<And>x. is_scope (de_sha256 env x)"
  shows "rec_inv (newCleanupRecorder env filename runId kind name uid now, w)"
  using assms by (simp add: rec_inv_def diag_wf_def newCleanupRecorder_def Let_def observationStates_def collections_def)

subsection \<open>Properties\<close>

text \<open>
  The recorder cannot disturb the cleanup that it records: from any well-formed recorder, whatever
  the file system answers and whatever value is recorded, \<open>record\<close> ends without an error and leaves a
  well-formed diagnostic of at most 12 observations whose counters add up. The only exception is the
  bound of the format itself, after more than a billion observations of one entry.
\<close>

theorem cleanup_record_total:
  assumes "rec_inv s" and "clock_in_range env" and "recordObservation env value ep s = (res, s')"
  shows "rec_inv s' \<and> (res = Inr () \<or> res = Inl (hard R_CONFIG) \<and> 1000000000 < cd_observations (rc_diagnostic (fst s')))"
  using assms by (rule recordObservation_correct)

text \<open>An environment without files whose clock stands at one time.\<close>

definition quiet_env :: "nat diag_env" where
  "quiet_env = \<lparr>de_now = (\<lambda>w. (5000, w)), de_isFile = (\<lambda>_ w. (Inl (Other ''ENOENT''), w)),
     de_readJson = (\<lambda>_ w. (Inl (hard R_PRIVATE_FILE), w)), de_write = (\<lambda>_ _ w. (Inr (), w + 1)),
     de_sha256 = (\<lambda>_. replicate 64 CHR ''a'')\<rparr>"

definition sample_run :: jsval where
  "sample_run = JStr (''reg-'' @ replicate 36 CHR ''0'')"

definition quiet_recorder :: CleanupRecorder where
  "quiet_recorder = newCleanupRecorder quiet_env ''/private/runs/journal.json'' sample_run ''model'' ''m'' (Some ''u'') 5000"

lemma sample_ids: "is_scope (replicate 64 CHR ''a'')" "is_run_id (js_to_string sample_run)"
  by (simp_all add: is_scope_def is_run_id_def sample_run_def list_all_iff char_class_defs)

lemma quiet_facts: "rec_inv (quiet_recorder, w)" "clock_in_range quiet_env"
proof -
  have "is_scope (de_sha256 quiet_env x)" for x using sample_ids by (simp add: quiet_env_def)
  with sample_ids(2) show "rec_inv (quiet_recorder, w)"
    unfolding quiet_recorder_def by (intro newCleanupRecorder_inv) (simp_all add: resourceKinds_def)
  show "clock_in_range quiet_env" by (simp add: clock_in_range_def quiet_env_def)
qed

theorem cleanup_record_total_witness:
  "rec_inv (snd (recordObservation quiet_env [(''operation'', JStr ''guard'')] None (quiet_recorder, 0)))"
  using cleanup_record_total [OF quiet_facts, of _ None _ _, OF surjective_pairing] by blast

text \<open>
  A capture file round-trips: what the parser accepts is rebuilt to the same diagnostic when the
  diagnostic is written out and parsed again.
\<close>

theorem cleanup_diagnostic_roundtrip:
  assumes "parseCleanupDiagnostic v = Some d"
  shows "parseCleanupDiagnostic (diagnostic_json d) = Some d"
  using parse_wf_diagnostic [OF parsed_diagnostic_wf(1-3)] parsed_diagnostic_wf(4) assms by metis

definition sample_observation :: "jsval obj" where
  "sample_observation = [(''operation'', JStr ''guard''), (''state'', JStr ''running''),
     (''at'', JStr (toISOString 5000)), (''elapsedMs'', JInt 0)]"

definition sample_diagnostic :: CleanupDiagnostic where
  "sample_diagnostic = \<lparr>cd_runId = sample_run, cd_ownerRunId = None, cd_scope = JStr (replicate 64 CHR ''a''),
     cd_kind = ''model'', cd_state = ''running'', cd_observations = 1, cd_omittedObservations = 0,
     cd_history = [sample_observation], cd_firstFailure = None, cd_collection = ''captured''\<rparr>"

lemma sample_observation_parses: "parseCleanupObservation (JObj sample_observation) = Some sample_observation"
proof -
  have "timestamp (Some (JStr (toISOString 5000)))"
    using is_iso_millis_toISOString [of 5000] date_parse_toISOString [of 5000] by (simp add: timestamp_def)
  then show ?thesis
    by (simp add: parseCleanupObservation_def valid_base_def Let_def optional_def booleanKeys_def baseKeys_def rebuild_def
        field_def integer_ok_def cleanupOperations_def observationStates_def sample_observation_def)
qed

lemma sample_diagnostic_parses: "\<exists>d. parseCleanupDiagnostic (diagnostic_json sample_diagnostic) = Some d"
proof -
  have "wf_obs sample_observation" by (simp add: wf_obs_def sample_observation_parses)
  moreover have "oget sample_observation ''state'' = Some (JStr ''running'')" by (simp add: sample_observation_def)
  ultimately have "diag_wf sample_diagnostic"
    using sample_ids by (simp add: diag_wf_def sample_diagnostic_def resourceKinds_def observationStates_def collections_def)
  from parse_wf_diagnostic [OF this] show ?thesis by (simp add: sample_diagnostic_def)
qed

theorem cleanup_diagnostic_roundtrip_witness:
  "\<exists>d. parseCleanupDiagnostic (diagnostic_json sample_diagnostic) = Some d \<and> parseCleanupDiagnostic (diagnostic_json d) = Some d"
  using sample_diagnostic_parses cleanup_diagnostic_roundtrip by blast

text \<open>Values without free text.\<close>

definition vocabulary :: "string set" where
  "vocabulary = set cleanupOperations \<union> set observationStates \<union> range reason_name \<union> range stage_name \<union>
     {''GET'', ''POST'', ''PUT'', ''DELETE'', ''model-activation'', ''model-catalog'', ''api-key''} \<union>
     set commandFailures \<union> set (map fst statusCodes) \<union> set commandSignals"

fun closed_value :: "jsval \<Rightarrow> bool" where
  "closed_value JNull = True"
| "closed_value (JBool b) = True"
| "closed_value (JInt i) = True"
| "closed_value v = (js_to_string v \<in> vocabulary \<or> is_iso_millis (js_to_string v))"

lemma closed_reasons:
  "reason_of (js_to_string y) \<noteq> None \<Longrightarrow> closed_value y" "is_statusReason (js_to_string y) \<Longrightarrow> closed_value y"
  by (cases y; auto simp: vocabulary_def dest!: reason_of_Some)
    (cases y; auto simp: vocabulary_def is_statusReason_def dest!: map_of_SomeD intro: rev_image_eqI)

lemma closed_listed: "one_of ws (Some y) \<Longrightarrow> set ws \<subseteq> vocabulary \<Longrightarrow> closed_value y"
  by (auto simp: one_of_iff)

lemma closed_plain:
  "nullableBoolean y \<Longrightarrow> closed_value y" "is_bool y \<Longrightarrow> closed_value y"
  "int_between lo hi (Some y) \<Longrightarrow> closed_value y" "timestamp (Some y) \<Longrightarrow> closed_value y"
  by (cases y; auto simp: nullableBoolean_def timestamp_def)+

lemma vocabulary_sets:
  "set cleanupOperations \<subseteq> vocabulary" "set observationStates \<subseteq> vocabulary" "set (map stage_name stages) \<subseteq> vocabulary"
  "set [''GET'', ''POST'', ''PUT'', ''DELETE''] \<subseteq> vocabulary" "set [''model-activation'', ''model-catalog'', ''api-key''] \<subseteq> vocabulary"
  "set commandFailures \<subseteq> vocabulary" "set commandSignals \<subseteq> vocabulary"
  by (auto simp: vocabulary_def)

lemma closed_base_value:
  assumes base: "valid_base v" and k: "k \<in> set baseKeys" and x: "jget v k = Some x"
  shows "closed_value x"
proof -
  note opt = base [unfolded valid_base_def Let_def optional_def integer_ok_def]
  from k consider "k \<in> {''operation'', ''state'', ''at'', ''elapsedMs''}" | "k \<in> set booleanKeys"
    | "k \<in> {''requestAttempted'', ''retrying'', ''attempt'', ''expectedGeneration'', ''observedGeneration'', ''timeoutMs''}"
    | "k \<in> {''podCount'', ''catalogCount'', ''httpStatus''}" | "k \<in> {''reason'', ''stage'', ''method'', ''endpoint''}"
    unfolding baseKeys_def by fastforce
  then show ?thesis
  proof cases
    case 1
    then show ?thesis using opt x vocabulary_sets closed_plain closed_listed by auto
  next
    case 2
    then have "nullableBoolean x" using opt x by (metis (no_types, lifting) option.simps(5))
    then show ?thesis by (rule closed_plain)
  next
    case 3
    then have "is_bool x \<or> (\<exists>lo hi. int_between lo hi (Some x))" using opt x by auto
    then show ?thesis using closed_plain by blast
  next
    case 4
    then have "x = JNull \<or> (\<exists>lo hi. int_between lo hi (Some x))" using opt x by auto
    then show ?thesis using closed_plain by auto
  next
    case 5
    then show ?thesis using opt x vocabulary_sets closed_reasons closed_listed by auto
  qed
qed

lemma closed_command_value:
  assumes "parseCleanupObservation v = Some ob" and x: "jget v k = Some x"
    and k: "k \<in> {''commandFailure'', ''kubernetesReason'', ''exitCode'', ''processSignal''}"
  shows "closed_value x"
proof -
  have "valid_command_diagnostic v"
    using assms by (auto simp: parseCleanupObservation_def parseKubernetesCommandDiagnostic_def split: if_splits)
  note c = this [unfolded valid_command_diagnostic_def Let_def]
  from k consider "k = ''commandFailure''" | "k = ''kubernetesReason''" | "k = ''exitCode''" | "k = ''processSignal''" by blast
  then show ?thesis
  proof cases
    case 1
    then show ?thesis using c x closed_listed [OF _ vocabulary_sets(6)] by simp
  next
    case 2
    then have "is_statusReason (js_to_string x)" using c x by simp
    then show ?thesis by (rule closed_reasons)
  next
    case 3
    then have "int_between 0 255 (Some x)" using c x by simp
    then show ?thesis by (rule closed_plain)
  next
    case 4
    then show ?thesis using c x closed_listed [OF _ vocabulary_sets(7)] by simp
  qed
qed

text \<open>
  No free text passes the parser of observations: every field of a result is one of the known
  ones, and its value is a number, a truth value, \<open>null\<close>, a time of the fixed format, or something whose
  text belongs to the fixed vocabularies.
\<close>

theorem cleanup_observation_vocabulary:
  assumes "parseCleanupObservation v = Some ob" and "oget ob k = Some x"
  shows "k \<in> set observationKeys \<and> closed_value x"
proof -
  have k: "k \<in> set observationKeys" and x: "jget v k = Some x"
    using parse_observation_lookup(1) [OF assms(1), of k] assms(2) by (auto split: if_splits)
  have "closed_value x"
  proof (cases "k \<in> set baseKeys")
    case True
    then show ?thesis by (rule closed_base_value [OF parse_observation_lookup(2) [OF assms(1)] _ x])
  next
    case False
    with k have "k \<in> {''commandFailure'', ''kubernetesReason'', ''exitCode'', ''processSignal''}" by (auto simp: observationKeys_def)
    then show ?thesis by (rule closed_command_value [OF assms(1) x])
  qed
  with k show ?thesis ..
qed

theorem cleanup_observation_vocabulary_witness:
  "parseCleanupObservation (JObj sample_observation) = Some sample_observation \<and>
   ''operation'' \<in> set observationKeys \<and> closed_value (JStr ''guard'')"
  using cleanup_observation_vocabulary [OF sample_observation_parses, of "''operation''" "JStr ''guard''"]
    sample_observation_parses by (simp add: sample_observation_def)


definition conflict_observation :: "jsval obj" where
  "conflict_observation = sample_observation @ [(''httpStatus'', JInt 409), (''commandFailure'', JStr ''api''),
     (''kubernetesReason'', JStr ''Conflict''), (''exitCode'', JInt 1)]"

definition retrying_recorder :: CleanupRecorder where
  "retrying_recorder = quiet_recorder\<lparr>rc_diagnostic := sample_diagnostic\<lparr>cd_history := [conflict_observation]\<rparr>\<rparr>"


text \<open>
  The captures of a run come in the order of their last observation, at most 16 of them, every
  removed one is counted, and no capture that has not passed is removed while there are at most 16
  of those.
\<close>

theorem captures_compaction:
  assumes "finishCaptures ds omitted = (ds', omitted')"
  shows "length ds' \<le> 16 \<and> omitted' + length ds' = omitted + length ds \<and>
    (length (filter (\<lambda>d. \<not> passed d) ds) \<le> 16 \<longrightarrow>
      filter (\<lambda>d. \<not> passed d) ds' = sort_key capture_time (filter (\<lambda>d. \<not> passed d) ds))"
  using compactCaptures_spec [OF assms [unfolded finishCaptures_def]] by (simp add: filter_sort)

theorem captures_compaction_witness:
  "length (fst (finishCaptures (replicate 20 sample_diagnostic) 0)) \<le> 16"
  using captures_compaction [OF surjective_pairing, of "replicate 20 sample_diagnostic" 0] by blast

end
