(* ===== verification/Resource_Journal.thy ===== *)
theory Resource_Journal
  imports Cleanup_Diagnostic
begin

text \<open>
  The journal of created resources (\<open>regression/core/journal.ts\<close>). Every resource that a run asks the
  appliance to create is entered before the request, marked as owned with its UID after the reply,
  and removed by \<open>cleanup\<close> through an adapter that deletes by exact UID. The class is the record
  \<open>ResourceJournal\<close>; its methods act on that record and the world. An entry is addressed by its index,
  which is the object reference of the source: entries are appended and never moved. The file write,
  the file read with \<open>JSON.parse\<close>, the adapters and the lease check are parameters.
\<close>

subsection \<open>Data\<close>

datatype ResourceKind = K_model | K_app | K_key | K_identity

fun kind_name :: "ResourceKind \<Rightarrow> string" where
  "kind_name K_model = ''model''"
| "kind_name K_app = ''app''"
| "kind_name K_key = ''key''"
| "kind_name K_identity = ''identity''"

definition kind_of :: "string \<Rightarrow> ResourceKind option" where
  "kind_of s = find (\<lambda>k. kind_name k = s) [K_model, K_app, K_key, K_identity]"

datatype EntryState = E_requested | E_owned | E_removed | E_blocked

fun state_name :: "EntryState \<Rightarrow> string" where
  "state_name E_requested = ''requested''"
| "state_name E_owned = ''owned''"
| "state_name E_removed = ''removed''"
| "state_name E_blocked = ''blocked''"

definition state_of :: "string \<Rightarrow> EntryState option" where
  "state_of s = find (\<lambda>k. state_name k = s) [E_requested, E_owned, E_removed, E_blocked]"

record CleanupFailure =
  cf_operation :: string
  cf_reason :: ReasonCode
  cf_stage :: "Stage option"

record JournalEntry =
  je_kind :: ResourceKind
  je_name :: string
  je_uid :: "string option"
  je_state :: EntryState
  je_generation :: "int option"
  je_cleanupFailure :: "CleanupFailure option"

record JournalData =
  jd_runId :: jsval
  jd_targetUid :: string
  jd_prefix :: string
  jd_entries :: "JournalEntry list"

definition mkCleanupFailure :: "string \<Rightarrow> js_error \<Rightarrow> CleanupFailure" where
  "mkCleanupFailure operation err =
     \<lparr>cf_operation = operation, cf_reason = error_reason err, cf_stage = error_stage err\<rparr>"

subsection \<open>Names and paths\<close>

text \<open>\<open>/^[a-z0-9][a-z0-9-]{0,62}$/\<close>\<close>

definition is_resource_name :: "string \<Rightarrow> bool" where
  "is_resource_name s \<longleftrightarrow> s \<noteq> [] \<and> length s \<le> 63 \<and> is_name_start (hd s) \<and> list_all is_name_char (tl s)"

definition applicationTypes :: "string list" where
  "applicationTypes = [''openclaw'', ''hermes'', ''paperclip'', ''kubeopencode'', ''odysseus'']"

definition ownedJournalName :: "ResourceKind \<Rightarrow> string \<Rightarrow> string \<Rightarrow> bool" where
  "ownedJournalName kind name pre \<longleftrightarrow>
     is_resource_name name \<and>
     (startsWith name pre \<or>
      kind = K_app \<and> (\<exists>t \<in> set applicationTypes. startsWith name (t @ ''-'' @ pre)))"

definition newRunId :: "string \<Rightarrow> string" where
  "newRunId uuid = ''reg-'' @ uuid"

text \<open>\<open>/^\/private\/runs\/reg-[0-9a-f-]{36}\/(?:worker-([1-9][0-9]?)\/)?journal\.json$/\<close>\<close>

definition worker_number :: "string \<Rightarrow> nat option" where
  "worker_number rest =
     (if \<not> startsWith rest ''worker-'' then None
      else let ds = takeWhile is_digit (drop 7 rest)
           in if drop (7 + length ds) rest = ''/journal.json'' \<and> (length ds = 1 \<or> length ds = 2) \<and> hd ds \<noteq> CHR ''0''
              then Some (digits_value ds) else None)"

definition recoveryJournalPath :: "jsval \<Rightarrow> bool \<Rightarrow> bool" where
  "recoveryJournalPath value gpu = (case value of
     JStr s \<Rightarrow>
       startsWith s ''/private/runs/'' \<and> is_run_id (take 40 (drop 14 s)) \<and> take 1 (drop 54 s) = ''/'' \<and>
       (drop 55 s = ''journal.json'' \<or>
        (case worker_number (drop 55 s) of None \<Rightarrow> False | Some n \<Rightarrow> gpu \<and> n \<le> 64))
   | _ \<Rightarrow> False)"

subsection \<open>The journal file\<close>

definition failure_json :: "CleanupFailure \<Rightarrow> jsval" where
  "failure_json f = JObj ([(''operation'', JStr (cf_operation f)), (''reason'', JStr (reason_name (cf_reason f)))] @
     field ''stage'' (map_option (\<lambda>st. JStr (stage_name st)) (cf_stage f)))"

definition entry_json :: "JournalEntry \<Rightarrow> jsval" where
  "entry_json e = JObj ([(''kind'', JStr (kind_name (je_kind e))), (''name'', JStr (je_name e)),
     (''uid'', case je_uid e of None \<Rightarrow> JNull | Some u \<Rightarrow> JStr u), (''state'', JStr (state_name (je_state e)))] @
     field ''generation'' (map_option JInt (je_generation e)) @
     field ''cleanupFailure'' (map_option failure_json (je_cleanupFailure e)))"

definition journal_json :: "JournalData \<Rightarrow> jsval" where
  "journal_json d = JObj [(''version'', JInt 1), (''runId'', jd_runId d), (''targetUid'', JStr (jd_targetUid d)),
     (''prefix'', JStr (jd_prefix d)), (''entries'', JArr (map entry_json (jd_entries d)))]"

text \<open>\<open>validCleanupFailure\<close> with the value it accepts.\<close>

definition parseCleanupFailure :: "jsval \<Rightarrow> CleanupFailure option" where
  "parseCleanupFailure v = (case v of
     JObj ob \<Rightarrow>
       if set (map fst ob) \<subseteq> {''operation'', ''reason'', ''stage''} \<and> one_of cleanupOperations (oget ob ''operation'') \<and>
          reason_of (text_of (oget ob ''reason'')) \<noteq> None \<and>
          (oget ob ''stage'' = None \<or> one_of (map stage_name stages) (oget ob ''stage''))
       then Some \<lparr>cf_operation = str_of (oget ob ''operation''),
            cf_reason = the (reason_of (text_of (oget ob ''reason''))),
            cf_stage = (if oget ob ''stage'' = None then None else stage_of (str_of (oget ob ''stage'')))\<rparr>
       else None
   | _ \<Rightarrow> None)"

text \<open>One iteration of the loop in \<open>resume\<close>; \<open>seen\<close> holds the keys of the earlier entries.\<close>

definition parseEntry :: "string \<Rightarrow> (ResourceKind \<times> string) list \<Rightarrow> jsval \<Rightarrow> JournalEntry option" where
  "parseEntry pre seen v =
     (case (kind_of (str_of (jget v ''kind'')), jget v ''name'', jget v ''uid'', state_of (str_of (jget v ''state''))) of
        (Some kind, Some (JStr name), Some uid, Some st) \<Rightarrow>
          (let gen = jget v ''generation''; failure = jget v ''cleanupFailure'';
               parsed = (case failure of None \<Rightarrow> None | Some f \<Rightarrow> parseCleanupFailure f)
           in if ownedJournalName kind name pre \<and> (uid = JNull \<or> is_string uid \<and> js_to_string uid \<noteq> []) \<and>
                 (st \<noteq> E_owned \<or> uid \<noteq> JNull) \<and>
                 (gen = None \<or> kind \<in> {K_model, K_app} \<and> isSafeInteger gen \<and> 0 < int_of_js gen \<and> uid \<noteq> JNull) \<and>
                 (failure = None \<or> st = E_blocked \<and> parsed \<noteq> None) \<and> (kind, name) \<notin> set seen
              then Some \<lparr>je_kind = kind, je_name = name, je_uid = (if uid = JNull then None else Some (js_to_string uid)),
                   je_state = st, je_generation = map_option (\<lambda>g. int_of_js (Some g)) gen, je_cleanupFailure = parsed\<rparr>
              else None)
      | _ \<Rightarrow> None)"

fun parseEntries :: "string \<Rightarrow> (ResourceKind \<times> string) list \<Rightarrow> jsval list \<Rightarrow> JournalEntry list option" where
  "parseEntries pre seen [] = Some []"
| "parseEntries pre seen (v # vs) =
     (case parseEntry pre seen v of
        None \<Rightarrow> None
      | Some e \<Rightarrow> map_option ((#) e) (parseEntries pre ((je_kind e, je_name e) # seen) vs))"

text \<open>\<open>`reg-${runId.slice(4, 16)}-`\<close>, where \<open>slice\<close> is the method of a string or of an array.\<close>

fun slice_4_16 :: "jsval \<Rightarrow> string" where
  "slice_4_16 (JArr xs) = js_to_string (JArr (take 12 (drop 4 xs)))"
| "slice_4_16 v = take 12 (drop 4 (js_to_string v))"

definition prefix_of :: "jsval \<Rightarrow> string" where
  "prefix_of runId = ''reg-'' @ slice_4_16 runId @ ''-''"

definition parseJournal :: "string \<Rightarrow> jsval \<Rightarrow> JournalData option" where
  "parseJournal targetUid data =
     (case (jget data ''runId'', jget data ''prefix'', items_of (jget data ''entries'')) of
        (Some runId, Some (JStr pre), Some vs) \<Rightarrow>
          if jget data ''version'' = Some (JInt 1) \<and> jget data ''targetUid'' = Some (JStr targetUid) \<and>
             is_run_id (js_to_string runId) \<and> pre = prefix_of runId
          then map_option (\<lambda>es. \<lparr>jd_runId = runId, jd_targetUid = targetUid, jd_prefix = pre, jd_entries = es\<rparr>)
                 (parseEntries pre [] vs)
          else None
      | _ \<Rightarrow> None)"

subsection \<open>The class\<close>

record ResourceJournal =
  rj_filename :: string
  rj_data :: JournalData
  rj_recorders :: "CleanupRecorder obj"

record 'w journal_env =
  jv_write :: "string \<Rightarrow> jsval \<Rightarrow> bool \<Rightarrow> ('w, js_error, unit) act"
  jv_readJson :: "string \<Rightarrow> ('w, js_error, jsval) act"
  jv_diag :: "'w diag_env"

type_synonym ('w, 'a) journal_act = "(ResourceJournal \<times> 'w, js_error, 'a) act"

definition jr_world :: "('w, js_error, 'a) act \<Rightarrow> ('w, 'a) journal_act" where
  "jr_world m = (\<lambda>(j, w). case m w of (x, w') \<Rightarrow> (x, (j, w')))"

definition jr_update :: "(ResourceJournal \<Rightarrow> ResourceJournal) \<Rightarrow> (ResourceJournal \<times> 'w, 'e, unit) act" where
  "jr_update f = modify (\<lambda>(j, w). (f j, w))"

abbreviation entries_of :: "ResourceJournal \<Rightarrow> JournalEntry list" where
  "entries_of j \<equiv> jd_entries (rj_data j)"

definition set_entries :: "JournalEntry list \<Rightarrow> ResourceJournal \<Rightarrow> ResourceJournal" where
  "set_entries es j = j\<lparr>rj_data := (rj_data j)\<lparr>jd_entries := es\<rparr>\<rparr>"

definition change_entry :: "nat \<Rightarrow> (JournalEntry \<Rightarrow> JournalEntry) \<Rightarrow> ResourceJournal \<Rightarrow> ResourceJournal" where
  "change_entry i f j = set_entries ((entries_of j)[i := f (entries_of j ! i)]) j"

text \<open>\<open>entries.find(item => item.kind === kind && item.name === name)\<close>, as an index.\<close>

definition find_entry :: "ResourceKind \<Rightarrow> string \<Rightarrow> ResourceJournal \<Rightarrow> nat option" where
  "find_entry kind name j = findIndex (\<lambda>e. je_kind e = kind \<and> je_name e = name) (entries_of j)"

definition persist :: "'w journal_env \<Rightarrow> ('w, unit) journal_act" where
  "persist env = bnd (gets fst) (\<lambda>j. jr_world (jv_write env (rj_filename j) (journal_json (rj_data j)) False))"

definition createJournal :: "'w journal_env \<Rightarrow> string \<Rightarrow> string \<Rightarrow> string \<Rightarrow> ('w, js_error, ResourceJournal) act" where
  "createJournal env filename runId targetUid =
     seq (requireSafe (is_run_id runId \<and> 0 < length targetUid) R_OWNERSHIP)
     (let data = \<lparr>jd_runId = JStr runId, jd_targetUid = targetUid, jd_prefix = prefix_of (JStr runId), jd_entries = []\<rparr>
      in seq (jv_write env filename (journal_json data) True)
         (ret \<lparr>rj_filename = filename, rj_data = data, rj_recorders = []\<rparr>))"

definition resumeJournal :: "'w journal_env \<Rightarrow> string \<Rightarrow> string \<Rightarrow> ('w, js_error, ResourceJournal) act" where
  "resumeJournal env filename targetUid =
     bnd (catch (jv_readJson env filename) (\<lambda>_. throw (hard R_OWNERSHIP))) (\<lambda>v.
       case parseJournal targetUid v of
         None \<Rightarrow> throw (hard R_OWNERSHIP)
       | Some data \<Rightarrow> ret \<lparr>rj_filename = filename, rj_data = data, rj_recorders = []\<rparr>)"

definition requested :: "'w journal_env \<Rightarrow> ResourceKind \<Rightarrow> string \<Rightarrow> ('w, unit) journal_act" where
  "requested env kind name = bnd (gets fst) (\<lambda>j.
     seq (requireSafe (ownedJournalName kind name (jd_prefix (rj_data j)) \<and> find_entry kind name j = None) R_OWNERSHIP)
     (seq (jr_update (\<lambda>j. set_entries (entries_of j @ [\<lparr>je_kind = kind, je_name = name, je_uid = None,
             je_state = E_requested, je_generation = None, je_cleanupFailure = None\<rparr>]) j))
       (persist env)))"

text \<open>The guard on the entry that \<open>find\<close> returned, then its change and the write.\<close>

definition on_entry :: "'w journal_env \<Rightarrow> ResourceKind \<Rightarrow> string \<Rightarrow> (JournalEntry \<Rightarrow> bool) \<Rightarrow>
    (JournalEntry \<Rightarrow> JournalEntry) \<Rightarrow> ('w, unit) journal_act" where
  "on_entry env kind name ok f = bnd (gets fst) (\<lambda>j.
     case find_entry kind name j of
       None \<Rightarrow> throw (hard R_OWNERSHIP)
     | Some i \<Rightarrow> seq (requireSafe (ok (entries_of j ! i)) R_OWNERSHIP)
         (seq (jr_update (change_entry i f)) (persist env)))"

definition is_positive_safe :: "int \<Rightarrow> bool" where
  "is_positive_safe g \<longleftrightarrow> 0 < g \<and> g \<le> max_safe"

definition owned :: "'w journal_env \<Rightarrow> ResourceKind \<Rightarrow> string \<Rightarrow> string \<Rightarrow> int option \<Rightarrow> ('w, unit) journal_act" where
  "owned env kind name uid generation = on_entry env kind name
     (\<lambda>e. je_state e = E_requested \<and> 0 < length uid \<and>
        (case generation of None \<Rightarrow> True | Some g \<Rightarrow> kind \<in> {K_model, K_app} \<and> is_positive_safe g))
     (\<lambda>e. e\<lparr>je_uid := Some uid, je_state := E_owned,
        je_generation := (case generation of None \<Rightarrow> je_generation e | Some g \<Rightarrow> Some g)\<rparr>)"

definition rejected :: "'w journal_env \<Rightarrow> ResourceKind \<Rightarrow> string \<Rightarrow> ('w, unit) journal_act" where
  "rejected env kind name = on_entry env kind name
     (\<lambda>e. je_state e = E_requested \<and> je_uid e = None) (\<lambda>e. e\<lparr>je_state := E_removed\<rparr>)"

definition recoveredAbsent :: "'w journal_env \<Rightarrow> ResourceKind \<Rightarrow> string \<Rightarrow> ('w, unit) journal_act" where
  "recoveredAbsent env kind name = on_entry env kind name
     (\<lambda>e. je_state e \<in> {E_requested, E_blocked} \<and> je_uid e = None)
     (\<lambda>e. e\<lparr>je_state := E_removed, je_cleanupFailure := None\<rparr>)"

definition generation :: "'w journal_env \<Rightarrow> ResourceKind \<Rightarrow> string \<Rightarrow> string \<Rightarrow> int \<Rightarrow> int \<Rightarrow> ('w, unit) journal_act" where
  "generation env kind name uid previous gen = on_entry env kind name
     (\<lambda>e. je_state e = E_owned \<and> je_uid e = Some uid \<and> je_generation e = Some previous \<and>
        - max_safe \<le> gen \<and> gen \<le> max_safe \<and> previous < gen)
     (\<lambda>e. e\<lparr>je_generation := Some gen\<rparr>)"

definition modelGeneration :: "'w journal_env \<Rightarrow> string \<Rightarrow> string \<Rightarrow> int \<Rightarrow> int \<Rightarrow> ('w, unit) journal_act" where
  "modelGeneration env = generation env K_model"

definition automaticallyRemovable :: "JournalEntry \<Rightarrow> bool" where
  "automaticallyRemovable e \<longleftrightarrow> (je_state e = E_owned \<or> je_state e = E_blocked) \<and> je_uid e \<noteq> None \<and>
     (je_kind e \<notin> {K_model, K_app} \<or> je_generation e \<noteq> None)"

definition recoveryPlan :: "ResourceJournal \<Rightarrow> (JournalEntry \<times> bool) list" where
  "recoveryPlan j = map (\<lambda>e. (e, automaticallyRemovable e)) (filter (\<lambda>e. je_state e \<noteq> E_removed) (entries_of j))"

definition cleanupFailures :: "ResourceJournal \<Rightarrow> (ResourceKind \<times> CleanupFailure) list" where
  "cleanupFailures j = concat (map (\<lambda>e. case je_cleanupFailure e of None \<Rightarrow> [] | Some f \<Rightarrow> [(je_kind e, f)]) (entries_of j))"

subsection \<open>Cleanup\<close>

record found =
  fo_uid :: jsval
  fo_generation :: "int option"
  fo_deleting :: "bool option"

text \<open>An adapter acts on the whole state because its observations reach the recorder of the entry.\<close>

record 'w cleanup_adapter =
  ca_lookup :: "JournalEntry \<Rightarrow> (jsval obj \<Rightarrow> ('w, unit) journal_act) \<Rightarrow> ('w, found option) journal_act"
  ca_removeIfUid :: "JournalEntry \<Rightarrow> string \<Rightarrow> (jsval obj \<Rightarrow> ('w, unit) journal_act) \<Rightarrow> ('w, unit) journal_act"
  ca_verifyRemoved :: "JournalEntry \<Rightarrow> (jsval obj \<Rightarrow> ('w, unit) journal_act) \<Rightarrow> ('w, bool) journal_act"

definition diagnostic_key :: "JournalEntry \<Rightarrow> string" where
  "diagnostic_key e = kind_name (je_kind e) @ '':'' @ je_name e"

definition with_recorder :: "string \<Rightarrow> ('w, 'a) rec_act \<Rightarrow> ('w, 'a) journal_act" where
  "with_recorder key m = (\<lambda>(j, w). case oget (rj_recorders j) key of
     None \<Rightarrow> (Inl (Other ''TypeError''), (j, w))
   | Some r \<Rightarrow> (case m (r, w) of (x, (r', w')) \<Rightarrow> (x, (j\<lparr>rj_recorders := oset key r' (rj_recorders j)\<rparr>, w'))))"

text \<open>The recorder of an entry, made on first use.\<close>

definition ensure_recorder :: "'w journal_env \<Rightarrow> JournalEntry \<Rightarrow> ('w, unit) journal_act" where
  "ensure_recorder env e = (\<lambda>(j, w).
     if oget (rj_recorders j) (diagnostic_key e) \<noteq> None then (Inr (), (j, w))
     else case de_now (jv_diag env) w of (t, w') \<Rightarrow>
       (Inr (), (j\<lparr>rj_recorders := oset (diagnostic_key e)
          (newCleanupRecorder (jv_diag env) (rj_filename j) (jd_runId (rj_data j)) (kind_name (je_kind e)) (je_name e) (je_uid e) t)
          (rj_recorders j)\<rparr>, w')))"

definition take_note :: "'w journal_env \<Rightarrow> string \<Rightarrow> jsval obj \<Rightarrow> ('w, unit) journal_act" where
  "take_note env key value = with_recorder key (recordObservation (jv_diag env) value None)"

definition stage_note :: "string \<Rightarrow> string \<Rightarrow> jsval obj" where
  "stage_note operation state = [(''operation'', JStr operation), (''state'', JStr state)]"

definition lookup_note :: "JournalEntry \<Rightarrow> found option \<Rightarrow> jsval obj" where
  "lookup_note e current =
     stage_note ''lookup'' ''passed'' @
     [(''exists'', JBool (current \<noteq> None)),
      (''uidMatches'', case current of None \<Rightarrow> JNull | Some c \<Rightarrow> JBool (Some (fo_uid c) = map_option JStr (je_uid e)))] @
     (case je_generation e of None \<Rightarrow> []
      | Some g \<Rightarrow> [(''expectedGeneration'', JInt g),
          (''generationMatches'', case Option.bind current fo_generation of None \<Rightarrow> JNull | Some g' \<Rightarrow> JBool (g' = g))]) @
     field ''observedGeneration'' (map_option JInt (Option.bind current fo_generation)) @
     field ''deleting'' (map_option JBool (Option.bind current fo_deleting))"

text \<open>An error together with the value of the local variable \<open>operation\<close> when it was thrown.\<close>

definition tagged :: "string \<Rightarrow> ('s, 'e, 'a) act \<Rightarrow> ('s, string \<times> 'e, 'a) act" where
  "tagged operation m = (\<lambda>s. case m s of (Inl e, t) \<Rightarrow> (Inl (operation, e), t) | (Inr x, t) \<Rightarrow> (Inr x, t))"

abbreviation entry_at :: "nat \<Rightarrow> (ResourceJournal \<times> 'w, 'e, JournalEntry) act" where
  "entry_at i \<equiv> gets (\<lambda>s. entries_of (fst s) ! i)"

definition mark_removed :: "JournalEntry \<Rightarrow> JournalEntry" where
  "mark_removed e = e\<lparr>je_state := E_removed, je_cleanupFailure := None\<rparr>"

definition mark_blocked :: "CleanupFailure \<Rightarrow> JournalEntry \<Rightarrow> JournalEntry" where
  "mark_blocked f e = e\<lparr>je_state := E_blocked, je_cleanupFailure := Some f\<rparr>"

definition entry_uid :: "JournalEntry \<Rightarrow> string" where
  "entry_uid e = (case je_uid e of None \<Rightarrow> [] | Some u \<Rightarrow> u)"

definition removeCurrent :: "'w journal_env \<Rightarrow> 'w cleanup_adapter \<Rightarrow> ('w, unit) journal_act \<Rightarrow> nat \<Rightarrow> string \<Rightarrow>
    (jsval obj \<Rightarrow> ('w, unit) journal_act) \<Rightarrow> found option \<Rightarrow> (ResourceJournal \<times> 'w, string \<times> js_error, unit) act" where
  "removeCurrent env adapter assertHeld i key observe current = (case current of
     None \<Rightarrow> ret ()
   | Some c \<Rightarrow>
       bnd (entry_at i) (\<lambda>e.
       seq (tagged ''lookup'' (requireSafe (map_option JStr (je_uid e) = Some (fo_uid c)) R_OWNERSHIP))
       (seq (tagged ''guard'' assertHeld)
       (seq (tagged ''remove'' (take_note env key (stage_note ''remove'' ''running'')))
       (seq (bnd (entry_at i) (\<lambda>e. tagged ''remove'' (ca_removeIfUid adapter e (entry_uid e) observe)))
         (tagged ''remove'' (take_note env key (stage_note ''remove'' ''passed''))))))))"

definition cleanupSteps :: "'w journal_env \<Rightarrow> (ResourceKind \<Rightarrow> 'w cleanup_adapter option) \<Rightarrow> ('w, unit) journal_act \<Rightarrow> nat \<Rightarrow>
    string \<Rightarrow> (jsval obj \<Rightarrow> ('w, unit) journal_act) \<Rightarrow> (ResourceJournal \<times> 'w, string \<times> js_error, unit) act" where
  "cleanupSteps env adapters assertHeld i key observe =
     seq (tagged ''guard'' (take_note env key (stage_note ''guard'' ''running'')))
     (seq (tagged ''guard'' assertHeld)
     (seq (tagged ''lookup'' (take_note env key (stage_note ''lookup'' ''running'')))
     (bnd (entry_at i) (\<lambda>e.
      seq (tagged ''lookup'' (requireSafe (je_state e \<in> {E_owned, E_blocked} \<and> je_uid e \<noteq> None \<and> je_uid e \<noteq> Some []) R_OWNERSHIP))
      (case adapters (je_kind e) of
         None \<Rightarrow> tagged ''lookup'' (throw (hard R_CLEANUP))
       | Some adapter \<Rightarrow>
           bnd (tagged ''lookup'' (ca_lookup adapter e observe)) (\<lambda>current.
           seq (bnd (entry_at i) (\<lambda>e. tagged ''lookup'' (take_note env key (lookup_note e current))))
           (seq (removeCurrent env adapter assertHeld i key observe current)
           (seq (tagged ''verify'' (take_note env key (stage_note ''verify'' ''running'')))
           (bnd (bnd (entry_at i) (\<lambda>e. tagged ''verify'' (ca_verifyRemoved adapter e observe))) (\<lambda>ok.
            seq (tagged ''verify'' (requireSafe ok R_CLEANUP))
            (seq (jr_update (change_entry i mark_removed))
            (seq (tagged ''persist'' (persist env))
              (tagged ''persist'' (with_recorder key (recordComplete (jv_diag env))))))))))))))))"

text \<open>The \<open>catch\<close> block: the entry is blocked with its failure, also when the file cannot be written.\<close>

definition blockEntry :: "'w journal_env \<Rightarrow> nat \<Rightarrow> string \<Rightarrow> string \<Rightarrow> js_error \<Rightarrow> ('w, CleanupFailure) journal_act" where
  "blockEntry env i key operation err =
     seq (jr_update (change_entry i (mark_blocked (mkCleanupFailure operation err))))
     (seq (catch (persist env) (\<lambda>perr. jr_update (change_entry i (mark_blocked (mkCleanupFailure ''persist'' perr)))))
     (bnd (entry_at i) (\<lambda>e.
      seq (with_recorder key (recordFailure (jv_diag env) operation err))
        (ret (case je_cleanupFailure e of Some f \<Rightarrow> f | None \<Rightarrow> mkCleanupFailure operation err)))))"

definition cleanupEntry :: "'w journal_env \<Rightarrow> (ResourceKind \<Rightarrow> 'w cleanup_adapter option) \<Rightarrow> ('w, unit) journal_act \<Rightarrow>
    nat \<Rightarrow> ('w, CleanupFailure list) journal_act" where
  "cleanupEntry env adapters assertHeld i = bnd (entry_at i) (\<lambda>e.
     seq (ensure_recorder env e)
     (bnd (with_recorder (diagnostic_key e) beginEpoch) (\<lambda>epoch.
       let key = diagnostic_key e;
           observe = (\<lambda>value. with_recorder key (observeIn (jv_diag env) epoch value))
       in (\<lambda>s. case cleanupSteps env adapters assertHeld i key observe s of
             (Inr _, t) \<Rightarrow> (Inr [], t)
           | (Inl (operation, err), t) \<Rightarrow> bnd (blockEntry env i key operation err) (\<lambda>f. ret [f]) t))))"

fun cleanupAll :: "'w journal_env \<Rightarrow> (ResourceKind \<Rightarrow> 'w cleanup_adapter option) \<Rightarrow> ('w, unit) journal_act \<Rightarrow>
    (ResourceKind \<times> string) option \<Rightarrow> nat list \<Rightarrow> ('w, CleanupFailure list) journal_act" where
  "cleanupAll env adapters assertHeld only [] = ret []"
| "cleanupAll env adapters assertHeld only (i # is) = bnd (entry_at i) (\<lambda>e.
     if je_state e = E_removed \<or> (\<exists>p \<in> set_option only. (je_kind e, je_name e) \<noteq> p)
     then cleanupAll env adapters assertHeld only is
     else bnd (cleanupEntry env adapters assertHeld i) (\<lambda>fs.
       bnd (cleanupAll env adapters assertHeld only is) (\<lambda>gs. ret (fs @ gs))))"

definition cleanup_error :: "CleanupFailure \<Rightarrow> js_error" where
  "cleanup_error f = Harness (mkHarnessError R_CLEANUP (Some Failed)
     (Some (case cf_stage f of Some st \<Rightarrow> st | None \<Rightarrow> S_cleanup)) (Some (cf_reason f, cf_stage f)))"

definition cleanup :: "'w journal_env \<Rightarrow> (ResourceKind \<Rightarrow> 'w cleanup_adapter option) \<Rightarrow> ('w, unit) journal_act \<Rightarrow>
    (ResourceKind \<times> string) option \<Rightarrow> ('w, unit) journal_act" where
  "cleanup env adapters assertHeld only = bnd (gets fst) (\<lambda>j.
     seq (requireSafe (case only of None \<Rightarrow> True | Some (k, n) \<Rightarrow> find_entry k n j \<noteq> None) R_OWNERSHIP)
     (bnd (cleanupAll env adapters assertHeld only (rev [0..<length (entries_of j)])) (\<lambda>failures.
        case failures of [] \<Rightarrow> ret () | f # _ \<Rightarrow> throw (cleanup_error f))))"

fun verifyAll :: "(ResourceKind \<Rightarrow> 'w cleanup_adapter option) \<Rightarrow> ('w, unit) journal_act \<Rightarrow> JournalEntry list \<Rightarrow> ('w, unit) journal_act" where
  "verifyAll adapters assertHeld [] = ret ()"
| "verifyAll adapters assertHeld (e # es) =
     seq assertHeld (case adapters (je_kind e) of
       None \<Rightarrow> throw (Other ''TypeError'')
     | Some adapter \<Rightarrow> bnd (ca_verifyRemoved adapter e (\<lambda>_. ret ())) (\<lambda>ok.
         seq (requireSafe ok R_CLEANUP) (verifyAll adapters assertHeld es)))"

definition verifyCleanup :: "(ResourceKind \<Rightarrow> 'w cleanup_adapter option) \<Rightarrow> ('w, unit) journal_act \<Rightarrow> ('w, unit) journal_act" where
  "verifyCleanup adapters assertHeld = bnd (gets fst) (\<lambda>j.
     seq (requireSafe (recoveryPlan j = []) R_CLEANUP) (verifyAll adapters assertHeld (entries_of j)))"

definition restoreRevision :: "'t \<Rightarrow> string \<Rightarrow> ('s, js_error, string) act \<Rightarrow> ('t \<Rightarrow> string \<Rightarrow> ('s, js_error, unit) act) \<Rightarrow>
    ('s, js_error, unit) act \<Rightarrow> ('s, js_error, unit) act" where
  "restoreRevision original appliedRevision currentRevision restore assertHeld =
     seq assertHeld (bnd currentRevision (\<lambda>current.
       seq (requireSafe (current = appliedRevision) R_CONFLICT)
       (seq assertHeld (restore original appliedRevision))))"

subsection \<open>The file round trip\<close>

definition entry_key :: "JournalEntry \<Rightarrow> ResourceKind \<times> string" where
  "entry_key e = (je_kind e, je_name e)"

definition entry_wf :: "string \<Rightarrow> JournalEntry \<Rightarrow> bool" where
  "entry_wf pre e \<longleftrightarrow>
     ownedJournalName (je_kind e) (je_name e) pre \<and> je_uid e \<noteq> Some [] \<and>
     (je_state e = E_owned \<longrightarrow> je_uid e \<noteq> None) \<and>
     (\<forall>g \<in> set_option (je_generation e). je_kind e \<in> {K_model, K_app} \<and> is_positive_safe g \<and> je_uid e \<noteq> None) \<and>
     (\<forall>f \<in> set_option (je_cleanupFailure e). je_state e = E_blocked \<and> cf_operation f \<in> set cleanupOperations)"

definition journal_wf :: "JournalData \<Rightarrow> bool" where
  "journal_wf d \<longleftrightarrow> is_run_id (js_to_string (jd_runId d)) \<and> jd_prefix d = prefix_of (jd_runId d) \<and>
     distinct (map entry_key (jd_entries d)) \<and> (\<forall>e \<in> set (jd_entries d). entry_wf (jd_prefix d) e)"

lemma kind_of_name [simp]: "kind_of (kind_name k) = Some k"
  by (cases k) (simp_all add: kind_of_def)

lemma state_of_name [simp]: "state_of (state_name k) = Some k"
  by (cases k) (simp_all add: state_of_def)

lemma entry_fields:
  "jget (entry_json e) ''kind'' = Some (JStr (kind_name (je_kind e)))" "jget (entry_json e) ''name'' = Some (JStr (je_name e))"
  "jget (entry_json e) ''uid'' = Some (case je_uid e of None \<Rightarrow> JNull | Some u \<Rightarrow> JStr u)"
  "jget (entry_json e) ''state'' = Some (JStr (state_name (je_state e)))"
  "jget (entry_json e) ''generation'' = map_option JInt (je_generation e)"
  "jget (entry_json e) ''cleanupFailure'' = map_option failure_json (je_cleanupFailure e)"
  by (simp_all add: entry_json_def oget_append split: option.split)

lemma parse_failure_json:
  assumes "cf_operation f \<in> set cleanupOperations"
  shows "parseCleanupFailure (failure_json f) = Some f"
proof -
  have "stage_name st \<in> set (map stage_name stages)" for st using stages_complete [of st] by simp
  then show ?thesis
    using assms by (cases "cf_stage f") (auto simp: parseCleanupFailure_def failure_json_def oget_append field_def)
qed

lemma parse_failure_sound: "parseCleanupFailure v = Some f \<Longrightarrow> cf_operation f \<in> set cleanupOperations"
  by (auto simp: parseCleanupFailure_def one_of_iff split: jsval.splits if_splits)

lemma parse_entry_json:
  assumes "entry_wf pre e" and "entry_key e \<notin> set seen"
  shows "parseEntry pre seen (entry_json e) = Some e"
proof -
  have f: "je_cleanupFailure e \<noteq> None \<longrightarrow> (case map_option failure_json (je_cleanupFailure e) of
      None \<Rightarrow> None | Some f \<Rightarrow> parseCleanupFailure f) = je_cleanupFailure e"
    using assms(1) by (auto simp: entry_wf_def parse_failure_json)
  show ?thesis
    using assms f
    by (cases "je_uid e"; cases "je_generation e"; cases "je_cleanupFailure e")
      (auto simp: parseEntry_def entry_fields entry_wf_def entry_key_def is_positive_safe_def max_safe_def Let_def
        simp del: state_name.simps kind_name.simps)
qed

lemma parse_entries_json:
  assumes "\<And>e. e \<in> set es \<Longrightarrow> entry_wf pre e" and "distinct (map entry_key es)" and "set (map entry_key es) \<inter> set seen = {}"
  shows "parseEntries pre seen (map entry_json es) = Some es"
  using assms
proof (induction es arbitrary: seen)
  case (Cons e es)
  then have "parseEntry pre seen (entry_json e) = Some e" by (intro parse_entry_json) auto
  moreover have "parseEntries pre ((je_kind e, je_name e) # seen) (map entry_json es) = Some es"
    using Cons.prems by (intro Cons.IH) (auto simp: entry_key_def)
  ultimately show ?case by simp
qed simp

lemma parse_journal_json:
  assumes "journal_wf d"
  shows "parseJournal (jd_targetUid d) (journal_json d) = Some d"
  using assms parse_entries_json [of "jd_entries d" "jd_prefix d" "[]"]
  by (auto simp: parseJournal_def journal_json_def journal_wf_def)

lemma parse_entry_sound:
  assumes "parseEntry pre seen v = Some e"
  shows "entry_wf pre e" and "entry_key e \<notin> set seen"
proof -
  obtain kind name uid st where kv: "kind_of (str_of (jget v ''kind'')) = Some kind" "jget v ''name'' = Some (JStr name)"
    "jget v ''uid'' = Some uid" "state_of (str_of (jget v ''state'')) = Some st"
    using assms by (auto simp: parseEntry_def split: option.splits jsval.splits)
  show "entry_key e \<notin> set seen"
    using assms kv by (auto simp: parseEntry_def Let_def entry_key_def split: if_splits)
  show "entry_wf pre e"
    using assms kv parse_failure_sound
    by (cases "jget v ''generation''"; cases "jget v ''cleanupFailure''")
      (auto simp: parseEntry_def Let_def entry_wf_def is_positive_safe_def split: if_splits elim!: isSafeInteger.elims)
qed

lemma parse_entries_sound:
  assumes "parseEntries pre seen vs = Some es"
  shows "(\<forall>e \<in> set es. entry_wf pre e) \<and> distinct (map entry_key es) \<and> set (map entry_key es) \<inter> set seen = {}"
  using assms
proof (induction vs arbitrary: seen es)
  case (Cons v vs)
  then obtain e es' where e: "parseEntry pre seen v = Some e" "es = e # es'"
    "parseEntries pre ((je_kind e, je_name e) # seen) vs = Some es'" by (auto split: option.splits)
  from Cons.IH [OF e(3)] parse_entry_sound [OF e(1)] e(2) show ?case by (auto simp: entry_key_def)
qed simp

lemma parse_journal_sound:
  assumes "parseJournal targetUid v = Some d"
  shows "journal_wf d \<and> jd_targetUid d = targetUid"
proof -
  obtain runId pre vs es where d: "is_run_id (js_to_string runId)" "pre = prefix_of runId" "parseEntries pre [] vs = Some es"
    "d = \<lparr>jd_runId = runId, jd_targetUid = targetUid, jd_prefix = pre, jd_entries = es\<rparr>"
    using assms by (auto simp: parseJournal_def split: option.splits jsval.splits if_splits)
  from parse_entries_sound [OF d(3)] d show ?thesis by (simp add: journal_wf_def)
qed
subsection \<open>Operations on single entries\<close>

definition jr_inv :: "ResourceJournal \<times> 'w \<Rightarrow> bool" where
  "jr_inv s \<longleftrightarrow> journal_wf (rj_data (fst s))"

text \<open>An action that leaves the entries alone.\<close>

definition same_data :: "JournalData \<Rightarrow> ResourceJournal \<times> 'w \<Rightarrow> bool" where
  "same_data d s \<longleftrightarrow> rj_data (fst s) = d"

definition quiet :: "(ResourceJournal \<times> 'w, 'e, 'a) act \<Rightarrow> bool" where
  "quiet m \<longleftrightarrow> (\<forall>d. keeps (same_data d) m)"

lemma quietD: "quiet m \<Longrightarrow> rj_data (fst (snd (m s))) = rj_data (fst s)"
  by (cases s) (auto simp: quiet_def keeps_def same_data_def)

lemma quietI: "(\<And>s. rj_data (fst (snd (m s))) = rj_data (fst s)) \<Longrightarrow> quiet m"
  by (auto simp: quiet_def keeps_def same_data_def)

lemma jr_runs [simp]:
  "jr_world m (j, w) = (case m w of (x, w') \<Rightarrow> (x, (j, w')))" "jr_update f (j, w) = (Inr (), (f j, w))"
  by (simp_all add: jr_world_def jr_update_def modify_def)

lemma quiet_persist: "quiet (persist env)"
  by (rule quietI) (auto simp: persist_def act_simps split: prod.splits)

lemma quiet_with_recorder: "quiet (with_recorder key m)"
  by (rule quietI) (auto simp: with_recorder_def split: option.splits prod.splits)

lemma quiet_ensure: "quiet (ensure_recorder env e)"
  by (rule quietI) (auto simp: ensure_recorder_def split: prod.splits)

lemma change_entry_data [simp]:
  "entries_of (change_entry i f j) = (entries_of j)[i := f (entries_of j ! i)]"
  "jd_runId (rj_data (change_entry i f j)) = jd_runId (rj_data j)"
  "jd_prefix (rj_data (change_entry i f j)) = jd_prefix (rj_data j)"
  "jd_targetUid (rj_data (change_entry i f j)) = jd_targetUid (rj_data j)"
  by (simp_all add: change_entry_def set_entries_def)

text \<open>How an entry may change over the life of a journal.\<close>

definition entry_le :: "JournalEntry \<Rightarrow> JournalEntry \<Rightarrow> bool" where
  "entry_le e e' \<longleftrightarrow> entry_key e' = entry_key e \<and> (je_state e = E_removed \<longrightarrow> e' = e) \<and>
     (je_state e \<noteq> E_requested \<longrightarrow> je_state e' \<noteq> E_requested \<and> je_uid e' = je_uid e \<and>
        (\<forall>g \<in> set_option (je_generation e). \<exists>g' \<in> set_option (je_generation e'). g \<le> g'))"

definition data_le :: "JournalData \<Rightarrow> JournalData \<Rightarrow> bool" where
  "data_le d d' \<longleftrightarrow> jd_runId d' = jd_runId d \<and> jd_prefix d' = jd_prefix d \<and> jd_targetUid d' = jd_targetUid d \<and>
     length (jd_entries d) \<le> length (jd_entries d') \<and>
     (\<forall>i < length (jd_entries d). entry_le (jd_entries d ! i) (jd_entries d' ! i))"

lemma entry_le_refl [simp]: "entry_le e e"
  by (auto simp: entry_le_def)

lemma entry_le_trans: "entry_le a b \<Longrightarrow> entry_le b c \<Longrightarrow> entry_le a c"
  unfolding entry_le_def by (auto 4 4 intro: order_trans)

lemma data_le_refl [simp]: "data_le d d"
  by (simp add: data_le_def)

lemma data_le_trans: "data_le a b \<Longrightarrow> data_le b c \<Longrightarrow> data_le a c"
  unfolding data_le_def by (auto intro: entry_le_trans)

text \<open>A well-formed journal and the journals it may become.\<close>

definition grown :: "JournalData \<Rightarrow> ResourceJournal \<times> 'w \<Rightarrow> bool" where
  "grown d s \<longleftrightarrow> journal_wf (rj_data (fst s)) \<and> data_le d (rj_data (fst s))"

lemma quiet_grown: "quiet m \<Longrightarrow> keeps (grown d) m"
  by (simp add: keeps_def grown_def quietD)

lemma change_grown:
  assumes "grown d (j, w)" and "i < length (entries_of j)"
    and "entry_wf (jd_prefix (rj_data j)) (entries_of j ! i) \<Longrightarrow> entry_wf (jd_prefix (rj_data j)) (f (entries_of j ! i))"
    and le: "entry_le (entries_of j ! i) (f (entries_of j ! i))"
  shows "grown d (change_entry i f j, w')"
proof -
  let ?e = "entries_of j ! i"
  have wf: "journal_wf (rj_data j)" using assms(1) by (simp add: grown_def)
  have key: "entry_key (f ?e) = entry_key ?e" using le by (simp add: entry_le_def)
  have "map entry_key ((entries_of j)[i := f ?e]) = map entry_key (entries_of j)"
    using assms(2) key by (simp add: map_update list_update_same_conv)
  moreover have "\<forall>e \<in> set ((entries_of j)[i := f ?e]). entry_wf (jd_prefix (rj_data j)) e"
    using wf assms(2,3) set_update_subset_insert [of "entries_of j" i "f ?e"] by (auto simp: journal_wf_def)
  ultimately have "journal_wf (rj_data (change_entry i f j))" using wf by (simp add: journal_wf_def)
  moreover have "data_le (rj_data j) (rj_data (change_entry i f j))"
    using le assms(2) by (auto simp: data_le_def nth_list_update)
  ultimately show ?thesis using assms(1) data_le_trans by (auto simp: grown_def)
qed

lemma find_entry_Some:
  "find_entry kind name j = Some i \<Longrightarrow> i < length (entries_of j) \<and> je_kind (entries_of j ! i) = kind \<and> je_name (entries_of j ! i) = name"
  by (auto simp: find_entry_def dest!: findIndex_Some)

lemma find_entry_None: "find_entry kind name j = None \<longleftrightarrow> (kind, name) \<notin> entry_key ` set (entries_of j)"
  by (auto simp: find_entry_def findIndex_None filter_empty_conv entry_key_def)

lemma keeps_on_entry:
  fixes env :: "'w journal_env"
  assumes "\<And>e pre. je_kind e = kind \<Longrightarrow> je_name e = name \<Longrightarrow> ok e \<Longrightarrow> (entry_wf pre e \<longrightarrow> entry_wf pre (f e)) \<and> entry_le e (f e)"
  shows "keeps (grown d) (on_entry env kind name ok f)"
  unfolding keeps_def
proof (intro allI impI)
  fix s :: "ResourceJournal \<times> 'w" assume g: "grown d s"
  obtain j w where s: "s = (j, w)" by (cases s)
  show "grown d (snd (on_entry env kind name ok f s))"
  proof (cases "\<exists>i. find_entry kind name j = Some i \<and> ok (entries_of j ! i)")
    case True
    then obtain i where i: "find_entry kind name j = Some i" "ok (entries_of j ! i)" by blast
    have "grown d (change_entry i f j, w)"
      using find_entry_Some [OF i(1)] i(2) g s assms by (intro change_grown) auto
    then have "grown d (snd (persist env (change_entry i f j, w)))" by (rule keepsD [OF quiet_grown [OF quiet_persist]])
    with i s show ?thesis by (simp add: on_entry_def act_simps)
  next
    case False
    then have "snd (on_entry env kind name ok f s) = s"
      using s by (auto simp: on_entry_def act_simps split: option.splits)
    with g show ?thesis by simp
  qed
qed

lemma keeps_requested:
  fixes env :: "'w journal_env"
  shows "keeps (grown d) (requested env kind name)"
  unfolding keeps_def
proof (intro allI impI)
  fix s :: "ResourceJournal \<times> 'w" assume g: "grown d s"
  obtain j w where s: "s = (j, w)" by (cases s)
  let ?e = "\<lparr>je_kind = kind, je_name = name, je_uid = None, je_state = E_requested, je_generation = None, je_cleanupFailure = None\<rparr>"
  show "grown d (snd (requested env kind name s))"
  proof (cases "ownedJournalName kind name (jd_prefix (rj_data j)) \<and> find_entry kind name j = None")
    case True
    let ?j = "set_entries (entries_of j @ [?e]) j"
    have "journal_wf (rj_data ?j)"
      using True g s by (auto simp: grown_def journal_wf_def set_entries_def entry_wf_def find_entry_None entry_key_def)
    moreover have "data_le (rj_data j) (rj_data ?j)" by (simp add: data_le_def set_entries_def nth_append)
    ultimately have "grown d (?j, w)" using g s data_le_trans by (auto simp: grown_def)
    then have "grown d (snd (persist env (?j, w)))" by (rule keepsD [OF quiet_grown [OF quiet_persist]])
    with True s show ?thesis by (simp add: requested_def act_simps)
  next
    case False
    then have "snd (requested env kind name s) = s" using s by (auto simp: requested_def act_simps)
    with g show ?thesis by simp
  qed
qed

lemma keeps_entry_operations:
  "keeps (grown d) (owned env kind name uid gen)" "keeps (grown d) (rejected env kind name)"
  "keeps (grown d) (recoveredAbsent env kind name)" "keeps (grown d) (generation env kind name uid previous g)"
  unfolding owned_def rejected_def recoveredAbsent_def generation_def
  by (intro keeps_on_entry; auto simp: entry_wf_def entry_le_def entry_key_def is_positive_safe_def split: option.splits)+

subsection \<open>Cleanup with adapters that leave the journal to its methods\<close>

text \<open>What one entry looks like after its cleanup, as a change of the data.\<close>

definition put_entry :: "nat \<Rightarrow> (JournalEntry \<Rightarrow> JournalEntry) \<Rightarrow> JournalData \<Rightarrow> JournalData" where
  "put_entry i f d = d\<lparr>jd_entries := (jd_entries d)[i := f (jd_entries d ! i)]\<rparr>"

lemma change_entry_put: "rj_data (change_entry i f j) = put_entry i f (rj_data j)"
  by (simp add: change_entry_def set_entries_def put_entry_def)

lemma put_blocked_removed:
  "i < length (jd_entries d) \<Longrightarrow> put_entry i (mark_blocked f) (put_entry i mark_removed d) = put_entry i (mark_blocked f) d"
  "i < length (jd_entries d) \<Longrightarrow> put_entry i (mark_blocked f) (put_entry i (mark_blocked g) d) = put_entry i (mark_blocked f) d"
  by (simp_all add: put_entry_def mark_blocked_def mark_removed_def)

definition steps_err :: "nat \<Rightarrow> JournalData \<Rightarrow> string \<times> js_error \<Rightarrow> ResourceJournal \<times> 'w \<Rightarrow> bool" where
  "steps_err i d e s \<longleftrightarrow> fst e \<in> set cleanupOperations \<and> (same_data d s \<or> same_data (put_entry i mark_removed d) s)"

lemma operations_simps [simp]: "''guard'' \<in> set cleanupOperations" "''lookup'' \<in> set cleanupOperations"
  "''remove'' \<in> set cleanupOperations" "''verify'' \<in> set cleanupOperations" "''persist'' \<in> set cleanupOperations"
  by (simp_all add: cleanupOperations_def)

lemma triple_tagged:
  assumes "quiet m" and "op \<in> set cleanupOperations" and "d' = d \<or> d' = put_entry i mark_removed d"
  shows "triple (same_data d') (tagged op m) (\<lambda>_. same_data d') (steps_err i d)"
  using assms(2,3) quietD [OF assms(1)]
  by (auto simp: triple_def tagged_def same_data_def steps_err_def split: prod.split sum.split) (metis fst_conv snd_conv)+

lemma triple_entry:
  assumes "\<And>e. triple P (f e) Q E"
  shows "triple P (bnd (entry_at i) f) Q E"
  using assms by (auto simp: triple_def bnd_def gets_def)

lemma quiet_note: "quiet (take_note env key v)"
  unfolding take_note_def by (rule quiet_with_recorder)

lemma quiet_requireSafe: "quiet (requireSafe c code)" and quiet_throw: "quiet (throw e)"
  by (rule quietI; simp add: throw_def)+

text \<open>The recorder of the entry exists after its creation, and the block of \<open>catch\<close>.\<close>

lemma ensure_begin:
  "\<exists>epoch s1. seq (ensure_recorder env e) (with_recorder (diagnostic_key e) beginEpoch) s = (Inr epoch, s1) \<and>
     rj_data (fst s1) = rj_data (fst s)"
proof -
  have [simp]: "beginEpoch (r, w) = (Inr (rc_epoch r + 1), (r\<lparr>rc_epoch := rc_epoch r + 1, rc_retired := False\<rparr>, w))" for r w
    by (simp add: beginEpoch_def seq_def bnd_def gets_def)
  obtain j w where s: "s = (j, w)" by (cases s)
  show ?thesis
  proof (cases "oget (rj_recorders j) (diagnostic_key e)")
    case None
    obtain t w' where "de_now (jv_diag env) w = (t, w')" by fastforce
    with None s show ?thesis by (simp add: ensure_recorder_def seq_def bnd_def with_recorder_def)
  next
    case (Some r)
    with s show ?thesis by (simp add: ensure_recorder_def seq_def bnd_def with_recorder_def)
  qed
qed

lemma cleanupEntry_run:
  assumes "seq (ensure_recorder env (entries_of (fst s) ! i)) (with_recorder (diagnostic_key (entries_of (fst s) ! i)) beginEpoch) s = (Inr epoch, s1)"
  shows "cleanupEntry env adapters assertHeld i s =
    (case cleanupSteps env adapters assertHeld i (diagnostic_key (entries_of (fst s) ! i))
        (\<lambda>value. with_recorder (diagnostic_key (entries_of (fst s) ! i)) (observeIn (jv_diag env) epoch value)) s1 of
       (Inr _, t) \<Rightarrow> (Inr [], t)
     | (Inl (operation, err), t) \<Rightarrow>
         bnd (blockEntry env i (diagnostic_key (entries_of (fst s) ! i)) operation err) (\<lambda>f. ret [f]) t)"
  using assms by (auto simp: cleanupEntry_def seq_def bnd_def gets_def Let_def split: prod.splits sum.splits)

lemma writeCapture_no_error: "writeCapture env body s \<noteq> (Inl e, t)"
  using writeCapture_ok [of env body s] by auto

lemma record_errors:
  assumes "recordObservation env v ep s = (Inl e, t)"
  shows "e = hard R_CONFIG"
proof -
  obtain r w where ld: "loadCapture env s = (Inr (), (r, w))" using loadCapture_ok [of env s] by auto
  show ?thesis
  proof (cases "ep = None \<or> ep = Some (rc_epoch r) \<and> \<not> rc_retired r")
    case False
    with ld assms show ?thesis by (auto simp: recordObservation_def act_simps split: if_splits)
  next
    case True
    obtain t1 w1 where now: "de_now env w = (t1, w1)" by fastforce
    obtain t2 w2 where now2: "de_now env w1 = (t2, w2)" by fastforce
    from assms [unfolded recordObservation_run [OF ld True now now2]] show ?thesis
      by (auto simp: snapshot_def writeCapture_no_error split: sum.splits option.splits if_splits)
  qed
qed

lemma failure_errors:
  assumes "with_recorder key (recordFailure env op err) s = (Inl e, t)"
  shows "e = hard R_CONFIG \<or> e = Other ''TypeError''"
  using assms record_errors
  by (cases s) (auto simp: with_recorder_def recordFailure_def seq_def bnd_def gets_def split: option.splits prod.splits)

lemma blockEntry_cases:
  assumes i: "i < length (jd_entries d)" and u: "same_data d u \<or> same_data (put_entry i mark_removed d) u"
    and op: "op \<in> set cleanupOperations"
  shows "\<exists>f r t. blockEntry env i key op err u = (r, t) \<and> cf_operation f \<in> set cleanupOperations \<and>
    same_data (put_entry i (mark_blocked f) d) t \<and> (r = Inr f \<or> r = Inl (hard R_CONFIG) \<or> r = Inl (Other ''TypeError''))"
proof -
  let ?f = "mkCleanupFailure op err"
  obtain j w where jw: "u = (j, w)" by (cases u)
  let ?u1 = "(change_entry i (mark_blocked ?f) j, w)"
  have u1: "same_data (put_entry i (mark_blocked ?f) d) ?u1"
    using u i jw by (auto simp: same_data_def change_entry_put put_blocked_removed)
  obtain f u2 where f: "cf_operation f \<in> set cleanupOperations" and d2: "same_data (put_entry i (mark_blocked f) d) u2"
    and run: "catch (persist env) (\<lambda>perr. jr_update (change_entry i (mark_blocked (mkCleanupFailure ''persist'' perr)))) ?u1 = (Inr (), u2)"
  proof -
    obtain r j2 w2 where p: "persist env ?u1 = (r, (j2, w2))" by (metis prod.collapse)
    have j2: "same_data (put_entry i (mark_blocked ?f) d) (j2, w2)"
      using u1 quietD [OF quiet_persist, of env ?u1] p by (simp add: same_data_def)
    show ?thesis
    proof (cases r)
      case (Inr x)
      with p j2 op show ?thesis by (intro that [of ?f "(j2, w2)"]) (auto simp: catch_def mkCleanupFailure_def)
    next
      case (Inl e)
      with p j2 i show ?thesis
        by (intro that [of "mkCleanupFailure ''persist'' e" "(change_entry i (mark_blocked (mkCleanupFailure ''persist'' e)) j2, w2)"])
          (auto simp: catch_def mkCleanupFailure_def same_data_def change_entry_put put_blocked_removed)
    qed
  qed
  have fe: "je_cleanupFailure (entries_of (fst u2) ! i) = Some f"
    using d2 i by (simp add: same_data_def put_entry_def mark_blocked_def)
  obtain r3 u3 where r3: "with_recorder key (recordFailure (jv_diag env) op err) u2 = (r3, u3)" by (metis prod.collapse)
  have d3: "same_data (put_entry i (mark_blocked f) d) u3"
    using d2 quietD [OF quiet_with_recorder, of key "recordFailure (jv_diag env) op err" u2] r3 by (simp add: same_data_def)
  have "blockEntry env i key op err u = (case r3 of Inl e \<Rightarrow> (Inl e, u3) | Inr _ \<Rightarrow> (Inr f, u3))"
    using run r3 fe jw by (auto simp: blockEntry_def seq_def bnd_def gets_def ret_def split: sum.splits)
  with d3 f failure_errors [of key "jv_diag env" op err u2 _ u3] r3 show ?thesis by (cases r3) auto
qed

locale quiet_adapters =
  fixes adapters :: "ResourceKind \<Rightarrow> 'w cleanup_adapter option"
    and assertHeld :: "('w, unit) journal_act"
  assumes guard_quiet: "quiet assertHeld"
    and lookup_quiet: "adapters k = Some a \<Longrightarrow> (\<And>v. quiet (observe v)) \<Longrightarrow> quiet (ca_lookup a e observe)"
    and remove_quiet: "adapters k = Some a \<Longrightarrow> (\<And>v. quiet (observe v)) \<Longrightarrow> quiet (ca_removeIfUid a e u observe)"
    and verify_quiet: "adapters k = Some a \<Longrightarrow> (\<And>v. quiet (observe v)) \<Longrightarrow> quiet (ca_verifyRemoved a e observe)"
begin

lemma removeCurrent_triple:
  assumes "adapters k = Some a" and "\<And>v. quiet (observe v)"
  shows "triple (same_data d) (removeCurrent env a assertHeld i key observe current) (\<lambda>_. same_data d) (steps_err i d)"
proof (cases current)
  case None
  then show ?thesis by (simp add: removeCurrent_def triple_def ret_def)
next
  case (Some c)
  show ?thesis
    unfolding removeCurrent_def Some option.case
    by (rule triple_entry triple_seq [where R = "same_data d"] | rule triple_tagged; (rule quiet_note quiet_requireSafe guard_quiet
        remove_quiet [OF assms] | simp))+
qed

lemma cleanupSteps_triple:
  assumes obs: "\<And>v. quiet (observe v)"
  shows "triple (same_data d) (cleanupSteps env adapters assertHeld i key observe)
     (\<lambda>_. same_data (put_entry i mark_removed d)) (steps_err i d)"
proof -
  have upd: "triple (same_data d) (jr_update (change_entry i mark_removed)) (\<lambda>_. same_data (put_entry i mark_removed d)) (steps_err i d)"
    by (auto simp: triple_def same_data_def change_entry_put)
  have body: "triple (same_data d) (case adapters (je_kind e) of
         None \<Rightarrow> tagged ''lookup'' (throw (hard R_CLEANUP))
       | Some adapter \<Rightarrow>
           bnd (tagged ''lookup'' (ca_lookup adapter e observe)) (\<lambda>current.
           seq (bnd (entry_at i) (\<lambda>e. tagged ''lookup'' (take_note env key (lookup_note e current))))
           (seq (removeCurrent env adapter assertHeld i key observe current)
           (seq (tagged ''verify'' (take_note env key (stage_note ''verify'' ''running'')))
           (bnd (bnd (entry_at i) (\<lambda>e. tagged ''verify'' (ca_verifyRemoved adapter e observe))) (\<lambda>ok.
            seq (tagged ''verify'' (requireSafe ok R_CLEANUP))
            (seq (jr_update (change_entry i mark_removed))
            (seq (tagged ''persist'' (persist env))
              (tagged ''persist'' (with_recorder key (recordComplete (jv_diag env))))))))))))
     (\<lambda>_. same_data (put_entry i mark_removed d)) (steps_err i d)" for e
  proof (cases "adapters (je_kind e)")
    case None
    then show ?thesis by (auto simp: triple_def tagged_def throw_def steps_err_def)
  next
    case (Some a)
    have last: "triple (same_data (put_entry i mark_removed d)) (seq (tagged ''persist'' (persist env))
        (tagged ''persist'' (with_recorder key (recordComplete (jv_diag env)))))
        (\<lambda>_. same_data (put_entry i mark_removed d)) (steps_err i d)"
      by (rule triple_seq [where R = "same_data (put_entry i mark_removed d)"]; rule triple_tagged;
          (rule quiet_persist quiet_with_recorder | simp))
    show ?thesis
      unfolding Some option.case
      by (rule triple_entry triple_seq [OF last upd] removeCurrent_triple [OF Some obs]
          triple_seq [where R = "same_data d"] triple_bnd [where R = "\<lambda>_. same_data d"]
        | rule triple_tagged; (rule quiet_note quiet_requireSafe lookup_quiet [OF Some obs] verify_quiet [OF Some obs] | simp))+
  qed
  show ?thesis
    unfolding cleanupSteps_def
    by (rule triple_entry body triple_seq [where R = "same_data d"]
      | rule triple_tagged; (rule quiet_note quiet_requireSafe guard_quiet | simp))+
qed

lemma cleanupEntry_cases:
  assumes d: "same_data d s" and i: "i < length (jd_entries d)" and run: "cleanupEntry env adapters assertHeld i s = (res, t)"
  shows "(res = Inr [] \<and> same_data (put_entry i mark_removed d) t) \<or>
    (\<exists>f. cf_operation f \<in> set cleanupOperations \<and> same_data (put_entry i (mark_blocked f) d) t \<and>
      (res = Inr [f] \<or> res = Inl (hard R_CONFIG) \<or> res = Inl (Other ''TypeError'')))"
proof -
  let ?e = "entries_of (fst s) ! i"
  let ?key = "diagnostic_key ?e"
  obtain epoch s1 where s1: "seq (ensure_recorder env ?e) (with_recorder ?key beginEpoch) s = (Inr epoch, s1)" "same_data d s1"
    using ensure_begin [of env ?e s] d by (auto simp: same_data_def)
  let ?obs = "\<lambda>value. with_recorder ?key (observeIn (jv_diag env) epoch value)"
  note run' = run [unfolded cleanupEntry_run [OF s1(1)]]
  have tr: "triple (same_data d) (cleanupSteps env adapters assertHeld i ?key ?obs)
     (\<lambda>_. same_data (put_entry i mark_removed d)) (steps_err i d)"
    by (rule cleanupSteps_triple) (rule quiet_with_recorder)
  obtain r u where st: "cleanupSteps env adapters assertHeld i ?key ?obs s1 = (r, u)" by (metis prod.collapse)
  show ?thesis
  proof (cases r)
    case (Inr x)
    with st run' tripleD_ok [OF tr s1(2)] show ?thesis by auto
  next
    case (Inl oe)
    obtain op err where oe: "oe = (op, err)" by (cases oe)
    from tripleD_err [OF tr s1(2)] st Inl oe have err: "op \<in> set cleanupOperations"
      and u: "same_data d u \<or> same_data (put_entry i mark_removed d) u" by (auto simp: steps_err_def)
    from blockEntry_cases [OF i u err, of env ?key err] obtain f r' u'
      where b: "blockEntry env i ?key op err u = (r', u')" "cf_operation f \<in> set cleanupOperations"
        "same_data (put_entry i (mark_blocked f) d) u'" "r' = Inr f \<or> r' = Inl (hard R_CONFIG) \<or> r' = Inl (Other ''TypeError'')"
      by blast
    with run' st Inl oe show ?thesis by (auto simp: bnd_def ret_def)
  qed
qed

end

text \<open>The loop over the entries and the outcome of a cleanup.\<close>

definition selected :: "(ResourceKind \<times> string) option \<Rightarrow> JournalEntry \<Rightarrow> bool" where
  "selected only e \<longleftrightarrow> je_state e \<noteq> E_removed \<and> (\<forall>p \<in> set_option only. entry_key e = p)"

definition entry_outcome :: "CleanupFailure list \<Rightarrow> JournalEntry \<Rightarrow> JournalEntry \<Rightarrow> bool" where
  "entry_outcome fs e e' \<longleftrightarrow> e' = mark_removed e \<or>
     (\<exists>f \<in> set fs. cf_operation f \<in> set cleanupOperations \<and> e' = mark_blocked f e)"

text \<open>
  \<open>settled only is fs d d'\<close>: the selected entries with an index in \<open>is\<close> are removed or blocked by one of
  the failures \<open>fs\<close>, and all others are as before.
\<close>

definition settled :: "(ResourceKind \<times> string) option \<Rightarrow> nat list \<Rightarrow> CleanupFailure list \<Rightarrow> JournalData \<Rightarrow> JournalData \<Rightarrow> bool" where
  "settled only is fs d d' \<longleftrightarrow>
     d' = d\<lparr>jd_entries := jd_entries d'\<rparr> \<and> length (jd_entries d') = length (jd_entries d) \<and>
     (\<forall>i < length (jd_entries d).
        if i \<in> set is \<and> selected only (jd_entries d ! i)
        then entry_outcome fs (jd_entries d ! i) (jd_entries d' ! i)
        else jd_entries d' ! i = jd_entries d ! i)"

context quiet_adapters
begin

lemma cleanupAll_settles:
  assumes "same_data d s" and "distinct is" and "\<forall>i \<in> set is. i < length (jd_entries d)"
    and "cleanupAll env adapters assertHeld only is s = (Inr fs, t)"
  shows "\<exists>d'. same_data d' t \<and> settled only is fs d d'"
  using assms
proof (induction "is" arbitrary: d s fs)
  case Nil
  then show ?case by (intro exI [of _ d]) (auto simp: settled_def ret_def same_data_def)
next
  case (Cons i "is")
  let ?e = "jd_entries d ! i"
  have e: "entries_of (fst s) ! i = ?e" using Cons.prems(1) by (simp add: same_data_def)
  show ?case
  proof (cases "selected only ?e")
    case False
    then have "cleanupAll env adapters assertHeld only is s = (Inr fs, t)"
      using Cons.prems(4) e by (auto simp: bnd_def gets_def selected_def entry_key_def split: if_splits)
    from Cons.IH [OF Cons.prems(1) _ _ this] Cons.prems(2,3) obtain d'
      where "same_data d' t" "settled only is fs d d'" by auto
    moreover have "(k \<in> set (i # is) \<and> selected only (jd_entries d ! k)) = (k \<in> set is \<and> selected only (jd_entries d ! k))" for k
      using False by auto
    ultimately show ?thesis by (intro exI [of _ d']) (simp add: settled_def)
  next
    case True
    then have "bnd (cleanupEntry env adapters assertHeld i) (\<lambda>fs. bnd (cleanupAll env adapters assertHeld only is) (\<lambda>gs. ret (fs @ gs))) s
        = (Inr fs, t)"
      using Cons.prems(4) e by (auto simp: bnd_def gets_def selected_def entry_key_def split: if_splits)
    then obtain fs1 s1 fs2 where r1: "cleanupEntry env adapters assertHeld i s = (Inr fs1, s1)"
      and r2: "cleanupAll env adapters assertHeld only is s1 = (Inr fs2, t)" "fs = fs1 @ fs2"
      by (auto simp: bnd_ok ret_def)
    have i: "i < length (jd_entries d)" using Cons.prems(3) by simp
    from cleanupEntry_cases [OF Cons.prems(1) i r1] obtain f where
      f: "(\<exists>g. f = mark_removed \<and> fs1 = [] \<or> f = mark_blocked g \<and> fs1 = [g] \<and> cf_operation g \<in> set cleanupOperations)"
      and s1: "same_data (put_entry i f d) s1" by auto
    from Cons.IH [OF s1 _ _ r2(1)] Cons.prems(2,3) obtain d' where d': "same_data d' t" "settled only is fs2 (put_entry i f d) d'"
      by (auto simp: put_entry_def)
    have rec: "d' = d\<lparr>jd_entries := jd_entries d'\<rparr>" "length (jd_entries d') = length (jd_entries d)"
      using d'(2) by (auto simp: settled_def put_entry_def)
    have more: "entry_outcome fs2 e e' \<Longrightarrow> entry_outcome fs e e'" for e e' using r2(2) by (auto simp: entry_outcome_def)
    have "if k \<in> set (i # is) \<and> selected only (jd_entries d ! k) then entry_outcome fs (jd_entries d ! k) (jd_entries d' ! k)
        else jd_entries d' ! k = jd_entries d ! k" if k: "k < length (jd_entries d)" for k
    proof (cases "k = i")
      case True
      with d'(2) i Cons.prems(2) have "jd_entries d' ! i = f (jd_entries d ! i)" by (auto simp: settled_def put_entry_def)
      with f r2(2) \<open>selected only ?e\<close> True show ?thesis by (auto simp: entry_outcome_def)
    next
      case False
      with d'(2) k have "if k \<in> set is \<and> selected only (jd_entries d ! k)
          then entry_outcome fs2 (jd_entries d ! k) (jd_entries d' ! k) else jd_entries d' ! k = jd_entries d ! k"
        by (auto simp: settled_def put_entry_def dest: spec [of _ k])
      with False more show ?thesis by (simp split: if_splits)
    qed
    with rec d'(1) show ?thesis by (auto simp: settled_def)
  qed
qed

end

lemma put_grown:
  assumes "grown d s" and "i < length (entries_of (fst s))" and "je_state (entries_of (fst s) ! i) \<noteq> E_removed"
    and "f = mark_removed \<or> (\<exists>g. f = mark_blocked g \<and> cf_operation g \<in> set cleanupOperations)"
    and "same_data (put_entry i f (rj_data (fst s))) t"
  shows "grown d t"
proof -
  obtain j w where s: "s = (j, w)" by (cases s)
  have "grown d (change_entry i f j, snd t)"
    using assms s by (intro change_grown [of d j w]) (auto simp: entry_wf_def entry_le_def entry_key_def mark_removed_def mark_blocked_def)
  with assms(5) s show ?thesis by (simp add: grown_def same_data_def change_entry_put)
qed

lemma put_entry_length [simp]: "length (jd_entries (put_entry i f d)) = length (jd_entries d)"
  by (simp add: put_entry_def)

context quiet_adapters
begin

text \<open>Every entry step keeps a well-formed journal, and errors come from a recorder only.\<close>

lemma cleanupEntry_grown:
  assumes "grown d s" and "i < length (entries_of (fst s))" and "je_state (entries_of (fst s) ! i) \<noteq> E_removed"
    and run: "cleanupEntry env adapters assertHeld i s = (res, t)"
  shows "grown d t \<and> length (entries_of (fst t)) = length (entries_of (fst s)) \<and>
    (\<forall>e. res = Inl e \<longrightarrow> e = hard R_CONFIG \<or> e = Other ''TypeError'')"
proof -
  have "same_data (rj_data (fst s)) s" by (simp add: same_data_def)
  from cleanupEntry_cases [OF this assms(2) run] obtain f
    where f: "f = mark_removed \<or> (\<exists>g. f = mark_blocked g \<and> cf_operation g \<in> set cleanupOperations)"
      and t: "same_data (put_entry i f (rj_data (fst s))) t"
      and e: "\<forall>e. res = Inl e \<longrightarrow> e = hard R_CONFIG \<or> e = Other ''TypeError''" by auto
  from put_grown [OF assms(1-3) f t] e t show ?thesis by (simp add: same_data_def)
qed

lemma cleanupAll_grown:
  assumes "grown d s" and "\<forall>i \<in> set is. i < length (entries_of (fst s))"
    and "cleanupAll env adapters assertHeld only is s = (res, t)"
  shows "grown d t \<and> (\<forall>e. res = Inl e \<longrightarrow> e = hard R_CONFIG \<or> e = Other ''TypeError'')"
  using assms
proof (induction "is" arbitrary: s res t)
  case Nil
  then show ?case by (auto simp: ret_def)
next
  case (Cons i "is")
  show ?case
  proof (cases "selected only (entries_of (fst s) ! i)")
    case False
    then have "cleanupAll env adapters assertHeld only is s = (res, t)"
      using Cons.prems(3) by (auto simp: bnd_def gets_def selected_def entry_key_def split: if_splits)
    with Cons show ?thesis by auto
  next
    case True
    obtain r1 s1 where r1: "cleanupEntry env adapters assertHeld i s = (r1, s1)" by (metis prod.collapse)
    have st: "je_state (entries_of (fst s) ! i) \<noteq> E_removed" using True by (simp add: selected_def)
    have s1: "grown d s1" "length (entries_of (fst s1)) = length (entries_of (fst s))"
      "\<forall>e. r1 = Inl e \<longrightarrow> e = hard R_CONFIG \<or> e = Other ''TypeError''"
      using cleanupEntry_grown [OF Cons.prems(1) _ st r1] Cons.prems(2) by auto
    have run: "bnd (cleanupEntry env adapters assertHeld i) (\<lambda>fs. bnd (cleanupAll env adapters assertHeld only is) (\<lambda>gs. ret (fs @ gs))) s
        = (res, t)"
      using Cons.prems(3) True by (auto simp: bnd_def gets_def selected_def entry_key_def split: if_splits)
    show ?thesis
    proof (cases r1)
      case (Inl e)
      with run r1 s1 show ?thesis by (auto simp: bnd_def)
    next
      case (Inr fs1)
      obtain r2 s2 where r2: "cleanupAll env adapters assertHeld only is s1 = (r2, s2)" by (metis prod.collapse)
      from Cons.IH [OF s1(1) _ r2] Cons.prems(2) s1(2)
      have "grown d s2" "\<forall>e. r2 = Inl e \<longrightarrow> e = hard R_CONFIG \<or> e = Other ''TypeError''" by auto
      with run r1 r2 Inr show ?thesis by (cases r2) (auto simp: bnd_def ret_def)
    qed
  qed
qed

lemma keeps_cleanup: "keeps (grown d) (cleanup env adapters assertHeld only)"
  unfolding keeps_def
proof (intro allI impI)
  fix s :: "ResourceJournal \<times> 'w" assume g: "grown d s"
  let ?is = "rev [0..<length (entries_of (fst s))]"
  obtain r t where r: "cleanupAll env adapters assertHeld only ?is s = (r, t)" by (metis prod.collapse)
  have "grown d t" using cleanupAll_grown [OF g _ r] by auto
  with g r show "grown d (snd (cleanup env adapters assertHeld only s))"
    by (cases r) (auto simp: cleanup_def act_simps split: list.splits)
qed

lemma settled_rev: "settled only (rev is) fs d d' = settled only is fs d d'"
  by (simp add: settled_def)

text \<open>The outcome of a cleanup decides the state of every selected entry.\<close>

lemma cleanup_settles:
  assumes wf: "jr_inv s" and run: "cleanup env adapters assertHeld only s = (res, t)"
    and res: "res = Inr () \<or> res = Inl (cleanup_error f)"
  shows "\<exists>gs. settled only [0..<length (entries_of (fst s))] gs (rj_data (fst s)) (rj_data (fst t)) \<and>
    (if gs = [] then res = Inr () else res = Inl (cleanup_error (hd gs)))"
proof -
  let ?is = "rev [0..<length (entries_of (fst s))]"
  obtain r u where r: "cleanupAll env adapters assertHeld only ?is s = (r, u)" by (metis prod.collapse)
  have "grown (rj_data (fst s)) s" using wf by (simp add: grown_def jr_inv_def)
  from cleanupAll_grown [OF this _ r] have err: "\<forall>e. r = Inl e \<longrightarrow> e = hard R_CONFIG \<or> e = Other ''TypeError''" by auto
  have code: "cleanup_error f \<noteq> hard c" if "c \<noteq> R_CLEANUP" for c using that by (auto simp: cleanup_error_def mkHarnessError_def)
  have sel: "case only of None \<Rightarrow> True | Some (k, n) \<Rightarrow> find_entry k n (fst s) \<noteq> None"
    using run res code [of R_OWNERSHIP] by (auto simp: cleanup_def act_simps split: if_splits option.splits)
  have run': "(case r of Inl e \<Rightarrow> (Inl e, u) | Inr fs \<Rightarrow> (case fs of [] \<Rightarrow> (Inr (), u) | f # _ \<Rightarrow> (Inl (cleanup_error f), u))) = (res, t)"
    using run r sel by (cases r) (auto simp: cleanup_def seq_def bnd_def gets_def ret_def throw_def split: list.splits)
  have "r \<noteq> Inl e" for e
  proof
    assume r: "r = Inl e"
    with run' res have "e = cleanup_error f" by auto
    moreover have "cleanup_error f \<noteq> Other x" for x by (simp add: cleanup_error_def)
    ultimately show False using err r code [of R_CONFIG] by simp
  qed
  then obtain gs where gs: "r = Inr gs" "u = t" "if gs = [] then res = Inr () else res = Inl (cleanup_error (hd gs))"
    using run' by (cases r) (auto split: list.splits)
  have "same_data (rj_data (fst s)) s" "distinct ?is" "\<forall>i \<in> set ?is. i < length (entries_of (fst s))"
    by (simp_all add: same_data_def)
  from cleanupAll_settles [OF this r [unfolded gs(1,2)]]
  have "settled only [0..<length (entries_of (fst s))] gs (rj_data (fst s)) (rj_data (fst t))"
    unfolding settled_rev same_data_def by blast
  with gs(3) show ?thesis by (intro exI [of _ gs] conjI)
qed

end

subsection \<open>Sequences of calls\<close>

datatype journal_call =
    Requested ResourceKind string | Owned ResourceKind string string "int option" | Rejected ResourceKind string
  | RecoveredAbsent ResourceKind string | Generation ResourceKind string string int int
  | Cleanup "(ResourceKind \<times> string) option"

fun run_journal_call :: "'w journal_env \<Rightarrow> (ResourceKind \<Rightarrow> 'w cleanup_adapter option) \<Rightarrow> ('w, unit) journal_act \<Rightarrow>
    journal_call \<Rightarrow> ('w, unit) journal_act" where
  "run_journal_call env adapters assertHeld (Requested k n) = requested env k n"
| "run_journal_call env adapters assertHeld (Owned k n u g) = owned env k n u g"
| "run_journal_call env adapters assertHeld (Rejected k n) = rejected env k n"
| "run_journal_call env adapters assertHeld (RecoveredAbsent k n) = recoveredAbsent env k n"
| "run_journal_call env adapters assertHeld (Generation k n u p g) = generation env k n u p g"
| "run_journal_call env adapters assertHeld (Cleanup only) = cleanup env adapters assertHeld only"

fun run_journal :: "'w journal_env \<Rightarrow> (ResourceKind \<Rightarrow> 'w cleanup_adapter option) \<Rightarrow> ('w, unit) journal_act \<Rightarrow>
    journal_call list \<Rightarrow> ResourceJournal \<times> 'w \<Rightarrow> ResourceJournal \<times> 'w" where
  "run_journal env adapters assertHeld [] s = s"
| "run_journal env adapters assertHeld (c # cs) s =
     run_journal env adapters assertHeld cs (snd (run_journal_call env adapters assertHeld c s))"

context quiet_adapters
begin

lemma run_journal_grown: "grown d s \<Longrightarrow> grown d (run_journal env adapters assertHeld cs s)"
proof (induction cs arbitrary: s)
  case (Cons c cs)
  have "keeps (grown d) (run_journal_call env adapters assertHeld c)"
    by (cases c) (simp_all add: keeps_requested keeps_entry_operations keeps_cleanup)
  from keepsD [OF this Cons.prems] Cons.IH show ?case by simp
qed simp

end

subsection \<open>Removal under the lease\<close>

text \<open>
  A frame rule for cleanup. \<open>I\<close> is a property of the world that every step keeps; \<open>H\<close> is what a
  successful lease check establishes. A removal is requested from a state with \<open>H\<close> only, and only for
  an entry that is owned or blocked, with its recorded UID. \<open>K\<close> holds the names and UIDs of the
  journal, which cleanup never changes.
\<close>

definition claim_of :: "JournalEntry \<Rightarrow> (ResourceKind \<times> string) \<times> string option" where
  "claim_of e = (entry_key e, je_uid e)"

definition claims :: "JournalData \<Rightarrow> ((ResourceKind \<times> string) \<times> string option) set" where
  "claims d = claim_of ` set (jd_entries d)"

lemma put_length: "length (jd_entries (put_entry i f d)) = length (jd_entries d)"
  by (simp add: put_entry_def)

lemma claims_put [simp]:
  "i < length (jd_entries d) \<Longrightarrow> claims (put_entry i mark_removed d) = claims d"
  "i < length (jd_entries d) \<Longrightarrow> claims (put_entry i (mark_blocked f) d) = claims d"
proof -
  have "claim_of ` set (xs[i := e]) = claim_of ` set xs" if "i < length xs" "claim_of e = claim_of (xs ! i)" for xs e
    using that by (metis list_update_id map_update set_map)
  then show "i < length (jd_entries d) \<Longrightarrow> claims (put_entry i mark_removed d) = claims d"
    "i < length (jd_entries d) \<Longrightarrow> claims (put_entry i (mark_blocked f) d) = claims d"
    by (simp_all add: claims_def put_entry_def claim_of_def mark_removed_def mark_blocked_def entry_key_def)
qed

definition on_world :: "('w \<Rightarrow> bool) \<Rightarrow> 'a \<times> 'w \<Rightarrow> bool" where
  "on_world I s \<longleftrightarrow> I (snd s)"

definition files_keep :: "('w \<Rightarrow> bool) \<Rightarrow> 'w journal_env \<Rightarrow> bool" where
  "files_keep I env \<longleftrightarrow>
     (\<forall>w. I w \<longrightarrow> I (snd (de_now (jv_diag env) w))) \<and> (\<forall>p w. I w \<longrightarrow> I (snd (de_isFile (jv_diag env) p w))) \<and>
     (\<forall>p w. I w \<longrightarrow> I (snd (de_readJson (jv_diag env) p w))) \<and> (\<forall>p v w. I w \<longrightarrow> I (snd (de_write (jv_diag env) p v w))) \<and>
     (\<forall>p v b w. I w \<longrightarrow> I (snd (jv_write env p v b w)))"

definition removable :: "JournalEntry \<Rightarrow> string \<Rightarrow> bool" where
  "removable e u \<longleftrightarrow> je_state e \<in> {E_owned, E_blocked} \<and> je_uid e = Some u \<and> u \<noteq> []"

lemma recorder_world:
  assumes "files_keep I env"
  shows "keeps (on_world I) (recordObservation (jv_diag env) v ep)"
proof -
  note f = assms [unfolded files_keep_def]
  have c: "keeps (on_world I) (rec_clock (jv_diag env))"
    using f by (auto simp: keeps_def on_world_def split: prod.splits)
  have ld: "keeps (on_world I) (loadCapture (jv_diag env))"
    unfolding loadCapture_def by (intro keeps_intros) (use f in \<open>auto simp: on_world_def split: option.split intro!: keeps_intros\<close>)
  have wr: "keeps (on_world I) (writeCapture (jv_diag env) body)" for body
    unfolding writeCapture_def by (intro keeps_intros) (use f in \<open>auto simp: on_world_def\<close>)
  show ?thesis
    unfolding recordObservation_def
    by (intro keeps_intros ld c) (auto simp: on_world_def split: sum.split intro!: keeps_intros wr)
qed

lemma with_recorder_world:
  assumes "keeps (on_world I) m"
  shows "keeps (on_world I) (with_recorder key m)"
  unfolding keeps_def
proof (intro allI impI)
  fix s :: "ResourceJournal \<times> 'a" assume s: "on_world I s"
  obtain j w where jw: "s = (j, w)" by (cases s)
  show "on_world I (snd (with_recorder key m s))"
  proof (cases "oget (rj_recorders j) key")
    case (Some r)
    have "on_world I (snd (m (r, w)))" using s jw by (intro keepsD [OF assms]) (simp add: on_world_def)
    with Some jw show ?thesis by (auto simp: with_recorder_def on_world_def split: prod.splits)
  qed (use s jw in \<open>simp add: with_recorder_def\<close>)
qed

lemma journal_files_world:
  assumes "files_keep I env"
  shows "keeps (on_world I) (take_note env key v)" "keeps (on_world I) (with_recorder key (recordComplete (jv_diag env)))"
    "keeps (on_world I) (with_recorder key (recordFailure (jv_diag env) op err))"
    "keeps (on_world I) (with_recorder key (observeIn (jv_diag env) epoch v))"
    "keeps (on_world I) (with_recorder key beginEpoch)" "keeps (on_world I) (persist env)" "keeps (on_world I) (ensure_recorder env e)"
proof -
  note r = recorder_world [OF assms]
  have u: "keeps (on_world I) (rec_update f)" for f by (auto simp: keeps_def on_world_def)
  show "keeps (on_world I) (take_note env key v)" unfolding take_note_def by (intro with_recorder_world r)
  show "keeps (on_world I) (with_recorder key (recordComplete (jv_diag env)))"
    unfolding recordComplete_def by (intro with_recorder_world keeps_intros u r)
  show "keeps (on_world I) (with_recorder key (recordFailure (jv_diag env) op err))"
    unfolding recordFailure_def by (intro with_recorder_world keeps_intros u r)
  show "keeps (on_world I) (with_recorder key (observeIn (jv_diag env) epoch v))"
    unfolding observeIn_def by (intro with_recorder_world keeps_intros r)
  show "keeps (on_world I) (with_recorder key beginEpoch)"
    unfolding beginEpoch_def by (intro with_recorder_world keeps_intros u)
  show "keeps (on_world I) (persist env)"
    using assms by (auto simp: persist_def keeps_def act_simps on_world_def files_keep_def split: prod.splits) (metis snd_conv)
  show "keeps (on_world I) (ensure_recorder env e)"
    using assms by (auto simp: ensure_recorder_def keeps_def on_world_def files_keep_def split: prod.splits)
qed

text \<open>A world property together with known journal data.\<close>

definition known :: "('w \<Rightarrow> bool) \<Rightarrow> JournalData \<Rightarrow> ResourceJournal \<times> 'w \<Rightarrow> bool" where
  "known I d s \<longleftrightarrow> on_world I s \<and> same_data d s"

lemma triple_known:
  assumes "quiet m" and "keeps (on_world J) m" and "\<And>w. J w \<Longrightarrow> I w"
  shows "triple (known J d) (tagged op m) (\<lambda>_. known J d) (\<lambda>_. on_world I)"
  using keepsD [OF assms(2)] quietD [OF assms(1)] assms(3)
  by (auto simp: triple_def tagged_def known_def same_data_def on_world_def split: prod.split sum.split) (metis fst_conv snd_conv)+

lemma triple_known_entry:
  assumes "triple (known J d) (f (jd_entries d ! i)) Q E"
  shows "triple (known J d) (bnd (entry_at i) f) Q E"
  using assms by (auto simp: triple_def bnd_def gets_def known_def same_data_def)

lemma triple_known_guard:
  assumes "c \<Longrightarrow> triple (known J d) n Q (\<lambda>_. on_world I)" and "\<And>w. J w \<Longrightarrow> I w"
  shows "triple (known J d) (seq (tagged op (requireSafe c code)) n) Q (\<lambda>_. on_world I)"
  using assms by (cases c) (auto simp: triple_def seq_def bnd_def tagged_def known_def on_world_def)

locale guarded_cleanup = quiet_adapters adapters assertHeld
  for adapters :: "ResourceKind \<Rightarrow> 'w cleanup_adapter option" and assertHeld :: "('w, unit) journal_act" +
  fixes env :: "'w journal_env" and I H :: "'w \<Rightarrow> bool" and K :: "((ResourceKind \<times> string) \<times> string option) set"
  assumes held: "H w \<Longrightarrow> I w"
    and files: "files_keep I env" "files_keep H env"
    and guard: "triple (on_world I) assertHeld (\<lambda>_. on_world H) (\<lambda>_. on_world I)"
    and lookup_world: "adapters k = Some a \<Longrightarrow> (\<And>v. keeps (on_world I) (observe v)) \<Longrightarrow> keeps (on_world I) (ca_lookup a e observe)"
    and verify_world: "adapters k = Some a \<Longrightarrow> (\<And>v. keeps (on_world I) (observe v)) \<Longrightarrow> keeps (on_world I) (ca_verifyRemoved a e observe)"
    and remove_world: "adapters k = Some a \<Longrightarrow> (\<And>v. keeps (on_world I) (observe v)) \<Longrightarrow> (\<And>v. keeps (on_world H) (observe v)) \<Longrightarrow>
      removable e u \<Longrightarrow> claim_of e \<in> K \<Longrightarrow> leads (on_world H) (ca_removeIfUid a e u observe) (on_world I)"
begin

lemma guard_known: "triple (known I d) (tagged op assertHeld) (\<lambda>_. known H d) (\<lambda>_. on_world I)"
proof (rule tripleI)
  show "known H d t" if "known I d s" "tagged op assertHeld s = (Inr x, t)" for s x t
    using that tripleD_ok [OF guard, of s x t] quietD [OF guard_quiet, of s]
    by (auto simp: known_def tagged_def same_data_def split: prod.splits sum.splits)
  show "on_world I t" if "known I d s" "tagged op assertHeld s = (Inl e, t)" for s e t
    using that tripleD_err [OF guard, of s _ t] by (auto simp: known_def tagged_def split: prod.splits sum.splits)
qed

lemma known_weaken: "triple (known I d) m Q E \<Longrightarrow> triple (known H d) m Q E"
  by (erule triple_weaken) (auto simp: known_def on_world_def held)

lemma removeCurrent_world:
  assumes a: "adapters k = Some a" and obs: "\<And>v. quiet (observe v)" "\<And>v. keeps (on_world I) (observe v)" "\<And>v. keeps (on_world H) (observe v)"
    and e: "je_state (jd_entries d ! i) \<in> {E_owned, E_blocked}" "je_uid (jd_entries d ! i) \<noteq> Some []"
    and K: "claim_of (jd_entries d ! i) \<in> K"
  shows "triple (known I d) (removeCurrent env a assertHeld i key observe current) (\<lambda>_. known I d) (\<lambda>_. on_world I)"
proof (cases current)
  case None
  then show ?thesis by (simp add: removeCurrent_def triple_def ret_def)
next
  case (Some c)
  have noteI: "triple (known I d) (tagged op (take_note env key v)) (\<lambda>_. known I d) (\<lambda>_. on_world I)" for op v
    by (rule triple_known [OF quiet_note journal_files_world(1) [OF files(1)]])
  have noteH: "triple (known H d) (tagged op (take_note env key v)) (\<lambda>_. known H d) (\<lambda>_. on_world I)" for op v
    by (rule triple_known [OF quiet_note journal_files_world(1) [OF files(2)] held])
  have rem: "triple (known H d) (tagged op (ca_removeIfUid a (jd_entries d ! i) (entry_uid (jd_entries d ! i)) observe)) (\<lambda>_. known I d) (\<lambda>_. on_world I)"
    if "map_option JStr (je_uid (jd_entries d ! i)) = Some (fo_uid c)" for op
  proof -
    have "removable (jd_entries d ! i) (entry_uid (jd_entries d ! i))" using that e by (auto simp: removable_def entry_uid_def)
    note rm = remove_world [OF a, of observe, OF obs(2,3) this K]
      and q = remove_quiet [OF a, of observe, OF obs(1), of "jd_entries d ! i" "entry_uid (jd_entries d ! i)"]
    show ?thesis
      unfolding triple_def tagged_def
    proof (intro allI impI)
      fix s :: "ResourceJournal \<times> 'w" assume s: "known H d s"
      obtain r t where r: "ca_removeIfUid a (jd_entries d ! i) (entry_uid (jd_entries d ! i)) observe s = (r, t)" by (metis prod.collapse)
      then have "known I d t"
        using s leadsD [OF rm, of s] quietD [OF q, of s] by (simp add: known_def same_data_def)
      with r show "case case ca_removeIfUid a (jd_entries d ! i) (entry_uid (jd_entries d ! i)) observe s of (Inl e, t) \<Rightarrow> (Inl (op, e), t) | (Inr x, t) \<Rightarrow> (Inr x, t) of
          (Inl e, t) \<Rightarrow> on_world I t | (Inr x, t) \<Rightarrow> known I d t"
        by (cases r) (simp_all add: known_def)
    qed
  qed
  show ?thesis
    unfolding removeCurrent_def Some option.case
    by (intro triple_known_entry triple_known_guard triple_seq [OF _ guard_known] triple_seq [OF _ noteH]
        triple_seq [where R = "known I d"] noteI rem) (simp_all add: held)
qed

lemma cleanupSteps_world:
  assumes obs: "\<And>v. quiet (observe v)" "\<And>v. keeps (on_world I) (observe v)" "\<And>v. keeps (on_world H) (observe v)"
    and K: "claim_of (jd_entries d ! i) \<in> K"
  shows "triple (known I d) (cleanupSteps env adapters assertHeld i key observe) (\<lambda>_. on_world I) (\<lambda>_. on_world I)"
proof -
  have noteI: "triple (known I d) (tagged op (take_note env key v)) (\<lambda>_. known I d) (\<lambda>_. on_world I)" for op v
    by (rule triple_known [OF quiet_note journal_files_world(1) [OF files(1)]])
  have noteH: "triple (known H d) (tagged op (take_note env key v)) (\<lambda>_. known I d) (\<lambda>_. on_world I)" for op v
    by (rule known_weaken [OF noteI])
  have last: "triple (known I d) (seq (jr_update (change_entry i mark_removed)) (seq (tagged ''persist'' (persist env))
      (tagged ''persist'' (with_recorder key (recordComplete (jv_diag env)))))) (\<lambda>_. on_world I) (\<lambda>_. on_world I)"
  proof -
    have "triple (on_world I) (tagged op m) (\<lambda>_. on_world I) (\<lambda>_. on_world I)" if "keeps (on_world I) m"
      for op and m :: "('w, unit) journal_act"
      using keepsD [OF that] by (auto simp: triple_def tagged_def split: prod.split sum.split) (metis snd_conv)+
    moreover have "triple (known I d) (jr_update (change_entry i mark_removed)) (\<lambda>_. on_world I) (\<lambda>_. on_world I)"
      by (auto simp: triple_def known_def on_world_def)
    ultimately show ?thesis using journal_files_world(2,6) [OF files(1)] by (intro triple_seq [where R = "on_world I"]) auto
  qed
  show ?thesis
    unfolding cleanupSteps_def
  proof (intro triple_seq [OF _ noteI] triple_seq [OF _ guard_known] triple_seq [OF _ noteH] triple_known_entry triple_known_guard)
    assume c: "je_state (jd_entries d ! i) \<in> {E_owned, E_blocked} \<and> je_uid (jd_entries d ! i) \<noteq> None \<and> je_uid (jd_entries d ! i) \<noteq> Some []"
    show "triple (known I d) (case adapters (je_kind (jd_entries d ! i)) of
         None \<Rightarrow> tagged ''lookup'' (throw (hard R_CLEANUP))
       | Some adapter \<Rightarrow>
           bnd (tagged ''lookup'' (ca_lookup adapter (jd_entries d ! i) observe)) (\<lambda>current.
           seq (bnd (entry_at i) (\<lambda>e. tagged ''lookup'' (take_note env key (lookup_note e current))))
           (seq (removeCurrent env adapter assertHeld i key observe current)
           (seq (tagged ''verify'' (take_note env key (stage_note ''verify'' ''running'')))
           (bnd (bnd (entry_at i) (\<lambda>e. tagged ''verify'' (ca_verifyRemoved adapter e observe))) (\<lambda>ok.
            seq (tagged ''verify'' (requireSafe ok R_CLEANUP))
            (seq (jr_update (change_entry i mark_removed))
            (seq (tagged ''persist'' (persist env))
              (tagged ''persist'' (with_recorder key (recordComplete (jv_diag env))))))))))))
       (\<lambda>_. on_world I) (\<lambda>_. on_world I)"
    proof (cases "adapters (je_kind (jd_entries d ! i))")
      case None
      then show ?thesis by (auto simp: triple_def tagged_def throw_def known_def)
    next
      case (Some a)
      have rc: "triple (known I d) (removeCurrent env a assertHeld i key observe current) (\<lambda>_. known I d) (\<lambda>_. on_world I)" for current
        using removeCurrent_world [OF Some, of observe, OF obs, of d i key current] c K by simp
      have lk: "triple (known I d) (tagged op (ca_lookup a e observe)) (\<lambda>_. known I d) (\<lambda>_. on_world I)" for op e
        by (rule triple_known [OF lookup_quiet [OF Some, of observe, OF obs(1)] lookup_world [OF Some, of observe, OF obs(2)]])
      have vf: "triple (known I d) (tagged op (ca_verifyRemoved a e observe)) (\<lambda>_. known I d) (\<lambda>_. on_world I)" for op e
        by (rule triple_known [OF verify_quiet [OF Some, of observe, OF obs(1)] verify_world [OF Some, of observe, OF obs(2)]])
      show ?thesis
        unfolding Some option.case
        by (intro triple_bnd [OF _ lk] triple_seq [OF _ rc] triple_seq [OF _ noteI] triple_bnd [OF _ triple_known_entry [OF vf]]
            triple_known_guard last triple_seq [OF _ triple_known_entry [OF noteI]])
    qed
  qed
qed

lemma cleanupEntry_world:
  assumes s: "on_world I s" and K: "claims (rj_data (fst s)) \<subseteq> K" and i: "i < length (entries_of (fst s))"
  shows "on_world I (snd (cleanupEntry env adapters assertHeld i s))"
proof -
  let ?e = "entries_of (fst s) ! i" and ?key = "diagnostic_key (entries_of (fst s) ! i)"
  note w = journal_files_world [OF files(1)] and h = journal_files_world [OF files(2)]
  have pre: "keeps (on_world I) (seq (ensure_recorder env ?e) (with_recorder ?key beginEpoch))" by (intro keeps_seq w)
  obtain epoch s1 where s1: "seq (ensure_recorder env ?e) (with_recorder ?key beginEpoch) s = (Inr epoch, s1)"
    and d: "rj_data (fst s1) = rj_data (fst s)"
    using ensure_begin [of env ?e s] by blast
  then have k: "known I (rj_data (fst s1)) s1" using keepsD [OF pre s] by (simp add: known_def same_data_def)
  have c: "claim_of (jd_entries (rj_data (fst s1)) ! i) \<in> K" using K i d by (auto simp: claims_def)
  let ?obs = "\<lambda>value. with_recorder ?key (observeIn (jv_diag env) epoch value)"
  note steps = cleanupSteps_world [of ?obs, OF quiet_with_recorder w(4) h(4) c, of ?key]
  have blk: "keeps (on_world I) (blockEntry env i ?key op err)" for op err
    unfolding blockEntry_def by (intro keeps_intros w) (auto simp: keeps_def on_world_def)
  obtain r u where r: "cleanupSteps env adapters assertHeld i ?key ?obs s1 = (r, u)" by (metis prod.collapse)
  have u: "on_world I u" using tripleD_ok [OF steps k] tripleD_err [OF steps k] r by (cases r) auto
  have "on_world I (snd (bnd (blockEntry env i ?key op err) (\<lambda>f. ret [f]) u))" for op err
    by (rule keepsD [OF keeps_bnd [OF blk keeps_basic(1)] u])
  then show ?thesis unfolding cleanupEntry_run [OF s1] using r u by (cases r) auto
qed

lemma cleanupAll_world:
  assumes "on_world I s" and "claims (rj_data (fst s)) \<subseteq> K" and "\<forall>i \<in> set is. i < length (entries_of (fst s))"
  shows "on_world I (snd (cleanupAll env adapters assertHeld only is s))"
  using assms
proof (induction "is" arbitrary: s)
  case (Cons i "is")
  obtain r t where r: "cleanupEntry env adapters assertHeld i s = (r, t)" by (metis prod.collapse)
  have i: "i < length (jd_entries (rj_data (fst s)))" and d: "same_data (rj_data (fst s)) s"
    using Cons.prems by (simp_all add: same_data_def)
  have t: "on_world I t" using cleanupEntry_world [of s i] Cons.prems r by simp
  from cleanupEntry_cases [OF d i r] obtain f
    where "same_data (put_entry i mark_removed (rj_data (fst s))) t \<or> same_data (put_entry i (mark_blocked f) (rj_data (fst s))) t"
    by blast
  then have "claims (rj_data (fst t)) = claims (rj_data (fst s))" "length (entries_of (fst t)) = length (entries_of (fst s))"
    using i by (auto simp: same_data_def put_length)
  then have "on_world I (snd (cleanupAll env adapters assertHeld only is t))" using Cons t by auto
  with Cons r t show ?case by (auto simp: bnd_def gets_def ret_def split: sum.splits prod.splits)
qed (simp add: ret_def)

lemma cleanup_world:
  assumes "on_world I s" and "claims (rj_data (fst s)) \<subseteq> K"
  shows "on_world I (snd (cleanup env adapters assertHeld only s))"
proof -
  have "on_world I (snd (cleanupAll env adapters assertHeld only (rev [0..<length (entries_of (fst s))]) s))"
    by (rule cleanupAll_world [OF assms]) simp
  with assms show ?thesis
    by (auto simp: cleanup_def seq_def bnd_def gets_def ret_def throw_def requireSafe_def split: sum.splits prod.splits list.splits option.splits)
qed

end

subsection \<open>Properties\<close>

text \<open>
  C18: What the journal writes it reads back: a well-formed journal survives the file, for the target it was
  made for, with every entry, UID, generation and recorded failure.
\<close>

theorem journal_file_roundtrip:
  assumes "journal_wf d"
  shows "parseJournal (jd_targetUid d) (journal_json d) = Some d"
  using assms by (rule parse_journal_json)

definition sample_journal :: JournalData where
  "sample_journal = \<lparr>jd_runId = JStr ''reg-00000000-0000-0000-0000-000000000000'', jd_targetUid = ''target'', jd_prefix = ''reg-00000000-000-'',
     jd_entries = [\<lparr>je_kind = K_model, je_name = ''reg-00000000-000-a'', je_uid = Some ''u1'', je_state = E_blocked, je_generation = Some 2,
       je_cleanupFailure = Some \<lparr>cf_operation = ''verify'', cf_reason = R_DEADLINE, cf_stage = Some S_cleanup\<rparr>\<rparr>]\<rparr>"

lemma sample_journal_wf: "journal_wf sample_journal"
  by (simp add: journal_wf_def sample_journal_def is_run_id_def prefix_of_def char_class_defs entry_wf_def entry_key_def
      ownedJournalName_def is_resource_name_def startsWith_def is_positive_safe_def max_safe_def)

theorem journal_file_roundtrip_witness: "parseJournal ''target'' (journal_json sample_journal) = Some sample_journal"
proof -
  have "jd_targetUid sample_journal = ''target''" by (simp add: sample_journal_def)
  with journal_file_roundtrip [OF sample_journal_wf] show ?thesis by simp
qed

text \<open>
  C19: Recovery adopts only a well-formed journal of the target at hand. A journal that \<open>resume\<close> returns has
  the prefix of its run, distinct entries whose names the run may own, a UID for every owned entry and a
  failure only on a blocked one, whatever the file holds.
\<close>

theorem journal_resume_sound:
  assumes "resumeJournal env filename targetUid w = (Inr j, w')"
  shows "journal_wf (rj_data j) \<and> jd_targetUid (rj_data j) = targetUid \<and> rj_filename j = filename \<and> rj_recorders j = []"
  using assms parse_journal_sound
  by (auto simp: resumeJournal_def ok_iffs split: option.splits)

definition journal_on_disk :: "unit journal_env" where
  "journal_on_disk = \<lparr>jv_write = (\<lambda>_ _ _. ret ()), jv_readJson = (\<lambda>_. ret (journal_json sample_journal)),
     jv_diag = \<lparr>de_now = (\<lambda>w. (0, w)), de_isFile = (\<lambda>_. ret False), de_readJson = (\<lambda>_. ret JNull), de_write = (\<lambda>_ _. ret ()), de_sha256 = id\<rparr>\<rparr>"

theorem journal_resume_sound_witness:
  "resumeJournal journal_on_disk ''j'' ''target'' () = (Inr \<lparr>rj_filename = ''j'', rj_data = sample_journal, rj_recorders = []\<rparr>, ()) \<and>
   journal_wf sample_journal"
proof -
  have run: "resumeJournal journal_on_disk ''j'' ''target'' () = (Inr \<lparr>rj_filename = ''j'', rj_data = sample_journal, rj_recorders = []\<rparr>, ())"
    using parse_journal_json [of sample_journal] sample_journal_wf
    by (simp add: resumeJournal_def journal_on_disk_def act_simps sample_journal_def)
  from journal_resume_sound [OF run] run show ?thesis by simp
qed

end
