(* ===== verification/Poll.thy ===== *)
theory Poll
  imports Harness_Errors
begin

text \<open>
  Polling and run lifecycle (\<open>regression/core/poll.ts\<close>, \<open>regression/core/run-lifecycle.ts\<close>): reads are
  repeated until one is accepted before a deadline; teardown runs after an action without replacing
  its error; a heartbeat that failed stays failed. The clock, the pause and the abort signal are the
  parameters \<open>poll_env\<close>; times are whole milliseconds. The race of a read against the timer is decided by
  the clock after the read. The loop takes fuel; \<open>poll_fuel\<close> is enough for every clock that a
  pause advances.
\<close>

subsection \<open>Polling\<close>

record 's poll_env =
  pe_now :: "'s \<Rightarrow> nat \<times> 's"
  pe_wait :: "nat \<Rightarrow> ('s, js_error, unit) act"
  pe_check :: "('s, js_error, unit) act"

definition poll_clock :: "'s poll_env \<Rightarrow> ('s, js_error, nat) act" where
  "poll_clock env = (\<lambda>s. case pe_now env s of (t, s') \<Rightarrow> (Inr t, s'))"

definition deadline_error :: "Stage option \<Rightarrow> js_error" where
  "deadline_error stage = Harness (mkHarnessError R_DEADLINE (Some Failed) stage None)"

text \<open>\<open>await Promise.race([read(signal), deadlineReached])\<close>: after the deadline the timer has won.\<close>

definition raced :: "'s poll_env \<Rightarrow> nat \<Rightarrow> Stage option \<Rightarrow> ('s, js_error, 'a) act \<Rightarrow> ('s, js_error, 'a) act" where
  "raced env deadline stage m = (\<lambda>s. case m s of (r, s1) \<Rightarrow>
     (case pe_now env s1 of (t, s2) \<Rightarrow> if t < deadline then (r, s2) else (Inl (deadline_error stage), s2)))"

text \<open>\<open>Math.min(Math.ceil(interval * 1.5), 1000)\<close>\<close>

definition next_interval :: "nat \<Rightarrow> nat" where
  "next_interval interval = min ((3 * interval + 1) div 2) 1000"

text \<open>One pass of the loop body: a value, or the interval for the next pass, or the end of the loop.\<close>

datatype 'a pass = Accepted 'a | Again nat | Over

definition poll_pass :: "'s poll_env \<Rightarrow> ('s, js_error, 'a) act \<Rightarrow> ('a \<Rightarrow> bool) \<Rightarrow> Stage option \<Rightarrow> nat \<Rightarrow> nat \<Rightarrow> ('s, js_error, 'a pass) act" where
  "poll_pass env read accept stage deadline interval =
     bnd (poll_clock env) (\<lambda>t0.
       if deadline \<le> t0 then ret Over
       else seq (pe_check env)
         (bnd (raced env deadline stage read) (\<lambda>value.
          bnd (poll_clock env) (\<lambda>t1.
            if t1 < deadline \<and> accept value then ret (Accepted value)
            else bnd (poll_clock env) (\<lambda>t2.
              if deadline \<le> t2 then ret Over
              else seq (pe_wait env (min interval (deadline - t2))) (ret (Again (next_interval interval))))))))"

fun pollLoop :: "nat \<Rightarrow> 's poll_env \<Rightarrow> ('s, js_error, 'a) act \<Rightarrow> ('a \<Rightarrow> bool) \<Rightarrow> Stage option \<Rightarrow> nat \<Rightarrow> nat \<Rightarrow> 's \<Rightarrow>
    ((js_error + 'a) \<times> 's) option" where
  "pollLoop 0 env read accept stage deadline interval s = None"
| "pollLoop (Suc n) env read accept stage deadline interval s =
     (case poll_pass env read accept stage deadline interval s of
        (Inl e, s') \<Rightarrow> Some (Inl e, s')
      | (Inr (Accepted v), s') \<Rightarrow> Some (Inr v, s')
      | (Inr Over, s') \<Rightarrow> Some (Inl (deadline_error stage), s')
      | (Inr (Again i), s') \<Rightarrow> pollLoop n env read accept stage deadline i s')"

definition poll_fuel :: "nat \<Rightarrow> nat" where
  "poll_fuel timeoutMs = timeoutMs + 1"

definition poll :: "'s poll_env \<Rightarrow> ('s, js_error, 'a) act \<Rightarrow> ('a \<Rightarrow> bool) \<Rightarrow> nat \<Rightarrow> nat \<Rightarrow> Stage option \<Rightarrow> 's \<Rightarrow>
    ((js_error + 'a) \<times> 's) option" where
  "poll env read accept timeoutMs intervalMs stage s =
     (case pe_now env s of (t, s') \<Rightarrow>
        pollLoop (poll_fuel timeoutMs) env read accept stage (t + timeoutMs) intervalMs s')"

text \<open>
  Polling as an action. The error of the first case is out of reach for a clock that advances, which
  is the termination theorem below.
\<close>

definition poll_act :: "'s poll_env \<Rightarrow> ('s, js_error, 'a) act \<Rightarrow> ('a \<Rightarrow> bool) \<Rightarrow> nat \<Rightarrow> nat \<Rightarrow> Stage option \<Rightarrow> ('s, js_error, 'a) act" where
  "poll_act env read accept timeoutMs intervalMs stage = (\<lambda>s.
     case poll env read accept timeoutMs intervalMs stage s of
       None \<Rightarrow> (Inl (Other ''no progress''), s)
     | Some r \<Rightarrow> r)"

subsection \<open>Readiness of the current generation\<close>

definition condition_ready :: "jsval \<Rightarrow> int \<Rightarrow> jsval \<Rightarrow> bool" where
  "condition_ready status generation condition \<longleftrightarrow>
     jget condition ''type'' = Some (JStr ''Ready'') \<and> jget condition ''status'' = Some (JStr ''True'') \<and>
     (case jget condition ''observedGeneration'' of
        Some JNull \<Rightarrow> jget status ''observedGeneration'' = Some (JInt generation)
      | None \<Rightarrow> jget status ''observedGeneration'' = Some (JInt generation)
      | Some g \<Rightarrow> g = JInt generation)"

text \<open>\<open>a?.b\<close>\<close>

definition jpath :: "jsval option \<Rightarrow> string \<Rightarrow> jsval option" where
  "jpath v k = Option.bind v (\<lambda>x. jget x k)"

definition currentReady :: "jsval \<Rightarrow> string \<Rightarrow> int \<Rightarrow> bool" where
  "currentReady value uid generation \<longleftrightarrow>
     jpath (jget value ''metadata'') ''uid'' = Some (JStr uid) \<and>
     jpath (jget value ''metadata'') ''generation'' = Some (JInt generation) \<and>
     (case jget value ''status'' of
        None \<Rightarrow> False
      | Some status \<Rightarrow> (case jget status ''conditions'' of
            Some (JArr cs) \<Rightarrow> list_ex (condition_ready status generation) cs
          | _ \<Rightarrow> False))"

subsection \<open>Teardown and heartbeat\<close>

definition withCleanup :: "('s, 'e, 'a) act \<Rightarrow> ('s, 'e, unit) act \<Rightarrow> ('s, 'e, 'a) act" where
  "withCleanup action cleanup = (\<lambda>s. case action s of
     (Inl e, s1) \<Rightarrow> (Inl e, snd (cleanup s1))
   | (Inr v, s1) \<Rightarrow> (case cleanup s1 of (Inl e, s2) \<Rightarrow> (Inl e, s2) | (Inr _, s2) \<Rightarrow> (Inr v, s2)))"

text \<open>The heartbeat loop between two of its events; a pending renewal is one action.\<close>

record HeartbeatLoop =
  hb_scheduled :: bool
  hb_failure :: "js_error option"
  hb_stopped :: bool

definition newHeartbeatLoop :: HeartbeatLoop where
  "newHeartbeatLoop = \<lparr>hb_scheduled = False, hb_failure = None, hb_stopped = False\<rparr>"

definition startLoop :: "HeartbeatLoop \<Rightarrow> HeartbeatLoop" where
  "startLoop h = (if \<not> hb_scheduled h \<and> \<not> hb_stopped h then h\<lparr>hb_scheduled := True\<rparr> else h)"

definition checkLoop :: "(HeartbeatLoop \<times> 'w, js_error, unit) act" where
  "checkLoop = bnd (gets fst) (\<lambda>h. requireSafe (hb_failure h = None) R_LOCK_LOST)"

definition tickLoop :: "('w, js_error, unit) act \<Rightarrow> (HeartbeatLoop \<times> 'w, js_error, unit) act" where
  "tickLoop renew = seq checkLoop (\<lambda>(h, w). case renew w of
     (Inl e, w') \<Rightarrow> (Inl e, (h\<lparr>hb_failure := Some e\<rparr>, w'))
   | (Inr _, w') \<Rightarrow> (Inr (), (h, w')))"

text \<open>The timer event: a tick whose error is dropped, then a new timer unless stopped or failed.\<close>

definition timerEvent :: "('w, js_error, unit) act \<Rightarrow> HeartbeatLoop \<times> 'w \<Rightarrow> HeartbeatLoop \<times> 'w" where
  "timerEvent renew = (\<lambda>(h, w). if \<not> hb_scheduled h then (h, w)
     else case snd (tickLoop renew (h\<lparr>hb_scheduled := False\<rparr>, w)) of
       (h', w') \<Rightarrow> (if \<not> hb_stopped h' \<and> hb_failure h' = None then h'\<lparr>hb_scheduled := True\<rparr> else h', w'))"

definition stopLoop :: "HeartbeatLoop \<Rightarrow> HeartbeatLoop" where
  "stopLoop h = h\<lparr>hb_stopped := True, hb_scheduled := False\<rparr>"

datatype heartbeat_event = Start | Timer | Tick | Stop

fun run_heartbeat :: "('w, js_error, unit) act \<Rightarrow> heartbeat_event \<Rightarrow> HeartbeatLoop \<times> 'w \<Rightarrow> HeartbeatLoop \<times> 'w" where
  "run_heartbeat renew Start s = (startLoop (fst s), snd s)"
| "run_heartbeat renew Timer s = timerEvent renew s"
| "run_heartbeat renew Tick s = snd (tickLoop renew s)"
| "run_heartbeat renew Stop s = (stopLoop (fst s), snd s)"

fun run_heartbeats :: "('w, js_error, unit) act \<Rightarrow> heartbeat_event list \<Rightarrow> HeartbeatLoop \<times> 'w \<Rightarrow> HeartbeatLoop \<times> 'w" where
  "run_heartbeats renew [] s = s"
| "run_heartbeats renew (e # es) s = run_heartbeats renew es (run_heartbeat renew e s)"

subsection \<open>Lemmas\<close>

text \<open>
  What polling needs of its clock: a reading is the time of the state after it, time never goes
  back, and a pause takes at least as long as asked for.
\<close>

definition timely :: "'s poll_env \<Rightarrow> ('s, js_error, 'a) act \<Rightarrow> ('s \<Rightarrow> nat) \<Rightarrow> bool" where
  "timely env read clk \<longleftrightarrow>
     (\<forall>s t s'. pe_now env s = (t, s') \<longrightarrow> clk s \<le> t \<and> clk s' = t) \<and>
     (\<forall>n s. clk s + n \<le> clk (snd (pe_wait env n s))) \<and>
     (\<forall>s. clk s \<le> clk (snd (pe_check env s))) \<and> (\<forall>s. clk s \<le> clk (snd (read s)))"

lemma timely_steps:
  assumes "timely env read clk"
  shows "pe_now env s = (t, s') \<Longrightarrow> clk s \<le> t \<and> clk s' = t" "pe_wait env n s = (r, s') \<Longrightarrow> clk s + n \<le> clk s'"
    "pe_check env s = (r, s') \<Longrightarrow> clk s \<le> clk s'" "read s = (x, s') \<Longrightarrow> clk s \<le> clk s'"
  using assms unfolding timely_def by (metis snd_conv)+

lemma poll_clock_ok [ok_iffs]: "poll_clock env s = (Inr t, s') \<longleftrightarrow> pe_now env s = (t, s')"
  by (auto simp: poll_clock_def split: prod.splits)

lemma raced_time:
  assumes "timely env read clk" and "raced env deadline stage read s = (x, s')"
  shows "clk s \<le> clk s'"
  using assms(2) timely_steps [OF assms(1)]
  by (auto simp: raced_def split: prod.splits if_splits) (meson le_trans)+

text \<open>A pass that asks for another one has advanced the clock; an accepted value was in time.\<close>

lemma poll_pass_again:
  assumes T: "timely env read clk" and "poll_pass env read accept stage deadline interval s = (Inr (Again i), s')" and "0 < interval"
  shows "clk s < deadline \<and> clk s < clk s' \<and> 0 < i"
proof -
  obtain t0 s0 r1 s1 x s2 t1 s3 t2 s4 r5 where st: "pe_now env s = (t0, s0)" "t0 < deadline" "pe_check env s0 = (r1, s1)"
    "raced env deadline stage read s1 = (x, s2)" "pe_now env s2 = (t1, s3)" "pe_now env s3 = (t2, s4)" "t2 < deadline"
    "pe_wait env (min interval (deadline - t2)) s4 = (r5, s')" "i = next_interval interval"
    using assms(2) by (auto simp: poll_pass_def ok_iffs split: if_splits)
  note tm = timely_steps [OF T]
  have "clk s \<le> clk s0" "clk s0 = t0" "clk s0 \<le> clk s1" "clk s1 \<le> clk s2" "clk s2 \<le> clk s3" "clk s3 \<le> clk s4" "clk s4 = t2"
    using tm(1) [OF st(1)] tm(3) [OF st(3)] raced_time [OF T st(4)] tm(1) [OF st(5)] tm(1) [OF st(6)] by auto
  moreover have "clk s4 + min interval (deadline - t2) \<le> clk s'" by (rule tm(2) [OF st(8)])
  ultimately show ?thesis using st assms(3) by (auto simp: next_interval_def)
qed

lemma poll_pass_accepted:
  assumes T: "timely env read clk" and "poll_pass env read accept stage deadline interval s = (Inr (Accepted v), s')"
  shows "accept v \<and> clk s' < deadline"
proof -
  obtain s2 t1 where st: "pe_now env s2 = (t1, s')" "t1 < deadline" "accept v"
    using assms(2) by (auto simp: poll_pass_def ok_iffs split: if_splits)
  with timely_steps(1) [OF T st(1)] show ?thesis by simp
qed

lemma pollLoop_returns:
  assumes T: "timely env read clk" and "0 < interval" and "deadline - clk s < n"
  shows "\<exists>r s'. pollLoop n env read accept stage deadline interval s = Some (r, s') \<and>
    (\<forall>v. r = Inr v \<longrightarrow> accept v \<and> clk s' < deadline)"
  using assms(2,3)
proof (induction n arbitrary: interval s)
  case (Suc n)
  obtain r s1 where pass: "poll_pass env read accept stage deadline interval s = (r, s1)" by (metis prod.collapse)
  show ?case
  proof (cases "\<exists>i. r = Inr (Again i)")
    case True
    then obtain i where i: "r = Inr (Again i)" by blast
    from poll_pass_again [OF T pass [unfolded i] Suc.prems(1)] Suc.prems(2) have "deadline - clk s1 < n" "0 < i" by linarith+
    from Suc.IH [OF this(2,1)] pass i show ?thesis by simp
  next
    case False
    then show ?thesis
      using pass poll_pass_accepted [OF T, of accept stage deadline interval s _ s1]
      by (cases r; cases "projr r") (auto split: sum.splits)
  qed
qed simp

lemma poll_returns:
  assumes T: "timely env read clk" and "0 < intervalMs"
  shows "\<exists>r s'. poll env read accept timeoutMs intervalMs stage s = Some (r, s') \<and>
    (\<forall>v. r = Inr v \<longrightarrow> accept v \<and> clk s' < fst (pe_now env s) + timeoutMs)"
proof -
  obtain t s1 where now: "pe_now env s = (t, s1)" by (metis prod.collapse)
  from timely_steps(1) [OF T now] have "t + timeoutMs - clk s1 < poll_fuel timeoutMs" by (simp add: poll_fuel_def)
  from pollLoop_returns [OF T assms(2) this] now show ?thesis by (simp add: poll_def)
qed

text \<open>What the clock, the pause, the check and the read keep, polling keeps.\<close>

lemma keeps_poll_pass:
  assumes "\<And>s. I s \<Longrightarrow> I (snd (pe_now env s))" and "\<And>n. keeps I (pe_wait env n)" and "keeps I (pe_check env)" and "keeps I read"
  shows "keeps I (poll_pass env read accept stage deadline interval)"
proof -
  have c: "keeps I (poll_clock env)" using assms(1) by (auto simp: keeps_def poll_clock_def split: prod.split) (metis snd_conv)
  have r: "keeps I (raced env deadline stage read)"
    unfolding keeps_def
  proof (intro allI impI)
    fix s assume "I s"
    then have "I (snd (read s))" by (rule keepsD [OF assms(4)])
    from assms(1) [OF this] show "I (snd (raced env deadline stage read s))"
      by (auto simp: raced_def split: prod.splits)
  qed
  show ?thesis unfolding poll_pass_def by (intro keeps_intros c r assms)
qed

lemma keeps_poll_act:
  assumes "\<And>s. I s \<Longrightarrow> I (snd (pe_now env s))" and "\<And>n. keeps I (pe_wait env n)" and "keeps I (pe_check env)" and "keeps I read"
  shows "keeps I (poll_act env read accept timeoutMs intervalMs stage)"
proof -
  have loop: "I s \<Longrightarrow> pollLoop n env read accept stage deadline interval s = Some (r, t) \<Longrightarrow> I t" for n interval deadline s r t
  proof (induction n arbitrary: interval s)
    case (Suc n)
    obtain x s1 where p: "poll_pass env read accept stage deadline interval s = (x, s1)" by (metis prod.collapse)
    then have "I s1" using keepsD [OF keeps_poll_pass [OF assms] Suc.prems(1)] by (metis snd_conv)
    with Suc p show ?case by (auto split: sum.splits pass.splits)
  qed simp
  show ?thesis
    unfolding keeps_def poll_act_def poll_def
  proof (intro allI impI)
    fix s assume s: "I s"
    obtain t0 s0 where now: "pe_now env s = (t0, s0)" by (metis prod.collapse)
    then have "I s0" using assms(1) [OF s] by simp
    with loop now s show "I (snd (case case pe_now env s of (t, s') \<Rightarrow> pollLoop (poll_fuel timeoutMs) env read accept stage (t + timeoutMs) intervalMs s' of
        None \<Rightarrow> (Inl (Other ''no progress''), s) | Some r \<Rightarrow> r))"
      by (auto split: option.split)
  qed
qed

lemma heartbeat_stays_failed:
  assumes "hb_failure h = Some e"
  shows "\<exists>h'. run_heartbeats renew es (h, w) = (h', w) \<and> hb_failure h' = Some e"
  using assms
proof (induction es arbitrary: h)
  case (Cons ev es)
  have "\<exists>h'. run_heartbeat renew ev (h, w) = (h', w) \<and> hb_failure h' = Some e"
  proof (cases ev)
    case Timer
    then show ?thesis using Cons.prems by (simp add: timerEvent_def tickLoop_def checkLoop_def act_simps)
  next
    case Tick
    then show ?thesis using Cons.prems by (simp add: tickLoop_def checkLoop_def act_simps)
  qed (use Cons.prems in \<open>simp_all add: startLoop_def stopLoop_def\<close>)
  with Cons.IH show ?case by fastforce
qed simp

subsection \<open>Properties\<close>

text \<open>
  C33: Polling ends. With a positive interval and a clock that pauses advance, \<open>poll\<close> returns, and a
  value it returns is accepted and was accepted before the deadline.
\<close>

theorem poll_terminates:
  assumes "timely env read clk" and "0 < intervalMs"
  shows "\<exists>r s'. poll env read accept timeoutMs intervalMs stage s = Some (r, s') \<and>
    (\<forall>v. r = Inr v \<longrightarrow> accept v \<and> clk s' < fst (pe_now env s) + timeoutMs)"
  using assms by (rule poll_returns)

definition stopwatch :: "nat poll_env" where
  "stopwatch = \<lparr>pe_now = (\<lambda>s. (s, s)), pe_wait = (\<lambda>n s. (Inr (), s + n)), pe_check = ret ()\<rparr>"

theorem poll_terminates_witness:
  "\<exists>r s'. poll stopwatch (\<lambda>s. (Inr s, s + 1)) (\<lambda>v. 250 \<le> v) 1000 100 None 0 = Some (r, s') \<and>
     (\<forall>v. r = Inr v \<longrightarrow> 250 \<le> v \<and> s' < 1000)"
proof -
  have "timely stopwatch (\<lambda>s. (Inr s, s + 1)) id" by (auto simp: timely_def stopwatch_def ret_def)
  from poll_terminates [OF this, of 100 "\<lambda>v. 250 \<le> v" 1000 None 0] show ?thesis by (simp add: stopwatch_def)
qed

text \<open>
  A failed heartbeat is final: after a failed renewal no further event of the loop renews the lease
  again, whatever is started, ticked or stopped, and the failure stays recorded.
\<close>

theorem heartbeat_failure_is_final:
  assumes "hb_failure h = Some e"
  shows "\<exists>h'. run_heartbeats renew es (h, w) = (h', w) \<and> hb_failure h' = Some e"
  using assms by (rule heartbeat_stays_failed)

theorem heartbeat_failure_is_final_witness:
  "\<exists>h'. run_heartbeats (\<lambda>n. (Inr (), n + 1)) [Start, Timer, Tick, Stop]
     (newHeartbeatLoop\<lparr>hb_failure := Some (hard R_LOCK_LOST)\<rparr>, 7 :: nat) = (h', 7) \<and> hb_failure h' = Some (hard R_LOCK_LOST)"
  by (rule heartbeat_failure_is_final) simp

end
