(* ===== verification/Kubectl_Observer.thy ===== *)
theory Kubectl_Observer
  imports Kubernetes_Command
begin

text \<open>
  The Kubernetes observer (\<open>regression/core/observer.ts\<close>): the review of an observer's permissions,
  and reads through \<open>kubectl get\<close>. The subprocess is the parameter \<open>kc_command\<close> (arguments, input,
  output), \<open>JSON.parse\<close> on its output is \<open>kc_parse\<close>. Permission reviews and objects are parsed JSON.
\<close>

subsection \<open>Permission review\<close>

definition string_items :: "jsval option \<Rightarrow> jsval list option" where
  "string_items v = (case v of Some (JArr xs) \<Rightarrow> Some xs | _ \<Rightarrow> None)"

definition is_self_review :: "jsval list \<Rightarrow> jsval list \<Rightarrow> bool" where
  "is_self_review groups resources \<longleftrightarrow>
     (\<forall>g \<in> set groups. one_of [''authorization.k8s.io'', ''authentication.k8s.io''] (Some g)) \<and>
     (\<forall>r \<in> set resources. one_of [''selfsubjectaccessreviews'', ''selfsubjectrulesreviews'', ''selfsubjectreviews''] (Some r))"

text \<open>\<open>resource.includes('*')\<close> is the method of a string or of an array; other values have none and throw.\<close>

definition forbidden_resource :: "jsval \<Rightarrow> bool" where
  "forbidden_resource r = (case r of
     JStr s \<Rightarrow> s = ''secrets'' \<or> CHR ''*'' \<in> set s \<or> CHR ''/'' \<in> set s
   | JArr xs \<Rightarrow> JStr ''*'' \<in> set xs \<or> JStr ''/'' \<in> set xs
   | _ \<Rightarrow> True)"

definition observer_rule :: "jsval \<Rightarrow> bool" where
  "observer_rule rule = (case (string_items (jget rule ''verbs''), string_items (jget rule ''apiGroups''), string_items (jget rule ''resources'')) of
     (Some verbs, Some groups, Some resources) \<Rightarrow>
       (\<forall>v \<in> set verbs. one_of [''get'', ''list'', ''watch''] (Some v) \<or> v = JStr ''create'' \<and> is_self_review groups resources) \<and>
       \<not> list_ex forbidden_resource resources
   | _ \<Rightarrow> False)"

text \<open>\<open>(status.nonResourceRules ?? []).every(rule => verbs are all 'get')\<close>\<close>

definition get_only :: "jsval option \<Rightarrow> bool" where
  "get_only rules = (case rules of
     None \<Rightarrow> True
   | Some JNull \<Rightarrow> True
   | Some (JArr rs) \<Rightarrow> (\<forall>r \<in> set rs. case string_items (jget r ''verbs'') of
         Some verbs \<Rightarrow> \<forall>v \<in> set verbs. v = JStr ''get'' | None \<Rightarrow> False)
   | _ \<Rightarrow> False)"

definition verifyObserverRules :: "jsval \<Rightarrow> bool" where
  "verifyObserverRules value = (case jget value ''status'' of
     None \<Rightarrow> False
   | Some status \<Rightarrow> (case (jget status ''incomplete'', string_items (jget status ''resourceRules'')) of
         (Some (JBool False), Some rules) \<Rightarrow>
           (\<forall>r \<in> set rules. observer_rule r) \<and> get_only (jget status ''nonResourceRules'')
       | _ \<Rightarrow> False))"

subsection \<open>Reads\<close>

record 'w kubectl =
  kc_command :: "string list \<Rightarrow> string \<Rightarrow> ('w, js_error, string) act"
  kc_parse :: "string \<Rightarrow> jsval option"

text \<open>\<open>/^[a-z][a-z0-9.]*$/\<close>, \<open>/^[a-z0-9-]+$/\<close> and \<open>/^[a-z0-9.-]+$/\<close>\<close>

definition resource_type_ok :: "string \<Rightarrow> bool" where
  "resource_type_ok s \<longleftrightarrow> s \<noteq> [] \<and> is_lower (hd s) \<and> list_all (\<lambda>c. is_lower c \<or> is_digit c \<or> c = CHR ''.'') (tl s) \<and>
     \<not> sublist ''secret'' s"

definition namespace_ok :: "string \<Rightarrow> bool" where
  "namespace_ok s \<longleftrightarrow> s \<noteq> [] \<and> list_all is_name_char s"

definition object_name_ok :: "string \<Rightarrow> bool" where
  "object_name_ok s \<longleftrightarrow> s \<noteq> [] \<and> list_all (\<lambda>c. is_name_char c \<or> c = CHR ''.'') s"

definition get_arguments :: "string \<Rightarrow> string \<Rightarrow> string \<Rightarrow> string list" where
  "get_arguments resource namespace name =
     [''get'', resource] @ (if name \<noteq> [] then [name] else []) @
     (if namespace \<noteq> [] then [''-n'', namespace] else [''-A'']) @ [''-o'', ''json'']"

text \<open>An absent namespace or name is the empty string; both are falsy in the source.\<close>

definition is_command_error :: "js_error \<Rightarrow> bool" where
  "is_command_error err = (case err of Harness e \<Rightarrow> (case he_class e of KubernetesCommandError _ \<Rightarrow> True | _ \<Rightarrow> False) | Other _ \<Rightarrow> False)"

definition kubeGet :: "'w kubectl \<Rightarrow> string \<Rightarrow> string \<Rightarrow> string \<Rightarrow> ('w, js_error, jsval) act" where
  "kubeGet k resource namespace name =
     seq (requireSafe (resource_type_ok resource \<and> (namespace = [] \<or> namespace_ok namespace) \<and> (name = [] \<or> object_name_ok name)) R_OBSERVER)
     (catch (bnd (kc_command k (get_arguments resource namespace name) []) (\<lambda>out.
          case kc_parse k out of None \<Rightarrow> throw (Other ''SyntaxError'') | Some v \<Rightarrow> ret v))
       (\<lambda>err. if is_command_error err then throw err else throw (hard R_OBSERVER)))"

definition kubeList :: "'w kubectl \<Rightarrow> string \<Rightarrow> string \<Rightarrow> ('w, js_error, jsval list) act" where
  "kubeList k resource namespace = bnd (kubeGet k resource namespace []) (\<lambda>v.
     case string_items (jget v ''items'') of None \<Rightarrow> throw (hard R_OBSERVER) | Some xs \<Rightarrow> ret xs)"

text \<open>\<open>item.metadata.k\<close>, which throws when the object has no metadata.\<close>

definition meta :: "jsval \<Rightarrow> string \<Rightarrow> jsval option" where
  "meta item k = Option.bind (jget item ''metadata'') (\<lambda>m. jget m k)"

definition has_metadata :: "jsval \<Rightarrow> bool" where
  "has_metadata item \<longleftrightarrow> jget item ''metadata'' \<noteq> None \<and> jget item ''metadata'' \<noteq> Some JNull"

subsection \<open>Lemmas\<close>

lemma keeps_kubeGet [keeps_intros]:
  assumes "\<And>r ns n. keeps I (kc_command k (get_arguments r ns n) [])"
  shows "keeps I (kubeGet k resource namespace name)"
  unfolding kubeGet_def by (intro keeps_intros assms)

lemma keeps_kubeList [keeps_intros]:
  assumes "\<And>r ns n. keeps I (kc_command k (get_arguments r ns n) [])"
  shows "keeps I (kubeList k resource namespace)"
  unfolding kubeList_def by (intro keeps_intros assms)

subsection \<open>Properties\<close>

text \<open>
  An observer that passes the review cannot write product objects or read Secrets: in every
  reviewed rule each verb is a read verb, or \<open>create\<close> on the self-review resources alone, and no
  resource is \<open>secrets\<close>, a wildcard or a subresource.
\<close>

theorem observer_rules_read_only:
  assumes "verifyObserverRules value" and "jget value ''status'' = Some status"
    and "jget status ''resourceRules'' = Some (JArr rules)" and "rule \<in> set rules"
    and "jget rule ''verbs'' = Some (JArr verbs)" and "verb \<in> set verbs" and "jget rule ''resources'' = Some (JArr resources)"
  shows "(verb \<in> {JStr ''get'', JStr ''list'', JStr ''watch''} \<or>
      verb = JStr ''create'' \<and> set resources \<subseteq> {JStr ''selfsubjectaccessreviews'', JStr ''selfsubjectrulesreviews'', JStr ''selfsubjectreviews''}) \<and>
    JStr ''secrets'' \<notin> set resources \<and> (\<forall>s. JStr s \<in> set resources \<longrightarrow> CHR ''*'' \<notin> set s \<and> CHR ''/'' \<notin> set s)"
proof -
  have "observer_rule rule"
    using assms(1-4) by (auto simp: verifyObserverRules_def string_items_def split: option.splits jsval.splits bool.splits)
  then obtain groups where
    r: "\<forall>v \<in> set verbs. one_of [''get'', ''list'', ''watch''] (Some v) \<or> v = JStr ''create'' \<and> is_self_review groups resources"
      "\<not> list_ex forbidden_resource resources"
    using assms(5,7) by (auto simp: observer_rule_def string_items_def split: option.splits jsval.splits)
  have ok: "\<not> forbidden_resource x" if "x \<in> set resources" for x using r(2) that by (auto simp: list_ex_iff)
  have res: "s \<noteq> ''secrets'' \<and> CHR ''*'' \<notin> set s \<and> CHR ''/'' \<notin> set s" if "JStr s \<in> set resources" for s
    using ok [OF that] by (simp add: forbidden_resource_def)
  have self: "set resources \<subseteq> {JStr ''selfsubjectaccessreviews'', JStr ''selfsubjectrulesreviews'', JStr ''selfsubjectreviews''}"
    if "is_self_review groups resources"
    using that by (auto simp: is_self_review_def one_of_iff)
  from r(1) assms(6) have "one_of [''get'', ''list'', ''watch''] (Some verb) \<or> verb = JStr ''create'' \<and> is_self_review groups resources"
    by blast
  then have "verb \<in> {JStr ''get'', JStr ''list'', JStr ''watch''} \<or>
      verb = JStr ''create'' \<and> set resources \<subseteq> {JStr ''selfsubjectaccessreviews'', JStr ''selfsubjectrulesreviews'', JStr ''selfsubjectreviews''}"
  proof
    assume "one_of [''get'', ''list'', ''watch''] (Some verb)"
    then show ?thesis by (auto simp: one_of_iff)
  next
    assume "verb = JStr ''create'' \<and> is_self_review groups resources"
    with self show ?thesis by simp
  qed
  moreover have "JStr ''secrets'' \<notin> set resources" using res [of "''secrets''"] by auto
  moreover have "\<forall>s. JStr s \<in> set resources \<longrightarrow> CHR ''*'' \<notin> set s \<and> CHR ''/'' \<notin> set s" using res by simp
  ultimately show ?thesis by (intro conjI)
qed

definition sample_review :: jsval where
  "sample_review = JObj [(''status'', JObj [(''incomplete'', JBool False), (''resourceRules'', JArr
     [JObj [(''verbs'', JArr [JStr ''get'']), (''apiGroups'', JArr [JStr '''']), (''resources'', JArr [JStr ''pods''])]])])]"

theorem observer_rules_read_only_witness:
  "verifyObserverRules sample_review \<and> JStr ''secrets'' \<notin> set [JStr ''pods'']"
proof -
  have ok: "verifyObserverRules sample_review"
    by (simp add: sample_review_def verifyObserverRules_def string_items_def observer_rule_def get_only_def forbidden_resource_def)
  with observer_rules_read_only [OF ok, of _ _ _ "[JStr ''get'']" "JStr ''get''" "[JStr ''pods'']"]
  show ?thesis by (simp add: sample_review_def)
qed

end
