(* ===== verification/Model_Cleanup.thy ===== *)
theory Model_Cleanup
  imports Resource_Journal Poll Kubectl_Observer
begin

text \<open>
  The cleaner of model activations (\<open>regression/core/model-cleanup.ts\<close>) and its cleanup adapter for the
  resource journal. \<open>kubectl\<close>, the clock, the pause between two reads, the count of remaining Pods and
  catalog entries and the heartbeat are parameters; the requests the cleaner sends are what the model
  computes. The last part instruments these parameters with a log of lease checks and requests, and
  interprets the interfaces of the journal on the adapter.
\<close>

subsection \<open>The cleaner\<close>

definition model_resource :: string where
  "model_resource = ''modelactivations.appliance.magicstick.dev''"

definition model_group :: string where
  "model_group = ''appliance.magicstick.dev''"

record 'w model_cleaner =
  mc_kubectl :: "'w kubectl"
  mc_namespace :: string
  mc_now :: "'w \<Rightarrow> nat \<times> 'w"
  mc_wait :: "nat \<Rightarrow> ('w, js_error, unit) act"

definition newModelCleaner :: "'w kubectl \<Rightarrow> string \<Rightarrow> ('w \<Rightarrow> nat \<times> 'w) \<Rightarrow> (nat \<Rightarrow> ('w, js_error, unit) act) \<Rightarrow> js_error + 'w model_cleaner" where
  "newModelCleaner k namespace now wait =
     (if namespace = ''ai-system'' then Inr \<lparr>mc_kubectl = k, mc_namespace = namespace, mc_now = now, mc_wait = wait\<rparr>
      else Inl (hard R_CONFIG))"

text \<open>The review of the cleaner's permissions.\<close>

definition is_model_rule :: "jsval list \<Rightarrow> jsval list \<Rightarrow> bool" where
  "is_model_rule groups resources \<longleftrightarrow> groups = [JStr model_group] \<and> resources = [JStr ''modelactivations'']"

definition cleaner_rule :: "jsval \<Rightarrow> bool" where
  "cleaner_rule rule = (case (string_items (jget rule ''apiGroups''), string_items (jget rule ''resources''), string_items (jget rule ''verbs'')) of
     (Some groups, Some resources, Some verbs) \<Rightarrow>
       is_model_rule groups resources \<and> (\<forall>v \<in> set verbs. one_of [''get'', ''list'', ''delete''] (Some v)) \<or>
       is_self_review groups resources \<and> (\<forall>v \<in> set verbs. v = JStr ''create'')
   | _ \<Rightarrow> False)"

definition grants_delete :: "jsval \<Rightarrow> bool" where
  "grants_delete rule = (case (string_items (jget rule ''apiGroups''), string_items (jget rule ''resources''), string_items (jget rule ''verbs'')) of
     (Some groups, Some resources, Some verbs) \<Rightarrow> is_model_rule groups resources \<and> (\<exists>v \<in> set verbs. js_to_string v = ''delete'')
   | _ \<Rightarrow> False)"

definition verifyModelCleanerRules :: "jsval \<Rightarrow> bool" where
  "verifyModelCleanerRules review = (case jget review ''status'' of
     None \<Rightarrow> False
   | Some status \<Rightarrow> (case (jget status ''incomplete'', string_items (jget status ''resourceRules'')) of
         (Some (JBool False), Some rules) \<Rightarrow>
           (\<forall>r \<in> set rules. cleaner_rule r) \<and> (\<exists>r \<in> set rules. grants_delete r) \<and> get_only (jget status ''nonResourceRules'')
       | _ \<Rightarrow> False))"

text \<open>\<open>JSON.parse\<close> of a command's output.\<close>

definition command_json :: "'w kubectl \<Rightarrow> string list \<Rightarrow> string \<Rightarrow> ('w, js_error, jsval) act" where
  "command_json k args input = bnd (kc_command k args input) (\<lambda>out.
     case kc_parse k out of None \<Rightarrow> throw (Other ''SyntaxError'') | Some v \<Rightarrow> ret v)"

text \<open>\<open>data.clusters?.[0]?.cluster\<close>\<close>

definition first_item :: "jsval option \<Rightarrow> jsval option" where
  "first_item v = (case v of Some (JArr (x # _)) \<Rightarrow> Some x | Some (JObj ob) \<Rightarrow> oget ob ''0'' | _ \<Rightarrow> None)"

definition safe_context :: "jsval \<Rightarrow> bool" where
  "safe_context data \<longleftrightarrow>
     (let cluster = jpath (first_item (jget data ''clusters'')) ''cluster''; user = jpath (first_item (jget data ''users'')) ''user''
      in truthy_opt cluster \<and> startsWith (text_of (jpath cluster ''server'')) ''https://'' \<and>
         \<not> truthy_opt (jpath cluster ''insecure-skip-tls-verify'') \<and> truthy_opt user \<and>
         \<not> truthy_opt (jpath user ''exec'') \<and> \<not> truthy_opt (jpath user ''auth-provider''))"

definition rules_review :: "string \<Rightarrow> jsval" where
  "rules_review namespace = JObj [(''apiVersion'', JStr ''authorization.k8s.io/v1''), (''kind'', JStr ''SelfSubjectRulesReview''),
     (''spec'', JObj [(''namespace'', JStr namespace)])]"

definition verifyConfiguration :: "'w model_cleaner \<Rightarrow> ('w, js_error, string) act \<Rightarrow> ('w, js_error, unit) act" where
  "verifyConfiguration mc readKubeconfig = seq readKubeconfig
     (bnd (command_json (mc_kubectl mc) [''config'', ''view'', ''--raw'', ''--minify'', ''-o'', ''json''] []) (\<lambda>data.
        if data = JNull then throw (Other ''TypeError'') else
        seq (requireSafe (safe_context data) R_OBSERVER)
        (bnd (command_json (mc_kubectl mc) [''create'', ''--raw'', ''/apis/authorization.k8s.io/v1/selfsubjectrulesreviews'', ''-f'', ''-'']
              (stringify (rules_review (mc_namespace mc)))) (\<lambda>review.
          if review = JNull then throw (Other ''TypeError'') else requireSafe (verifyModelCleanerRules review) R_OBSERVER))))"

text \<open>\<open>find\<close>: the one activation with this name.\<close>

definition findModel :: "'w model_cleaner \<Rightarrow> string \<Rightarrow> ('w, js_error, jsval option) act" where
  "findModel mc name = seq (requireSafe (is_resource_name name) R_OWNERSHIP)
     (bnd (kubeList (mc_kubectl mc) model_resource (mc_namespace mc)) (\<lambda>items.
        if \<not> list_all has_metadata items then throw (Other ''TypeError'') else
        let matches = filter (\<lambda>item. meta item ''name'' = Some (JStr name)) items
        in seq (requireSafe (length matches \<le> 1) R_OWNERSHIP)
          (ret (case matches of [] \<Rightarrow> None | m # _ \<Rightarrow> Some m))))"

subsection \<open>Removal\<close>

definition managed_model :: "jsval \<Rightarrow> bool" where
  "managed_model item \<longleftrightarrow>
     jpath (meta item ''labels'') ''app.kubernetes.io/managed-by'' = Some (JStr ''ai-appliance-dashboard'') \<and>
     text_of (jpath (jget item ''spec'') ''type'') \<in> {''local'', ''external''} \<and>
     jpath (jget item ''spec'') ''targetNamespace'' = Some (JStr ''ai'')"

definition removal_allowed :: "string \<Rightarrow> jsval \<Rightarrow> string \<Rightarrow> string \<Rightarrow> int \<Rightarrow> bool" where
  "removal_allowed namespace item name uid gen \<longleftrightarrow>
     meta item ''uid'' = Some (JStr uid) \<and> meta item ''generation'' = Some (JInt gen) \<and>
     meta item ''name'' = Some (JStr name) \<and> meta item ''namespace'' = Some (JStr namespace) \<and>
     truthy_opt (meta item ''resourceVersion'') \<and> managed_model item"

definition null_unless :: "'a option \<Rightarrow> ('a \<Rightarrow> bool) \<Rightarrow> jsval" where
  "null_unless x f = (case x of None \<Rightarrow> JNull | Some v \<Rightarrow> JBool (f v))"

definition is_deleting :: "jsval option \<Rightarrow> bool" where
  "is_deleting item \<longleftrightarrow> truthy_opt (Option.bind item (\<lambda>c. meta c ''deletionTimestamp''))"

definition request_note :: "string \<Rightarrow> nat \<Rightarrow> bool \<Rightarrow> jsval obj" where
  "request_note state attempt sent = stage_note ''remove'' state @
     [(''method'', JStr ''DELETE''), (''endpoint'', JStr ''model-activation''), (''attempt'', JInt (int attempt)),
      (''requestAttempted'', JBool sent)]"

definition same_intent :: "jsval option \<Rightarrow> jsval \<Rightarrow> bool" where
  "same_intent spec intent = (case spec of None \<Rightarrow> False | Some s \<Rightarrow> deep_equal s intent)"

definition remove_note :: "nat \<Rightarrow> jsval option \<Rightarrow> string \<Rightarrow> int \<Rightarrow> jsval option \<Rightarrow> jsval option \<Rightarrow> jsval obj" where
  "remove_note attempt current uid gen intent previous =
     request_note ''running'' attempt False @
     [(''exists'', JBool (current \<noteq> None)),
      (''uidMatches'', null_unless current (\<lambda>c. meta c ''uid'' = Some (JStr uid))),
      (''generationMatches'', null_unless current (\<lambda>c. meta c ''generation'' = Some (JInt gen))),
      (''intentMatches'', case intent of None \<Rightarrow> JNull | Some i \<Rightarrow> null_unless current (\<lambda>c. same_intent (jget c ''spec'') i)),
      (''deleting'', JBool (is_deleting current)), (''expectedGeneration'', JInt gen)] @
     field ''observedGeneration'' (Option.bind current (\<lambda>c. meta c ''generation'')) @
     (case previous of None \<Rightarrow> []
      | Some rv \<Rightarrow> [(''resourceVersionChanged'',
          null_unless current (\<lambda>c. \<not> (\<exists>v \<in> set_option (meta c ''resourceVersion''). strict_eq v rv)))])"

definition delete_arguments :: "string \<Rightarrow> string \<Rightarrow> string list" where
  "delete_arguments namespace name = [''delete'', ''--raw'',
     ''/apis/'' @ model_group @ ''/v1alpha1/namespaces/'' @ namespace @ ''/modelactivations/'' @ name, ''-f'', ''-'']"

definition delete_options :: "string \<Rightarrow> jsval \<Rightarrow> jsval" where
  "delete_options uid rv = JObj [(''apiVersion'', JStr ''v1''), (''kind'', JStr ''DeleteOptions''),
     (''preconditions'', JObj [(''uid'', JStr uid), (''resourceVersion'', rv)])]"

text \<open>The outcome of one attempt that did not throw: the end, or another attempt with the intent and the revision seen.\<close>

datatype attempt_result = Finished | Retry jsval jsval

definition command_diagnostic :: "js_error \<Rightarrow> jsval obj" where
  "command_diagnostic err = (if is_command_error err then error_command err
     else [(''commandFailure'', JStr ''unknown''), (''httpStatus'', JNull)])"

definition is_conflict :: "jsval obj \<Rightarrow> bool" where
  "is_conflict d \<longleftrightarrow> oget d ''commandFailure'' = Some (JStr ''api'') \<and> oget d ''httpStatus'' = Some (JInt 409) \<and>
     oget d ''kubernetesReason'' = Some (JStr ''Conflict'') \<and> oget d ''exitCode'' = Some (JInt 1)"

definition removal_reason :: "js_error \<Rightarrow> ReasonCode" where
  "removal_reason err = (let d = command_diagnostic err in
     if is_conflict d then R_CONFLICT
     else if oget d ''httpStatus'' = Some (JInt 401) \<or> oget d ''httpStatus'' = Some (JInt 403) then R_AUTH
     else error_reason err)"

definition error_code :: "js_error \<Rightarrow> ReasonCode" where
  "error_code err = (case err of Harness e \<Rightarrow> he_code e | Other _ \<Rightarrow> R_UNEXPECTED)"

definition removal_failed :: "(jsval obj \<Rightarrow> ('w, unit) journal_act) \<Rightarrow> nat \<Rightarrow> jsval \<Rightarrow> jsval \<Rightarrow> js_error \<Rightarrow> ('w, attempt_result) journal_act" where
  "removal_failed observe attempt intent rv err =
     (let d = command_diagnostic err; retrying = is_conflict d \<and> attempt < 3; reason = removal_reason err
      in seq (observe (oassign (request_note ''failed'' attempt True @
              [(''retrying'', JBool retrying), (''reason'', JStr (reason_name reason)), (''stage'', JStr (stage_name S_cleanup))]) d))
         (if retrying then ret (Retry intent rv)
          else throw (Harness (mkHarnessError R_CLEANUP (Some Failed) (Some S_cleanup) (Some (reason, Some S_cleanup))))))"

definition sendDelete :: "'w model_cleaner \<Rightarrow> string \<Rightarrow> string \<Rightarrow> (jsval obj \<Rightarrow> ('w, unit) journal_act) \<Rightarrow> nat \<Rightarrow>
    jsval \<Rightarrow> jsval \<Rightarrow> ('w, attempt_result) journal_act" where
  "sendDelete mc name uid observe attempt intent rv =
     catch (seq (jr_world (kc_command (mc_kubectl mc) (delete_arguments (mc_namespace mc) name) (stringify (delete_options uid rv))))
             (seq (observe (request_note ''passed'' attempt True)) (ret Finished)))
       (removal_failed observe attempt intent rv)"

definition lastCheck :: "('w, js_error, unit) act \<Rightarrow> (jsval obj \<Rightarrow> ('w, unit) journal_act) \<Rightarrow> nat \<Rightarrow> ('w, unit) journal_act" where
  "lastCheck heartbeat observe attempt = catch (jr_world heartbeat) (\<lambda>err.
     seq (observe (stage_note ''remove'' ''failed'' @ [(''attempt'', JInt (int attempt)), (''requestAttempted'', JBool False),
            (''reason'', JStr (reason_name (error_code err))), (''stage'', JStr (stage_name S_cleanup))]))
       (throw err))"

definition removeAttempt :: "'w model_cleaner \<Rightarrow> string \<Rightarrow> string \<Rightarrow> int \<Rightarrow> (jsval obj \<Rightarrow> ('w, unit) journal_act) \<Rightarrow>
    ('w, js_error, unit) act \<Rightarrow> nat \<Rightarrow> jsval option \<Rightarrow> jsval option \<Rightarrow> ('w, attempt_result) journal_act" where
  "removeAttempt mc name uid gen observe heartbeat attempt intent previous =
     seq (jr_world heartbeat)
     (bnd (jr_world (findModel mc name)) (\<lambda>current.
      seq (observe (remove_note attempt current uid gen intent previous))
      (case current of
         None \<Rightarrow> ret Finished
       | Some c \<Rightarrow>
           seq (requireSafe (removal_allowed (mc_namespace mc) c name uid gen) R_OWNERSHIP)
           (seq (requireSafe (case intent of None \<Rightarrow> True | Some i \<Rightarrow> same_intent (jget c ''spec'') i) R_OWNERSHIP)
           (if is_deleting current then ret Finished
            else (case (jget c ''spec'', meta c ''resourceVersion'') of
               (Some spec, Some rv) \<Rightarrow>
                 seq (requireSafe (case previous of None \<Rightarrow> True | Some p \<Rightarrow> \<not> strict_eq rv p) R_CONFLICT)
                 (seq (jr_world heartbeat)
                 (seq (observe (request_note ''running'' attempt True))
                 (seq (lastCheck heartbeat observe attempt)
                   (sendDelete mc name uid observe attempt (case intent of None \<Rightarrow> spec | Some i \<Rightarrow> i) rv))))
             | _ \<Rightarrow> throw (hard R_OWNERSHIP)))))))"

text \<open>The loop over the attempts 1 to 3.\<close>

fun removeAttempts :: "'w model_cleaner \<Rightarrow> string \<Rightarrow> string \<Rightarrow> int \<Rightarrow> (jsval obj \<Rightarrow> ('w, unit) journal_act) \<Rightarrow>
    ('w, js_error, unit) act \<Rightarrow> nat list \<Rightarrow> jsval option \<Rightarrow> jsval option \<Rightarrow> ('w, unit) journal_act" where
  "removeAttempts mc name uid gen observe heartbeat [] intent previous = ret ()"
| "removeAttempts mc name uid gen observe heartbeat (attempt # rest) intent previous =
     bnd (removeAttempt mc name uid gen observe heartbeat attempt intent previous) (\<lambda>r. case r of
       Finished \<Rightarrow> ret ()
     | Retry i rv \<Rightarrow> removeAttempts mc name uid gen observe heartbeat rest (Some i) (Some rv))"

definition removeModel :: "'w model_cleaner \<Rightarrow> string \<Rightarrow> string \<Rightarrow> int \<Rightarrow> (jsval obj \<Rightarrow> ('w, unit) journal_act) \<Rightarrow>
    ('w, js_error, unit) act \<Rightarrow> ('w, unit) journal_act" where
  "removeModel mc name uid gen observe heartbeat =
     removeAttempts mc name uid gen observe heartbeat [1, 2, 3] None None"

subsection \<open>The adapter\<close>

definition valid_model_entry :: "string \<Rightarrow> JournalEntry \<Rightarrow> bool" where
  "valid_model_entry pre e \<longleftrightarrow> je_kind e = K_model \<and> startsWith (je_name e) pre \<and> entry_uid e \<noteq> [] \<and>
     (\<exists>g \<in> set_option (je_generation e). is_positive_safe g)"

definition observed_note :: "string \<Rightarrow> JournalEntry \<Rightarrow> jsval option \<Rightarrow> jsval obj" where
  "observed_note operation e item = stage_note operation ''running'' @
     [(''exists'', JBool (item \<noteq> None)),
      (''uidMatches'', null_unless item (\<lambda>c. meta c ''uid'' = Some (case je_uid e of None \<Rightarrow> JNull | Some u \<Rightarrow> JStr u))),
      (''generationMatches'', null_unless item (\<lambda>c. meta c ''generation'' = map_option JInt (je_generation e))),
      (''deleting'', JBool (is_deleting item))] @
     field ''expectedGeneration'' (map_option JInt (je_generation e)) @
     field ''observedGeneration'' (Option.bind item (\<lambda>c. meta c ''generation''))"

definition lookupModel :: "'w model_cleaner \<Rightarrow> string \<Rightarrow> ('w, js_error, unit) act \<Rightarrow> JournalEntry \<Rightarrow>
    (jsval obj \<Rightarrow> ('w, unit) journal_act) \<Rightarrow> ('w, found option) journal_act" where
  "lookupModel mc pre heartbeat e observe =
     seq (jr_world heartbeat)
     (seq (requireSafe (valid_model_entry pre e) R_OWNERSHIP)
     (bnd (jr_world (findModel mc (je_name e))) (\<lambda>item.
      seq (observe (observed_note ''lookup'' e item))
      (case item of
         None \<Rightarrow> ret None
       | Some c \<Rightarrow>
           seq (requireSafe (meta c ''generation'' = map_option JInt (je_generation e) \<and> managed_model c) R_OWNERSHIP)
           (ret (case meta c ''uid'' of
               None \<Rightarrow> None
             | Some u \<Rightarrow> if truthy u then Some \<lparr>fo_uid = u, fo_generation = je_generation e, fo_deleting = Some (is_deleting item)\<rparr>
                 else None))))))"

definition removeIfUid :: "'w model_cleaner \<Rightarrow> string \<Rightarrow> ('w, js_error, unit) act \<Rightarrow> JournalEntry \<Rightarrow> string \<Rightarrow>
    (jsval obj \<Rightarrow> ('w, unit) journal_act) \<Rightarrow> ('w, unit) journal_act" where
  "removeIfUid mc pre heartbeat e uid observe =
     seq (requireSafe (valid_model_entry pre e) R_OWNERSHIP)
     (seq (requireSafe (je_uid e = Some uid) R_OWNERSHIP)
     (case je_generation e of
        None \<Rightarrow> throw (hard R_OWNERSHIP)
      | Some g \<Rightarrow> removeModel mc (je_name e) uid g observe heartbeat))"

text \<open>
  One read of the verification: \<open>find\<close> and \<open>readRemaining\<close> are started together and both end before the
  next read; the error of \<open>find\<close> is the one reported when both fail.
\<close>

definition readState :: "'w model_cleaner \<Rightarrow> (string \<Rightarrow> ('w, js_error, int \<times> int) act) \<Rightarrow> string \<Rightarrow> ('w, js_error, jsval option \<times> int \<times> int) act" where
  "readState mc readRemaining name = (\<lambda>w. case findModel mc name w of (r1, w1) \<Rightarrow> (case readRemaining name w1 of (r2, w2) \<Rightarrow>
     (case r1 of Inl e \<Rightarrow> (Inl e, w2) | Inr item \<Rightarrow> (case r2 of Inl e \<Rightarrow> (Inl e, w2) | Inr c \<Rightarrow> (Inr (item, c), w2)))))"

definition observeRemoval :: "'w model_cleaner \<Rightarrow> (string \<Rightarrow> ('w, js_error, int \<times> int) act) \<Rightarrow> ('w, js_error, unit) act \<Rightarrow> nat \<Rightarrow> JournalEntry \<Rightarrow>
    (jsval obj \<Rightarrow> ('w, unit) journal_act) \<Rightarrow> ('w, jsval option \<times> int \<times> int) journal_act" where
  "observeRemoval mc readRemaining heartbeat timeoutMs e observe =
     seq (jr_world heartbeat)
     (bnd (catch (jr_world (readState mc readRemaining (je_name e))) (\<lambda>err.
         seq (observe (stage_note ''verify'' ''failed'' @
               [(''exists'', JNull), (''uidMatches'', JNull), (''generationMatches'', JNull), (''podCount'', JNull), (''catalogCount'', JNull),
                (''reason'', JStr (reason_name (error_code err))), (''stage'', JStr (stage_name S_cleanup)), (''timeoutMs'', JInt (int timeoutMs))]))
           (throw err))) (\<lambda>r.
      seq (observe (observed_note ''verify'' e (fst r) @
            [(''podCount'', JInt (fst (snd r))), (''catalogCount'', JInt (snd (snd r))), (''timeoutMs'', JInt (int timeoutMs))]))
        (ret r)))"

definition journal_poll_env :: "'w model_cleaner \<Rightarrow> (ResourceJournal \<times> 'w) poll_env" where
  "journal_poll_env mc = \<lparr>pe_now = (\<lambda>(j, w). case mc_now mc w of (t, w') \<Rightarrow> (t, (j, w'))),
     pe_wait = (\<lambda>n. jr_world (mc_wait mc n)), pe_check = ret ()\<rparr>"

definition nothing_left :: "jsval option \<times> int \<times> int \<Rightarrow> bool" where
  "nothing_left r \<longleftrightarrow> fst r = None \<and> fst (snd r) = 0 \<and> snd (snd r) = 0"

definition verifyRemoved :: "'w model_cleaner \<Rightarrow> string \<Rightarrow> (string \<Rightarrow> ('w, js_error, int \<times> int) act) \<Rightarrow> ('w, js_error, unit) act \<Rightarrow> nat \<Rightarrow> nat \<Rightarrow>
    JournalEntry \<Rightarrow> (jsval obj \<Rightarrow> ('w, unit) journal_act) \<Rightarrow> ('w, bool) journal_act" where
  "verifyRemoved mc pre readRemaining heartbeat timeoutMs intervalMs e observe =
     seq (requireSafe (if je_uid e = None then je_kind e = K_model \<and> startsWith (je_name e) pre \<and> je_state e = E_removed
          else valid_model_entry pre e) R_OWNERSHIP)
     (seq (poll_act (journal_poll_env mc) (observeRemoval mc readRemaining heartbeat timeoutMs e observe) nothing_left
          timeoutMs intervalMs (Some S_cleanup))
       (ret True))"

definition modelAdapter :: "'w model_cleaner \<Rightarrow> string \<Rightarrow> (string \<Rightarrow> ('w, js_error, int \<times> int) act) \<Rightarrow> ('w, js_error, unit) act \<Rightarrow>
    int option \<Rightarrow> nat option \<Rightarrow> js_error + 'w cleanup_adapter" where
  "modelAdapter mc pre readRemaining heartbeat timeoutMs intervalMs =
     (let timeout = (case timeoutMs of None \<Rightarrow> 300000 | Some t \<Rightarrow> t); interval = (case intervalMs of None \<Rightarrow> 1000 | Some i \<Rightarrow> i)
      in if 0 < timeout \<and> timeout \<le> 300000
         then Inr \<lparr>ca_lookup = lookupModel mc pre heartbeat, ca_removeIfUid = removeIfUid mc pre heartbeat,
                ca_verifyRemoved = verifyRemoved mc pre readRemaining heartbeat (nat timeout) interval\<rparr>
         else Inl (hard R_CONFIG))"

text \<open>The adapters of a run that owns models only.\<close>

definition model_adapters :: "'w model_cleaner \<Rightarrow> string \<Rightarrow> (string \<Rightarrow> ('w, js_error, int \<times> int) act) \<Rightarrow> ('w, js_error, unit) act \<Rightarrow>
    int option \<Rightarrow> nat option \<Rightarrow> ResourceKind \<Rightarrow> 'w cleanup_adapter option" where
  "model_adapters mc pre readRemaining heartbeat timeoutMs intervalMs kind =
     (case kind of
        K_model \<Rightarrow> (case modelAdapter mc pre readRemaining heartbeat timeoutMs intervalMs of Inl _ \<Rightarrow> None | Inr a \<Rightarrow> Some a)
      | _ \<Rightarrow> None)"

subsection \<open>What the cleaner keeps\<close>

definition cleaner_keeps :: "(ResourceJournal \<times> 'w \<Rightarrow> bool) \<Rightarrow> 'w model_cleaner \<Rightarrow> (string \<Rightarrow> ('w, js_error, int \<times> int) act) \<Rightarrow>
    ('w, js_error, unit) act \<Rightarrow> bool" where
  "cleaner_keeps I mc readRemaining heartbeat \<longleftrightarrow> (\<forall>j. keeps (\<lambda>w. I (j, w)) heartbeat \<and>
     (\<forall>r ns n. keeps (\<lambda>w. I (j, w)) (kc_command (mc_kubectl mc) (get_arguments r ns n) [])) \<and>
     (\<forall>w. I (j, w) \<longrightarrow> I (j, snd (mc_now mc w))) \<and> (\<forall>n. keeps (\<lambda>w. I (j, w)) (mc_wait mc n)) \<and>
     (\<forall>n. keeps (\<lambda>w. I (j, w)) (readRemaining n)))"

lemma keeps_jr_world: "(\<And>j. keeps (\<lambda>w. I (j, w)) m) \<Longrightarrow> keeps I (jr_world m)"
  by (auto simp: keeps_def split: prod.split) (metis snd_conv)

lemma keeps_iff_triple: "keeps I m \<longleftrightarrow> triple I m (\<lambda>_. I) (\<lambda>_. I)"
  by (auto simp: keeps_def triple_def split: prod.splits sum.splits) (metis obj_sumE snd_conv surj_pair)+

lemma cleaner_keeps_heartbeat: "cleaner_keeps I mc rr hb \<Longrightarrow> keeps I (jr_world hb)"
  by (auto simp: cleaner_keeps_def intro!: keeps_jr_world)

lemma cleaner_keeps_find:
  assumes "cleaner_keeps I mc rr hb"
  shows "keeps I (jr_world (findModel mc name))"
proof (rule keeps_jr_world)
  fix j
  have "keeps (\<lambda>w. I (j, w)) (kc_command (mc_kubectl mc) (get_arguments r ns n) [])" for r ns n
    using assms by (simp add: cleaner_keeps_def)
  then show "keeps (\<lambda>w. I (j, w)) (findModel mc name)" unfolding findModel_def Let_def by (intro keeps_intros)
qed

lemma keeps_lookupModel:
  assumes "cleaner_keeps I mc rr hb" and "\<And>v. keeps I (observe v)"
  shows "keeps I (lookupModel mc pre hb e observe)"
  unfolding lookupModel_def
  by (intro keeps_intros cleaner_keeps_heartbeat [OF assms(1)] cleaner_keeps_find [OF assms(1)] assms(2))

lemma cleaner_keeps_readState:
  assumes "cleaner_keeps I mc rr hb"
  shows "keeps I (jr_world (readState mc rr name))"
proof (rule keeps_jr_world)
  fix j
  have f: "keeps (\<lambda>w. I (j, w)) (findModel mc name)"
    using cleaner_keeps_find [OF assms, of name] by (auto simp: keeps_def split: prod.splits) (metis snd_conv surj_pair)
  have r: "keeps (\<lambda>w. I (j, w)) (rr name)" using assms by (simp add: cleaner_keeps_def)
  show "keeps (\<lambda>w. I (j, w)) (readState mc rr name)"
    unfolding keeps_def
  proof (intro allI impI)
    fix w assume "I (j, w)"
    then have "I (j, snd (findModel mc name w))" by (rule keepsD [OF f])
    then have "I (j, snd (rr name (snd (findModel mc name w))))" by (rule keepsD [OF r])
    then show "I (j, snd (readState mc rr name w))" by (auto simp: readState_def split: prod.splits sum.splits)
  qed
qed

lemma keeps_verifyRemoved:
  assumes C: "cleaner_keeps I mc rr hb" and "\<And>v. keeps I (observe v)"
  shows "keeps I (verifyRemoved mc pre rr hb timeout interval e observe)"
proof -
  have "keeps I (observeRemoval mc rr hb timeout e observe)"
    unfolding observeRemoval_def
    by (intro keeps_intros cleaner_keeps_heartbeat [OF C] cleaner_keeps_readState [OF C] assms(2))
  moreover have "I s \<Longrightarrow> I (snd (pe_now (journal_poll_env mc) s))" for s
    using C by (cases s) (auto simp: journal_poll_env_def cleaner_keeps_def split: prod.splits, metis snd_conv)
  moreover have "keeps I (pe_wait (journal_poll_env mc) n)" for n
    using C by (auto simp: journal_poll_env_def cleaner_keeps_def intro!: keeps_jr_world)
  moreover have "keeps I (pe_check (journal_poll_env mc))" by (simp add: journal_poll_env_def keeps_basic)
  ultimately show ?thesis unfolding verifyRemoved_def by (intro keeps_intros keeps_poll_act)
qed

text \<open>
  Removal. \<open>C\<close> is what a successful heartbeat establishes; a \<open>DELETE\<close> is sent from a state with \<open>C\<close>.
\<close>

lemma keeps_removeModel:
  assumes K: "cleaner_keeps I mc rr hb" and obs: "\<And>v. keeps I (observe v)"
    and chk: "triple I (jr_world hb) (\<lambda>_. C) (\<lambda>_. I)"
    and del: "\<And>rv. triple C (jr_world (kc_command (mc_kubectl mc) (delete_arguments (mc_namespace mc) name) (stringify (delete_options uid rv))))
      (\<lambda>_. I) (\<lambda>_. I)"
  shows "keeps I (removeModel mc name uid gen observe hb)"
proof -
  have fail: "keeps I (removal_failed observe attempt i rv err)" for attempt i rv err
    unfolding removal_failed_def Let_def by (intro keeps_intros obs)
  have send: "triple C (sendDelete mc name uid observe attempt i rv) (\<lambda>_. I) (\<lambda>_. I)" for attempt i rv
    unfolding sendDelete_def
    by (intro triple_catch [where R = "\<lambda>_. I"] triple_seq [OF _ del] triple_seq [where R = I])
      (use fail obs keeps_basic in \<open>auto simp: keeps_iff_triple\<close>)
  have last: "triple I (lastCheck hb observe attempt) (\<lambda>_. C) (\<lambda>_. I)" for attempt
    unfolding lastCheck_def
    by (intro triple_catch [OF _ chk] triple_seq [where R = I]) (use obs in \<open>auto simp: keeps_iff_triple triple_def throw_def\<close>)
  have both: "keeps I (seq (lastCheck hb observe attempt) (sendDelete mc name uid observe attempt i rv))" for attempt i rv
    unfolding keeps_iff_triple by (rule triple_seq [OF send last])
  have tail: "keeps I (seq (requireSafe c R_CONFLICT) (seq (jr_world hb) (seq (observe v)
      (seq (lastCheck hb observe attempt) (sendDelete mc name uid observe attempt i rv)))))" for c v attempt i rv
    by (intro keeps_seq [OF keeps_requireSafe] keeps_seq [OF cleaner_keeps_heartbeat [OF K]] keeps_seq [OF obs] both)
  have att: "keeps I (removeAttempt mc name uid gen observe hb attempt intent previous)" for attempt intent previous
    unfolding removeAttempt_def
    by (intro keeps_seq [OF cleaner_keeps_heartbeat [OF K]] keeps_bnd [OF cleaner_keeps_find [OF K]] keeps_seq [OF obs]
        keeps_option keeps_basic keeps_seq [OF keeps_requireSafe] keeps_if) (auto split: option.split intro!: tail keeps_basic)
  have "keeps I (removeAttempts mc name uid gen observe hb as intent previous)" for "as" intent previous
    by (induction "as" arbitrary: intent previous) (auto split: attempt_result.split intro!: keeps_intros att)
  then show ?thesis unfolding removeModel_def .
qed

subsection \<open>Interfaces of the journal\<close>

lemma cleaner_quiet: "cleaner_keeps (same_data d) mc rr hb"
  by (auto simp: cleaner_keeps_def same_data_def keeps_def)

lemma model_adapters_cases:
  assumes "model_adapters mc pre rr hb timeout interval k = Some a"
  obtains t i where "ca_lookup a = lookupModel mc pre hb" "ca_removeIfUid a = removeIfUid mc pre hb" "ca_verifyRemoved a = verifyRemoved mc pre rr hb t i"
  using assms by (auto simp: model_adapters_def modelAdapter_def Let_def split: ResourceKind.splits if_splits)

lemma keeps_removeIfUid:
  assumes "\<And>g. keeps I (removeModel mc (je_name e) u g observe hb)"
  shows "keeps I (removeIfUid mc pre hb e u observe)"
  unfolding removeIfUid_def by (intro keeps_intros assms)

lemma quiet_keeps: "quiet m \<Longrightarrow> keeps (same_data d) m"
  by (simp add: quiet_def)

interpretation models: quiet_adapters "model_adapters mc pre rr hb timeout interval" "jr_world hb"
proof
  show "quiet (jr_world hb)" by (rule quietI) (auto split: prod.split)
next
  fix k a e and observe :: "jsval obj \<Rightarrow> ('a, unit) journal_act"
  assume a: "model_adapters mc pre rr hb timeout interval k = Some a" and obs: "quiet (observe v)" for v
  from a obtain t i where ca: "ca_lookup a = lookupModel mc pre hb" "ca_removeIfUid a = removeIfUid mc pre hb"
    "ca_verifyRemoved a = verifyRemoved mc pre rr hb t i" by (rule model_adapters_cases)
  note q = cleaner_quiet [of _ mc rr hb] and o = quiet_keeps [OF obs]
  have w: "triple (same_data d) (jr_world m) (\<lambda>_. same_data d) (\<lambda>_. same_data d)" for d and m :: "('a, js_error, 'b) act"
    unfolding keeps_iff_triple [symmetric] by (auto simp: keeps_def same_data_def split: prod.split)
  show "quiet (ca_lookup a e observe)" unfolding ca quiet_def by (intro allI keeps_lookupModel [OF q o])
  show "quiet (ca_verifyRemoved a e observe)" unfolding ca quiet_def by (intro allI keeps_verifyRemoved [OF q o])
  show "quiet (ca_removeIfUid a e u observe)" for u
    unfolding ca quiet_def by (intro allI keeps_removeIfUid keeps_removeModel [OF q o w w])
qed

subsection \<open>A log of lease checks and requests\<close>

text \<open>
  The same cleaner over a world that also carries a log, newest event first. Every command that is run
  and every successful heartbeat is logged; nothing else is changed.
\<close>

datatype wire_event = Checked | Sent "string list" string

type_synonym 'v logged = "wire_event list \<times> 'v"

definition on_log :: "('v, 'e, 'a) act \<Rightarrow> ('v logged, 'e, 'a) act" where
  "on_log m = (\<lambda>(l, v). case m v of (r, v') \<Rightarrow> (r, (l, v')))"

definition logged_check :: "('v, js_error, unit) act \<Rightarrow> ('v logged, js_error, unit) act" where
  "logged_check m = (\<lambda>(l, v). case m v of (Inl e, v') \<Rightarrow> (Inl e, (l, v')) | (Inr x, v') \<Rightarrow> (Inr x, (Checked # l, v')))"

definition logged_cleaner :: "'v model_cleaner \<Rightarrow> 'v logged model_cleaner" where
  "logged_cleaner mc = \<lparr>mc_kubectl = \<lparr>kc_command = (\<lambda>args input (l, v). case kc_command (mc_kubectl mc) args input v of
         (r, v') \<Rightarrow> (r, (Sent args input # l, v'))), kc_parse = kc_parse (mc_kubectl mc)\<rparr>,
     mc_namespace = mc_namespace mc, mc_now = (\<lambda>(l, v). case mc_now mc v of (t, v') \<Rightarrow> (t, (l, v'))),
     mc_wait = (\<lambda>n. on_log (mc_wait mc n))\<rparr>"

definition logged_env :: "'v journal_env \<Rightarrow> 'v logged journal_env" where
  "logged_env env = \<lparr>jv_write = (\<lambda>p v b. on_log (jv_write env p v b)), jv_readJson = (\<lambda>p. on_log (jv_readJson env p)),
     jv_diag = \<lparr>de_now = (\<lambda>(l, v). case de_now (jv_diag env) v of (t, v') \<Rightarrow> (t, (l, v'))),
       de_isFile = (\<lambda>p. on_log (de_isFile (jv_diag env) p)), de_readJson = (\<lambda>p. on_log (de_readJson (jv_diag env) p)),
       de_write = (\<lambda>p v. on_log (de_write (jv_diag env) p v)), de_sha256 = de_sha256 (jv_diag env)\<rparr>\<rparr>"

text \<open>
  Every \<open>kubectl delete\<close> in the log is the raw deletion of a model of the journal, with the recorded UID and
  a resource version as preconditions, and the event before it is a successful lease check.
\<close>

fun deletes_guarded :: "string \<Rightarrow> ((ResourceKind \<times> string) \<times> string option) set \<Rightarrow> wire_event list \<Rightarrow> bool" where
  "deletes_guarded ns K [] = True"
| "deletes_guarded ns K (Checked # log) = deletes_guarded ns K log"
| "deletes_guarded ns K (Sent args input # log) = (deletes_guarded ns K log \<and>
     (hd args = ''delete'' \<longrightarrow> (\<exists>name uid rv log'. ((K_model, name), Some uid) \<in> K \<and> args = delete_arguments ns name \<and>
        input = stringify (delete_options uid rv) \<and> log = Checked # log')))"

lemma snd_on_log: "fst (snd (on_log m w)) = fst w"
  by (cases w) (simp add: on_log_def split: prod.split)

lemma log_keeps: "keeps (\<lambda>w. P (fst w)) (on_log m)"
  by (simp add: keeps_def snd_on_log)

lemma logged_cleaner_keeps:
  "cleaner_keeps (on_world (\<lambda>w. deletes_guarded ns K (fst w))) (logged_cleaner mc) (\<lambda>n. on_log (rr n)) (logged_check hb)"
  by (auto simp: cleaner_keeps_def on_world_def logged_cleaner_def log_keeps keeps_def logged_check_def get_arguments_def snd_on_log
      split: prod.splits sum.splits)

lemma logged_check_triple:
  "triple (on_world (\<lambda>w. deletes_guarded ns K (fst w))) (jr_world (logged_check hb))
     (\<lambda>_. on_world (\<lambda>w. deletes_guarded ns K (fst w) \<and> (\<exists>l. fst w = Checked # l))) (\<lambda>_. on_world (\<lambda>w. deletes_guarded ns K (fst w)))"
  by (auto simp: triple_def on_world_def logged_check_def split: prod.splits sum.splits)

lemma logged_delete_triple:
  assumes "((K_model, name), Some uid) \<in> K"
  shows "triple (on_world (\<lambda>w. deletes_guarded (mc_namespace mc) K (fst w) \<and> (\<exists>l. fst w = Checked # l)))
     (jr_world (kc_command (mc_kubectl (logged_cleaner mc)) (delete_arguments (mc_namespace (logged_cleaner mc)) name) (stringify (delete_options uid rv))))
     (\<lambda>_. on_world (\<lambda>w. deletes_guarded (mc_namespace mc) K (fst w))) (\<lambda>_. on_world (\<lambda>w. deletes_guarded (mc_namespace mc) K (fst w)))"
  using assms by (auto simp: triple_def on_world_def logged_cleaner_def split: prod.splits sum.splits)

lemma logged_files: "files_keep (\<lambda>w. P (fst w)) (logged_env env)"
  by (auto simp: files_keep_def logged_env_def snd_on_log split: prod.splits)

lemma keeps_logged_removeIfUid:
  assumes K: "claim_of e \<in> K" and obs: "\<And>v. keeps (on_world (\<lambda>w. deletes_guarded (mc_namespace mc) K (fst w))) (observe v)"
  shows "keeps (on_world (\<lambda>w. deletes_guarded (mc_namespace mc) K (fst w)))
    (removeIfUid (logged_cleaner mc) pre (logged_check hb) e u observe)"
proof (cases "je_kind e = K_model \<and> je_uid e = Some u")
  case True
  then have "((K_model, je_name e), Some u) \<in> K" using K by (simp add: claim_of_def entry_key_def)
  then show ?thesis
    by (intro keeps_removeIfUid keeps_removeModel [OF logged_cleaner_keeps obs logged_check_triple logged_delete_triple])
next
  case False
  show ?thesis
  proof (cases "valid_model_entry pre e")
    case True
    with False have "je_uid e \<noteq> Some u" by (simp add: valid_model_entry_def)
    then show ?thesis by (auto simp: removeIfUid_def keeps_def seq_def bnd_def)
  qed (auto simp: removeIfUid_def keeps_def seq_def bnd_def)
qed

interpretation logged: guarded_cleanup "model_adapters (logged_cleaner mc) pre (\<lambda>n. on_log (rr n)) (logged_check hb) timeout interval"
    "jr_world (logged_check hb)" "logged_env env"
    "\<lambda>w. deletes_guarded (mc_namespace mc) K (fst w)" "\<lambda>w. deletes_guarded (mc_namespace mc) K (fst w)" K
  for mc :: "'v model_cleaner" and pre rr hb timeout interval env K
proof
  let ?I = "\<lambda>w :: 'v logged. deletes_guarded (mc_namespace mc) K (fst w)"
  show "files_keep ?I (logged_env env)" by (rule logged_files)
  show "triple (on_world ?I) (jr_world (logged_check hb)) (\<lambda>_. on_world ?I) (\<lambda>_. on_world ?I)"
    by (rule triple_weaken [OF logged_check_triple]) (auto simp: on_world_def)
  fix k a e and observe :: "jsval obj \<Rightarrow> ('v logged, unit) journal_act"
  assume a: "model_adapters (logged_cleaner mc) pre (\<lambda>n. on_log (rr n)) (logged_check hb) timeout interval k = Some a"
    and obs: "keeps (on_world ?I) (observe v)" for v
  from a obtain t i where ca: "ca_lookup a = lookupModel (logged_cleaner mc) pre (logged_check hb)"
    "ca_removeIfUid a = removeIfUid (logged_cleaner mc) pre (logged_check hb)"
    "ca_verifyRemoved a = verifyRemoved (logged_cleaner mc) pre (\<lambda>n. on_log (rr n)) (logged_check hb) t i" by (rule model_adapters_cases)
  show "keeps (on_world ?I) (ca_lookup a e observe)" unfolding ca by (rule keeps_lookupModel [OF logged_cleaner_keeps obs])
  show "keeps (on_world ?I) (ca_verifyRemoved a e observe)" unfolding ca by (rule keeps_verifyRemoved [OF logged_cleaner_keeps obs])
  show "leads (on_world ?I) (ca_removeIfUid a e u observe) (on_world ?I)" if "claim_of e \<in> K" for u
    unfolding ca using keeps_logged_removeIfUid [OF that obs] by (rule leads_of_keeps)
qed

subsection \<open>The number of requests\<close>

fun is_delete :: "wire_event \<Rightarrow> bool" where
  "is_delete Checked = False"
| "is_delete (Sent args input) = (hd args = ''delete'')"

abbreviation sent_at_most :: "nat \<Rightarrow> ResourceJournal \<times> 'v logged \<Rightarrow> bool" where
  "sent_at_most n \<equiv> on_world (\<lambda>w. length (filter is_delete (fst w)) \<le> n)"

lemma leads_then: "leads P m Q \<Longrightarrow> keeps Q n \<Longrightarrow> leads P (seq m n) Q"
  unfolding leads_def keeps_def seq_def bnd_def by (fastforce split: prod.splits sum.splits)

lemma leads_catch: "leads P m Q \<Longrightarrow> (\<And>e. keeps Q (h e)) \<Longrightarrow> leads P (catch m h) Q"
  unfolding leads_def keeps_def catch_def by (fastforce split: prod.splits sum.splits)

lemma counted_keeps: "cleaner_keeps (sent_at_most n) (logged_cleaner mc) (\<lambda>n. on_log (rr n)) (logged_check hb)"
  by (auto simp: cleaner_keeps_def on_world_def logged_cleaner_def keeps_def logged_check_def get_arguments_def snd_on_log
      split: prod.splits sum.splits)

lemma removeAttempt_counted:
  assumes obs: "\<And>v n. keeps (sent_at_most n) (observe v)"
  shows "leads (sent_at_most n) (removeAttempt (logged_cleaner mc) name uid gen observe (logged_check hb) attempt intent previous) (sent_at_most (Suc n))"
proof -
  note K = counted_keeps [of _ mc "\<lambda>_. ret (0, 0)" hb]
  have up: "\<And>s. sent_at_most n s \<Longrightarrow> sent_at_most (Suc n) s" by (simp add: on_world_def)
  have cmd: "leads (sent_at_most n) (jr_world (kc_command (mc_kubectl (logged_cleaner mc)) args input)) (sent_at_most (Suc n))" for args input
    by (auto simp: leads_def on_world_def logged_cleaner_def split: prod.splits)
  have fail: "keeps (sent_at_most (Suc n)) (removal_failed observe attempt i rv err)" for i rv err
    unfolding removal_failed_def Let_def by (intro keeps_intros obs)
  have send: "leads (sent_at_most n) (sendDelete (logged_cleaner mc) name uid observe attempt i rv) (sent_at_most (Suc n))" for i rv
    unfolding sendDelete_def by (intro leads_catch leads_then cmd fail keeps_seq obs keeps_basic)
  have last: "keeps (sent_at_most n) (lastCheck (logged_check hb) observe attempt)"
    unfolding lastCheck_def by (intro keeps_intros cleaner_keeps_heartbeat [OF K] obs)
  have tail: "leads (sent_at_most n) (seq (requireSafe c R_CONFLICT) (seq (jr_world (logged_check hb)) (seq (observe v)
      (seq (lastCheck (logged_check hb) observe attempt) (sendDelete (logged_cleaner mc) name uid observe attempt i rv))))) (sent_at_most (Suc n))" for c v i rv
    by (intro leads_seq [OF keeps_requireSafe] leads_seq [OF cleaner_keeps_heartbeat [OF K]] leads_seq [OF obs] leads_seq [OF last] send up)
  have base: "leads (sent_at_most n) (ret x) (sent_at_most (Suc n))" "leads (sent_at_most n) (throw e) (sent_at_most (Suc n))" for x e
    using up by (auto simp: leads_def ret_def throw_def)
  show ?thesis
    unfolding removeAttempt_def
    by (intro leads_seq [OF cleaner_keeps_heartbeat [OF K]] leads_bnd [OF cleaner_keeps_find [OF K]] leads_seq [OF obs]
        leads_option base leads_seq [OF keeps_requireSafe] leads_if up) (auto split: option.split intro!: tail base)
qed

lemma removeAttempts_counted:
  assumes obs: "\<And>v n. keeps (sent_at_most n) (observe v)" and "sent_at_most n s"
  shows "sent_at_most (n + length as) (snd (removeAttempts (logged_cleaner mc) name uid gen observe (logged_check hb) as intent previous s))"
  using assms(2)
proof (induction "as" arbitrary: n s intent previous)
  case (Cons a "as")
  let ?m = "removeAttempt (logged_cleaner mc) name uid gen observe (logged_check hb) a intent previous"
  obtain r t where r: "?m s = (r, t)" by (metis prod.collapse)
  have t: "sent_at_most (Suc n) t" using leadsD [OF removeAttempt_counted Cons.prems, of observe, OF obs] r by (metis snd_conv)
  then have "sent_at_most (n + length (a # as)) t" by (auto simp: on_world_def)
  with Cons.IH [OF t] r show ?case
    by (auto simp: bnd_def ret_def split: sum.splits attempt_result.splits)
qed (simp add: ret_def)

subsection \<open>Properties\<close>

text \<open>
  C7: Cleanup deletes nothing but what the run owns, and only under the lease. Whatever the cluster, the
  files and the lease answer, every deletion that a cleanup of the journal sends is the raw deletion of a
  model the journal lists, carries the recorded UID and a resource version as preconditions, and
  directly follows a successful lease check.
\<close>

theorem cleanup_deletes_guarded:
  "deletes_guarded (mc_namespace mc) (claims (rj_data j))
     (fst (snd (snd (cleanup (logged_env env)
        (model_adapters (logged_cleaner mc) pre (\<lambda>n. on_log (readRemaining n)) (logged_check heartbeat) timeout interval)
        (jr_world (logged_check heartbeat)) only (j, ([], v))))))"
  using logged.cleanup_world [of mc "claims (rj_data j)" "(j, ([], v))"] by (simp add: on_world_def)

text \<open>
  C10: Removal is bounded. One call of \<open>remove\<close> sends at most three deletions, whatever the server answers.
\<close>

theorem remove_sends_at_most_three:
  assumes "\<And>v n. keeps (sent_at_most n) (observe v)"
  shows "length (filter is_delete (fst (snd (snd (removeModel (logged_cleaner mc) name uid gen observe (logged_check heartbeat) (j, (log, v)))))))
    \<le> length (filter is_delete log) + 3"
  using removeAttempts_counted [of observe, OF assms, of "length (filter is_delete log)" "(j, (log, v))" "[1, 2, 3]"]
  by (simp add: removeModel_def on_world_def numeral_3_eq_3 del: removeAttempts.simps)

definition refusing_cleaner :: "unit model_cleaner" where
  "refusing_cleaner = \<lparr>mc_kubectl = \<lparr>kc_command = (\<lambda>_ _. throw (hard R_OBSERVER)), kc_parse = (\<lambda>_. None)\<rparr>,
     mc_namespace = ''ai-system'', mc_now = (\<lambda>w. (0, w)), mc_wait = (\<lambda>_. ret ())\<rparr>"

definition idle_env :: "unit journal_env" where
  "idle_env = \<lparr>jv_write = (\<lambda>_ _ _. ret ()), jv_readJson = (\<lambda>_. throw (Other ''ENOENT'')),
     jv_diag = \<lparr>de_now = (\<lambda>w. (0, w)), de_isFile = (\<lambda>_. throw (Other ''ENOENT'')), de_readJson = (\<lambda>_. throw (Other ''ENOENT'')),
       de_write = (\<lambda>_ _. ret ()), de_sha256 = (\<lambda>s. s)\<rparr>\<rparr>"

definition empty_journal :: ResourceJournal where
  "empty_journal = \<lparr>rj_filename = ''/private/runs/journal.json'', rj_data = \<lparr>jd_runId = JStr ''reg-00000000-0000-0000-0000-000000000000'',
     jd_targetUid = ''target'', jd_prefix = ''reg-00000000-000-'', jd_entries = []\<rparr>, rj_recorders = []\<rparr>"

theorem remove_sends_at_most_three_witness:
  "length (filter is_delete (fst (snd (snd (removeModel (logged_cleaner refusing_cleaner) ''m'' ''u'' 1 (\<lambda>_. ret ())
     (logged_check (ret ())) (empty_journal, ([], ()))))))) \<le> 3"
  using remove_sends_at_most_three [of "\<lambda>_. ret ()" refusing_cleaner "''m''" "''u''" 1 "ret ()" empty_journal "[]" "()"]
  by (simp add: keeps_basic)

text \<open>
  C8: The journal only moves forward. Over any sequence of its calls it stays well formed, keeps its run
  and its entries in place, never changes a recorded UID, never lowers a generation and never revives a
  removed entry.
\<close>

theorem journal_history:
  assumes "journal_wf (rj_data (fst s))"
  shows "journal_wf (rj_data (fst (run_journal env (model_adapters mc pre readRemaining heartbeat timeout interval) (jr_world heartbeat) calls s))) \<and>
    data_le (rj_data (fst s)) (rj_data (fst (run_journal env (model_adapters mc pre readRemaining heartbeat timeout interval) (jr_world heartbeat) calls s)))"
  using models.run_journal_grown [of "rj_data (fst s)" s] assms by (simp add: grown_def data_le_refl)

lemma empty_journal_wf: "journal_wf (rj_data empty_journal)"
  by (simp add: journal_wf_def empty_journal_def is_run_id_def prefix_of_def char_class_defs)

theorem journal_history_witness:
  "\<exists>t. run_journal idle_env (model_adapters refusing_cleaner ''reg-'' (\<lambda>_. ret (0, 0)) (ret ()) None None) (jr_world (ret ()))
      [Requested K_model ''reg-00000000-000-a'', Cleanup None] (empty_journal, ()) = t \<and>
    journal_wf (rj_data (fst t)) \<and> data_le (rj_data empty_journal) (rj_data (fst t))"
  using journal_history [of "(empty_journal, ())" idle_env refusing_cleaner "''reg-''" "\<lambda>_. ret (0, 0)" "ret ()" None None
      "[Requested K_model ''reg-00000000-000-a'', Cleanup None]"] empty_journal_wf by simp



text \<open>
  A credential that passes the review of the cleaner can delete model activations and nothing else: a
  rule that is not for model activations alone grants only \<open>create\<close> on the self-review resources.
\<close>

theorem cleaner_rules_delete_models_only:
  assumes "verifyModelCleanerRules review"
  shows "\<exists>status rules. jget review ''status'' = Some status \<and> jget status ''resourceRules'' = Some (JArr rules) \<and>
    (\<exists>r \<in> set rules. grants_delete r) \<and>
    (\<forall>r \<in> set rules. \<forall>verbs groups resources. jget r ''verbs'' = Some (JArr verbs) \<longrightarrow> jget r ''apiGroups'' = Some (JArr groups) \<longrightarrow>
       jget r ''resources'' = Some (JArr resources) \<longrightarrow> JStr ''delete'' \<in> set verbs \<longrightarrow>
       groups = [JStr ''appliance.magicstick.dev''] \<and> resources = [JStr ''modelactivations''])"
proof -
  obtain status rules where st: "jget review ''status'' = Some status" "jget status ''resourceRules'' = Some (JArr rules)"
    and ok: "\<forall>r \<in> set rules. cleaner_rule r" and del: "\<exists>r \<in> set rules. grants_delete r"
    using assms by (auto simp: verifyModelCleanerRules_def string_items_def split: option.splits jsval.splits bool.splits)
  have "groups = [JStr ''appliance.magicstick.dev''] \<and> resources = [JStr ''modelactivations'']"
    if "r \<in> set rules" "jget r ''verbs'' = Some (JArr verbs)" "jget r ''apiGroups'' = Some (JArr groups)"
      "jget r ''resources'' = Some (JArr resources)" "JStr ''delete'' \<in> set verbs" for r verbs groups resources
    using bspec [OF ok that(1)] that(2-5) by (auto simp: cleaner_rule_def string_items_def is_model_rule_def model_group_def)
  with st del show ?thesis by blast
qed

definition cleaner_review :: jsval where
  "cleaner_review = JObj [(''status'', JObj [(''incomplete'', JBool False), (''resourceRules'', JArr [
     JObj [(''verbs'', JArr [JStr ''get'', JStr ''delete'']), (''apiGroups'', JArr [JStr ''appliance.magicstick.dev'']),
           (''resources'', JArr [JStr ''modelactivations''])]])])]"

theorem cleaner_rules_delete_models_only_witness:
  "\<exists>status rules. jget cleaner_review ''status'' = Some status \<and> jget status ''resourceRules'' = Some (JArr rules) \<and> (\<exists>r \<in> set rules. grants_delete r)"
proof -
  have "verifyModelCleanerRules cleaner_review"
    by (simp add: verifyModelCleanerRules_def cleaner_review_def string_items_def cleaner_rule_def grants_delete_def is_model_rule_def
        model_group_def get_only_def)
  from cleaner_rules_delete_models_only [OF this] show ?thesis by blast
qed

end
