(* ===== verification/Js_Library.thy ===== *)
theory Js_Library
  imports Harness_Errors "HOL-Library.List_Lexorder" "HOL-Library.Char_ord"
begin

text \<open>
  What the pure functions of the source use of the language: functions that return or throw as values of
  \<open>'a result\<close>, sets with insertion order, the default order of strings (code units, from left to right),
  bounded character classes of regular expressions, and the parts of a URL. \<open>new URL(s)\<close> is a parameter
  wherever it occurs (\<open>url_parser\<close>); the modelled code only reads the parts.
\<close>

subsection \<open>Pure functions that may throw\<close>

type_synonym 'a result = "js_error + 'a"

definition rbind :: "'e + 'a \<Rightarrow> ('a \<Rightarrow> 'e + 'b) \<Rightarrow> 'e + 'b" where
  "rbind m f = (case m of Inl e \<Rightarrow> Inl e | Inr x \<Rightarrow> f x)"

text \<open>\<open>requireSafe\<close> and \<open>requireProof\<close> in front of a pure result.\<close>

definition safely :: "bool \<Rightarrow> ReasonCode \<Rightarrow> 'a result \<Rightarrow> 'a result" where
  "safely c code m = (if c then m else Inl (hard code))"

definition proven :: "bool \<Rightarrow> ReasonCode \<Rightarrow> 'a result \<Rightarrow> 'a result" where
  "proven c code m = (if c then m else Inl (Harness (mkHarnessError code
     (Some (if code = R_PREREQUISITE then Blocked else Failed)) None None)))"

fun traverse :: "('a \<Rightarrow> 'e + 'b) \<Rightarrow> 'a list \<Rightarrow> 'e + 'b list" where
  "traverse f [] = Inr []"
| "traverse f (x # xs) = rbind (f x) (\<lambda>y. rbind (traverse f xs) (\<lambda>ys. Inr (y # ys)))"

definition lift_result :: "'e + 'a \<Rightarrow> ('s, 'e, 'a) act" where
  "lift_result r = (\<lambda>s. (r, s))"

lemma rbind_simps [simp]: "rbind (Inl e) f = Inl e" "rbind (Inr x) f = f x"
  by (simp_all add: rbind_def)

lemma rbind_Inr: "rbind m f = Inr y \<longleftrightarrow> (\<exists>x. m = Inr x \<and> f x = Inr y)"
  by (cases m) auto

lemma safely_Inr: "safely c code m = Inr y \<longleftrightarrow> c \<and> m = Inr y"
  by (simp add: safely_def)

lemma proven_Inr: "proven c code m = Inr y \<longleftrightarrow> c \<and> m = Inr y"
  by (simp add: proven_def)

lemmas result_ok = rbind_Inr safely_Inr proven_Inr

lemma traverse_Inr: "traverse f xs = Inr ys \<longleftrightarrow> length ys = length xs \<and> (\<forall>i < length xs. f (xs ! i) = Inr (ys ! i))"
proof (induction xs arbitrary: ys)
  case (Cons x xs)
  show ?case
  proof (cases ys)
    case (Cons y zs)
    then show ?thesis using Cons.IH by (auto simp: result_ok nth_Cons split: nat.split)
  qed (auto simp: result_ok)
qed auto

text \<open>Every error of \<open>m\<close> is the one of \<open>code\<close>; the rules follow the shape of a parser.\<close>

definition fails_only :: "ReasonCode \<Rightarrow> 'a result \<Rightarrow> bool" where
  "fails_only code m \<longleftrightarrow> (\<forall>e. m = Inl e \<longrightarrow> e = hard code)"

lemma fails_only_Inr [intro!]: "fails_only code (Inr x)"
  by (simp add: fails_only_def)

lemma fails_only_hard [intro!]: "fails_only code (Inl (hard code))"
  by (simp add: fails_only_def)

lemma fails_only_safely [intro!]: "(c \<Longrightarrow> fails_only code m) \<Longrightarrow> fails_only code (safely c code m)"
  by (simp add: fails_only_def safely_def)

lemma fails_only_rbind [intro!]: "fails_only code m \<Longrightarrow> (\<And>x. m = Inr x \<Longrightarrow> fails_only code (f x)) \<Longrightarrow> fails_only code (rbind m f)"
  by (cases m) (simp_all add: fails_only_def)

lemma fails_only_traverse [intro!]: "(\<And>x. x \<in> set xs \<Longrightarrow> fails_only code (f x)) \<Longrightarrow> fails_only code (traverse f xs)"
  by (induction xs) (auto intro!: fails_only_Inr fails_only_rbind)

lemma fails_only_if [intro!]: "(c \<Longrightarrow> fails_only code m) \<Longrightarrow> (\<not> c \<Longrightarrow> fails_only code n) \<Longrightarrow> fails_only code (if c then m else n)"
  by simp

subsection \<open>Sets with insertion order\<close>

text \<open>\<open>[...new Set(xs)]\<close>\<close>

definition uniques :: "'a list \<Rightarrow> 'a list" where
  "uniques xs = rev (remdups (rev xs))"

lemma set_uniques [simp]: "set (uniques xs) = set xs"
  by (simp add: uniques_def)

lemma distinct_uniques [simp]: "distinct (uniques xs)"
  by (simp add: uniques_def)

text \<open>\<open>new Map\<close> with lists as values: rows collected under their key, keys in the order of first use.\<close>

definition group_by :: "('a \<Rightarrow> 'k) \<Rightarrow> 'a list \<Rightarrow> ('k \<times> 'a list) list" where
  "group_by key xs = map (\<lambda>k. (k, filter (\<lambda>x. key x = k) xs)) (uniques (map key xs))"

subsection \<open>Sorting with a comparison\<close>

text \<open>\<open>xs.sort(compare)\<close>, which is stable.\<close>

fun insert_by :: "('a \<Rightarrow> 'a \<Rightarrow> int) \<Rightarrow> 'a \<Rightarrow> 'a list \<Rightarrow> 'a list" where
  "insert_by compare x [] = [x]"
| "insert_by compare x (y # ys) = (if compare x y \<le> 0 then x # y # ys else y # insert_by compare x ys)"

definition sort_by :: "('a \<Rightarrow> 'a \<Rightarrow> int) \<Rightarrow> 'a list \<Rightarrow> 'a list" where
  "sort_by compare xs = foldr (insert_by compare) xs []"

lemma set_insert_by [simp]: "set (insert_by cmp x ys) = insert x (set ys)"
  by (induction ys) auto

lemma set_sort_by [simp]: "set (sort_by cmp xs) = set xs"
  by (induction xs) (simp_all add: sort_by_def)

lemma distinct_map_insert_by: "f x \<notin> f ` set ys \<Longrightarrow> distinct (map f ys) \<Longrightarrow> distinct (map f (insert_by cmp x ys))"
  by (induction ys) auto

lemma distinct_map_sort_by: "distinct (map f xs) \<Longrightarrow> distinct (map f (sort_by cmp xs))"
proof (induction xs)
  case (Cons x xs)
  then have "distinct (map f (sort_by cmp xs))" "f x \<notin> f ` set (sort_by cmp xs)" by simp_all
  from distinct_map_insert_by [OF this(2,1)] show ?case by (simp add: sort_by_def)
qed (simp add: sort_by_def)

lemma sorted_insert_by:
  assumes "\<And>a b. cmp a b \<le> 0 \<Longrightarrow> (r a :: int) \<le> r b" and "\<And>a b. 0 < cmp a b \<Longrightarrow> r b \<le> r a" and "sorted (map r ys)"
  shows "sorted (map r (insert_by cmp x ys))"
  using assms(3)
proof (induction ys)
  case (Cons y ys)
  then show ?case
  proof (cases "cmp x y \<le> 0")
    case True
    then show ?thesis using Cons.prems assms(1) [OF True] by auto
  next
    case False
    then show ?thesis using Cons assms(2) [of x y] by auto
  qed
qed simp

lemma sorted_sort_by:
  assumes "\<And>a b. cmp a b \<le> 0 \<Longrightarrow> (r a :: int) \<le> r b" and "\<And>a b. 0 < cmp a b \<Longrightarrow> r b \<le> r a"
  shows "sorted (map r (sort_by cmp xs))"
  by (induction xs) (auto simp: sort_by_def intro: sorted_insert_by [OF assms])

subsection \<open>Patterns\<close>

definition is_alpha :: "char \<Rightarrow> bool" where
  "is_alpha c \<longleftrightarrow> is_lower c \<or> is_upper c"

definition is_alnum :: "char \<Rightarrow> bool" where
  "is_alnum c \<longleftrightarrow> is_alpha c \<or> is_digit c"

definition is_alnum_or :: "string \<Rightarrow> char \<Rightarrow> bool" where
  "is_alnum_or extra c \<longleftrightarrow> is_alnum c \<or> c \<in> set extra"

text \<open>\<open>/^[class]{lo,hi}$/\<close>\<close>

definition chars_between :: "nat \<Rightarrow> nat \<Rightarrow> (char \<Rightarrow> bool) \<Rightarrow> string \<Rightarrow> bool" where
  "chars_between lo hi p s \<longleftrightarrow> lo \<le> length s \<and> length s \<le> hi \<and> list_all p s"

text \<open>\<open>/^[first][rest]{lo,hi}$/\<close>\<close>

definition first_then :: "(char \<Rightarrow> bool) \<Rightarrow> nat \<Rightarrow> nat \<Rightarrow> (char \<Rightarrow> bool) \<Rightarrow> string \<Rightarrow> bool" where
  "first_then p lo hi q s \<longleftrightarrow> s \<noteq> [] \<and> p (hd s) \<and> chars_between lo hi q (tl s)"

definition strip_prefix :: "string \<Rightarrow> string \<Rightarrow> string option" where
  "strip_prefix p s = (if startsWith s p then Some (drop (length p) s) else None)"

definition after_prefix :: "string \<Rightarrow> (string \<Rightarrow> bool) \<Rightarrow> string \<Rightarrow> bool" where
  "after_prefix p ok s \<longleftrightarrow> startsWith s p \<and> ok (drop (length p) s)"

text \<open>A property that is absent reads as \<open>undefined\<close>; only a string passes \<open>typeof v === 'string'\<close>.\<close>

definition string_such :: "(string \<Rightarrow> bool) \<Rightarrow> jsval option \<Rightarrow> bool" where
  "string_such p v = (case v of Some (JStr s) \<Rightarrow> p s | _ \<Rightarrow> False)"

definition keys_of :: "jsval \<Rightarrow> string list" where
  "keys_of v = (case v of JObj ob \<Rightarrow> map fst ob | _ \<Rightarrow> [])"

text \<open>\<open>Object.keys(v).sort().join(',')\<close> against a fixed list of keys.\<close>

definition exact_keys :: "string list \<Rightarrow> jsval \<Rightarrow> bool" where
  "exact_keys ks v \<longleftrightarrow> join '','' (sort (keys_of v)) = join '','' ks"

text \<open>\<open>v ? f(v) : undefined\<close>\<close>

definition when_truthy :: "jsval option \<Rightarrow> (jsval option \<Rightarrow> 'e + 'a) \<Rightarrow> 'e + 'a option" where
  "when_truthy v f = (if truthy_opt v then rbind (f v) (\<lambda>x. Inr (Some x)) else Inr None)"

lemma fails_only_when_truthy [intro!]: "fails_only code (f v) \<Longrightarrow> fails_only code (when_truthy v f)"
  by (auto simp: when_truthy_def)

lemma when_truthy_Inr: "when_truthy v f = Inr r \<longleftrightarrow> (if truthy_opt v then \<exists>x. f v = Inr x \<and> r = Some x else r = None)"
  by (auto simp: when_truthy_def result_ok)

text \<open>Optional chaining: \<open>v?.a?.b\<close>.\<close>

fun jat :: "jsval option \<Rightarrow> string list \<Rightarrow> jsval option" where
  "jat v [] = v"
| "jat None (k # ks) = None"
| "jat (Some x) (k # ks) = jat (jget x k) ks"

text \<open>\<open>a === b\<close>, where an absent property is \<open>undefined\<close>.\<close>

definition strict_opt :: "jsval option \<Rightarrow> jsval option \<Rightarrow> bool" where
  "strict_opt a b = (case (a, b) of (None, None) \<Rightarrow> True | (Some x, Some y) \<Rightarrow> strict_eq x y | _ \<Rightarrow> False)"

definition object_fields :: "jsval option \<Rightarrow> jsval obj" where
  "object_fields v = (case v of Some (JObj ob) \<Rightarrow> ob | _ \<Rightarrow> [])"

definition array_items :: "jsval option \<Rightarrow> jsval list option" where
  "array_items v = (case v of Some (JArr xs) \<Rightarrow> Some xs | _ \<Rightarrow> None)"

subsection \<open>URLs\<close>

record url =
  u_protocol :: string
  u_username :: string
  u_password :: string
  u_host :: string
  u_hostname :: string
  u_port :: string
  u_pathname :: string
  u_search :: string
  u_hash :: string
  u_origin :: string
  u_href :: string

type_synonym url_parser = "string \<Rightarrow> url option"

definition plain_url :: "url \<Rightarrow> bool" where
  "plain_url u \<longleftrightarrow> u_username u = [] \<and> u_password u = [] \<and> u_search u = [] \<and> u_hash u = []"

end
