(* ===== verification/Blocking_Causes.thy ===== *)
theory Blocking_Causes
  imports Js_Library
begin

text \<open>
  Why a regression case is blocked: the classification of reason codes
  (\<open>packages/core/src/regression-blocking.ts\<close>), the attribution of a blocked case to its cause within its own
  execution, the counts by cause, and the recovery cause that a run hands to its children
  (\<open>regression/core/blocking.ts\<close>). The catalogue of case identifiers, read from a document at start, is the
  parameter \<open>known_case\<close>; \<open>JSON.parse\<close> is the parameter \<open>parse\<close>.
\<close>

subsection \<open>Kinds\<close>

datatype RegressionBlockedKind = Prerequisite | Failure | Cancelled | Unknown

definition regressionBlockedKinds :: "RegressionBlockedKind list" where
  "regressionBlockedKinds = [Prerequisite, Failure, Cancelled, Unknown]"

fun blocked_kind_name :: "RegressionBlockedKind \<Rightarrow> string" where
  "blocked_kind_name Prerequisite = ''prerequisite''"
| "blocked_kind_name Failure = ''failure''"
| "blocked_kind_name Cancelled = ''cancelled''"
| "blocked_kind_name Unknown = ''unknown''"

record RegressionBlockedCounts =
  bc_prerequisite :: nat
  bc_failure :: nat
  bc_cancelled :: nat
  bc_unknown :: nat

definition emptyBlockedCounts :: RegressionBlockedCounts where
  "emptyBlockedCounts = \<lparr>bc_prerequisite = 0, bc_failure = 0, bc_cancelled = 0, bc_unknown = 0\<rparr>"

definition failure_reasons :: "string list" where
  "failure_reasons = [''PREPARATION_FAILED'', ''CONFIG'', ''AUTH'', ''API'', ''COMPONENT'', ''MUTATION'', ''OWNERSHIP'', ''CLEANUP'',
     ''CONFLICT'', ''DEADLINE'', ''UNEXPECTED'', ''PROCESS_STATE'', ''LOCK_LOST'', ''RECOVERY'']"

definition prerequisite_reasons :: "string list" where
  "prerequisite_reasons = [''PREREQUISITE'', ''PRIVATE_FILE'', ''TLS'', ''IDENTITY'', ''CAPABILITY'', ''APPLICATION_MODEL'', ''GPU_PROVIDER'',
     ''GPU_VALIDATION'', ''HOST'', ''BUSY'', ''OBSERVER'', ''LOCK_BUSY'', ''LOCK_STALE'', ''LAB'', ''EXTERNAL_RUNNER'', ''CACHE_RACE_WINDOW'']"

definition regressionBlockedKind :: "string option \<Rightarrow> RegressionBlockedKind" where
  "regressionBlockedKind reason = (case reason of
     None \<Rightarrow> Unknown
   | Some r \<Rightarrow> if r = ''CANCELLED'' then Cancelled
       else if r \<in> set failure_reasons then Failure
       else if r \<in> set prerequisite_reasons then Prerequisite else Unknown)"

definition middle_dot :: string where
  "middle_dot = '' '' @ [char_of (183::nat)] @ '' ''"

definition regressionBlockedSummary :: "RegressionBlockedCounts \<Rightarrow> string" where
  "regressionBlockedSummary counts =
     show_nat (bc_prerequisite counts) @ '' by prerequisite'' @ middle_dot @ show_nat (bc_failure counts) @ '' by failure'' @
     (if bc_cancelled counts \<noteq> 0 then middle_dot @ show_nat (bc_cancelled counts) @ '' cancelled'' else []) @
     (if bc_unknown counts \<noteq> 0 then middle_dot @ show_nat (bc_unknown counts) @ '' cause unknown'' else [])"

subsection \<open>Blockers\<close>

record RegressionBlocker =
  rb_kind :: RegressionBlockedKind
  rb_reason :: "string option"
  rb_caseId :: "string option"
  rb_stage :: "string option"
  rb_executionId :: "string option"
  rb_traceRunId :: "string option"

text \<open>\<open>blockedBy\<close> of a recorded case is data from a file, so it is not trusted to be a blocker.\<close>

record BlockingEvidence =
  be_id :: string
  be_outcome :: string
  be_reason :: "string option"
  be_stage :: "string option"
  be_executionId :: "string option"
  be_traceRunId :: "string option"
  be_executionOutcome :: "string option"
  be_blockedBy :: "jsval option"

definition is_execution_id :: "string \<Rightarrow> bool" where
  "is_execution_id s \<longleftrightarrow> chars_between 24 24 is_hex s"

definition known_reason_text :: "string \<Rightarrow> bool" where
  "known_reason_text r \<longleftrightarrow> reason_of r \<noteq> None"

definition keep_if :: "(string \<Rightarrow> bool) \<Rightarrow> string option \<Rightarrow> string option" where
  "keep_if p v = (case v of None \<Rightarrow> None | Some s \<Rightarrow> if p s then Some s else None)"

definition checked_fields :: "(string \<Rightarrow> bool) \<Rightarrow> RegressionBlockedKind \<Rightarrow> string option \<Rightarrow> string option \<Rightarrow> string option \<Rightarrow> string option \<Rightarrow>
    string option \<Rightarrow> RegressionBlocker" where
  "checked_fields known_case kind reason caseId stage executionId traceRunId =
     \<lparr>rb_kind = kind, rb_reason = keep_if known_reason_text reason, rb_caseId = keep_if known_case caseId,
      rb_stage = keep_if (\<lambda>s. stage_of s \<noteq> None) stage, rb_executionId = keep_if is_execution_id executionId,
      rb_traceRunId = keep_if is_run_id traceRunId\<rparr>"

definition string_field :: "jsval \<Rightarrow> string \<Rightarrow> string option" where
  "string_field v k = (case jget v k of Some (JStr s) \<Rightarrow> Some s | _ \<Rightarrow> None)"

definition blocked_kind_of :: "jsval option \<Rightarrow> RegressionBlockedKind option" where
  "blocked_kind_of v = (case v of Some (JStr s) \<Rightarrow> find (\<lambda>k. blocked_kind_name k = s) regressionBlockedKinds | _ \<Rightarrow> None)"

definition checkedBlocker :: "(string \<Rightarrow> bool) \<Rightarrow> jsval option \<Rightarrow> RegressionBlocker option" where
  "checkedBlocker known_case value = (case value of
     None \<Rightarrow> None
   | Some v \<Rightarrow> (case blocked_kind_of (jget v ''kind'') of
         None \<Rightarrow> None
       | Some kind \<Rightarrow> Some (checked_fields known_case kind (string_field v ''reason'') (string_field v ''caseId'') (string_field v ''stage'')
           (string_field v ''executionId'') (string_field v ''traceRunId''))))"

definition blockerFrom :: "(string \<Rightarrow> bool) \<Rightarrow> BlockingEvidence \<Rightarrow> RegressionBlocker" where
  "blockerFrom known_case item =
     checked_fields known_case
       (if be_outcome item = ''Failed'' \<or> be_outcome item = ''Flaky'' then Failure else regressionBlockedKind (be_reason item))
       (be_reason item) (Some (be_id item)) (be_stage item) (be_executionId item) (be_traceRunId item)"

definition blocker_json :: "RegressionBlocker \<Rightarrow> jsval" where
  "blocker_json b = JObj ([(''kind'', JStr (blocked_kind_name (rb_kind b)))] @ field ''reason'' (map_option JStr (rb_reason b)) @
     field ''caseId'' (map_option JStr (rb_caseId b)) @ field ''stage'' (map_option JStr (rb_stage b)) @
     field ''executionId'' (map_option JStr (rb_executionId b)) @ field ''traceRunId'' (map_option JStr (rb_traceRunId b)))"

subsection \<open>The recovery cause of a run\<close>

definition recoveryCause :: "(string \<Rightarrow> bool) \<Rightarrow> (string \<Rightarrow> jsval option) \<Rightarrow> string option \<Rightarrow> RegressionBlocker option" where
  "recoveryCause known_case parse value = (case value of
     None \<Rightarrow> None
   | Some s \<Rightarrow> if s = [] \<or> 2048 < length s then None
       else (case checkedBlocker known_case (parse s) of
           None \<Rightarrow> None
         | Some cause \<Rightarrow> if rb_kind cause = Failure then Some cause else None))"

definition recovery_reasons :: "string list" where
  "recovery_reasons = [''CLEANUP'', ''OWNERSHIP'', ''CONFLICT'', ''LOCK_LOST'', ''LOCK_STALE'', ''RECOVERY'', ''PROCESS_STATE'']"

definition first_of :: "('a \<Rightarrow> bool) list \<Rightarrow> 'a list \<Rightarrow> 'a option" where
  "first_of ps xs = fold (\<lambda>p found. case found of Some x \<Rightarrow> Some x | None \<Rightarrow> find p xs) ps None"

definition recovery_root :: "BlockingEvidence list \<Rightarrow> BlockingEvidence option" where
  "recovery_root cases = first_of
     [\<lambda>item. be_outcome item = ''Failed'' \<and> be_id item = ''HAR-10'' \<and> be_stage item = Some ''runner-execution'',
      \<lambda>item. be_outcome item = ''Failed'' \<and> (\<exists>r \<in> set_option (be_reason item). r \<in> set recovery_reasons),
      \<lambda>item. be_outcome item = ''Failed''] cases"

definition inheritRecoveryCause :: "(string \<Rightarrow> bool) \<Rightarrow> (string \<Rightarrow> jsval option) \<Rightarrow> string obj \<Rightarrow> BlockingEvidence list \<Rightarrow> bool \<Rightarrow> string obj" where
  "inheritRecoveryCause known_case parse environment cases active =
     (if \<not> active then odelete ''REGRESSION_RECOVERY_CAUSE'' (odelete ''REGRESSION_RECOVERY_FENCE'' environment)
      else let fenced = oset ''REGRESSION_RECOVERY_FENCE'' ''1'' environment
        in if recoveryCause known_case parse (oget fenced ''REGRESSION_RECOVERY_CAUSE'') \<noteq> None then fenced
           else (case recovery_root cases of
               None \<Rightarrow> fenced
             | Some root \<Rightarrow> oset ''REGRESSION_RECOVERY_CAUSE'' (stringify (blocker_json (blockerFrom known_case root))) fenced))"

subsection \<open>Attribution and counts\<close>

definition execution_key :: "BlockingEvidence \<Rightarrow> string" where
  "execution_key item = (case be_traceRunId item of None \<Rightarrow> [] | Some t \<Rightarrow> t) @ ''/'' @ (case be_executionId item of None \<Rightarrow> [] | Some e \<Rightarrow> e)"

definition has_execution :: "BlockingEvidence \<Rightarrow> bool" where
  "has_execution item \<longleftrightarrow> (\<exists>e \<in> set_option (be_executionId item). is_execution_id e)"

definition root_of :: "BlockingEvidence list \<Rightarrow> BlockingEvidence option" where
  "root_of peers = first_of [\<lambda>peer. be_outcome peer \<in> {''Failed'', ''Flaky''},
     \<lambda>peer. be_outcome peer = ''Blocked'' \<and> be_reason peer \<noteq> Some ''DEPENDENCY''] peers"

definition execution_roots :: "BlockingEvidence list \<Rightarrow> (string \<times> BlockingEvidence option) list" where
  "execution_roots cases = map (\<lambda>(key, peers). (key, root_of peers)) (group_by execution_key (filter has_execution cases))"

definition blockedCause :: "(string \<Rightarrow> bool) \<Rightarrow> BlockingEvidence list \<Rightarrow> BlockingEvidence \<Rightarrow> RegressionBlocker option" where
  "blockedCause known_case cases item =
     (if be_outcome item \<noteq> ''Blocked'' then None
      else case checkedBlocker known_case (be_blockedBy item) of
        Some recorded \<Rightarrow> Some recorded
      | None \<Rightarrow>
          if be_reason item = Some ''DEPENDENCY'' then
            (case (if (\<exists>e \<in> set_option (be_executionId item). e \<noteq> []) then Option.bind (map_of (execution_roots cases) (execution_key item)) id else None) of
               Some root \<Rightarrow> Some (case checkedBlocker known_case (be_blockedBy root) of Some b \<Rightarrow> b | None \<Rightarrow> blockerFrom known_case root)
             | None \<Rightarrow> Some \<lparr>rb_kind = (if be_executionOutcome item = Some ''Failed'' then Failure else Unknown), rb_reason = Some ''DEPENDENCY'',
                 rb_caseId = None, rb_stage = None, rb_executionId = None, rb_traceRunId = None\<rparr>)
          else Some \<lparr>rb_kind = (if be_reason item = Some ''PREREQUISITE'' \<and> \<not> (\<exists>e \<in> set_option (be_executionId item). e \<noteq> []) then Unknown
                 else regressionBlockedKind (be_reason item)),
               rb_reason = keep_if known_reason_text (be_reason item), rb_caseId = None, rb_stage = None, rb_executionId = None, rb_traceRunId = None\<rparr>)"

definition withBlockedCauses :: "(string \<Rightarrow> bool) \<Rightarrow> BlockingEvidence list \<Rightarrow> (BlockingEvidence \<times> RegressionBlocker option) list" where
  "withBlockedCauses known_case cases = map (\<lambda>item. (item, blockedCause known_case cases item)) cases"

definition count_kind :: "RegressionBlockedKind \<Rightarrow> RegressionBlockedCounts \<Rightarrow> RegressionBlockedCounts" where
  "count_kind kind counts = (case kind of
     Prerequisite \<Rightarrow> counts\<lparr>bc_prerequisite := bc_prerequisite counts + 1\<rparr>
   | Failure \<Rightarrow> counts\<lparr>bc_failure := bc_failure counts + 1\<rparr>
   | Cancelled \<Rightarrow> counts\<lparr>bc_cancelled := bc_cancelled counts + 1\<rparr>
   | Unknown \<Rightarrow> counts\<lparr>bc_unknown := bc_unknown counts + 1\<rparr>)"

text \<open>The kind of a blocked execution: the strongest kind among its blocked rows, \<^const>\<open>None\<close> when it is not counted.\<close>

definition execution_kind :: "(BlockingEvidence \<times> RegressionBlocker option) list \<Rightarrow> RegressionBlockedKind option" where
  "execution_kind rows =
     (let outcomes = map (\<lambda>(item, _). case be_executionOutcome item of Some out \<Rightarrow> out | None \<Rightarrow> be_outcome item) rows;
          kinds = concat (map (\<lambda>(item, b). case b of Some x \<Rightarrow> if be_outcome item = ''Blocked'' then [rb_kind x] else [] | None \<Rightarrow> []) rows)
      in if (\<exists>out \<in> set outcomes. out = ''Failed'' \<or> out = ''Flaky'') \<or> \<not> (\<exists>out \<in> set outcomes. out \<noteq> ''Passed'') then None
         else Some (if Failure \<in> set kinds then Failure else if Prerequisite \<in> set kinds then Prerequisite
           else if Cancelled \<in> set kinds then Cancelled else Unknown))"

definition blockedCounts :: "(string \<Rightarrow> bool) \<Rightarrow> BlockingEvidence list \<Rightarrow> bool \<Rightarrow> RegressionBlockedCounts" where
  "blockedCounts known_case cases executions =
     (let resolved = withBlockedCauses known_case cases;
          kinds = (if \<not> executions
            then concat (map (\<lambda>(item, b). case b of Some x \<Rightarrow> if be_outcome item = ''Blocked'' then [rb_kind x] else [] | None \<Rightarrow> []) resolved)
            else concat (map (\<lambda>(_, rows). case execution_kind rows of None \<Rightarrow> [] | Some k \<Rightarrow> [k])
              (group_by (\<lambda>r. execution_key (fst r)) (filter (\<lambda>r. has_execution (fst r)) resolved))))
      in fold count_kind kinds emptyBlockedCounts)"

subsection \<open>Lemmas\<close>

definition counts_total :: "RegressionBlockedCounts \<Rightarrow> nat" where
  "counts_total c = bc_prerequisite c + bc_failure c + bc_cancelled c + bc_unknown c"

lemma fold_count_total: "counts_total (fold count_kind kinds c) = counts_total c + length kinds"
proof (induction kinds arbitrary: c)
  case (Cons k ks)
  have "counts_total (count_kind k c) = counts_total c + 1" by (cases k) (simp_all add: count_kind_def counts_total_def)
  with Cons show ?case by simp
qed simp

lemma blockedCause_iff: "blockedCause known_case cases item \<noteq> None \<longleftrightarrow> be_outcome item = ''Blocked''"
  unfolding blockedCause_def by (cases "be_outcome item = ''Blocked''") (simp_all split: option.split)

lemma find_in: "find p xs = Some x \<Longrightarrow> x \<in> set xs \<and> p x"
  by (auto simp: find_Some_iff)

lemma first_of_in: "first_of ps xs = Some x \<Longrightarrow> x \<in> set xs"
proof -
  have "fold (\<lambda>p found. case found of Some x \<Rightarrow> Some x | None \<Rightarrow> find p xs) ps a = Some x \<Longrightarrow> (\<forall>y. a = Some y \<longrightarrow> y \<in> set xs) \<Longrightarrow> x \<in> set xs" for a
    by (induction ps arbitrary: a) (auto split: option.splits dest: find_in)
  then show "first_of ps xs = Some x \<Longrightarrow> x \<in> set xs" by (auto simp: first_of_def)
qed

lemma map_of_group: "map_of (map (\<lambda>(k, v). (k, f v)) (group_by key xs)) k = Some y \<Longrightarrow> y = f (filter (\<lambda>x. key x = k) xs)"
  by (auto simp: group_by_def comp_def map_of_map_keys dest!: map_of_SomeD)

lemma execution_root_peer:
  assumes "map_of (execution_roots cases) k = Some (Some root)"
  shows "root \<in> set cases \<and> execution_key root = k"
proof -
  have "root_of (filter (\<lambda>x. execution_key x = k) (filter has_execution cases)) = Some root"
    using map_of_group [of root_of execution_key "filter has_execution cases" k] assms by (simp add: execution_roots_def)
  then have "root \<in> set (filter (\<lambda>x. execution_key x = k) (filter has_execution cases))" unfolding root_of_def by (rule first_of_in)
  then show ?thesis by simp
qed

subsection \<open>Properties\<close>

text \<open>
  Every blocked case has exactly one cause and no other case has one, and the counts by cause add up to
  the number of blocked cases.
\<close>

theorem blocked_counts_add_up:
  "(\<forall>(item, cause) \<in> set (withBlockedCauses known_case cases). cause \<noteq> None \<longleftrightarrow> be_outcome item = ''Blocked'') \<and>
   map fst (withBlockedCauses known_case cases) = cases \<and>
   counts_total (blockedCounts known_case cases False) = length (filter (\<lambda>item. be_outcome item = ''Blocked'') cases)"
proof (intro conjI)
  show "\<forall>(item, cause) \<in> set (withBlockedCauses known_case cases). cause \<noteq> None \<longleftrightarrow> be_outcome item = ''Blocked''"
    using blockedCause_iff by (auto simp: withBlockedCauses_def)
  show "map fst (withBlockedCauses known_case cases) = cases" by (simp add: withBlockedCauses_def comp_def)
  have "length (concat (map (\<lambda>item. case blockedCause known_case cases' item of Some x \<Rightarrow> if be_outcome item = ''Blocked'' then [rb_kind x] else [] | None \<Rightarrow> []) xs))
      = length (filter (\<lambda>item. be_outcome item = ''Blocked'') xs)" for xs cases'
  proof (induction xs)
    case (Cons a xs)
    then show ?case using blockedCause_iff [of known_case cases' a] by (cases "be_outcome a = ''Blocked''") (auto split: option.splits)
  qed simp
  then show "counts_total (blockedCounts known_case cases False) = length (filter (\<lambda>item. be_outcome item = ''Blocked'') cases)"
    unfolding blockedCounts_def withBlockedCauses_def Let_def
    by (simp add: fold_count_total comp_def) (simp add: counts_total_def emptyBlockedCounts_def)
qed

text \<open>
  A dependency is attributed within its own execution. When a case blocked by \<open>DEPENDENCY\<close> has no recorded
  cause, its cause is a checked blocker that was recorded for, or made from, a case of the same execution, or it
  is the bare \<open>DEPENDENCY\<close>.
\<close>

theorem dependency_stays_in_execution:
  assumes "be_outcome item = ''Blocked''" and "be_reason item = Some ''DEPENDENCY''" and "checkedBlocker known_case (be_blockedBy item) = None"
    and "blockedCause known_case cases item = Some cause"
  shows "(\<exists>root \<in> set cases. execution_key root = execution_key item \<and>
      (checkedBlocker known_case (be_blockedBy root) = Some cause \<or> cause = blockerFrom known_case root)) \<or>
    rb_reason cause = Some ''DEPENDENCY'' \<and> rb_kind cause \<in> {Failure, Unknown} \<and> rb_caseId cause = None"
proof (cases "\<exists>root. (\<exists>e \<in> set_option (be_executionId item). e \<noteq> []) \<and> map_of (execution_roots cases) (execution_key item) = Some (Some root)")
  case True
  then obtain root e where root: "map_of (execution_roots cases) (execution_key item) = Some (Some root)" "be_executionId item = Some e" "e \<noteq> []" by auto
  have "cause = (case checkedBlocker known_case (be_blockedBy root) of Some b \<Rightarrow> b | None \<Rightarrow> blockerFrom known_case root)"
    using assms root by (simp add: blockedCause_def)
  then show ?thesis using execution_root_peer [OF root(1)] by (auto split: option.splits)
next
  case False
  then have "(if (\<exists>e \<in> set_option (be_executionId item). e \<noteq> []) then Option.bind (map_of (execution_roots cases) (execution_key item)) id else None) = None"
    by (cases "map_of (execution_roots cases) (execution_key item)") auto
  then have "cause = \<lparr>rb_kind = (if be_executionOutcome item = Some ''Failed'' then Failure else Unknown), rb_reason = Some ''DEPENDENCY'',
      rb_caseId = None, rb_stage = None, rb_executionId = None, rb_traceRunId = None\<rparr>"
    using assms by (simp add: blockedCause_def)
  then show ?thesis by (intro disjI2) simp
qed

definition failed_row :: BlockingEvidence where
  "failed_row = \<lparr>be_id = ''MOD-01'', be_outcome = ''Failed'', be_reason = Some ''API'', be_stage = None, be_executionId = Some ''000000000000000000000000'',
     be_traceRunId = None, be_executionOutcome = None, be_blockedBy = None\<rparr>"

definition dependent_row :: BlockingEvidence where
  "dependent_row = failed_row\<lparr>be_id := ''MOD-02'', be_outcome := ''Blocked'', be_reason := Some ''DEPENDENCY''\<rparr>"

theorem blocked_counts_add_up_witness:
  "counts_total (blockedCounts (\<lambda>_. True) [failed_row, dependent_row, dependent_row] False) = 2"
  using blocked_counts_add_up [of "\<lambda>_. True" "[failed_row, dependent_row, dependent_row]"]
  by (simp add: failed_row_def dependent_row_def)

theorem dependency_stays_in_execution_witness:
  "blockedCause (\<lambda>_. True) [failed_row, dependent_row] dependent_row = Some (blockerFrom (\<lambda>_. True) failed_row) \<and>
   (\<exists>root \<in> set [failed_row, dependent_row]. execution_key root = execution_key dependent_row)"
proof -
  have c: "blockedCause (\<lambda>_. True) [failed_row, dependent_row] dependent_row = Some (blockerFrom (\<lambda>_. True) failed_row)"
    by (simp add: blockedCause_def dependent_row_def failed_row_def checkedBlocker_def execution_roots_def group_by_def uniques_def has_execution_def
        is_execution_id_def chars_between_def char_class_defs execution_key_def root_of_def first_of_def)
  have "checkedBlocker (\<lambda>_. True) (be_blockedBy dependent_row) = None" "be_outcome dependent_row = ''Blocked''" "be_reason dependent_row = Some ''DEPENDENCY''"
    by (simp_all add: dependent_row_def failed_row_def checkedBlocker_def)
  from dependency_stays_in_execution [OF this(2,3,1) c] c show ?thesis
    by (auto simp: blockerFrom_def checked_fields_def failed_row_def keep_if_def)
qed

text \<open>
  Of the reasons that block a case, two have no kind of their own: the ambiguous \<open>DEPENDENCY\<close>, and
  \<open>CI_ACCESS\<close>, which the classification does not list, so that a case blocked by it is counted as
  blocked by an unknown cause.
\<close>

theorem blocked_reasons_without_kind:
  "filter (\<lambda>r. regressionBlockedKind (Some (reason_name r)) = Unknown) blockedReasons = [R_DEPENDENCY, R_CI_ACCESS]"
  by (simp add: blockedReasons_def regressionBlockedKind_def failure_reasons_def prerequisite_reasons_def)

end
