(* ===== verification/Dashboard_Core.thy ===== *)
theory Dashboard_Core
  imports Js_Library
begin

text \<open>
  The shared logic of the dashboard (\<open>packages/core/src/index.ts\<close>): roles, phases and progress, readiness of modules,
  links of modules and instances, and model names. Payloads of the API stay the JSON values they are (\<open>jsval\<close>,
  read by \<open>jget\<close> and \<open>jat\<close>); a list that the contract promises and the payload lacks reads as empty. \<open>new URL\<close> and
  \<open>localeCompare\<close> are parameters. \<open>toUpperCase\<close> and \<open>toLowerCase\<close> are those of the letters with a partner in the
  modelled code units 0 to 255. \<open>formatBytes\<close> divides floating-point numbers and is left out; \<open>formatMi\<close> is
  modelled on whole numbers, where its division is exact.
\<close>

subsection \<open>Text\<close>

text \<open>\<open>String(v ?? '')\<close>\<close>

definition shown :: "jsval option \<Rightarrow> string" where
  "shown v = text_of (nullish v (Some (JStr [])))"

text \<open>\<open>s.replace(/[p]+/g, r)\<close>\<close>

function squash :: "(char \<Rightarrow> bool) \<Rightarrow> string \<Rightarrow> string \<Rightarrow> string" where
  "squash p r [] = []"
| "squash p r (c # cs) = (if p c then r @ squash p r (dropWhile p cs) else c # squash p r cs)"
  by pat_completeness auto
termination by (relation "measure (\<lambda>(p, r, s). length s)") (auto simp: le_imp_less_Suc length_dropWhile_le)

text \<open>The words of \<open>s.split(/\s+/).filter(Boolean)\<close>.\<close>

function text_words :: "string \<Rightarrow> string list" where
  "text_words s = (case dropWhile is_space s of [] \<Rightarrow> []
     | c # cs \<Rightarrow> takeWhile (\<lambda>x. \<not> is_space x) (c # cs) # text_words (dropWhile (\<lambda>x. \<not> is_space x) (c # cs)))"
  by pat_completeness auto
termination
proof (relation "measure length")
  fix s c cs assume e: "dropWhile is_space s = c # cs"
  then have "\<not> is_space c" using hd_dropWhile [of is_space s] by force
  moreover have "length (c # cs) \<le> length s" using length_dropWhile_le [of is_space s] e by simp
  ultimately show "(dropWhile (\<lambda>x. \<not> is_space x) (c # cs), s) \<in> measure length"
    using length_dropWhile_le [of "\<lambda>x. \<not> is_space x" cs] by auto
qed simp

declare text_words.simps [simp del]

definition upper_char :: "char \<Rightarrow> char" where
  "upper_char c = (let n = (of_char c :: nat)
     in if 97 \<le> n \<and> n \<le> 122 \<or> 224 \<le> n \<and> n \<le> 254 \<and> n \<noteq> 247 then char_of (n - 32) else c)"

subsection \<open>Roles\<close>

datatype DashboardRole = Viewer | Operator | Admin

definition dashboardRole :: "jsval option \<Rightarrow> DashboardRole" where
  "dashboardRole session = (let roles = (case jat session [''roles''] of Some (JArr xs) \<Rightarrow> xs | _ \<Rightarrow> [])
     in if JStr ''magicstick-admin'' \<in> set roles then Admin
        else if JStr ''magicstick-operator'' \<in> set roles then Operator else Viewer)"

definition canMutateRuntime :: "jsval option \<Rightarrow> bool" where
  "canMutateRuntime session \<longleftrightarrow> dashboardRole session \<noteq> Viewer"

definition canAdminister :: "jsval option \<Rightarrow> bool" where
  "canAdminister session \<longleftrightarrow> dashboardRole session = Admin"

subsection \<open>Hardware\<close>

definition gpuValidationSummary :: "jsval option \<Rightarrow> string" where
  "gpuValidationSummary validation =
     (let state = text_of (nullish (jat validation [''state'']) (Some (JStr ''unverified'')))
      in if state = ''passed'' \<or> jat validation [''runtimeReady''] \<noteq> None
         then state @ '' '' @ [char_of (183::nat)] @ '' runtime '' @ (if truthy_opt (jat validation [''runtimeReady'']) then ''ready'' else ''pending'')
         else state)"

definition gpuCompatibilityParameters :: "string \<Rightarrow> jsval list \<Rightarrow> bool \<Rightarrow> (string \<times> string) list result" where
  "gpuCompatibilityParameters profileId profiles acknowledged =
     (let profile = find (\<lambda>item. jget item ''id'' = Some (JStr profileId)) profiles;
          experimental = truthy_opt (jat profile [''experimental''])
      in if profileId \<noteq> [] \<and> profile = None
         then Inl (Other ''The selected GPU compatibility profile is not available. Refresh hardware status.'')
         else if experimental \<and> \<not> acknowledged
         then Inl (Other ''Explicitly acknowledge the experimental GPU profile before enabling it.'')
         else Inr [(''compatibilityProfile'', profileId), (''allowExperimental'', if experimental \<and> acknowledged then ''true'' else ''false'')])"

subsection \<open>Phases and progress\<close>

datatype tone = Good | Warn | Bad | Neutral

record ProgressState =
  pg_value :: int
  pg_label :: string
  pg_tone :: tone
  pg_indeterminate :: bool

definition lower_phase :: "jsval option \<Rightarrow> string" where
  "lower_phase phase = toLowerCase (shown phase)"

definition phaseTone :: "jsval option \<Rightarrow> tone" where
  "phaseTone phase = (let normalized = lower_phase phase in
     if normalized \<in> set [''ready'', ''active'', ''enabled'', ''completed'', ''succeeded'', ''passed'', ''registered'', ''accepted'', ''configured''] then Good
     else if normalized \<in> set [''failed'', ''error'', ''degraded''] then Bad
     else if normalized \<in> set [''installing'', ''starting'', ''waitingforpod'', ''reconciling'', ''pending'', ''progressing'', ''blocked'', ''recovering'', ''cancelling''] then Warn
     else Neutral)"

definition phaseInProgress :: "jsval option \<Rightarrow> bool" where
  "phaseInProgress phase \<longleftrightarrow> lower_phase phase \<in> set [''requested'', ''detected'', ''installing'', ''waitingformodules'', ''waitingforcrds'',
     ''waitingforgpu'', ''waitingforpod'', ''starting'', ''reconciling'', ''removing'', ''progressing'']"

definition phaseNeedsAttention :: "jsval option \<Rightarrow> bool" where
  "phaseNeedsAttention phase \<longleftrightarrow> lower_phase phase \<in> set [''degraded'', ''failed'', ''error'', ''unsupported'', ''conflict''] \<or>
     phaseInProgress (Some (JStr (lower_phase phase)))"

text \<open>\<open>a || b\<close>\<close>

definition either :: "jsval option \<Rightarrow> jsval option \<Rightarrow> jsval option" where
  "either a b = (if truthy_opt a then a else b)"

text \<open>\<open>{...status, ...operator, message: operator.message || status?.message}\<close>; a message that is \<open>undefined\<close> reads like an absent one.\<close>

definition set_or_unset :: "string \<Rightarrow> 'v option \<Rightarrow> 'v obj \<Rightarrow> 'v obj" where
  "set_or_unset k v ob = (case v of None \<Rightarrow> odelete k ob | Some x \<Rightarrow> oset k x ob)"

definition effectiveModuleStatus :: "string \<Rightarrow> jsval \<Rightarrow> jsval option \<Rightarrow> bool option \<Rightarrow> jsval obj" where
  "effectiveModuleStatus ident state status nvidiaTelemetryAvailable =
     (let operator = jat status [''hardwareOperators'', ident]; saved = jget state ''status''
      in if \<not> truthy_opt operator then object_fields saved
         else let merged = set_or_unset ''message'' (either (jat operator [''message'']) (jat saved [''message'']))
                (oassign (object_fields saved) (object_fields operator))
           in if ident = ''gpu'' \<and> lower_phase (oget merged ''phase'') = ''ready'' \<and> nvidiaTelemetryAvailable \<noteq> Some True
              then oset ''message'' (JStr ''The NVIDIA GPU resource is published; waiting for DCGM telemetry before reporting the service ready.'')
                (oset ''phase'' (JStr ''Installing'') merged)
              else merged)"

definition state_at :: "int \<Rightarrow> string \<Rightarrow> tone \<Rightarrow> ProgressState" where
  "state_at value label tn = \<lparr>pg_value = value, pg_label = label, pg_tone = tn, pg_indeterminate = False\<rparr>"

definition progressForPhase :: "jsval option \<Rightarrow> bool \<Rightarrow> string \<Rightarrow> ProgressState" where
  "progressForPhase phase enabled message = (let normalized = lower_phase phase in
     if normalized \<in> set [''ready'', ''active'', ''completed'', ''succeeded''] then state_at 100 ''Ready'' Good
     else if normalized = ''installing'' then state_at 85 ''Waiting for hardware readiness'' Warn
     else if normalized = ''waitingformodules'' then state_at 35 ''Waiting for dependencies'' Warn
     else if normalized = ''waitingforcrds'' then state_at 45 ''Waiting for CRDs'' Warn
     else if normalized = ''waitingforgpu'' then state_at 55 ''Waiting for GPU'' Warn
     else if normalized = ''waitingforpod'' then (state_at 0 ''Waiting for model Pod'' Warn)\<lparr>pg_indeterminate := True\<rparr>
     else if normalized = ''starting'' then (state_at 85 ''Starting model runtime'' Warn)\<lparr>pg_indeterminate := True\<rparr>
     else if normalized = ''reconciling'' then state_at 70 ''Reconciling'' Warn
     else if normalized = ''removing'' then state_at 65 ''Removing'' Warn
     else if normalized \<in> set [''degraded'', ''failed'', ''error'', ''unsupported'', ''conflict'']
     then state_at 100 (if message \<noteq> [] then message else text_of (either phase (Some (JStr ''Needs attention'')))) Bad
     else if normalized \<in> set [''disabled'', ''suspended''] \<or> \<not> enabled
     then state_at 0 (if normalized = ''suspended'' then ''Suspended'' else ''Disabled'') Neutral
     else state_at 20 (text_of (either phase (Some (JStr ''Requested'')))) Warn)"

subsection \<open>Modules\<close>

fun split_camel :: "string \<Rightarrow> string" where
  "split_camel (x # y # r) = (if (is_lower x \<or> is_digit x) \<and> is_upper y then x # CHR '' '' # split_camel (y # r) else x # split_camel (y # r))"
| "split_camel s = s"

fun capitalised :: "string \<Rightarrow> string" where
  "capitalised [] = []"
| "capitalised (c # cs) = upper_char c # cs"

definition titleFromKey :: "string \<Rightarrow> string" where
  "titleFromKey value = (let title = join '' '' (map capitalised (text_words (squash (\<lambda>c. c = CHR ''-'' \<or> c = CHR ''_'') '' '' (split_camel value))))
     in if title = [] then ''Module'' else title)"

definition moduleReady :: "jsval option \<Rightarrow> jsval option \<Rightarrow> bool" where
  "moduleReady module catalog \<longleftrightarrow> jat module [''enabled''] = Some (JBool True) \<and>
     (let phase = lower_phase (jat module [''status'', ''phase'']);
          activationMode = nullish (jat module [''activationMode'']) (jat catalog [''activationMode''])
      in phase = ''ready'' \<or> activationMode = Some (JStr ''static'') \<and> phase = [])"

definition string_items :: "jsval option \<Rightarrow> string list" where
  "string_items v = (case v of Some (JArr xs) \<Rightarrow> map js_to_string xs | _ \<Rightarrow> [])"

definition missingApplicationModules :: "jsval option \<Rightarrow> jsval \<Rightarrow> jsval \<Rightarrow> string list" where
  "missingApplicationModules def modules catalog =
     filter (\<lambda>ident. \<not> moduleReady (jget modules ident) (jget catalog ident)) (string_items (jat def [''requiredModules'']))"

subsection \<open>Links\<close>

datatype link_scope = Local | Public | Direct

record ResourceLink =
  rl_url :: string
  rl_label :: string
  rl_scope :: link_scope

definition has_http_scheme :: "string \<Rightarrow> bool" where
  "has_http_scheme raw \<longleftrightarrow> startsWith (toLowerCase raw) ''http://'' \<or> startsWith (toLowerCase raw) ''https://''"

definition httpUrl :: "jsval option \<Rightarrow> string" where
  "httpUrl value = (let raw = trim (shown value)
     in if raw = [] then []
        else if has_http_scheme raw then raw
        else let bare = dropWhile (\<lambda>c. c = CHR ''/'') raw
          in ''http://'' @ (if bare \<noteq> [] \<and> last bare = CHR ''/'' then bare else bare @ ''/''))"

definition hostOf :: "url_parser \<Rightarrow> jsval option \<Rightarrow> string" where
  "hostOf parse value = (let url = httpUrl value in if url = [] then []
     else (case parse url of Some u \<Rightarrow> u_host u
       | None \<Rightarrow> (let raw = shown value;
                    schemeLength = (if startsWith (toLowerCase raw) ''https://'' then 8 else if startsWith (toLowerCase raw) ''http://'' then 7 else 0)
                 in takeWhile (\<lambda>c. c \<noteq> CHR ''/'') (drop schemeLength raw))))"

text \<open>\<open>s.replace(/:\d+$/, '')\<close>\<close>

definition drop_port :: "string \<Rightarrow> string" where
  "drop_port s = (let digits = takeWhile is_digit (rev s); before = dropWhile is_digit (rev s)
     in if digits \<noteq> [] \<and> before \<noteq> [] \<and> hd before = CHR '':'' then rev (tl before) else s)"

definition hostnameOf :: "url_parser \<Rightarrow> jsval option \<Rightarrow> string" where
  "hostnameOf parse value = (let url = httpUrl value in if url = [] then []
     else (case parse url of Some u \<Rightarrow> u_hostname u | None \<Rightarrow> drop_port (hostOf parse value)))"

text \<open>\<open>/^\d{1,3}(\.\d{1,3}){3}$/\<close>\<close>

definition is_ipv4 :: "string \<Rightarrow> bool" where
  "is_ipv4 s \<longleftrightarrow> length (split_on (CHR ''.'') s) = 4 \<and> list_all (chars_between 1 3 is_digit) (split_on (CHR ''.'') s)"

definition scopeOf :: "url_parser \<Rightarrow> string \<Rightarrow> link_scope" where
  "scopeOf parse url = (let name = hostnameOf parse (Some (JStr url))
     in if endsWith name ''.local'' then Local else if is_ipv4 name \<or> name = ''localhost'' then Direct else Public)"

definition linkFromUrl :: "url_parser \<Rightarrow> jsval option \<Rightarrow> ResourceLink option" where
  "linkFromUrl parse value = (let url = httpUrl value; host = hostOf parse (Some (JStr url))
     in if url = [] then None else Some \<lparr>rl_url = url, rl_label = (if host = [] then url else host), rl_scope = scopeOf parse url\<rparr>)"

definition link_key :: "ResourceLink \<Rightarrow> string" where
  "link_key link = (let url = rl_url link in if url \<noteq> [] \<and> last url = CHR ''/'' then butlast url else url)"

fun first_links :: "string set \<Rightarrow> ResourceLink option list \<Rightarrow> ResourceLink list" where
  "first_links seen [] = []"
| "first_links seen (None # links) = first_links seen links"
| "first_links seen (Some link # links) =
     (if link_key link = [] \<or> link_key link \<in> seen then first_links seen links
      else link # first_links (insert (link_key link) seen) links)"

fun scope_rank :: "link_scope \<Rightarrow> int" where
  "scope_rank Local = 10"
| "scope_rank Public = 20"
| "scope_rank Direct = 30"

definition compare_links :: "(string \<Rightarrow> string \<Rightarrow> int) \<Rightarrow> ResourceLink \<Rightarrow> ResourceLink \<Rightarrow> int" where
  "compare_links localeCompare a b = (let d = scope_rank (rl_scope a) - scope_rank (rl_scope b)
     in if d \<noteq> 0 then d else localeCompare (rl_label a) (rl_label b))"

definition uniqueLinks :: "(string \<Rightarrow> string \<Rightarrow> int) \<Rightarrow> ResourceLink option list \<Rightarrow> ResourceLink list" where
  "uniqueLinks localeCompare links = sort_by (compare_links localeCompare) (first_links {} links)"

definition normalizedKey :: "jsval option \<Rightarrow> string" where
  "normalizedKey value = filter (\<lambda>c. is_lower c \<or> is_digit c) (toLowerCase (shown value))"

definition list_items :: "jsval option \<Rightarrow> jsval list" where
  "list_items v = (case v of Some (JArr xs) \<Rightarrow> xs | _ \<Rightarrow> [])"

definition routeLinks :: "url_parser \<Rightarrow> jsval list \<Rightarrow> ResourceLink option list" where
  "routeLinks parse routes = concat (map (\<lambda>route. if jget route ''accepted'' = Some (JBool True)
     then map (\<lambda>host. linkFromUrl parse (Some (JStr (''https://'' @ js_to_string host)))) (list_items (jget route ''hostnames'')) else []) routes)"

definition ingressLinks :: "url_parser \<Rightarrow> jsval list \<Rightarrow> ResourceLink option list" where
  "ingressLinks parse ingresses = concat (map (\<lambda>ingress. map (\<lambda>host. linkFromUrl parse (Some host)) (list_items (jget ingress ''hosts''))) ingresses)"

definition resource_hosts :: "jsval \<Rightarrow> jsval list" where
  "resource_hosts resource = list_items (nullish (jget resource ''hosts'') (jget resource ''hostnames''))"

definition module_matches :: "url_parser \<Rightarrow> string list \<Rightarrow> bool \<Rightarrow> jsval \<Rightarrow> bool" where
  "module_matches parse keys allowContains resource =
     (let labeled = filter (\<lambda>k. k \<noteq> []) (map normalizedKey [jat (Some resource) [''labels'', ''app''],
            jat (Some resource) [''labels'', ''app.kubernetes.io/name''], jat (Some resource) [''labels'', ''appliance.magicstick.dev/module''],
            jat (Some resource) [''annotations'', ''dashboard.ai-appliance.io/title'']]);
          resourceName = normalizedKey (jget resource ''name'')
      in list_ex (\<lambda>k. k \<in> set keys) labeled \<or> resourceName \<in> set keys \<or>
         allowContains \<and> list_ex (\<lambda>k. sublist k resourceName) keys \<or>
         list_ex (\<lambda>host. list_ex (\<lambda>part. normalizedKey (Some (JStr part)) \<in> set keys) (split_on (CHR ''.'') (hostOf parse (Some host))))
           (resource_hosts resource))"

definition moduleResourceLinks :: "url_parser \<Rightarrow> (string \<Rightarrow> string \<Rightarrow> int) \<Rightarrow> string \<Rightarrow> jsval option \<Rightarrow> jsval option \<Rightarrow> ResourceLink list" where
  "moduleResourceLinks parse localeCompare name catalog status =
     (let keys = uniques (filter (\<lambda>k. k \<noteq> []) (map (\<lambda>s. normalizedKey (Some (JStr s))) (name # string_items (jat catalog [''aliases'']))));
          matches = module_matches parse keys (jat catalog [''activationMode''] = Some (JStr ''static''))
      in uniqueLinks localeCompare (ingressLinks parse (filter matches (list_items (jat status [''ingresses'']))) @
           routeLinks parse (filter matches (list_items (jat status [''httpRoutes''])))))"

text \<open>\<open>typeof v === 'object' && v ? v : {}\<close>; an array has none of the keys that are read.\<close>

definition object_or_empty :: "jsval option \<Rightarrow> jsval" where
  "object_or_empty v = (case v of Some (JObj ob) \<Rightarrow> JObj ob | _ \<Rightarrow> JObj [])"

definition configured_hosts :: "url_parser \<Rightarrow> jsval \<Rightarrow> string list" where
  "configured_hosts parse inst =
     (let values = object_or_empty (jat (Some inst) [''spec'', ''values'']); server = object_or_empty (jget values ''server'');
          ingress = object_or_empty (jget values ''ingress''); serverIngress = object_or_empty (jget server ''ingress'')
      in filter (\<lambda>h. h \<noteq> []) (map (hostOf parse) [jat (Some inst) [''status'', ''url''], jat (Some inst) [''status'', ''localURL''],
           jat (Some inst) [''status'', ''publicURL''], jget ingress ''host'', jget serverIngress ''host'', jget values ''host'']))"

definition instance_matches :: "url_parser \<Rightarrow> string \<Rightarrow> string list \<Rightarrow> jsval \<Rightarrow> bool" where
  "instance_matches parse instanceName hosts resource =
     (let resourceName = toLowerCase (shown (jget resource ''name''));
          appInstance = toLowerCase (shown (jat (Some resource) [''labels'', ''appliance.magicstick.dev/appinstance'']))
      in if endsWith resourceName ''-callback'' then False
         else instanceName \<noteq> [] \<and> (resourceName = instanceName \<or> startsWith resourceName (instanceName @ ''-'') \<or> appInstance = instanceName) \<or>
           list_ex (\<lambda>host. hostOf parse (Some host) \<in> set hosts) (resource_hosts resource))"

definition instanceResourceLinks :: "url_parser \<Rightarrow> (string \<Rightarrow> string \<Rightarrow> int) \<Rightarrow> jsval \<Rightarrow> jsval option \<Rightarrow> ResourceLink list" where
  "instanceResourceLinks parse localeCompare inst status =
     (let instanceName = toLowerCase (shown (jat (Some inst) [''metadata'', ''name'']));
          matches = instance_matches parse instanceName (configured_hosts parse inst)
      in uniqueLinks localeCompare (ingressLinks parse (filter matches (list_items (jat status [''ingresses'']))) @
           routeLinks parse (filter matches (list_items (jat status [''httpRoutes'']))) @
           map (\<lambda>k. linkFromUrl parse (jat (Some inst) [''status'', k])) [''localURL'', ''publicURL'', ''url'']))"

subsection \<open>Sizes\<close>

text \<open>\<open>(n / d).toFixed(k)\<close> for a quotient that is exact: the larger of two nearest decimals.\<close>

definition to_fixed :: "nat \<Rightarrow> int \<Rightarrow> int \<Rightarrow> string" where
  "to_fixed k n d = (let scaled = (2 * n * 10 ^ k + d) div (2 * d)
     in if k = 0 then show_int scaled else show_int (scaled div 10 ^ k) @ ''.'' @ pad_nat k (nat (scaled mod 10 ^ k)))"

definition formatMi :: "int option \<Rightarrow> string" where
  "formatMi value = (case value of None \<Rightarrow> ''unknown''
     | Some mib \<Rightarrow> if mib \<ge> 1024 then to_fixed (if mib \<ge> 10240 then 0 else 1) mib 1024 @ '' GiB'' else show_int mib @ '' MiB'')"

subsection \<open>Instances and variants\<close>

record FlatInstance =
  fi_type :: string
  fi_name :: string
  fi_value :: jsval

definition flattenInstances :: "jsval option \<Rightarrow> FlatInstance list" where
  "flattenInstances payload = concat (map (\<lambda>(type, items). map (\<lambda>value. \<lparr>fi_type = type,
       fi_name = text_of (nullish (jat (Some value) [''metadata'', ''name'']) (Some (JStr ''unnamed''))), fi_value = value\<rparr>) (list_items (Some items)))
     (object_fields (jat payload [''instances''])))"

definition matchingVariants :: "jsval list \<Rightarrow> string \<Rightarrow> string \<Rightarrow> jsval list" where
  "matchingVariants variants engine computeTarget =
     filter (\<lambda>variant. jget variant ''engine'' = Some (JStr engine) \<and> jget variant ''computeTarget'' = Some (JStr computeTarget)) variants"

definition selectedArtifact :: "jsval option \<Rightarrow> string option \<Rightarrow> jsval option" where
  "selectedArtifact variant ident =
     (let artifacts = list_items (jat variant [''artifacts''])
      in case find (\<lambda>a. jget a ''id'' = map_option JStr ident) artifacts of
           Some a \<Rightarrow> Some a
         | None \<Rightarrow> (case find (\<lambda>a. strict_opt (jget a ''id'') (jat variant [''defaultArtifact''])) artifacts of
             Some a \<Rightarrow> Some a
           | None \<Rightarrow> (case artifacts of [] \<Rightarrow> None | a # _ \<Rightarrow> Some a)))"

subsection \<open>Model names\<close>

text \<open>\<open>/^[a-z0-9](?:[-a-z0-9]*[a-z0-9])?$/\<close>\<close>

definition is_model_name :: "string \<Rightarrow> bool" where
  "is_model_name s \<longleftrightarrow> s \<noteq> [] \<and> is_name_start (hd s) \<and> list_all is_name_char s \<and> is_name_start (last s)"

definition modelNameError :: "string \<Rightarrow> string list \<Rightarrow> string option" where
  "modelNameError value existingNames = (let name = trim value
     in if name = [] then Some ''Enter a model name.''
        else if 63 < length name then Some ''Use at most 63 characters for the model name.''
        else if \<not> is_model_name name then Some ''Use lowercase letters, numbers and hyphens. Start and end with a letter or number.''
        else if name \<in> set existingNames then Some ''A model with this name already exists. Choose another name.''
        else None)"

text \<open>\<open>reference.replace(/^[a-z]+:\/\//i, '')\<close>\<close>

definition drop_scheme :: "string \<Rightarrow> string" where
  "drop_scheme s = (let letters = takeWhile is_alpha s; rest = dropWhile is_alpha s
     in if letters \<noteq> [] \<and> startsWith rest ''://'' then drop 3 rest else s)"

definition is_dash :: "char \<Rightarrow> bool" where
  "is_dash c \<longleftrightarrow> c = CHR ''-''"

definition safeModelName :: "string \<Rightarrow> string" where
  "safeModelName reference =
     (let tail = last (split_on (CHR ''/'') (drop_scheme reference));
          normalized = squash (\<lambda>c. \<not> is_name_char c) ''-'' (toLowerCase tail);
          front = take 48 (dropWhile is_dash normalized);
          name = rev (dropWhile is_dash (rev front))
      in if name = [] then ''model'' else name)"

subsection \<open>Names that are generated are accepted\<close>

lemma list_all_squash: "list_all q r \<Longrightarrow> (\<And>c. \<not> p c \<Longrightarrow> q c) \<Longrightarrow> list_all q (squash p r s)"
  by (induction p r s rule: squash.induct) auto

lemma list_all_dropWhile: "list_all q s \<Longrightarrow> list_all q (dropWhile p s)"
  by (auto simp: list_all_iff dest: set_dropWhileD)

lemma hd_dropWhile_not: "dropWhile p s \<noteq> [] \<Longrightarrow> \<not> p (hd (dropWhile p s))"
  by (rule hd_dropWhile)

lemma name_char_no_space: "is_name_char c \<Longrightarrow> \<not> is_space c"
  by (auto simp: char_class_defs is_space_def)

lemma trim_no_space: "list_all (\<lambda>c. \<not> is_space c) s \<Longrightarrow> trim s = s"
proof -
  assume "list_all (\<lambda>c. \<not> is_space c) s"
  then have "\<forall>c \<in> set s. \<not> is_space c" "\<forall>c \<in> set (rev s). \<not> is_space c" by (simp_all add: list_all_iff)
  then have "dropWhile is_space s = s" "dropWhile is_space (rev s) = rev s"
    by (metis dropWhile_eq_self_iff hd_in_set)+
  then show ?thesis by (simp add: trim_def)
qed

lemma rev_dropWhile_prefix: "\<exists>xs. s = rev (dropWhile p (rev s)) @ xs"
  by (metis rev_append rev_rev_ident takeWhile_dropWhile_id)

text \<open>Dropping dashes at both ends of a text over \<open>[a-z0-9-]\<close> leaves a name, if anything.\<close>

lemma stripped_name:
  assumes "list_all is_name_char s" and "s = [] \<or> \<not> is_dash (hd s)" and "rev (dropWhile is_dash (rev s)) \<noteq> []"
  shows "is_model_name (rev (dropWhile is_dash (rev s)))"
proof -
  let ?n = "rev (dropWhile is_dash (rev s))"
  obtain xs where xs: "s = ?n @ xs" using rev_dropWhile_prefix by blast
  then have all: "list_all is_name_char ?n" using assms(1) by (metis list_all_append)
  have h: "hd s = hd ?n" "s \<noteq> []" using xs assms(3) by (metis hd_append2) (use assms(3) in auto)
  have "last ?n = hd (dropWhile is_dash (rev s))" using assms(3) by (simp add: last_rev)
  then have "\<not> is_dash (last ?n)" using hd_dropWhile_not [of is_dash "rev s"] assms(3) by simp
  moreover have "\<not> is_dash (hd ?n)" using h assms(2) by simp
  moreover have "is_name_char (hd ?n)" "is_name_char (last ?n)"
    using all assms(3) hd_in_set [of ?n] last_in_set [of ?n] by (auto simp: list_all_iff simp del: rev_is_Nil_conv set_rev)
  ultimately show ?thesis using all assms(3) by (auto simp: is_model_name_def is_dash_def is_name_char_def is_name_start_def)
qed

lemma safeModelName_ok: "is_model_name (safeModelName r) \<and> length (safeModelName r) \<le> 48"
proof -
  define normalized where "normalized = squash (\<lambda>c. \<not> is_name_char c) ''-'' (toLowerCase (last (split_on (CHR ''/'') (drop_scheme r))))"
  define front where "front = take 48 (dropWhile is_dash normalized)"
  have "list_all is_name_char normalized" unfolding normalized_def by (rule list_all_squash) (auto simp: char_class_defs)
  then have f: "list_all is_name_char front" by (auto simp: front_def list_all_iff dest: set_dropWhileD in_set_takeD)
  have h: "front = [] \<or> \<not> is_dash (hd front)"
    using hd_dropWhile_not [of is_dash normalized] by (cases "dropWhile is_dash normalized") (auto simp: front_def)
  have l: "length (rev (dropWhile is_dash (rev front))) \<le> 48"
    using length_dropWhile_le [of is_dash "rev front"] by (simp add: front_def)
  have "safeModelName r = (let name = rev (dropWhile is_dash (rev front)) in if name = [] then ''model'' else name)"
    by (simp add: safeModelName_def front_def normalized_def Let_def)
  then show ?thesis using stripped_name [OF f h] l
    by (auto simp: Let_def is_model_name_def char_class_defs)
qed

subsection \<open>Links\<close>

lemma first_links_keys: "link_key ` set (first_links seen links) = {link_key l | l. Some l \<in> set links} - insert [] seen"
  by (induction seen links rule: first_links.induct) auto

lemma first_links_distinct: "distinct (map link_key (first_links seen links))"
  by (induction seen links rule: first_links.induct) (use first_links_keys in auto)

lemma first_links_subset: "set (first_links seen links) \<subseteq> {l. Some l \<in> set links}"
  by (induction seen links rule: first_links.induct) auto

subsection \<open>Properties\<close>

text \<open>
  Whatever the reference of a model, the name that is proposed for it has at most 48 characters and passes the
  check of model names; the only objection left is that the name is taken.
\<close>

theorem safe_model_name_accepted:
  "length (safeModelName reference) \<le> 48 \<and>
   modelNameError (safeModelName reference) names = (if safeModelName reference \<in> set names
     then Some ''A model with this name already exists. Choose another name.'' else None)"
proof -
  have ok: "is_model_name (safeModelName reference)" "length (safeModelName reference) \<le> 48" using safeModelName_ok by auto
  then have "list_all (\<lambda>c. \<not> is_space c) (safeModelName reference)"
    by (auto simp: is_model_name_def list_all_iff dest: name_char_no_space)
  then have "trim (safeModelName reference) = safeModelName reference" by (rule trim_no_space)
  with ok show ?thesis by (auto simp: modelNameError_def Let_def is_model_name_def)
qed

text \<open>
  The links of a module come from the accepted resources, one per address up to a trailing slash, and local
  addresses stand before public ones and public ones before direct ones.
\<close>

theorem links_unique_and_ordered:
  "distinct (map link_key (uniqueLinks localeCompare links)) \<and>
   link_key ` set (uniqueLinks localeCompare links) = {link_key l | l. Some l \<in> set links} - {[]} \<and>
   set (uniqueLinks localeCompare links) \<subseteq> {l. Some l \<in> set links} \<and>
   sorted (map (\<lambda>l. scope_rank (rl_scope l)) (uniqueLinks localeCompare links))"
proof (intro conjI)
  show "sorted (map (\<lambda>l. scope_rank (rl_scope l)) (uniqueLinks localeCompare links))"
    unfolding uniqueLinks_def by (rule sorted_sort_by) (auto simp: compare_links_def Let_def split: if_splits)
qed (simp_all add: uniqueLinks_def first_links_keys first_links_subset first_links_distinct distinct_map_sort_by)

end
