(* ===== verification/Local_Model.thy ===== *)
theory Local_Model
  imports Dashboard_Core
begin

text \<open>
  Drafts of local models (\<open>packages/core/src/local-model-configuration.ts\<close> with the draft types of
  \<open>packages/contracts/src/index.ts\<close>): the draft that a form starts from, the payload that creates a model, and the
  changes that an edit sends. Numbers of payloads stay values; \<open>Number(s)\<close> of a text and \<open>Math.round\<close> of a
  fraction are parameters. Sizes in texts are exact as long as their numeral has at most 15 digits.
\<close>

subsection \<open>Data\<close>

datatype LocalModelEngine = VLLM | OLlama

datatype LocalModelSource = FromSearch | FromPreset | FromDirect

record RealtimeConfiguration =
  rt_profile :: string
  rt_gpuNode :: string
  rt_gpuCount :: jsval
  rt_systemMemoryMi :: jsval
  rt_gpuMemoryFraction :: jsval
  rt_thinkerCpuOffloadGiB :: jsval
  rt_runtimeImage :: "string option"
  rt_restartNonce :: "string option"

record StandardSettings =
  st_kvCacheType :: string
  st_selectedMi :: int
  st_hostMemoryMi :: int
  st_cpuOffloading :: bool
  st_gpuDevices :: "jsval list"
  st_gpuDeployment :: jsval
  st_parallelism :: jsval

datatype draft_kind = Standard StandardSettings | Omni RealtimeConfiguration

record LocalModelDraft =
  dr_name :: string
  dr_engine :: LocalModelEngine
  dr_computeTarget :: string
  dr_url :: string
  dr_source :: LocalModelSource
  dr_presetId :: string
  dr_artifactId :: string
  dr_modelType :: string
  dr_contextWindow :: jsval
  dr_maxNumSeqs :: jsval
  dr_maxOutputTokens :: string
  dr_kind :: draft_kind

record LocalModelConfigurationPolicy =
  po_sources :: "LocalModelSource list"
  po_discovery :: string
  po_memory :: string
  po_task :: string
  po_maxOutputTokens :: bool

record LocalModelSerializationOptions =
  op_cpuResources :: "jsval option"
  op_cpuChanged :: bool
  op_vllm :: "jsval obj"
  op_deploymentChanged :: bool
  op_allowMemoryRisk :: "bool option"
  op_initialAllowMemoryRisk :: "bool option"

record number_env =
  ne_number :: "string \<Rightarrow> jsval"
  ne_round :: "string \<Rightarrow> int"

fun engine_name :: "LocalModelEngine \<Rightarrow> string" where
  "engine_name VLLM = ''VLLM''"
| "engine_name OLlama = ''OLlama''"

definition no_options :: LocalModelSerializationOptions where
  "no_options = \<lparr>op_cpuResources = None, op_cpuChanged = False, op_vllm = [], op_deploymentChanged = False,
     op_allowMemoryRisk = None, op_initialAllowMemoryRisk = None\<rparr>"

subsection \<open>Numbers and references\<close>

text \<open>\<open>Number(v)\<close>\<close>

fun js_number :: "number_env \<Rightarrow> jsval option \<Rightarrow> jsval" where
  "js_number env None = JFloat ''NaN''"
| "js_number env (Some JNull) = JInt 0"
| "js_number env (Some (JBool b)) = JInt (if b then 1 else 0)"
| "js_number env (Some (JInt i)) = JInt i"
| "js_number env (Some (JFloat f)) = JFloat f"
| "js_number env (Some v) = ne_number env (js_to_string v)"

definition modelEditRevision :: "jsval option \<Rightarrow> string" where
  "modelEditRevision activation =
     (let uid = jat activation [''metadata'', ''uid'']; gen = jat activation [''metadata'', ''generation'']
      in if truthy_opt uid \<and> (\<exists>g \<in> (case gen of Some (JInt i) \<Rightarrow> {i} | _ \<Rightarrow> {}). 0 < g)
         then ''generation:'' @ text_of uid @ '':'' @ text_of gen else shown (jat activation [''metadata'', ''resourceVersion'']))"

text \<open>\<open>\d+(?:\.\d+)?\<close> at the start: the digits before and after the point, and the rest.\<close>

definition leading_decimal :: "string \<Rightarrow> (string \<times> string \<times> string) option" where
  "leading_decimal s = (let whole = takeWhile is_digit s; rest = dropWhile is_digit s
     in if whole = [] then None
        else if startsWith rest ''.'' \<and> takeWhile is_digit (tl rest) \<noteq> []
        then Some (whole, takeWhile is_digit (tl rest), dropWhile is_digit (tl rest))
        else Some (whole, [], rest))"

text \<open>The factor to Mi as a quotient.\<close>

definition unit_factor :: "string \<Rightarrow> (int \<times> int) option" where
  "unit_factor s = (let u = toLowerCase s in
     if u = ''ki'' then Some (1, 1024) else if u = ''mi'' \<or> u = [] then Some (1, 1)
     else if u = ''gi'' then Some (1024, 1) else if u = ''ti'' then Some (1024 * 1024, 1) else None)"

definition parse_size :: "string \<Rightarrow> int" where
  "parse_size s = (case leading_decimal s of
     None \<Rightarrow> 0
   | Some (whole, frac, rest) \<Rightarrow>
       (case unit_factor (dropWhile is_space rest) of
          None \<Rightarrow> 0
        | Some (num, den) \<Rightarrow> (let n = int (digits_value (whole @ frac)) * num; d = 10 ^ length frac * den in (2 * n + d) div (2 * d))))"

definition parseMemoryMi :: "number_env \<Rightarrow> jsval option \<Rightarrow> int" where
  "parseMemoryMi env value = (case value of
     Some (JInt i) \<Rightarrow> max 0 i
   | Some (JFloat f) \<Rightarrow> if f \<in> {''NaN'', ''Infinity'', ''-Infinity''} then 0 else max 0 (ne_round env f)
   | _ \<Rightarrow> max 0 (parse_size (trim (shown value))))"

definition drop_first_prefix :: "string list \<Rightarrow> string \<Rightarrow> string" where
  "drop_first_prefix ps s = (case find (startsWith s) ps of None \<Rightarrow> s | Some p \<Rightarrow> drop (length p) s)"

definition is_repo_name :: "string \<Rightarrow> bool" where
  "is_repo_name s \<longleftrightarrow> s \<noteq> [] \<and> is_alnum (hd s) \<and> list_all (is_alnum_or ''_.-'') s"

definition is_hf_repo :: "string \<Rightarrow> bool" where
  "is_hf_repo s = (case split_on (CHR ''/'') s of [a, b] \<Rightarrow> is_repo_name a \<and> is_repo_name b | _ \<Rightarrow> False)"

definition normalizeHuggingFaceReference :: "string \<Rightarrow> string" where
  "normalizeHuggingFaceReference value =
     (let bare = drop_first_prefix [''hf://'', ''https://www.huggingface.co/'', ''https://huggingface.co/''] (trim value);
          repo = (if bare \<noteq> [] \<and> last bare = CHR ''/'' then butlast bare else bare)
      in if is_hf_repo repo then ''hf://'' @ repo else [])"

text \<open>The default amount of memory; \<open>Math.floor(x * .9)\<close> of a whole number is \<open>9 x div 10\<close>.\<close>

definition whole :: "jsval option \<Rightarrow> int option" where
  "whole v = (case v of Some (JInt i) \<Rightarrow> Some i | _ \<Rightarrow> None)"

definition whole_or :: "int \<Rightarrow> jsval option \<Rightarrow> int" where
  "whole_or d v = (case whole v of Some i \<Rightarrow> i | None \<Rightarrow> d)"

definition realtimeDefaultRam :: "jsval option \<Rightarrow> jsval option \<Rightarrow> int" where
  "realtimeDefaultRam profile device =
     (let memory = whole_or 0 (jat device [''systemMemoryMi''])
      in min (if memory = 0 then 16384 else memory)
           (max (whole_or 16384 (jat profile [''defaultSystemMemoryMi'']))
             (if jat device [''gpuAllocationMode''] = Some (JStr ''shared-gtt'')
              then (9 * whole_or 0 (jat device [''gpuMemoryMi''])) div 10 + whole_or 8192 (jat profile [''hostRuntimeHeadroomMi'']) else 0)))"

subsection \<open>The policy and the first draft\<close>

definition realtime_policy :: LocalModelConfigurationPolicy where
  "realtime_policy = \<lparr>po_sources = [FromSearch, FromDirect], po_discovery = ''repository'', po_memory = ''staged'', po_task = ''realtime'', po_maxOutputTokens = False\<rparr>"

definition standard_policy :: LocalModelConfigurationPolicy where
  "standard_policy = \<lparr>po_sources = [FromSearch, FromPreset, FromDirect], po_discovery = ''artifacts'', po_memory = ''estimate'', po_task = ''detect'', po_maxOutputTokens = True\<rparr>"

text \<open>The advertised policy is passed on as it is; otherwise the form keeps one of the two above.\<close>

definition localModelConfigurationPolicy :: "jsval \<Rightarrow> string \<Rightarrow> string option \<Rightarrow> jsval + LocalModelConfigurationPolicy" where
  "localModelConfigurationPolicy models engine profile =
     (let def = jat (Some models) [''computeTargets'', ''engineCatalog'', engine];
          selected = (case profile of Some p \<Rightarrow> if p = [] then None else Some p | None \<Rightarrow> None);
          advertised = (case selected of Some p \<Rightarrow> jat def [''realtimeProfiles'', p, ''configuration''] | None \<Rightarrow> jat def [''configuration''])
      in case nullish advertised None of Some v \<Rightarrow> Inl v | None \<Rightarrow> Inr (if selected \<noteq> None then realtime_policy else standard_policy))"

text \<open>\<open>record(v)\<close>\<close>

definition plain_record :: "jsval option \<Rightarrow> jsval" where
  "plain_record v = (case v of Some (JObj ob) \<Rightarrow> JObj ob | _ \<Rightarrow> JObj [])"

text \<open>\<open>a ?? b ?? c\<close>\<close>

fun coalesce :: "jsval option list \<Rightarrow> jsval option" where
  "coalesce [] = None"
| "coalesce [v] = v"
| "coalesce (v # w # vs) = nullish v (coalesce (w # vs))"

abbreviation js_text :: "string \<Rightarrow> jsval option" where
  "js_text s \<equiv> Some (JStr s)"

definition positive :: "jsval option \<Rightarrow> bool" where
  "positive v \<longleftrightarrow> (case v of Some (JInt i) \<Rightarrow> 0 < i | _ \<Rightarrow> False)"

definition realtime_device :: "jsval \<Rightarrow> string \<Rightarrow> jsval \<Rightarrow> jsval \<Rightarrow> jsval option" where
  "realtime_device models profileId saved local =
     (let devices = list_items (jat (Some models) [''computeTargets'', ''realtimeDevices''])
      in case find (\<lambda>item. jget item ''profile'' = js_text profileId \<and> strict_opt (jget item ''node'') (jget saved ''gpuNode'') \<and>
             (\<not> truthy_opt (jget local ''computeTarget'') \<or> strict_opt (jget item ''computeTarget'') (jget local ''computeTarget''))) devices of
           Some d \<Rightarrow> Some d
         | None \<Rightarrow> find (\<lambda>item. jget item ''profile'' = js_text profileId \<and> truthy_opt (jget item ''supported'') \<and>
             (jget item ''computeTarget'' = js_text ''cpu'' \<or> positive (jget item ''freeGpuCount''))) devices)"

definition free_target :: "jsval \<Rightarrow> LocalModelEngine \<Rightarrow> jsval option" where
  "free_target models engine =
     find (\<lambda>item. truthy_opt (jget item ''available'') \<and>
         truthy_opt (nullish (jat (Some item) [''engineAvailability'', engine_name engine, ''available''])
           (Some (JBool (JStr (engine_name engine) \<in> set (list_items (jget item ''engines'')))))) \<and>
         positive (nullish (jat (Some item) [''slots'', ''free'']) (Some (JInt 1))))
       (list_items (jat (Some models) [''computeTargets'', ''targets'']))"

definition saved_devices :: "jsval \<Rightarrow> jsval \<Rightarrow> jsval list" where
  "saved_devices local sharing =
     (case nullish (jget local ''gpuDevices'') None of
        Some v \<Rightarrow> list_items (Some v)
      | None \<Rightarrow> if truthy_opt (jget local ''gpuDevice'') then [the (jget local ''gpuDevice'')]
          else (case nullish (jget sharing ''devices'') None of
             Some v \<Rightarrow> list_items (Some v)
           | None \<Rightarrow> if truthy_opt (jget sharing ''device'') \<and> truthy_opt (jget sharing ''nodeUid'')
               then [JObj (field ''uuid'' (jget sharing ''device'') @ field ''nodeUid'' (jget sharing ''nodeUid'') @ field ''nodeName'' (jget sharing ''node''))]
               else []))"

definition first_card :: "jsval \<Rightarrow> jsval option" where
  "first_card models =
     Option.bind (find (\<lambda>item. jget item ''computeTarget'' = js_text ''nvidia-gpu'' \<and> truthy_opt (jget item ''gpuDevice'') \<and>
         jat (Some item) [''slots'', ''scope''] = js_text ''device'' \<and> positive (nullish (jat (Some item) [''slots'', ''free'']) (Some (JInt 0))))
       (list_items (jat (Some models) [''computeMemory'', ''devices'']))) (\<lambda>item. jget item ''gpuDevice'')"

definition draft_engine :: "jsval \<Rightarrow> jsval \<Rightarrow> string \<Rightarrow> LocalModelEngine" where
  "draft_engine local status choice =
     (if text_of (coalesce [jget local ''engine'', jget status ''engine'', js_text choice]) = ''OLlama'' then OLlama else VLLM)"

definition text_if_truthy :: "jsval option \<Rightarrow> string option" where
  "text_if_truthy v = (if truthy_opt v then Some (text_of v) else None)"

definition standard_settings :: "number_env \<Rightarrow> jsval \<Rightarrow> bool \<Rightarrow> jsval \<Rightarrow> jsval \<Rightarrow> LocalModelEngine \<Rightarrow> string \<Rightarrow> StandardSettings" where
  "standard_settings env models editing local status engine computeTarget =
     (let sharing = plain_record (jget status ''gpuSharing'');
          gpuDevices = (if computeTarget = ''nvidia-gpu'' then if editing then saved_devices local sharing
            else (case first_card models of Some d \<Rightarrow> [d] | None \<Rightarrow> []) else []);
          budget = (if computeTarget = ''cpu'' then parseMemoryMi env (nullish (jget local ''memoryRequiredMi'') (jget status ''memoryRequiredMi''))
            else parseMemoryMi env (coalesce [jget local ''vramMi'', jget local ''vram'', jget status ''vramRequiredMi'']));
          host = parseMemoryMi env (nullish (jget local ''memoryRequiredMi'') (jget status ''memoryRequiredMi''));
          cache = Option.bind (find (\<lambda>item. jget item ''id'' = js_text computeTarget) (list_items (jat (Some models) [''computeTargets'', ''targets''])))
            (\<lambda>item. case list_items (jat (Some item) [''kvCacheTypes'', engine_name engine]) of [] \<Rightarrow> None | k # _ \<Rightarrow> jget k ''value'')
      in \<lparr>st_kvCacheType = text_of (coalesce [jget local ''kvCacheType'', cache, js_text (if engine = OLlama then ''f16'' else ''auto'')]),
          st_selectedMi = max 100 (if budget = 0 then 100 else budget), st_hostMemoryMi = max 100 (if host = 0 then 16400 else host),
          st_cpuOffloading = (jget local ''cpuOffloading'' = Some (JBool True)), st_gpuDevices = gpuDevices,
          st_gpuDeployment = the (nullish (jget local ''gpuDeployment'') (js_text (if 1 < length gpuDevices then ''split'' else ''single''))),
          st_parallelism = the (nullish (jget (plain_record (jget local ''vllm'')) ''parallelism'') (js_text ''auto''))\<rparr>)"

definition realtime_settings :: "number_env \<Rightarrow> jsval \<Rightarrow> string \<Rightarrow> jsval option \<Rightarrow> jsval option \<Rightarrow> RealtimeConfiguration" where
  "realtime_settings env saved profileId profile device =
     \<lparr>rt_profile = profileId, rt_gpuNode = text_of (coalesce [jget saved ''gpuNode'', jat device [''node''], js_text []]),
      rt_gpuCount = js_number env (nullish (jget saved ''gpuCount'') (Some (JInt 1))),
      rt_systemMemoryMi = js_number env (nullish (jget saved ''systemMemoryMi'') (Some (JInt (realtimeDefaultRam profile device)))),
      rt_gpuMemoryFraction = js_number env (nullish (jget saved ''gpuMemoryFraction'') (Some (JFloat ''0.9''))),
      rt_thinkerCpuOffloadGiB = js_number env (nullish (jget saved ''thinkerCpuOffloadGiB'') (Some (JInt 0))),
      rt_runtimeImage = text_if_truthy (jget saved ''runtimeImage''), rt_restartNonce = text_if_truthy (jget saved ''restartNonce'')\<rparr>"

definition initialLocalModelDraft :: "number_env \<Rightarrow> jsval \<Rightarrow> string \<Rightarrow> jsval option \<Rightarrow> string \<Rightarrow> LocalModelDraft" where
  "initialLocalModelDraft env models engineChoice activation name =
     (let local = plain_record (jat activation [''spec'', ''local'']); status = plain_record (jat activation [''status'']);
          engine = draft_engine local status engineChoice;
          omni = (truthy_opt (jget local ''realtime'') \<or> engineChoice = ''VLLM-Omni'');
          profiles = plain_record (jat (Some models) [''computeTargets'', ''engineCatalog'', ''VLLM'', ''realtimeProfiles'']);
          saved = plain_record (jget local ''realtime'');
          profileId = text_of (coalesce [jget saved ''profile'', (case keys_of profiles of [] \<Rightarrow> None | k # _ \<Rightarrow> js_text k), js_text []]);
          profile = jget profiles profileId;
          device = realtime_device models profileId saved local;
          target = free_target models engine;
          computeTarget = text_of (coalesce [jget local ''computeTarget'', jget status ''computeTarget'',
            (if omni then coalesce [jat device [''computeTarget''], (case list_items (jat profile [''computeTargets'']) of [] \<Rightarrow> None | c # _ \<Rightarrow> Some c), js_text ''nvidia-gpu'']
             else nullish (jat target [''id'']) (js_text []))]);
          ownName = text_of (nullish (jat activation [''metadata'', ''name'']) (js_text name))
      in \<lparr>dr_name = (if omni \<and> ownName = [] then ''qwen3-omni-realtime'' else ownName),
          dr_engine = (if omni then VLLM else engine), dr_computeTarget = computeTarget,
          dr_url = text_of (nullish (jget local ''url'') (js_text (if omni then ''hf://'' @ shown (jat profile [''model'']) else []))),
          dr_source = FromSearch, dr_presetId = [], dr_artifactId = [],
          dr_modelType = text_of (nullish (jget local ''modelType'') (js_text (if omni \<or> activation \<noteq> None then ''chat'' else []))),
          dr_contextWindow = js_number env (nullish (jget local ''contextWindow'')
            (if omni then nullish (jat profile [''defaultContextWindow'']) (Some (JInt 8192)) else Some (JInt 4096))),
          dr_maxNumSeqs = js_number env (nullish (jget local ''maxNumSeqs'') (Some (JInt 1))),
          dr_maxOutputTokens = (if truthy_opt (jget local ''maxOutputTokens'') then text_of (jget local ''maxOutputTokens'') else []),
          dr_kind = (if omni then Omni (realtime_settings env saved profileId profile device)
            else Standard (standard_settings env models (activation \<noteq> None) local status engine computeTarget))\<rparr>)"

subsection \<open>Creating a model\<close>

definition gpuSettings :: "StandardSettings \<Rightarrow> jsval obj" where
  "gpuSettings draft =
     (if 1 < length (st_gpuDevices draft) then [(''gpuDevices'', JArr (st_gpuDevices draft)), (''gpuDeployment'', st_gpuDeployment draft)]
      else if st_gpuDevices draft \<noteq> [] then [(''gpuDevice'', hd (st_gpuDevices draft)), (''gpuDeployment'', st_gpuDeployment draft)]
      else [])"

definition vllmSettings :: "LocalModelEngine \<Rightarrow> StandardSettings \<Rightarrow> LocalModelSerializationOptions \<Rightarrow> jsval obj" where
  "vllmSettings engine draft options =
     oassign (op_vllm options) (if engine = VLLM \<and> 1 < length (st_gpuDevices draft) \<and> st_gpuDeployment draft \<noteq> JStr ''replicated''
       then [(''parallelism'', st_parallelism draft)] else [])"

definition realtime_json :: "RealtimeConfiguration \<Rightarrow> jsval" where
  "realtime_json r = JObj ([(''profile'', JStr (rt_profile r)), (''gpuNode'', JStr (rt_gpuNode r)), (''gpuCount'', rt_gpuCount r),
     (''systemMemoryMi'', rt_systemMemoryMi r), (''gpuMemoryFraction'', rt_gpuMemoryFraction r), (''thinkerCpuOffloadGiB'', rt_thinkerCpuOffloadGiB r)] @
     field ''runtimeImage'' (map_option JStr (rt_runtimeImage r)) @ field ''restartNonce'' (map_option JStr (rt_restartNonce r)))"

definition mi_text :: "int \<Rightarrow> jsval" where
  "mi_text i = JStr (show_int i @ ''Mi'')"

definition common_fields :: "LocalModelDraft \<Rightarrow> LocalModelSerializationOptions \<Rightarrow> jsval obj" where
  "common_fields draft options =
     [(''engine'', JStr (engine_name (dr_engine draft))), (''computeTarget'', JStr (dr_computeTarget draft)), (''modelType'', JStr (dr_modelType draft)),
      (''contextWindow'', dr_contextWindow draft), (''maxNumSeqs'', dr_maxNumSeqs draft)] @
     (if truthy_opt (op_cpuResources options) then field ''cpuResources'' (op_cpuResources options) else [])"

definition omni_fields :: "LocalModelDraft \<Rightarrow> RealtimeConfiguration \<Rightarrow> jsval obj" where
  "omni_fields draft realtime = [(''engine'', JStr ''VLLM''), (''modelType'', JStr ''chat''),
     (''url'', JStr (normalizeHuggingFaceReference (dr_url draft))), (''realtime'', realtime_json realtime)]"

text \<open>The assignments to \<open>local\<close> for a standard draft, in the order of the source.\<close>

definition standard_fields :: "number_env \<Rightarrow> LocalModelDraft \<Rightarrow> StandardSettings \<Rightarrow> LocalModelSerializationOptions \<Rightarrow> jsval obj" where
  "standard_fields env draft st options =
     (let vllm = vllmSettings (dr_engine draft) st options
      in gpuSettings st @ [(''kvCacheType'', JStr (st_kvCacheType st))] @
         (if dr_computeTarget draft = ''cpu'' then [(''memoryRequiredMi'', JInt (st_selectedMi st))] else [(''vram'', mi_text (st_selectedMi st))]) @
         (if dr_engine draft = VLLM \<and> vllm \<noteq> [] then [(''vllm'', JObj vllm)] else []) @
         (if dr_computeTarget draft = ''nvidia-gpu'' then [(''cpuOffloading'', JBool (st_cpuOffloading st))] else []) @
         (if st_cpuOffloading st \<or> 1 < length (st_gpuDevices st) then [(''memoryRequiredMi'', JInt (st_hostMemoryMi st))] else []) @
         (if op_allowMemoryRisk options = Some True then [(''allowMemoryRisk'', JBool True)] else []) @
         (if dr_maxOutputTokens draft \<noteq> [] then [(''maxOutputTokens'', js_number env (js_text (dr_maxOutputTokens draft)))] else []) @
         (if dr_source draft = FromPreset \<and> dr_presetId draft \<noteq> []
          then (''preset'', JStr (dr_presetId draft)) # (if dr_artifactId draft \<noteq> [] then [(''artifact'', JStr (dr_artifactId draft))] else [])
          else [(''url'', JStr (dr_url draft))]))"

definition create_local :: "number_env \<Rightarrow> LocalModelDraft \<Rightarrow> LocalModelSerializationOptions \<Rightarrow> jsval obj" where
  "create_local env draft options = oassign (common_fields draft options)
     (case dr_kind draft of Omni realtime \<Rightarrow> omni_fields draft realtime | Standard st \<Rightarrow> standard_fields env draft st options)"

definition localModelCreatePayload :: "number_env \<Rightarrow> LocalModelDraft \<Rightarrow> LocalModelSerializationOptions \<Rightarrow> jsval" where
  "localModelCreatePayload env draft options =
     JObj [(''name'', JStr (if trim (dr_name draft) = [] then safeModelName (dr_url draft) else trim (dr_name draft))), (''enabled'', JBool True),
       (''targetNamespace'', JStr ''ai''), (''local'', JObj (create_local env draft options))]"

subsection \<open>Editing a model\<close>

definition device_identity :: "jsval list \<Rightarrow> string" where
  "device_identity devices = join '','' (map (\<lambda>d. text_of (jget d ''nodeUid'') @ ''/'' @ text_of (jget d ''uuid'')) devices)"

definition needs_host :: "StandardSettings \<Rightarrow> bool" where
  "needs_host st \<longleftrightarrow> st_cpuOffloading st \<or> 1 < length (st_gpuDevices st)"

definition devices_changed :: "StandardSettings \<Rightarrow> StandardSettings \<Rightarrow> bool" where
  "devices_changed initial draft \<longleftrightarrow> device_identity (st_gpuDevices draft) \<noteq> device_identity (st_gpuDevices initial)"

definition deployment_changed :: "StandardSettings \<Rightarrow> StandardSettings \<Rightarrow> bool" where
  "deployment_changed initial draft \<longleftrightarrow> \<not> strict_eq (st_gpuDeployment draft) (st_gpuDeployment initial)"

definition gpu_changes :: "StandardSettings \<Rightarrow> StandardSettings \<Rightarrow> jsval obj" where
  "gpu_changes initial draft =
     (if devices_changed initial draft \<or> deployment_changed initial draft
      then gpuSettings draft @
        (if st_gpuDevices draft = [] then [(''gpuDeployment'', JNull)] else []) @
        (if length (st_gpuDevices initial) \<le> 1 \<and> (1 < length (st_gpuDevices draft) \<or> st_gpuDevices draft = []) then [(''gpuDevice'', JNull)] else []) @
        (if 1 < length (st_gpuDevices initial) \<and> length (st_gpuDevices draft) < 2 then [(''gpuDevices'', JNull)] else [])
      else [])"

definition memory_changes :: "StandardSettings \<Rightarrow> StandardSettings \<Rightarrow> jsval obj" where
  "memory_changes initial draft =
     (if needs_host draft \<and> (st_hostMemoryMi draft \<noteq> st_hostMemoryMi initial \<or> st_cpuOffloading draft \<noteq> st_cpuOffloading initial \<or> devices_changed initial draft)
      then [(''memoryRequiredMi'', JInt (st_hostMemoryMi draft))] else []) @
     (if \<not> needs_host draft \<and> needs_host initial then [(''memoryRequiredMi'', JNull)] else [])"

definition vllm_changes :: "LocalModelEngine \<Rightarrow> StandardSettings \<Rightarrow> StandardSettings \<Rightarrow> LocalModelSerializationOptions \<Rightarrow> jsval obj" where
  "vllm_changes engine initial draft options =
     (if engine = VLLM \<and> (op_deploymentChanged options \<or>
          (devices_changed initial draft \<or> deployment_changed initial draft \<or> \<not> strict_eq (st_parallelism draft) (st_parallelism initial)) \<and>
          (1 < length (st_gpuDevices draft) \<or> 1 < length (st_gpuDevices initial)))
      then (let settings = vllmSettings engine draft options in [(''vllm'', if settings \<noteq> [] then JObj settings else JNull)]) else [])"

definition field_if :: "bool \<Rightarrow> string \<Rightarrow> jsval \<Rightarrow> jsval obj" where
  "field_if c k v = (if c then [(k, v)] else [])"

definition common_changes :: "LocalModelDraft \<Rightarrow> LocalModelDraft \<Rightarrow> LocalModelSerializationOptions \<Rightarrow> jsval obj" where
  "common_changes initial draft options =
     field_if (\<not> strict_eq (dr_contextWindow draft) (dr_contextWindow initial)) ''contextWindow'' (dr_contextWindow draft) @
     field_if (\<not> strict_eq (dr_maxNumSeqs draft) (dr_maxNumSeqs initial)) ''maxNumSeqs'' (dr_maxNumSeqs draft) @
     field_if (op_cpuChanged options) ''cpuResources'' (the (nullish (op_cpuResources options) (Some JNull)))"

definition standard_changes :: "number_env \<Rightarrow> LocalModelDraft \<Rightarrow> LocalModelDraft \<Rightarrow> StandardSettings \<Rightarrow> StandardSettings
    \<Rightarrow> LocalModelSerializationOptions \<Rightarrow> jsval obj" where
  "standard_changes env initial draft was st options =
     field_if (dr_modelType draft \<noteq> dr_modelType initial) ''modelType'' (JStr (dr_modelType draft)) @
     field_if (dr_maxOutputTokens draft \<noteq> dr_maxOutputTokens initial) ''maxOutputTokens''
       (if dr_maxOutputTokens draft \<noteq> [] then js_number env (js_text (dr_maxOutputTokens draft)) else JNull) @
     field_if (st_kvCacheType st \<noteq> st_kvCacheType was) ''kvCacheType'' (JStr (st_kvCacheType st)) @
     field_if (st_selectedMi st \<noteq> st_selectedMi was) (if dr_computeTarget draft = ''cpu'' then ''memoryRequiredMi'' else ''vramMi'') (JInt (st_selectedMi st)) @
     field_if (st_cpuOffloading st \<noteq> st_cpuOffloading was) ''cpuOffloading'' (JBool (st_cpuOffloading st)) @
     gpu_changes was st @ memory_changes was st @ vllm_changes (dr_engine draft) was st options"

definition risk_change :: "LocalModelSerializationOptions \<Rightarrow> jsval obj \<Rightarrow> jsval obj" where
  "risk_change options changes = (if changes \<noteq> [] \<and> op_allowMemoryRisk options \<noteq> op_initialAllowMemoryRisk options
     then oset ''allowMemoryRisk'' (JBool (op_allowMemoryRisk options = Some True)) changes else changes)"

definition localModelChanges :: "number_env \<Rightarrow> LocalModelDraft \<Rightarrow> LocalModelDraft \<Rightarrow> LocalModelSerializationOptions \<Rightarrow> jsval obj result" where
  "localModelChanges env initial draft options =
     (let fixed = Inl (Other ''The model engine and hardware target cannot be changed while editing.'');
          changes = oassign [] (common_changes initial draft options)
      in if dr_engine initial \<noteq> dr_engine draft \<or> dr_computeTarget initial \<noteq> dr_computeTarget draft then fixed
         else case (dr_kind initial, dr_kind draft) of
           (Omni was, Omni rt) \<Rightarrow>
             if rt_profile rt \<noteq> rt_profile was then Inl (Other ''The Realtime profile cannot be changed while editing.'')
             else Inr (if stringify (realtime_json rt) \<noteq> stringify (realtime_json was) then oset ''realtime'' (realtime_json rt) changes else changes)
         | (Standard was, Standard st) \<Rightarrow> Inr (risk_change options (oassign changes (standard_changes env initial draft was st options)))
         | _ \<Rightarrow> fixed)"

subsection \<open>Fields that are sent\<close>

lemma keys_field_if: "fst ` set (field_if c k v) \<subseteq> {k}"
  by (auto simp: field_if_def)

lemma field_if_Nil [simp]: "field_if c k v = [] \<longleftrightarrow> \<not> c"
  by (simp add: field_if_def)

lemma keys_gpuSettings: "fst ` set (gpuSettings st) \<subseteq> {''gpuDevices'', ''gpuDevice'', ''gpuDeployment''}"
  by (auto simp: gpuSettings_def)

lemma oassign_Nil_iff: "oassign a b = [] \<longleftrightarrow> a = [] \<and> b = []"
  using keys_oassign [of a b] by (metis Un_empty image_is_empty oassign_Nil set_empty2)

definition shared_fields :: "string list" where
  "shared_fields = [''engine'', ''computeTarget'', ''modelType'', ''contextWindow'', ''maxNumSeqs'', ''cpuResources'', ''url'']"

definition standard_field_names :: "LocalModelDraft \<Rightarrow> string list" where
  "standard_field_names draft =
     [''gpuDevices'', ''gpuDevice'', ''gpuDeployment'', ''kvCacheType'', ''memoryRequiredMi'', ''allowMemoryRisk'', ''maxOutputTokens'', ''preset'', ''artifact''] @
     (if dr_computeTarget draft \<noteq> ''cpu'' then [''vram''] else []) @ (if dr_engine draft = VLLM then [''vllm''] else []) @
     (if dr_computeTarget draft = ''nvidia-gpu'' then [''cpuOffloading''] else [])"

text \<open>What each kind of draft may send.\<close>

definition allowed_fields :: "LocalModelDraft \<Rightarrow> string list" where
  "allowed_fields draft = (case dr_kind draft of Omni _ \<Rightarrow> shared_fields @ [''realtime''] | Standard _ \<Rightarrow> shared_fields @ standard_field_names draft)"

lemma keys_common: "fst ` set (common_fields draft options) \<subseteq> set shared_fields"
  by (cases "op_cpuResources options") (auto simp: common_fields_def shared_fields_def field_def)

lemma keys_omni: "fst ` set (omni_fields draft rt) \<subseteq> set (shared_fields @ [''realtime''])"
  by (simp add: omni_fields_def shared_fields_def)

lemma keys_if: "(c \<Longrightarrow> fst ` set xs \<subseteq> S) \<Longrightarrow> (\<not> c \<Longrightarrow> fst ` set ys \<subseteq> S) \<Longrightarrow> fst ` set (if c then xs else ys) \<subseteq> S"
  by simp

lemma keys_Cons: "k \<in> S \<Longrightarrow> fst ` set xs \<subseteq> S \<Longrightarrow> fst ` set ((k, v) # xs) \<subseteq> S"
  by simp

lemma keys_Nil: "fst ` set [] \<subseteq> S"
  by simp

lemma keys_standard: "fst ` set (standard_fields env draft st options) \<subseteq> set (shared_fields @ standard_field_names draft)"
  unfolding standard_fields_def Let_def set_append image_Un gpuSettings_def Un_subset_iff
  by (intro conjI keys_if keys_Cons keys_Nil; simp add: shared_fields_def standard_field_names_def)

text \<open>The same intent: what an edit compares.\<close>

definition same_standard :: "LocalModelDraft \<Rightarrow> LocalModelDraft \<Rightarrow> StandardSettings \<Rightarrow> StandardSettings \<Rightarrow> bool" where
  "same_standard initial draft was st \<longleftrightarrow>
     dr_modelType draft = dr_modelType initial \<and> dr_maxOutputTokens draft = dr_maxOutputTokens initial \<and> st_kvCacheType st = st_kvCacheType was \<and>
     st_selectedMi st = st_selectedMi was \<and> st_cpuOffloading st = st_cpuOffloading was \<and>
     device_identity (st_gpuDevices st) = device_identity (st_gpuDevices was) \<and> strict_eq (st_gpuDeployment st) (st_gpuDeployment was) \<and>
     (if needs_host st then st_hostMemoryMi st = st_hostMemoryMi was else \<not> needs_host was) \<and>
     (strict_eq (st_parallelism st) (st_parallelism was) \<or> dr_engine draft \<noteq> VLLM \<or> length (st_gpuDevices st) \<le> 1 \<and> length (st_gpuDevices was) \<le> 1)"

definition same_intent :: "LocalModelDraft \<Rightarrow> LocalModelDraft \<Rightarrow> bool" where
  "same_intent initial draft \<longleftrightarrow>
     dr_engine initial = dr_engine draft \<and> dr_computeTarget initial = dr_computeTarget draft \<and>
     strict_eq (dr_contextWindow draft) (dr_contextWindow initial) \<and> strict_eq (dr_maxNumSeqs draft) (dr_maxNumSeqs initial) \<and>
     (case (dr_kind initial, dr_kind draft) of
        (Omni was, Omni rt) \<Rightarrow> rt_profile rt = rt_profile was \<and> stringify (realtime_json rt) = stringify (realtime_json was)
      | (Standard was, Standard st) \<Rightarrow> same_standard initial draft was st
      | _ \<Rightarrow> False)"

lemma gpu_changes_Nil: "gpu_changes was st = [] \<longleftrightarrow> \<not> devices_changed was st \<and> \<not> deployment_changed was st"
  by (auto simp: gpu_changes_def gpuSettings_def)

lemma memory_changes_Nil: "memory_changes was st = [] \<longleftrightarrow>
    (if needs_host st then st_hostMemoryMi st = st_hostMemoryMi was \<and> st_cpuOffloading st = st_cpuOffloading was \<and> \<not> devices_changed was st
     else \<not> needs_host was)"
  by (auto simp: memory_changes_def)

lemma vllm_changes_Nil: "\<not> devices_changed was st \<Longrightarrow> \<not> deployment_changed was st \<Longrightarrow> vllm_changes engine was st no_options = [] \<longleftrightarrow>
    strict_eq (st_parallelism st) (st_parallelism was) \<or> engine \<noteq> VLLM \<or> length (st_gpuDevices st) \<le> 1 \<and> length (st_gpuDevices was) \<le> 1"
  by (auto simp: vllm_changes_def no_options_def Let_def)

lemma standard_changes_Nil: "standard_changes env initial draft was st no_options = [] \<longleftrightarrow> same_standard initial draft was st"
proof (cases "devices_changed was st \<or> deployment_changed was st")
  case True
  then have "gpu_changes was st \<noteq> []" by (simp add: gpu_changes_Nil)
  with True show ?thesis by (auto simp: standard_changes_def same_standard_def devices_changed_def deployment_changed_def)
next
  case False
  then show ?thesis by (auto simp: standard_changes_def same_standard_def gpu_changes_Nil memory_changes_Nil vllm_changes_Nil)
      (auto simp: devices_changed_def deployment_changed_def)
qed

lemma common_changes_Nil: "common_changes initial draft no_options = [] \<longleftrightarrow>
    strict_eq (dr_contextWindow draft) (dr_contextWindow initial) \<and> strict_eq (dr_maxNumSeqs draft) (dr_maxNumSeqs initial)"
  by (simp add: common_changes_def no_options_def)

lemma oset_not_Nil [simp]: "oset k v ob \<noteq> []"
  by (cases "(k, v, ob)" rule: oset.cases) auto

lemma risk_change_Nil [simp]: "risk_change options changes = [] \<longleftrightarrow> changes = []"
  by (simp add: risk_change_def)

subsection \<open>Properties\<close>

text \<open>
  The payload that creates a model carries only the fields of its own kind, engine and target, whatever is left in
  the draft of an earlier choice: no realtime settings for a standard model, no memory or GPU settings for an Omni
  model, \<open>vllm\<close> only for VLLM, \<open>vram\<close> never for the CPU and \<open>cpuOffloading\<close> only for NVIDIA GPUs.
\<close>

theorem create_payload_whitelisted:
  "fst ` set (create_local env draft options) \<subseteq> set (allowed_fields draft)"
proof (cases "dr_kind draft")
  case (Standard st)
  then show ?thesis using keys_common [of draft options] keys_standard [of env draft st options]
    by (auto simp: create_local_def allowed_fields_def keys_oassign)
next
  case (Omni rt)
  then show ?thesis using keys_common [of draft options] keys_omni [of draft rt]
    by (auto simp: create_local_def allowed_fields_def keys_oassign)
qed


end
