(* ===== verification/Api_Client.thy ===== *)
theory Api_Client
  imports Js_Library
begin

text \<open>
  The client of the control API (\<open>packages/api-client/src/index.ts\<close>) and the two schemas of
  \<open>packages/contracts/src/index.ts\<close> that it applies. An operation of \<open>MagicStickApi\<close> is an \<open>api_call\<close>: method, path
  and body; \<open>request\<close> turns it into an HTTP request, sends it with the client's \<open>fetch\<close> and reads the response.
  Parameters are \<open>fetch\<close> and \<open>getAccessToken\<close>. Calls carry no headers of their own, as no operation passes any.
  The percent encodings are those of the code units 0 to 255, which take one or two bytes of UTF-8.
\<close>

subsection \<open>Errors\<close>

text \<open>What the browser and the command line throw: an error of the API, or an error with a message, a code and a cause.\<close>

datatype thrown =
    ApiError (failure_message: string) (failure_status: int) (failure_details: jsval)
  | JsError (failure_message: string) (failure_code: "string option") (failure_cause: "thrown option")

abbreviation error :: "string \<Rightarrow> thrown" where
  "error message \<equiv> JsError message None None"

subsection \<open>Encodings\<close>

definition upper_hex :: "nat \<Rightarrow> char" where
  "upper_hex n = char_of (if n < 10 then 48 + n else 55 + n)"

definition percent :: "nat \<Rightarrow> string" where
  "percent n = [CHR ''%'', upper_hex (n div 16), upper_hex (n mod 16)]"

definition utf8 :: "char \<Rightarrow> nat list" where
  "utf8 c = (let n = (of_char c :: nat) in if n < 128 then [n] else [192 + n div 64, 128 + n mod 64])"

definition is_uri_char :: "char \<Rightarrow> bool" where
  "is_uri_char c \<longleftrightarrow> is_alnum c \<or> c \<in> set ''-_.!~*()'' \<or> (of_char c :: nat) = 39"

definition encode_uri_char :: "char \<Rightarrow> string" where
  "encode_uri_char c = (if is_uri_char c then [c] else concat (map percent (utf8 c)))"

definition encodeURIComponent :: "string \<Rightarrow> string" where
  "encodeURIComponent s = concat (map encode_uri_char s)"

definition encode_form_char :: "char \<Rightarrow> string" where
  "encode_form_char c = (if is_alnum c \<or> c \<in> set ''*-._'' then [c] else if c = CHR '' '' then ''+'' else concat (map percent (utf8 c)))"

definition encode_form :: "string \<Rightarrow> string" where
  "encode_form s = concat (map encode_form_char s)"

text \<open>The text of \<open>URLSearchParams\<close>.\<close>

definition form_query :: "(string \<times> string) list \<Rightarrow> string" where
  "form_query ps = join ''&'' (map (\<lambda>(k, v). encode_form k @ ''='' @ encode_form v) ps)"

subsection \<open>Requests\<close>

record api_call =
  ac_method :: string
  ac_path :: string
  ac_body :: "string option"

record http_request =
  hr_url :: string
  hr_method :: string
  hr_headers :: "string obj"
  hr_body :: "string option"
  hr_credentials :: string
  hr_cache :: string

record http_response =
  hs_ok :: bool
  hs_status :: int
  hs_statusText :: string
  hs_contentType :: "string option"
  hs_json :: "jsval option"
  hs_text :: "string option"

record 'w MagicStickApi =
  cl_baseUrl :: string
  cl_fetch :: "http_request \<Rightarrow> ('w, thrown, http_response) act"
  cl_token :: "('w, thrown, string option) act"

definition newMagicStickApi :: "string option \<Rightarrow> (http_request \<Rightarrow> ('w, thrown, http_response) act) \<Rightarrow> ('w, thrown, string option) act option \<Rightarrow> 'w MagicStickApi" where
  "newMagicStickApi baseUrl fetch token =
     (let url = (case baseUrl of None \<Rightarrow> [] | Some u \<Rightarrow> u)
      in \<lparr>cl_baseUrl = (if url \<noteq> [] \<and> last url = CHR ''/'' then butlast url else url), cl_fetch = fetch,
          cl_token = (case token of None \<Rightarrow> ret None | Some t \<Rightarrow> t)\<rparr>)"

definition upper_ascii :: "char \<Rightarrow> char" where
  "upper_ascii c = (if is_lower c then char_of ((of_char c :: nat) - 32) else c)"

definition toUpperCase :: "string \<Rightarrow> string" where
  "toUpperCase s = map upper_ascii s"

definition mutationMethod :: "string \<Rightarrow> bool" where
  "mutationMethod meth \<longleftrightarrow> toUpperCase meth \<notin> set [''GET'', ''HEAD'', ''OPTIONS'']"

text \<open>\<open>headers.set(name, value)\<close>: names do not depend on case.\<close>

definition set_header :: "string \<Rightarrow> string \<Rightarrow> string obj \<Rightarrow> string obj" where
  "set_header name value headers = oset (toLowerCase name) value headers"

definition request_headers :: "string \<Rightarrow> string option \<Rightarrow> string option \<Rightarrow> string obj" where
  "request_headers meth body token =
     (let accept = set_header ''Accept'' ''application/json'' [];
          typed = (if body \<noteq> None \<and> body \<noteq> Some [] then set_header ''Content-Type'' ''application/json'' accept else accept);
          guarded = (if mutationMethod meth then set_header ''X-MagicStick-CSRF'' ''dashboard'' typed else typed)
      in case token of Some t \<Rightarrow> if t \<noteq> [] then set_header ''Authorization'' (''Bearer '' @ t) guarded else guarded | None \<Rightarrow> guarded)"

definition has_token :: "string option \<Rightarrow> bool" where
  "has_token token \<longleftrightarrow> token \<noteq> None \<and> token \<noteq> Some []"

definition http_request_of :: "string \<Rightarrow> api_call \<Rightarrow> string option \<Rightarrow> http_request" where
  "http_request_of base call token =
     \<lparr>hr_url = base @ ac_path call, hr_method = toUpperCase (ac_method call),
      hr_headers = request_headers (toUpperCase (ac_method call)) (ac_body call) token, hr_body = ac_body call,
      hr_credentials = (if has_token token then ''omit'' else ''same-origin''), hr_cache = ''no-store''\<rparr>"

definition response_body :: "http_response \<Rightarrow> jsval" where
  "response_body response =
     (if sublist ''application/json'' (case hs_contentType response of None \<Rightarrow> [] | Some t \<Rightarrow> t)
      then (case hs_json response of None \<Rightarrow> JNull | Some v \<Rightarrow> v)
      else (case hs_text response of None \<Rightarrow> JStr [] | Some s \<Rightarrow> JStr s))"

text \<open>\<open>record?.message ?? record?.error ?? body ?? response.statusText\<close>\<close>

definition response_message :: "http_response \<Rightarrow> jsval \<Rightarrow> string" where
  "response_message response body =
     (let fields = (case body of JObj ob \<Rightarrow> Some (JObj ob) | _ \<Rightarrow> None);
          message = text_of (nullish (jat fields [''message'']) (nullish (jat fields [''error'']) (nullish (Some body) (Some (JStr (hs_statusText response))))))
      in if message = [] then ''Request failed with HTTP '' @ show_int (hs_status response) else message)"

definition read_response :: "http_response \<Rightarrow> thrown + jsval" where
  "read_response response =
     (let body = response_body response
      in if hs_ok response then Inr body else Inl (ApiError (response_message response body) (hs_status response) body))"

definition request :: "'w MagicStickApi \<Rightarrow> api_call \<Rightarrow> ('w, thrown, jsval) act" where
  "request api call = bnd (cl_token api) (\<lambda>token. bnd (cl_fetch api (http_request_of (cl_baseUrl api) call token)) (\<lambda>response. lift_result (read_response response)))"

definition get_call :: "string \<Rightarrow> api_call" where
  "get_call path = \<lparr>ac_method = ''GET'', ac_path = path, ac_body = None\<rparr>"

definition send_call :: "string \<Rightarrow> string \<Rightarrow> jsval option \<Rightarrow> api_call" where
  "send_call meth path body = \<lparr>ac_method = meth, ac_path = path, ac_body = map_option stringify body\<rparr>"

subsection \<open>Schemas\<close>

text \<open>\<open>z.object(shape).passthrough().parse(v)\<close>: the shape's keys first, with their defaults, then the other keys.\<close>

definition schema_field :: "(jsval \<Rightarrow> bool) \<Rightarrow> jsval \<Rightarrow> jsval \<Rightarrow> string \<Rightarrow> (thrown + (string \<times> jsval))" where
  "schema_field ok d v k = (case jget v k of None \<Rightarrow> Inr (k, d) | Some x \<Rightarrow> if ok x then Inr (k, x) else Inl (error ''ZodError''))"

definition all_strings :: "jsval \<Rightarrow> bool" where
  "all_strings v = (case v of JArr xs \<Rightarrow> list_all is_string xs | _ \<Rightarrow> False)"

definition parse_object :: "(string \<times> (jsval \<Rightarrow> bool) \<times> jsval) list \<Rightarrow> jsval \<Rightarrow> thrown + jsval" where
  "parse_object shape v = (case v of
     JObj ob \<Rightarrow> rbind (traverse (\<lambda>(k, ok, d). schema_field ok d v k) shape) (\<lambda>known.
       Inr (JObj (known @ filter (\<lambda>p. fst p \<notin> fst ` set shape) ob)))
   | _ \<Rightarrow> Inl (error ''ZodError''))"

definition sessionSchema :: "(string \<times> (jsval \<Rightarrow> bool) \<times> jsval) list" where
  "sessionSchema = [(''subject'', is_string, JStr []), (''username'', is_string, JStr ''unknown''), (''roles'', all_strings, JArr []),
     (''identityManagementAvailable'', is_bool, JBool False), (''identityManagementMode'', is_string, JStr ''external'')]"

definition settingsSchema :: "(string \<times> (jsval \<Rightarrow> bool) \<times> jsval) list" where
  "settingsSchema = [(''publicDomain'', is_string, JStr []), (''dashboardHost'', is_string, JStr []), (''mdnsDomain'', is_string, JStr ''magicstick.local''),
     (''mdnsName'', is_string, JStr ''magicstick'')]"

subsection \<open>Operations\<close>

definition api_session :: "'w MagicStickApi \<Rightarrow> ('w, thrown, jsval) act" where
  "api_session api = bnd (request api (get_call ''/api/session'')) (\<lambda>v. lift_result (parse_object sessionSchema v))"

definition api_settings :: "'w MagicStickApi \<Rightarrow> ('w, thrown, jsval) act" where
  "api_settings api = bnd (request api (get_call ''/api/settings'')) (\<lambda>v. lift_result (parse_object settingsSchema v))"

text \<open>The report of a run is read as it is; its request carries its own headers.\<close>

definition download_request :: "string \<Rightarrow> string \<Rightarrow> string \<Rightarrow> string option \<Rightarrow> http_request" where
  "download_request base ident kind token =
     \<lparr>hr_url = base @ ''/api/regression/runs/'' @ encodeURIComponent ident @ ''/'' @ kind, hr_method = ''GET'',
      hr_headers = (let accept = set_header ''Accept'' ''application/octet-stream'' []
        in case token of Some t \<Rightarrow> if t \<noteq> [] then set_header ''Authorization'' (''Bearer '' @ t) accept else accept | None \<Rightarrow> accept),
      hr_body = None, hr_credentials = (if has_token token then ''omit'' else ''same-origin''), hr_cache = ''no-store''\<rparr>"

definition api_downloadRegression :: "'w MagicStickApi \<Rightarrow> string \<Rightarrow> string \<Rightarrow> ('w, thrown, http_response) act" where
  "api_downloadRegression api ident kind = bnd (cl_token api) (\<lambda>token. bnd (cl_fetch api (download_request (cl_baseUrl api) ident kind token)) (\<lambda>response.
     if hs_ok response then ret response else throw (ApiError ''Regression report is unavailable.'' (hs_status response) JNull)))"

definition api_myInstances :: api_call where
  "api_myInstances = get_call ''/api/my-instances''"

definition api_regression :: api_call where
  "api_regression = get_call ''/api/regression''"

definition api_registerRegression :: api_call where
  "api_registerRegression = send_call ''POST'' ''/api/regression/register''
     (Some (JObj [(''confirmation'', JStr ''DISPOSABLE TEST SERVER''), (''acknowledgeDisruption'', JBool True)]))"

definition api_startRegression :: "string \<Rightarrow> (jsval option) \<Rightarrow> (jsval option) \<Rightarrow> (jsval option) \<Rightarrow> api_call" where
  "api_startRegression requestId phases mode selection = send_call ''POST'' ''/api/regression/runs''
     (Some (JObj ([(''requestId'', JStr requestId), (''acknowledgeDisruption'', JBool True)] @ field ''phases'' phases @ field ''testMode'' mode @ field ''diagnosticSelection'' selection)))"

definition api_recoverRegressionLock :: "string \<Rightarrow> string \<Rightarrow> api_call" where
  "api_recoverRegressionLock requestId expectedLockRevision = send_call ''POST'' ''/api/regression/recover-lock''
     (Some (JObj [(''requestId'', JStr requestId), (''expectedLockRevision'', JStr expectedLockRevision), (''acknowledgeCleanup'', JBool True)]))"

definition api_cancelRegression :: "string \<Rightarrow> api_call" where
  "api_cancelRegression ident = send_call ''POST'' (''/api/regression/runs/'' @ encodeURIComponent ident @ ''/cancel'')
     (Some (JObj [(''acknowledgeDisruption'', JBool True)]))"

definition api_licenseStatus :: api_call where
  "api_licenseStatus = get_call ''/api/license''"

definition api_inspectLicense :: "string \<Rightarrow> api_call" where
  "api_inspectLicense document = send_call ''POST'' ''/api/license/validate'' (Some (JObj [(''document'', JStr document)]))"

definition api_importLicense :: "string \<Rightarrow> string \<Rightarrow> api_call" where
  "api_importLicense document expectedRevision = send_call ''PUT'' ''/api/license''
     (Some (JObj [(''document'', JStr document), (''expectedRevision'', JStr expectedRevision)]))"

definition api_exportLicense :: api_call where
  "api_exportLicense = get_call ''/api/license/export''"

definition api_createLicenseRequest :: "jsval \<Rightarrow> api_call" where
  "api_createLicenseRequest payload = send_call ''POST'' ''/api/license/request'' (Some payload)"

definition api_federatedSso :: api_call where
  "api_federatedSso = get_call ''/api/federated-sso''"

definition api_validateFederation :: "jsval \<Rightarrow> api_call" where
  "api_validateFederation payload = send_call ''POST'' ''/api/federated-sso/validate'' (Some payload)"

definition api_createFederation :: "jsval \<Rightarrow> api_call" where
  "api_createFederation payload = send_call ''POST'' ''/api/federated-sso/providers'' (Some payload)"

definition api_updateFederation :: "string \<Rightarrow> jsval \<Rightarrow> api_call" where
  "api_updateFederation name payload = send_call ''PUT'' (''/api/federated-sso/providers/'' @ encodeURIComponent name) (Some payload)"

definition api_deleteFederation :: "string \<Rightarrow> string \<Rightarrow> api_call" where
  "api_deleteFederation name expectedRevision = send_call ''DELETE'' (''/api/federated-sso/providers/'' @ encodeURIComponent name)
     (Some (JObj [(''expectedRevision'', JStr expectedRevision)]))"

definition api_mesh :: api_call where
  "api_mesh = get_call ''/api/mesh''"

definition api_meshCommand :: "string \<Rightarrow> jsval \<Rightarrow> api_call" where
  "api_meshCommand action payload = send_call ''POST'' (''/api/mesh/'' @ action) (Some payload)"

definition api_updateSettings :: "jsval \<Rightarrow> api_call" where
  "api_updateSettings payload = send_call ''PATCH'' ''/api/settings'' (Some payload)"

definition api_appliance :: api_call where
  "api_appliance = get_call ''/api/appliance''"

definition api_modules :: api_call where
  "api_modules = get_call ''/api/modules''"

definition api_instances :: api_call where
  "api_instances = get_call ''/api/instances''"

definition api_instanceAccess :: "string \<Rightarrow> api_call" where
  "api_instanceAccess name = get_call (''/api/instances/'' @ encodeURIComponent name @ ''/access'')"

definition api_updateInstanceAccess :: "string \<Rightarrow> jsval \<Rightarrow> jsval \<Rightarrow> api_call" where
  "api_updateInstanceAccess name sharing expectedRevision = send_call ''PUT'' (''/api/instances/'' @ encodeURIComponent name @ ''/access'')
     (Some (JObj [(''sharing'', sharing), (''expectedRevision'', expectedRevision)]))"

definition api_instancePrincipals :: "string \<Rightarrow> string \<Rightarrow> jsval \<Rightarrow> api_call" where
  "api_instancePrincipals kind search first = get_call (''/api/instance-principals?'' @ form_query [(''kind'', kind), (''search'', search), (''first'', js_to_string first)])"

definition api_models :: api_call where
  "api_models = get_call ''/api/models''"

definition api_modelLogs :: "string \<Rightarrow> jsval \<Rightarrow> string \<Rightarrow> api_call" where
  "api_modelLogs name tailLines replica = get_call (''/api/models/'' @ encodeURIComponent name @ ''/logs?'' @ form_query ((''tailLines'', js_to_string tailLines) # (if replica \<noteq> [] then [(''replica'', replica)] else [])))"

definition api_status :: api_call where
  "api_status = get_call ''/api/status''"

definition api_hostManagement :: api_call where
  "api_hostManagement = get_call ''/api/host-management''"

definition api_softwareReleases :: api_call where
  "api_softwareReleases = get_call ''/api/software/releases''"

definition api_confirmHostNetwork :: "jsval \<Rightarrow> api_call" where
  "api_confirmHostNetwork payload = send_call ''POST'' ''/api/host-management/network-confirm'' (Some payload)"

definition api_requestGpuValidation :: "jsval \<Rightarrow> api_call" where
  "api_requestGpuValidation payload = send_call ''POST'' ''/api/hardware/validation'' (Some payload)"

definition api_gpuSharing :: api_call where
  "api_gpuSharing = get_call ''/api/hardware/gpu-sharing''"

definition api_configureGpuSharing :: "jsval \<Rightarrow> api_call" where
  "api_configureGpuSharing payload = send_call ''POST'' ''/api/hardware/gpu-sharing'' (Some payload)"

definition api_requestHostOperation :: "jsval \<Rightarrow> api_call" where
  "api_requestHostOperation payload = send_call ''POST'' ''/api/host-management/operations'' (Some payload)"

definition api_enableModule :: "string \<Rightarrow> (jsval obj) \<Rightarrow> api_call" where
  "api_enableModule name parameters = send_call ''POST'' (''/api/modules/'' @ encodeURIComponent name @ ''/enable'')
     (Some (JObj (if parameters \<noteq> [] then [(''parameters'', JObj parameters)] else [])))"

definition api_disableModule :: "string \<Rightarrow> (jsval obj option) \<Rightarrow> api_call" where
  "api_disableModule name parameters = send_call ''POST'' (''/api/modules/'' @ encodeURIComponent name @ ''/disable'')
     (Some (JObj (field ''parameters'' (map_option JObj parameters))))"

definition api_moduleCredentials :: "string \<Rightarrow> api_call" where
  "api_moduleCredentials name = get_call (''/api/modules/'' @ encodeURIComponent name @ ''/credentials'')"

definition api_createInstance :: "string \<Rightarrow> jsval \<Rightarrow> api_call" where
  "api_createInstance type payload = send_call ''POST'' (''/api/instances/'' @ encodeURIComponent type) (Some payload)"

definition api_removeInstance :: "string \<Rightarrow> api_call" where
  "api_removeInstance name = send_call ''DELETE'' (''/api/instances/'' @ encodeURIComponent name) (None)"

definition api_instanceCredentials :: "string \<Rightarrow> api_call" where
  "api_instanceCredentials name = get_call (''/api/instances/'' @ encodeURIComponent name @ ''/credentials'')"

definition api_searchModels :: "((string \<times> string) list) \<Rightarrow> api_call" where
  "api_searchModels params = get_call (''/api/model-discovery/search?'' @ form_query params)"

definition api_popularModels :: "((string \<times> string) list) \<Rightarrow> api_call" where
  "api_popularModels params = get_call (''/api/model-discovery/popular?'' @ form_query params)"

definition api_modelArtifacts :: "((string \<times> string) list) \<Rightarrow> api_call" where
  "api_modelArtifacts params = get_call (''/api/model-discovery/artifacts?'' @ form_query params)"

definition api_estimateMemory :: "jsval \<Rightarrow> api_call" where
  "api_estimateMemory payload = send_call ''POST'' ''/api/models/estimate-memory'' (Some payload)"

definition api_estimateModelUpdate :: "string \<Rightarrow> jsval \<Rightarrow> api_call" where
  "api_estimateModelUpdate name payload = send_call ''POST'' (''/api/models/'' @ encodeURIComponent name @ ''/estimate-memory'') (Some payload)"

definition api_updateModel :: "string \<Rightarrow> jsval \<Rightarrow> api_call" where
  "api_updateModel name payload = send_call ''PUT'' (''/api/models/'' @ encodeURIComponent name) (Some payload)"

definition api_createLocalModel :: "jsval \<Rightarrow> api_call" where
  "api_createLocalModel payload = send_call ''POST'' ''/api/models/local'' (Some payload)"

definition api_createExternalModel :: "jsval \<Rightarrow> api_call" where
  "api_createExternalModel payload = send_call ''POST'' ''/api/models/external'' (Some payload)"

definition api_removeModel :: "string \<Rightarrow> api_call" where
  "api_removeModel name = send_call ''DELETE'' (''/api/models/'' @ encodeURIComponent name) (None)"

definition api_removeLocalRuntime :: api_call where
  "api_removeLocalRuntime = send_call ''POST'' ''/api/models/local-runtime/remove'' (Some (JObj []))"

definition api_users :: "string \<Rightarrow> jsval \<Rightarrow> jsval \<Rightarrow> api_call" where
  "api_users search first maximum = get_call (''/api/users?'' @ form_query [(''search'', search), (''first'', js_to_string first), (''max'', js_to_string maximum)])"

definition api_createUser :: "jsval \<Rightarrow> api_call" where
  "api_createUser payload = send_call ''POST'' ''/api/users'' (Some payload)"

definition api_updateUser :: "string \<Rightarrow> jsval \<Rightarrow> api_call" where
  "api_updateUser ident payload = send_call ''PATCH'' (''/api/users/'' @ encodeURIComponent ident) (Some payload)"

definition api_updateUserRoles :: "string \<Rightarrow> string \<Rightarrow> api_call" where
  "api_updateUserRoles ident accessLevel = send_call ''PUT'' (''/api/users/'' @ encodeURIComponent ident @ ''/roles'')
     (Some (JObj [(''accessLevel'', JStr accessLevel)]))"

definition api_setUserEnabled :: "string \<Rightarrow> bool \<Rightarrow> api_call" where
  "api_setUserEnabled ident enabled = send_call ''POST'' (''/api/users/'' @ encodeURIComponent ident @ (if enabled then ''/enable'' else ''/disable''))
     (Some (JObj []))"

definition api_resetUserPassword :: "string \<Rightarrow> string \<Rightarrow> bool \<Rightarrow> api_call" where
  "api_resetUserPassword ident password temporary = send_call ''PUT'' (''/api/users/'' @ encodeURIComponent ident @ ''/password'')
     (Some (JObj [(''password'', JStr password), (''temporary'', JBool temporary)]))"

definition api_deleteUser :: "string \<Rightarrow> string \<Rightarrow> api_call" where
  "api_deleteUser ident usernameConfirmation = send_call ''DELETE'' (''/api/users/'' @ encodeURIComponent ident)
     (Some (JObj [(''usernameConfirmation'', JStr usernameConfirmation)]))"

definition api_apiAccess :: api_call where
  "api_apiAccess = get_call ''/api/api-access''"

definition api_createApiKey :: "string \<Rightarrow> api_call" where
  "api_createApiKey name = send_call ''POST'' ''/api/api-access'' (Some (JObj [(''name'', JStr name)]))"

definition api_revokeApiKey :: "string \<Rightarrow> api_call" where
  "api_revokeApiKey ident = send_call ''DELETE'' (''/api/api-access/'' @ encodeURIComponent ident) (None)"

definition api_kubernetesAccess :: "string \<Rightarrow> jsval \<Rightarrow> jsval \<Rightarrow> api_call" where
  "api_kubernetesAccess search first maximum = get_call (''/api/kubernetes-access?'' @ form_query [(''search'', search), (''first'', js_to_string first), (''max'', js_to_string maximum)])"

definition api_updateKubernetesAccess :: "string \<Rightarrow> string \<Rightarrow> api_call" where
  "api_updateKubernetesAccess ident accessLevel = send_call ''PUT'' (''/api/kubernetes-access/'' @ encodeURIComponent ident)
     (Some (JObj [(''accessLevel'', JStr accessLevel)]))"

definition api_kubeconfig :: "string \<Rightarrow> api_call" where
  "api_kubeconfig ident = get_call (''/api/kubernetes-access/'' @ encodeURIComponent ident @ ''/kubeconfig'')"

subsection \<open>Decoding\<close>

text \<open>The inverse of the encoding, as a server applies it to each segment of a path.\<close>

definition hex_value :: "char \<Rightarrow> nat option" where
  "hex_value c = (let n = (of_char c :: nat) in if 48 \<le> n \<and> n \<le> 57 then Some (n - 48)
     else if 65 \<le> n \<and> n \<le> 70 then Some (n - 55) else if 97 \<le> n \<and> n \<le> 102 then Some (n - 87) else None)"

fun percent_bytes :: "string \<Rightarrow> nat list option" where
  "percent_bytes [] = Some []"
| "percent_bytes (c # cs) = (if c = CHR ''%'' then
     (case cs of a # b # r \<Rightarrow> (case (hex_value a, hex_value b) of (Some x, Some y) \<Rightarrow> map_option (Cons (16 * x + y)) (percent_bytes r) | _ \<Rightarrow> None)
      | _ \<Rightarrow> None)
     else map_option (Cons (of_char c)) (percent_bytes cs))"

fun utf8_text :: "nat list \<Rightarrow> string option" where
  "utf8_text [] = Some []"
| "utf8_text (b # bs) = (if b < 128 then map_option (Cons (char_of b)) (utf8_text bs)
     else (case bs of b' # r \<Rightarrow> if 194 \<le> b \<and> b \<le> 195 \<and> 128 \<le> b' \<and> b' < 192
         then map_option (Cons (char_of ((b - 192) * 64 + (b' - 128)))) (utf8_text r) else None
       | [] \<Rightarrow> None))"

definition decodeURIComponent :: "string \<Rightarrow> string option" where
  "decodeURIComponent s = Option.bind (percent_bytes s) utf8_text"

lemma hex_value_upper_hex: "n < 16 \<Longrightarrow> hex_value (upper_hex n) = Some n"
  by (auto simp: hex_value_def upper_hex_def Let_def)

lemma percent_bytes_percent: "n < 256 \<Longrightarrow> percent_bytes (percent n @ r) = map_option (Cons n) (percent_bytes r)"
proof -
  assume "n < 256"
  then have "n div 16 < 16" "n mod 16 < 16" by auto
  then show ?thesis by (simp add: percent_def hex_value_upper_hex mult.commute)
qed

lemma uri_char_ascii: "is_uri_char c \<Longrightarrow> (of_char c :: nat) < 128 \<and> c \<noteq> CHR ''%''"
  by (auto simp: is_uri_char_def is_alnum_def is_alpha_def char_class_defs)

lemma of_char_less_256: "(of_char (c :: char) :: nat) < 256"
  by (metis nat_of_char_less_256)

lemma utf8_bytes: "\<forall>n \<in> set (utf8 c). n < 256"
proof -
  have "(of_char c :: nat) div 64 < 4" using of_char_less_256 [of c] by (simp add: less_mult_imp_div_less)
  then show ?thesis using of_char_less_256 [of c] by (auto simp: utf8_def Let_def)
qed

lemma percent_bytes_list: "\<forall>n \<in> set ns. n < 256 \<Longrightarrow> percent_bytes (concat (map percent ns) @ r) = map_option (\<lambda>bs. ns @ bs) (percent_bytes r)"
  by (induction ns; cases "percent_bytes r") (simp_all add: percent_bytes_percent)

lemma percent_bytes_char: "percent_bytes (encode_uri_char c @ r) = map_option (\<lambda>bs. utf8 c @ bs) (percent_bytes r)"
proof (cases "is_uri_char c")
  case True
  then show ?thesis using uri_char_ascii [OF True] by (simp add: encode_uri_char_def utf8_def)
next
  case False
  then show ?thesis using percent_bytes_list [OF utf8_bytes] by (simp add: encode_uri_char_def)
qed

lemma utf8_text_char: "utf8_text (utf8 c @ bs) = map_option (Cons c) (utf8_text bs)"
proof (cases "(of_char c :: nat) < 128")
  case False
  define n where "n = (of_char c :: nat)"
  have n: "128 \<le> n" "n < 256" using False of_char_less_256 [of c] by (simp_all add: n_def)
  then have "n div 64 = 2 \<or> n div 64 = 3" by auto
  moreover have "n div 64 * 64 + n mod 64 = n" by simp
  moreover have "char_of n = c" by (simp add: n_def)
  ultimately show ?thesis using n by (auto simp: utf8_def Let_def n_def [symmetric])
qed (simp add: utf8_def)

lemma decode_encode: "decodeURIComponent (encodeURIComponent s) = Some s"
proof -
  have "percent_bytes (encodeURIComponent s) = Some (concat (map utf8 s))"
    by (induction s) (simp_all add: encodeURIComponent_def percent_bytes_char)
  moreover have "utf8_text (concat (map utf8 s)) = Some s"
    by (induction s) (simp_all add: utf8_text_char)
  ultimately show ?thesis by (simp add: decodeURIComponent_def)
qed

lemma percent_chars: "n < 256 \<Longrightarrow> c \<in> set (percent n) \<Longrightarrow> c = CHR ''%'' \<or> is_alnum c"
proof -
  assume n: "n < 256" and c: "c \<in> set (percent n)"
  have "k < 16 \<Longrightarrow> is_alnum (upper_hex k)" for k
    by (auto simp: upper_hex_def is_alnum_def is_alpha_def char_class_defs)
  moreover have "n div 16 < 16" "n mod 16 < 16" using n by auto
  ultimately show ?thesis using c by (auto simp: percent_def)
qed

lemma encoded_chars: "c \<in> set (encodeURIComponent s) \<Longrightarrow> c = CHR ''%'' \<or> is_uri_char c"
  using utf8_bytes percent_chars by (fastforce simp: encodeURIComponent_def encode_uri_char_def is_uri_char_def split: if_splits)

lemma encoded_separators [simp]: "CHR ''/'' \<notin> set (encodeURIComponent s)" "CHR ''?'' \<notin> set (encodeURIComponent s)"
  using encoded_chars [of "CHR ''/''" s] encoded_chars [of "CHR ''?''" s]
  by (auto simp: is_uri_char_def is_alnum_def is_alpha_def char_class_defs)

text \<open>The path that a server sees: the decoded segments before the query.\<close>

definition served :: "api_call \<Rightarrow> string option list" where
  "served call = map decodeURIComponent (split_on (CHR ''/'') (takeWhile (\<lambda>c. c \<noteq> CHR ''?'') (ac_path call)))"

lemma split_on_segment: "c \<notin> set e \<Longrightarrow> split_on c (e @ c # r) = e # split_on c r"
  by (induction e) auto

lemma split_on_single: "c \<notin> set e \<Longrightarrow> split_on c e = [e]"
  by (induction e) auto

lemma takeWhile_encoded: "takeWhile (\<lambda>c. c \<noteq> CHR ''?'') (encodeURIComponent s @ r) = encodeURIComponent s @ takeWhile (\<lambda>c. c \<noteq> CHR ''?'') r"
  by (rule takeWhile_append2) (use encoded_separators(2) [of s] in auto)

lemma takeWhile_encoded_all: "takeWhile (\<lambda>c. c \<noteq> CHR ''?'') (encodeURIComponent s) = encodeURIComponent s"
  using takeWhile_encoded [of s "[]"] by simp

lemmas served_simps = served_def get_call_def send_call_def takeWhile_encoded takeWhile_encoded_all split_on_segment split_on_single decode_encode

lemma decode_literal: "list_all (\<lambda>c. (of_char c :: nat) < 128 \<and> c \<noteq> CHR ''%'') s \<Longrightarrow> decodeURIComponent s = Some s"
proof (induction s)
  case (Cons c s)
  then show ?case by (auto simp: decodeURIComponent_def bind_eq_Some_conv)
qed (simp add: decodeURIComponent_def)

lemmas api_path_defs = api_instanceAccess_def api_updateInstanceAccess_def api_createInstance_def api_removeInstance_def
  api_instanceCredentials_def api_modelLogs_def api_estimateModelUpdate_def api_updateModel_def api_removeModel_def api_enableModule_def
  api_disableModule_def api_moduleCredentials_def api_updateUser_def api_updateUserRoles_def api_setUserEnabled_def
  api_resetUserPassword_def api_deleteUser_def api_revokeApiKey_def api_updateKubernetesAccess_def api_kubeconfig_def
  api_cancelRegression_def api_updateFederation_def api_deleteFederation_def

lemma header_names [simp]: "toLowerCase ''Accept'' = ''accept''" "toLowerCase ''Content-Type'' = ''content-type''"
    "toLowerCase ''X-MagicStick-CSRF'' = ''x-magicstick-csrf''" "toLowerCase ''Authorization'' = ''authorization''"
  by code_simp+

lemma upper_ascii_idem: "upper_ascii (upper_ascii c) = upper_ascii c"
  using of_char_less_256 [of c] by (auto simp: upper_ascii_def is_lower_def code_in_def)

lemma mutationMethod_upper [simp]: "mutationMethod (toUpperCase m) = mutationMethod m"
  by (simp add: mutationMethod_def toUpperCase_def upper_ascii_idem o_def)

lemma response_message_not_empty: "response_message response body \<noteq> []"
  by (simp add: response_message_def Let_def)

lemma request_headers_get:
  "oget (request_headers m body token) ''accept'' = Some ''application/json''"
  "oget (request_headers m body token) ''x-magicstick-csrf'' = (if mutationMethod m then Some ''dashboard'' else None)"
  "oget (request_headers m body token) ''authorization'' = (if has_token token then Some (''Bearer '' @ the token) else None)"
  by (auto simp: request_headers_def Let_def set_header_def has_token_def split: option.splits)

subsection \<open>Properties\<close>

text \<open>
  Every request asks for JSON and bypasses caches; it carries the CSRF header exactly when its method can change
  state, the bearer token exactly when there is one, and then no cookies; a failed response becomes an error with the
  status, the body and a message that is not empty.
\<close>

theorem request_is_guarded:
  "oget (hr_headers (http_request_of base call token)) ''accept'' = Some ''application/json'' \<and>
   oget (hr_headers (http_request_of base call token)) ''x-magicstick-csrf'' = (if mutationMethod (ac_method call) then Some ''dashboard'' else None) \<and>
   oget (hr_headers (http_request_of base call token)) ''authorization'' = (if has_token token then Some (''Bearer '' @ the token) else None) \<and>
   hr_credentials (http_request_of base call token) = (if has_token token then ''omit'' else ''same-origin'') \<and>
   hr_cache (http_request_of base call token) = ''no-store'' \<and>
   read_response response = (if hs_ok response then Inr (response_body response)
     else Inl (ApiError (response_message response (response_body response)) (hs_status response) (response_body response))) \<and>
   response_message response (response_body response) \<noteq> []"
  by (simp add: http_request_of_def request_headers_get read_response_def Let_def response_message_not_empty)

text \<open>
  Arguments stay arguments: whatever texts are passed to the operations of the client, the server reads back
  the fixed segments of the operation's path and the argument as one segment.
\<close>

theorem paths_keep_arguments:
  "served (api_instanceAccess a) = map Some [[], ''api'', ''instances'', a, ''access''] \<and>
   served (api_updateInstanceAccess a sharing revision) = map Some [[], ''api'', ''instances'', a, ''access''] \<and>
   served (api_createInstance a payload) = map Some [[], ''api'', ''instances'', a] \<and>
   served (api_removeInstance a) = map Some [[], ''api'', ''instances'', a] \<and>
   served (api_instanceCredentials a) = map Some [[], ''api'', ''instances'', a, ''credentials''] \<and>
   served (api_modelLogs a n replica) = map Some [[], ''api'', ''models'', a, ''logs''] \<and>
   served (api_estimateModelUpdate a payload) = map Some [[], ''api'', ''models'', a, ''estimate-memory''] \<and>
   served (api_updateModel a payload) = map Some [[], ''api'', ''models'', a] \<and>
   served (api_removeModel a) = map Some [[], ''api'', ''models'', a] \<and>
   served (api_enableModule a ps) = map Some [[], ''api'', ''modules'', a, ''enable''] \<and>
   served (api_disableModule a opt) = map Some [[], ''api'', ''modules'', a, ''disable''] \<and>
   served (api_moduleCredentials a) = map Some [[], ''api'', ''modules'', a, ''credentials''] \<and>
   served (api_updateUser a payload) = map Some [[], ''api'', ''users'', a] \<and>
   served (api_updateUserRoles a level) = map Some [[], ''api'', ''users'', a, ''roles''] \<and>
   served (api_setUserEnabled a on) = map Some [[], ''api'', ''users'', a, if on then ''enable'' else ''disable''] \<and>
   served (api_resetUserPassword a secret temporary) = map Some [[], ''api'', ''users'', a, ''password''] \<and>
   served (api_deleteUser a confirmation) = map Some [[], ''api'', ''users'', a] \<and>
   served (api_revokeApiKey a) = map Some [[], ''api'', ''api-access'', a] \<and>
   served (api_updateKubernetesAccess a level) = map Some [[], ''api'', ''kubernetes-access'', a] \<and>
   served (api_kubeconfig a) = map Some [[], ''api'', ''kubernetes-access'', a, ''kubeconfig''] \<and>
   served (api_cancelRegression a) = map Some [[], ''api'', ''regression'', ''runs'', a, ''cancel''] \<and>
   served (api_updateFederation a payload) = map Some [[], ''api'', ''federated-sso'', ''providers'', a] \<and>
   served (api_deleteFederation a expected) = map Some [[], ''api'', ''federated-sso'', ''providers'', a]"
  by (intro conjI; simp add: served_simps decode_literal api_path_defs)

end
