(* ===== verification/Cli_Args.thy ===== *)
theory Cli_Args
  imports Dashboard_Core Api_Client
begin

text \<open>
  Arguments and text output of the command line (\<open>apps/cli/src/args.ts\<close>, \<open>apps/cli/src/output.ts\<close>). The names of options
  are not those of \<open>Object.prototype\<close>, which the source's plain objects would find. The rule below a table's header
  and the ellipsis of a shortened text lie outside of the modelled code units: the functions take them as arguments.
\<close>

subsection \<open>Arguments\<close>

datatype option_value = OText string | OFlag | OMany "string list"

record ParsedArguments =
  pa_positionals :: "string list"
  pa_options :: "option_value obj"

definition booleanOptions :: "string list" where
  "booleanOptions = [''help'', ''version'', ''json'', ''no-color'', ''no-open'', ''password-stdin'', ''permanent'', ''insecure'', ''demo'', ''yes'', ''allow-experimental'']"

definition option_alias :: "string \<Rightarrow> string" where
  "option_alias k = (if k = ''h'' then ''help'' else if k = ''V'' then ''version'' else if k = ''o'' then ''output'' else k)"

text \<open>\<open>String(v)\<close>\<close>

fun value_texts :: "option_value \<Rightarrow> string list" where
  "value_texts (OText s) = [s]"
| "value_texts OFlag = [''true'']"
| "value_texts (OMany xs) = xs"

definition addOption :: "string \<Rightarrow> option_value \<Rightarrow> option_value obj \<Rightarrow> option_value obj" where
  "addOption key v opts =
     (let normalized = option_alias key
      in case oget opts normalized of None \<Rightarrow> oset normalized v opts
         | Some current \<Rightarrow> oset normalized (OMany (value_texts current @ value_texts v)) opts)"

definition add_option :: "string \<Rightarrow> option_value \<Rightarrow> ParsedArguments \<Rightarrow> ParsedArguments" where
  "add_option key v p = p\<lparr>pa_options := addOption key v (pa_options p)\<rparr>"

definition add_positional :: "string \<Rightarrow> ParsedArguments \<Rightarrow> ParsedArguments" where
  "add_positional s p = p\<lparr>pa_positionals := pa_positionals p @ [s]\<rparr>"

definition is_positional :: "string \<Rightarrow> bool" where
  "is_positional s \<longleftrightarrow> \<not> startsWith s ''-'' \<or> s = ''-''"

text \<open>\<open>value.replace(/^--?/, '')\<close>\<close>

definition drop_dashes :: "string \<Rightarrow> string" where
  "drop_dashes s = (if startsWith s ''--'' then drop 2 s else if startsWith s ''-'' then drop 1 s else s)"

function parse_from :: "string list \<Rightarrow> ParsedArguments \<Rightarrow> ParsedArguments" where
  "parse_from [] p = p"
| "parse_from (v # rest) p =
     (if v = ''--'' then p\<lparr>pa_positionals := pa_positionals p @ rest\<rparr>
      else if is_positional v then parse_from rest (add_positional v p)
      else (let raw = drop_dashes v
        in case indexOf (CHR ''='') raw of
             Some i \<Rightarrow> parse_from rest (add_option (take i raw) (OText (drop (Suc i) raw)) p)
           | None \<Rightarrow> (let key = option_alias raw
               in if key \<in> set booleanOptions then parse_from rest (add_option key OFlag p)
                  else (case rest of
                      next # rest' \<Rightarrow> if is_positional next then parse_from rest' (add_option key (OText next) p) else parse_from rest (add_option key OFlag p)
                    | [] \<Rightarrow> add_option key OFlag p))))"
  by pat_completeness auto
termination by (relation "measure (length \<circ> fst)") auto

definition parseArguments :: "string list \<Rightarrow> ParsedArguments" where
  "parseArguments argv = parse_from argv \<lparr>pa_positionals = [], pa_options = []\<rparr>"

text \<open>The last value of an option.\<close>

definition option_of :: "ParsedArguments \<Rightarrow> string \<Rightarrow> option_value option" where
  "option_of parsed name = (case oget (pa_options parsed) name of
     Some (OMany xs) \<Rightarrow> (if xs = [] then None else Some (OText (last xs)))
   | v \<Rightarrow> v)"

definition optionValues :: "ParsedArguments \<Rightarrow> string \<Rightarrow> string list" where
  "optionValues parsed name = (case oget (pa_options parsed) name of None \<Rightarrow> [] | Some v \<Rightarrow> value_texts v)"

subsection \<open>Output\<close>

definition is_sgr_char :: "char \<Rightarrow> bool" where
  "is_sgr_char c \<longleftrightarrow> is_digit c \<or> c = CHR '';''"

text \<open>\<open>/\x1b\[[0-9;]*m/\<close> at the start of a text: the parameters and the rest.\<close>

definition sgr_at :: "string \<Rightarrow> (string \<times> string) option" where
  "sgr_at s = (if startsWith s [CHR 0x1B, CHR ''[''] \<and> startsWith (dropWhile is_sgr_char (drop 2 s)) ''m''
     then Some (takeWhile is_sgr_char (drop 2 s), tl (dropWhile is_sgr_char (drop 2 s))) else None)"

lemma sgr_at_shorter: "sgr_at s = Some (ps, r) \<Longrightarrow> length r < length s"
proof -
  assume "sgr_at s = Some (ps, r)"
  then have r: "r = tl (dropWhile is_sgr_char (drop 2 s))" and s: "s \<noteq> []"
    by (auto simp: sgr_at_def startsWith_def split: if_splits)
  have "length r \<le> length (drop 2 s)" using length_dropWhile_le [of is_sgr_char "drop 2 s"] by (simp add: r)
  with s show ?thesis by (cases s) auto
qed

datatype terminal_part = Sgr string | Glyph char

text \<open>\<open>value.match(/\x1b\[[0-9;]*m|[^\x1b]/gu)\<close>: a stray escape is skipped.\<close>

function terminal_parts :: "string \<Rightarrow> terminal_part list" where
  "terminal_parts [] = []"
| "terminal_parts (c # cs) = (case sgr_at (c # cs) of
     Some (ps, r) \<Rightarrow> Sgr ps # terminal_parts r
   | None \<Rightarrow> if c = CHR 0x1B then terminal_parts cs else Glyph c # terminal_parts cs)"
  by pat_completeness auto
termination by (relation "measure length") (auto dest: sgr_at_shorter)

fun part_text :: "terminal_part \<Rightarrow> string" where
  "part_text (Sgr ps) = CHR 0x1B # CHR ''['' # ps @ ''m''"
| "part_text (Glyph c) = [c]"

fun keep_parts :: "nat \<Rightarrow> terminal_part list \<Rightarrow> terminal_part list" where
  "keep_parts n [] = []"
| "keep_parts n (Sgr ps # parts) = Sgr ps # keep_parts n parts"
| "keep_parts n (Glyph c # parts) = (if 0 < n then Glyph c # keep_parts (n - 1) parts else keep_parts 0 parts)"

definition clipTerminalLine :: "string \<Rightarrow> int \<Rightarrow> string" where
  "clipTerminalLine v columns = concat (map part_text (keep_parts (nat (max 0 columns)) (terminal_parts v)))"

text \<open>\<open>value.replace(/\x1b\[[0-9;]*m/g, '')\<close>\<close>

function strip_sgr :: "string \<Rightarrow> string" where
  "strip_sgr [] = []"
| "strip_sgr (c # cs) = (case sgr_at (c # cs) of Some (ps, r) \<Rightarrow> strip_sgr r | None \<Rightarrow> c # strip_sgr cs)"
  by pat_completeness auto
termination by (relation "measure length") (auto dest: sgr_at_shorter)

definition visibleLength :: "string \<Rightarrow> nat" where
  "visibleLength v = length (strip_sgr v)"

definition padEnd :: "nat \<Rightarrow> string \<Rightarrow> string" where
  "padEnd n s = s @ replicate (n - length s) (CHR '' '')"

definition trimEnd :: "string \<Rightarrow> string" where
  "trimEnd s = rev (dropWhile is_space (rev s))"

definition nth_or_empty :: "string list \<Rightarrow> nat \<Rightarrow> string" where
  "nth_or_empty row i = (if i < length row then row ! i else [])"

definition column_width :: "string list list \<Rightarrow> nat \<Rightarrow> string \<Rightarrow> nat" where
  "column_width rows column header = Max (set (visibleLength header # map (\<lambda>row. visibleLength (nth_or_empty row column)) rows))"

definition column_widths :: "string list \<Rightarrow> string list list \<Rightarrow> nat list" where
  "column_widths headers rows = map (\<lambda>(column, header). column_width rows column header) (enumerate 0 headers)"

definition render_row :: "nat list \<Rightarrow> string list \<Rightarrow> string" where
  "render_row widths row = trimEnd (join ''  '' (map (\<lambda>(column, v). padEnd (if column < length widths then widths ! column else 0) v) (enumerate 0 row)))"

abbreviation newline :: string where
  "newline \<equiv> [CHR 0x0A]"

definition table :: "char \<Rightarrow> string list \<Rightarrow> jsval option list list \<Rightarrow> string" where
  "table rule headers rows =
     (let normalized = map (map shown) rows; widths = column_widths headers normalized
      in join newline (render_row widths headers # render_row widths (map (\<lambda>w. replicate w rule) widths) # map (render_row widths) normalized))"

text \<open>\<open>JSON.stringify(v, null, 2)\<close>\<close>

fun pretty :: "nat \<Rightarrow> jsval \<Rightarrow> string" where
  "pretty n (JArr xs) = (if xs = [] then ''[]'' else ''['' @ newline @ replicate (n + 2) (CHR '' '') @
     join ('','' @ newline @ replicate (n + 2) (CHR '' '')) (map (pretty (n + 2)) xs) @ newline @ replicate n (CHR '' '') @ '']'')"
| "pretty n (JObj ob) = (if ob = [] then ''{}'' else ''{'' @ newline @ replicate (n + 2) (CHR '' '') @
     join ('','' @ newline @ replicate (n + 2) (CHR '' '')) (map (\<lambda>(k, v). json_quote k @ '': '' @ pretty (n + 2) v) ob) @
     newline @ replicate n (CHR '' '') @ ''}'')"
| "pretty n v = stringify v"

definition stringify_output :: "jsval \<Rightarrow> string" where
  "stringify_output v = pretty 0 v @ newline"

definition truncate :: "char \<Rightarrow> nat \<Rightarrow> jsval option \<Rightarrow> string" where
  "truncate ellipsis maximum v =
     (let s = trim (squash is_space '' '' (shown v))
      in if length s \<le> maximum then s else take (maximum - 1) s @ [ellipsis])"

definition phase_text :: "jsval option \<Rightarrow> jsval option" where
  "phase_text v = (if truthy_opt v then v else Some (JStr ''Unknown''))"

subsection \<open>Rendered arguments\<close>

datatype argument = Positional string | Setting string string | Switch string

fun render_argument :: "argument \<Rightarrow> string" where
  "render_argument (Positional s) = s"
| "render_argument (Setting k v) = ''--'' @ k @ CHR ''='' # v"
| "render_argument (Switch k) = ''--'' @ k"

fun clear_argument :: "argument \<Rightarrow> bool" where
  "clear_argument (Positional s) = is_positional s"
| "clear_argument (Setting k v) = (CHR ''='' \<notin> set k)"
| "clear_argument (Switch k) = (k \<in> set booleanOptions)"

fun take_argument :: "argument \<Rightarrow> ParsedArguments \<Rightarrow> ParsedArguments" where
  "take_argument (Positional s) = add_positional s"
| "take_argument (Setting k v) = add_option k (OText v)"
| "take_argument (Switch k) = add_option k OFlag"

lemma indexOf_append: "c \<notin> set k \<Longrightarrow> indexOf c (k @ c # v) = Some (length k)"
  by (induction k) auto

lemma not_positional: "\<not> is_positional (CHR ''-'' # CHR ''-'' # s)"
  by (simp add: is_positional_def startsWith_def)

lemma drop_dashes_two: "drop_dashes (CHR ''-'' # CHR ''-'' # s) = s"
  by (simp add: drop_dashes_def startsWith_def)

lemma boolean_name: "k \<in> set booleanOptions \<Longrightarrow> k \<noteq> [] \<and> indexOf (CHR ''='') k = None \<and> option_alias k = k"
  by (auto simp: booleanOptions_def option_alias_def)

lemma parse_argument:
  "clear_argument a \<Longrightarrow> parse_from (render_argument a # rest) p = parse_from rest (take_argument a p)"
proof (cases a)
  case (Positional s)
  assume "clear_argument a"
  then have "is_positional s" "s \<noteq> ''--''" using Positional not_positional [of "[]"] by auto
  then show ?thesis by (simp add: Positional)
next
  case (Setting k v)
  assume "clear_argument a"
  then have i: "indexOf (CHR ''='') (k @ CHR ''='' # v) = Some (length k)" using Setting by (simp add: indexOf_append)
  have "render_argument a \<noteq> ''--''" by (simp add: Setting)
  then show ?thesis by (simp add: Setting not_positional drop_dashes_two i)
next
  case (Switch k)
  assume "clear_argument a"
  then have k: "k \<in> set booleanOptions" by (simp add: Switch)
  from boolean_name [OF k] have "k \<noteq> []" "indexOf (CHR ''='') k = None" "option_alias k = k" by auto
  with k show ?thesis by (simp add: Switch not_positional drop_dashes_two)
qed

lemma parse_arguments:
  "list_all clear_argument items \<Longrightarrow> parse_from (map render_argument items @ rest) p = parse_from rest (fold take_argument items p)"
proof (induction items arbitrary: p)
  case (Cons a items)
  then show ?case using parse_argument [of a "map render_argument items @ rest" p] by (simp del: parse_from.simps)
qed (simp del: parse_from.simps)

subsection \<open>Clipped lines\<close>

fun good_part :: "terminal_part \<Rightarrow> bool" where
  "good_part (Sgr ps) = list_all is_sgr_char ps"
| "good_part (Glyph c) = (c \<noteq> CHR 0x1B)"

fun is_glyph :: "terminal_part \<Rightarrow> bool" where
  "is_glyph (Sgr ps) = False"
| "is_glyph (Glyph c) = True"

lemma sgr_at_part: "list_all is_sgr_char ps \<Longrightarrow> sgr_at (CHR 0x1B # CHR ''['' # ps @ CHR ''m'' # r) = Some (ps, r)"
proof -
  assume ps: "list_all is_sgr_char ps"
  have m: "\<not> is_sgr_char (CHR ''m'')" by (simp add: is_sgr_char_def is_digit_def code_in_def)
  have "dropWhile is_sgr_char (ps @ CHR ''m'' # r) = CHR ''m'' # r" "takeWhile is_sgr_char (ps @ CHR ''m'' # r) = ps"
    using ps m by (auto simp: list_all_iff dropWhile_append2 takeWhile_append2)
  then show ?thesis by (simp add: sgr_at_def startsWith_def)
qed

lemma sgr_at_glyph: "c \<noteq> CHR 0x1B \<Longrightarrow> sgr_at (c # r) = None"
  by (simp add: sgr_at_def startsWith_def)

lemma terminal_parts_good: "list_all good_part (terminal_parts s)"
  by (induction s rule: terminal_parts.induct)
    (auto simp: sgr_at_def list_all_iff dest: set_takeWhileD split: option.split if_splits)

lemma terminal_parts_rendered: "list_all good_part ps \<Longrightarrow> terminal_parts (concat (map part_text ps)) = ps"
proof (induction ps)
  case (Cons p ps)
  then show ?case by (cases p) (simp_all add: sgr_at_part sgr_at_glyph)
qed simp

lemma strip_rendered: "list_all good_part ps \<Longrightarrow> length (strip_sgr (concat (map part_text ps))) = length (filter is_glyph ps)"
proof (induction ps)
  case (Cons p ps)
  then show ?case by (cases p) (simp_all add: sgr_at_part sgr_at_glyph)
qed simp

lemma keep_parts_good: "list_all good_part ps \<Longrightarrow> list_all good_part (keep_parts n ps)"
  by (induction n ps rule: keep_parts.induct) auto

lemma keep_parts_glyphs: "length (filter is_glyph (keep_parts n ps)) = min n (length (filter is_glyph ps))"
  by (induction n ps rule: keep_parts.induct) auto

lemma keep_parts_sgr: "filter (\<lambda>p. \<not> is_glyph p) (keep_parts n ps) = filter (\<lambda>p. \<not> is_glyph p) ps"
  by (induction n ps rule: keep_parts.induct) auto

subsection \<open>Properties\<close>

text \<open>
  C38: Arguments that are written unambiguously are read back as they were meant: positional arguments, options with
  their value behind an equals sign and switches, in any order; and nothing behind \<open>--\<close> is taken for an option.
\<close>

theorem arguments_read_back:
  assumes "list_all clear_argument items"
  shows "parseArguments (map render_argument items) = fold take_argument items \<lparr>pa_positionals = [], pa_options = []\<rparr> \<and>
    (let p = fold take_argument items \<lparr>pa_positionals = [], pa_options = []\<rparr>
     in parseArguments (map render_argument items @ ''--'' # rest) = p\<lparr>pa_positionals := pa_positionals p @ rest\<rparr>)"
  using parse_arguments [OF assms, of "[]"] parse_arguments [OF assms, of "''--'' # rest"] by (simp add: parseArguments_def Let_def)

theorem arguments_read_back_witness:
  "parseArguments [''model'', ''remove'', ''--json'', ''--api-url=https://a'', ''--'', ''--yes''] =
     \<lparr>pa_positionals = [''model'', ''remove'', ''--yes''], pa_options = [(''json'', OFlag), (''api-url'', OText ''https://a'')]\<rparr>"
  using arguments_read_back [of "[Positional ''model'', Positional ''remove'', Switch ''json'', Setting ''api-url'' ''https://a'']" "[''--yes'']"]
  by (simp add: is_positional_def startsWith_def booleanOptions_def add_positional_def add_option_def addOption_def option_alias_def Let_def
      del: parse_from.simps)

text \<open>
  A clipped screen row shows at most the given number of characters, exactly that many when it has them, and keeps
  every colour sequence in its order, so that no attribute leaks into the next row.
\<close>

theorem clipped_row_fits:
  "visibleLength (clipTerminalLine v columns) = min (nat (max 0 columns)) (length (filter is_glyph (terminal_parts v))) \<and>
   filter (\<lambda>p. \<not> is_glyph p) (terminal_parts (clipTerminalLine v columns)) = filter (\<lambda>p. \<not> is_glyph p) (terminal_parts v)"
proof -
  let ?parts = "keep_parts (nat (max 0 columns)) (terminal_parts v)"
  have "list_all good_part ?parts" by (intro keep_parts_good terminal_parts_good)
  then show ?thesis
    by (simp add: clipTerminalLine_def visibleLength_def strip_rendered terminal_parts_rendered keep_parts_glyphs keep_parts_sgr)
qed

end
