(* ===== verification/Cli_Session.thy ===== *)
theory Cli_Session
  imports Cli_Args
begin

text \<open>
  Configuration, sign-in and runtime of the command line (\<open>apps/cli/src/config.ts\<close>, \<open>auth.ts\<close>, \<open>runtime.ts\<close>).
  Parameters are the network, the file system, the environment, the clock, \<open>Number\<close> on a received value (a whole
  number or not a number), the URL parser, certificates and \<open>path.join\<close>. Times are whole milliseconds. The state of a
  runtime is its cached session beside the world. The sign-in loop takes fuel; \<open>device_fuel\<close> is enough for every
  clock that a pause advances. Opening a browser is a parameter.
\<close>

subsection \<open>Files\<close>

record CliConfig =
  cc_apiUrl :: "string option"
  cc_issuer :: "string option"
  cc_clientId :: "string option"
  cc_caFile :: "string option"

record ConfigPaths =
  cp_directory :: string
  cp_config :: string
  cp_session :: string

record 's cli_files =
  fo_read :: "string \<Rightarrow> ('s, thrown, string) act"
  fo_parse :: "string \<Rightarrow> thrown + jsval"
  fo_mkdir :: "string \<Rightarrow> ('s, thrown, unit) act"
  fo_chmod :: "string \<Rightarrow> ('s, thrown, unit) act"
  fo_write :: "string \<Rightarrow> string \<Rightarrow> ('s, thrown, unit) act"
  fo_rename :: "string \<Rightarrow> string \<Rightarrow> ('s, thrown, unit) act"
  fo_remove :: "string \<Rightarrow> ('s, thrown, unit) act"
  fo_dirname :: "string \<Rightarrow> string"
  fo_unique :: string

definition configPaths :: "(string \<Rightarrow> string option) \<Rightarrow> (string list \<Rightarrow> string) \<Rightarrow> string \<Rightarrow> ConfigPaths" where
  "configPaths environment path_join homedir =
     (let directory = (case environment ''MAGICSTICK_CONFIG_HOME'' of Some d \<Rightarrow> d
        | None \<Rightarrow> path_join [case environment ''XDG_CONFIG_HOME'' of Some d \<Rightarrow> d | None \<Rightarrow> path_join [homedir, ''.config''], ''magicstick''])
      in \<lparr>cp_directory = directory, cp_config = path_join [directory, ''config.json''], cp_session = path_join [directory, ''session.json'']\<rparr>)"

fun code_of :: "thrown \<Rightarrow> string option" where
  "code_of (ApiError m s d) = None"
| "code_of (JsError m c cause) = c"

definition readJson :: "'s cli_files \<Rightarrow> string \<Rightarrow> ('s, thrown, jsval option) act" where
  "readJson fs filename = catch (bnd (fo_read fs filename) (\<lambda>s. bnd (lift_result (fo_parse fs s)) (\<lambda>v. ret (Some v))))
     (\<lambda>e. if code_of e = Some ''ENOENT'' then ret None else throw e)"

text \<open>\<open>m.catch(() => undefined)\<close>\<close>

definition quietly :: "('s, thrown, unit) act \<Rightarrow> ('s, thrown, unit) act" where
  "quietly m = catch m (\<lambda>_. ret ())"

text \<open>\<open>try { m } finally { f }\<close> for a step \<open>f\<close> that never fails.\<close>

definition always_then :: "('s, 'e, 'a) act \<Rightarrow> ('s, 'e, unit) act \<Rightarrow> ('s, 'e, 'a) act" where
  "always_then m f = (\<lambda>s. case m s of (r, t) \<Rightarrow> (r, snd (f t)))"

definition writePrivateJson :: "'s cli_files \<Rightarrow> string \<Rightarrow> jsval \<Rightarrow> ('s, thrown, unit) act" where
  "writePrivateJson fs filename v =
     (let directory = fo_dirname fs filename; temporary = filename @ ''.'' @ fo_unique fs @ ''.tmp''
      in seq (fo_mkdir fs directory) (seq (quietly (fo_chmod fs directory))
        (always_then
          (seq (fo_write fs temporary (stringify_output v)) (seq (fo_rename fs temporary filename) (quietly (fo_chmod fs filename))))
          (quietly (fo_remove fs temporary)))))"

definition readSession :: "'s cli_files \<Rightarrow> ConfigPaths \<Rightarrow> ('s, thrown, jsval option) act" where
  "readSession fs paths = readJson fs (cp_session paths)"

definition writeSession :: "'s cli_files \<Rightarrow> ConfigPaths \<Rightarrow> jsval \<Rightarrow> ('s, thrown, unit) act" where
  "writeSession fs paths session = writePrivateJson fs (cp_session paths) session"

definition clearSession :: "'s cli_files \<Rightarrow> ConfigPaths \<Rightarrow> ('s, thrown, unit) act" where
  "clearSession fs paths = fo_remove fs (cp_session paths)"

definition config_text :: "jsval option \<Rightarrow> string \<Rightarrow> string option" where
  "config_text saved k = (case jat saved [k] of Some (JStr s) \<Rightarrow> Some s | _ \<Rightarrow> None)"

definition readConfig :: "'s cli_files \<Rightarrow> ConfigPaths \<Rightarrow> ('s, thrown, CliConfig option) act" where
  "readConfig fs paths = bnd (readJson fs (cp_config paths)) (\<lambda>v. ret (map_option (\<lambda>ob.
     \<lparr>cc_apiUrl = config_text (Some ob) ''apiUrl'', cc_issuer = config_text (Some ob) ''issuer'', cc_clientId = config_text (Some ob) ''clientId'',
      cc_caFile = config_text (Some ob) ''caFile''\<rparr>) v))"

definition trim_slash :: "string \<Rightarrow> string" where
  "trim_slash s = (if s \<noteq> [] \<and> last s = CHR ''/'' then butlast s else s)"

definition deriveIssuer :: "url_parser \<Rightarrow> string \<Rightarrow> thrown + string" where
  "deriveIssuer parse apiUrl = (case parse apiUrl of None \<Rightarrow> Inl (error ''Invalid URL'')
     | Some u \<Rightarrow> (let name = (if startsWith (u_hostname u) ''api.'' then drop 4 (u_hostname u) else u_hostname u);
                      port = (if u_port u \<noteq> [] then '':'' @ u_port u else [])
                  in Inr (u_protocol u @ ''//id.'' @ name @ port @ ''/realms/magicstick'')))"

subsection \<open>Sign-in\<close>

type_synonym 's device_prompt = "string \<Rightarrow> string \<Rightarrow> jsval option \<Rightarrow> ('s, thrown, unit) act"

record 's oidc_env =
  oe_fetch :: "http_request \<Rightarrow> ('s, thrown, http_response) act"
  oe_now :: "'s \<Rightarrow> nat"
  oe_wait :: "nat \<Rightarrow> ('s, thrown, unit) act"
  oe_number :: "jsval option \<Rightarrow> int option"
  oe_open :: "string \<Rightarrow> ('s, thrown, unit) act"

definition oidc_body :: "http_response \<Rightarrow> jsval" where
  "oidc_body response = (case hs_json response of None \<Rightarrow> JObj [] | Some v \<Rightarrow> v)"

definition oidc_message :: "string \<Rightarrow> http_response \<Rightarrow> jsval \<Rightarrow> string" where
  "oidc_message what response body = text_of (either (jget body ''error_description'') (either (jget body ''error'')
     (Some (JStr (''OIDC '' @ what @ '' failed with HTTP '' @ show_int (hs_status response))))))"

text \<open>Properties of \<open>null\<close> cannot be read.\<close>

definition jsonResponse :: "http_response \<Rightarrow> thrown + jsval" where
  "jsonResponse response = (let body = oidc_body response
     in if hs_ok response then Inr body
        else if body = JNull then Inl (error ''TypeError'') else Inl (error (oidc_message ''request'' response body)))"

definition oidc_get :: "string \<Rightarrow> http_request" where
  "oidc_get url = \<lparr>hr_url = url, hr_method = ''GET'', hr_headers = set_header ''Accept'' ''application/json'' [], hr_body = None,
     hr_credentials = ''same-origin'', hr_cache = ''default''\<rparr>"

definition postForm :: "string \<Rightarrow> (string \<times> string) list \<Rightarrow> http_request" where
  "postForm url values = \<lparr>hr_url = url, hr_method = ''POST'',
     hr_headers = set_header ''Accept'' ''application/json'' (set_header ''Content-Type'' ''application/x-www-form-urlencoded'' []),
     hr_body = Some (form_query values), hr_credentials = ''same-origin'', hr_cache = ''default''\<rparr>"

definition discoverOidc :: "'s oidc_env \<Rightarrow> string \<Rightarrow> ('s, thrown, jsval) act" where
  "discoverOidc env issuer = bnd (oe_fetch env (oidc_get (trim_slash issuer @ ''/.well-known/openid-configuration''))) (\<lambda>r. lift_result (jsonResponse r))"

definition now_act :: "'s oidc_env \<Rightarrow> ('s, thrown, nat) act" where
  "now_act env = gets (oe_now env)"

definition storedSession :: "'s oidc_env \<Rightarrow> nat \<Rightarrow> jsval \<Rightarrow> jsval" where
  "storedSession env now tokens =
     JObj (field ''accessToken'' (jget tokens ''access_token'') @ field ''refreshToken'' (jget tokens ''refresh_token'') @
       field ''idToken'' (jget tokens ''id_token'') @
       [(''expiresAt'', case oe_number env (nullish (jget tokens ''expires_in'') (Some (JInt 300))) of
          None \<Rightarrow> JFloat ''NaN'' | Some n \<Rightarrow> JInt (int now + max 30 n * 1000))])"

datatype device_step = SignedIn jsval | Continue "int option" | Expired

definition wait_time :: "int option \<Rightarrow> nat" where
  "wait_time interval = (case interval of None \<Rightarrow> 1 | Some i \<Rightarrow> nat (i * 1000))"

definition before_deadline :: "nat \<Rightarrow> int option \<Rightarrow> bool" where
  "before_deadline now deadline = (case deadline of None \<Rightarrow> False | Some d \<Rightarrow> int now < d)"

definition device_answer :: "'s oidc_env \<Rightarrow> int option \<Rightarrow> http_response \<Rightarrow> ('s, thrown, device_step) act" where
  "device_answer env interval response = (let body = oidc_body response
     in if body = JNull then throw (error ''TypeError'')
        else if hs_ok response \<and> truthy_opt (jget body ''access_token'') then bnd (now_act env) (\<lambda>now. ret (SignedIn (storedSession env now body)))
        else if jget body ''error'' = Some (JStr ''authorization_pending'') then ret (Continue interval)
        else if jget body ''error'' = Some (JStr ''slow_down'') then ret (Continue (map_option (\<lambda>i. i + 5) interval))
        else throw (error (oidc_message ''token request'' response body)))"

text \<open>One pass of the loop; a pause of \<open>NaN\<close> milliseconds takes one.\<close>

definition device_pass :: "'s oidc_env \<Rightarrow> string \<Rightarrow> string \<Rightarrow> string \<Rightarrow> int option \<Rightarrow> int option \<Rightarrow> ('s, thrown, device_step) act" where
  "device_pass env token_endpoint device_code clientId deadline interval =
     bnd (now_act env) (\<lambda>now. if \<not> before_deadline now deadline then ret Expired
       else seq (oe_wait env (wait_time interval))
         (bnd (oe_fetch env (postForm token_endpoint [(''grant_type'', ''urn:ietf:params:oauth:grant-type:device_code''),
            (''device_code'', device_code), (''client_id'', clientId)])) (device_answer env interval)))"

fun deviceLoop :: "nat \<Rightarrow> 's oidc_env \<Rightarrow> string \<Rightarrow> string \<Rightarrow> string \<Rightarrow> int option \<Rightarrow> int option \<Rightarrow> 's \<Rightarrow> ((thrown + jsval) \<times> 's) option" where
  "deviceLoop 0 env token_endpoint device_code clientId deadline interval s = None"
| "deviceLoop (Suc n) env token_endpoint device_code clientId deadline interval s =
     (case device_pass env token_endpoint device_code clientId deadline interval s of
        (Inl e, t) \<Rightarrow> Some (Inl e, t)
      | (Inr (SignedIn session), t) \<Rightarrow> Some (Inr session, t)
      | (Inr (Continue i), t) \<Rightarrow> deviceLoop n env token_endpoint device_code clientId deadline i t
      | (Inr Expired, t) \<Rightarrow> Some (Inl (error ''The device login expired before it was completed. Run login again.''), t))"

definition device_fuel :: "nat \<Rightarrow> int option \<Rightarrow> nat" where
  "device_fuel now deadline = (case deadline of None \<Rightarrow> 1 | Some d \<Rightarrow> Suc (nat (d - int now)))"

text \<open>Out of fuel the loop stands still, which \<open>device_login_ends\<close> excludes.\<close>

definition device_wait :: "'s oidc_env \<Rightarrow> string \<Rightarrow> string \<Rightarrow> string \<Rightarrow> int option \<Rightarrow> int option \<Rightarrow> nat \<Rightarrow> ('s, thrown, jsval) act" where
  "device_wait env token_endpoint device_code clientId deadline interval now = (\<lambda>s.
     case deviceLoop (device_fuel now deadline) env token_endpoint device_code clientId deadline interval s of
       None \<Rightarrow> (Inl (error ''out of fuel''), s) | Some x \<Rightarrow> x)"

definition loginWithDeviceFlow :: "'s oidc_env \<Rightarrow> string \<Rightarrow> string \<Rightarrow> bool \<Rightarrow> 's device_prompt \<Rightarrow> ('s, thrown, jsval) act" where
  "loginWithDeviceFlow env issuer clientId openBrowser prompt =
     bnd (discoverOidc env issuer) (\<lambda>metadata.
     if \<not> truthy_opt (jget metadata ''device_authorization_endpoint'')
     then throw (error ''The identity provider does not advertise a device authorization endpoint.'')
     else bnd (oe_fetch env (postForm (text_of (jget metadata ''device_authorization_endpoint'')) [(''client_id'', clientId), (''scope'', ''openid profile email'')])) (\<lambda>r.
     bnd (lift_result (jsonResponse r)) (\<lambda>device.
     seq (prompt (text_of (jget device ''verification_uri'')) (text_of (jget device ''user_code'')) (jget device ''verification_uri_complete''))
     (seq (if openBrowser then oe_open env (text_of (nullish (jget device ''verification_uri_complete'') (jget device ''verification_uri''))) else ret ())
     (bnd (now_act env) (\<lambda>now.
       device_wait env (text_of (jget metadata ''token_endpoint'')) (text_of (jget device ''device_code'')) clientId
         (map_option (\<lambda>n. int now + n * 1000) (oe_number env (jget device ''expires_in'')))
         (map_option (max 1) (oe_number env (nullish (jget device ''interval'') (Some (JInt 5))))) now))))))"

definition refreshSession :: "'s oidc_env \<Rightarrow> string \<Rightarrow> string \<Rightarrow> jsval \<Rightarrow> ('s, thrown, jsval) act" where
  "refreshSession env issuer clientId session =
     (if \<not> truthy_opt (jget session ''refreshToken'') then throw (error ''The saved login has expired. Run `magicstick login` again.'')
      else bnd (discoverOidc env issuer) (\<lambda>metadata.
        bnd (oe_fetch env (postForm (text_of (jget metadata ''token_endpoint'')) [(''grant_type'', ''refresh_token''),
          (''refresh_token'', text_of (jget session ''refreshToken'')), (''client_id'', clientId)])) (\<lambda>r.
        bnd (lift_result (jsonResponse r)) (\<lambda>tokens.
        bnd (now_act env) (\<lambda>now.
          ret (storedSession env now (JObj (set_or_unset ''refresh_token'' (nullish (jget tokens ''refresh_token'') (jget session ''refreshToken''))
            (object_fields (Some tokens)))))))))) "

subsection \<open>Certificates\<close>

fun causes_of :: "nat \<Rightarrow> thrown \<Rightarrow> thrown list" where
  "causes_of 0 e = []"
| "causes_of (Suc n) (ApiError m s d) = [ApiError m s d]"
| "causes_of (Suc n) (JsError m c cause) = JsError m c cause # (case cause of None \<Rightarrow> [] | Some e \<Rightarrow> causes_of n e)"

definition mentions :: "string list \<Rightarrow> string \<Rightarrow> bool" where
  "mentions words s \<longleftrightarrow> list_ex (\<lambda>w. sublist w s) words"

definition certificateHint :: "thrown \<Rightarrow> string" where
  "certificateHint e =
     (let message = failure_message e;
          details = join '' '' (map (\<lambda>item. failure_message item @ '' '' @ (case code_of item of None \<Rightarrow> [] | Some c \<Rightarrow> c)) (causes_of 6 e))
      in if mentions [''--ca-file'', ''MAGICSTICK_CA_FILE'', ''NODE_EXTRA_CA_CERTS''] message then message
         else if mentions [''certificate'', ''self-signed'', ''self signed'', ''unable to verify'', ''unable_to_verify_leaf_signature'', ''cert_''] (toLowerCase details)
         then message @ newline @ ''The appliance CA is not trusted by Node.js. Trust it in the operating system, use --ca-file /path/to/magicstick-oidc-ca.crt, set MAGICSTICK_CA_FILE, or set NODE_EXTRA_CA_CERTS.''
         else message)"

record 's tls_env =
  te_authorities :: "string list"
  te_read :: "string \<Rightarrow> ('s, thrown, string) act"
  te_is_ca :: "string \<Rightarrow> thrown + bool"
  te_install :: "string list \<Rightarrow> ('s, thrown, unit) act"

definition caused :: "string \<Rightarrow> thrown \<Rightarrow> thrown" where
  "caused message e = JsError message None (Some e)"

definition configureTlsTrust :: "'s tls_env \<Rightarrow> string option \<Rightarrow> ('s, thrown, unit) act" where
  "configureTlsTrust env caFile = (case caFile of
     Some file \<Rightarrow> if file = [] then te_install env (uniques (te_authorities env))
       else bnd (catch (te_read env file) (\<lambda>e. throw (caused (''Cannot read the CA certificate at '' @ file @ ''.'') e))) (\<lambda>certificate.
         if sublist ''PRIVATE KEY'' certificate then throw (error (''The CA file at '' @ file @ '' must not contain a private key.''))
         else (case (case te_is_ca env certificate of Inl e \<Rightarrow> Some e | Inr ca \<Rightarrow> if ca then None else Some (error ''certificate is not a CA'')) of
             Some e \<Rightarrow> throw (caused (''The CA file at '' @ file @ '' does not contain a valid CA certificate.'') e)
           | None \<Rightarrow> te_install env (uniques (te_authorities env @ [certificate]))))
   | None \<Rightarrow> te_install env (uniques (te_authorities env)))"

text \<open>Requests to the issuer go to another network address, with the same path.\<close>

definition createOidcNetworkFetch :: "string \<Rightarrow> string option \<Rightarrow> (http_request \<Rightarrow> ('s, thrown, http_response) act) \<Rightarrow> http_request \<Rightarrow> ('s, thrown, http_response) act" where
  "createOidcNetworkFetch issuer networkUrl fetch q =
     (let base = trim_slash issuer
      in case map_option trim_slash networkUrl of
           None \<Rightarrow> fetch q
         | Some network \<Rightarrow> if network = [] then fetch q
             else if hr_url q = base \<or> startsWith (hr_url q) (base @ ''/'') then fetch (q\<lparr>hr_url := network @ drop (length base) (hr_url q)\<rparr>)
             else fetch q)"

subsection \<open>The runtime\<close>

record RuntimeOptions =
  ro_apiUrl :: "string option"
  ro_issuer :: "string option"
  ro_clientId :: "string option"
  ro_caFile :: "string option"
  ro_accessToken :: "string option"
  ro_oidcNetworkUrl :: "string option"

record ResolvedCliConfig =
  rc_apiUrl :: string
  rc_issuer :: string
  rc_clientId :: string
  rc_caFile :: "string option"

fun first_some :: "'a option list \<Rightarrow> 'a option" where
  "first_some [] = None"
| "first_some (Some x # xs) = Some x"
| "first_some (None # xs) = first_some xs"

definition saved_text :: "(CliConfig \<Rightarrow> string option) \<Rightarrow> CliConfig option \<Rightarrow> string option" where
  "saved_text sel saved = Option.bind saved sel"

definition cli_defaults :: "url_parser \<Rightarrow> (string \<Rightarrow> string option) \<Rightarrow> RuntimeOptions \<Rightarrow> CliConfig option \<Rightarrow> thrown + ResolvedCliConfig" where
  "cli_defaults parse environment options saved =
     (let apiUrl = trim_slash (the (first_some [ro_apiUrl options, environment ''MAGICSTICK_API_URL'', saved_text cc_apiUrl saved, Some ''https://api.magicstick.local'']))
      in rbind (case first_some [ro_issuer options, environment ''MAGICSTICK_ISSUER'', saved_text cc_issuer saved] of
             Some i \<Rightarrow> Inr i | None \<Rightarrow> deriveIssuer parse apiUrl) (\<lambda>issuer.
         Inr \<lparr>rc_apiUrl = apiUrl, rc_issuer = trim_slash issuer,
           rc_clientId = the (first_some [ro_clientId options, environment ''MAGICSTICK_CLIENT_ID'', saved_text cc_clientId saved, Some ''magicstick-cli'']),
           rc_caFile = first_some [ro_caFile options, environment ''MAGICSTICK_CA_FILE'', saved_text cc_caFile saved]\<rparr>))"

definition settings_json :: "ResolvedCliConfig \<Rightarrow> jsval" where
  "settings_json c = JObj ([(''apiUrl'', JStr (rc_apiUrl c)), (''issuer'', JStr (rc_issuer c)), (''clientId'', JStr (rc_clientId c))] @
     field ''caFile'' (map_option JStr (rc_caFile c)))"

text \<open>The closure of \<open>createRuntime\<close>: what it keeps beside the cached session.\<close>

record 's session_env =
  se_oidc :: "'s oidc_env"
  se_files :: "'s cli_files"
  se_paths :: ConfigPaths
  se_settings :: ResolvedCliConfig
  se_environmentToken :: "string option"

type_synonym ('s, 'a) rt_act = "(jsval option \<times> 's, thrown, 'a) act"

definition inner :: "('s, 'e, 'a) act \<Rightarrow> ('c \<times> 's, 'e, 'a) act" where
  "inner m = (\<lambda>(c, s). case m s of (r, t) \<Rightarrow> (r, (c, t)))"

definition set_cached :: "jsval option \<Rightarrow> ('s, unit) rt_act" where
  "set_cached v = (\<lambda>(c, s). (Inr (), (v, s)))"

definition expires_after :: "jsval \<Rightarrow> nat \<Rightarrow> bool" where
  "expires_after session t = (case jget session ''expiresAt'' of Some (JInt e) \<Rightarrow> int t < e | _ \<Rightarrow> False)"

definition token_text :: "jsval \<Rightarrow> string option" where
  "token_text session = map_option js_to_string (jget session ''accessToken'')"

definition refresh_cached :: "'s session_env \<Rightarrow> jsval \<Rightarrow> ('s, string option) rt_act" where
  "refresh_cached env session =
     bnd (inner (refreshSession (se_oidc env) (rc_issuer (se_settings env)) (rc_clientId (se_settings env)) session)) (\<lambda>renewed.
     seq (set_cached (Some renewed)) (seq (inner (writeSession (se_files env) (se_paths env) renewed)) (ret (token_text renewed))))"

definition with_hint :: "('s, thrown, 'a) act \<Rightarrow> ('s, thrown, 'a) act" where
  "with_hint m = catch m (\<lambda>e. throw (caused (certificateHint e) e))"

definition accessToken :: "'s session_env \<Rightarrow> ('s, string option) rt_act" where
  "accessToken env = (if has_token (se_environmentToken env) then ret (se_environmentToken env)
     else (\<lambda>(cached, s). case cached of
         None \<Rightarrow> (Inl (error ''Not signed in. Run `magicstick login` first.''), (cached, s))
       | Some session \<Rightarrow> if expires_after session (oe_now (se_oidc env) s + 30000) then (Inr (token_text session), (cached, s))
           else with_hint (refresh_cached env session) (cached, s)))"

record 's Runtime =
  rt_api :: "'s MagicStickApi"
  rt_settings :: ResolvedCliConfig
  rt_login :: "bool \<Rightarrow> 's device_prompt \<Rightarrow> ('s, thrown, unit) act"
  rt_logout :: "('s, thrown, unit) act"

text \<open>The sign-in of the closure runs beside the cached session.\<close>

definition inner_oidc :: "'s oidc_env \<Rightarrow> ('c \<times> 's) oidc_env" where
  "inner_oidc env = \<lparr>oe_fetch = (\<lambda>q. inner (oe_fetch env q)), oe_now = (\<lambda>s. oe_now env (snd s)), oe_wait = (\<lambda>n. inner (oe_wait env n)),
     oe_number = oe_number env, oe_open = (\<lambda>u. inner (oe_open env u))\<rparr>"

definition session_login :: "'s session_env \<Rightarrow> bool \<Rightarrow> (jsval option \<times> 's) device_prompt \<Rightarrow> ('s, unit) rt_act" where
  "session_login env openBrowser prompt =
     seq (inner (writePrivateJson (se_files env) (cp_config (se_paths env)) (settings_json (se_settings env))))
       (with_hint (bnd (loginWithDeviceFlow (inner_oidc (se_oidc env)) (rc_issuer (se_settings env)) (rc_clientId (se_settings env)) openBrowser prompt) (\<lambda>session.
          seq (set_cached (Some session)) (inner (writeSession (se_files env) (se_paths env) session)))))"

definition session_logout :: "'s session_env \<Rightarrow> ('s, unit) rt_act" where
  "session_logout env = seq (set_cached None) (inner (clearSession (se_files env) (se_paths env)))"

definition session_runtime :: "'s session_env \<Rightarrow> (http_request \<Rightarrow> ('s, thrown, http_response) act) \<Rightarrow> (jsval option \<times> 's) Runtime" where
  "session_runtime env fetch =
     \<lparr>rt_api = newMagicStickApi (Some (rc_apiUrl (se_settings env))) (\<lambda>q. inner (fetch q)) (Some (accessToken env)), rt_settings = se_settings env,
      rt_login = session_login env, rt_logout = session_logout env\<rparr>"

text \<open>The sign-in uses \<open>oidcFetch\<close>, the API the plain network.\<close>

definition createRuntime :: "url_parser \<Rightarrow> (string \<Rightarrow> string option) \<Rightarrow> 's cli_files \<Rightarrow> ConfigPaths \<Rightarrow> 's tls_env \<Rightarrow> 's oidc_env \<Rightarrow> RuntimeOptions
    \<Rightarrow> ('s, thrown, jsval option \<times> (jsval option \<times> 's) Runtime) act" where
  "createRuntime parse environment fs paths tls oidc options =
     bnd (readConfig fs paths) (\<lambda>saved. bnd (lift_result (cli_defaults parse environment options saved)) (\<lambda>settings.
     seq (configureTlsTrust tls (rc_caFile settings)) (bnd (readSession fs paths) (\<lambda>cached.
       let network = first_some [ro_oidcNetworkUrl options, environment ''MAGICSTICK_OIDC_NETWORK_URL''];
           env = \<lparr>se_oidc = oidc\<lparr>oe_fetch := createOidcNetworkFetch (rc_issuer settings) (map_option trim_slash network) (oe_fetch oidc)\<rparr>,
             se_files = fs, se_paths = paths, se_settings = settings,
             se_environmentToken = first_some [ro_accessToken options, environment ''MAGICSTICK_ACCESS_TOKEN'']\<rparr>
       in ret (cached, session_runtime env (oe_fetch oidc))))))"

subsection \<open>The sign-in loop ends\<close>

text \<open>Time does not go back, and a pause takes at least as long as asked for.\<close>

definition device_timely :: "'s oidc_env \<Rightarrow> bool" where
  "device_timely env \<longleftrightarrow> (\<forall>n s. oe_now env s + n \<le> oe_now env (snd (oe_wait env n s))) \<and> (\<forall>q s. oe_now env s \<le> oe_now env (snd (oe_fetch env q s)))"

definition pause_ok :: "int option \<Rightarrow> bool" where
  "pause_ok interval \<longleftrightarrow> (case interval of None \<Rightarrow> True | Some i \<Rightarrow> 1 \<le> i)"

lemma wait_time_positive: "pause_ok interval \<Longrightarrow> 1 \<le> wait_time interval"
  by (auto simp: pause_ok_def wait_time_def split: option.splits)

definition signed_in_by :: "'s oidc_env \<Rightarrow> jsval \<Rightarrow> bool" where
  "signed_in_by env session \<longleftrightarrow> (\<exists>now body. truthy_opt (jget body ''access_token'') \<and> session = storedSession env now body)"

lemma device_answer_outcome:
  assumes "device_answer env interval response s = (Inr step, t)"
  shows "t = s" "step \<noteq> Expired" "step = Continue i \<Longrightarrow> pause_ok interval \<Longrightarrow> pause_ok i" "step = SignedIn session \<Longrightarrow> signed_in_by env session"
  using assms by (auto simp: device_answer_def Let_def throw_def ret_def bnd_def now_act_def gets_def pause_ok_def signed_in_by_def
      split: if_splits option.splits)

lemma device_pass_outcome:
  assumes T: "device_timely env" and pass: "device_pass env ep code cid deadline interval s = (Inr step, t)" and ok: "pause_ok interval"
  shows "step = Continue i \<Longrightarrow> before_deadline (oe_now env s) deadline \<and> oe_now env s < oe_now env t \<and> pause_ok i"
    "step = SignedIn session \<Longrightarrow> signed_in_by env session"
proof -
  have tm: "\<And>n s. oe_now env s + n \<le> oe_now env (snd (oe_wait env n s))" "\<And>q s. oe_now env s \<le> oe_now env (snd (oe_fetch env q s))"
    using T by (auto simp: device_timely_def)
  let ?q = "postForm ep [(''grant_type'', ''urn:ietf:params:oauth:grant-type:device_code''), (''device_code'', code), (''client_id'', cid)]"
  { assume live: "before_deadline (oe_now env s) deadline"
    obtain r1 s1 where w: "oe_wait env (wait_time interval) s = (Inr r1, s1)"
      using pass live by (auto simp: device_pass_def bnd_def seq_def now_act_def gets_def split: prod.splits sum.splits)
    obtain response s2 where f: "oe_fetch env ?q s1 = (Inr response, s2)"
      using pass live w by (auto simp: device_pass_def bnd_def seq_def now_act_def gets_def split: prod.splits sum.splits)
    have a: "device_answer env interval response s2 = (Inr step, t)"
      using pass live w f by (simp add: device_pass_def bnd_def seq_def now_act_def gets_def)
    have "oe_now env s + wait_time interval \<le> oe_now env s1" "oe_now env s1 \<le> oe_now env s2"
      using tm(1) [where n = "wait_time interval" and s = s] tm(2) [where q = ?q and s = s1] w f by simp_all
    then have "oe_now env s < oe_now env t" using wait_time_positive [OF ok] device_answer_outcome(1) [OF a] by simp
    with device_answer_outcome [OF a] ok live have
      "step = Continue i \<Longrightarrow> before_deadline (oe_now env s) deadline \<and> oe_now env s < oe_now env t \<and> pause_ok i"
      "step = SignedIn session \<Longrightarrow> signed_in_by env session" by auto }
  note alive = this
  show "step = Continue i \<Longrightarrow> before_deadline (oe_now env s) deadline \<and> oe_now env s < oe_now env t \<and> pause_ok i"
    "step = SignedIn session \<Longrightarrow> signed_in_by env session"
    using alive pass by (cases "before_deadline (oe_now env s) deadline"; auto simp: device_pass_def bnd_def now_act_def gets_def ret_def)+
qed

lemma deviceLoop_ends:
  assumes T: "device_timely env" and "pause_ok interval" and "device_fuel (oe_now env s) deadline \<le> n"
  shows "\<exists>r t. deviceLoop n env ep code cid deadline interval s = Some (r, t) \<and> (\<forall>session. r = Inr session \<longrightarrow> signed_in_by env session)"
  using assms(2,3)
proof (induction n arbitrary: interval s)
  case 0
  then show ?case by (simp add: device_fuel_def split: option.splits)
next
  case (Suc n)
  obtain r t where pass: "device_pass env ep code cid deadline interval s = (r, t)" by (metis prod.collapse)
  show ?case
  proof (cases "\<exists>i. r = Inr (Continue i)")
    case True
    then obtain i where i: "r = Inr (Continue i)" by blast
    from device_pass_outcome(1) [OF T pass [unfolded i] Suc.prems(1) refl] have
      "before_deadline (oe_now env s) deadline" "oe_now env s < oe_now env t" "pause_ok i" by auto
    then have "device_fuel (oe_now env t) deadline \<le> n"
      using Suc.prems(2) by (auto simp: before_deadline_def device_fuel_def split: option.splits)
    from Suc.IH [OF \<open>pause_ok i\<close> this] pass i show ?thesis by simp
  next
    case False
    then show ?thesis using pass device_pass_outcome(2) [OF T _ Suc.prems(1)]
      by (cases r; cases "projr r") (auto split: sum.splits)
  qed
qed

subsection \<open>Sessions\<close>

lemma refreshSession_stored:
  assumes "refreshSession env issuer cid session s = (Inr renewed, t)"
  shows "\<exists>now body. renewed = storedSession env now body"
  using assms by (auto simp: refreshSession_def bnd_def throw_def ret_def lift_result_def split: if_splits prod.splits sum.splits)

lemma storedSession_expires: "jget (storedSession env now body) ''expiresAt'' = Some (JInt e) \<Longrightarrow> int now + 30000 \<le> e"
  by (auto simp: storedSession_def oget_append split: option.splits)

lemma refresh_cached_outcome:
  assumes "refresh_cached env session (cached, s) = (Inr t, (cached', s'))"
  shows "\<exists>renewed now body. cached' = Some renewed \<and> t = token_text renewed \<and> renewed = storedSession (se_oidc env) now body"
proof -
  obtain renewed s1 where r: "refreshSession (se_oidc env) (rc_issuer (se_settings env)) (rc_clientId (se_settings env)) session s = (Inr renewed, s1)"
    using assms by (auto simp: refresh_cached_def bnd_def inner_def split: prod.splits sum.splits)
  have "cached' = Some renewed \<and> t = token_text renewed"
    using assms r by (auto simp: refresh_cached_def bnd_def seq_def inner_def set_cached_def ret_def split: prod.splits sum.splits)
  with refreshSession_stored [OF r] show ?thesis by blast
qed

lemma with_hint_Inr: "with_hint m s = (Inr x, t) \<longleftrightarrow> m s = (Inr x, t)"
  by (auto simp: with_hint_def catch_def throw_def split: prod.splits sum.splits)

subsection \<open>Properties\<close>

text \<open>
  C39: With a clock that pauses advance the device sign-in always returns, whatever the identity provider answers and
  however long it asks to slow down, and a session that it returns comes from an answer with an access token.
\<close>

theorem device_login_ends:
  assumes "device_timely env" and "pause_ok interval"
  shows "\<exists>r t. deviceLoop (device_fuel (oe_now env s) deadline) env ep code cid deadline interval s = Some (r, t) \<and>
    (\<forall>session. r = Inr session \<longrightarrow> signed_in_by env session)"
  by (rule deviceLoop_ends [OF assms order.refl])

text \<open>
  Without a token of the environment the client only sends the token of a cached session with more than 30 seconds
  left or of a session that was just renewed, which lives at least 30 seconds; the cache holds the session whose token is sent.
\<close>

theorem access_token_fresh:
  assumes "accessToken env (cached, s) = (Inr t, (cached', s'))" and "\<not> has_token (se_environmentToken env)"
  shows "\<exists>session. cached' = Some session \<and> t = token_text session \<and>
    (cached = Some session \<and> s' = s \<and> expires_after session (oe_now (se_oidc env) s + 30000) \<or>
     (\<exists>now body. session = storedSession (se_oidc env) now body \<and>
       (\<forall>e. jget session ''expiresAt'' = Some (JInt e) \<longrightarrow> int now + 30000 \<le> e)))"
proof -
  obtain session where session: "cached = Some session" using assms by (auto simp: accessToken_def split: option.splits)
  show ?thesis
  proof (cases "expires_after session (oe_now (se_oidc env) s + 30000)")
    case True
    then show ?thesis using assms session by (auto simp: accessToken_def)
  next
    case False
    then have "refresh_cached env session (cached, s) = (Inr t, (cached', s'))"
      using assms session by (simp add: accessToken_def with_hint_Inr)
    from refresh_cached_outcome [OF this] storedSession_expires show ?thesis by blast
  qed
qed

subsection \<open>A concrete runtime\<close>

definition answer_json :: "jsval \<Rightarrow> http_response" where
  "answer_json v = \<lparr>hs_ok = True, hs_status = 200, hs_statusText = ''OK'', hs_contentType = Some ''application/json'', hs_json = Some v, hs_text = None\<rparr>"

text \<open>The state is the clock; a pause advances it and every request is answered with a token.\<close>

definition example_oidc :: "nat oidc_env" where
  "example_oidc = \<lparr>oe_fetch = (\<lambda>q. ret (answer_json (JObj [(''access_token'', JStr ''t1''), (''expires_in'', JInt 60)]))), oe_now = (\<lambda>s. s),
     oe_wait = (\<lambda>n s. (Inr (), s + n)), oe_number = (\<lambda>v. case v of Some (JInt i) \<Rightarrow> Some i | _ \<Rightarrow> None), oe_open = (\<lambda>_. ret ())\<rparr>"

definition example_files :: "nat cli_files" where
  "example_files = \<lparr>fo_read = (\<lambda>_. throw (error ''unreadable'')), fo_parse = (\<lambda>_. Inr JNull), fo_mkdir = (\<lambda>_. ret ()), fo_chmod = (\<lambda>_. ret ()),
     fo_write = (\<lambda>_ _. ret ()), fo_rename = (\<lambda>_ _. ret ()), fo_remove = (\<lambda>_. ret ()), fo_dirname = id, fo_unique = ''1''\<rparr>"

definition example_session_env :: "nat session_env" where
  "example_session_env = \<lparr>se_oidc = example_oidc, se_files = example_files,
     se_paths = \<lparr>cp_directory = ''/c'', cp_config = ''/c/config.json'', cp_session = ''/c/session.json''\<rparr>,
     se_settings = \<lparr>rc_apiUrl = ''https://api'', rc_issuer = ''https://id'', rc_clientId = ''cli'', rc_caFile = None\<rparr>, se_environmentToken = None\<rparr>"

definition stale_session :: jsval where
  "stale_session = JObj [(''accessToken'', JStr ''t0''), (''refreshToken'', JStr ''r0''), (''expiresAt'', JInt 5)]"

theorem device_login_ends_witness:
  "\<exists>r t. deviceLoop (device_fuel 0 (Some 60000)) example_oidc ''https://id/token'' ''code'' ''cli'' (Some 60000) (Some 5) 0 = Some (r, t)"
proof -
  have "device_timely example_oidc" "pause_ok (Some 5)"
    by (simp_all add: device_timely_def example_oidc_def ret_def pause_ok_def)
  from device_login_ends [OF this, of 0 "Some 60000" "''https://id/token''" "''code''" "''cli''"] show ?thesis
    by (auto simp: example_oidc_def)
qed

definition renewed_session :: jsval where
  "renewed_session = JObj [(''accessToken'', JStr ''t1''), (''refreshToken'', JStr ''r0''), (''expiresAt'', JInt 60100)]"

theorem access_token_fresh_witness:
  "accessToken example_session_env (Some stale_session, 100) = (Inr (Some ''t1''), (Some renewed_session, 100)) \<and>
   (\<exists>now body. renewed_session = storedSession example_oidc now body)"
proof -
  have run: "accessToken example_session_env (Some stale_session, 100) = (Inr (Some ''t1''), (Some renewed_session, 100))" and
    none: "\<not> has_token (se_environmentToken example_session_env)" by code_simp+
  have "\<not> expires_after renewed_session (oe_now (se_oidc example_session_env) 100 + 30000) \<or> renewed_session \<noteq> stale_session"
    by (simp add: renewed_session_def stale_session_def)
  with access_token_fresh [OF run none] run show ?thesis
    by (auto simp: example_session_env_def renewed_session_def stale_session_def)
qed

end
