(* ===== verification/Cli_Commands.thy ===== *)
theory Cli_Commands
  imports Cli_Session Iso_Time
begin

text \<open>
  The commands of the command line (\<open>apps/cli/src/commands.ts\<close> with \<open>snapshot.ts\<close>, \<open>license.ts\<close> and \<open>demo.ts\<close>). A command
  is an action over the state of its runtime and terminal. Payloads are JSON values; a list that the API's contract
  promises and a payload lacks reads as empty, and sizes in Mi are whole numbers. Parameters are the terminal and its
  files, \<open>JSON.parse\<close>, \<open>Number\<close> on an option's text, \<open>formatBytes\<close>, random identifiers and the terminal interface.
  The requests that the source starts together are sent in their order, whatever their outcome.
\<close>

subsection \<open>Terminal\<close>

record 's CliIo =
  ci_stdout :: "string \<Rightarrow> ('s, thrown, unit) act"
  ci_readStdin :: "('s, thrown, string) act"
  ci_readFile :: "string \<Rightarrow> ('s, thrown, string) act"
  ci_writeFile :: "string \<Rightarrow> string \<Rightarrow> ('s, thrown, unit) act"
  ci_createFile :: "string \<Rightarrow> string \<Rightarrow> ('s, thrown, unit) act"
  ci_isFile :: "string \<Rightarrow> ('s, thrown, bool) act"
  ci_open :: "string \<Rightarrow> ('s, thrown, nat) act"
  ci_handleIsFile :: "nat \<Rightarrow> ('s, thrown, bool) act"
  ci_read :: "nat \<Rightarrow> nat \<Rightarrow> ('s, thrown, string) act"
  ci_close :: "nat \<Rightarrow> ('s, thrown, unit) act"
  ci_decode :: "string \<Rightarrow> string option"
  ci_parse :: "string \<Rightarrow> jsval option"
  ci_integer :: "string \<Rightarrow> int option"
  ci_now :: "'s \<Rightarrow> nat"
  ci_uuid :: "('s, thrown, string) act"
  ci_formatBytes :: "jsval option \<Rightarrow> string"
  ci_rule :: char
  ci_ellipsis :: char

definition VERSION :: string where
  "VERSION = ''0.1.0''"

definition HELP :: string where
  "HELP = concat (map (\<lambda>line. line @ newline)
    [''Magic Stick CLI and TUI'',
     [],
     ''Usage:'',
     ''  magicstick [global options] <command>'',
     ''  magicstick tui'',
     ''  magicstick tui --demo'',
     ''  magicstick console'',
     [],
     ''Interactive TUI:'',
     ''  A seven-line space banner shows the branded USB spacecraft powering up a PC.'',
     ''  The stick docks once and stays connected; decorative visitors appear rarely.'',
     ''  The PC's status, usage %, and TPS (tokens/sec) are artificial, not live data.'',
     ''  Animation runs continuously, including in dialogs; short terminals hide it.'',
     ''  Browse with arrow keys or h/j/k/l. Operators can enable/disable services and'',
     ''  create/remove models. Administrators can additionally manage users, named API'',
     ''  keys, offline licenses, and SSO-backed Kubernetes access. Forms and confirmations'',
     ''  use the same authenticated control API as the commands below.'',
     ''  console is the appliance-monitor mode: it requests a device-flow login when'',
     ''  necessary and then opens the same TUI without storing a password.'',
     ''  tui --demo previews all tabs with synthetic, read-only data, without a backend'',
     ''  or login. No saved configuration or credentials are accessed.'',
     [],
     ''Authentication:'',
     ''  login [--no-open]                    Sign in with the Keycloak device flow'',
     ''  logout                               Delete the locally cached session'',
     ''  whoami                               Show the current identity and role'',
     [],
     ''Read commands:'',
     ''  overview                             Appliance, module, instance and model summary'',
     ''  service list                         List modules'',
     ''  hardware list                        GPU profiles, nodes and optional engine validation'',
     ''  instance list                        List application instances'',
     ''  instance access <name>                Show instance sharing policy (admin)'',
     ''  instance principals [--kind users|groups] [--search text]'',
     ''  model list                           List models and compute targets'',
     ''  model search <query> [--provider huggingface|ollama]'',
     ''  model popular [--provider huggingface|ollama]'',
     ''  model artifacts <repo> [--provider huggingface|ollama]'',
     ''  settings get'',
     ''  user list [--search text] [--first 0] [--max 25]'',
     ''  api-key list'',
     ''  kubernetes-access list [--search text]'',
     ''  status                               Hardware and Kubernetes status'',
     ''  license status                       Offline license and capability status (admin)'',
     ''  license inspect <file>               Validate without replacing the active license'',
     ''  license export <file>                Save the active license; never overwrite a file'',
     [],
     ''Mutation commands:'',
     ''  service enable <name> [--set key=value ...]'',
     ''  service disable <name>'',
     ''  service credentials <name>'',
     ''  hardware profile <id|upstream> [--allow-experimental]'',
     ''  hardware validate --yes               Request bounded GPU validation jobs'',
     ''  instance create <type> --file payload.json'',
     ''  instance remove <name>'',
     ''  instance credentials <name>'',
     ''  instance share <name> --file policy.json --yes'',
     ''  model estimate --file payload.json'',
     ''  model create-local --file payload.json'',
     ''  model create-external --file payload.json'',
     ''  model remove <name>'',
     ''  model cleanup-runtime'',
     ''  settings set [--public-domain domain] [--mdns-domain domain]'',
     ''  user create <username> --password-file file [--access-level user|viewer|operator|admin]'',
     ''  user update <id> [--first-name value] [--last-name value] [--email value]'',
     ''  user role <id> <user|viewer|operator|admin>'',
     ''  user enable|disable <id>'',
     ''  user password <id> --password-file file [--permanent]'',
     ''  user delete <id> --confirm <username>'',
     ''  api-key create <name>'',
     ''  api-key revoke <id>'',
     ''  kubernetes-access set <id> <none|viewer|operator|admin>'',
     ''  kubernetes-access kubeconfig <id> [--output path|-]'',
     ''  license import <file> --yes           Validate and atomically replace license (admin)'',
     [],
     ''Global options:'',
     ''  --api-url URL        Default: https://api.magicstick.local'',
     ''  --issuer URL         Default: derived id.<domain>/realms/magicstick'',
     ''  --client-id ID       Default: magicstick-cli'',
     ''  --ca-file PATH       Trust this public appliance CA; saved after login'',
     ''  --json               Machine-readable JSON output'',
     ''  --no-color           Disable ANSI colors in the TUI'',
     ''  --refresh SECONDS    TUI refresh interval; minimum 5, default 15'',
     ''  --demo              Offline read-only preview (tui only)'',
     ''  -h, --help           Show this help'',
     ''  -V, --version        Show the CLI version'',
     [],
     ''Environment:'',
     ''  MAGICSTICK_API_URL, MAGICSTICK_ISSUER, MAGICSTICK_CLIENT_ID, MAGICSTICK_CA_FILE'',
     ''  MAGICSTICK_ACCESS_TOKEN (non-persistent automation token)'',
     ''  MAGICSTICK_CONFIG_HOME, NODE_EXTRA_CA_CERTS''])"

abbreviation cell :: "string \<Rightarrow> jsval option" where
  "cell s \<equiv> Some (JStr s)"

definition yes_no :: "jsval option \<Rightarrow> jsval option" where
  "yes_no v = cell (if truthy_opt v then ''yes'' else ''no'')"

definition textOption :: "ParsedArguments \<Rightarrow> string \<Rightarrow> string option" where
  "textOption parsed name = (case option_of parsed name of Some (OText s) \<Rightarrow> Some s | _ \<Rightarrow> None)"

text \<open>\<open>if (option(parsed, name))\<close> and \<open>option(parsed, name) === true\<close>.\<close>

definition option_set :: "ParsedArguments \<Rightarrow> string \<Rightarrow> bool" where
  "option_set parsed name = (case option_of parsed name of Some (OText s) \<Rightarrow> s \<noteq> [] | Some _ \<Rightarrow> True | None \<Rightarrow> False)"

definition option_true :: "ParsedArguments \<Rightarrow> string \<Rightarrow> bool" where
  "option_true parsed name \<longleftrightarrow> option_of parsed name = Some OFlag"

definition text_or :: "string option \<Rightarrow> string \<Rightarrow> string" where
  "text_or v d = (case v of None \<Rightarrow> d | Some s \<Rightarrow> s)"

definition integerOption :: "'s CliIo \<Rightarrow> ParsedArguments \<Rightarrow> string \<Rightarrow> int \<Rightarrow> thrown + int" where
  "integerOption io parsed name fallback = (case textOption parsed name of
     None \<Rightarrow> Inr fallback
   | Some raw \<Rightarrow> (case ci_integer io raw of
       Some i \<Rightarrow> if 0 \<le> i then Inr i else Inl (error (''--'' @ name @ '' must be a non-negative integer.''))
     | None \<Rightarrow> Inl (error (''--'' @ name @ '' must be a non-negative integer.''))))"

definition required :: "string option \<Rightarrow> string \<Rightarrow> thrown + string" where
  "required v description = (if has_token v then Inr (the v) else Inl (error (''Missing '' @ description @ ''. Run `magicstick --help` for usage.'')))"

definition read_input :: "'s CliIo \<Rightarrow> string \<Rightarrow> ('s, thrown, string) act" where
  "read_input io filename = (if filename = ''-'' then ci_readStdin io else ci_readFile io filename)"

definition readJsonPayload :: "ParsedArguments \<Rightarrow> 's CliIo \<Rightarrow> ('s, thrown, jsval) act" where
  "readJsonPayload parsed io = bnd (lift_result (required (textOption parsed ''file'') ''--file'')) (\<lambda>filename.
     bnd (read_input io filename) (\<lambda>content. case ci_parse io content of
       Some v \<Rightarrow> ret v | None \<Rightarrow> throw (error (''The payload in '' @ filename @ '' is not valid JSON.''))))"

text \<open>\<open>s.replace(/[\r\n]+$/, '')\<close>\<close>

definition drop_newlines :: "string \<Rightarrow> string" where
  "drop_newlines s = rev (dropWhile (\<lambda>c. (of_char c :: nat) \<in> {10, 13}) (rev s))"

definition readPassword :: "ParsedArguments \<Rightarrow> 's CliIo \<Rightarrow> ('s, thrown, string) act" where
  "readPassword parsed io =
     (if has_token (textOption parsed ''password-file'')
      then bnd (read_input io (the (textOption parsed ''password-file''))) (\<lambda>s. ret (drop_newlines s))
      else if option_set parsed ''password-stdin'' then bnd (ci_readStdin io) (\<lambda>s. ret (drop_newlines s))
      else throw (error ''Use --password-file <path|-> or --password-stdin; passwords are intentionally not accepted as command-line values.''))"

definition show_output :: "'s CliIo \<Rightarrow> ParsedArguments \<Rightarrow> jsval \<Rightarrow> string \<Rightarrow> ('s, thrown, unit) act" where
  "show_output io parsed v human = ci_stdout io (if option_set parsed ''json'' then stringify_output v else human @ newline)"

definition login_words :: "string list" where
  "login_words = [''not signed in'', ''saved login has expired'', ''invalid or expired access token'', ''invalid_grant'', ''token is not active'',
     ''session not active'', ''refresh token'']"

definition consoleLoginRequired :: "thrown \<Rightarrow> bool" where
  "consoleLoginRequired e \<longleftrightarrow> (case e of ApiError m status d \<Rightarrow> status = 401 | _ \<Rightarrow> False) \<or>
     mentions login_words (toLowerCase (join '' '' (map failure_message (causes_of 6 e))))"

definition consoleLoginScreen :: "string \<Rightarrow> string \<Rightarrow> string" where
  "consoleLoginScreen verificationUri userCode = join newline
     [CHR 0x1B # ''[2J'' @ CHR 0x1B # ''[H'',
      ''============================================================'',
      ''                         MAGIC STICK'',
      ''============================================================'',
      [],
      ''Anmeldung fuer die lokale Bedienoberflaeche'',
      [],
      ''1. Oeffne diese Adresse auf einem Geraet im lokalen Netzwerk:'',
      ''   '' @ verificationUri,
      [],
      ''2. Gib dort diesen einmaligen Code ein:'',
      [],
      ''                         '' @ userCode,
      [],
      ''Die TUI startet automatisch nach erfolgreicher Anmeldung.'',
      ''Es wird kein Passwort auf dem Magic Stick gespeichert.'',
      []]"

subsection \<open>Snapshots\<close>

record DashboardSnapshot =
  sn_session :: jsval
  sn_appliance :: jsval
  sn_modules :: jsval
  sn_instances :: jsval
  sn_models :: jsval
  sn_settings :: "jsval option"
  sn_status :: jsval
  sn_users :: "jsval option"
  sn_apiAccess :: "jsval option"
  sn_kubernetesAccess :: "jsval option"
  sn_license :: "jsval option"
  sn_licenseError :: "string option"
  sn_loadedAt :: nat

text \<open>\<open>Promise.all\<close>: every request is made; the first that failed is the error.\<close>

fun both_ends :: "('e + 'a) \<Rightarrow> ('e + 'a list) \<Rightarrow> 'e + 'a list" where
  "both_ends (Inl e) rs = Inl e"
| "both_ends (Inr x) (Inl e) = Inl e"
| "both_ends (Inr x) (Inr xs) = Inr (x # xs)"

fun all_of :: "('s, 'e, 'a) act list \<Rightarrow> ('s, 'e, 'a list) act" where
  "all_of [] = ret []"
| "all_of (m # ms) = (\<lambda>s. case m s of (r, t) \<Rightarrow> (case all_of ms t of (rs, u) \<Rightarrow> (both_ends r rs, u)))"

definition optionally :: "bool \<Rightarrow> ('s, 'e, 'a) act \<Rightarrow> ('s, 'e, 'a option) act" where
  "optionally c m = (if c then bnd m (\<lambda>x. ret (Some x)) else ret None)"

definition always :: "('s, 'e, 'a) act \<Rightarrow> ('s, 'e, 'a option) act" where
  "always m = optionally True m"

abbreviation users_page :: "int \<Rightarrow> api_call" where
  "users_page maximum \<equiv> api_users [] (JInt 0) (JInt maximum)"

definition snapshot_reads :: "'s MagicStickApi \<Rightarrow> bool \<Rightarrow> bool \<Rightarrow> ('s, thrown, jsval option) act list" where
  "snapshot_reads api admin identities =
     [always (request api api_appliance), always (request api api_modules), always (request api api_instances), always (request api api_models),
      always (request api api_status), optionally admin (api_settings api), optionally (admin \<and> identities) (request api (users_page 25)),
      optionally admin (request api api_apiAccess), optionally (admin \<and> identities) (request api (api_kubernetesAccess [] (JInt 0) (JInt 100)))]"

definition loadSnapshot :: "'s MagicStickApi \<Rightarrow> ('s \<Rightarrow> nat) \<Rightarrow> ('s, thrown, DashboardSnapshot) act" where
  "loadSnapshot api clk = bnd (api_session api) (\<lambda>session.
     let admin = canAdminister (Some session); identities = (jget session ''identityManagementAvailable'' \<noteq> Some (JBool False))
     in bnd (all_of (snapshot_reads api admin identities)) (\<lambda>rs.
        bnd (if admin then catch (bnd (request api api_licenseStatus) (\<lambda>v. ret (Some v, None)))
               (\<lambda>_. ret (None, Some ''License status unavailable. Core functions are unaffected.'')) else ret (None, None)) (\<lambda>(license, licenseError).
        bnd (gets clk) (\<lambda>now.
          ret \<lparr>sn_session = session, sn_appliance = the (rs ! 0), sn_modules = the (rs ! 1), sn_instances = the (rs ! 2), sn_models = the (rs ! 3),
            sn_settings = rs ! 5, sn_status = the (rs ! 4), sn_users = rs ! 6, sn_apiAccess = rs ! 7, sn_kubernetesAccess = rs ! 8,
            sn_license = license, sn_licenseError = licenseError, sn_loadedAt = now\<rparr>))))"

subsection \<open>Licenses\<close>

text \<open>The file is read in pieces until it ends or one byte more than allowed was read.\<close>

fun read_pieces :: "nat \<Rightarrow> 's CliIo \<Rightarrow> nat \<Rightarrow> nat \<Rightarrow> ('s, thrown, string) act" where
  "read_pieces 0 io handle remaining = ret []"
| "read_pieces (Suc n) io handle remaining = (if remaining = 0 then ret [] else
     bnd (ci_read io handle remaining) (\<lambda>piece. if piece = [] then ret []
       else bnd (read_pieces n io handle (remaining - length piece)) (\<lambda>rest. ret (piece @ rest))))"

definition license_limit :: nat where
  "license_limit = 64 * 1024"

definition close_after :: "'s CliIo \<Rightarrow> nat \<Rightarrow> ('s, thrown, 'a) act \<Rightarrow> ('s, thrown, 'a) act" where
  "close_after io handle m = bnd (catch m (\<lambda>e. seq (ci_close io handle) (throw e))) (\<lambda>x. seq (ci_close io handle) (ret x))"

definition readLicenseFile :: "'s CliIo \<Rightarrow> string \<Rightarrow> ('s, thrown, string) act" where
  "readLicenseFile io path = bnd (ci_isFile io path) (\<lambda>regular.
     if \<not> regular then throw (error ''Select a regular license file.'')
     else bnd (ci_open io path) (\<lambda>handle. close_after io handle
       (bnd (ci_handleIsFile io handle) (\<lambda>still. if \<not> still then throw (error ''Select a regular license file.'')
        else bnd (read_pieces (license_limit + 1) io handle (license_limit + 1)) (\<lambda>bytes.
          if license_limit < length bytes then throw (error ''License file exceeds 64 KiB.'')
          else (case ci_decode io bytes of Some s \<Rightarrow> ret s | None \<Rightarrow> throw (error ''The encoded data was not valid''))))))) "

definition iso_seconds :: "jsval option \<Rightarrow> string" where
  "iso_seconds v = toISOString (nat (case v of Some (JInt i) \<Rightarrow> i * 1000 | _ \<Rightarrow> 0))"

definition names_or_none :: "jsval option \<Rightarrow> string" where
  "names_or_none v = (let s = join '', '' (string_items v) in if s = [] then ''none'' else s)"

definition middot :: string where
  "middot = CHR '' '' # char_of (183::nat) # '' ''"

definition licenseLines :: "jsval \<Rightarrow> string list" where
  "licenseLines status =
     [''License: '' @ text_of (jget status ''state''), ''Edition: '' @ text_of (jget status ''edition''), shown (jget status ''message''),
      ''Installation: '' @ text_of (jget status ''installationId''), ''Trusted keys: '' @ names_or_none (jget status ''trustedKeyIds'')] @
     (if truthy_opt (jget status ''claims'')
      then [''Customer: '' @ text_of (jat (Some status) [''claims'', ''customer'']), ''License ID: '' @ text_of (jat (Some status) [''claims'', ''licenseId'']),
            ''Expires: '' @ iso_seconds (jat (Some status) [''claims'', ''expiresAt''])] else []) @
     map (\<lambda>f. text_of (jget f ''name'') @ '': '' @ (if truthy_opt (jget f ''licensed'') then ''licensed'' else ''not licensed'') @ middot @
       (if truthy_opt (jget f ''implemented'') then ''implemented'' else ''not implemented'')) (list_items (jget status ''features''))"

definition previewLines :: "jsval \<Rightarrow> string list" where
  "previewLines preview =
     [shown (jat (Some preview) [''candidate'', ''message'']),
      ''Current license: '' @ text_of (nullish (jat (Some preview) [''current'', ''claims'', ''licenseId'']) (cell ''none''))] @
     (let claims = jat (Some preview) [''candidate'', ''claims'']
      in if truthy_opt claims
         then [''New license: '' @ text_of (jat claims [''licenseId'']), ''Customer: '' @ text_of (jat claims [''customer'']),
               ''Edition: '' @ text_of (jat claims [''edition'']), ''Valid from: '' @ iso_seconds (jat claims [''notBefore'']),
               ''Expires: '' @ iso_seconds (jat claims [''expiresAt'']),
               ''Installation binding: '' @ text_of (nullish (jat claims [''installationId'']) (cell ''unbound'')),
               ''Entitlements: '' @ names_or_none (jat claims [''features''])]
         else [])"

subsection \<open>Commands\<close>

abbreviation call :: "'s Runtime \<Rightarrow> api_call \<Rightarrow> ('s, thrown, jsval) act" where
  "call rt c \<equiv> request (rt_api rt) c"

definition rows_table :: "'s CliIo \<Rightarrow> string list \<Rightarrow> jsval option list list \<Rightarrow> string" where
  "rows_table io headers rows = table (ci_rule io) headers rows"

definition short :: "'s CliIo \<Rightarrow> jsval option \<Rightarrow> jsval option" where
  "short io v = cell (Cli_Args.truncate (ci_ellipsis io) 70 v)"

definition count_cell :: "nat \<Rightarrow> jsval option" where
  "count_cell n = Some (JInt (int n))"

definition enabled_count :: "jsval \<Rightarrow> nat" where
  "enabled_count modules = length (filter (\<lambda>(k, item). truthy_opt (jget item ''enabled'')) (object_fields (jget modules ''modules'')))"

definition summary_value :: "DashboardSnapshot \<Rightarrow> jsval" where
  "summary_value sn =
     JObj [(''appliance'', JObj ((''name'', the (nullish (jat (Some (sn_appliance sn)) [''metadata'', ''name'']) (cell ''local''))) #
         field ''phase'' (jat (Some (sn_appliance sn)) [''status'', ''phase'']))),
       (''modules'', JObj [(''enabled'', JInt (int (enabled_count (sn_modules sn)))),
         (''total'', JInt (int (length (object_fields (jget (sn_modules sn) ''modules'')))))]),
       (''instances'', JInt (int (length (flattenInstances (Some (sn_instances sn)))))),
       (''models'', JInt (int (length (list_items (jget (sn_models sn) ''activations''))))),
       (''loadedAt'', JStr (toISOString (sn_loadedAt sn)))]"

definition summary :: "'s Runtime \<Rightarrow> ParsedArguments \<Rightarrow> 's CliIo \<Rightarrow> ('s, thrown, unit) act" where
  "summary rt parsed io = bnd (loadSnapshot (rt_api rt) (ci_now io)) (\<lambda>sn.
     let v = summary_value sn in show_output io parsed v (rows_table io [''RESOURCE'', ''VALUE'', ''STATUS'']
       [[cell ''Appliance'', jat (Some v) [''appliance'', ''name''], phase_text (jat (Some v) [''appliance'', ''phase''])],
        [cell ''Modules'', cell (text_of (jat (Some v) [''modules'', ''enabled'']) @ ''/'' @ text_of (jat (Some v) [''modules'', ''total''])), cell ''enabled''],
        [cell ''Instances'', jget v ''instances'', cell ''configured''],
        [cell ''Models'', jget v ''models'', cell ''activated'']]))"

definition key_values :: "jsval \<Rightarrow> jsval option list list" where
  "key_values result = map (\<lambda>item. [jget item ''key'', jget item ''value'']) (list_items (jget result ''credentials''))"

text \<open>\<open>Object.fromEntries\<close> of the \<open>--set\<close> options.\<close>

definition set_entry :: "string \<Rightarrow> thrown + (string \<times> jsval)" where
  "set_entry entry = (case indexOf (CHR ''='') entry of
     Some (Suc i) \<Rightarrow> Inr (take (Suc i) entry, JStr (drop (Suc (Suc i)) entry))
   | _ \<Rightarrow> Inl (error (''Invalid --set '' @ entry @ ''; expected key=value.'')))"

definition set_parameters :: "ParsedArguments \<Rightarrow> thrown + jsval obj" where
  "set_parameters parsed = rbind (traverse set_entry (optionValues parsed ''set'')) (\<lambda>entries. Inr (oassign [] entries))"

definition is_listing :: "string \<Rightarrow> string \<Rightarrow> bool" where
  "is_listing what action \<longleftrightarrow> action = [] \<or> action = what"

definition serviceCommand :: "'s Runtime \<Rightarrow> ParsedArguments \<Rightarrow> 's CliIo \<Rightarrow> string \<Rightarrow> string option \<Rightarrow> ('s, thrown, unit) act" where
  "serviceCommand rt parsed io action name =
     (if is_listing ''list'' action then bnd (call rt api_modules) (\<lambda>payload.
        show_output io parsed payload (rows_table io [''NAME'', ''DISPLAY NAME'', ''ENABLED'', ''PHASE'']
          (map (\<lambda>(ident, item). [cell ident,
             nullish (jget item ''displayName'') (nullish (jat (Some payload) [''catalogJson'', ''modules'', ident, ''displayName'']) (cell (titleFromKey ident))),
             yes_no (jget item ''enabled''), phase_text (jat (Some item) [''status'', ''phase''])]) (object_fields (jget payload ''modules'')))))
      else bnd (lift_result (required name ''service name'')) (\<lambda>ident.
        if action = ''enable'' then bnd (lift_result (set_parameters parsed)) (\<lambda>parameters.
          bnd (call rt (api_enableModule ident parameters)) (\<lambda>result. show_output io parsed result (''Enabled '' @ ident @ ''.'')))
        else if action = ''disable'' then bnd (call rt (api_disableModule ident None)) (\<lambda>result. show_output io parsed result (''Disabled '' @ ident @ ''.''))
        else if action = ''credentials'' then bnd (call rt (api_moduleCredentials ident)) (\<lambda>result.
          show_output io parsed result (rows_table io [''KEY'', ''VALUE''] (key_values result)))
        else throw (error (''Unknown service action: '' @ action))))"

definition mi_of :: "jsval option \<Rightarrow> string" where
  "mi_of v = formatMi (case v of Some (JInt i) \<Rightarrow> Some i | _ \<Rightarrow> None)"

definition or_text :: "jsval option \<Rightarrow> string \<Rightarrow> jsval option" where
  "or_text v d = either v (cell d)"

definition memory_line :: "jsval \<Rightarrow> string" where
  "memory_line node = text_of (jget node ''node'') @ '': installed RAM '' @ mi_of (jget node ''installedMemoryMi'') @
     ''; fixed GPU reservation '' @ mi_of (jget node ''firmwareReservedMi'') @ ''; OS-visible shared RAM '' @ mi_of (jget node ''physicalMemoryMi'') @
     ''; dynamic GPU ceiling '' @ mi_of (jget node ''gpuAccessibleMi'') @ '' (within Linux RAM, not extra). One GPU: driver capacity '' @
     mi_of (jget node ''gpuCapacityMi'') @ ''; allocation '' @ text_of (nullish (jget node ''gpuAllocationMode'') (cell ''unknown'')) @ ''; source '' @
     text_of (nullish (jget node ''gpuCapacitySource'') (cell ''unavailable'')) @
     ''. Firmware and dynamic limits are not added. Dynamic memory is not a protected reservation. Accounting '' @
     (if truthy_opt (jget node ''memoryAccountingVerified'') then ''verified'' else ''not verified'') @ ''.''"

definition runtime_lines :: "jsval \<Rightarrow> string list" where
  "runtime_lines node = map (\<lambda>(engine, validation). text_of (jget node ''node'') @ '' '' @ engine @ '': '' @ text_of (jget validation ''runtimeMessage''))
     (filter (\<lambda>(engine, validation). truthy_opt (jget validation ''runtimeMessage'')) (object_fields (jget node ''validation'')))"

definition hardware_text :: "'s CliIo \<Rightarrow> jsval \<Rightarrow> string" where
  "hardware_text io status =
     (let operators = object_fields (jget status ''hardwareOperators'');
          compatibility = jat (Some status) [''hardwareOperators'', ''amd-gpu'', ''compatibility''];
          nodes = list_items (jat compatibility [''nodes''])
      in join newline
        ([rows_table io [''OPERATOR'', ''PHASE'', ''RESOURCES''] (map (\<lambda>(ident, item). [cell ident, jget item ''phase'',
            nullish (jget item ''allocatableResources'') (Some (JInt 0))]) operators),
          [], ''AMD profile: '' @ text_of (or_text (jat compatibility [''selectedProfile'']) ''upstream rules''),
          ''Engine validation is optional. GPU availability and runtime adoption are separate from test results.'',
          rows_table io [''PROFILE'', ''VERSION'', ''EXPERIMENTAL'', ''MEMORY''] (map (\<lambda>item. [jget item ''id'', jget item ''version'',
            yes_no (jget item ''experimental''), jget item ''memoryArchitecture'']) (list_items (jat compatibility [''profiles'']))),
          [], rows_table io [''NODE'', ''PROFILE'', ''DRIVER'', ''GPU RESOURCE'', ''OLLAMA'', ''VLLM''] (map (\<lambda>node. [jget node ''node'',
            or_text (jget node ''profileId'') ''upstream'', cell (if jget node ''hostDriverReady'' = Some (JBool True) then ''ready'' else ''not verified''),
            cell (if jget node ''resourceRegistered'' = Some (JBool True) then ''registered'' else ''not verified''),
            cell (gpuValidationSummary (jat (Some node) [''validation'', ''OLlama''])), cell (gpuValidationSummary (jat (Some node) [''validation'', ''VLLM'']))]) nodes)] @
         concat (map runtime_lines nodes) @
         map memory_line (filter (\<lambda>node. jget node ''memoryArchitecture'' = cell ''unified'') nodes)))"

text \<open>Errors of the shared functions carry only a message.\<close>

definition with_message :: "'a result \<Rightarrow> thrown + 'a" where
  "with_message r = (case r of Inr x \<Rightarrow> Inr x | Inl (Other m) \<Rightarrow> Inl (error m) | Inl (Harness e) \<Rightarrow> Inl (error ''HarnessError''))"

definition gpu_parameters :: "string \<Rightarrow> jsval option \<Rightarrow> bool \<Rightarrow> thrown + jsval obj" where
  "gpu_parameters ident compatibility acknowledged =
     rbind (with_message (gpuCompatibilityParameters ident (list_items (jat compatibility [''profiles''])) acknowledged)) (\<lambda>ps. Inr (map (\<lambda>(k, v). (k, JStr v)) ps))"

definition hardwareCommand :: "'s Runtime \<Rightarrow> ParsedArguments \<Rightarrow> 's CliIo \<Rightarrow> string \<Rightarrow> string option \<Rightarrow> ('s, thrown, unit) act" where
  "hardwareCommand rt parsed io action name = bnd (call rt api_status) (\<lambda>status.
     let compatibility = jat (Some status) [''hardwareOperators'', ''amd-gpu'', ''compatibility'']
     in if is_listing ''list'' action
        then show_output io parsed (the (nullish (jget status ''hardwareOperators'') (Some (JObj [])))) (hardware_text io status)
        else bnd (api_session (rt_api rt)) (\<lambda>session.
          if \<not> canAdminister (Some session) then throw (error ''Administrator access is required to change GPU profiles or run validation.'')
          else if \<not> truthy_opt compatibility then throw (error ''The server has not reported its GPU compatibility catalog.'')
          else if action = ''profile'' then bnd (lift_result (required name ''profile id or upstream'')) (\<lambda>ident.
            bnd (lift_result (gpu_parameters (if ident = ''upstream'' then [] else ident) compatibility (option_true parsed ''allow-experimental''))) (\<lambda>parameters.
            bnd (call rt (api_enableModule ''amd-gpu'' parameters)) (\<lambda>result. show_output io parsed result
              (''Saved GPU compatibility profile '' @ ident @ '' without starting engine tests. Run hardware list to inspect host and GPU resource readiness; engine validation is optional.''))))
          else if action = ''validate'' then
            if \<not> option_true parsed ''yes'' then throw (error ''GPU validation downloads test images and uses GPU resources. Repeat with --yes to confirm.'')
            else if \<not> truthy_opt (jat compatibility [''selectedProfile'']) then throw (error ''Select a compatibility profile before requesting validation.'')
            else bnd (lift_result (gpu_parameters (text_of (jat compatibility [''selectedProfile''])) compatibility
                (jat compatibility [''allowExperimental''] = Some (JBool True)))) (\<lambda>parameters.
              bnd (gets (ci_now io)) (\<lambda>now. bnd (ci_uuid io) (\<lambda>uuid.
              bnd (call rt (api_enableModule ''amd-gpu'' (oset ''validationRequest'' (JStr (''cli-'' @ show_nat now @ ''-'' @ uuid)) parameters))) (\<lambda>result.
                show_output io parsed result ''GPU validation requested. Engines are evaluated separately; inspect hardware list for results.''))))
          else throw (error (''Unknown hardware action: '' @ action))))"

definition licenseCommand :: "'s Runtime \<Rightarrow> ParsedArguments \<Rightarrow> 's CliIo \<Rightarrow> string \<Rightarrow> string option \<Rightarrow> ('s, thrown, unit) act" where
  "licenseCommand rt parsed io action filename =
     (if is_listing ''status'' action then bnd (call rt api_licenseStatus) (\<lambda>status. show_output io parsed status (join newline (licenseLines status)))
      else if action = ''export'' then bnd (call rt api_exportLicense) (\<lambda>result. bnd (lift_result (required filename ''output filename'')) (\<lambda>file.
        seq (ci_createFile io file (text_of (jget result ''content''))) (ci_stdout io (''License exported with private file permissions.'' @ newline))))
      else if action \<notin> set [''inspect'', ''import''] then throw (error (''Unknown license action: '' @ action))
      else bnd (lift_result (required filename ''license filename'')) (\<lambda>file. bnd (readLicenseFile io file) (\<lambda>document.
        bnd (call rt (api_inspectLicense document)) (\<lambda>preview.
          if action = ''inspect'' then show_output io parsed preview (join newline (previewLines preview))
          else if \<not> truthy_opt (jat (Some preview) [''candidate'', ''valid'']) then throw (error (text_of (jat (Some preview) [''candidate'', ''message''])))
          else if \<not> option_true parsed ''yes''
          then throw (error ''Review with `license inspect <file>`, then use `license import <file> --yes` to replace the active license.'')
          else bnd (call rt (api_importLicense document (text_of (jat (Some preview) [''current'', ''revision''])))) (\<lambda>status.
            show_output io parsed status (join newline (''License saved.'' # licenseLines status)))))))"

definition instanceCommand :: "'s Runtime \<Rightarrow> ParsedArguments \<Rightarrow> 's CliIo \<Rightarrow> string \<Rightarrow> string option \<Rightarrow> ('s, thrown, unit) act" where
  "instanceCommand rt parsed io action name =
     (if action = ''principals'' then (let kind = text_or (textOption parsed ''kind'') ''users''
        in if kind \<notin> set [''users'', ''groups''] then throw (error ''Use --kind users or groups.'')
           else bnd (lift_result (integerOption io parsed ''first'' 0)) (\<lambda>first.
             bnd (call rt (api_instancePrincipals kind (text_or (textOption parsed ''search'') []) (JInt first))) (\<lambda>result.
               show_output io parsed result (rows_table io [''ID'', ''NAME''] (map (\<lambda>item. [jget item ''id'', jget item ''name'']) (list_items (jget result ''items'')))))))
      else if is_listing ''list'' action then bnd (call rt api_instances) (\<lambda>payload.
        show_output io parsed payload (rows_table io [''TYPE'', ''NAME'', ''PHASE'', ''MESSAGE''] (map (\<lambda>item. [cell (fi_type item), cell (fi_name item),
          phase_text (jat (Some (fi_value item)) [''status'', ''phase'']), short io (jat (Some (fi_value item)) [''status'', ''message''])]) (flattenInstances (Some payload)))))
      else bnd (lift_result (required name (if action = ''create'' then ''instance type'' else ''instance name''))) (\<lambda>ident.
        if action = ''create'' then bnd (readJsonPayload parsed io) (\<lambda>payload. bnd (call rt (api_createInstance ident payload)) (\<lambda>result.
          show_output io parsed result (''Created '' @ ident @ '' instance request.'')))
        else if action = ''access'' then bnd (call rt (api_instanceAccess ident)) (\<lambda>result. show_output io parsed result (stringify_output result))
        else if action = ''share'' then
          if \<not> option_true parsed ''yes'' then throw (error ''Review the instance access policy and use --yes to confirm the change.'')
          else bnd (readJsonPayload parsed io) (\<lambda>policy. bnd (call rt (api_instanceAccess ident)) (\<lambda>current.
            bnd (call rt (api_updateInstanceAccess ident policy (the (nullish (jget current ''revision'') (Some JNull))))) (\<lambda>result.
              show_output io parsed result (''Updated instance sharing for '' @ ident @ ''.''))))
        else if action = ''remove'' then bnd (call rt (api_removeInstance ident)) (\<lambda>result. show_output io parsed result (''Removed instance '' @ ident @ ''.''))
        else if action = ''credentials'' then bnd (call rt (api_instanceCredentials ident)) (\<lambda>result.
          show_output io parsed result (rows_table io [''KEY'', ''VALUE''] (key_values result)))
        else throw (error (''Unknown instance action: '' @ action))))"

definition discoveryParams :: "ParsedArguments \<Rightarrow> string option \<Rightarrow> (string \<times> string) list" where
  "discoveryParams parsed query =
     (let given = (\<lambda>k v. if has_token v then [(k, the v)] else [])
      in (''provider'', text_or (textOption parsed ''provider'') ''huggingface'') # given ''q'' query @
         given ''limit'' (textOption parsed ''limit'') @ given ''cursor'' (textOption parsed ''cursor''))"

definition cache_text :: "jsval \<Rightarrow> string" where
  "cache_text item =
     (let effective = jat (Some item) [''status'', ''effectiveKvCacheType'']; requested = jat (Some item) [''status'', ''requestedKvCacheType'']
      in if truthy_opt effective then text_of effective
         else if truthy_opt requested then text_of requested @ '' (pending)''
         else shown (jat (Some item) [''spec'', ''local'', ''kvCacheType'']))"

definition models_text :: "'s CliIo \<Rightarrow> jsval \<Rightarrow> string" where
  "models_text io payload = join newline
     [rows_table io [''NAME'', ''TYPE'', ''PHASE'', ''ENGINE'', ''TARGET'', ''KV CACHE''] (map (\<lambda>item. [jat (Some item) [''metadata'', ''name''],
        jat (Some item) [''spec'', ''type''], phase_text (jat (Some item) [''status'', ''phase'']), cell (shown (jat (Some item) [''spec'', ''local'', ''engine''])),
        cell (shown (jat (Some item) [''spec'', ''local'', ''computeTarget''])), cell (cache_text item)]) (list_items (jget payload ''activations''))),
      [], ''Compute targets'',
      rows_table io [''ID'', ''AVAILABLE'', ''ENGINES'', ''MESSAGE''] (map (\<lambda>target. [jget target ''id'', yes_no (jget target ''available''),
        map_option (\<lambda>v. JStr (join '','' (string_items (Some v)))) (jget target ''engines''), short io (jget target ''message'')])
        (list_items (jat (Some payload) [''computeTargets'', ''targets''])))]"

definition discovery_rows :: "string list \<Rightarrow> jsval option \<Rightarrow> jsval option list list" where
  "discovery_rows keys items = map (\<lambda>item. map (\<lambda>k. if k = ''quantization'' then jat (Some item) [k, ''label''] else jget item k) keys) (list_items items)"

definition modelCommand :: "'s Runtime \<Rightarrow> ParsedArguments \<Rightarrow> 's CliIo \<Rightarrow> string \<Rightarrow> string option \<Rightarrow> ('s, thrown, unit) act" where
  "modelCommand rt parsed io action argument =
     (if is_listing ''list'' action then bnd (call rt api_models) (\<lambda>payload. show_output io parsed payload (models_text io payload))
      else if action = ''search'' then bnd (lift_result (required argument ''search query'')) (\<lambda>query.
        bnd (call rt (api_searchModels (discoveryParams parsed (Some query)))) (\<lambda>result. show_output io parsed result
          (rows_table io [''REPOSITORY'', ''FORMAT'', ''QUANTIZATION'', ''SIZE''] (discovery_rows [''repo'', ''format'', ''quantization'', ''sizeLabel''] (jget result ''results'')))))
      else if action = ''popular'' then bnd (call rt (api_popularModels (discoveryParams parsed None))) (\<lambda>result. show_output io parsed result
          (rows_table io [''REPOSITORY'', ''PUBLISHER'', ''FORMAT'', ''SIZE''] (discovery_rows [''repo'', ''author'', ''format'', ''sizeLabel''] (jget result ''results''))))
      else if action = ''artifacts'' then bnd (lift_result (required argument ''model repository'')) (\<lambda>repo.
        bnd (call rt (api_modelArtifacts (discoveryParams parsed None @ [(''repo'', repo)]))) (\<lambda>result. show_output io parsed result
          (rows_table io [''ARTIFACT'', ''FORMAT'', ''QUANTIZATION'', ''SIZE''] (discovery_rows [''repo'', ''format'', ''quantization'', ''sizeLabel''] (jget result ''artifacts'')))))
      else if action = ''estimate'' then bnd (readJsonPayload parsed io) (\<lambda>payload. bnd (call rt (api_estimateMemory payload)) (\<lambda>result. show_output io parsed result
          (rows_table io [''MINIMUM'', ''RECOMMENDED'', ''WEIGHTS'', ''KV CACHE'', ''KV FORMAT'', ''KV SAVING'', ''DOWNLOAD'']
            [[cell (mi_of (jget result ''minimumMi'')), cell (mi_of (jget result ''recommendedMi'')), cell (mi_of (jget result ''weightsMi'')),
              cell (mi_of (jget result ''kvCacheMi'')), cell (text_of (nullish (jget result ''kvCacheType'') (cell ''default''))),
              cell (mi_of (jget result ''kvCacheSavingsMi'')), cell (ci_formatBytes io (jget result ''downloadBytes''))]])))
      else if action \<in> set [''create-local'', ''create-external''] then bnd (readJsonPayload parsed io) (\<lambda>payload.
        bnd (call rt (if action = ''create-local'' then api_createLocalModel payload else api_createExternalModel payload)) (\<lambda>result.
          show_output io parsed result (''Created '' @ (if action = ''create-local'' then ''local'' else ''external'') @ '' model request.'')))
      else if action = ''remove'' then bnd (lift_result (required argument ''model name'')) (\<lambda>name.
        bnd (call rt (api_removeModel name)) (\<lambda>result. show_output io parsed result (''Removed model '' @ name @ ''.'')))
      else if action = ''cleanup-runtime'' then bnd (call rt api_removeLocalRuntime) (\<lambda>result. show_output io parsed result ''Requested local runtime cleanup.'')
      else throw (error (''Unknown model action: '' @ action)))"

definition settingsCommand :: "'s Runtime \<Rightarrow> ParsedArguments \<Rightarrow> 's CliIo \<Rightarrow> string \<Rightarrow> ('s, thrown, unit) act" where
  "settingsCommand rt parsed io action =
     (if is_listing ''get'' action then bnd (api_settings (rt_api rt)) (\<lambda>result. show_output io parsed result
        (rows_table io [''PUBLIC DOMAIN'', ''DASHBOARD HOST'', ''MDNS DOMAIN''] [[jget result ''publicDomain'', jget result ''dashboardHost'', jget result ''mdnsDomain'']]))
      else if action \<noteq> ''set'' then throw (error (''Unknown settings action: '' @ action))
      else bnd (api_settings (rt_api rt)) (\<lambda>current.
        let setting = (\<lambda>opt k. field k (nullish (map_option JStr (textOption parsed opt)) (jget current k)))
        in bnd (call rt (api_updateSettings (JObj (setting ''public-domain'' ''publicDomain'' @ setting ''mdns-domain'' ''mdnsDomain'')))) (\<lambda>result.
          show_output io parsed result ''Settings updated.'')))"

definition text_field :: "ParsedArguments \<Rightarrow> string \<Rightarrow> string \<Rightarrow> jsval obj" where
  "text_field parsed opt k = field k (map_option JStr (textOption parsed opt))"

definition user_rows :: "jsval \<Rightarrow> jsval option list list" where
  "user_rows result = map (\<lambda>user. [jget user ''id'', jget user ''username'', yes_no (jget user ''enabled''),
     nullish (jget user ''effectiveAccessLevel'') (jget user ''accessLevel''),
     (case jget user ''provider'' of Some (JStr p) \<Rightarrow> cell p | _ \<Rightarrow> cell (shown (jget user ''source'')))]) (list_items (jget result ''users''))"

text \<open>The request of a user command other than \<open>list\<close>; passwords are read before the request is made.\<close>

definition user_request :: "'s Runtime \<Rightarrow> ParsedArguments \<Rightarrow> 's CliIo \<Rightarrow> string \<Rightarrow> string \<Rightarrow> string option \<Rightarrow> ('s, thrown, jsval) act" where
  "user_request rt parsed io action userId v =
     (if action = ''create'' then bnd (readPassword parsed io) (\<lambda>password. call rt (api_createUser (JObj [(''username'', JStr userId), (''password'', JStr password),
        (''accessLevel'', JStr (text_or (textOption parsed ''access-level'') ''user'')), (''firstName'', JStr (text_or (textOption parsed ''first-name'') [])),
        (''lastName'', JStr (text_or (textOption parsed ''last-name'') [])), (''email'', JStr (text_or (textOption parsed ''email'') []))])))
      else if action = ''update'' then call rt (api_updateUser userId (JObj (text_field parsed ''first-name'' ''firstName'' @
        text_field parsed ''last-name'' ''lastName'' @ text_field parsed ''email'' ''email'')))
      else if action = ''role'' then bnd (lift_result (required v ''access level'')) (\<lambda>level. call rt (api_updateUserRoles userId level))
      else if action \<in> set [''enable'', ''disable''] then call rt (api_setUserEnabled userId (action = ''enable''))
      else if action = ''password'' then bnd (readPassword parsed io) (\<lambda>password. call rt (api_resetUserPassword userId password (\<not> option_set parsed ''permanent'')))
      else if action = ''delete'' then bnd (lift_result (required (textOption parsed ''confirm'') ''--confirm username'')) (\<lambda>name. call rt (api_deleteUser userId name))
      else throw (error (''Unknown user action: '' @ action)))"

definition page_request :: "'s CliIo \<Rightarrow> ParsedArguments \<Rightarrow> int \<Rightarrow> (string \<Rightarrow> jsval \<Rightarrow> jsval \<Rightarrow> api_call) \<Rightarrow> thrown + api_call" where
  "page_request io parsed maximum op = rbind (integerOption io parsed ''first'' 0) (\<lambda>first. rbind (integerOption io parsed ''max'' maximum) (\<lambda>most.
     Inr (op (text_or (textOption parsed ''search'') []) (JInt first) (JInt most))))"

definition userCommand :: "'s Runtime \<Rightarrow> ParsedArguments \<Rightarrow> 's CliIo \<Rightarrow> string \<Rightarrow> string option \<Rightarrow> string option \<Rightarrow> ('s, thrown, unit) act" where
  "userCommand rt parsed io action ident v =
     (if is_listing ''list'' action then bnd (lift_result (page_request io parsed 25 api_users)) (\<lambda>c. bnd (call rt c) (\<lambda>result.
        show_output io parsed result (rows_table io [''ID'', ''USERNAME'', ''ENABLED'', ''ACCESS'', ''PROVIDER''] (user_rows result))))
      else bnd (lift_result (required ident (if action = ''create'' then ''username'' else ''user id''))) (\<lambda>userId.
        bnd (user_request rt parsed io action userId v) (\<lambda>result. show_output io parsed result (''User '' @ action @ '' completed.''))))"

definition apiKeyCommand :: "'s Runtime \<Rightarrow> ParsedArguments \<Rightarrow> 's CliIo \<Rightarrow> string \<Rightarrow> string option \<Rightarrow> ('s, thrown, unit) act" where
  "apiKeyCommand rt parsed io action argument =
     (if is_listing ''list'' action then bnd (call rt api_apiAccess) (\<lambda>result. show_output io parsed result (rows_table io [''ID'', ''NAME'', ''HINT'', ''STATUS'']
        (map (\<lambda>item. [jget item ''id'', jget item ''name'', jget item ''keyHint'', jget item ''status'']) (list_items (jget result ''items'')))))
      else if action = ''create'' then bnd (lift_result (required argument ''API key name'')) (\<lambda>name. bnd (call rt (api_createApiKey name)) (\<lambda>result.
        show_output io parsed result (''API key created. Copy it now; it is shown only once:'' @ newline @ text_of (jget result ''key''))))
      else if action = ''revoke'' then bnd (lift_result (required argument ''API key id'')) (\<lambda>ident. bnd (call rt (api_revokeApiKey ident)) (\<lambda>result.
        show_output io parsed result (''Revoked API key '' @ ident @ ''.'')))
      else throw (error (''Unknown api-key action: '' @ action)))"

definition kubernetesCommand :: "'s Runtime \<Rightarrow> ParsedArguments \<Rightarrow> 's CliIo \<Rightarrow> string \<Rightarrow> string option \<Rightarrow> string option \<Rightarrow> ('s, thrown, unit) act" where
  "kubernetesCommand rt parsed io action ident level =
     (if is_listing ''list'' action then bnd (lift_result (page_request io parsed 100 api_kubernetesAccess)) (\<lambda>c. bnd (call rt c) (\<lambda>result.
        show_output io parsed result (rows_table io [''ID'', ''USERNAME'', ''ENABLED'', ''ACCESS''] (map (\<lambda>user. [jget user ''id'', jget user ''username'',
          yes_no (jget user ''enabled''), nullish (jget user ''accessLevel'') (cell ''none'')]) (list_items (jget result ''users''))))))
      else if action = ''set'' then bnd (lift_result (required ident ''user id'')) (\<lambda>userId. bnd (lift_result (required level ''access level'')) (\<lambda>access.
        bnd (call rt (api_updateKubernetesAccess userId access)) (\<lambda>result. show_output io parsed result ''Kubernetes access updated.'')))
      else if action = ''kubeconfig'' then bnd (lift_result (required ident ''user id'')) (\<lambda>userId. bnd (call rt (api_kubeconfig userId)) (\<lambda>result.
        let filename = textOption parsed ''output''; content = text_of (jget result ''content'')
        in if \<not> has_token filename \<or> filename = Some ''-'' then ci_stdout io (if endsWith content newline then content else content @ newline)
           else seq (ci_writeFile io (the filename) content) (ci_stdout io (''Wrote '' @ the filename @ ''.'' @ newline))))
      else throw (error (''Unknown kubernetes-access action: '' @ action)))"

definition count_of :: "jsval option \<Rightarrow> jsval option" where
  "count_of v = (case v of Some (JArr xs) \<Rightarrow> count_cell (length xs) | _ \<Rightarrow> None)"

definition statusCommand :: "'s Runtime \<Rightarrow> ParsedArguments \<Rightarrow> 's CliIo \<Rightarrow> ('s, thrown, unit) act" where
  "statusCommand rt parsed io = bnd (call rt api_status) (\<lambda>result. show_output io parsed result (join newline
     [rows_table io [''OPERATOR'', ''ACTIVE'', ''PHASE'', ''MESSAGE''] (map (\<lambda>(ident, item). [cell ident, yes_no (jget item ''operatorActive''),
        phase_text (jget item ''phase''), short io (jget item ''message'')]) (object_fields (jget result ''hardwareOperators''))),
      [], rows_table io [''RESOURCE'', ''COUNT''] [[cell ''Flux'', count_of (jget result ''fluxKustomizations'')], [cell ''Pods'', count_of (jget result ''pods'')],
        [cell ''Services'', count_of (jget result ''services'')], [cell ''Ingresses'', count_of (jget result ''ingresses'')],
        [cell ''HTTPRoutes'', count_of (jget result ''httpRoutes'')]]]))"

subsection \<open>Dispatch\<close>

text \<open>The terminal interface, a parameter: runtime, demo, colour and the seconds between refreshes.\<close>

type_synonym 's tui = "'s Runtime \<Rightarrow> bool \<Rightarrow> bool \<Rightarrow> int \<Rightarrow> ('s, thrown, unit) act"

definition run_tui :: "'s tui \<Rightarrow> 's Runtime \<Rightarrow> ParsedArguments \<Rightarrow> 's CliIo \<Rightarrow> bool \<Rightarrow> ('s, thrown, unit) act" where
  "run_tui tui rt parsed io demo = bnd (lift_result (integerOption io parsed ''refresh'' 15)) (\<lambda>refresh. tui rt demo (\<not> option_set parsed ''no-color'') refresh)"

definition login_prompt :: "'s CliIo \<Rightarrow> 's device_prompt" where
  "login_prompt io uri code complete = ci_stdout io (''Open '' @ text_of (nullish complete (cell uri)) @ newline @ ''Enter code: '' @ code @ newline @
     ''Waiting for authentication'' @ [ci_ellipsis io] @ newline)"

definition loginCommand :: "'s Runtime \<Rightarrow> ParsedArguments \<Rightarrow> 's CliIo \<Rightarrow> ('s, thrown, unit) act" where
  "loginCommand rt parsed io = seq (rt_login rt (\<not> option_set parsed ''no-open'') (login_prompt io)) (bnd (api_session (rt_api rt)) (\<lambda>session.
     show_output io parsed session (''Signed in as '' @ text_of (jget session ''username'') @ ''.'')))"

definition logoutCommand :: "'s Runtime \<Rightarrow> 's CliIo \<Rightarrow> ('s, thrown, unit) act" where
  "logoutCommand rt io = seq (rt_logout rt) (ci_stdout io (''Signed out locally.'' @ newline))"

definition whoamiCommand :: "'s Runtime \<Rightarrow> ParsedArguments \<Rightarrow> 's CliIo \<Rightarrow> ('s, thrown, unit) act" where
  "whoamiCommand rt parsed io = bnd (api_session (rt_api rt)) (\<lambda>result. show_output io parsed result (rows_table io [''USERNAME'', ''ROLES'']
     [[jget result ''username'', cell (join '', '' (string_items (jget result ''roles'')))]]))"

definition consoleCommand :: "'s tui \<Rightarrow> 's Runtime \<Rightarrow> ParsedArguments \<Rightarrow> 's CliIo \<Rightarrow> ('s, thrown, unit) act" where
  "consoleCommand tui rt parsed io =
     seq (catch (bnd (api_session (rt_api rt)) (\<lambda>_. ret ())) (\<lambda>e. if \<not> consoleLoginRequired e then throw e
       else seq (rt_logout rt) (seq (rt_login rt False (\<lambda>uri code complete. ci_stdout io (consoleLoginScreen uri code)))
         (bnd (api_session (rt_api rt)) (\<lambda>session. ci_stdout io (newline @ ''Angemeldet als '' @ text_of (jget session ''username'') @ ''. TUI wird geladen ...'' @ newline))))))
     (run_tui tui rt parsed io False)"

definition dispatch :: "'s tui \<Rightarrow> 's Runtime \<Rightarrow> ParsedArguments \<Rightarrow> 's CliIo \<Rightarrow> string \<Rightarrow> string \<Rightarrow> string option \<Rightarrow> string option \<Rightarrow> ('s, thrown, unit) act" where
  "dispatch tui rt parsed io command action argument extra =
     (if command = ''login'' then loginCommand rt parsed io
      else if command = ''logout'' then logoutCommand rt io
      else if command = ''whoami'' then whoamiCommand rt parsed io
      else if command = ''overview'' then summary rt parsed io
      else if command \<in> set [''service'', ''services''] then serviceCommand rt parsed io action argument
      else if command = ''hardware'' then hardwareCommand rt parsed io action argument
      else if command \<in> set [''instance'', ''instances''] then instanceCommand rt parsed io action argument
      else if command \<in> set [''model'', ''models''] then modelCommand rt parsed io action argument
      else if command = ''settings'' then settingsCommand rt parsed io action
      else if command = ''license'' then licenseCommand rt parsed io action argument
      else if command \<in> set [''user'', ''users''] then userCommand rt parsed io action argument extra
      else if command \<in> set [''api-key'', ''api-keys''] then apiKeyCommand rt parsed io action argument
      else if command \<in> set [''kubernetes-access'', ''kubernetes''] then kubernetesCommand rt parsed io action argument extra
      else if command = ''status'' then statusCommand rt parsed io
      else if command = ''tui'' then run_tui tui rt parsed io False
      else if command = ''console'' then consoleCommand tui rt parsed io
      else throw (error (''Unknown command: '' @ command @ ''. Run `magicstick --help` for usage.'')))"

definition nth_opt :: "'a list \<Rightarrow> nat \<Rightarrow> 'a option" where
  "nth_opt xs i = (if i < length xs then Some (xs ! i) else None)"

definition cli_options :: "ParsedArguments \<Rightarrow> RuntimeOptions" where
  "cli_options parsed = \<lparr>ro_apiUrl = textOption parsed ''api-url'', ro_issuer = textOption parsed ''issuer'', ro_clientId = textOption parsed ''client-id'',
     ro_caFile = textOption parsed ''ca-file'', ro_accessToken = None, ro_oidcNetworkUrl = None\<rparr>"

definition runCli :: "'s tui \<Rightarrow> 's Runtime \<Rightarrow> (RuntimeOptions \<Rightarrow> ('s, thrown, 's Runtime) act) \<Rightarrow> 's CliIo \<Rightarrow> string list \<Rightarrow> ('s, thrown, unit) act" where
  "runCli tui demo createRt io argv =
     (let parsed = parseArguments argv; ps = pa_positionals parsed; command = text_or (nth_opt ps 0) []
      in if option_set parsed ''version'' then ci_stdout io (VERSION @ newline)
         else if option_set parsed ''help'' \<or> ps = [] then ci_stdout io HELP
         else if option_set parsed ''demo'' then
           if command \<noteq> ''tui'' \<or> length ps \<noteq> 1 then throw (error ''Offline preview is available only with `magicstick tui --demo`.'')
           else run_tui tui demo parsed io True
         else if option_of parsed ''insecure'' \<noteq> None
         then throw (error ''--insecure is no longer supported. Trust the appliance CA with --ca-file or MAGICSTICK_CA_FILE.'')
         else bnd (createRt (cli_options parsed)) (\<lambda>rt.
           dispatch tui rt parsed io command (text_or (nth_opt ps 1) []) (nth_opt ps 2) (nth_opt ps 3)))"

text \<open>The runtime factory of the command line on the state of its session.\<close>

definition session_factory :: "(RuntimeOptions \<Rightarrow> ('s, thrown, jsval option \<times> (jsval option \<times> 's) Runtime) act) \<Rightarrow> RuntimeOptions
    \<Rightarrow> (jsval option \<times> 's, thrown, (jsval option \<times> 's) Runtime) act" where
  "session_factory create options = (\<lambda>(c, s). case create options s of (Inl e, t) \<Rightarrow> (Inl e, (c, t)) | (Inr (cached, rt), t) \<Rightarrow> (Inr rt, (cached, t)))"


subsection \<open>The offline preview\<close>

abbreviation ready :: jsval where
  "ready \<equiv> JObj [(''phase'', JStr ''Ready'')]"

definition demo_module :: "string \<Rightarrow> bool \<Rightarrow> string \<Rightarrow> jsval" where
  "demo_module displayName enabled phase = JObj [(''displayName'', JStr displayName), (''enabled'', JBool enabled), (''status'', JObj [(''phase'', JStr phase)])]"

definition demo_cpu_operator :: jsval where
  "demo_cpu_operator = JObj [(''displayName'', JStr ''Demo hardware discovery''), (''operatorActive'', JBool True), (''phase'', JStr ''Ready'')]"

definition demo_gpu_operator :: jsval where
  "demo_gpu_operator = JObj [(''displayName'', JStr ''Demo GPU operator''), (''operatorActive'', JBool False), (''phase'', JStr ''Disabled'')]"

definition demo_models :: jsval where
  "demo_models = JObj
     [(''models'', JArr [JObj [(''name'', JStr ''demo-chat'')]]), (''presets'', JObj []),
      (''activations'', JArr [JObj [(''metadata'', JObj [(''name'', JStr ''demo-chat'')]),
        (''spec'', JObj [(''type'', JStr ''local''), (''local'', JObj [(''engine'', JStr ''VLLM''), (''computeTarget'', JStr ''cpu'')])]), (''status'', ready)]]),
      (''computeTargets'', JObj [(''default'', JStr ''cpu''), (''targets'', JArr [JObj [(''id'', JStr ''cpu''), (''kind'', JStr ''cpu''),
        (''available'', JBool True), (''engines'', JArr [JStr ''VLLM''])]])]),
      (''computeMemory'', JObj [(''devices'', JArr [JObj [(''id'', JStr ''cpu''), (''name'', JStr ''Demo CPU''), (''totalMi'', JInt 32768),
        (''freeMi'', JInt 24576), (''unreservedMi'', JInt 24576)]])])]"

definition demo_license :: jsval where
  "demo_license = JObj [(''edition'', JStr ''free''), (''state'', JStr ''missing''), (''valid'', JBool False),
     (''message'', JStr ''Free mode. Offline preview only.''), (''installationId'', JStr ''demo''), (''revision'', JStr ''0''), (''checkedAt'', JInt 0),
     (''hasDocument'', JBool False), (''trustedKeyIds'', JArr []), (''features'', JArr [])]"

definition demo_user :: "string \<Rightarrow> jsval" where
  "demo_user level_key = JObj [(''id'', JStr ''demo''), (''username'', JStr ''demo''), (''enabled'', JBool True), (level_key, JStr ''admin''), (''provider'', JStr ''demo'')]"

definition demo_page :: "jsval \<Rightarrow> int \<Rightarrow> jsval obj" where
  "demo_page user maximum = [(''users'', JArr [user]), (''total'', JInt 1), (''first'', JInt 0), (''max'', JInt maximum)]"

definition demoSnapshot :: DashboardSnapshot where
  "demoSnapshot =
     \<lparr>sn_session = JObj [(''subject'', JStr ''demo''), (''username'', JStr ''demo''), (''roles'', JArr [JStr ''magicstick-admin'']),
        (''identityManagementAvailable'', JBool True), (''identityManagementMode'', JStr ''demo'')],
      sn_appliance = JObj [(''metadata'', JObj [(''name'', JStr ''demo'')]), (''status'', ready)],
      sn_modules = JObj [(''modules'', JObj [(''litellm'', demo_module ''LiteLLM'' True ''Ready''), (''kubeai'', demo_module ''KubeAI'' True ''Ready''),
        (''hermes'', demo_module ''Hermes'' True ''Ready''), (''paperclip'', demo_module ''Paperclip'' False ''Disabled'')])],
      sn_instances = JObj [(''instances'', JObj [(''hermes'', JArr [JObj [(''metadata'', JObj [(''name'', JStr ''demo'')]), (''status'', ready)]])])],
      sn_models = demo_models,
      sn_settings = Some (JObj [(''publicDomain'', JStr ''example.com''), (''dashboardHost'', JStr ''dashboard.example.com''),
        (''mdnsDomain'', JStr ''example.local''), (''mdnsName'', JStr ''example'')]),
      sn_status = JObj [(''hardwareOperators'', JObj [(''cpu'', demo_cpu_operator), (''gpu'', demo_gpu_operator)])],
      sn_users = Some (JObj (demo_page (demo_user ''effectiveAccessLevel'') 25)),
      sn_apiAccess = Some (JObj [(''items'', JArr []), (''total'', JInt 0),
        (''apiBases'', JArr [JObj [(''scope'', JStr ''OpenAI''), (''url'', JStr ''https://api.example.com/v1'')]])]),
      sn_kubernetesAccess = Some (JObj (demo_page (demo_user ''accessLevel'') 100 @ [(''configuration'', JObj [(''configured'', JBool True)])])),
      sn_license = Some demo_license, sn_licenseError = None, sn_loadedAt = 0\<rparr>"

definition demo_responses :: "(string \<times> jsval option) list" where
  "demo_responses =
     [(''/api/session'', Some (sn_session demoSnapshot)), (''/api/appliance'', Some (sn_appliance demoSnapshot)),
      (''/api/modules'', Some (sn_modules demoSnapshot)), (''/api/instances'', Some (sn_instances demoSnapshot)),
      (''/api/models'', Some (sn_models demoSnapshot)), (''/api/settings'', sn_settings demoSnapshot),
      (''/api/users'', sn_users demoSnapshot), (''/api/api-access'', sn_apiAccess demoSnapshot),
      (''/api/kubernetes-access'', sn_kubernetesAccess demoSnapshot), (''/api/status'', Some (sn_status demoSnapshot)), (''/api/license'', sn_license demoSnapshot)]"

text \<open>\<open>String(input).split('?')[0]\<close>\<close>

definition before_query :: "string \<Rightarrow> string" where
  "before_query path = takeWhile (\<lambda>c. c \<noteq> CHR ''?'') path"

text \<open>\<open>Response.json(v, {status})\<close>\<close>

definition json_response :: "int \<Rightarrow> jsval \<Rightarrow> http_response" where
  "json_response status v = \<lparr>hs_ok = (200 \<le> status \<and> status < 300), hs_status = status, hs_statusText = [],
     hs_contentType = Some ''application/json'', hs_json = Some v, hs_text = None\<rparr>"

definition demo_refusal :: string where
  "demo_refusal = ''Offline demo is read-only; this action is unavailable.''"

definition demo_unavailable :: "('s, thrown, unit) act" where
  "demo_unavailable = throw (error ''Offline demo is read-only; no login, logout, or live actions are available.'')"

definition demo_answer :: "string \<Rightarrow> string \<Rightarrow> jsval option" where
  "demo_answer meth path = (if meth \<noteq> ''GET'' then None else Option.bind (map_of demo_responses (before_query path)) id)"

definition demo_fetch :: "http_request \<Rightarrow> ('s, thrown, http_response) act" where
  "demo_fetch q = ret (case demo_answer (hr_method q) (hr_url q) of
     None \<Rightarrow> json_response 403 (JObj [(''message'', JStr demo_refusal)]) | Some v \<Rightarrow> json_response 200 v)"

definition createDemoRuntime :: "'s Runtime" where
  "createDemoRuntime = \<lparr>rt_api = newMagicStickApi None demo_fetch None,
     rt_settings = \<lparr>rc_apiUrl = [], rc_issuer = [], rc_clientId = [], rc_caFile = None\<rparr>,
     rt_login = (\<lambda>_ _. demo_unavailable), rt_logout = demo_unavailable\<rparr>"

subsection \<open>Reading keeps the server\<close>

text \<open>Calls that cannot change the appliance: those of a reading method and the check of a license.\<close>

definition reads :: "api_call \<Rightarrow> bool" where
  "reads c \<longleftrightarrow> \<not> mutationMethod (ac_method c) \<or> ac_path c = ''/api/license/validate''"

text \<open>A predicate of the state that reading calls, the terminal and local files keep.\<close>

definition quiet :: "('s \<Rightarrow> bool) \<Rightarrow> 's Runtime \<Rightarrow> bool" where
  "quiet I rt \<longleftrightarrow> (\<forall>c. reads c \<longrightarrow> keeps I (call rt c))"

definition quiet_io :: "('s \<Rightarrow> bool) \<Rightarrow> 's CliIo \<Rightarrow> bool" where
  "quiet_io I io \<longleftrightarrow> (\<forall>s. keeps I (ci_stdout io s)) \<and> keeps I (ci_readStdin io) \<and> (\<forall>p. keeps I (ci_readFile io p)) \<and>
     (\<forall>p s. keeps I (ci_createFile io p s)) \<and> (\<forall>p. keeps I (ci_isFile io p)) \<and> (\<forall>p. keeps I (ci_open io p)) \<and>
     (\<forall>h. keeps I (ci_handleIsFile io h)) \<and> (\<forall>h n. keeps I (ci_read io h n)) \<and> (\<forall>h. keeps I (ci_close io h))"

text \<open>The commands that read, and those that need \<open>--yes\<close> and lack it.\<close>

definition read_only :: "ParsedArguments \<Rightarrow> string \<Rightarrow> string \<Rightarrow> bool" where
  "read_only parsed command action \<longleftrightarrow>
     command \<in> set [''whoami'', ''overview'', ''status''] \<or>
     command \<in> set [''service'', ''services''] \<and> action \<in> set [[], ''list'', ''credentials''] \<or>
     command = ''hardware'' \<and> (action \<in> set [[], ''list''] \<or> action = ''validate'' \<and> \<not> option_true parsed ''yes'') \<or>
     command \<in> set [''instance'', ''instances''] \<and>
       (action \<in> set [[], ''list'', ''principals'', ''access'', ''credentials''] \<or> action = ''share'' \<and> \<not> option_true parsed ''yes'') \<or>
     command \<in> set [''model'', ''models''] \<and> action \<in> set [[], ''list'', ''search'', ''popular'', ''artifacts''] \<or>
     command = ''settings'' \<and> action \<in> set [[], ''get''] \<or>
     command = ''license'' \<and>
       (action \<in> set [[], ''status'', ''inspect'', ''export''] \<or> action = ''import'' \<and> \<not> option_true parsed ''yes'') \<or>
     command \<in> set [''user'', ''users'', ''api-key'', ''api-keys'', ''kubernetes-access'', ''kubernetes''] \<and> action \<in> set [[], ''list'']"

named_theorems quiet_intros \<open>steps that keep the server\<close>

lemma keeps_lift_result [quiet_intros]: "keeps I (lift_result r)"
  by (simp add: keeps_def lift_result_def)

lemma keeps_prod [quiet_intros]: "(\<And>a b. keeps I (f a b)) \<Longrightarrow> keeps I (case x of (a, b) \<Rightarrow> f a b)"
  by (cases x) simp

lemma keeps_call [quiet_intros]: "quiet I rt \<Longrightarrow> reads c \<Longrightarrow> keeps I (call rt c)"
  by (simp add: quiet_def)

lemma keeps_io [quiet_intros]:
  assumes "quiet_io I io"
  shows "keeps I (ci_stdout io s)" "keeps I (ci_readStdin io)" "keeps I (ci_readFile io p)" "keeps I (ci_createFile io p s)"
    "keeps I (ci_isFile io p)" "keeps I (ci_open io p)" "keeps I (ci_handleIsFile io h)" "keeps I (ci_read io h n)" "keeps I (ci_close io h)"
  using assms by (simp_all add: quiet_io_def)

lemma keeps_show [quiet_intros]: "quiet_io I io \<Longrightarrow> keeps I (show_output io parsed v human)"
  unfolding show_output_def by (rule keeps_io)

lemma GET_reads [simp]: "toUpperCase ''GET'' = ''GET''"
  by code_simp

lemma reads_get [quiet_intros]: "reads (get_call path)"
  by (simp add: reads_def get_call_def mutationMethod_def)

lemma reads_inspect [quiet_intros]: "reads (api_inspectLicense document)"
  by (simp add: reads_def api_inspectLicense_def send_call_def)

lemma keeps_session [quiet_intros]: "quiet I rt \<Longrightarrow> keeps I (api_session (rt_api rt))" "quiet I rt \<Longrightarrow> keeps I (api_settings (rt_api rt))"
  unfolding api_session_def api_settings_def by (intro keeps_intros quiet_intros; assumption?)+

lemma keeps_read_pieces [quiet_intros]: "quiet_io I io \<Longrightarrow> keeps I (read_pieces n io h remaining)"
  by (induction n io h remaining rule: read_pieces.induct) (auto intro!: keeps_intros quiet_intros)

lemma keeps_readLicenseFile [quiet_intros]: "quiet_io I io \<Longrightarrow> keeps I (readLicenseFile io p)"
  unfolding readLicenseFile_def close_after_def by (auto intro!: keeps_intros quiet_intros split: option.split)

lemma keeps_all_of [quiet_intros]: "(\<And>m. m \<in> set ms \<Longrightarrow> keeps I m) \<Longrightarrow> keeps I (all_of ms)"
proof (induction ms)
  case (Cons m ms)
  then have "keeps I m" "keeps I (all_of ms)" by simp_all
  then show ?case by (fastforce simp: keeps_def split: prod.splits)
qed (simp add: keeps_intros)

lemma keeps_optionally [quiet_intros]: "(c \<Longrightarrow> keeps I m) \<Longrightarrow> keeps I (optionally c m)"
  unfolding optionally_def by (auto intro!: keeps_intros)

lemmas reading_calls = api_appliance_def api_modules_def api_instances_def api_models_def api_status_def api_users_def api_apiAccess_def
  api_kubernetesAccess_def api_licenseStatus_def api_exportLicense_def api_moduleCredentials_def api_instanceCredentials_def
  api_instanceAccess_def api_instancePrincipals_def api_searchModels_def api_popularModels_def api_modelArtifacts_def

lemma keeps_snapshot_reads:
  assumes "quiet I rt" "m \<in> set (snapshot_reads (rt_api rt) admin identities)"
  shows "keeps I m"
  using assms unfolding snapshot_reads_def always_def reading_calls by (auto intro!: quiet_intros)

lemma keeps_loadSnapshot [quiet_intros]: "quiet I rt \<Longrightarrow> keeps I (loadSnapshot (rt_api rt) clk)"
  unfolding loadSnapshot_def Let_def
  by (intro keeps_intros quiet_intros keeps_snapshot_reads; assumption?; simp add: reading_calls reads_get)

lemma keeps_plain_commands:
  assumes "quiet I rt" "quiet_io I io"
  shows "keeps I (whoamiCommand rt parsed io)" "keeps I (summary rt parsed io)" "keeps I (statusCommand rt parsed io)"
  using assms unfolding whoamiCommand_def summary_def statusCommand_def Let_def reading_calls
  by (auto intro!: keeps_intros quiet_intros)

lemma keeps_service:
  assumes "quiet I rt" "quiet_io I io" "action \<in> set [[], ''list'', ''credentials'']"
  shows "keeps I (serviceCommand rt parsed io action name)"
  using assms unfolding serviceCommand_def is_listing_def reading_calls
  by (auto intro!: keeps_intros quiet_intros)

lemma keeps_hardware:
  assumes "quiet I rt" "quiet_io I io" "action \<in> set [[], ''list''] \<or> action = ''validate'' \<and> \<not> option_true parsed ''yes''"
  shows "keeps I (hardwareCommand rt parsed io action name)"
  using assms unfolding hardwareCommand_def is_listing_def reading_calls Let_def
  by (auto intro!: keeps_intros quiet_intros)

lemma keeps_instance_actions:
  assumes "quiet I rt" "quiet_io I io"
  shows "keeps I (instanceCommand rt parsed io [] name)" "keeps I (instanceCommand rt parsed io ''list'' name)"
    "keeps I (instanceCommand rt parsed io ''principals'' name)" "keeps I (instanceCommand rt parsed io ''access'' name)"
    "keeps I (instanceCommand rt parsed io ''credentials'' name)"
    "\<not> option_true parsed ''yes'' \<Longrightarrow> keeps I (instanceCommand rt parsed io ''share'' name)"
  using assms by (auto simp: instanceCommand_def is_listing_def reading_calls Let_def intro!: keeps_bnd keeps_basic quiet_intros)

lemma keeps_instance:
  assumes "quiet I rt" "quiet_io I io"
    "action \<in> set [[], ''list'', ''principals'', ''access'', ''credentials''] \<or> action = ''share'' \<and> \<not> option_true parsed ''yes''"
  shows "keeps I (instanceCommand rt parsed io action name)"
  using assms(3) keeps_instance_actions [OF assms(1,2)] by auto

lemma keeps_model:
  assumes "quiet I rt" "quiet_io I io" "action \<in> set [[], ''list'', ''search'', ''popular'', ''artifacts'']"
  shows "keeps I (modelCommand rt parsed io action name)"
proof -
  have "keeps I (modelCommand rt parsed io [] name)" "keeps I (modelCommand rt parsed io ''list'' name)"
    "keeps I (modelCommand rt parsed io ''search'' name)" "keeps I (modelCommand rt parsed io ''popular'' name)"
    "keeps I (modelCommand rt parsed io ''artifacts'' name)"
    using assms(1,2) by (auto simp: modelCommand_def is_listing_def reading_calls intro!: keeps_bnd keeps_basic quiet_intros)
  with assms(3) show ?thesis by auto
qed

lemma keeps_settings:
  assumes "quiet I rt" "quiet_io I io" "action \<in> set [[], ''get'']"
  shows "keeps I (settingsCommand rt parsed io action)"
  using assms unfolding settingsCommand_def is_listing_def by (auto intro!: keeps_intros quiet_intros)

lemma keeps_license:
  assumes "quiet I rt" "quiet_io I io"
    "action \<in> set [[], ''status'', ''inspect'', ''export''] \<or> action = ''import'' \<and> \<not> option_true parsed ''yes''"
  shows "keeps I (licenseCommand rt parsed io action name)"
  using assms unfolding licenseCommand_def is_listing_def reading_calls
  by (auto intro!: keeps_intros quiet_intros)

lemma page_request_reads:
  "page_request io parsed m api_users = Inr c \<Longrightarrow> reads c" "page_request io parsed m api_kubernetesAccess = Inr c \<Longrightarrow> reads c"
  by (auto simp: page_request_def result_ok api_users_def api_kubernetesAccess_def reads_get)

lemma keeps_bnd_result:
  assumes "\<And>x. r = Inr x \<Longrightarrow> keeps I (f x)"
  shows "keeps I (bnd (lift_result r) f)"
  using assms by (cases r) (auto simp: keeps_def bnd_def lift_result_def)

lemma keeps_lists:
  assumes "quiet I rt" "quiet_io I io" "action \<in> set [[], ''list'']"
  shows "keeps I (userCommand rt parsed io action ident v)" "keeps I (apiKeyCommand rt parsed io action ident)"
    "keeps I (kubernetesCommand rt parsed io action ident v)"
  using assms unfolding userCommand_def apiKeyCommand_def kubernetesCommand_def is_listing_def
  by (auto intro!: keeps_bnd_result keeps_bnd quiet_intros dest: page_request_reads simp: reading_calls)

lemma dispatch_simps:
  shows "dispatch tui rt parsed io ''whoami'' action argument extra = whoamiCommand rt parsed io"
    "dispatch tui rt parsed io ''overview'' action argument extra = summary rt parsed io"
    "dispatch tui rt parsed io ''status'' action argument extra = statusCommand rt parsed io"
    "dispatch tui rt parsed io ''service'' action argument extra = serviceCommand rt parsed io action argument"
    "dispatch tui rt parsed io ''services'' action argument extra = serviceCommand rt parsed io action argument"
    "dispatch tui rt parsed io ''hardware'' action argument extra = hardwareCommand rt parsed io action argument"
    "dispatch tui rt parsed io ''instance'' action argument extra = instanceCommand rt parsed io action argument"
    "dispatch tui rt parsed io ''instances'' action argument extra = instanceCommand rt parsed io action argument"
    "dispatch tui rt parsed io ''model'' action argument extra = modelCommand rt parsed io action argument"
    "dispatch tui rt parsed io ''models'' action argument extra = modelCommand rt parsed io action argument"
    "dispatch tui rt parsed io ''settings'' action argument extra = settingsCommand rt parsed io action"
    "dispatch tui rt parsed io ''license'' action argument extra = licenseCommand rt parsed io action argument"
    "dispatch tui rt parsed io ''user'' action argument extra = userCommand rt parsed io action argument extra"
    "dispatch tui rt parsed io ''users'' action argument extra = userCommand rt parsed io action argument extra"
    "dispatch tui rt parsed io ''api-key'' action argument extra = apiKeyCommand rt parsed io action argument"
    "dispatch tui rt parsed io ''api-keys'' action argument extra = apiKeyCommand rt parsed io action argument"
    "dispatch tui rt parsed io ''kubernetes-access'' action argument extra = kubernetesCommand rt parsed io action argument extra"
    "dispatch tui rt parsed io ''kubernetes'' action argument extra = kubernetesCommand rt parsed io action argument extra"
  by (simp_all add: dispatch_def)

lemma keeps_dispatch:
  assumes "quiet I rt" "quiet_io I io" "read_only parsed command action"
  shows "keeps I (dispatch tui rt parsed io command action argument extra)"
proof -
  note q = assms(1,2)
  consider (plain) "command \<in> set [''whoami'', ''overview'', ''status'']"
    | (service) "command \<in> set [''service'', ''services'']" "action \<in> set [[], ''list'', ''credentials'']"
    | (hardware) "command = ''hardware''" "action \<in> set [[], ''list''] \<or> action = ''validate'' \<and> \<not> option_true parsed ''yes''"
    | (inst) "command \<in> set [''instance'', ''instances'']"
      "action \<in> set [[], ''list'', ''principals'', ''access'', ''credentials''] \<or> action = ''share'' \<and> \<not> option_true parsed ''yes''"
    | (model) "command \<in> set [''model'', ''models'']" "action \<in> set [[], ''list'', ''search'', ''popular'', ''artifacts'']"
    | (settings) "command = ''settings''" "action \<in> set [[], ''get'']"
    | (license) "command = ''license''" "action \<in> set [[], ''status'', ''inspect'', ''export''] \<or> action = ''import'' \<and> \<not> option_true parsed ''yes''"
    | (lists) "command \<in> set [''user'', ''users'', ''api-key'', ''api-keys'', ''kubernetes-access'', ''kubernetes'']" "action \<in> set [[], ''list'']"
    using assms(3) unfolding read_only_def by metis
  then show ?thesis
  proof cases
    case plain
    then show ?thesis unfolding list.set by (elim insertE emptyE; simp only: dispatch_simps keeps_plain_commands [OF q])
  next
    case service
    from service(1) show ?thesis unfolding list.set by (elim insertE emptyE; simp only: dispatch_simps keeps_service [OF q service(2)])
  next
    case hardware
    then show ?thesis by (simp only: dispatch_simps keeps_hardware [OF q hardware(2)])
  next
    case inst
    from inst(1) show ?thesis unfolding list.set by (elim insertE emptyE; simp only: dispatch_simps keeps_instance [OF q inst(2)])
  next
    case model
    from model(1) show ?thesis unfolding list.set by (elim insertE emptyE; simp only: dispatch_simps keeps_model [OF q model(2)])
  next
    case settings
    then show ?thesis by (simp only: dispatch_simps keeps_settings [OF q settings(2)])
  next
    case license
    then show ?thesis by (simp only: dispatch_simps keeps_license [OF q license(2)])
  next
    case lists
    from lists(1) show ?thesis unfolding list.set by (elim insertE emptyE; simp only: dispatch_simps keeps_lists [OF q lists(2)])
  qed
qed

text \<open>The command and its action as \<open>runCli\<close> reads them.\<close>

definition reads_only :: "string list \<Rightarrow> bool" where
  "reads_only argv \<longleftrightarrow> (let parsed = parseArguments argv; ps = pa_positionals parsed
     in read_only parsed (text_or (nth_opt ps 0) []) (text_or (nth_opt ps 1) []))"

text \<open>A factory whose every runtime is quiet, and which is quiet itself.\<close>

definition quiet_factory :: "('s \<Rightarrow> bool) \<Rightarrow> (RuntimeOptions \<Rightarrow> ('s, thrown, 's Runtime) act) \<Rightarrow> bool" where
  "quiet_factory I create \<longleftrightarrow> (\<forall>options. keeps I (create options) \<and> (\<forall>s. case fst (create options s) of Inl e \<Rightarrow> True | Inr rt \<Rightarrow> quiet I rt))"

lemma keeps_bnd_value:
  assumes "keeps I m" "\<And>s x. fst (m s) = Inr x \<Longrightarrow> keeps I (f x)"
  shows "keeps I (bnd m f)"
  unfolding keeps_def
proof (intro allI impI)
  fix s assume "I s"
  with assms(1) have t: "I (snd (m s))" by (rule keepsD)
  show "I (snd (bnd m f s))"
  proof (cases "m s")
    case (Pair r t')
    then show ?thesis using t assms(2) [of s] by (cases r) (auto simp: bnd_def keeps_def)
  qed
qed

lemma not_tui_demo: "read_only parsed ''tui'' action \<Longrightarrow> False"
  by (simp add: read_only_def)

text \<open>
  C40: A command line that only reads, or that asks for a GPU validation, a sharing policy or a license without
  \<open>--yes\<close>, keeps every predicate of the state that reading requests, the terminal and local files keep: it makes no
  request that could change the appliance, whatever the server answers.
\<close>

theorem reading_commands_keep_server:
  assumes "quiet_factory I create" and "quiet_io I io" and "reads_only argv"
  shows "keeps I (runCli tui demo create io argv)"
proof -
  let ?parsed = "parseArguments argv"
  let ?command = "text_or (nth_opt (pa_positionals ?parsed) 0) []" and ?action = "text_or (nth_opt (pa_positionals ?parsed) 1) []"
  have read: "read_only ?parsed ?command ?action" using assms(3) by (simp add: reads_only_def Let_def)
  have "keeps I (bnd (create (cli_options ?parsed)) (\<lambda>rt. dispatch tui rt ?parsed io ?command ?action x y))" for x y
  proof (rule keeps_bnd_value)
    show "keeps I (create (cli_options ?parsed))" using assms(1) by (simp add: quiet_factory_def)
    fix s rt assume "fst (create (cli_options ?parsed) s) = Inr rt"
    then have "quiet I rt" using assms(1) unfolding quiet_factory_def by (metis (no_types, lifting) sum.simps(6))
    then show "keeps I (dispatch tui rt ?parsed io ?command ?action x y)" using assms(2) read by (rule keeps_dispatch)
  qed
  moreover have "?command \<noteq> ''tui''" using not_tui_demo read by metis
  ultimately show ?thesis unfolding runCli_def Let_def
    by (auto intro!: keeps_if keeps_basic keeps_io [OF assms(2)])
qed

text \<open>A server that records its requests, and a terminal without effects.\<close>

definition recording_fetch :: "http_request \<Rightarrow> (http_request list, thrown, http_response) act" where
  "recording_fetch q = (\<lambda>log. (Inr (json_response 200 (JObj [])), log @ [q]))"

definition recording_runtime :: "http_request list Runtime" where
  "recording_runtime = \<lparr>rt_api = newMagicStickApi None recording_fetch None,
     rt_settings = \<lparr>rc_apiUrl = [], rc_issuer = [], rc_clientId = [], rc_caFile = None\<rparr>, rt_login = (\<lambda>_ _. ret ()), rt_logout = ret ()\<rparr>"

definition silent_io :: "'s CliIo" where
  "silent_io = \<lparr>ci_stdout = (\<lambda>_. ret ()), ci_readStdin = ret [], ci_readFile = (\<lambda>_. ret []), ci_writeFile = (\<lambda>_ _. ret ()),
     ci_createFile = (\<lambda>_ _. ret ()), ci_isFile = (\<lambda>_. ret True), ci_open = (\<lambda>_. ret 0), ci_handleIsFile = (\<lambda>_. ret True), ci_read = (\<lambda>_ _. ret []),
     ci_close = (\<lambda>_. ret ()), ci_decode = Some, ci_parse = (\<lambda>_. Some (JObj [])), ci_integer = (\<lambda>_. None), ci_now = (\<lambda>_. 0), ci_uuid = ret [],
     ci_formatBytes = (\<lambda>_. []), ci_rule = CHR ''-'', ci_ellipsis = CHR ''.''\<rparr>"

definition only_harmless :: "http_request list \<Rightarrow> bool" where
  "only_harmless log \<longleftrightarrow> list_all (\<lambda>q. \<not> mutationMethod (hr_method q) \<or> hr_url q = ''/api/license/validate'') log"

lemma recording_quiet: "quiet only_harmless recording_runtime" "quiet_io I silent_io"
  "quiet_factory only_harmless (\<lambda>_. ret recording_runtime)"
proof -
  show q: "quiet only_harmless recording_runtime"
    by (auto simp: quiet_def reads_def keeps_def only_harmless_def recording_runtime_def newMagicStickApi_def recording_fetch_def request_def
        bnd_def ret_def lift_result_def http_request_of_def)
  show "quiet_io I silent_io" by (simp add: quiet_io_def silent_io_def keeps_basic)
  show "quiet_factory only_harmless (\<lambda>_. ret recording_runtime)" using q keeps_basic(1) [of only_harmless recording_runtime]
    by (simp add: quiet_factory_def ret_def)
qed

theorem reading_commands_keep_server_witness:
  "reads_only [''instance'', ''share'', ''wiki''] \<and>
   keeps only_harmless (runCli (\<lambda>_ _ _ _. ret ()) recording_runtime (\<lambda>_. ret recording_runtime) silent_io [''instance'', ''share'', ''wiki''])"
proof -
  have "reads_only [''instance'', ''share'', ''wiki'']" by code_simp
  with reading_commands_keep_server [OF recording_quiet(3) recording_quiet(2)] show ?thesis by blast
qed

subsection \<open>The preview changes nothing\<close>

lemma demo_request:
  "request (rt_api createDemoRuntime) c s = (case demo_answer (toUpperCase (ac_method c)) (ac_path c) of
     None \<Rightarrow> Inl (ApiError demo_refusal 403 (JObj [(''message'', JStr demo_refusal)])) | Some v \<Rightarrow> Inr v, s)"
proof -
  have refusal: "read_response (json_response 403 (JObj [(''message'', JStr demo_refusal)])) =
    Inl (ApiError demo_refusal 403 (JObj [(''message'', JStr demo_refusal)]))" by code_simp
  have answer: "read_response (json_response 200 v) = Inr v" for v
    by (simp add: read_response_def json_response_def response_body_def)
  show ?thesis
    by (simp add: request_def createDemoRuntime_def newMagicStickApi_def demo_fetch_def http_request_of_def bnd_def ret_def lift_result_def
        refusal answer split: option.split)
qed

lemma demo_get: "demo_answer ''GET'' path = Some v \<Longrightarrow> request (rt_api createDemoRuntime) (get_call path) = ret v"
  by (rule ext) (simp add: demo_request get_call_def ret_def)

lemma demo_admin: "canAdminister (Some (sn_session demoSnapshot))"
  "jget (sn_session demoSnapshot) ''identityManagementAvailable'' \<noteq> Some (JBool False)"
  by code_simp+

lemma demo_schemas: "parse_object sessionSchema (sn_session demoSnapshot) = Inr (sn_session demoSnapshot)"
  "parse_object settingsSchema (the (sn_settings demoSnapshot)) = Inr (the (sn_settings demoSnapshot))"
  by code_simp+

lemma demo_calls:
  "request (rt_api createDemoRuntime) (get_call ''/api/session'') = ret (sn_session demoSnapshot)"
  "request (rt_api createDemoRuntime) api_appliance = ret (sn_appliance demoSnapshot)"
  "request (rt_api createDemoRuntime) api_modules = ret (sn_modules demoSnapshot)"
  "request (rt_api createDemoRuntime) api_instances = ret (sn_instances demoSnapshot)"
  "request (rt_api createDemoRuntime) api_models = ret (sn_models demoSnapshot)"
  "request (rt_api createDemoRuntime) api_status = ret (sn_status demoSnapshot)"
  "request (rt_api createDemoRuntime) (get_call ''/api/settings'') = ret (the (sn_settings demoSnapshot))"
  "request (rt_api createDemoRuntime) (users_page 25) = ret (the (sn_users demoSnapshot))"
  "request (rt_api createDemoRuntime) api_apiAccess = ret (the (sn_apiAccess demoSnapshot))"
  "request (rt_api createDemoRuntime) (api_kubernetesAccess [] (JInt 0) (JInt 100)) = ret (the (sn_kubernetesAccess demoSnapshot))"
  "request (rt_api createDemoRuntime) api_licenseStatus = ret (the (sn_license demoSnapshot))"
  unfolding api_appliance_def api_modules_def api_instances_def api_models_def api_status_def api_users_def api_apiAccess_def
    api_kubernetesAccess_def api_licenseStatus_def
  by (rule demo_get; code_simp)+

lemma demo_snapshot: "loadSnapshot (rt_api createDemoRuntime) clk s = (Inr (demoSnapshot\<lparr>sn_loadedAt := clk s\<rparr>), s)"
proof -
  have session: "api_session (rt_api createDemoRuntime) = ret (sn_session demoSnapshot)"
    by (rule ext) (simp add: api_session_def demo_calls demo_schemas bnd_def ret_def lift_result_def)
  have settings: "api_settings (rt_api createDemoRuntime) = ret (the (sn_settings demoSnapshot))"
    by (rule ext) (simp add: api_settings_def demo_calls demo_schemas bnd_def ret_def lift_result_def)
  show ?thesis
    unfolding loadSnapshot_def session snapshot_reads_def always_def
    by (simp add: demo_calls settings demo_admin optionally_def bnd_def ret_def catch_def gets_def) (simp add: demoSnapshot_def)
qed

text \<open>
  The offline preview changes nothing and shows its own snapshot: a request is answered from the fixed responses
  exactly when it is a GET of one of their paths and refused with 403 otherwise, no request reaches the outside, sign-in
  and sign-out fail, and the snapshot it loads is the synthetic one with the current time.
\<close>

theorem demo_runtime_is_closed:
  "request (rt_api createDemoRuntime) c s =
     ((if toUpperCase (ac_method c) = ''GET'' \<and> before_query (ac_path c) \<in> set (map fst demo_responses)
       then Inr (the (the (map_of demo_responses (before_query (ac_path c)))))
       else Inl (ApiError demo_refusal 403 (JObj [(''message'', JStr demo_refusal)]))), s) \<and>
   fst (rt_logout createDemoRuntime s) = Inl (error ''Offline demo is read-only; no login, logout, or live actions are available.'') \<and>
   rt_login createDemoRuntime openBrowser prompt s = rt_logout createDemoRuntime s \<and> snd (rt_logout createDemoRuntime s) = s \<and>
   loadSnapshot (rt_api createDemoRuntime) clk s = (Inr (demoSnapshot\<lparr>sn_loadedAt := clk s\<rparr>), s)"
proof -
  have present: "\<forall>(k, v) \<in> set demo_responses. v \<noteq> None" by code_simp
  have some: "before_query p \<in> set (map fst demo_responses) \<Longrightarrow>
    demo_answer ''GET'' p = Some (the (the (map_of demo_responses (before_query p))))" for p
  proof -
    assume "before_query p \<in> set (map fst demo_responses)"
    then obtain v where v: "map_of demo_responses (before_query p) = Some v" by (metis list.set_map map_of_eq_None_iff option.exhaust)
    then have "v \<noteq> None" using present map_of_SomeD [OF v] by auto
    then show ?thesis using v by (auto simp: demo_answer_def)
  qed
  have none: "before_query p \<notin> set (map fst demo_responses) \<Longrightarrow> demo_answer ''GET'' p = None" for p
    by (simp add: demo_answer_def map_of_eq_None_iff [THEN iffD2])
  have others: "m \<noteq> ''GET'' \<Longrightarrow> demo_answer m p = None" for m p by (simp add: demo_answer_def)
  have "request (rt_api createDemoRuntime) c s =
     ((if toUpperCase (ac_method c) = ''GET'' \<and> before_query (ac_path c) \<in> set (map fst demo_responses)
       then Inr (the (the (map_of demo_responses (before_query (ac_path c)))))
       else Inl (ApiError demo_refusal 403 (JObj [(''message'', JStr demo_refusal)]))), s)"
    by (cases "toUpperCase (ac_method c) = ''GET''"; cases "before_query (ac_path c) \<in> set (map fst demo_responses)")
      (simp_all only: demo_request some none others if_True if_False simp_thms option.case)
  then show ?thesis
    using demo_snapshot [of clk s] by (simp add: createDemoRuntime_def demo_unavailable_def throw_def)
qed

end
