(* ===== verification/Borrowing.thy ===== *)
theory Borrowing
  imports Js_Library Poll
begin

text \<open>
  What the borrowed settings of a run share (\<open>license-transaction.ts\<close>, \<open>borrowed-module.ts\<close>,
  \<open>borrowed-sharing.ts\<close>): the canonical text of a JSON value, by which a setting is recognised whatever the order of
  its keys, and actions of an object \<open>'o\<close> beside the world \<open>'w\<close> that its ports reach. \<open>localeCompare\<close> is a parameter.
\<close>

subsection \<open>Canonical text\<close>

text \<open>\<open>Object.entries(v).sort(([a],[b]) => a.localeCompare(b)).map(\<dots>).join(',')\<close>\<close>

definition canonical_fields :: "(string \<Rightarrow> string \<Rightarrow> int) \<Rightarrow> (string \<times> string) list \<Rightarrow> string" where
  "canonical_fields localeCompare entries =
     join '','' (map (\<lambda>(k, text). json_quote k @ '':'' @ text) (sort_by (\<lambda>a b. localeCompare (fst a) (fst b)) entries))"

fun canonical_text :: "(string \<Rightarrow> string \<Rightarrow> int) \<Rightarrow> jsval \<Rightarrow> string" where
  "canonical_text localeCompare (JArr xs) = ''['' @ join '','' (map (canonical_text localeCompare) xs) @ '']''"
| "canonical_text localeCompare (JObj ob) = ''{'' @ canonical_fields localeCompare (map (\<lambda>(k, v). (k, canonical_text localeCompare v)) ob) @ ''}''"
| "canonical_text localeCompare JNull = stringify JNull"
| "canonical_text localeCompare (JBool b) = stringify (JBool b)"
| "canonical_text localeCompare (JInt i) = stringify (JInt i)"
| "canonical_text localeCompare (JFloat s) = stringify (JFloat s)"
| "canonical_text localeCompare (JStr s) = stringify (JStr s)"

definition canonicalInput :: "(string \<Rightarrow> string \<Rightarrow> int) \<Rightarrow> jsval option \<Rightarrow> string" where
  "canonicalInput localeCompare v = (case v of None \<Rightarrow> ''null'' | Some x \<Rightarrow> canonical_text localeCompare x)"

subsection \<open>Kubernetes objects\<close>

definition object_uid :: "jsval \<Rightarrow> jsval option" where
  "object_uid ob = jat (Some ob) [''metadata'', ''uid'']"

definition object_generation :: "jsval \<Rightarrow> jsval option" where
  "object_generation ob = jat (Some ob) [''metadata'', ''generation'']"

definition object_spec :: "jsval \<Rightarrow> jsval option" where
  "object_spec ob = jget ob ''spec''"

text \<open>\<open>canonical(object.spec)\<close>; that of an absent spec is \<open>undefined\<close>.\<close>

definition spec_text :: "(string \<Rightarrow> string \<Rightarrow> int) \<Rightarrow> jsval \<Rightarrow> string option" where
  "spec_text localeCompare ob = map_option (canonical_text localeCompare) (object_spec ob)"

text \<open>\<open>Number(generation) + 1\<close>\<close>

definition next_generation :: "jsval option \<Rightarrow> jsval option" where
  "next_generation g = (case g of Some (JInt i) \<Rightarrow> Some (JInt (i + 1)) | _ \<Rightarrow> Some (JFloat ''NaN''))"

text \<open>A parameter map that is absent or an object: not \<open>null\<close>, an array or another value.\<close>

definition parameters_ok :: "jsval option \<Rightarrow> bool" where
  "parameters_ok v \<longleftrightarrow> (case v of None \<Rightarrow> True | Some (JObj ob) \<Rightarrow> True | _ \<Rightarrow> False)"

lemma strict_eq_eq: "strict_eq x y \<Longrightarrow> x = y"
  by (cases x) auto

lemma strict_opt_trans: "strict_opt a b \<Longrightarrow> strict_opt b c \<Longrightarrow> strict_opt a c"
  by (auto simp: strict_opt_def split: option.splits dest: strict_eq_eq)

lemma strict_opt_Some: "strict_opt a (Some b) \<Longrightarrow> a = Some b"
  by (cases a) (auto simp: strict_opt_def dest: strict_eq_eq)

subsection \<open>An object beside the world\<close>

type_synonym ('o, 'w, 'a) obj_act = "('o \<times> 'w, js_error, 'a) act"

definition via :: "('w, js_error, 'a) act \<Rightarrow> ('o, 'w, 'a) obj_act" where
  "via m = (\<lambda>(t, w). case m w of (r, w') \<Rightarrow> (r, (t, w')))"

definition own :: "('o, 'w, 'o) obj_act" where
  "own = gets fst"

definition assign :: "('o \<Rightarrow> 'o) \<Rightarrow> ('o, 'w, unit) obj_act" where
  "assign f = modify (\<lambda>(t, w). (f t, w))"

definition world_keeps :: "('w \<Rightarrow> bool) \<Rightarrow> 'o \<times> 'w \<Rightarrow> bool" where
  "world_keeps I = (\<lambda>(t, w). I w)"

lemma via_run [simp]: "via m (t, w) = (case m w of (r, w') \<Rightarrow> (r, (t, w')))"
  by (simp add: via_def)

lemma own_run [simp]: "own (t, w) = (Inr t, (t, w))"
  by (simp add: own_def gets_def)

lemma assign_run [simp]: "assign f (t, w) = (Inr (), (f t, w))"
  by (simp add: assign_def modify_def)

lemma via_ok [ok_iffs]: "via m s = (Inr x, u) \<longleftrightarrow> (\<exists>w'. m (snd s) = (Inr x, w') \<and> u = (fst s, w'))"
  by (cases s) (auto split: prod.splits)

lemma own_ok [ok_iffs]: "own s = (Inr x, u) \<longleftrightarrow> x = fst s \<and> u = s"
  by (cases s) auto

lemma assign_ok [ok_iffs]: "assign f s = (Inr x, u) \<longleftrightarrow> u = (f (fst s), snd s)"
  by (cases s) auto

subsection \<open>Rules\<close>

text \<open>The object after an action, whatever its outcome and the world.\<close>

definition obj_leads :: "'o \<Rightarrow> ('o, 'w, 'a) obj_act \<Rightarrow> ('o \<Rightarrow> bool) \<Rightarrow> bool" where
  "obj_leads t m P \<longleftrightarrow> (\<forall>w. P (fst (snd (m (t, w)))))"

named_theorems obj_intros \<open>the object after the steps of an action\<close>

lemma obj_leadsD: "obj_leads t m P \<Longrightarrow> m (t, w) = (r, (t', w')) \<Longrightarrow> P t'"
  unfolding obj_leads_def by (metis fst_conv snd_conv)

lemma obj_weaken: "obj_leads t m P \<Longrightarrow> (\<And>t'. P t' \<Longrightarrow> Q t') \<Longrightarrow> obj_leads t m Q"
  by (simp add: obj_leads_def)

lemma obj_ret [obj_intros]: "P t \<Longrightarrow> obj_leads t (ret x) P"
  by (simp add: obj_leads_def ret_def)

lemma obj_throw [obj_intros]: "P t \<Longrightarrow> obj_leads t (throw e) P"
  by (simp add: obj_leads_def throw_def)

lemma obj_via [obj_intros]: "P t \<Longrightarrow> obj_leads t (via m) P"
  by (simp add: obj_leads_def split: prod.split)

lemma obj_assign [obj_intros]: "P (f t) \<Longrightarrow> obj_leads t (assign f) P"
  by (simp add: obj_leads_def)

lemma obj_requireProof [obj_intros]: "P t \<Longrightarrow> obj_leads t (requireProof c code) P"
  by (simp add: obj_leads_def requireProof_def act_simps)

lemma obj_requireSafe [obj_intros]: "P t \<Longrightarrow> obj_leads t (requireSafe c code) P"
  by (simp add: obj_leads_def)

lemma obj_own [obj_intros]: "obj_leads t (f t) P \<Longrightarrow> obj_leads t (bnd own f) P"
  by (simp add: obj_leads_def bnd_def)

lemma obj_bnd: "obj_leads t m (\<lambda>t'. P t' \<and> (\<forall>x. obj_leads t' (f x) P)) \<Longrightarrow> obj_leads t (bnd m f) P"
  unfolding obj_leads_def
proof
  fix w assume all: "\<forall>w. P (fst (snd (m (t, w)))) \<and> (\<forall>x w'. P (fst (snd (f x (fst (snd (m (t, w))), w')))))"
  obtain r t' w' where m: "m (t, w) = (r, (t', w'))" by (metis surj_pair)
  then show "P (fst (snd (bnd m f (t, w))))" using all [rule_format, of w] by (cases r) (simp_all add: bnd_def)
qed

lemma obj_seq: "obj_leads t m (\<lambda>t'. P t' \<and> obj_leads t' n P) \<Longrightarrow> obj_leads t (seq m n) P"
  unfolding seq_def by (rule obj_bnd) simp

lemma obj_checked: "P t \<Longrightarrow> (c \<Longrightarrow> obj_leads t n P) \<Longrightarrow> obj_leads t (seq (requireProof c code) n) P"
  by (auto simp: obj_leads_def requireProof_def act_simps)

lemma obj_checked_safe: "P t \<Longrightarrow> (c \<Longrightarrow> obj_leads t n P) \<Longrightarrow> obj_leads t (seq (requireSafe c code) n) P"
  by (auto simp: obj_leads_def act_simps)

lemma obj_read: "P t \<Longrightarrow> (\<And>x w w'. m w = (Inr x, w') \<Longrightarrow> obj_leads t (f x) P) \<Longrightarrow> obj_leads t (bnd (via m) f) P"
  unfolding obj_leads_def by (auto simp: bnd_def split: prod.split sum.split)

lemma obj_catch: "obj_leads t m (\<lambda>t'. P t' \<and> (\<forall>e. obj_leads t' (h e) P)) \<Longrightarrow> obj_leads t (catch m h) P"
  unfolding obj_leads_def
proof
  fix w assume all: "\<forall>w. P (fst (snd (m (t, w)))) \<and> (\<forall>e w'. P (fst (snd (h e (fst (snd (m (t, w))), w')))))"
  obtain r t' w' where m: "m (t, w) = (r, (t', w'))" by (metis surj_pair)
  then show "P (fst (snd (catch m h (t, w))))" using all [rule_format, of w] by (cases r) (simp_all add: catch_def)
qed

lemma obj_atStage [obj_intros]: "obj_leads t m P \<Longrightarrow> obj_leads t (atStage st m) P"
  unfolding atStage_def by (rule obj_catch) (simp add: obj_leads_def throw_def)

text \<open>A predicate of object and world, kept step by step.\<close>

lemma keeps_via [keeps_intros]: "(\<And>t w. J (t, w) \<Longrightarrow> J (t, snd (m w))) \<Longrightarrow> keeps J (via m)"
  unfolding keeps_def by (auto split: prod.splits) (metis snd_conv)

lemma keeps_own: "(\<And>t w. J (t, w) \<Longrightarrow> keeps J (f t)) \<Longrightarrow> keeps J (bnd own f)"
  by (auto simp: keeps_def bnd_def)

lemma keeps_assign [keeps_intros]: "(\<And>t w. J (t, w) \<Longrightarrow> J (f t, w)) \<Longrightarrow> keeps J (assign f)"
  by (auto simp: keeps_def)

lemma keeps_checked: "(c \<Longrightarrow> keeps J n) \<Longrightarrow> keeps J (seq (requireProof c code) n)"
  by (auto simp: keeps_def requireProof_def act_simps)

lemma keeps_checked_safe: "(c \<Longrightarrow> keeps J n) \<Longrightarrow> keeps J (seq (requireSafe c code) n)"
  by (auto simp: keeps_def act_simps)

lemma requireProof_ok [ok_iffs]: "requireProof c code s = (Inr x, t) \<longleftrightarrow> c \<and> t = s"
  by (auto simp: requireProof_def act_simps)

lemma atStage_ok [ok_iffs]: "atStage st m s = (Inr x, t) \<longleftrightarrow> m s = (Inr x, t)"
  by (auto simp: atStage_def catch_def throw_def split: prod.splits sum.splits)

subsection \<open>Polling reads\<close>

definition returns :: "('s, 'e, 'a) act \<Rightarrow> 'a \<Rightarrow> bool" where
  "returns m x \<longleftrightarrow> (\<exists>s s'. m s = (Inr x, s'))"

lemma returnsI: "m s = (Inr x, s') \<Longrightarrow> returns m x"
  by (auto simp: returns_def)

lemma poll_pass_read: "poll_pass env read accept stage deadline interval s = (Inr (Accepted v), t) \<Longrightarrow> returns read v \<and> accept v"
  by (auto simp: poll_pass_def raced_def poll_clock_def bnd_def seq_def ret_def returns_def split: prod.splits sum.splits if_splits)

lemma pollLoop_read: "pollLoop n env read accept stage deadline interval s = Some (Inr v, t) \<Longrightarrow> returns read v \<and> accept v"
  by (induction n env read accept stage deadline interval s rule: pollLoop.induct)
    (auto split: prod.splits sum.splits pass.splits dest: poll_pass_read)

lemma poll_act_read: "poll_act env read accept timeoutMs intervalMs stage s = (Inr v, t) \<Longrightarrow> returns read v \<and> accept v"
  by (auto simp: poll_act_def poll_def split: prod.splits option.splits dest: pollLoop_read)

text \<open>A clock that stands still while it is read, and a first read that is accepted.\<close>

lemma poll_act_first:
  assumes "\<And>u. snd (pe_now env u) = u" and "pe_check env s = (Inr (), s)" and "read s = (Inr v, s')"
    and "fst (pe_now env s') < fst (pe_now env s) + timeoutMs" and "accept v" and "0 < timeoutMs"
  shows "poll_act env read accept timeoutMs intervalMs stage s = (Inr v, s')"
proof -
  obtain n where n: "poll_fuel timeoutMs = Suc n" by (simp add: poll_fuel_def)
  obtain t t' where still: "pe_now env s = (t, s)" "pe_now env s' = (t', s')" using assms(1) by (metis prod.collapse)
  show ?thesis using assms(2-) still
    by (simp add: poll_act_def poll_def n poll_pass_def poll_clock_def raced_def bnd_def seq_def ret_def)
qed

subsection \<open>Objects that only move along a preorder\<close>

text \<open>
  A contract between the states of an object before and after an action, whatever its outcome and its ports do. The
  laws are those of a preorder; the rules follow the steps of an action.
\<close>

definition moves :: "('o \<Rightarrow> 'o \<Rightarrow> bool) \<Rightarrow> ('o, 'w, 'a) obj_act \<Rightarrow> bool" where
  "moves R m \<longleftrightarrow> (\<forall>t. obj_leads t m (R t))"

lemma movesD: "moves R m \<Longrightarrow> m (t, w) = (r, (t', w')) \<Longrightarrow> R t t'"
  unfolding moves_def by (blast intro: obj_leadsD)

locale object_contract =
  fixes R :: "'o \<Rightarrow> 'o \<Rightarrow> bool"
  assumes contract_refl: "R t t" and contract_trans: "R t u \<Longrightarrow> R u v \<Longrightarrow> R t v"
begin

lemma moves_steps: "moves R (ret x)" "moves R (throw e)" "moves R (via m)" "moves R (requireSafe c code)" "moves R (requireProof c code)"
  "moves R (lift_result r)"
  by (auto simp: moves_def obj_leads_def lift_result_def ret_def throw_def requireProof_def contract_refl split: prod.split)

lemma moves_assign: "(\<And>t. R t (f t)) \<Longrightarrow> moves R (assign f)"
  by (simp add: moves_def obj_leads_def)

lemma moves_after: "moves R m \<Longrightarrow> R t u \<Longrightarrow> obj_leads u m (R t)"
  unfolding moves_def by (blast intro: obj_weaken contract_trans)

lemma moves_bnd: "moves R m \<Longrightarrow> (\<And>x. moves R (f x)) \<Longrightarrow> moves R (bnd m f)"
  by (subst moves_def, intro allI obj_bnd, rule obj_weaken [OF moves_after [OF _ contract_refl]]) (auto intro: moves_after)

lemma moves_seq: "moves R m \<Longrightarrow> moves R n \<Longrightarrow> moves R (seq m n)"
  unfolding seq_def by (rule moves_bnd)

lemma moves_read: "(\<And>x w w'. m w = (Inr x, w') \<Longrightarrow> moves R (f x)) \<Longrightarrow> moves R (bnd (via m) f)"
  unfolding moves_def obj_leads_def by (auto simp: bnd_def contract_refl split: prod.split sum.split)

lemma moves_own: "(\<And>t. moves R (f t)) \<Longrightarrow> moves R (bnd own f)"
  by (simp add: moves_def obj_leads_def bnd_def)

lemma moves_checked: "(c \<Longrightarrow> moves R n) \<Longrightarrow> moves R (seq (requireSafe c code) n)"
  by (auto simp: moves_def obj_leads_def act_simps contract_refl)

lemma moves_catch: "moves R m \<Longrightarrow> (\<And>e. moves R (h e)) \<Longrightarrow> moves R (catch m h)"
  by (subst moves_def, intro allI obj_catch, rule obj_weaken [OF moves_after [OF _ contract_refl]]) (auto intro: moves_after)

lemma moves_if: "(c \<Longrightarrow> moves R m) \<Longrightarrow> (\<not> c \<Longrightarrow> moves R n) \<Longrightarrow> moves R (if c then m else n)"
  by simp

lemma moves_option: "moves R m \<Longrightarrow> (\<And>y. moves R (f y)) \<Longrightarrow> moves R (case x of None \<Rightarrow> m | Some y \<Rightarrow> f y)"
  by (cases x) simp_all

lemmas moves_rules = moves_steps moves_read moves_own moves_checked moves_bnd moves_seq moves_catch moves_if moves_option

end

subsection \<open>Steps along a preorder\<close>

text \<open>The same contract between whole states, of object and world; that of an object is an instance of it.\<close>

definition along :: "('s \<Rightarrow> 's \<Rightarrow> bool) \<Rightarrow> ('s, 'e, 'a) act \<Rightarrow> bool" where
  "along R m \<longleftrightarrow> (\<forall>s. R s (snd (m s)))"

lemma alongD: "along R m \<Longrightarrow> m s = (x, s') \<Longrightarrow> R s s'"
  unfolding along_def by (metis snd_conv)

locale step_contract =
  fixes R :: "'s \<Rightarrow> 's \<Rightarrow> bool"
  assumes step_refl: "R s s" and step_trans: "R s t \<Longrightarrow> R t u \<Longrightarrow> R s u"
begin

lemma along_steps: "along R (ret x)" "along R (throw e)" "along R (lift_result r)" "along R (requireSafe c code)"
  by (simp_all add: along_def ret_def throw_def lift_result_def step_refl)

lemma along_bnd: "along R m \<Longrightarrow> (\<And>x. along R (f x)) \<Longrightarrow> along R (bnd m f)"
  unfolding along_def bnd_def by (auto split: prod.split sum.split) (metis snd_conv step_trans)+

lemma along_seq: "along R m \<Longrightarrow> along R n \<Longrightarrow> along R (seq m n)"
  unfolding seq_def by (rule along_bnd)

lemma along_catch: "along R m \<Longrightarrow> (\<And>e. along R (h e)) \<Longrightarrow> along R (catch m h)"
  unfolding along_def catch_def by (auto split: prod.split sum.split) (metis snd_conv step_trans)+

lemma along_if: "(c \<Longrightarrow> along R m) \<Longrightarrow> (\<not> c \<Longrightarrow> along R n) \<Longrightarrow> along R (if c then m else n)"
  by simp

lemma along_option: "along R m \<Longrightarrow> (\<And>y. along R (f y)) \<Longrightarrow> along R (case x of None \<Rightarrow> m | Some y \<Rightarrow> f y)"
  by (cases x) simp_all

lemma preorder: "reflp R" "transp R"
  by (auto intro!: reflpI transpI step_refl intro: step_trans)

lemmas along_rules = along_steps along_bnd along_seq along_catch along_if along_option

end

lemma moves_along: "moves R m \<longleftrightarrow> along (\<lambda>s s'. R (fst s) (fst s')) m"
  by (auto simp: moves_def along_def obj_leads_def)

sublocale object_contract \<subseteq> whole: step_contract "\<lambda>s s'. R (fst s) (fst s')"
  by unfold_locales (auto intro: contract_refl contract_trans)

end
