(* ===== verification/License_Transaction.thy ===== *)
theory License_Transaction
  imports Borrowing
begin

text \<open>
  The borrowed license document of a run (\<open>regression/core/license-transaction.ts\<close>): a transaction keeps one receipt
  without documents, requests and confirms one candidate, and restores the original only over that candidate. The
  ports (the license API, the lease guard, the restoring write and the receipt file), SHA-256 and \<open>localeCompare\<close> are
  parameters. The state of an action is the transaction beside the world of its ports.
\<close>

subsection \<open>Data\<close>

record LicenseSnapshot =
  ls_uid :: string
  ls_revision :: string
  ls_installationId :: string
  ls_document :: "string option"
  ls_otherData :: "string obj"

datatype license_state = L_reviewed | L_requested | L_forwarded | L_applied | L_restoring | L_restored

record LicenseReceipt =
  lcr_secretUid :: string
  lcr_installationId :: string
  lcr_beforeRevision :: string
  lcr_originalHash :: "string option"
  lcr_otherDataHash :: "string option"
  lcr_selectedHash :: "string option"
  lcr_appliedRevision :: "string option"
  lcr_restoredRevision :: "string option"
  lcr_state :: license_state

record 'w license_ports =
  lp_state :: "('w, js_error, LicenseSnapshot) act"
  lp_guard :: "('w, js_error, unit) act"
  lp_restore :: "LicenseSnapshot \<Rightarrow> string option \<Rightarrow> ('w, js_error, unit) act"
  lp_record :: "LicenseReceipt \<Rightarrow> ('w, js_error, unit) act"
  lp_digest :: "string \<Rightarrow> string"
  lp_compare :: "string \<Rightarrow> string \<Rightarrow> int"

record LicenseTransaction =
  lt_receipt :: LicenseReceipt
  lt_selected :: "string option"
  lt_original :: LicenseSnapshot

type_synonym ('w, 'a) license_act = "(LicenseTransaction, 'w, 'a) obj_act"

definition licenseHash :: "(string \<Rightarrow> string) \<Rightarrow> string option \<Rightarrow> string option" where
  "licenseHash digest document = map_option digest document"

definition other_text :: "'w license_ports \<Rightarrow> LicenseSnapshot \<Rightarrow> string" where
  "other_text ports snapshot = canonicalInput (lp_compare ports) (Some (JObj (map (\<lambda>(k, v). (k, JStr v)) (ls_otherData snapshot))))"

definition newLicenseTransaction :: "'w license_ports \<Rightarrow> LicenseSnapshot \<Rightarrow> LicenseTransaction" where
  "newLicenseTransaction ports original =
     \<lparr>lt_receipt = \<lparr>lcr_secretUid = ls_uid original, lcr_installationId = ls_installationId original, lcr_beforeRevision = ls_revision original,
        lcr_originalHash = licenseHash (lp_digest ports) (ls_document original),
        lcr_otherDataHash = licenseHash (lp_digest ports) (Some (other_text ports original)), lcr_selectedHash = None,
        lcr_appliedRevision = None, lcr_restoredRevision = None, lcr_state = L_reviewed\<rparr>,
      lt_selected = None, lt_original = original\<rparr>"

subsection \<open>Operations\<close>

definition put_receipt :: "(LicenseReceipt \<Rightarrow> LicenseReceipt) \<Rightarrow> ('w, unit) license_act" where
  "put_receipt f = assign (\<lambda>t. t\<lparr>lt_receipt := f (lt_receipt t)\<rparr>)"

definition record_receipt :: "'w license_ports \<Rightarrow> ('w, unit) license_act" where
  "record_receipt ports = bnd own (\<lambda>t. via (lp_record ports (lt_receipt t)))"

definition begin_transaction :: "'w license_ports \<Rightarrow> ('w, unit) license_act" where
  "begin_transaction ports = record_receipt ports"

definition same_identity :: "'w license_ports \<Rightarrow> LicenseSnapshot \<Rightarrow> LicenseSnapshot \<Rightarrow> bool" where
  "same_identity ports original current \<longleftrightarrow> ls_uid current = ls_uid original \<and> ls_installationId current = ls_installationId original \<and>
     other_text ports current = other_text ports original"

text \<open>\<open>const current = await this.ports.state(); this.sameIdentity(current);\<close>\<close>

definition identified :: "'w license_ports \<Rightarrow> ('w, LicenseSnapshot) license_act" where
  "identified ports = bnd (via (lp_state ports)) (\<lambda>current. bnd own (\<lambda>t.
     seq (requireProof (same_identity ports (lt_original t) current) R_CONFLICT) (ret current)))"

definition unchanged :: "'w license_ports \<Rightarrow> ('w, unit) license_act" where
  "unchanged ports = bnd (identified ports) (\<lambda>current. bnd own (\<lambda>t.
     requireProof (ls_revision current = ls_revision (lt_original t) \<and> ls_document current = ls_document (lt_original t)) R_API))"

definition request_license :: "'w license_ports \<Rightarrow> string \<Rightarrow> ('w, unit) license_act" where
  "request_license ports document = bnd own (\<lambda>t.
     seq (requireProof (lcr_state (lt_receipt t) \<in> {L_reviewed, L_requested, L_forwarded}) R_CONFLICT)
    (seq (unchanged ports) (seq (via (lp_guard ports)) (seq (assign (\<lambda>t. t\<lparr>lt_selected := Some document\<rparr>))
    (seq (put_receipt (\<lambda>r. r\<lparr>lcr_selectedHash := licenseHash (lp_digest ports) (Some document), lcr_state := L_requested\<rparr>))
      (record_receipt ports))))))"

definition forwarded :: "'w license_ports \<Rightarrow> ('w, unit) license_act" where
  "forwarded ports = bnd own (\<lambda>t. seq (requireProof (lcr_state (lt_receipt t) = L_requested) R_CONFLICT)
    (seq (unchanged ports) (seq (put_receipt (\<lambda>r. r\<lparr>lcr_state := L_forwarded\<rparr>)) (record_receipt ports))))"

definition acknowledge :: "'w license_ports \<Rightarrow> string \<Rightarrow> ('w, unit) license_act" where
  "acknowledge ports revision = bnd (identified ports) (\<lambda>current. bnd own (\<lambda>t.
     seq (requireProof (lcr_state (lt_receipt t) = L_forwarded \<and> lt_selected t \<noteq> None \<and> ls_document current = lt_selected t \<and>
       ls_revision current = revision) R_API)
    (seq (put_receipt (\<lambda>r. r\<lparr>lcr_appliedRevision := Some revision, lcr_state := L_applied\<rparr>)) (record_receipt ports))))"

text \<open>\<open>!revision || current.revision === revision\<close>\<close>

definition revision_agrees :: "string option \<Rightarrow> string \<Rightarrow> bool" where
  "revision_agrees recorded current \<longleftrightarrow> (case recorded of None \<Rightarrow> True | Some r \<Rightarrow> r = [] \<or> current = r)"

definition restorable :: "LicenseTransaction \<Rightarrow> LicenseSnapshot \<Rightarrow> bool" where
  "restorable t current \<longleftrightarrow> lt_selected t \<noteq> None \<and> lcr_state (lt_receipt t) \<in> {L_forwarded, L_applied, L_restoring} \<and>
     ls_document current = lt_selected t \<and> revision_agrees (lcr_appliedRevision (lt_receipt t)) (ls_revision current)"

definition restore_write :: "'w license_ports \<Rightarrow> LicenseSnapshot \<Rightarrow> ('w, unit) license_act" where
  "restore_write ports current = bnd own (\<lambda>t.
     seq (requireProof (restorable t current) R_CONFLICT)
    (seq (put_receipt (\<lambda>r. r\<lparr>lcr_appliedRevision := Some (ls_revision current), lcr_state := L_restoring\<rparr>))
    (seq (record_receipt ports) (seq (via (lp_guard ports))
      (via (lp_restore ports current (ls_document (lt_original t))))))))"

definition restore_verified :: "'w license_ports \<Rightarrow> ('w, unit) license_act" where
  "restore_verified ports = bnd (identified ports) (\<lambda>verified. bnd own (\<lambda>t.
     seq (requireProof (ls_document verified = ls_document (lt_original t)) R_CLEANUP)
    (seq (put_receipt (\<lambda>r. r\<lparr>lcr_restoredRevision := Some (ls_revision verified), lcr_state := L_restored\<rparr>)) (record_receipt ports))))"

definition at_original :: "LicenseTransaction \<Rightarrow> LicenseSnapshot \<Rightarrow> bool" where
  "at_original t current \<longleftrightarrow>
     ls_revision current = ls_revision (lt_original t) \<and> ls_document current = ls_document (lt_original t) \<or>
     lcr_state (lt_receipt t) = L_restoring \<and> ls_document current = ls_document (lt_original t)"

definition restore_body :: "'w license_ports \<Rightarrow> ('w, unit) license_act" where
  "restore_body ports = seq (via (lp_guard ports)) (bnd (identified ports) (\<lambda>current. bnd own (\<lambda>t.
     if lcr_state (lt_receipt t) = L_restored
     then seq (requireProof (ls_document current = ls_document (lt_original t) \<and>
         Some (ls_revision current) = lcr_restoredRevision (lt_receipt t)) R_CONFLICT) (record_receipt ports)
     else seq (if at_original t current then ret () else restore_write ports current) (restore_verified ports))))"

definition restore_license :: "'w license_ports \<Rightarrow> ('w, unit) license_act" where
  "restore_license ports = atStage S_license_restore (restore_body ports)"

subsection \<open>The receipts of a directory\<close>

text \<open>\<open>/^license-(?:transaction(?:-lic-0[234])?|baseline(?:-(?:lic-01|sso-01))?)\.json$/\<close>\<close>

definition license_receipt_names :: "string list" where
  "license_receipt_names = map (\<lambda>s. ''license-'' @ s @ ''.json'')
     [''transaction'', ''transaction-lic-02'', ''transaction-lic-03'', ''transaction-lic-04'', ''baseline'', ''baseline-lic-01'', ''baseline-sso-01'']"

definition receipt_restored :: "jsval \<Rightarrow> bool" where
  "receipt_restored v \<longleftrightarrow> jget v ''version'' = Some (JInt 1) \<and> jget v ''state'' = Some (JStr ''restored'')"

fun assert_receipts :: "(string \<Rightarrow> ('w, js_error, jsval) act) \<Rightarrow> string list \<Rightarrow> ('w, js_error, unit) act" where
  "assert_receipts read [] = ret ()"
| "assert_receipts read (name # names) =
     (if name \<in> set license_receipt_names
      then bnd (read name) (\<lambda>v. seq (if v = JNull then throw (Other ''TypeError'') else ret ()) (seq (requireProof (receipt_restored v) R_CLEANUP) (assert_receipts read names)))
      else assert_receipts read names)"

definition assertLicenseReceiptsRestored :: "('w, js_error, string list) act \<Rightarrow> (string \<Rightarrow> ('w, js_error, jsval) act) \<Rightarrow> ('w, js_error, unit) act" where
  "assertLicenseReceiptsRestored readdir read = bnd readdir (assert_receipts read)"

subsection \<open>Calls\<close>

datatype license_call = C_begin | C_unchanged | C_request string | C_forwarded | C_acknowledge string | C_restore

fun license_run :: "'w license_ports \<Rightarrow> license_call \<Rightarrow> ('w, unit) license_act" where
  "license_run ports C_begin = begin_transaction ports"
| "license_run ports C_unchanged = unchanged ports"
| "license_run ports (C_request document) = request_license ports document"
| "license_run ports C_forwarded = forwarded ports"
| "license_run ports (C_acknowledge revision) = acknowledge ports revision"
| "license_run ports C_restore = restore_license ports"

text \<open>Calls in sequence, whatever each returned.\<close>

fun license_runs :: "'w license_ports \<Rightarrow> license_call list \<Rightarrow> LicenseTransaction \<times> 'w \<Rightarrow> LicenseTransaction \<times> 'w" where
  "license_runs ports [] s = s"
| "license_runs ports (c # cs) s = license_runs ports cs (snd (license_run ports c s))"

subsection \<open>The protocol of receipts\<close>

inductive receipt_step :: "LicenseReceipt \<Rightarrow> LicenseReceipt \<Rightarrow> bool" where
  requested: "lcr_state r \<in> {L_reviewed, L_requested, L_forwarded} \<Longrightarrow> receipt_step r (r\<lparr>lcr_selectedHash := h, lcr_state := L_requested\<rparr>)"
| forwarded: "lcr_state r = L_requested \<Longrightarrow> receipt_step r (r\<lparr>lcr_state := L_forwarded\<rparr>)"
| applied: "lcr_state r = L_forwarded \<Longrightarrow> receipt_step r (r\<lparr>lcr_appliedRevision := Some v, lcr_state := L_applied\<rparr>)"
| restoring: "lcr_state r \<in> {L_forwarded, L_applied, L_restoring} \<Longrightarrow> revision_agrees (lcr_appliedRevision r) v \<Longrightarrow>
    receipt_step r (r\<lparr>lcr_appliedRevision := Some v, lcr_state := L_restoring\<rparr>)"
| restored: "lcr_state r \<noteq> L_restored \<Longrightarrow> receipt_step r (r\<lparr>lcr_restoredRevision := Some v, lcr_state := L_restored\<rparr>)"

inductive_cases receipt_stepE: "receipt_step r r'"

abbreviation receipt_steps :: "LicenseReceipt \<Rightarrow> LicenseReceipt \<Rightarrow> bool" where
  "receipt_steps \<equiv> receipt_step\<^sup>*\<^sup>*"

text \<open>The transaction after a call: its receipt moved by steps of the protocol, and its original is the same.\<close>

definition licensed_from :: "LicenseTransaction \<Rightarrow> LicenseTransaction \<Rightarrow> bool" where
  "licensed_from t t' \<longleftrightarrow> receipt_steps (lt_receipt t) (lt_receipt t') \<and> lt_original t' = lt_original t"

lemma licensed_from_refl [simp]: "licensed_from t t"
  by (simp add: licensed_from_def)

lemma licensed_from_trans: "licensed_from t t' \<Longrightarrow> licensed_from t' t'' \<Longrightarrow> licensed_from t t''"
  by (auto simp: licensed_from_def)

lemma licensed_then: "licensed_from t t' \<Longrightarrow> receipt_step (lt_receipt t') r \<Longrightarrow> licensed_from t (t'\<lparr>lt_receipt := r\<rparr>)"
  by (auto simp: licensed_from_def)

lemmas licensed_step = licensed_then [OF licensed_from_refl]

lemma obj_record: "P t \<Longrightarrow> obj_leads t (record_receipt ports) P"
  unfolding record_receipt_def by (intro obj_intros)

lemma obj_identified: "P t \<Longrightarrow> obj_leads t (identified ports) P"
  unfolding identified_def by (intro obj_bnd obj_seq obj_intros conjI allI)

lemma obj_unchanged: "P t \<Longrightarrow> obj_leads t (unchanged ports) P"
  unfolding unchanged_def by (intro obj_bnd obj_identified obj_intros conjI allI)

lemma obj_put_receipt: "P t \<Longrightarrow> P (t\<lparr>lt_receipt := f (lt_receipt t)\<rparr>) \<Longrightarrow> obj_leads t (seq (put_receipt f) (record_receipt ports)) P"
  unfolding put_receipt_def by (intro obj_seq obj_intros obj_record conjI)

lemma obj_restore_write:
  assumes "P t" and "\<And>v. restorable t current \<Longrightarrow> v = ls_revision current \<Longrightarrow>
    P (t\<lparr>lt_receipt := (lt_receipt t)\<lparr>lcr_appliedRevision := Some v, lcr_state := L_restoring\<rparr>\<rparr>)"
  shows "obj_leads t (restore_write ports current) P"
  unfolding restore_write_def put_receipt_def
  using assms by (intro obj_own obj_checked obj_seq obj_intros obj_record conjI) auto

lemma obj_restore_verified:
  assumes "P t" and "\<And>v. P (t\<lparr>lt_receipt := (lt_receipt t)\<lparr>lcr_restoredRevision := Some v, lcr_state := L_restored\<rparr>\<rparr>)"
  shows "obj_leads t (restore_verified ports) P"
  unfolding restore_verified_def
  by (intro obj_bnd obj_identified obj_own obj_checked obj_put_receipt conjI allI assms)

lemma call_licensed: "obj_leads t (license_run ports c) (licensed_from t)"
proof (cases c)
  case (C_request d)
  have "lcr_state (lt_receipt t) \<in> {L_reviewed, L_requested, L_forwarded} \<Longrightarrow> licensed_from t
      (t\<lparr>lt_selected := x, lt_receipt := (lt_receipt t)\<lparr>lcr_selectedHash := h, lcr_state := L_requested\<rparr>\<rparr>)" for x h
    by (auto simp: licensed_from_def intro: receipt_step.requested)
  then show ?thesis using C_request
    by (simp add: request_license_def) (intro obj_own obj_checked obj_seq obj_unchanged obj_intros obj_put_receipt conjI; simp add: licensed_from_def)
next
  case C_forwarded
  then show ?thesis
    by (simp add: forwarded_def)
      (intro obj_own obj_checked obj_seq obj_unchanged obj_put_receipt conjI; simp add: licensed_step receipt_step.forwarded)
next
  case (C_acknowledge v)
  then show ?thesis
    by (auto simp: acknowledge_def intro!: obj_bnd obj_identified obj_own obj_checked obj_put_receipt licensed_step receipt_step.applied)
next
  case C_restore
  let ?wrote = "\<lambda>t'. lcr_state (lt_receipt t') \<noteq> L_restored \<and> licensed_from t t'"
  have writes: "lcr_state (lt_receipt t) \<noteq> L_restored \<Longrightarrow> obj_leads t (restore_write ports current) ?wrote" for current
    by (rule obj_restore_write) (auto simp: restorable_def intro!: licensed_step receipt_step.restoring)
  have verify: "?wrote t' \<Longrightarrow> obj_leads t' (restore_verified ports) (licensed_from t)" for t'
    by (rule obj_restore_verified) (auto intro: licensed_then receipt_step.restored)
  have "lcr_state (lt_receipt t) \<noteq> L_restored \<Longrightarrow>
      obj_leads t (seq (if at_original t current then ret () else restore_write ports current) (restore_verified ports)) (licensed_from t)" for current
    by (rule obj_seq, cases "at_original t current") (auto intro!: obj_ret verify intro: obj_weaken [OF writes])
  then show ?thesis using C_restore
    by (auto simp: restore_license_def restore_body_def intro!: obj_atStage obj_seq obj_via obj_bnd obj_identified obj_own obj_requireProof obj_record)
qed (auto simp: begin_transaction_def intro!: obj_record obj_unchanged)

lemma calls_licensed: "licensed_from t (fst (license_runs ports cs (t, w)))"
proof (induction cs arbitrary: t w)
  case (Cons c cs)
  obtain r t' w' where c: "license_run ports c (t, w) = (r, (t', w'))" by (metis surj_pair)
  then have "licensed_from t t'" by (rule obj_leadsD [OF call_licensed])
  with Cons.IH [of t' w'] c show ?case by (auto intro: licensed_from_trans)
qed simp

lemma receipt_steps_fixed: "receipt_steps r r' \<Longrightarrow>
  lcr_secretUid r' = lcr_secretUid r \<and> lcr_installationId r' = lcr_installationId r \<and> lcr_beforeRevision r' = lcr_beforeRevision r \<and>
  lcr_originalHash r' = lcr_originalHash r \<and> lcr_otherDataHash r' = lcr_otherDataHash r"
  by (induction rule: rtranclp_induct) (auto elim!: receipt_stepE)

lemma receipt_steps_restored: "receipt_steps r r' \<Longrightarrow> lcr_state r = L_restored \<Longrightarrow> r' = r"
  by (induction rule: converse_rtranclp_induct) (auto elim!: receipt_stepE)

text \<open>
  C30: Whatever calls are made and whatever the ports answer, the receipt of a license transaction moves only by the steps
  of its protocol, keeps the identity it was opened for, and a restored receipt never changes again.
\<close>

theorem license_receipt_protocol:
  assumes "license_runs ports cs (t, w) = (t', w')"
  shows "receipt_steps (lt_receipt t) (lt_receipt t') \<and> lt_original t' = lt_original t \<and>
    lcr_secretUid (lt_receipt t') = lcr_secretUid (lt_receipt t) \<and> lcr_originalHash (lt_receipt t') = lcr_originalHash (lt_receipt t) \<and>
    lcr_otherDataHash (lt_receipt t') = lcr_otherDataHash (lt_receipt t) \<and>
    (lcr_state (lt_receipt t) = L_restored \<longrightarrow> lt_receipt t' = lt_receipt t)"
  using calls_licensed [of t ports cs w] receipt_steps_fixed receipt_steps_restored assms
  by (auto simp: licensed_from_def)

subsection \<open>Writes\<close>

text \<open>A restoring write that a transaction may make: the original document over one it requested itself.\<close>

definition may_restore :: "'w license_ports \<Rightarrow> LicenseSnapshot \<Rightarrow> license_call list \<Rightarrow> LicenseSnapshot \<Rightarrow> string option \<Rightarrow> bool" where
  "may_restore ports original cs current document \<longleftrightarrow> same_identity ports original current \<and> document = ls_document original \<and>
     (case ls_document current of None \<Rightarrow> False | Some d \<Rightarrow> C_request d \<in> set cs)"

definition requests_known :: "LicenseSnapshot \<Rightarrow> license_call list \<Rightarrow> LicenseTransaction \<Rightarrow> bool" where
  "requests_known original cs t \<longleftrightarrow> lt_original t = original \<and> (\<forall>d. lt_selected t = Some d \<longrightarrow> C_request d \<in> set cs)"

definition kept :: "('w \<Rightarrow> bool) \<Rightarrow> LicenseSnapshot \<Rightarrow> license_call list \<Rightarrow> LicenseTransaction \<times> 'w \<Rightarrow> bool" where
  "kept I original cs = (\<lambda>(t, w). requests_known original cs t \<and> I w)"

lemma keeps_identified:
  assumes "keeps I (lp_state ports)" and "\<And>current. same_identity ports original current \<Longrightarrow> keeps (kept I original cs) (f current)"
  shows "keeps (kept I original cs) (bnd (identified ports) f)"
  unfolding keeps_def
proof (intro allI impI)
  fix s assume s: "kept I original cs s"
  obtain t w where [simp]: "s = (t, w)" by (cases s)
  obtain r w' where st: "lp_state ports w = (r, w')" by (cases "lp_state ports w")
  have "I w'" using s assms(1) st by (auto simp: kept_def keeps_def)
  then have k: "kept I original cs (t, w')" using s by (simp add: kept_def)
  show "kept I original cs (snd (bnd (identified ports) f s))"
  proof (cases r)
    case (Inr current)
    show ?thesis
    proof (cases "same_identity ports (lt_original t) current")
      case True
      then have "same_identity ports original current" using k by (simp add: kept_def requests_known_def)
      from assms(2) [OF this] k have "kept I original cs (snd (f current (t, w')))" by (rule keepsD)
      then show ?thesis using st Inr True by (simp add: identified_def bnd_def seq_def requireProof_def ret_def)
    qed (use st Inr k in \<open>simp add: identified_def bnd_def seq_def requireProof_def throw_def\<close>)
  qed (use st k in \<open>simp add: identified_def bnd_def\<close>)
qed

lemma kept_known: "kept I original cs (t, w) \<Longrightarrow> requests_known original cs t"
  by (simp add: kept_def)

lemma keeps_license_via: "keeps I m \<Longrightarrow> keeps (kept I original cs) (via m)"
  by (rule keeps_via) (auto simp: kept_def keeps_def)

lemma keeps_put_receipt: "keeps (kept I original cs) (put_receipt f)"
  unfolding put_receipt_def by (rule keeps_assign) (simp add: kept_def requests_known_def)

lemma keeps_license_call:
  assumes ports: "keeps I (lp_state ports)" "keeps I (lp_guard ports)" "\<And>r. keeps I (lp_record ports r)"
    and restores: "\<And>current document. may_restore ports original cs current document \<Longrightarrow> keeps I (lp_restore ports current document)"
    and call: "c \<in> set cs"
  shows "keeps (kept I original cs) (license_run ports c)"
proof -
  let ?K = "keeps (kept I original cs)"
  have via: "?K (via (lp_guard ports))" "\<And>r. ?K (via (lp_record ports r))" using ports(2,3) by (auto intro: keeps_license_via)
  have rec: "?K (record_receipt ports)" unfolding record_receipt_def by (intro keeps_own via)
  have un: "?K (unchanged ports)" unfolding unchanged_def
    by (intro keeps_identified ports(1) keeps_own keeps_requireProof)
  have writes: "?K (restore_write ports current)" if same: "same_identity ports original current" for current
    unfolding restore_write_def
  proof (intro keeps_own keeps_checked keeps_seq keeps_put_receipt rec via)
    fix t w assume "kept I original cs (t, w)" "restorable t current"
    then have "may_restore ports original cs current (ls_document (lt_original t))" using same
      by (auto simp: may_restore_def restorable_def kept_def requests_known_def)
    from restores [OF this] show "?K (via (lp_restore ports current (ls_document (lt_original t))))" by (rule keeps_license_via)
  qed
  have verify: "?K (restore_verified ports)" unfolding restore_verified_def
    by (intro keeps_identified ports(1) keeps_own keeps_checked keeps_seq keeps_put_receipt rec)
  have restore: "?K (restore_license ports)" unfolding restore_license_def restore_body_def
    by (intro keeps_atStage keeps_seq via keeps_identified ports(1) keeps_own keeps_if keeps_requireProof rec keeps_basic writes verify)
  show ?thesis
  proof (cases c)
    case (C_request d)
    then have "?K (assign (\<lambda>t. t\<lparr>lt_selected := Some d\<rparr>))" using call
      by (intro keeps_assign) (auto simp: kept_def requests_known_def)
    then show ?thesis using C_request
      by (simp add: request_license_def) (intro keeps_own keeps_checked keeps_seq un via keeps_put_receipt rec; assumption?)
  next
    case C_forwarded
    then show ?thesis by (simp add: forwarded_def) (intro keeps_own keeps_checked keeps_seq un keeps_put_receipt rec)
  next
    case (C_acknowledge v)
    then show ?thesis
      by (auto simp: acknowledge_def intro!: keeps_identified ports(1) keeps_own keeps_checked keeps_seq keeps_put_receipt rec)
  qed (simp_all add: begin_transaction_def rec un restore)
qed

lemma keeps_license_runs:
  assumes "\<And>c. c \<in> set cs \<Longrightarrow> keeps J (license_run ports c)" and "J s"
  shows "J (license_runs ports cs s)"
  using assms
proof (induction cs arbitrary: s)
  case (Cons c cs)
  then have "J (snd (license_run ports c s))" by (auto dest: keepsD)
  then show ?case using Cons by simp
qed simp

text \<open>
  C31: Whatever calls are made and whatever the license API answers, every restoring write puts the original document
  back over a snapshot of the same Secret, installation and other data whose document the transaction itself requested:
  a predicate of the world that the reads, the guard, the receipts and such writes keep is kept by the transaction.
\<close>

theorem license_write_is_guarded:
  assumes "keeps I (lp_state ports)" and "keeps I (lp_guard ports)" and "\<And>r. keeps I (lp_record ports r)"
    and "\<And>current document. may_restore ports original cs current document \<Longrightarrow> keeps I (lp_restore ports current document)"
    and "I w"
  shows "I (snd (license_runs ports cs (newLicenseTransaction ports original, w)))"
proof -
  have "kept I original cs (license_runs ports cs (newLicenseTransaction ports original, w))"
    by (rule keeps_license_runs [OF keeps_license_call [OF assms(1-4)]])
      (simp_all add: kept_def requests_known_def newLicenseTransaction_def assms(5))
  then show ?thesis by (simp add: kept_def split: prod.splits)
qed

subsection \<open>Restoration\<close>

text \<open>
  When \<open>restore\<close> returns, a snapshot of the same Secret, installation and other data with exactly the original document
  was observed, and the receipt is restored at the revision of that snapshot.
\<close>

theorem license_restore_verified:
  assumes "restore_license ports (t, w) = (Inr x, (t', w'))"
  shows "lcr_state (lt_receipt t') = L_restored \<and> lt_original t' = lt_original t \<and>
    (\<exists>w1 w2 snapshot. lp_state ports w1 = (Inr snapshot, w2) \<and> same_identity ports (lt_original t) snapshot \<and>
       ls_document snapshot = ls_document (lt_original t) \<and> lcr_restoredRevision (lt_receipt t') = Some (ls_revision snapshot))"
proof -
  have original: "lt_original t' = lt_original t"
    using obj_leadsD [OF call_licensed [of t ports C_restore], of w] assms by (simp add: licensed_from_def)
  have written: "restore_write ports current (u, v) = (Inr y, (u', v')) \<Longrightarrow> lt_original u' = lt_original u" for current u v y u' v'
    by (drule obj_leadsD [OF obj_restore_write [where P = "\<lambda>u'. lt_original u' = lt_original u"], rotated -1]) simp_all
  have verified: "restore_verified ports (u, v) = (Inr y, (t', w')) \<Longrightarrow> lt_original u = lt_original t \<Longrightarrow>
      lcr_state (lt_receipt t') = L_restored \<and> (\<exists>w1 w2 snapshot. lp_state ports w1 = (Inr snapshot, w2) \<and>
        same_identity ports (lt_original t) snapshot \<and> ls_document snapshot = ls_document (lt_original t) \<and>
        lcr_restoredRevision (lt_receipt t') = Some (ls_revision snapshot))" for u v y
    by (auto simp: restore_verified_def identified_def put_receipt_def record_receipt_def ok_iffs simp del: via_run) metis
  from assms obtain w1 w2 current where state: "lp_state ports w1 = (Inr current, w2)" and same: "same_identity ports (lt_original t) current"
    and rest: "(if lcr_state (lt_receipt t) = L_restored
       then seq (requireProof (ls_document current = ls_document (lt_original t) \<and>
           Some (ls_revision current) = lcr_restoredRevision (lt_receipt t)) R_CONFLICT) (record_receipt ports)
       else seq (if at_original t current then ret () else restore_write ports current) (restore_verified ports)) (t, w2) = (Inr x, (t', w'))"
    by (auto simp: restore_license_def restore_body_def identified_def ok_iffs simp del: via_run cong: if_cong)
  show ?thesis
  proof (cases "lcr_state (lt_receipt t) = L_restored")
    case True
    then have "t' = t" "ls_document current = ls_document (lt_original t)" "Some (ls_revision current) = lcr_restoredRevision (lt_receipt t)"
      using rest by (auto simp: record_receipt_def ok_iffs)
    then show ?thesis using True state same by metis
  next
    case False
    then obtain y u v where "restore_verified ports (u, v) = (Inr y, (t', w'))" "lt_original u = lt_original t"
      using rest written by (auto simp: ok_iffs split: if_splits)
    from verified [OF this] original show ?thesis by simp
  qed
qed

text \<open>A license API that answers: reads and receipts keep its snapshot, and a restoring write replaces the document.\<close>

definition serves_license :: "'w license_ports \<Rightarrow> ('w \<Rightarrow> LicenseSnapshot) \<Rightarrow> bool" where
  "serves_license ports view \<longleftrightarrow> (\<forall>w. lp_state ports w = (Inr (view w), w)) \<and> (\<forall>w. lp_guard ports w = (Inr (), w)) \<and>
     (\<forall>r w. \<exists>w'. lp_record ports r w = (Inr (), w') \<and> view w' = view w) \<and>
     (\<forall>c d w. \<exists>w' v. lp_restore ports c d w = (Inr (), w') \<and> view w' = (view w)\<lparr>ls_document := d, ls_revision := v\<rparr>)"

lemma served_identified:
  assumes "serves_license ports view" and "same_identity ports (lt_original t) (view w)"
  shows "identified ports (t, w) = (Inr (view w), (t, w))"
  using assms by (simp add: serves_license_def identified_def bnd_def seq_def requireProof_def ret_def)

lemma served_verified:
  assumes S: "serves_license ports view" and "same_identity ports (lt_original t) (view w)" and "ls_document (view w) = ls_document (lt_original t)"
  shows "\<exists>t' w'. restore_verified ports (t, w) = (Inr (), (t', w')) \<and> lcr_state (lt_receipt t') = L_restored \<and> view w' = view w"
proof -
  let ?r = "(lt_receipt t)\<lparr>lcr_restoredRevision := Some (ls_revision (view w)), lcr_state := L_restored\<rparr>"
  obtain w' where "lp_record ports ?r w = (Inr (), w')" "view w' = view w" using S unfolding serves_license_def by blast
  then show ?thesis using served_identified [OF assms(1,2)] assms(3)
    by (simp add: restore_verified_def put_receipt_def record_receipt_def bnd_def seq_def requireProof_def ret_def)
qed

lemma served_write:
  assumes S: "serves_license ports view" and "restorable t (view w)"
  shows "\<exists>t' w' v. restore_write ports (view w) (t, w) = (Inr (), (t', w')) \<and> lt_original t' = lt_original t \<and>
    view w' = (view w)\<lparr>ls_document := ls_document (lt_original t), ls_revision := v\<rparr>"
proof -
  let ?r = "(lt_receipt t)\<lparr>lcr_appliedRevision := Some (ls_revision (view w)), lcr_state := L_restoring\<rparr>"
  obtain w1 where rec: "lp_record ports ?r w = (Inr (), w1)" "view w1 = view w" using S unfolding serves_license_def by blast
  have "lp_guard ports w1 = (Inr (), w1)" using S unfolding serves_license_def by blast
  moreover obtain w2 v where "lp_restore ports (view w) (ls_document (lt_original t)) w1 = (Inr (), w2)"
    "view w2 = (view w1)\<lparr>ls_document := ls_document (lt_original t), ls_revision := v\<rparr>" using S unfolding serves_license_def by blast
  ultimately show ?thesis using rec assms(2)
    by (intro exI [where x = "t\<lparr>lt_receipt := ?r\<rparr>"] exI [where x = w2] exI [where x = v]) (simp add: restore_write_def put_receipt_def record_receipt_def bnd_def seq_def requireProof_def ret_def)
qed

lemma same_identity_update [simp]: "same_identity ports original (s\<lparr>ls_document := d, ls_revision := v\<rparr>) = same_identity ports original s"
  by (simp add: same_identity_def other_text_def)


subsection \<open>A concrete license API\<close>

text \<open>The world is the snapshot of the server and the restoring writes it saw; a write advances the revision.\<close>

type_synonym office = "LicenseSnapshot \<times> (LicenseSnapshot \<times> string option) list"

definition office_ports :: "office license_ports" where
  "office_ports = \<lparr>lp_state = gets fst, lp_guard = ret (),
     lp_restore = (\<lambda>current document. modify (\<lambda>(s, log). (s\<lparr>ls_document := document, ls_revision := ls_revision s @ ''+''\<rparr>, log @ [(current, document)]))),
     lp_record = (\<lambda>_. ret ()), lp_digest = (\<lambda>s. s), lp_compare = (\<lambda>_ _. 0)\<rparr>"

definition office_snapshot :: LicenseSnapshot where
  "office_snapshot = \<lparr>ls_uid = ''u1'', ls_revision = ''1'', ls_installationId = ''i1'', ls_document = None, ls_otherData = [(''installationId'', ''aTE='')]\<rparr>"

abbreviation office_new :: LicenseTransaction where
  "office_new \<equiv> newLicenseTransaction office_ports office_snapshot"

text \<open>The transaction after the candidate was forwarded, and a server on which it was stored.\<close>

definition office_forwarded :: LicenseTransaction where
  "office_forwarded = fst (license_runs office_ports [C_begin, C_request ''doc'', C_forwarded] (office_new, (office_snapshot, [])))"

definition office_applied :: office where
  "office_applied = (office_snapshot\<lparr>ls_document := Some ''doc'', ls_revision := ''2''\<rparr>, [])"

lemma office_serves: "serves_license office_ports fst"
  by (auto simp: serves_license_def office_ports_def gets_def ret_def modify_def)

theorem license_receipt_protocol_witness:
  "receipt_steps (lt_receipt office_new) (lt_receipt office_forwarded) \<and> lt_receipt office_forwarded \<noteq> lt_receipt office_new"
proof -
  have "license_runs office_ports [C_begin, C_request ''doc'', C_forwarded] (office_new, (office_snapshot, [])) = (office_forwarded, (office_snapshot, []))"
    "lt_receipt office_forwarded \<noteq> lt_receipt office_new" by code_simp+
  with license_receipt_protocol [OF this(1)] show ?thesis by simp
qed

definition guarded_log :: "license_call list \<Rightarrow> office \<Rightarrow> bool" where
  "guarded_log cs w \<longleftrightarrow> list_all (\<lambda>(current, document). may_restore office_ports office_snapshot cs current document) (snd w)"

theorem license_write_is_guarded_witness:
  "guarded_log [C_request ''doc'', C_forwarded, C_restore]
     (snd (license_runs office_ports [C_request ''doc'', C_forwarded, C_restore] (office_new, (office_snapshot, []))))"
  by (rule license_write_is_guarded) (auto simp: keeps_def guarded_log_def office_ports_def act_simps)

theorem license_restore_verified_witness:
  "\<exists>t' w'. restore_license office_ports (office_forwarded, office_applied) = (Inr (), (t', w')) \<and> lcr_state (lt_receipt t') = L_restored"
proof -
  obtain t' w' where run: "restore_license office_ports (office_forwarded, office_applied) = (Inr (), (t', w'))"
  proof -
    have "fst (restore_license office_ports (office_forwarded, office_applied)) = Inr ()" by code_simp
    then show ?thesis using that by (metis prod.collapse)
  qed
  with license_restore_verified [OF run] show ?thesis by blast
qed


end
