(* ===== verification/Borrowed_Module.thy ===== *)
theory Borrowed_Module
  imports Borrowing
begin

text \<open>
  One pre-created optional module that a run changes and gives back (\<open>regression/core/borrowed-module.ts\<close>). Objects are
  the parsed JSON of the API. The ports (reads and writes of the module, the lease guard, the receipt file and the
  clock of \<open>poll\<close>) are parameters; the state of an action is the \<open>BorrowedModule\<close> beside the world of its ports. The
  local variable \<open>acknowledged\<close> of a running change is a field of the object, as the closure \<open>acknowledge\<close> assigns it.
\<close>

subsection \<open>Data\<close>

record 'w module_ports =
  mp_read :: "('w, js_error, jsval) act"
  mp_set :: "bool \<Rightarrow> jsval obj \<Rightarrow> ('w, js_error, unit) act"
  mp_guard :: "('w, js_error, unit) act"
  mp_write :: "jsval \<Rightarrow> ('w, js_error, unit) act"
  mp_receipt :: "('w, js_error, jsval) act"
  mp_clock :: "'w poll_env"
  mp_compare :: "string \<Rightarrow> string \<Rightarrow> int"

record BorrowedModule =
  bm_original :: jsval
  bm_applied :: "jsval option"
  bm_restored :: "jsval option"
  bm_unresolved :: bool
  bm_acknowledged :: bool

type_synonym ('w, 'a) module_act = "(BorrowedModule, 'w, 'a) obj_act"

definition module_ok :: "jsval \<Rightarrow> bool" where
  "module_ok original \<longleftrightarrow> truthy_opt (object_uid original) \<and> truthy_opt (object_generation original) \<and>
     (case jat (object_spec original) [''enabled''] of Some (JBool b) \<Rightarrow> True | _ \<Rightarrow> False) \<and>
     parameters_ok (jat (object_spec original) [''parameters''])"

definition newBorrowedModule :: "jsval \<Rightarrow> BorrowedModule result" where
  "newBorrowedModule original = safely (module_ok original) R_PREREQUISITE
     (Inr \<lparr>bm_original = original, bm_applied = None, bm_restored = None, bm_unresolved = False, bm_acknowledged = False\<rparr>)"

subsection \<open>Receipts\<close>

definition module_states :: "string list" where
  "module_states = [''requested'', ''ambiguous'', ''applied'', ''unchanged'', ''restored'']"

definition module_receipt :: "BorrowedModule \<Rightarrow> string \<Rightarrow> jsval" where
  "module_receipt b state = JObj ([(''version'', JInt 1), (''original'', bm_original b)] @ field ''applied'' (bm_applied b) @
     field ''restored'' (bm_restored b) @ [(''state'', JStr state)])"

text \<open>\<open>this.applied ? 'applied' : 'unchanged'\<close>\<close>

definition settled_state :: "BorrowedModule \<Rightarrow> string" where
  "settled_state b = (if bm_applied b \<noteq> None then ''applied'' else ''unchanged'')"

definition write_receipt :: "'w module_ports \<Rightarrow> (BorrowedModule \<Rightarrow> jsval) \<Rightarrow> ('w, unit) module_act" where
  "write_receipt ports receipt = bnd own (\<lambda>b. via (mp_write ports (receipt b)))"

text \<open>\<open>current >= original\<close> on generations; another kind of number does not pass \<open>Number.isSafeInteger\<close> before.\<close>

definition not_before :: "jsval option \<Rightarrow> jsval option \<Rightarrow> bool" where
  "not_before g h \<longleftrightarrow> (case (g, h) of (Some (JInt i), Some (JInt j)) \<Rightarrow> j \<le> i | _ \<Rightarrow> False)"

definition same_uid :: "jsval \<Rightarrow> jsval \<Rightarrow> bool" where
  "same_uid a b \<longleftrightarrow> strict_opt (object_uid a) (object_uid b)"

definition resumed_ok :: "jsval \<Rightarrow> jsval \<Rightarrow> bool" where
  "resumed_ok original ob \<longleftrightarrow> same_uid ob original \<and> isSafeInteger (object_generation ob) \<and>
     not_before (object_generation ob) (object_generation original)"

definition resume_module :: "'w module_ports \<Rightarrow> ('w, js_error, BorrowedModule) act" where
  "resume_module ports = bnd (mp_receipt ports) (\<lambda>v. seq (if v = JNull then throw (Other ''TypeError'') else ret ())
    (seq (requireSafe (jget v ''version'' = Some (JInt 1) \<and> one_of module_states (jget v ''state'')) R_OWNERSHIP) (bnd (lift_result (newBorrowedModule (case jget v ''original'' of None \<Rightarrow> JNull | Some ob \<Rightarrow> ob))) (\<lambda>b.
     bnd (lift_result (when_truthy (jget v ''applied'') (\<lambda>a. safely (resumed_ok (bm_original b) (the a) \<and> truthy_opt (object_spec (the a))) R_OWNERSHIP (Inr (the a))))) (\<lambda>applied.
     bnd (lift_result (when_truthy (jget v ''restored'') (\<lambda>r. safely (resumed_ok (bm_original b) (the r) \<and>
        spec_text (mp_compare ports) (the r) = spec_text (mp_compare ports) (bm_original b)) R_OWNERSHIP (Inr (the r))))) (\<lambda>restored.
     ret (b\<lparr>bm_applied := applied, bm_restored := restored, bm_unresolved := one_of [''requested'', ''ambiguous''] (jget v ''state'')\<rparr>)))))))"

subsection \<open>Operations\<close>

text \<open>\<open>this.applied ?? this.restored ?? this.original\<close>\<close>

definition expected_object :: "BorrowedModule \<Rightarrow> jsval" where
  "expected_object b = (case bm_applied b of Some a \<Rightarrow> a | None \<Rightarrow> (case bm_restored b of Some r \<Rightarrow> r | None \<Rightarrow> bm_original b))"

definition same_object :: "'w module_ports \<Rightarrow> jsval \<Rightarrow> jsval \<Rightarrow> bool" where
  "same_object ports current expected \<longleftrightarrow> same_uid current expected \<and>
     strict_opt (object_generation current) (object_generation expected) \<and>
     spec_text (mp_compare ports) current = spec_text (mp_compare ports) expected"

definition current_module :: "'w module_ports \<Rightarrow> ('w, jsval) module_act" where
  "current_module ports = seq (via (mp_guard ports)) (bnd (via (mp_read ports)) (\<lambda>current. bnd own (\<lambda>b.
     seq (requireSafe (same_object ports current (expected_object b)) R_CONFLICT) (ret current))))"

definition reconcileUnchanged :: "'w module_ports \<Rightarrow> ('w, unit) module_act" where
  "reconcileUnchanged ports = bnd (current_module ports) (\<lambda>_. bnd own (\<lambda>b.
     if bm_unresolved b
     then seq (assign (\<lambda>b. b\<lparr>bm_unresolved := False\<rparr>))
       (write_receipt ports (\<lambda>b. module_receipt (b\<lparr>bm_restored := None\<rparr>) (settled_state b)))
     else ret ()))"

text \<open>\<open>{...spec, enabled, parameters}\<close>: an empty request keeps an absent parameter map absent.\<close>

definition expected_spec :: "jsval option \<Rightarrow> bool \<Rightarrow> jsval obj \<Rightarrow> jsval obj" where
  "expected_spec spec enabled parameters =
     (let based = oset ''enabled'' (JBool enabled) (object_fields spec)
      in if jat spec [''parameters''] \<noteq> None \<or> parameters \<noteq> [] then oset ''parameters'' (JObj parameters) based else based)"

definition merged_spec :: "jsval option \<Rightarrow> bool \<Rightarrow> jsval obj \<Rightarrow> jsval obj" where
  "merged_spec spec enabled parameters =
     oset ''parameters'' (JObj (oassign (object_fields (jat spec [''parameters''])) parameters)) (expected_spec spec enabled parameters)"

definition requested_specs :: "'w module_ports \<Rightarrow> jsval \<Rightarrow> bool \<Rightarrow> jsval obj \<Rightarrow> string list" where
  "requested_specs ports before enabled parameters =
     [canonical_text (mp_compare ports) (JObj (expected_spec (object_spec before) enabled parameters)),
      canonical_text (mp_compare ports) (JObj (merged_spec (object_spec before) enabled parameters))]"

definition adopted_change :: "'w module_ports \<Rightarrow> jsval \<Rightarrow> bool \<Rightarrow> jsval obj \<Rightarrow> jsval \<Rightarrow> bool" where
  "adopted_change ports before enabled parameters current \<longleftrightarrow>
     strict_opt (object_generation current) (next_generation (object_generation before)) \<and>
     (case spec_text (mp_compare ports) current of None \<Rightarrow> False | Some s \<Rightarrow> s \<in> set (requested_specs ports before enabled parameters))"

definition acknowledge_change :: "'w module_ports \<Rightarrow> jsval \<Rightarrow> bool \<Rightarrow> jsval obj \<Rightarrow> ('w, unit) module_act" where
  "acknowledge_change ports before enabled parameters =
     seq (via (mp_guard ports)) (bnd (via (mp_read ports)) (\<lambda>current.
     seq (requireSafe (same_uid current before) R_CONFLICT)
    (seq (if spec_text (mp_compare ports) current \<noteq> spec_text (mp_compare ports) before
          then seq (requireSafe (adopted_change ports before enabled parameters current) R_CONFLICT) (assign (\<lambda>b. b\<lparr>bm_applied := Some current\<rparr>))
          else requireSafe (strict_opt (object_generation current) (object_generation before)) R_CONFLICT)
    (seq (write_receipt ports (\<lambda>b. module_receipt b (settled_state b)))
      (assign (\<lambda>b. b\<lparr>bm_unresolved := False, bm_acknowledged := True\<rparr>))))))"

text \<open>An error that proves that nothing was written.\<close>

definition proven_no_write :: "js_error \<Rightarrow> bool" where
  "proven_no_write e \<longleftrightarrow> (case e of Other m \<Rightarrow> False | Harness h \<Rightarrow> (case he_class h of
     MutationNotSubmitted \<Rightarrow> True | AdministrationRejected status \<Rightarrow> status \<in> {400, 403, 409, 422} | _ \<Rightarrow> False))"

text \<open>The action of a change: the write itself, or a callback that is given \<open>acknowledge\<close>.\<close>

type_synonym 'w module_action = "('w, unit) module_act \<Rightarrow> ('w, unit) module_act"

definition submitted :: "'w module_ports \<Rightarrow> jsval \<Rightarrow> bool \<Rightarrow> jsval obj \<Rightarrow> 'w module_action option \<Rightarrow> ('w, unit) module_act" where
  "submitted ports before enabled parameters action =
     seq (case action of None \<Rightarrow> via (mp_set ports enabled parameters) | Some f \<Rightarrow> f (acknowledge_change ports before enabled parameters))
       (bnd own (\<lambda>b. if bm_acknowledged b then ret () else acknowledge_change ports before enabled parameters))"

definition rejected_change :: "'w module_ports \<Rightarrow> js_error \<Rightarrow> ('w, unit) module_act" where
  "rejected_change ports e =
     (if proven_no_write e
      then seq (bnd (current_module ports) (\<lambda>_. ret ())) (seq (assign (\<lambda>b. b\<lparr>bm_unresolved := False, bm_acknowledged := True\<rparr>))
        (seq (write_receipt ports (\<lambda>b. module_receipt b (settled_state b))) (throw e)))
      else throw e)"

text \<open>\<open>try { m } finally { if (!acknowledged) await writePrivate(\<dots>) }\<close>: an error of the write replaces the outcome.\<close>

definition finally_ambiguous :: "'w module_ports \<Rightarrow> ('w, unit) module_act \<Rightarrow> ('w, unit) module_act" where
  "finally_ambiguous ports m = (\<lambda>s. case m s of (r, t) \<Rightarrow>
     (case (bnd own (\<lambda>b. if bm_acknowledged b then ret () else write_receipt ports (\<lambda>b. module_receipt b ''ambiguous''))) t of
        (Inl e, u) \<Rightarrow> (Inl e, u) | (Inr _, u) \<Rightarrow> (r, u)))"

definition change_module :: "'w module_ports \<Rightarrow> bool \<Rightarrow> jsval obj \<Rightarrow> 'w module_action option \<Rightarrow> ('w, unit) module_act" where
  "change_module ports enabled parameters action = bnd (current_module ports) (\<lambda>before.
     seq (assign (\<lambda>b. b\<lparr>bm_unresolved := True\<rparr>)) (seq (write_receipt ports (\<lambda>b. module_receipt b ''requested''))
    (seq (assign (\<lambda>b. b\<lparr>bm_acknowledged := False\<rparr>))
      (finally_ambiguous ports (catch (submitted ports before enabled parameters action) (rejected_change ports))))))"

definition give_back :: "'w module_ports \<Rightarrow> jsval \<Rightarrow> ('w, unit) module_act" where
  "give_back ports ob = seq (assign (\<lambda>b. b\<lparr>bm_applied := None, bm_restored := Some ob\<rparr>)) (write_receipt ports (\<lambda>b. module_receipt b ''restored''))"

definition original_enabled :: "BorrowedModule \<Rightarrow> bool" where
  "original_enabled b \<longleftrightarrow> jat (object_spec (bm_original b)) [''enabled''] = Some (JBool True)"

definition restored_by :: "'w module_ports \<Rightarrow> BorrowedModule \<Rightarrow> jsval \<Rightarrow> jsval \<Rightarrow> bool" where
  "restored_by ports b current item \<longleftrightarrow> same_uid item current \<and>
     strict_opt (object_generation item) (next_generation (object_generation current)) \<and>
     spec_text (mp_compare ports) item = spec_text (mp_compare ports) (bm_original b)"

definition restore_module :: "'w module_ports \<Rightarrow> ('w, unit) module_act" where
  "restore_module ports = bnd own (\<lambda>b. seq (requireSafe (\<not> bm_unresolved b) R_CLEANUP)
    (if bm_applied b = None
     then bnd (current_module ports) (\<lambda>_. write_receipt ports (\<lambda>b. module_receipt b ''restored''))
     else bnd (current_module ports) (\<lambda>current.
       if spec_text (mp_compare ports) current = spec_text (mp_compare ports) (bm_original b) then give_back ports current
       else seq (via (mp_set ports (original_enabled b) (object_fields (jat (object_spec (bm_original b)) [''parameters'']))))
         (bnd (via (poll_act (mp_clock ports) (seq (mp_guard ports) (mp_read ports)) (restored_by ports b current) 30000 500 (Some S_cleanup))) (\<lambda>restored.
          seq (requireSafe (same_uid restored (bm_original b) \<and>
              spec_text (mp_compare ports) restored = spec_text (mp_compare ports) (bm_original b)) R_CLEANUP)
            (give_back ports restored))))))"

subsection \<open>What a change adopts\<close>

abbreviation read_by :: "'w module_ports \<Rightarrow> jsval \<Rightarrow> bool" where
  "read_by ports \<equiv> returns (mp_read ports)"

text \<open>The object of a change: it remembers what it did, or an object that was read and that its own request explains.\<close>

definition adopted_from :: "'w module_ports \<Rightarrow> jsval \<Rightarrow> bool \<Rightarrow> jsval obj \<Rightarrow> BorrowedModule \<Rightarrow> BorrowedModule \<Rightarrow> bool" where
  "adopted_from ports before enabled parameters b b' \<longleftrightarrow> bm_original b' = bm_original b \<and> bm_restored b' = bm_restored b \<and>
     (bm_applied b' = bm_applied b \<or>
      (\<exists>current. bm_applied b' = Some current \<and> read_by ports current \<and> same_uid current before \<and>
         adopted_change ports before enabled parameters current))"

interpretation adopting: object_contract "adopted_from ports before enabled parameters" for ports before enabled parameters
  by unfold_locales (auto simp: adopted_from_def)

lemma adopts_receipt: "moves (adopted_from ports before enabled parameters) (write_receipt ports f)"
  unfolding write_receipt_def by (intro adopting.moves_rules)

lemma adopts_current: "moves (adopted_from ports before enabled parameters) (current_module ports)"
  unfolding current_module_def by (intro adopting.moves_rules)

lemma adopts_acknowledge: "moves (adopted_from ports before enabled parameters) (acknowledge_change ports before enabled parameters)"
proof -
  have adopt: "moves (adopted_from ports before enabled parameters) (assign (\<lambda>b. b\<lparr>bm_applied := Some current\<rparr>))"
    if "mp_read ports w = (Inr current, w')" "same_uid current before" "adopted_change ports before enabled parameters current" for current w w'
    using that by (intro adopting.moves_assign) (auto simp: adopted_from_def intro: returnsI)
  have settle: "moves (adopted_from ports before enabled parameters) (assign (\<lambda>b. b\<lparr>bm_unresolved := False, bm_acknowledged := True\<rparr>))"
    by (intro adopting.moves_assign) (simp add: adopted_from_def)
  show ?thesis unfolding acknowledge_change_def
    by (rule adopting.moves_seq [OF adopting.moves_steps(3)], rule adopting.moves_read, rule adopting.moves_checked,
        rule adopting.moves_seq [OF adopting.moves_if adopting.moves_seq [OF adopts_receipt settle]])
      (auto intro!: adopting.moves_checked adopt adopting.moves_steps)
qed

text \<open>A callback reaches the object only through the \<open>acknowledge\<close> it is given.\<close>

definition transparent :: "'w module_action \<Rightarrow> bool" where
  "transparent f \<longleftrightarrow> (\<forall>R ack. reflp R \<longrightarrow> transp R \<longrightarrow> moves R ack \<longrightarrow> moves R (f ack))"

definition action_ok :: "'w module_action option \<Rightarrow> bool" where
  "action_ok action \<longleftrightarrow> (case action of None \<Rightarrow> True | Some f \<Rightarrow> transparent f)"

lemma adopts_submitted: "action_ok action \<Longrightarrow> moves (adopted_from ports before enabled parameters) (submitted ports before enabled parameters action)"
proof -
  assume ok: "action_ok action"
  have "reflp (adopted_from ports before enabled parameters)" "transp (adopted_from ports before enabled parameters)"
    using adopting.contract_refl adopting.contract_trans by (auto intro!: reflpI transpI) blast
  then have "moves (adopted_from ports before enabled parameters) (f (acknowledge_change ports before enabled parameters))" if "action = Some f" for f
    using ok that adopts_acknowledge [of ports before enabled parameters] unfolding action_ok_def transparent_def by simp
  then show ?thesis unfolding submitted_def
    by (intro adopting.moves_seq adopting.moves_own adopting.moves_if adopting.moves_steps adopts_acknowledge)
      (cases action; simp add: adopting.moves_steps)
qed

lemma adopts_rejected: "moves (adopted_from ports before enabled parameters) (rejected_change ports e)"
  unfolding rejected_change_def
  by (intro adopting.moves_if adopting.moves_seq adopting.moves_bnd adopts_current adopts_receipt adopting.moves_assign adopting.moves_steps)
    (simp add: adopted_from_def)

lemma adopts_finally: "moves (adopted_from ports before enabled parameters) m \<Longrightarrow> moves (adopted_from ports before enabled parameters) (finally_ambiguous ports m)"
proof -
  let ?f = "bnd own (\<lambda>b. if bm_acknowledged b then ret () else write_receipt ports (\<lambda>b. module_receipt b ''ambiguous''))"
  assume m: "moves (adopted_from ports before enabled parameters) m"
  have f: "moves (adopted_from ports before enabled parameters) ?f" by (intro adopting.moves_own adopting.moves_if adopting.moves_steps adopts_receipt)
  show ?thesis
    unfolding moves_def obj_leads_def
  proof (intro allI)
    fix t w
    obtain r u v where m1: "m (t, w) = (r, (u, v))" by (metis surj_pair)
    obtain r' u' v' where f1: "?f (u, v) = (r', (u', v'))" by (metis surj_pair)
    from movesD [OF m m1] movesD [OF f f1] have "adopted_from ports before enabled parameters t u'" by (rule adopting.contract_trans)
    then show "adopted_from ports before enabled parameters t (fst (snd (finally_ambiguous ports m (t, w))))"
      using m1 f1 by (simp add: finally_ambiguous_def split: sum.split)
  qed
qed

text \<open>Between the two writes of a change it is unresolved exactly until it is acknowledged.\<close>

definition linked :: "BorrowedModule \<Rightarrow> bool" where
  "linked b \<longleftrightarrow> (bm_unresolved b \<longleftrightarrow> \<not> bm_acknowledged b)"

definition keeps_link :: "BorrowedModule \<Rightarrow> BorrowedModule \<Rightarrow> bool" where
  "keeps_link b b' \<longleftrightarrow> (linked b \<longrightarrow> linked b')"

interpretation linking: object_contract keeps_link
  by unfold_locales (auto simp: keeps_link_def)

lemma linked_receipt: "moves keeps_link (write_receipt ports f)"
  unfolding write_receipt_def by (intro linking.moves_rules)

lemma linked_assigns: "moves keeps_link (assign (\<lambda>b. b\<lparr>bm_unresolved := False, bm_acknowledged := True\<rparr>))"
  "moves keeps_link (assign (\<lambda>b. b\<lparr>bm_applied := a\<rparr>))"
  by (auto intro!: linking.moves_assign simp: keeps_link_def linked_def)

lemma linked_acknowledge: "moves keeps_link (acknowledge_change ports before enabled parameters)"
  unfolding acknowledge_change_def
  by (intro linking.moves_seq linking.moves_bnd linking.moves_if linking.moves_steps linked_assigns linked_receipt)

lemma linked_current: "moves keeps_link (current_module ports)"
  unfolding current_module_def by (intro linking.moves_rules)

lemma linked_submitted: "action_ok action \<Longrightarrow> moves keeps_link (submitted ports before enabled parameters action)"
proof -
  assume ok: "action_ok action"
  have "reflp keeps_link" "transp keeps_link" by (auto intro!: reflpI transpI simp: keeps_link_def)
  then have "moves keeps_link (f (acknowledge_change ports before enabled parameters))" if "action = Some f" for f
    using ok that linked_acknowledge [of ports before enabled parameters] unfolding action_ok_def transparent_def by simp
  then show ?thesis unfolding submitted_def
    by (intro linking.moves_seq linking.moves_own linking.moves_if linking.moves_steps linked_acknowledge)
      (cases action; simp add: linking.moves_steps)
qed

lemma acknowledged_after: "acknowledge_change ports before enabled parameters s = (Inr x, t) \<Longrightarrow> bm_acknowledged (fst t)"
  by (auto simp: acknowledge_change_def ok_iffs)

lemma submitted_acknowledged: "submitted ports before enabled parameters action s = (Inr x, t) \<Longrightarrow> bm_acknowledged (fst t)"
  by (auto simp: submitted_def ok_iffs split: if_splits dest: acknowledged_after)

lemma rejected_never_ok: "rejected_change ports e s \<noteq> (Inr x, t)"
  by (auto simp: rejected_change_def ok_iffs split: if_splits)

lemma finally_ok: "finally_ambiguous ports m s = (Inr x, t) \<Longrightarrow> \<exists>u. m s = (Inr x, u) \<and> fst t = fst u"
  by (auto simp: finally_ambiguous_def write_receipt_def act_simps own_def via_def split: prod.splits sum.splits if_splits)

subsection \<open>Restoration\<close>

text \<open>What the object remembers is the borrowed object, and what it restored has the original's spec.\<close>

definition module_inv :: "'w module_ports \<Rightarrow> BorrowedModule \<Rightarrow> bool" where
  "module_inv ports b \<longleftrightarrow>
     (case bm_applied b of None \<Rightarrow> True | Some a \<Rightarrow> same_uid a (bm_original b)) \<and>
     (case bm_restored b of None \<Rightarrow> True
      | Some r \<Rightarrow> same_uid r (bm_original b) \<and> spec_text (mp_compare ports) r = spec_text (mp_compare ports) (bm_original b))"

lemma same_uid_trans: "same_uid a b \<Longrightarrow> same_uid b c \<Longrightarrow> same_uid a c"
  unfolding same_uid_def by (rule strict_opt_trans)

lemma current_module_ok:
  assumes "current_module ports (b, w) = (Inr current, (b', w'))"
  shows "b' = b" "read_by ports current" "same_object ports current (expected_object b)"
  using assms by (auto simp: current_module_def ok_iffs simp del: via_run requireSafe_run intro: returnsI)

lemma give_back_ok: "give_back ports ob (b, w) = (Inr x, (b', w')) \<Longrightarrow> b' = b\<lparr>bm_applied := None, bm_restored := Some ob\<rparr>"
  by (auto simp: give_back_def write_receipt_def ok_iffs simp del: via_run)

text \<open>
  C27: Whatever the server answers and a callback does, a change adopts nothing but an object that it read back itself with
  the UID of the object before, the next generation, and a spec that is its own request; before, the module was read as
  last recorded. A change that returns is resolved; one that stays unresolved blocks \<open>restore\<close>, without any request.
\<close>

theorem module_change_adopts_own:
  assumes "action_ok action" and "change_module ports enabled parameters action (b, w) = (r, (b', w'))"
  shows "bm_original b' = bm_original b \<and>
    (bm_applied b' = bm_applied b \<or>
     (\<exists>before current. read_by ports before \<and> same_object ports before (expected_object b) \<and> read_by ports current \<and>
        bm_applied b' = Some current \<and> same_uid current before \<and> adopted_change ports before enabled parameters current)) \<and>
    (r = Inr () \<longrightarrow> \<not> bm_unresolved b') \<and>
    (bm_unresolved b' \<longrightarrow> restore_module ports (b', v) = (Inl (hard R_CLEANUP), (b', v)))"
proof -
  have blocked: "bm_unresolved b' \<longrightarrow> restore_module ports (b', v) = (Inl (hard R_CLEANUP), (b', v))"
    by (simp add: restore_module_def bnd_def seq_def)
  obtain r1 b1 w1 where c: "current_module ports (b, w) = (r1, (b1, w1))" by (metis surj_pair)
  show ?thesis
  proof (cases r1)
    case (Inl e)
    have "obj_leads b (current_module ports) (\<lambda>x. x = b)"
      unfolding current_module_def by (intro obj_own obj_seq obj_bnd obj_intros conjI allI refl)
    from obj_leadsD [OF this c] have "b1 = b" .
    then show ?thesis using assms(2) c Inl blocked by (auto simp: change_module_def bnd_def)
  next
    case (Inr before)
    note read = current_module_ok [OF c [unfolded Inr]]
    let ?A = "adopted_from ports before enabled parameters"
    let ?rest = "seq (assign (\<lambda>b. b\<lparr>bm_unresolved := True\<rparr>)) (seq (write_receipt ports (\<lambda>b. module_receipt b ''requested''))
      (seq (assign (\<lambda>b. b\<lparr>bm_acknowledged := False\<rparr>))
        (finally_ambiguous ports (catch (submitted ports before enabled parameters action) (rejected_change ports)))))"
    have run: "?rest (b, w1) = (r, (b', w'))" using assms(2) c Inr read(1) by (simp add: change_module_def bnd_def)
    have "moves ?A ?rest"
      by (intro adopting.moves_seq adopting.moves_assign adopts_receipt adopts_finally adopting.moves_catch adopts_submitted adopts_rejected assms(1))
        (simp_all add: adopted_from_def)
    from movesD [OF this run] have adopted: "?A b b'" .
    have "\<not> bm_unresolved b'" if ok: "r = Inr ()"
    proof -
      obtain b2 w2 s3 where sub: "submitted ports before enabled parameters action (b2, w2) = (Inr (), s3)" and linked: "linked b2" and last: "b' = fst s3"
        using run ok by (auto simp: ok_iffs rejected_never_ok linked_def write_receipt_def simp del: via_run dest!: finally_ok)
      obtain b3 w3 where s3: "s3 = (b3, w3)" by (cases s3)
      have "linked b3" using movesD [OF linked_submitted [OF assms(1)] sub [unfolded s3]] linked by (simp add: keeps_link_def)
      then show ?thesis using submitted_acknowledged [OF sub] s3 last by (simp add: linked_def)
    qed
    then show ?thesis using adopted read blocked by (auto simp: adopted_from_def)
  qed
qed

text \<open>
  C28: When \<open>restore\<close> returns, an object with the UID and the spec of the original was read, the change is given back, and
  what the object remembers is still consistent.
\<close>

theorem module_restore_sound:
  assumes "module_inv ports b" and "restore_module ports (b, w) = (Inr x, (b', w'))"
  shows "\<exists>ob. read_by ports ob \<and> same_uid ob (bm_original b) \<and> spec_text (mp_compare ports) ob = spec_text (mp_compare ports) (bm_original b) \<and>
    bm_applied b' = None \<and> bm_original b' = bm_original b \<and> module_inv ports b' \<and> \<not> bm_unresolved b"
proof -
  have resolved: "\<not> bm_unresolved b" using assms(2) by (auto simp: restore_module_def ok_iffs)
  show ?thesis
  proof (cases "bm_applied b")
    case None
    then obtain current b1 w1 where c: "current_module ports (b, w) = (Inr current, (b1, w1))" and
      written: "write_receipt ports (\<lambda>b. module_receipt b ''restored'') (b1, w1) = (Inr x, (b', w'))"
      using assms(2) by (auto simp: restore_module_def ok_iffs simp del: via_run requireSafe_run)
    note read = current_module_ok [OF c]
    have "b' = b" using written read(1) by (auto simp: write_receipt_def ok_iffs simp del: via_run)
    moreover have "same_uid current (bm_original b) \<and> spec_text (mp_compare ports) current = spec_text (mp_compare ports) (bm_original b)"
      using read(3) assms(1) None by (auto simp: same_object_def expected_object_def module_inv_def split: option.splits intro: same_uid_trans)
    ultimately show ?thesis using read(2) None resolved assms(1) by blast
  next
    case (Some a)
    then obtain current w1 where c: "current_module ports (b, w) = (Inr current, (b, w1))"
      and rest: "(if spec_text (mp_compare ports) current = spec_text (mp_compare ports) (bm_original b) then give_back ports current
       else seq (via (mp_set ports (original_enabled b) (object_fields (jat (object_spec (bm_original b)) [''parameters'']))))
         (bnd (via (poll_act (mp_clock ports) (seq (mp_guard ports) (mp_read ports)) (restored_by ports b current) 30000 500 (Some S_cleanup))) (\<lambda>restored.
          seq (requireSafe (same_uid restored (bm_original b) \<and>
              spec_text (mp_compare ports) restored = spec_text (mp_compare ports) (bm_original b)) R_CLEANUP)
            (give_back ports restored)))) (b, w1) = (Inr x, (b', w'))"
      using assms(2) current_module_ok(1) by (fastforce simp: restore_module_def ok_iffs simp del: via_run requireSafe_run)
    have "same_uid current (bm_original b)"
      using current_module_ok(3) [OF c] Some assms(1) by (auto simp: same_object_def expected_object_def module_inv_def intro: same_uid_trans)
    then obtain ob v where ob: "read_by ports ob" "same_uid ob (bm_original b)"
      "spec_text (mp_compare ports) ob = spec_text (mp_compare ports) (bm_original b)" and given: "give_back ports ob (b, v) = (Inr x, (b', w'))"
      using rest current_module_ok(2) [OF c]
      by (auto simp: ok_iffs returns_def simp del: via_run requireSafe_run split: if_splits dest!: poll_act_read) (blast+)
    from give_back_ok [OF given] ob resolved show ?thesis by (auto simp: module_inv_def)
  qed
qed

subsection \<open>A concrete module API\<close>

text \<open>The world is the module object and a clock; a write replaces its spec and advances its generation.\<close>

type_synonym shelf = "jsval \<times> nat"

definition shelf_object :: "int \<Rightarrow> bool \<Rightarrow> jsval" where
  "shelf_object generation enabled = JObj [(''metadata'', JObj [(''uid'', JStr ''u1''), (''generation'', JInt generation)]),
     (''spec'', JObj [(''enabled'', JBool enabled), (''parameters'', JObj [])])]"

fun shelf_set :: "bool \<Rightarrow> shelf \<Rightarrow> (js_error + unit) \<times> shelf" where
  "shelf_set enabled (ob, t) = (Inr (), (case object_generation ob of Some (JInt g) \<Rightarrow> shelf_object (g + 1) enabled | _ \<Rightarrow> ob, t))"

definition shelf_ports :: "shelf module_ports" where
  "shelf_ports = \<lparr>mp_read = gets fst, mp_set = (\<lambda>enabled _. shelf_set enabled), mp_guard = ret (), mp_write = (\<lambda>_. ret ()),
     mp_receipt = throw (Other ''ENOENT''),
     mp_clock = \<lparr>pe_now = (\<lambda>(ob, t). (t, (ob, t))), pe_wait = (\<lambda>n. modify (\<lambda>(ob, t). (ob, t + n))), pe_check = ret ()\<rparr>,
     mp_compare = (\<lambda>_ _. 0)\<rparr>"

definition shelf_module :: "jsval option \<Rightarrow> BorrowedModule" where
  "shelf_module a = \<lparr>bm_original = shelf_object 1 False, bm_applied = a, bm_restored = None, bm_unresolved = False, bm_acknowledged = True\<rparr>"

theorem module_change_adopts_own_witness:
  "\<exists>b' w'. change_module shelf_ports True [] None (shelf_module None, (shelf_object 1 False, 0)) = (Inr (), (b', w')) \<and>
     \<not> bm_unresolved b' \<and> bm_applied b' = Some (shelf_object 2 True)"
proof -
  have run: "change_module shelf_ports True [] None (shelf_module None, (shelf_object 1 False, 0)) =
      (Inr (), (shelf_module (Some (shelf_object 2 True)), (shelf_object 2 True, 0)))" by code_simp
  have "\<not> bm_unresolved (shelf_module (Some (shelf_object 2 True)))"
    using module_change_adopts_own [OF _ run] by (simp add: action_ok_def)
  with run show ?thesis by (auto simp: shelf_module_def)
qed

theorem module_restore_sound_witness:
  "\<exists>b' w'. restore_module shelf_ports (shelf_module (Some (shelf_object 2 True)), (shelf_object 2 True, 0)) = (Inr (), (b', w')) \<and>
     bm_applied b' = None \<and> fst w' = shelf_object 3 False"
proof -
  let ?b = "shelf_module (Some (shelf_object 2 True))"
  let ?run = "restore_module shelf_ports (?b, (shelf_object 2 True, 0))"
  have current: "current_module shelf_ports (?b, (shelf_object 2 True, 0)) = (Inr (shelf_object 2 True), (?b, (shelf_object 2 True, 0)))"
    and set: "mp_set shelf_ports (original_enabled ?b) (object_fields (jat (object_spec (bm_original ?b)) [''parameters''])) (shelf_object 2 True, 0) =
      (Inr (), (shelf_object 3 False, 0))"
    and moved: "spec_text (mp_compare shelf_ports) (shelf_object 2 True) \<noteq> spec_text (mp_compare shelf_ports) (bm_original ?b)"
    and found: "same_uid (shelf_object 3 False) (bm_original ?b) \<and>
      spec_text (mp_compare shelf_ports) (shelf_object 3 False) = spec_text (mp_compare shelf_ports) (bm_original ?b)" by code_simp+
  have polled: "poll_act (mp_clock shelf_ports) (seq (mp_guard shelf_ports) (mp_read shelf_ports)) (restored_by shelf_ports ?b (shelf_object 2 True))
      30000 500 (Some S_cleanup) (shelf_object 3 False, 0) = (Inr (shelf_object 3 False), (shelf_object 3 False, 0))"
  proof (rule poll_act_first)
    show "snd (pe_now (mp_clock shelf_ports) u) = u" for u by (cases u) (simp add: shelf_ports_def)
  qed code_simp+
  obtain b' w' where given: "give_back shelf_ports (shelf_object 3 False) (?b, (shelf_object 3 False, 0)) = (Inr (), (b', w'))"
    and served: "fst w' = shelf_object 3 False"
  proof -
    let ?run = "give_back shelf_ports (shelf_object 3 False) (?b, (shelf_object 3 False, 0))"
    have "fst ?run = Inr ()" "fst (snd (snd ?run)) = shelf_object 3 False" by code_simp+
    then show ?thesis using that by (metis prod.collapse)
  qed
  have run: "?run = (Inr (), (b', w'))"
    using current set moved found polled given by (simp add: restore_module_def bnd_def seq_def shelf_module_def)
  have "module_inv shelf_ports ?b" by code_simp
  from module_restore_sound [OF this run] run served show ?thesis by blast
qed

end
