(* ===== verification/Borrowed_Sharing.thy ===== *)
theory Borrowed_Sharing
  imports Borrowing
begin

text \<open>
  The GPU sharing settings of a run (\<open>regression/core/borrowed-sharing.ts\<close>): a journal of borrowed settings, one per
  provider, that records every spec it wrote with the generation at which it was read back, and restores the original.
  The sharing API, the lease guard, the receipt file, the clock of \<open>poll\<close> and \<open>localeCompare\<close> are parameters. The state
  of an action is the journal beside the world of its ports; an entry is reached by its provider.
\<close>

subsection \<open>Data\<close>

record GpuSharingState =
  gs_provider :: string
  gs_backend :: string
  gs_mode :: string
  gs_managed :: bool
  gs_maxModels :: jsval
  gs_nodeName :: string
  gs_nodeUid :: string
  gs_expectedRevision :: string
  gs_available :: bool
  gs_phase :: string

record GpuSharingRequest =
  gr_provider :: string
  gr_mode :: string
  gr_maxModels :: jsval
  gr_nodeName :: string
  gr_nodeUid :: string
  gr_expectedRevision :: string
  gr_acknowledgeSharing :: bool
  gr_acknowledgeRestart :: bool
  gr_allocationBackend :: "string option"
  gr_restoreDefaults :: "jsval option"

record SharingSnapshot =
  sn_object :: jsval
  sn_state :: GpuSharingState

datatype entry_state = E_borrowed | E_pending | E_restored

record BorrowedEntry =
  be_provider :: string
  be_uid :: jsval
  be_originalSpec :: "jsval obj"
  be_originalMode :: string
  be_originalCount :: jsval
  be_originalBackend :: "string option"
  be_originalDefaults :: "jsval option"
  be_generation :: jsval
  be_lastSpec :: "jsval obj"
  be_state :: entry_state

record SharingData =
  sd_runId :: string
  sd_targetUid :: string
  sd_nodeName :: string
  sd_nodeUid :: string
  sd_entries :: "BorrowedEntry list"

record 'w sharing_ports =
  sp_read :: "string \<Rightarrow> ('w, js_error, SharingSnapshot) act"
  sp_apply :: "GpuSharingRequest \<Rightarrow> ('w, js_error, unit) act"
  sp_held :: "('w, js_error, unit) act"
  sp_write :: "SharingData \<Rightarrow> ('w, js_error, unit) act"
  sp_create :: "SharingData \<Rightarrow> ('w, js_error, unit) act"
  sp_stored :: "('w, js_error, jsval) act"
  sp_stage :: "Stage \<Rightarrow> ('w, js_error, unit) act"
  sp_clock :: "'w poll_env"
  sp_compare :: "string \<Rightarrow> string \<Rightarrow> int"

type_synonym ('w, 'a) sharing_act = "(SharingData, 'w, 'a) obj_act"

subsection \<open>Specs\<close>

text \<open>\<open>{parameters, gpuSharing, validationRequest?}\<close> of an installation default that is genuinely unset.\<close>

definition unset :: "jsval obj \<Rightarrow> string \<Rightarrow> bool" where
  "unset params k \<longleftrightarrow> (case oget params k of None \<Rightarrow> True | Some v \<Rightarrow> v = JStr [])"

definition default_state :: "jsval obj \<Rightarrow> string \<Rightarrow> string \<Rightarrow> jsval" where
  "default_state params k present = JStr (if hasOwn params k then present else ''absent'')"

definition defaultFields :: "jsval obj \<Rightarrow> string \<Rightarrow> jsval option" where
  "defaultFields spec provider =
     (let params = object_fields (oget spec ''parameters'')
      in if parameters_ok (oget spec ''parameters'') \<and> unset params ''gpuSharing'' \<and> unset params ''validationRequest''
         then Some (JObj ([(''parameters'', default_state spec ''parameters'' ''present''), (''gpuSharing'', default_state params ''gpuSharing'' ''empty'')] @
           (if provider = ''amd'' then [(''validationRequest'', default_state params ''validationRequest'' ''empty'')] else [])))
         else None)"

text \<open>\<open>if (empty) parameters.k = '' else delete parameters.k\<close>\<close>

definition reset_default :: "jsval \<Rightarrow> string \<Rightarrow> jsval obj \<Rightarrow> jsval obj" where
  "reset_default defaults k params = (if jget defaults k = Some (JStr ''empty'') then oset k (JStr []) params else odelete k params)"

definition default_spec :: "jsval obj \<Rightarrow> string \<Rightarrow> jsval \<Rightarrow> jsval obj result" where
  "default_spec spec provider defaults =
     (let params = reset_default defaults ''gpuSharing'' (object_fields (oget spec ''parameters''));
          params' = if provider = ''amd'' then reset_default defaults ''validationRequest'' params else params
      in if jget defaults ''parameters'' = Some (JStr ''absent'')
         then safely (params' = []) R_CONFLICT (Inr (odelete ''parameters'' spec))
         else Inr (oset ''parameters'' (JObj params') spec))"

definition sharing_config :: "GpuSharingRequest \<Rightarrow> jsval obj" where
  "sharing_config r =
     [(''allowExperimental'', JBool (gr_provider r = ''amd'' \<and> gr_mode r = ''shared'')), (''maxModels'', gr_maxModels r),
      (''mode'', JStr (if gr_mode r = ''exclusive'' then ''exclusive''
         else if gr_provider r = ''amd'' \<or> gr_allocationBackend r = Some ''dra'' then ''dra-shared'' else ''time-slicing'')),
      (''namespace'', JStr ''ai''), (''nodeName'', JStr (gr_nodeName r)), (''nodeUid'', JStr (gr_nodeUid r))] @
     (if gr_provider r = ''nvidia'' \<and> gr_allocationBackend r = Some ''dra'' then [(''allocationBackend'', JStr ''dra'')] else [])"

text \<open>\<open>.sort(([a],[b]) => a<b?-1:a>b?1:0)\<close>, on code units.\<close>

definition by_key :: "string \<times> jsval \<Rightarrow> string \<times> jsval \<Rightarrow> int" where
  "by_key a b = (if fst a < fst b then -1 else if fst b < fst a then 1 else 0)"

definition setting_text :: "GpuSharingRequest \<Rightarrow> string" where
  "setting_text r = ''{'' @ join '', '' (map (\<lambda>(k, v). json_quote k @ '': '' @ stringify v) (sort_by by_key (sharing_config r))) @ ''}''"

definition sharingSpec :: "jsval obj \<Rightarrow> GpuSharingRequest \<Rightarrow> jsval obj result" where
  "sharingSpec spec r = (case gr_restoreDefaults r of
     Some defaults \<Rightarrow> default_spec spec (gr_provider r) defaults
   | None \<Rightarrow>
      (let params = oset ''gpuSharing'' (JStr (setting_text r)) (object_fields (oget spec ''parameters''));
           params' = if gr_provider r = ''amd'' then oset ''validationRequest'' (JStr []) params else params
       in Inr (oset ''parameters'' (JObj params') spec)))"

definition text_of_spec :: "'w sharing_ports \<Rightarrow> jsval obj \<Rightarrow> string" where
  "text_of_spec ports spec = canonical_text (sp_compare ports) (JObj spec)"

subsection \<open>Opening a journal\<close>

definition create_sharing :: "'w sharing_ports \<Rightarrow> SharingData \<Rightarrow> ('w, js_error, SharingData) act" where
  "create_sharing ports identity =
     (let data = identity\<lparr>sd_entries := []\<rparr>
      in seq (requireSafe (is_run_id (sd_runId identity) \<and> sd_nodeUid identity \<noteq> []) R_CONFIG)
        (seq (sp_create ports data) (ret data)))"

definition decode_state :: "jsval option \<Rightarrow> entry_state option" where
  "decode_state v = (if v = Some (JStr ''borrowed'') then Some E_borrowed else if v = Some (JStr ''pending'') then Some E_pending
     else if v = Some (JStr ''restored'') then Some E_restored else None)"

definition spec_of :: "jsval option \<Rightarrow> jsval obj option" where
  "spec_of v = (case v of Some (JObj spec) \<Rightarrow> Some spec | _ \<Rightarrow> None)"

definition entry_ok :: "jsval \<Rightarrow> bool" where
  "entry_ok v \<longleftrightarrow> one_of [''amd'', ''nvidia''] (jget v ''provider'') \<and> (case jget v ''uid'' of Some (JStr u) \<Rightarrow> True | _ \<Rightarrow> False) \<and>
     isSafeInteger (jget v ''generation'') \<and> int_between 1 max_safe (jget v ''generation'') \<and> decode_state (jget v ''state'') \<noteq> None \<and>
     one_of [''exclusive'', ''shared''] (jget v ''originalMode'') \<and> int_between 2 16 (jget v ''originalCount'') \<and>
     (jget v ''originalBackend'' = None \<or> one_of [''dra'', ''device-plugin''] (jget v ''originalBackend'')) \<and>
     spec_of (jget v ''originalSpec'') \<noteq> None \<and> spec_of (jget v ''lastSpec'') \<noteq> None"

text \<open>\<open>canonical(undefined)\<close> is \<open>undefined\<close>.\<close>

definition defaults_ok :: "'w sharing_ports \<Rightarrow> jsval \<Rightarrow> bool" where
  "defaults_ok ports v \<longleftrightarrow> (case jget v ''originalDefaults'' of None \<Rightarrow> True
     | Some d \<Rightarrow> jget v ''originalMode'' = Some (JStr ''exclusive'') \<and> jget v ''originalBackend'' = Some (JStr ''device-plugin'') \<and>
        Some (canonical_text (sp_compare ports) d) = map_option (canonical_text (sp_compare ports))
          (defaultFields (object_fields (jget v ''originalSpec'')) (text_of (jget v ''provider''))))"

definition decode_entry :: "jsval \<Rightarrow> BorrowedEntry" where
  "decode_entry v = \<lparr>be_provider = text_of (jget v ''provider''), be_uid = the (jget v ''uid''),
     be_originalSpec = object_fields (jget v ''originalSpec''), be_originalMode = text_of (jget v ''originalMode''),
     be_originalCount = the (jget v ''originalCount''), be_originalBackend = map_option js_to_string (jget v ''originalBackend''),
     be_originalDefaults = jget v ''originalDefaults'', be_generation = the (jget v ''generation''),
     be_lastSpec = object_fields (jget v ''lastSpec''), be_state = the (decode_state (jget v ''state''))\<rparr>"

definition decode_entries :: "'w sharing_ports \<Rightarrow> jsval list \<Rightarrow> BorrowedEntry list result" where
  "decode_entries ports vs = traverse (\<lambda>v. rbind (safely (entry_ok v) R_OWNERSHIP (Inr ())) (\<lambda>_.
     safely (defaults_ok ports v) R_OWNERSHIP (Inr (decode_entry v)))) vs"

definition same_run :: "SharingData \<Rightarrow> jsval \<Rightarrow> bool" where
  "same_run identity v \<longleftrightarrow> jget v ''version'' = Some (JInt 1) \<and> jget v ''runId'' = Some (JStr (sd_runId identity)) \<and>
     jget v ''targetUid'' = Some (JStr (sd_targetUid identity)) \<and> jget v ''nodeName'' = Some (JStr (sd_nodeName identity)) \<and>
     jget v ''nodeUid'' = Some (JStr (sd_nodeUid identity))"

definition stored_entries :: "SharingData \<Rightarrow> jsval \<Rightarrow> jsval list option" where
  "stored_entries identity v = (case array_items (jget v ''entries'') of
     Some vs \<Rightarrow> if same_run identity v \<and> length vs \<le> 2 \<and> distinct (map (\<lambda>e. jget e ''provider'') vs) then Some vs else None
   | None \<Rightarrow> None)"

definition resume_sharing :: "'w sharing_ports \<Rightarrow> SharingData \<Rightarrow> ('w, js_error, SharingData) act" where
  "resume_sharing ports identity = bnd (sp_stored ports) (\<lambda>v. if v = JNull then throw (Other ''TypeError'')
     else case stored_entries identity v of
       None \<Rightarrow> throw (hard R_OWNERSHIP)
     | Some vs \<Rightarrow> bnd (lift_result (decode_entries ports vs)) (\<lambda>entries. ret (identity\<lparr>sd_entries := entries\<rparr>)))"

subsection \<open>Operations\<close>

definition lent_entry :: "SharingData \<Rightarrow> string \<Rightarrow> BorrowedEntry option" where
  "lent_entry data provider = find (\<lambda>e. be_provider e = provider) (sd_entries data)"

text \<open>An action on an entry that is in the journal; assignments reach the entry itself.\<close>

definition with_entry :: "string \<Rightarrow> (BorrowedEntry \<Rightarrow> ('w, 'a) sharing_act) \<Rightarrow> ('w, 'a) sharing_act" where
  "with_entry provider f = bnd own (\<lambda>data. case lent_entry data provider of None \<Rightarrow> throw (Other ''TypeError'') | Some e \<Rightarrow> f e)"

definition update_entry :: "string \<Rightarrow> (BorrowedEntry \<Rightarrow> BorrowedEntry) \<Rightarrow> SharingData \<Rightarrow> SharingData" where
  "update_entry provider f data = data\<lparr>sd_entries := map (\<lambda>e. if be_provider e = provider then f e else e) (sd_entries data)\<rparr>"

definition set_state :: "string \<Rightarrow> entry_state \<Rightarrow> ('w, unit) sharing_act" where
  "set_state provider state = assign (update_entry provider (\<lambda>e. e\<lparr>be_state := state\<rparr>))"

definition persist_sharing :: "'w sharing_ports \<Rightarrow> ('w, unit) sharing_act" where
  "persist_sharing ports = bnd own (\<lambda>data. via (sp_write ports data))"

text \<open>The object of an entry as it was last journaled.\<close>

definition as_journaled :: "'w sharing_ports \<Rightarrow> BorrowedEntry \<Rightarrow> SharingSnapshot \<Rightarrow> bool" where
  "as_journaled ports e value \<longleftrightarrow> strict_opt (object_uid (sn_object value)) (Some (be_uid e)) \<and>
     strict_opt (object_generation (sn_object value)) (Some (be_generation e)) \<and>
     spec_text (sp_compare ports) (sn_object value) = Some (text_of_spec ports (be_lastSpec e))"

definition same_revision :: "SharingSnapshot \<Rightarrow> bool" where
  "same_revision value \<longleftrightarrow> jat (Some (sn_object value)) [''metadata'', ''resourceVersion''] = Some (JStr (gs_expectedRevision (sn_state value)))"

definition on_node :: "SharingData \<Rightarrow> string \<Rightarrow> SharingSnapshot \<Rightarrow> bool" where
  "on_node data provider value \<longleftrightarrow> gs_provider (sn_state value) = provider \<and> gs_nodeName (sn_state value) = sd_nodeName data \<and>
     gs_nodeUid (sn_state value) = sd_nodeUid data"

definition entry_managed :: "BorrowedEntry \<Rightarrow> bool" where
  "entry_managed e \<longleftrightarrow> truthy_opt (jat (oget (be_lastSpec e) ''parameters'') [''gpuSharing''])"

definition current_sharing :: "'w sharing_ports \<Rightarrow> string \<Rightarrow> ('w, SharingSnapshot) sharing_act" where
  "current_sharing ports provider = seq (via (sp_held ports)) (bnd (via (sp_read ports provider)) (\<lambda>value.
     with_entry provider (\<lambda>e. bnd own (\<lambda>data. seq (requireSafe (as_journaled ports e value) R_CONFLICT)
       (seq (requireSafe (on_node data provider value \<and> gs_managed (sn_state value) = entry_managed e \<and> same_revision value) R_IDENTITY)
         (ret value))))))"

definition over_entries :: "(string \<Rightarrow> ('w, unit) sharing_act) \<Rightarrow> string list \<Rightarrow> ('w, unit) sharing_act" where
  "over_entries f ps = fold (\<lambda>p m. seq m (f p)) ps (ret ())"

definition journal_providers :: "SharingData \<Rightarrow> string list" where
  "journal_providers data = map be_provider (sd_entries data)"

definition reconcile_entry :: "'w sharing_ports \<Rightarrow> string \<Rightarrow> ('w, unit) sharing_act" where
  "reconcile_entry ports p = with_entry p (\<lambda>e. if be_state e = E_pending
     then bnd (current_sharing ports p) (\<lambda>_. seq (set_state p E_borrowed) (persist_sharing ports)) else ret ())"

definition reconcile_sharing :: "'w sharing_ports \<Rightarrow> ('w, unit) sharing_act" where
  "reconcile_sharing ports = bnd own (\<lambda>data. over_entries (reconcile_entry ports) (journal_providers data))"

definition verifyRecoverable :: "'w sharing_ports \<Rightarrow> ('w, unit) sharing_act" where
  "verifyRecoverable ports = bnd own (\<lambda>data. over_entries (\<lambda>p. with_entry p (\<lambda>e.
     if be_state e \<noteq> E_restored then bnd (current_sharing ports p) (\<lambda>_. ret ()) else ret ())) (journal_providers data))"

definition state_restored :: "BorrowedEntry \<Rightarrow> GpuSharingState \<Rightarrow> bool" where
  "state_restored e state \<longleftrightarrow> gs_phase state = ''Ready'' \<and> gs_mode state = be_originalMode e \<and>
     strict_eq (gs_maxModels state) (be_originalCount e) \<and>
     (be_provider e \<noteq> ''nvidia'' \<or> gs_backend state = (if be_originalBackend e = Some ''dra'' then ''dra'' else ''time-slicing''))"

definition verify_entry_restored :: "'w sharing_ports \<Rightarrow> string \<Rightarrow> ('w, unit) sharing_act" where
  "verify_entry_restored ports p = with_entry p (\<lambda>e.
     seq (requireSafe (be_state e = E_restored \<and> text_of_spec ports (be_lastSpec e) = text_of_spec ports (be_originalSpec e)) R_CLEANUP)
    (bnd (current_sharing ports p) (\<lambda>value. requireSafe (state_restored e (sn_state value)) R_CLEANUP)))"

definition verifyRestored :: "'w sharing_ports \<Rightarrow> string list \<Rightarrow> ('w, unit) sharing_act" where
  "verifyRestored ports providers = bnd own (\<lambda>data.
     over_entries (verify_entry_restored ports) (filter (\<lambda>p. p \<in> set providers) (journal_providers data)))"

definition sharing_request :: "SharingData \<Rightarrow> GpuSharingState \<Rightarrow> string \<Rightarrow> jsval \<Rightarrow> GpuSharingRequest" where
  "sharing_request data state mode maxModels = \<lparr>gr_provider = gs_provider state, gr_mode = mode, gr_maxModels = maxModels,
     gr_nodeName = sd_nodeName data, gr_nodeUid = sd_nodeUid data, gr_expectedRevision = gs_expectedRevision state,
     gr_acknowledgeSharing = (mode = ''shared''), gr_acknowledgeRestart = True,
     gr_allocationBackend = (if gs_provider state = ''nvidia'' then Some (if gs_backend state = ''dra'' then ''dra'' else ''device-plugin'') else None),
     gr_restoreDefaults = None\<rparr>"

subsection \<open>Borrowing\<close>

definition borrowable :: "SharingData \<Rightarrow> string \<Rightarrow> SharingSnapshot \<Rightarrow> bool" where
  "borrowable data provider value \<longleftrightarrow> on_node data provider value \<and> gs_available (sn_state value) \<and> gs_phase (sn_state value) = ''Ready'' \<and>
     truthy_opt (object_uid (sn_object value)) \<and> truthy_opt (object_generation (sn_object value)) \<and> same_revision value \<and>
     int_between 2 16 (Some (gs_maxModels (sn_state value))) \<and>
     \<not> truthy_opt (jat (object_spec (sn_object value)) [''parameters'', ''validationRequest''])"

definition borrow_defaults :: "SharingSnapshot \<Rightarrow> jsval obj \<Rightarrow> string \<Rightarrow> jsval option" where
  "borrow_defaults value spec provider = (if gs_managed (sn_state value) then None else defaultFields spec provider)"

text \<open>A managed setting must be the product's own representation, an unmanaged one the unset installation default.\<close>

definition own_setting :: "'w sharing_ports \<Rightarrow> SharingData \<Rightarrow> string \<Rightarrow> SharingSnapshot \<Rightarrow> jsval obj \<Rightarrow> bool" where
  "own_setting ports data provider value spec \<longleftrightarrow>
     (let state = sn_state value
      in if gs_managed state
         then map_sum id (text_of_spec ports) (sharingSpec spec (sharing_request data state (gs_mode state) (gs_maxModels state))) = Inr (text_of_spec ports spec)
         else borrow_defaults value spec provider \<noteq> None \<and> gs_mode state = ''exclusive'' \<and>
           (provider \<noteq> ''nvidia'' \<or> gs_backend state = ''time-slicing''))"

definition new_entry :: "string \<Rightarrow> SharingSnapshot \<Rightarrow> jsval obj \<Rightarrow> BorrowedEntry" where
  "new_entry provider value spec = \<lparr>be_provider = provider, be_uid = the (object_uid (sn_object value)), be_originalSpec = spec,
     be_originalMode = gs_mode (sn_state value), be_originalCount = gs_maxModels (sn_state value),
     be_originalBackend = Some (if provider = ''nvidia'' \<and> gs_backend (sn_state value) = ''dra'' then ''dra'' else ''device-plugin''),
     be_originalDefaults = borrow_defaults value spec provider, be_generation = the (object_generation (sn_object value)),
     be_lastSpec = spec, be_state = E_borrowed\<rparr>"

definition add_entry :: "BorrowedEntry \<Rightarrow> SharingData \<Rightarrow> SharingData" where
  "add_entry e data = data\<lparr>sd_entries := sd_entries data @ [e]\<rparr>"

definition borrow :: "'w sharing_ports \<Rightarrow> string \<Rightarrow> ('w, unit) sharing_act" where
  "borrow ports provider = bnd own (\<lambda>data. seq (requireSafe (provider \<notin> set (journal_providers data)) R_OWNERSHIP)
    (seq (via (sp_held ports)) (bnd (via (sp_read ports provider)) (\<lambda>value.
     seq (requireSafe (borrowable data provider value) R_CAPABILITY) (case spec_of (object_spec (sn_object value)) of
       None \<Rightarrow> throw (Other ''TypeError'')
     | Some spec \<Rightarrow> seq (requireSafe (own_setting ports data provider value spec) R_CAPABILITY)
        (seq (assign (add_entry (new_entry provider value spec))) (persist_sharing ports)))))))"

subsection \<open>Writing\<close>

definition sharing_rejected :: "js_error \<Rightarrow> bool" where
  "sharing_rejected e \<longleftrightarrow> (case e of Harness h \<Rightarrow> (case he_class h of SharingWriteRejected status \<Rightarrow> True | _ \<Rightarrow> False) | Other m \<Rightarrow> False)"

definition sharing_conflict :: "js_error \<Rightarrow> bool" where
  "sharing_conflict e \<longleftrightarrow> (case e of Harness h \<Rightarrow> he_class h = SharingWriteRejected 409 | Other m \<Rightarrow> False)"

definition released_after :: "'w sharing_ports \<Rightarrow> string \<Rightarrow> js_error \<Rightarrow> ('w, unit) sharing_act" where
  "released_after ports provider e =
     (if sharing_rejected e
      then bnd (current_sharing ports provider) (\<lambda>_. seq (set_state provider E_borrowed) (seq (persist_sharing ports) (throw e)))
      else throw e)"

definition written_back :: "'w sharing_ports \<Rightarrow> BorrowedEntry \<Rightarrow> jsval obj \<Rightarrow> SharingSnapshot \<Rightarrow> bool" where
  "written_back ports e spec after \<longleftrightarrow> strict_opt (object_uid (sn_object after)) (Some (be_uid e)) \<and>
     strict_opt (object_generation (sn_object after)) (next_generation (Some (be_generation e))) \<and>
     spec_text (sp_compare ports) (sn_object after) = Some (text_of_spec ports spec)"

definition record_write :: "string \<Rightarrow> jsval obj \<Rightarrow> SharingSnapshot \<Rightarrow> ('w, unit) sharing_act" where
  "record_write provider spec after = assign (update_entry provider (\<lambda>e.
     e\<lparr>be_generation := the (object_generation (sn_object after)), be_lastSpec := spec, be_state := E_borrowed\<rparr>))"

definition submit_write :: "'w sharing_ports \<Rightarrow> BorrowedEntry \<Rightarrow> GpuSharingRequest \<Rightarrow> jsval obj \<Rightarrow> ('w, unit) sharing_act" where
  "submit_write ports e r spec =
     (let p = be_provider e
      in seq (set_state p E_pending) (seq (persist_sharing ports) (seq (via (sp_held ports))
        (seq (catch (via (sp_apply ports r)) (released_after ports p)) (bnd (via (sp_read ports p)) (\<lambda>after.
         seq (requireSafe (written_back ports e spec after) R_CONFLICT) (seq (record_write p spec after) (persist_sharing ports))))))))"

definition write_entry :: "'w sharing_ports \<Rightarrow> string \<Rightarrow> GpuSharingRequest \<Rightarrow> ('w, unit) sharing_act" where
  "write_entry ports provider r = with_entry provider (\<lambda>e. case sharingSpec (be_lastSpec e) r of
     Inl err \<Rightarrow> throw err
   | Inr spec \<Rightarrow> if text_of_spec ports spec = text_of_spec ports (be_lastSpec e) then ret () else submit_write ports e r spec)"

definition change_request :: "SharingData \<Rightarrow> string \<Rightarrow> GpuSharingState \<Rightarrow> string \<Rightarrow> jsval \<Rightarrow> string option \<Rightarrow> GpuSharingRequest" where
  "change_request data provider state mode maxModels backend =
     (let r = sharing_request data state mode maxModels
      in if provider = ''nvidia'' \<and> backend \<noteq> None then r\<lparr>gr_allocationBackend := backend\<rparr> else r)"

definition borrowed_entry :: "SharingData \<Rightarrow> string \<Rightarrow> bool" where
  "borrowed_entry data provider \<longleftrightarrow> (case lent_entry data provider of None \<Rightarrow> False | Some e \<Rightarrow> be_state e = E_borrowed)"

definition change_sharing :: "'w sharing_ports \<Rightarrow> string \<Rightarrow> string \<Rightarrow> jsval \<Rightarrow> string option \<Rightarrow> ('w, unit) sharing_act" where
  "change_sharing ports provider mode maxModels backend =
     seq (requireSafe (mode \<in> {''exclusive'', ''shared''} \<and> int_between 2 16 (Some maxModels)) R_CONFIG) (bnd own (\<lambda>data.
     seq (requireSafe (borrowed_entry data provider) R_OWNERSHIP) (bnd (current_sharing ports provider) (\<lambda>current.
       write_entry ports provider (change_request data provider (sn_state current) mode maxModels backend)))))"

subsection \<open>Restoration\<close>

text \<open>\<open>for (attempt = 0; attempt < n + 1; attempt++)\<close> around a write: only a proven conflict is tried again.\<close>

fun attempts :: "nat \<Rightarrow> ('w, unit) sharing_act \<Rightarrow> ('w, unit) sharing_act" where
  "attempts 0 m = m"
| "attempts (Suc n) m = catch m (\<lambda>e. if sharing_conflict e then attempts n m else throw e)"

definition sharing_clock :: "'w sharing_ports \<Rightarrow> (SharingData \<times> 'w) poll_env" where
  "sharing_clock ports = \<lparr>pe_now = (\<lambda>(t, w). case pe_now (sp_clock ports) w of (n, w') \<Rightarrow> (n, (t, w'))),
     pe_wait = (\<lambda>n. via (pe_wait (sp_clock ports) n)), pe_check = via (pe_check (sp_clock ports))\<rparr>"

definition exclusive_ready :: "string \<Rightarrow> SharingSnapshot \<Rightarrow> bool" where
  "exclusive_ready provider value \<longleftrightarrow> gs_phase (sn_state value) = ''Ready'' \<and> gs_mode (sn_state value) = ''exclusive'' \<and>
     (provider \<noteq> ''nvidia'' \<or> gs_backend (sn_state value) = ''time-slicing'')"

definition default_request :: "SharingData \<Rightarrow> BorrowedEntry \<Rightarrow> jsval \<Rightarrow> GpuSharingState \<Rightarrow> GpuSharingRequest" where
  "default_request data e defaults state =
     (let r = sharing_request data state ''exclusive'' (be_originalCount e)
      in (if be_provider e = ''nvidia'' then r\<lparr>gr_allocationBackend := Some ''device-plugin''\<rparr> else r)\<lparr>gr_restoreDefaults := Some defaults\<rparr>)"

definition reset_defaults :: "'w sharing_ports \<Rightarrow> BorrowedEntry \<Rightarrow> jsval \<Rightarrow> ('w, unit) sharing_act" where
  "reset_defaults ports e defaults =
     (let p = be_provider e
      in seq (via (sp_stage ports S_gpu_backend))
        (bnd (poll_act (sharing_clock ports) (current_sharing ports p) (exclusive_ready p) 600000 1000 (Some S_gpu_backend)) (\<lambda>ready.
         seq (via (sp_stage ports S_recovery_sharing)) (bnd own (\<lambda>data.
           write_entry ports p (default_request data e defaults (sn_state ready)))))))"

definition finish_entry :: "'w sharing_ports \<Rightarrow> string \<Rightarrow> ('w, unit) sharing_act" where
  "finish_entry ports p = seq (set_state p E_restored) (persist_sharing ports)"

definition restore_changed :: "'w sharing_ports \<Rightarrow> BorrowedEntry \<Rightarrow> ('w, unit) sharing_act" where
  "restore_changed ports e =
     (let p = be_provider e
      in seq (attempts 2 (change_sharing ports p (be_originalMode e) (be_originalCount e)
           (Some (case be_originalBackend e of None \<Rightarrow> ''device-plugin'' | Some b \<Rightarrow> b))))
        (seq (case be_originalDefaults e of None \<Rightarrow> ret () | Some defaults \<Rightarrow> attempts 2 (reset_defaults ports e defaults))
        (bnd (current_sharing ports p) (\<lambda>current. with_entry p (\<lambda>e'.
           seq (requireSafe (spec_text (sp_compare ports) (sn_object current) = Some (text_of_spec ports (be_originalSpec e'))) R_CLEANUP)
             (finish_entry ports p))))))"

definition restore_entry :: "'w sharing_ports \<Rightarrow> string \<Rightarrow> ('w, unit) sharing_act" where
  "restore_entry ports p = with_entry p (\<lambda>e. if be_state e = E_restored then ret ()
     else seq (requireSafe (be_state e = E_borrowed) R_CONFLICT) (seq (via (sp_stage ports S_recovery_sharing))
       (if text_of_spec ports (be_lastSpec e) = text_of_spec ports (be_originalSpec e)
        then bnd (current_sharing ports p) (\<lambda>_. finish_entry ports p)
        else restore_changed ports e)))"

definition restore_sharing :: "'w sharing_ports \<Rightarrow> ('w, unit) sharing_act" where
  "restore_sharing ports = bnd own (\<lambda>data. over_entries (restore_entry ports) (rev (journal_providers data)))"

subsection \<open>Entries by provider\<close>

lemma find_map: "(\<And>x. P (g x) = P x) \<Longrightarrow> find P (map g xs) = map_option g (find P xs)"
  by (induction xs) auto

lemma lent_entry_update:
  assumes "\<And>e. be_provider (f e) = be_provider e"
  shows "lent_entry (update_entry p f d) q = (if q = p then map_option f (lent_entry d p) else lent_entry d q)"
proof -
  have "find (\<lambda>e. be_provider e = q) (map (\<lambda>e. if be_provider e = p then f e else e) es) =
      (if q = p then map_option f (find (\<lambda>e. be_provider e = p) es) else find (\<lambda>e. be_provider e = q) es)" for es
    using assms by (induction es) auto
  then show ?thesis by (simp add: lent_entry_def update_entry_def)
qed

lemma update_entry_simps [simp]:
  "sd_runId (update_entry p f d) = sd_runId d" "sd_targetUid (update_entry p f d) = sd_targetUid d"
  "sd_nodeName (update_entry p f d) = sd_nodeName d" "sd_nodeUid (update_entry p f d) = sd_nodeUid d"
  by (simp_all add: update_entry_def)

lemma journal_providers_update: "(\<And>e. be_provider (f e) = be_provider e) \<Longrightarrow> journal_providers (update_entry p f d) = journal_providers d"
  by (auto simp: journal_providers_def update_entry_def)

lemma lent_entry_Some: "lent_entry d p = Some e \<Longrightarrow> e \<in> set (sd_entries d) \<and> be_provider e = p"
  by (auto simp: lent_entry_def find_Some_iff)

lemma lent_entry_None: "lent_entry d p = None \<longleftrightarrow> p \<notin> set (journal_providers d)"
  by (auto simp: lent_entry_def find_None_iff journal_providers_def)

lemma lent_entry_distinct:
  assumes "distinct (journal_providers d)" and "e \<in> set (sd_entries d)"
  shows "lent_entry d (be_provider e) = Some e"
proof -
  have "distinct (map be_provider es) \<Longrightarrow> e \<in> set es \<Longrightarrow> find (\<lambda>x. be_provider x = be_provider e) es = Some e" for es
    by (induction es) (auto simp: rev_image_eqI)
  then show ?thesis using assms by (simp add: journal_providers_def lent_entry_def)
qed

lemma moves_with_entry:
  assumes "object_contract R" and "\<And>e. be_provider e = p \<Longrightarrow> moves R (f e)"
  shows "moves R (with_entry p f)"
  using assms(2) unfolding with_entry_def moves_def obj_leads_def
  by (auto simp: bnd_def throw_def object_contract.contract_refl [OF assms(1)] dest: lent_entry_Some split: option.split)

subsection \<open>One entry at a time\<close>

text \<open>What an action on one provider leaves alone.\<close>

definition framed :: "string \<Rightarrow> SharingData \<Rightarrow> SharingData \<Rightarrow> bool" where
  "framed p d d' \<longleftrightarrow> journal_providers d' = journal_providers d \<and> (\<forall>q. q \<noteq> p \<longrightarrow> lent_entry d' q = lent_entry d q) \<and>
     map_option be_originalSpec (lent_entry d' p) = map_option be_originalSpec (lent_entry d p)"

interpretation framing: object_contract "framed p" for p
  by unfold_locales (auto simp: framed_def)

lemma framed_update: "(\<And>e. be_provider (f e) = be_provider e \<and> be_originalSpec (f e) = be_originalSpec e) \<Longrightarrow> framed p d (update_entry p f d)"
  by (auto simp: framed_def lent_entry_update journal_providers_update option.map_comp intro!: option.map_cong)

lemma framed_updates:
  "moves (framed p) (set_state p state)" "moves (framed p) (record_write p spec after)" "moves (framed p) (persist_sharing ports)"
  unfolding set_state_def record_write_def persist_sharing_def
  by (auto intro!: framing.moves_assign framed_update framing.moves_own framing.moves_steps)

lemmas framed_with_entry = moves_with_entry [OF framing.object_contract_axioms]

lemma framed_current: "moves (framed p) (current_sharing ports p)"
  unfolding current_sharing_def by (intro framing.moves_seq framing.moves_bnd framing.moves_steps framing.moves_own framed_with_entry)

lemma framed_finish: "moves (framed p) (finish_entry ports p)"
  unfolding finish_entry_def by (intro framing.moves_seq framed_updates)

lemma framed_submit: "moves (framed (be_provider e)) (submit_write ports e r spec)"
  unfolding submit_write_def Let_def released_after_def
  by (intro framing.moves_seq framing.moves_bnd framing.moves_catch framing.moves_if framing.moves_steps framed_updates framed_current)

lemma framed_write: "moves (framed p) (write_entry ports p r)"
  unfolding write_entry_def by (intro framed_with_entry) (auto split: sum.split intro: framing.moves_steps framed_submit)

lemma framed_change: "moves (framed p) (change_sharing ports p mode n backend)"
  unfolding change_sharing_def by (intro framing.moves_seq framing.moves_bnd framing.moves_steps framing.moves_own framed_current framed_write)

lemma moves_attempts: "object_contract R \<Longrightarrow> moves R m \<Longrightarrow> moves R (attempts n m)"
  by (induction n) (auto intro!: object_contract.moves_catch object_contract.moves_steps split: if_splits)

lemma moves_poll_act:
  assumes "object_contract R" and "moves R read"
  shows "moves R (poll_act (sharing_clock ports) read accept timeoutMs intervalMs stage)"
proof -
  note step = object_contract.contract_trans [OF assms(1)] and refl = object_contract.contract_refl [OF assms(1)]
  have "keeps (\<lambda>s. R t (fst s)) (poll_act (sharing_clock ports) read accept timeoutMs intervalMs stage)" for t
  proof (rule keeps_poll_act)
    have "moves R read \<Longrightarrow> R t (fst s) \<Longrightarrow> R t (fst (snd (read s)))" for s
      by (cases s) (auto simp: moves_def obj_leads_def intro: step)
    then show "keeps (\<lambda>s. R t (fst s)) read" using assms(2) by (simp add: keeps_def)
  qed (auto simp: sharing_clock_def keeps_def split: prod.splits)
  then show ?thesis unfolding moves_def obj_leads_def keeps_def using refl by fastforce
qed

lemma framed_reset: "moves (framed (be_provider e)) (reset_defaults ports e defaults)"
  unfolding reset_defaults_def Let_def
  by (intro framing.moves_seq framing.moves_bnd framing.moves_steps framing.moves_own framed_write
      moves_poll_act [OF framing.object_contract_axioms] framed_current)

lemma framed_restore_changed: "moves (framed (be_provider e)) (restore_changed ports e)"
  unfolding restore_changed_def Let_def
  by (intro framing.moves_seq framing.moves_bnd framing.moves_steps framing.moves_option framed_with_entry framed_finish framed_current
      framed_reset framed_change moves_attempts [OF framing.object_contract_axioms])

lemma framed_restore_entry: "moves (framed p) (restore_entry ports p)"
  unfolding restore_entry_def
proof (rule framed_with_entry)
  fix e :: BorrowedEntry assume p: "be_provider e = p"
  show "moves (framed p) (if be_state e = E_restored then ret ()
     else seq (requireSafe (be_state e = E_borrowed) R_CONFLICT) (seq (via (sp_stage ports S_recovery_sharing))
       (if text_of_spec ports (be_lastSpec e) = text_of_spec ports (be_originalSpec e)
        then bnd (current_sharing ports p) (\<lambda>_. finish_entry ports p) else restore_changed ports e)))"
    by (intro framing.moves_seq framing.moves_if framing.moves_steps framing.moves_bnd framed_current framed_finish
        framed_restore_changed [of e, unfolded p])
qed

lemma over_entries_snoc: "over_entries f (ps @ [p]) = seq (over_entries f ps) (f p)"
  by (simp add: over_entries_def)

lemma over_entries_Nil: "over_entries f [] = ret ()"
  by (simp add: over_entries_def)

lemma over_framed:
  assumes "\<And>q. moves (framed q) (f q)" and "over_entries f ps (t, w) = (r, (t', w'))"
  shows "journal_providers t' = journal_providers t \<and> (p \<notin> set ps \<longrightarrow> lent_entry t' p = lent_entry t p) \<and>
    map_option be_originalSpec (lent_entry t' p) = map_option be_originalSpec (lent_entry t p)"
  using assms(2)
proof (induction ps arbitrary: r t' w' rule: rev_induct)
  case (snoc q ps)
  obtain r1 t1 w1 where first: "over_entries f ps (t, w) = (r1, (t1, w1))" by (metis surj_pair)
  obtain r2 t2 w2 where last: "f q (t1, w1) = (r2, (t2, w2))" by (metis surj_pair)
  have "framed q t1 t2" by (rule movesD [OF assms(1) last])
  then have "journal_providers t2 = journal_providers t1" "p \<noteq> q \<longrightarrow> lent_entry t2 p = lent_entry t1 p"
    "map_option be_originalSpec (lent_entry t2 p) = map_option be_originalSpec (lent_entry t1 p)"
    unfolding framed_def by (metis (no_types))+
  moreover have "t' = t1 \<or> t' = t2" using snoc.prems first last by (auto simp: over_entries_snoc seq_def bnd_def split: sum.splits)
  ultimately show ?case using snoc.IH [OF first] by auto
qed (simp add: over_entries_Nil ret_def)

text \<open>Every provider of a loop that ends was handled, in a state in which its own entry was still untouched.\<close>

lemma over_each:
  assumes "\<And>q. moves (framed q) (f q)" and "distinct ps" and "over_entries f ps (t, w) = (Inr x, (t', w'))" and "p \<in> set ps"
  shows "\<exists>t1 w1 t2 w2. f p (t1, w1) = (Inr (), (t2, w2)) \<and> lent_entry t1 p = lent_entry t p \<and> lent_entry t' p = lent_entry t2 p"
  using assms(2-)
proof (induction ps arbitrary: t' w' x rule: rev_induct)
  case (snoc q ps)
  then obtain t1 w1 where first: "over_entries f ps (t, w) = (Inr (), (t1, w1))" and last: "f q (t1, w1) = (Inr (), (t', w'))"
    by (auto simp: over_entries_snoc ok_iffs)
  show ?case
  proof (cases "p = q")
    case True
    then show ?thesis using last over_framed [OF assms(1) first, of p] snoc.prems(1) by (intro exI [of _ t1] exI [of _ w1] exI [of _ t'] exI [of _ w']) auto
  next
    case False
    have "lent_entry t' p = lent_entry t1 p" using movesD [OF assms(1) last] False by (simp add: framed_def)
    then show ?thesis using snoc.IH [OF _ first] snoc.prems False by auto
  qed
qed simp

lemma with_entry_ok [ok_iffs]: "with_entry p f (t, w) = (Inr x, u) \<longleftrightarrow> (\<exists>e. lent_entry t p = Some e \<and> f e (t, w) = (Inr x, u))"
  by (auto simp: with_entry_def bnd_def throw_def split: option.split)

lemma current_sharing_ok:
  "current_sharing ports p (t, w) = (Inr value, (t', w')) \<Longrightarrow>
     t' = t \<and> returns (sp_read ports p) value \<and> (\<exists>e. lent_entry t p = Some e \<and> as_journaled ports e value)"
  by (auto simp: current_sharing_def ok_iffs simp del: via_run requireSafe_run intro: returnsI)

lemma finish_entry_ok:
  "finish_entry ports p (t, w) = (Inr x, (t', w')) \<Longrightarrow> t' = update_entry p (\<lambda>e. e\<lparr>be_state := E_restored\<rparr>) t"
  by (auto simp: finish_entry_def set_state_def persist_sharing_def ok_iffs simp del: via_run)

definition given_back :: "'w sharing_ports \<Rightarrow> BorrowedEntry \<Rightarrow> bool" where
  "given_back ports e \<longleftrightarrow> be_state e = E_restored \<and> text_of_spec ports (be_lastSpec e) = text_of_spec ports (be_originalSpec e)"

lemma restore_entry_ok:
  assumes "restore_entry ports p (t, w) = (Inr x, (t', w'))" and "\<And>e. lent_entry t p = Some e \<Longrightarrow> be_state e = E_restored \<Longrightarrow> given_back ports e"
  shows "\<exists>e e'. lent_entry t p = Some e \<and> be_state e \<noteq> E_pending \<and> lent_entry t' p = Some e' \<and> given_back ports e'"
proof -
  obtain e where e: "lent_entry t p = Some e" using assms(1) by (auto simp: restore_entry_def ok_iffs)
  have fin: "\<exists>e'. lent_entry t' p = Some e' \<and> given_back ports e'"
    if f: "finish_entry ports p (t2, w2) = (Inr x, (t', w'))" and e2: "lent_entry t2 p = Some e2" "text_of_spec ports (be_lastSpec e2) = text_of_spec ports (be_originalSpec e2)"
    for t2 w2 e2
    using finish_entry_ok [OF f] e2 by (auto simp: lent_entry_update given_back_def)
  consider "be_state e = E_restored" "t' = t"
    | w1 where "be_state e = E_borrowed" "text_of_spec ports (be_lastSpec e) = text_of_spec ports (be_originalSpec e)"
        "finish_entry ports p (t, w1) = (Inr x, (t', w'))"
    | w1 where "be_state e = E_borrowed" "restore_changed ports e (t, w1) = (Inr x, (t', w'))"
    using assms(1) e by (auto simp: restore_entry_def ok_iffs simp del: via_run requireSafe_run split: if_splits dest!: current_sharing_ok)
  then show ?thesis
  proof cases
    case 1
    then show ?thesis using e assms(2) [OF e] by auto
  next
    case (2 w1)
    then show ?thesis using e fin by fastforce
  next
    case (3 w1)
    have p: "be_provider e = p" using lent_entry_Some [OF e] by simp
    from 3 obtain t2 w2 t3 w3 v e2 where c: "current_sharing ports p (t2, w2) = (Inr v, (t3, w3))" and e2: "lent_entry t3 p = Some e2"
      and checked: "spec_text (sp_compare ports) (sn_object v) = Some (text_of_spec ports (be_originalSpec e2))"
      and f: "finish_entry ports p (t3, w3) = (Inr x, (t', w'))"
      by (auto simp: restore_changed_def Let_def ok_iffs p simp del: via_run requireSafe_run)
    from current_sharing_ok [OF c] e2 checked have "text_of_spec ports (be_lastSpec e2) = text_of_spec ports (be_originalSpec e2)"
      by (auto simp: as_journaled_def)
    then show ?thesis using fin [OF f e2] e 3(1) by auto
  qed
qed

lemma restore_sharing_each:
  assumes "distinct (journal_providers d)" and "restore_sharing ports (d, w) = (Inr x, (d', w'))" and "p \<in> set (journal_providers d)"
  shows "\<exists>t1 w1 t2 w2. restore_entry ports p (t1, w1) = (Inr (), (t2, w2)) \<and> lent_entry t1 p = lent_entry d p \<and> lent_entry d' p = lent_entry t2 p"
proof (rule over_each [OF framed_restore_entry])
  show "over_entries (restore_entry ports) (rev (journal_providers d)) (d, w) = (Inr x, (d', w'))"
    using assms(2) by (auto simp: restore_sharing_def ok_iffs)
qed (use assms in auto)


subsection \<open>Ambiguous writes\<close>

lemma pending_blocks_change: "lent_entry d p = Some e \<Longrightarrow> be_state e = E_pending \<Longrightarrow>
    \<exists>code. change_sharing ports p mode n backend (d, w) = (Inl (hard code), (d, w))"
  by (auto simp: change_sharing_def bnd_def seq_def borrowed_entry_def)

lemma pending_blocks_restore:
  assumes "distinct (journal_providers d)" and "lent_entry d p = Some e" and "be_state e = E_pending"
  shows "restore_sharing ports (d, w) \<noteq> (Inr x, (d', w'))"
proof
  assume run: "restore_sharing ports (d, w) = (Inr x, (d', w'))"
  have "p \<in> set (journal_providers d)" using assms(2) lent_entry_Some by (auto simp: journal_providers_def)
  from restore_sharing_each [OF assms(1) run this] obtain t1 w1 t2 w2 where r: "restore_entry ports p (t1, w1) = (Inr (), (t2, w2))"
    and before: "lent_entry t1 p = lent_entry d p" by blast
  from restore_entry_ok [OF r] assms before show False by auto
qed

definition apply_ambiguous :: "'w sharing_ports \<Rightarrow> GpuSharingRequest \<Rightarrow> bool" where
  "apply_ambiguous ports r \<longleftrightarrow> (\<forall>v. \<exists>err v'. sp_apply ports r v = (Inl err, v') \<and> \<not> sharing_rejected err)"

text \<open>
  C26: A write whose answer is lost is never adopted. When the API does not answer, or answers anything but an explicit
  rejection, the write fails and leaves its entry as it was, but pending; then neither another change nor a restoration
  gets past it, whatever the server holds.
\<close>

theorem sharing_ambiguous_stays_pending:
  assumes "lent_entry d p = Some e" and "sharingSpec (be_lastSpec e) r = Inr spec"
    and "text_of_spec ports spec \<noteq> text_of_spec ports (be_lastSpec e)" and "apply_ambiguous ports r"
    and "write_entry ports p r (d, w) = (res, (d', w'))"
  shows "res \<noteq> Inr x \<and> lent_entry d' p = Some (e\<lparr>be_state := E_pending\<rparr>) \<and>
    (\<exists>code. change_sharing ports p mode n backend (d', v) = (Inl (hard code), (d', v))) \<and>
    (distinct (journal_providers d) \<longrightarrow> (\<forall>d'' v'. restore_sharing ports (d', v) \<noteq> (Inr x, (d'', v'))))"
proof -
  have p: "be_provider e = p" using lent_entry_Some [OF assms(1)] by simp
  let ?d = "update_entry p (\<lambda>e. e\<lparr>be_state := E_pending\<rparr>) d"
  have lost: "\<exists>err u. catch (via (sp_apply ports r)) (released_after ports p) (?d, u0) = (Inl err, (?d, u))" for u0
  proof -
    obtain err u where "sp_apply ports r u0 = (Inl err, u)" "\<not> sharing_rejected err" using assms(4) unfolding apply_ambiguous_def by blast
    then show ?thesis by (simp add: catch_def released_after_def throw_def)
  qed
  have "\<exists>err. res = Inl err \<and> d' = ?d"
  proof -
    obtain r1 w1 where persisted: "sp_write ports ?d w = (r1, w1)" by (metis surj_pair)
    obtain r2 w2 where held: "sp_held ports w1 = (r2, w2)" by (metis surj_pair)
    obtain err u where l: "catch (via (sp_apply ports r)) (released_after ports p) (?d, w2) = (Inl err, (?d, u))" using lost by blast
    note run = assms(5) [unfolded write_entry_def with_entry_def submit_write_def set_state_def persist_sharing_def bnd_def seq_def Let_def p]
    show ?thesis
    proof (cases r1)
      case Inl
      then show ?thesis using run assms(1-3) persisted p by auto
    next
      case r1: (Inr y)
      show ?thesis
      proof (cases r2)
        case Inl
        then show ?thesis using run assms(1-3) persisted held r1 p by auto
      next
        case (Inr z)
        then show ?thesis using run assms(1-3) persisted held r1 l p by auto
      qed
    qed
  qed
  then obtain err where res: "res = Inl err" and d': "d' = ?d" by blast
  have pending: "lent_entry d' p = Some (e\<lparr>be_state := E_pending\<rparr>)" using assms(1) d' by (simp add: lent_entry_update)
  have "journal_providers d' = journal_providers d" using d' by (simp add: journal_providers_update)
  then show ?thesis using res pending pending_blocks_change [OF pending, of ports mode n backend v] pending_blocks_restore [OF _ pending, of ports v x]
    by simp
qed

subsection \<open>The history of the journal\<close>

text \<open>A spec at a generation of an object: a snapshot of the provider that was read says so.\<close>

definition read_as :: "'w sharing_ports \<Rightarrow> string \<Rightarrow> jsval \<Rightarrow> jsval \<Rightarrow> jsval obj \<Rightarrow> bool" where
  "read_as ports p uid generation spec \<longleftrightarrow> (\<exists>value. returns (sp_read ports p) value \<and> object_uid (sn_object value) = Some uid \<and>
     object_generation (sn_object value) = Some generation \<and> spec_text (sp_compare ports) (sn_object value) = Some (text_of_spec ports spec))"

definition borrowed_part :: "BorrowedEntry \<Rightarrow> BorrowedEntry" where
  "borrowed_part e = e\<lparr>be_generation := JNull, be_lastSpec := [], be_state := E_borrowed\<rparr>"

definition kept_entry :: "'w sharing_ports \<Rightarrow> BorrowedEntry \<Rightarrow> BorrowedEntry \<Rightarrow> bool" where
  "kept_entry ports e e' \<longleftrightarrow> borrowed_part e' = borrowed_part e \<and>
     (be_generation e' = be_generation e \<and> be_lastSpec e' = be_lastSpec e \<or>
      read_as ports (be_provider e) (be_uid e) (be_generation e') (be_lastSpec e'))"

definition learned_entry :: "'w sharing_ports \<Rightarrow> BorrowedEntry \<Rightarrow> bool" where
  "learned_entry ports e \<longleftrightarrow> read_as ports (be_provider e) (be_uid e) (be_generation e) (be_lastSpec e) \<and>
     (\<exists>generation. read_as ports (be_provider e) (be_uid e) generation (be_originalSpec e))"

definition extends :: "'w sharing_ports \<Rightarrow> SharingData \<Rightarrow> SharingData \<Rightarrow> bool" where
  "extends ports d d' \<longleftrightarrow> d'\<lparr>sd_entries := []\<rparr> = d\<lparr>sd_entries := []\<rparr> \<and>
     (\<exists>kept learned. sd_entries d' = kept @ learned \<and> list_all2 (kept_entry ports) (sd_entries d) kept \<and> list_all (learned_entry ports) learned)"

lemma kept_entry_refl: "kept_entry ports e e"
  by (simp add: kept_entry_def)

lemma borrowed_part_simps:
  "be_provider (borrowed_part e) = be_provider e" "be_uid (borrowed_part e) = be_uid e" "be_originalSpec (borrowed_part e) = be_originalSpec e"
  by (simp_all add: borrowed_part_def)

lemma kept_entry_provider: "kept_entry ports a b \<Longrightarrow> be_provider b = be_provider a \<and> be_uid b = be_uid a \<and> be_originalSpec b = be_originalSpec a"
  unfolding kept_entry_def by (metis borrowed_part_simps)

lemma kept_entry_trans: "kept_entry ports a b \<Longrightarrow> kept_entry ports b c \<Longrightarrow> kept_entry ports a c"
  using kept_entry_provider [of ports a b] by (auto simp: kept_entry_def)

lemma learned_kept: "learned_entry ports a \<Longrightarrow> kept_entry ports a b \<Longrightarrow> learned_entry ports b"
  using kept_entry_provider [of ports a b] by (auto simp: learned_entry_def kept_entry_def)

lemma extends_refl: "extends ports d d"
  unfolding extends_def by (intro conjI refl exI [of _ "sd_entries d"] exI [of _ "[]"]) (simp_all add: list.rel_refl kept_entry_refl)

lemma extends_trans: "extends ports a b \<Longrightarrow> extends ports b c \<Longrightarrow> extends ports a c"
proof -
  assume "extends ports a b" "extends ports b c"
  then obtain k l k' l' where b: "sd_entries b = k @ l" "list_all2 (kept_entry ports) (sd_entries a) k" "list_all (learned_entry ports) l"
    and c: "sd_entries c = k' @ l'" "list_all2 (kept_entry ports) (k @ l) k'" "list_all (learned_entry ports) l'"
    and same: "b\<lparr>sd_entries := []\<rparr> = a\<lparr>sd_entries := []\<rparr>" "c\<lparr>sd_entries := []\<rparr> = b\<lparr>sd_entries := []\<rparr>"
    unfolding extends_def by auto
  from c(2) obtain k1 k2 where k': "k' = k1 @ k2" "list_all2 (kept_entry ports) k k1" "list_all2 (kept_entry ports) l k2"
    unfolding list_all2_append1 by blast
  have "list_all2 (kept_entry ports) (sd_entries a) k1" by (rule list_all2_trans [OF kept_entry_trans b(2) k'(2)])
  moreover have "list_all (learned_entry ports) k2" using k'(3) b(3)
    by (auto simp: list_all2_conv_all_nth list_all_length intro: learned_kept)
  ultimately show ?thesis unfolding extends_def using same c(1,3) k'(1) by (intro conjI exI [of _ k1] exI [of _ "k2 @ l'"]) auto
qed

text \<open>Journals with one entry per provider, and, inside an operation, with the entry of that operation still in place.\<close>

definition history :: "'w sharing_ports \<Rightarrow> SharingData \<Rightarrow> SharingData \<Rightarrow> bool" where
  "history ports d d' \<longleftrightarrow> (distinct (journal_providers d) \<longrightarrow> distinct (journal_providers d') \<and> extends ports d d')"

definition history_of :: "'w sharing_ports \<Rightarrow> string \<Rightarrow> jsval \<Rightarrow> SharingData \<Rightarrow> SharingData \<Rightarrow> bool" where
  "history_of ports p uid d d' \<longleftrightarrow> (distinct (journal_providers d) \<and> map_option be_uid (lent_entry d p) = Some uid \<longrightarrow>
     distinct (journal_providers d') \<and> map_option be_uid (lent_entry d' p) = Some uid \<and> extends ports d d')"

interpretation historic: object_contract "history ports" for ports
  by unfold_locales (auto simp: history_def extends_refl intro: extends_trans)

interpretation tracking: object_contract "history_of ports p uid" for ports p uid
  by unfold_locales (auto simp: history_of_def extends_refl intro: extends_trans)

lemma historic_entry: "(\<And>e. be_provider e = p \<Longrightarrow> moves (history_of ports p (be_uid e)) (f e)) \<Longrightarrow> moves (history ports) (with_entry p f)"
  unfolding with_entry_def moves_def obj_leads_def
  by (auto simp: bnd_def throw_def extends_refl history_def history_of_def dest: lent_entry_Some split: option.split)

lemma extends_update:
  assumes "distinct (journal_providers d)" and "\<And>e. lent_entry d p = Some e \<Longrightarrow> kept_entry ports e (f e)"
  shows "extends ports d (update_entry p f d)"
proof -
  have "kept_entry ports e (if be_provider e = p then f e else e)" if "e \<in> set (sd_entries d)" for e
    using assms(2) lent_entry_distinct [OF assms(1) that] kept_entry_refl by auto
  then have "list_all2 (kept_entry ports) (sd_entries d) (sd_entries (update_entry p f d))"
    by (simp add: update_entry_def list_all2_map2 list.rel_refl_strong)
  then show ?thesis unfolding extends_def by (intro conjI exI [of _ "sd_entries (update_entry p f d)"] exI [of _ "[]"]) (auto simp: update_entry_def)
qed

lemma tracked_update:
  assumes "\<And>e. be_provider (f e) = be_provider e \<and> be_uid (f e) = be_uid e" and "\<And>e. be_provider e = p \<Longrightarrow> be_uid e = uid \<Longrightarrow> kept_entry ports e (f e)"
  shows "moves (history_of ports p uid) (assign (update_entry p f))"
  using assms(1)
  by (intro tracking.moves_assign)
    (auto simp: history_of_def journal_providers_update lent_entry_update dest: lent_entry_Some intro!: extends_update assms(2))

lemma tracked_state: "moves (history_of ports p uid) (set_state p state)"
  unfolding set_state_def by (intro tracked_update) (auto simp: kept_entry_def borrowed_part_def)

lemma tracked_persist: "moves (history_of ports p uid) (persist_sharing ports')"
  unfolding persist_sharing_def by (intro tracking.moves_own tracking.moves_steps)

lemmas tracked_with_entry = moves_with_entry [OF tracking.object_contract_axioms]

lemma tracked_current: "moves (history_of ports p uid) (current_sharing ports' q)"
  unfolding current_sharing_def by (intro tracking.moves_seq tracking.moves_bnd tracking.moves_steps tracking.moves_own tracked_with_entry)

lemma tracked_finish: "moves (history_of ports p uid) (finish_entry ports' p)"
  unfolding finish_entry_def by (intro tracking.moves_seq tracked_state tracked_persist)

lemma tracked_submit: "be_provider e = p \<Longrightarrow> moves (history_of ports p (be_uid e)) (submit_write ports e r spec)"
proof -
  assume p: "be_provider e = p"
  have stored: "moves (history_of ports p (be_uid e)) (record_write p spec after)"
    if "sp_read ports p w = (Inr after, w')" "written_back ports e spec after" for after w w'
  proof -
    have "object_uid (sn_object after) = Some (be_uid e)" "\<exists>g. object_generation (sn_object after) = Some g"
      "spec_text (sp_compare ports) (sn_object after) = Some (text_of_spec ports spec)"
      using that(2) by (auto simp: written_back_def next_generation_def dest!: strict_opt_Some split: jsval.splits)
    then have "read_as ports p (be_uid e) (the (object_generation (sn_object after))) spec"
      using returnsI [of "sp_read ports p", OF that(1)] by (auto simp: read_as_def)
    then show ?thesis unfolding record_write_def by (intro tracked_update) (auto simp: kept_entry_def borrowed_part_def)
  qed
  show ?thesis unfolding submit_write_def Let_def released_after_def p
    by (intro tracking.moves_seq tracking.moves_catch tracking.moves_read tracking.moves_checked tracking.moves_if tracking.moves_bnd tracking.moves_steps
        tracked_state tracked_persist tracked_current stored) assumption+
qed

lemmas historic_with_entry = moves_with_entry [OF historic.object_contract_axioms]

lemma historic_persist: "moves (history ports) (persist_sharing ports')"
  unfolding persist_sharing_def by (intro historic.moves_own historic.moves_steps)

lemma historic_state: "moves (history ports) (set_state p state)"
  unfolding set_state_def
  by (intro historic.moves_assign) (auto simp: history_def journal_providers_update kept_entry_def borrowed_part_def intro!: extends_update)

lemma historic_current: "moves (history ports) (current_sharing ports' q)"
  unfolding current_sharing_def by (intro historic.moves_seq historic.moves_bnd historic.moves_steps historic.moves_own historic_with_entry)

lemma historic_finish: "moves (history ports) (finish_entry ports' p)"
  unfolding finish_entry_def by (intro historic.moves_seq historic_state historic_persist)

lemma historic_write: "moves (history ports) (write_entry ports p r)"
  unfolding write_entry_def by (intro historic_entry) (auto split: sum.split intro: tracking.moves_steps tracked_submit)

lemma historic_change: "moves (history ports) (change_sharing ports p mode n backend)"
  unfolding change_sharing_def
  by (intro historic.moves_seq historic.moves_bnd historic.moves_steps historic.moves_own historic_current historic_write)

lemma historic_reset: "moves (history ports) (reset_defaults ports e defaults)"
  unfolding reset_defaults_def Let_def
  by (intro historic.moves_seq historic.moves_bnd historic.moves_steps historic.moves_own historic_write
      moves_poll_act [OF historic.object_contract_axioms] historic_current)

lemma historic_restore_entry: "moves (history ports) (restore_entry ports p)"
  unfolding restore_entry_def restore_changed_def Let_def
  by (intro historic_with_entry historic.moves_if historic.moves_seq historic.moves_bnd historic.moves_steps historic.moves_option
      historic_finish historic_current historic_reset historic_change moves_attempts [OF historic.object_contract_axioms])

lemma historic_over: "(\<And>p. moves (history ports) (f p)) \<Longrightarrow> moves (history ports) (over_entries f ps)"
  by (induction ps rule: rev_induct) (auto simp: over_entries_snoc over_entries_Nil intro: historic.moves_seq historic.moves_steps)

lemma historic_reconcile: "moves (history ports) (reconcile_entry ports p)"
  unfolding reconcile_entry_def
  by (intro historic_with_entry historic.moves_if historic.moves_seq historic.moves_bnd historic.moves_steps historic_current historic_state historic_persist)

lemma historic_borrow: "moves (history ports) (borrow ports p)"
proof -
  have add: "obj_leads t (assign (add_entry (new_entry p v spec))) (history ports t)"
    if "p \<notin> set (journal_providers t)" "borrowable t p v" "sp_read ports p w = (Inr v, w')" "spec_of (object_spec (sn_object v)) = Some spec"
    for t v spec w w'
  proof -
    have uid: "object_uid (sn_object v) = Some (the (object_uid (sn_object v)))"
      "object_generation (sn_object v) = Some (the (object_generation (sn_object v)))"
      using that(2) by (auto simp: borrowable_def truthy_opt_def split: option.splits)
    have spec: "spec_text (sp_compare ports) (sn_object v) = Some (text_of_spec ports spec)"
      using that(4) by (auto simp: spec_of_def spec_text_def text_of_spec_def split: option.splits jsval.splits)
    have "learned_entry ports (new_entry p v spec)"
      using uid spec returnsI [of "sp_read ports p", OF that(3)] by (auto simp: learned_entry_def new_entry_def read_as_def)
    then have "extends ports t (add_entry (new_entry p v spec) t)"
      unfolding extends_def add_entry_def
      by (intro conjI exI [of _ "sd_entries t"] exI [of _ "[new_entry p v spec]"]) (simp_all add: list.rel_refl kept_entry_refl)
    then show ?thesis using that(1) by (auto simp: obj_leads_def history_def add_entry_def journal_providers_def new_entry_def)
  qed
  have rest: "obj_leads t (seq (assign (add_entry (new_entry p v spec))) (persist_sharing ports)) (history ports t)"
    if "p \<notin> set (journal_providers t)" "borrowable t p v" "sp_read ports p w = (Inr v, w')" "spec_of (object_spec (sn_object v)) = Some spec"
    for t v spec w w'
    by (rule obj_seq, rule obj_weaken [OF add [OF that]]) (auto intro: historic.moves_after [OF historic_persist])
  have body: "obj_leads t (seq (requireSafe (borrowable t p v) R_CAPABILITY) (case spec_of (object_spec (sn_object v)) of
       None \<Rightarrow> throw (Other ''TypeError'')
     | Some spec \<Rightarrow> seq (requireSafe (own_setting ports t p v spec) R_CAPABILITY)
        (seq (assign (add_entry (new_entry p v spec))) (persist_sharing ports)))) (history ports t)"
    if "p \<notin> set (journal_providers t)" "sp_read ports p w = (Inr v, w')" for t v w w'
    using rest [OF that(1) _ that(2)]
    by (cases "spec_of (object_spec (sn_object v))") (auto intro!: obj_checked_safe obj_throw historic.contract_refl)
  show ?thesis
    unfolding moves_def borrow_def
    by (intro allI obj_own obj_checked_safe obj_seq obj_via conjI obj_read body historic.contract_refl)
qed

datatype sharing_call = C_borrow string | C_change string string jsval "string option" | C_restore | C_reconcile | C_verify

definition sharing_run :: "'w sharing_ports \<Rightarrow> sharing_call \<Rightarrow> ('w, unit) sharing_act" where
  "sharing_run ports c = (case c of C_borrow p \<Rightarrow> borrow ports p | C_change p mode n backend \<Rightarrow> change_sharing ports p mode n backend
     | C_restore \<Rightarrow> restore_sharing ports | C_reconcile \<Rightarrow> reconcile_sharing ports | C_verify \<Rightarrow> verifyRecoverable ports)"

text \<open>A program that goes on after any error.\<close>

definition sharing_runs :: "'w sharing_ports \<Rightarrow> sharing_call list \<Rightarrow> SharingData \<times> 'w \<Rightarrow> SharingData \<times> 'w" where
  "sharing_runs ports cs s = fold (\<lambda>c s. snd (sharing_run ports c s)) cs s"

lemma historic_run: "moves (history ports) (sharing_run ports c)"
  unfolding sharing_run_def restore_sharing_def reconcile_sharing_def verifyRecoverable_def
  by (cases c) (auto intro!: historic_borrow historic_change historic.moves_own historic_over historic_restore_entry historic_reconcile
    historic_with_entry historic.moves_bnd historic_current historic.moves_steps)

text \<open>
  C24: The journal only grows, and says nothing that was not read. Whatever the server answers and however calls fail,
  after any calls each entry has kept its provider, its UID and the spec and settings that were borrowed; the spec and
  generation it says it wrote last are the old ones, or those of a snapshot that was read with its UID; new entries are
  of providers that were not borrowed yet, with specs that were read.
\<close>

theorem sharing_journal_history:
  assumes "distinct (journal_providers d)" and "sharing_runs ports cs (d, w) = (d', w')"
  shows "distinct (journal_providers d') \<and> d'\<lparr>sd_entries := []\<rparr> = d\<lparr>sd_entries := []\<rparr> \<and>
    (\<exists>kept learned. sd_entries d' = kept @ learned \<and> list_all2 (kept_entry ports) (sd_entries d) kept \<and> list_all (learned_entry ports) learned)"
proof -
  have "history ports d (fst (sharing_runs ports cs (d, w)))"
  proof (induction cs rule: rev_induct)
    case Nil
    then show ?case by (simp add: sharing_runs_def historic.contract_refl)
  next
    case (snoc c cs)
    obtain t v where first: "sharing_runs ports cs (d, w) = (t, v)" by (metis surj_pair)
    obtain r t' v' where last: "sharing_run ports c (t, v) = (r, (t', v'))" by (metis surj_pair)
    have "history ports d t'" using snoc first movesD [OF historic_run last] by (auto intro: historic.contract_trans)
    then show ?case using first last by (simp add: sharing_runs_def)
  qed
  then show ?thesis using assms by (simp add: history_def extends_def)
qed

subsection \<open>A concrete sharing API\<close>

text \<open>The world is the spec of one provider's object, its generation and the sharing in force; the clock stands still.\<close>

record hub =
  hub_spec :: "jsval obj"
  hub_generation :: int
  hub_mode :: string
  hub_maxModels :: jsval

definition hub_snapshot :: "string \<Rightarrow> hub \<Rightarrow> SharingSnapshot" where
  "hub_snapshot p h = \<lparr>sn_object = JObj [(''metadata'', JObj [(''uid'', JStr ''u1''), (''generation'', JInt (hub_generation h)), (''resourceVersion'', JStr ''r1'')]),
       (''spec'', JObj (hub_spec h))],
     sn_state = \<lparr>gs_provider = p, gs_backend = ''dra'', gs_mode = hub_mode h, gs_managed = True, gs_maxModels = hub_maxModels h, gs_nodeName = ''n'',
       gs_nodeUid = ''nu'', gs_expectedRevision = ''r1'', gs_available = True, gs_phase = ''Ready''\<rparr>\<rparr>"

definition hub_apply :: "GpuSharingRequest \<Rightarrow> hub \<Rightarrow> (js_error + unit) \<times> hub" where
  "hub_apply r h = (case sharingSpec (hub_spec h) r of
     Inl e \<Rightarrow> (Inl e, h)
   | Inr spec \<Rightarrow> (Inr (), \<lparr>hub_spec = spec, hub_generation = hub_generation h + 1, hub_mode = gr_mode r, hub_maxModels = gr_maxModels r\<rparr>))"

definition hub_ports :: "hub sharing_ports" where
  "hub_ports = \<lparr>sp_read = (\<lambda>p. gets (hub_snapshot p)), sp_apply = hub_apply, sp_held = ret (), sp_write = (\<lambda>_. ret ()), sp_create = (\<lambda>_. ret ()),
     sp_stored = throw (Other ''ENOENT''), sp_stage = (\<lambda>_. ret ()),
     sp_clock = \<lparr>pe_now = (\<lambda>h. (0, h)), pe_wait = (\<lambda>_. ret ()), pe_check = ret ()\<rparr>, sp_compare = (\<lambda>_ _. 0)\<rparr>"

definition hub_journal :: SharingData where
  "hub_journal = \<lparr>sd_runId = ''reg'', sd_targetUid = ''t'', sd_nodeName = ''n'', sd_nodeUid = ''nu'', sd_entries = []\<rparr>"

definition hub_start :: hub where
  "hub_start = snd (hub_apply (sharing_request hub_journal (sn_state (hub_snapshot ''amd''
     \<lparr>hub_spec = [], hub_generation = 0, hub_mode = ''exclusive'', hub_maxModels = JInt 2\<rparr>)) ''exclusive'' (JInt 2))
     \<lparr>hub_spec = [(''enabled'', JBool True)], hub_generation = 0, hub_mode = ''exclusive'', hub_maxModels = JInt 2\<rparr>)"

definition hub_shared :: "SharingData \<times> hub" where
  "hub_shared = sharing_runs hub_ports [C_borrow ''amd'', C_change ''amd'' ''shared'' (JInt 4) None] (hub_journal, hub_start)"

lemma hub_shared_entries: "map (\<lambda>e. (be_provider e, be_generation e, be_state e)) (sd_entries (fst hub_shared)) = [(''amd'', JInt 2, E_borrowed)]"
  by code_simp

lemma hub_shared_providers: "journal_providers (fst hub_shared) = [''amd'']"
  by code_simp

theorem sharing_journal_history_witness:
  "\<exists>e. sd_entries (fst hub_shared) = [e] \<and> be_generation e = JInt 2 \<and> learned_entry hub_ports e"
proof -
  have start: "distinct (journal_providers hub_journal)" "sd_entries hub_journal = []" by code_simp+
  have "sharing_runs hub_ports [C_borrow ''amd'', C_change ''amd'' ''shared'' (JInt 4) None] (hub_journal, hub_start) = (fst hub_shared, snd hub_shared)"
    by (simp add: hub_shared_def)
  from sharing_journal_history [OF start(1) this] start(2) hub_shared_entries show ?thesis by (auto simp: map_eq_Cons_conv)
qed

text \<open>A setting that was borrowed and not changed.\<close>

definition hub_entry :: "jsval obj \<Rightarrow> BorrowedEntry" where
  "hub_entry spec = \<lparr>be_provider = ''amd'', be_uid = JStr ''u1'', be_originalSpec = spec, be_originalMode = ''exclusive'', be_originalCount = JInt 2,
     be_originalBackend = Some ''device-plugin'', be_originalDefaults = None, be_generation = JInt 1, be_lastSpec = spec, be_state = E_borrowed\<rparr>"

definition hub_borrowed :: SharingData where
  "hub_borrowed = hub_journal\<lparr>sd_entries := [hub_entry [(''parameters'', JObj [(''gpuSharing'', JStr ''x'')])]]\<rparr>"

definition hub_idle :: hub where
  "hub_idle = \<lparr>hub_spec = [(''parameters'', JObj [(''gpuSharing'', JStr ''x'')])], hub_generation = 1, hub_mode = ''exclusive'', hub_maxModels = JInt 2\<rparr>"

lemma hub_restores: "fst (bnd (current_sharing hub_ports ''amd'') (\<lambda>_. finish_entry hub_ports ''amd'') (hub_borrowed, hub_idle)) = Inr ()"
  by code_simp


definition silent_ports :: "hub sharing_ports" where
  "silent_ports = hub_ports\<lparr>sp_apply := (\<lambda>r. bnd (hub_apply r) (\<lambda>_. throw (hard R_API)))\<rparr>"

definition hub_request :: GpuSharingRequest where
  "hub_request = sharing_request hub_borrowed (sn_state (hub_snapshot ''amd'' hub_idle)) ''shared'' (JInt 8)"

definition hub_wanted :: "jsval obj" where
  "hub_wanted = [(''parameters'', JObj [(''gpuSharing'', JStr (setting_text hub_request)), (''validationRequest'', JStr [])])]"

theorem sharing_ambiguous_stays_pending_witness:
  "\<exists>e d' h. lent_entry hub_borrowed ''amd'' = Some e \<and> lent_entry d' ''amd'' = Some (e\<lparr>be_state := E_pending\<rparr>) \<and>
     snd (write_entry silent_ports ''amd'' hub_request (hub_borrowed, hub_idle)) = (d', h)"
proof -
  let ?e = "hub_entry [(''parameters'', JObj [(''gpuSharing'', JStr ''x'')])]"
  have e: "lent_entry hub_borrowed ''amd'' = Some ?e" by (simp add: lent_entry_def hub_borrowed_def hub_entry_def)
  have spec: "sharingSpec (be_lastSpec ?e) hub_request = Inr hub_wanted"
    by (simp add: sharingSpec_def hub_request_def sharing_request_def hub_entry_def hub_snapshot_def hub_wanted_def object_fields_def oget_def Let_def)
  have "text_of_spec silent_ports hub_wanted \<noteq> text_of_spec silent_ports (be_lastSpec ?e)" by code_simp
  moreover have "apply_ambiguous silent_ports hub_request"
    by (auto simp: apply_ambiguous_def silent_ports_def hub_apply_def bnd_def throw_def sharingSpec_def hub_request_def sharing_request_def
        sharing_rejected_def mkHarnessError_def Let_def)
  moreover obtain res d' h where run: "write_entry silent_ports ''amd'' hub_request (hub_borrowed, hub_idle) = (res, (d', h))" by (metis surj_pair)
  ultimately show ?thesis using sharing_ambiguous_stays_pending [OF e spec _ _ run] e run by auto
qed

end
