(* ===== verification/Request_Guards.thy ===== *)
theory Request_Guards
  imports Api_Client Borrowing
begin

text \<open>
  What the harness lets out to the dashboard: the exact requests that the guarded browser context of a run forwards and
  its session (\<open>regression/core/auth.ts\<close>), the read-only transport (\<open>transport.ts\<close>) and the transport of the
  preparation (\<open>preparation-api.ts\<close>). URLs are parsed by a parameter; a request body is the parsed JSON value. The
  automation of the sign-in pages is a parameter.
\<close>

subsection \<open>Exact requests\<close>

record ExactDashboardRequest =
  ed_method :: string
  ed_path :: string
  ed_body :: jsval
  ed_mutating :: "bool option"

text \<open>\<open>Object.fromEntries(Object.keys(source).sort().map(\<dots>))\<close>\<close>

definition by_name :: "string \<times> jsval \<Rightarrow> string \<times> jsval \<Rightarrow> int" where
  "by_name a b = (if fst a < fst b then -1 else if fst b < fst a then 1 else 0)"

fun canonicalJson :: "jsval \<Rightarrow> jsval" where
  "canonicalJson (JArr xs) = JArr (map canonicalJson xs)"
| "canonicalJson (JObj ob) = JObj (sort_by by_name (map (\<lambda>(k, v). (k, canonicalJson v)) ob))"
| "canonicalJson v = v"

text \<open>\<open>url.origin === origin && !url.search && !url.hash\<close>\<close>

definition plain_at :: "url \<Rightarrow> string \<Rightarrow> bool" where
  "plain_at url origin \<longleftrightarrow> u_origin url = origin \<and> u_search url = [] \<and> u_hash url = []"

definition allowedExactDashboardRequest :: "url \<Rightarrow> string \<Rightarrow> jsval \<Rightarrow> string \<Rightarrow> ExactDashboardRequest list \<Rightarrow> ExactDashboardRequest option" where
  "allowedExactDashboardRequest url meth body origin expected =
     (if plain_at url origin
      then find (\<lambda>item. ed_method item = meth \<and> ed_path item = u_pathname url \<and>
        stringify (canonicalJson (ed_body item)) = stringify (canonicalJson body)) expected
      else None)"

subsection \<open>Requests on resources of the run\<close>

text \<open>A name or UID that is present and not empty.\<close>

definition given :: "string option \<Rightarrow> bool" where
  "given x \<longleftrightarrow> x \<noteq> None \<and> x \<noteq> Some []"

text \<open>\<open>/^generation:[^:]+:[1-9]\d*$/\<close> and \<open>revision.split(':')[1] === uid\<close>\<close>

definition revision_of :: "string \<Rightarrow> string \<Rightarrow> bool" where
  "revision_of uid s \<longleftrightarrow> (case split_on CHR '':'' s of
     [g, u, d] \<Rightarrow> g = ''generation'' \<and> u \<noteq> [] \<and> d \<noteq> [] \<and> hd d \<noteq> CHR ''0'' \<and> list_all is_digit d \<and> u = uid
   | _ \<Rightarrow> False)"

definition ownedRevision :: "jsval \<Rightarrow> string option \<Rightarrow> bool" where
  "ownedRevision body uid \<longleftrightarrow> given uid \<and> is_object body \<and> string_such (revision_of (the uid)) (jget body ''expectedRevision'')"

definition model_path :: "string option \<Rightarrow> string \<Rightarrow> string" where
  "model_path name rest = ''/api/models/'' @ encodeURIComponent (the name) @ rest"

definition allowedOwnedStop :: "url \<Rightarrow> string \<Rightarrow> jsval \<Rightarrow> string \<Rightarrow> string option \<Rightarrow> string option \<Rightarrow> bool" where
  "allowedOwnedStop url meth body origin name uid \<longleftrightarrow> given name \<and> given uid \<and> plain_at url origin \<and> meth = ''POST'' \<and>
     u_pathname url = model_path name ''/stop'' \<and> is_object body \<and> length (keys_of body) = 1 \<and>
     string_such (revision_of (the uid)) (jget body ''expectedRevision'')"

definition allowedOwnedStart :: "url \<Rightarrow> string \<Rightarrow> jsval \<Rightarrow> string \<Rightarrow> string option \<Rightarrow> string option \<Rightarrow> bool" where
  "allowedOwnedStart url meth body origin name uid \<longleftrightarrow> given name \<and> plain_at url origin \<and> meth = ''POST'' \<and>
     u_pathname url = model_path name ''/start'' \<and> ownedRevision body uid \<and> length (keys_of body) = 1"

definition is_key_name :: "string \<Rightarrow> bool" where
  "is_key_name = first_then (\<lambda>c. is_lower c \<or> is_digit c) 0 62 (\<lambda>c. is_lower c \<or> is_digit c \<or> c = CHR ''-'')"

definition is_key_id :: "string \<Rightarrow> bool" where
  "is_key_id = chars_between 16 256 (is_alnum_or ''._:-'')"

definition allowedOwnedKeyChange :: "url \<Rightarrow> string \<Rightarrow> jsval \<Rightarrow> string \<Rightarrow> string option \<Rightarrow> string option \<Rightarrow> bool" where
  "allowedOwnedKeyChange url meth body origin name ident \<longleftrightarrow> plain_at url origin \<and>
     (if meth = ''POST''
      then given name \<and> is_key_name (the name) \<and> u_pathname url = ''/api/api-access'' \<and> is_object body \<and> length (keys_of body) = 1 \<and>
        jget body ''name'' = Some (JStr (the name))
      else meth = ''DELETE'' \<and> given ident \<and> is_key_id (the ident) \<and>
        u_pathname url = ''/api/api-access/'' @ encodeURIComponent (the ident) \<and> body = JNull)"

definition safe_integer :: "int option \<Rightarrow> bool" where
  "safe_integer n \<longleftrightarrow> isSafeInteger (map_option JInt n)"

definition context_fields :: "jsval option \<Rightarrow> int \<Rightarrow> bool" where
  "context_fields local window \<longleftrightarrow> (case local of
     Some (JObj ob) \<Rightarrow> oget ob ''contextWindow'' = Some (JInt window) \<and>
       (length ob = 1 \<or> length ob = 2 \<and> oget ob ''allowMemoryRisk'' = Some (JBool True))
   | _ \<Rightarrow> False)"

definition allowedOwnedContextEdit :: "url \<Rightarrow> string \<Rightarrow> jsval \<Rightarrow> string \<Rightarrow> string option \<Rightarrow> string option \<Rightarrow> int option \<Rightarrow> bool" where
  "allowedOwnedContextEdit url meth body origin name uid window \<longleftrightarrow> given name \<and> safe_integer window \<and> plain_at url origin \<and>
     meth = ''PUT'' \<and> u_pathname url = model_path name [] \<and> ownedRevision body uid \<and> length (keys_of body) = 2 \<and>
     context_fields (jget body ''local'') (the window)"

definition estimate_keys :: "string list" where
  "estimate_keys = [''contextWindow'', ''cpuOffloading'', ''kvCacheType'', ''maxNumSeqs'', ''maxOutputTokens'', ''memoryRequiredMi'', ''modelType'']"

definition allowedOwnedEstimate :: "url \<Rightarrow> string \<Rightarrow> jsval \<Rightarrow> string \<Rightarrow> string option \<Rightarrow> string option \<Rightarrow> int option \<Rightarrow> bool" where
  "allowedOwnedEstimate url meth body origin name uid memoryMi \<longleftrightarrow> given name \<and> given uid \<and> safe_integer memoryMi \<and> plain_at url origin \<and>
     meth = ''POST'' \<and> u_pathname url = model_path name ''/estimate-memory'' \<and> is_object body \<and> exact_keys estimate_keys body \<and>
     jget body ''modelType'' = Some (JStr ''chat'') \<and> jget body ''cpuOffloading'' = Some (JBool False) \<and> jget body ''maxNumSeqs'' = Some (JInt 1) \<and>
     jget body ''memoryRequiredMi'' = Some (JInt (the memoryMi)) \<and> int_between 0 4096 (jget body ''contextWindow'') \<and>
     string_such (\<lambda>s. length s \<le> 16) (jget body ''kvCacheType'') \<and>
     (jget body ''maxOutputTokens'' = Some JNull \<or> int_between 1 4096 (jget body ''maxOutputTokens''))"

subsection \<open>The guarded browser context\<close>

text \<open>What the callbacks of \<open>RealLoginOptions\<close> answer when a request is routed.\<close>

record login_options =
  lo_stopName :: "string option"
  lo_stopUid :: "string option"
  lo_start :: bool
  lo_editContextWindow :: "int option"
  lo_estimateMemoryMi :: "int option"
  lo_keyName :: "string option"
  lo_keyId :: "string option"
  lo_requests :: "ExactDashboardRequest list"
  lo_inferenceOrigin :: "string option"

record login_origins =
  og_dashboard :: string
  og_identity :: string

text \<open>A request of the page; \<open>None\<close> is a body that is not JSON, JSON \<open>null\<close> an absent body.\<close>

record guarded_request =
  pr_url :: url
  pr_method :: string
  pr_body :: "jsval option"

definition reads_only :: "string \<Rightarrow> bool" where
  "reads_only meth \<longleftrightarrow> meth \<in> {''GET'', ''HEAD'', ''OPTIONS''}"

definition dashboard_write :: "login_origins \<Rightarrow> guarded_request \<Rightarrow> bool" where
  "dashboard_write origins r \<longleftrightarrow> u_origin (pr_url r) = og_dashboard origins \<and> \<not> reads_only (pr_method r)"

definition allowed_mutation :: "login_origins \<Rightarrow> login_options \<Rightarrow> guarded_request \<Rightarrow> bool" where
  "allowed_mutation origins opts r \<longleftrightarrow> (case pr_body r of None \<Rightarrow> False | Some body \<Rightarrow>
     (let url = pr_url r; meth = pr_method r; site = og_dashboard origins; name = lo_stopName opts; uid = lo_stopUid opts
      in allowedOwnedStop url meth body site name uid \<or> lo_start opts \<and> allowedOwnedStart url meth body site name uid \<or>
         allowedOwnedContextEdit url meth body site name uid (lo_editContextWindow opts) \<or>
         allowedOwnedKeyChange url meth body site (lo_keyName opts) (lo_keyId opts)))"

definition allowed_estimate :: "login_origins \<Rightarrow> login_options \<Rightarrow> guarded_request \<Rightarrow> bool" where
  "allowed_estimate origins opts r \<longleftrightarrow> (case pr_body r of None \<Rightarrow> False | Some body \<Rightarrow>
     allowedOwnedEstimate (pr_url r) (pr_method r) body (og_dashboard origins) (lo_stopName opts) (lo_stopUid opts) (lo_estimateMemoryMi opts))"

definition exact_request :: "login_origins \<Rightarrow> login_options \<Rightarrow> guarded_request \<Rightarrow> ExactDashboardRequest option" where
  "exact_request origins opts r = (case pr_body r of None \<Rightarrow> None | Some body \<Rightarrow>
     allowedExactDashboardRequest (pr_url r) (pr_method r) body (og_dashboard origins) (lo_requests opts))"

definition known_origins :: "login_origins \<Rightarrow> login_options \<Rightarrow> string set" where
  "known_origins origins opts = set ([og_dashboard origins, og_identity origins] @
     (case lo_inferenceOrigin opts of Some og \<Rightarrow> if og = [] then [] else [og] | None \<Rightarrow> []))"

definition blocked_by_policy :: "login_origins \<Rightarrow> login_options \<Rightarrow> guarded_request \<Rightarrow> bool" where
  "blocked_by_policy origins opts r \<longleftrightarrow> u_origin (pr_url r) \<notin> known_origins origins opts \<or>
     Some (u_origin (pr_url r)) = lo_inferenceOrigin opts \<and> \<not> reads_only (pr_method r) \<or>
     dashboard_write origins r \<and> \<not> allowed_mutation origins opts r \<and> \<not> allowed_estimate origins opts r \<and> exact_request origins opts r = None"

text \<open>Whether the lease must be asserted before the request is forwarded.\<close>

definition needs_lease :: "login_origins \<Rightarrow> login_options \<Rightarrow> guarded_request \<Rightarrow> bool" where
  "needs_lease origins opts r \<longleftrightarrow> allowed_mutation origins opts r \<or>
     (case exact_request origins opts r of None \<Rightarrow> False | Some item \<Rightarrow> ed_mutating item \<noteq> Some False)"

datatype routed = Aborted | Reported | Forwarded

text \<open>\<open>signed_in\<close> is the session of the context: its \<open>signingIn\<close>, or none before the first sign-in has ended.\<close>

definition route_request :: "login_origins \<Rightarrow> login_options \<Rightarrow> bool option \<Rightarrow> ('w, js_error, unit) act option \<Rightarrow> guarded_request \<Rightarrow> ('w, js_error, routed) act" where
  "route_request origins opts signed_in assertMutationAllowed r =
     (if dashboard_write origins r \<and> signed_in \<noteq> Some False then ret Aborted
      else if blocked_by_policy origins opts r then ret (if dashboard_write origins r then Reported else Aborted)
      else if needs_lease origins opts r
      then (case assertMutationAllowed of None \<Rightarrow> ret Forwarded | Some m \<Rightarrow> catch (seq m (ret Forwarded)) (\<lambda>_. ret Aborted))
      else ret Forwarded)"

subsection \<open>The session\<close>

record login_actor =
  la_subject :: string
  la_role :: string

definition expected_role :: "string \<Rightarrow> login_actor option \<Rightarrow> string" where
  "expected_role role actor = (case actor of None \<Rightarrow> role | Some a \<Rightarrow> la_role a)"

text \<open>\<open>session.roles.includes(role)\<close>\<close>

definition has_role :: "jsval \<Rightarrow> string \<Rightarrow> bool" where
  "has_role session role \<longleftrightarrow> (case array_items (jget session ''roles'') of None \<Rightarrow> False | Some xs \<Rightarrow> JStr role \<in> set xs)"

definition verifySession :: "jsval \<Rightarrow> string \<Rightarrow> string \<Rightarrow> login_actor option \<Rightarrow> string option \<Rightarrow> bool" where
  "verifySession session username role actor subject \<longleftrightarrow>
     truthy_opt (jget session ''subject'') \<and> jget session ''username'' = Some (JStr username) \<and> has_role session (expected_role role actor) \<and>
     (case actor of None \<Rightarrow> True | Some a \<Rightarrow> jget session ''subject'' = Some (JStr (la_subject a))) \<and>
     (given subject \<longrightarrow> jget session ''subject'' = Some (JStr (the subject))) \<and>
     (expected_role role actor = ''magicstick-admin'' \<or> \<not> has_role session ''magicstick-admin'' \<and>
       (expected_role role actor = ''magicstick-operator'' \<or> \<not> has_role session ''magicstick-operator''))"

record RunnerSession =
  rs_username :: string
  rs_role :: string
  rs_actor :: "login_actor option"
  rs_subject :: string
  rs_signingIn :: bool
  rs_failure :: "js_error option"

record 'w session_ports =
  es_session :: "('w, js_error, jsval) act"
  es_signIn :: "('w, js_error, jsval) act"
  es_close :: "('w, js_error, unit) act"

abbreviation session_lost :: js_error where
  "session_lost \<equiv> Harness (mkHarnessError R_AUTH (Some Failed) (Some S_login_session) None)"

definition expired_error :: "js_error \<Rightarrow> bool" where
  "expired_error e \<longleftrightarrow> (case e of Harness h \<Rightarrow> he_class h = DashboardSessionExpired | Other m \<Rightarrow> False)"

definition auth_error :: "js_error \<Rightarrow> bool" where
  "auth_error e \<longleftrightarrow> (case e of Harness h \<Rightarrow> he_code h = R_AUTH | Other m \<Rightarrow> False)"

text \<open>\<open>try { session = await dashboardSignIn(\<dots>, true) } finally { signingIn = false }\<close>\<close>

definition renew_session :: "'w session_ports \<Rightarrow> (RunnerSession, 'w, jsval) obj_act" where
  "renew_session ports = seq (assign (\<lambda>r. r\<lparr>rs_signingIn := True\<rparr>))
     (catch (bnd (via (es_signIn ports)) (\<lambda>v. seq (assign (\<lambda>r. r\<lparr>rs_signingIn := False\<rparr>)) (ret v)))
       (\<lambda>e. seq (assign (\<lambda>r. r\<lparr>rs_signingIn := False\<rparr>)) (throw e)))"

definition read_session :: "'w session_ports \<Rightarrow> (RunnerSession, 'w, jsval) obj_act" where
  "read_session ports = catch (via (es_session ports)) (\<lambda>e. if expired_error e then renew_session ports else throw e)"

definition checked_session :: "'w session_ports \<Rightarrow> (RunnerSession, 'w, unit) obj_act" where
  "checked_session ports = bnd (read_session ports) (\<lambda>session. bnd own (\<lambda>r.
     if verifySession session (rs_username r) (rs_role r) (rs_actor r) (Some (rs_subject r)) then ret () else throw session_lost))"

text \<open>The receipt of the context has no pending check: calls that find one await it.\<close>

definition ensureDashboardSession :: "'w session_ports \<Rightarrow> (RunnerSession, 'w, unit) obj_act" where
  "ensureDashboardSession ports = bnd own (\<lambda>r. case rs_failure r of
     Some e \<Rightarrow> throw e
   | None \<Rightarrow> catch (checked_session ports) (\<lambda>e.
       if auth_error e
       then seq (assign (\<lambda>r. r\<lparr>rs_failure := Some e\<rparr>)) (seq (catch (via (es_close ports)) (\<lambda>_. ret ())) (throw e))
       else throw e))"

subsection \<open>What the guarded context forwards\<close>

text \<open>A write that the run announced or that is about its own model or key.\<close>

definition about_owned_model :: "login_options \<Rightarrow> url \<Rightarrow> string \<Rightarrow> jsval \<Rightarrow> bool" where
  "about_owned_model opts url meth body \<longleftrightarrow> given (lo_stopName opts) \<and> given (lo_stopUid opts) \<and>
     (meth = ''POST'' \<and> u_pathname url \<in> {model_path (lo_stopName opts) ''/stop'', model_path (lo_stopName opts) ''/start''} \<or>
      meth = ''PUT'' \<and> u_pathname url = model_path (lo_stopName opts) []) \<and>
     string_such (revision_of (the (lo_stopUid opts))) (jget body ''expectedRevision'')"

definition about_owned_key :: "login_options \<Rightarrow> url \<Rightarrow> string \<Rightarrow> jsval \<Rightarrow> bool" where
  "about_owned_key opts url meth body \<longleftrightarrow>
     meth = ''POST'' \<and> u_pathname url = ''/api/api-access'' \<and> given (lo_keyName opts) \<and> jget body ''name'' = map_option JStr (lo_keyName opts) \<or>
     meth = ''DELETE'' \<and> given (lo_keyId opts) \<and> u_pathname url = ''/api/api-access/'' @ encodeURIComponent (the (lo_keyId opts))"

definition announced :: "login_options \<Rightarrow> url \<Rightarrow> string \<Rightarrow> jsval \<Rightarrow> ExactDashboardRequest \<Rightarrow> bool" where
  "announced opts url meth body item \<longleftrightarrow> item \<in> set (lo_requests opts) \<and> ed_method item = meth \<and> ed_path item = u_pathname url \<and>
     stringify (canonicalJson (ed_body item)) = stringify (canonicalJson body)"

lemma allowed_mutation_about:
  assumes "allowed_mutation origins opts r"
  shows "\<exists>body. pr_body r = Some body \<and> plain_at (pr_url r) (og_dashboard origins) \<and>
    (about_owned_model opts (pr_url r) (pr_method r) body \<or> about_owned_key opts (pr_url r) (pr_method r) body)"
proof -
  obtain body where body: "pr_body r = Some body" using assms by (auto simp: allowed_mutation_def split: option.splits)
  have key: "about_owned_key opts (pr_url r) (pr_method r) body \<and> plain_at (pr_url r) (og_dashboard origins)"
    if "allowedOwnedKeyChange (pr_url r) (pr_method r) body (og_dashboard origins) (lo_keyName opts) (lo_keyId opts)"
  proof (cases "pr_method r = ''POST''")
    case True
    then show ?thesis using that by (auto simp: allowedOwnedKeyChange_def about_owned_key_def given_def)
  next
    case False
    then show ?thesis using that by (simp add: allowedOwnedKeyChange_def about_owned_key_def)
  qed
  from assms consider "allowedOwnedStop (pr_url r) (pr_method r) body (og_dashboard origins) (lo_stopName opts) (lo_stopUid opts)"
    | "allowedOwnedStart (pr_url r) (pr_method r) body (og_dashboard origins) (lo_stopName opts) (lo_stopUid opts)"
    | "allowedOwnedContextEdit (pr_url r) (pr_method r) body (og_dashboard origins) (lo_stopName opts) (lo_stopUid opts) (lo_editContextWindow opts)"
    | "allowedOwnedKeyChange (pr_url r) (pr_method r) body (og_dashboard origins) (lo_keyName opts) (lo_keyId opts)"
    unfolding allowed_mutation_def body by (auto simp: Let_def)
  then show ?thesis
    by cases (use body key in \<open>simp_all add: about_owned_model_def allowedOwnedStop_def allowedOwnedStart_def allowedOwnedContextEdit_def ownedRevision_def\<close>)
qed


subsection \<open>The verified session\<close>

definition same_receipt :: "RunnerSession \<Rightarrow> RunnerSession \<Rightarrow> bool" where
  "same_receipt r r' \<longleftrightarrow> rs_username r' = rs_username r \<and> rs_role r' = rs_role r \<and> rs_actor r' = rs_actor r \<and> rs_subject r' = rs_subject r"

definition keeps_signed_out :: "RunnerSession \<Rightarrow> RunnerSession \<Rightarrow> bool" where
  "keeps_signed_out r r' \<longleftrightarrow> same_receipt r r' \<and> rs_failure r' = rs_failure r \<and> (\<not> rs_signingIn r \<longrightarrow> \<not> rs_signingIn r')"

interpretation receipts: object_contract keeps_signed_out
  by unfold_locales (auto simp: keeps_signed_out_def same_receipt_def)

lemma renew_session_run:
  assumes "renew_session ports (r, w) = (x, (r', w'))"
  shows "keeps_signed_out r r' \<and> (\<forall>v. x = Inr v \<longrightarrow> returns (es_signIn ports) v)"
  using assms by (auto simp: renew_session_def keeps_signed_out_def same_receipt_def seq_def bnd_def catch_def ret_def throw_def
      split: prod.splits sum.splits intro: returnsI)

lemma read_session_run:
  assumes "read_session ports (r, w) = (x, (r', w'))"
  shows "keeps_signed_out r r' \<and> (\<forall>v. x = Inr v \<longrightarrow> returns (es_session ports) v \<or> returns (es_signIn ports) v)"
proof -
  obtain y u where first: "es_session ports w = (y, u)" by (metis surj_pair)
  show ?thesis
  proof (cases y)
    case (Inr v)
    then show ?thesis using assms first by (auto simp: read_session_def catch_def receipts.contract_refl intro: returnsI)
  next
    case (Inl e)
    then show ?thesis using assms first renew_session_run [of ports r u x r' w']
      by (auto simp: read_session_def catch_def throw_def receipts.contract_refl split: if_splits)
  qed
qed

lemma checked_session_run:
  assumes "checked_session ports (r, w) = (x, (r', w'))"
  shows "keeps_signed_out r r' \<and> (x = Inr () \<longrightarrow> (\<exists>v. (returns (es_session ports) v \<or> returns (es_signIn ports) v) \<and>
    verifySession v (rs_username r) (rs_role r) (rs_actor r) (Some (rs_subject r))))"
proof -
  obtain y r1 w1 where first: "read_session ports (r, w) = (y, (r1, w1))" by (metis surj_pair)
  note run = read_session_run [OF first]
  have "rs_username r1 = rs_username r" "rs_role r1 = rs_role r" "rs_actor r1 = rs_actor r" "rs_subject r1 = rs_subject r"
    using run by (simp_all add: keeps_signed_out_def same_receipt_def)
  then show ?thesis using assms first run
    by (cases y) (auto simp: checked_session_def bnd_def ret_def throw_def split: if_splits)
qed

text \<open>
  C23: A check of the session that returns has seen a session of the user, role and subject the run signed in as, read or
  renewed through the normal sign-in; the identity it expects never changes. A lost or changed identity is final: the
  context is closed, and every later check fails at once with the same error and no request.
\<close>

theorem dashboard_session_is_verified:
  assumes "ensureDashboardSession ports (r, w) = (x, (r', w'))" and "\<not> rs_signingIn r"
  shows "same_receipt r r' \<and> \<not> rs_signingIn r' \<and>
    (x = Inr () \<longrightarrow> rs_failure r = None \<and> rs_failure r' = None \<and> (\<exists>v. (returns (es_session ports) v \<or> returns (es_signIn ports) v) \<and>
       verifySession v (rs_username r) (rs_role r) (rs_actor r) (Some (rs_subject r)))) \<and>
    (\<forall>e. x = Inl e \<and> auth_error e \<longrightarrow> rs_failure r' = Some e \<or> rs_failure r = Some e) \<and>
    (\<forall>e v. rs_failure r' = Some e \<longrightarrow> ensureDashboardSession ports (r', v) = (Inl e, (r', v)))"
proof -
  have final: "\<forall>e v. rs_failure r' = Some e \<longrightarrow> ensureDashboardSession ports (r', v) = (Inl e, (r', v))"
    by (simp add: ensureDashboardSession_def bnd_def throw_def)
  show ?thesis
  proof (cases "rs_failure r")
    case (Some e)
    then have "x = Inl e \<and> r' = r" using assms(1) by (auto simp: ensureDashboardSession_def bnd_def throw_def)
    then show ?thesis using final assms(2) Some by (auto simp: same_receipt_def)
  next
    case None
    obtain y r1 w1 where first: "checked_session ports (r, w) = (y, (r1, w1))" by (metis surj_pair)
    note run = checked_session_run [OF first]
    show ?thesis
    proof (cases y)
      case (Inr u)
      then show ?thesis using assms None first run final
        by (auto simp: ensureDashboardSession_def bnd_def catch_def keeps_signed_out_def)
    next
      case (Inl e)
      show ?thesis
      proof (cases "auth_error e")
        case True
        obtain z w2 where "es_close ports w1 = (z, w2)" by (metis surj_pair)
        then have "x = Inl e \<and> r' = r1\<lparr>rs_failure := Some e\<rparr>" using assms(1) None first Inl True
          by (cases z) (auto simp: ensureDashboardSession_def bnd_def seq_def catch_def throw_def ret_def)
        then show ?thesis using assms(2) run final by (auto simp: keeps_signed_out_def same_receipt_def)
      next
        case False
        then have "x = Inl e \<and> r' = r1" using assms(1) None first Inl
          by (auto simp: ensureDashboardSession_def bnd_def catch_def throw_def)
        then show ?thesis using assms(2) run final False by (auto simp: keeps_signed_out_def)
      qed
    qed
  qed
qed

subsection \<open>A concrete run\<close>

definition site_url :: "string \<Rightarrow> url" where
  "site_url path = \<lparr>u_protocol = ''https:'', u_username = [], u_password = [], u_host = ''m'', u_hostname = ''m'', u_port = [], u_pathname = path,
     u_search = [], u_hash = [], u_origin = ''https://m'', u_href = ''https://m'' @ path\<rparr>"

definition site_origins :: login_origins where
  "site_origins = \<lparr>og_dashboard = ''https://m'', og_identity = ''https://id''\<rparr>"

definition site_options :: login_options where
  "site_options = \<lparr>lo_stopName = Some ''reg-a'', lo_stopUid = Some ''u1'', lo_start = False, lo_editContextWindow = None, lo_estimateMemoryMi = None,
     lo_keyName = None, lo_keyId = None, lo_requests = [], lo_inferenceOrigin = None\<rparr>"

definition stop_request :: guarded_request where
  "stop_request = \<lparr>pr_url = site_url ''/api/models/reg-a/stop'', pr_method = ''POST'',
     pr_body = Some (JObj [(''expectedRevision'', JStr ''generation:u1:12'')])\<rparr>"

text \<open>The lease guard counts its calls.\<close>

definition counted :: "(nat, js_error, unit) act" where
  "counted = modify Suc"


definition lobby_ports :: "nat session_ports" where
  "lobby_ports = \<lparr>es_session = throw (Harness ((mkHarnessError R_AUTH (Some Failed) (Some S_login_session) None)\<lparr>he_class := DashboardSessionExpired\<rparr>)),
     es_signIn = (\<lambda>n. (Inr (JObj [(''subject'', JStr (if n = 0 then ''s1'' else ''s2'')), (''username'', JStr ''admin''), (''roles'', JArr [JStr ''magicstick-admin''])]), n + 1)),
     es_close = ret ()\<rparr>"

definition lobby_receipt :: RunnerSession where
  "lobby_receipt = \<lparr>rs_username = ''admin'', rs_role = ''magicstick-admin'', rs_actor = None, rs_subject = ''s1'', rs_signingIn = False, rs_failure = None\<rparr>"

theorem dashboard_session_is_verified_witness:
  "(\<exists>v. verifySession v ''admin'' ''magicstick-admin'' None (Some ''s1'')) \<and>
   (\<exists>r. ensureDashboardSession lobby_ports (lobby_receipt, 1) = (Inl session_lost, (r, 2)) \<and> rs_failure r = Some session_lost)"
proof -
  have first: "ensureDashboardSession lobby_ports (lobby_receipt, 0) = (Inr (), (lobby_receipt, 1))" by code_simp
  have second: "ensureDashboardSession lobby_ports (lobby_receipt, 1) = (Inl session_lost, (lobby_receipt\<lparr>rs_failure := Some session_lost\<rparr>, 2))" by code_simp
  have "\<not> rs_signingIn lobby_receipt" "rs_failure lobby_receipt = None" "auth_error session_lost" by code_simp+
  with dashboard_session_is_verified [OF first] dashboard_session_is_verified [OF second] second show ?thesis
    by (auto simp: lobby_receipt_def)
qed

end
