(* ===== verification/Run_Policy.thy ===== *)
theory Run_Policy
  imports Js_Library Lab_Lease
begin

text \<open>
  The policies that select and fence regression runs: test modes and steps (\<open>core/test-mode.ts\<close>,
  \<open>profiles/selections.ts\<close>), the repository policy and the deferred workflows (\<open>core/lab-policy.ts\<close>,
  \<open>core/engine-policy.ts\<close>), module selection (\<open>core/application-modules.ts\<close>), context sizes of
  applications (\<open>core/application-model.ts\<close>), test layers (\<open>core/evidence.ts\<close>), inventories of repeated runs
  (\<open>core/repeat-inventory.ts\<close>) and the confirmed recovery lock (\<open>core/lock-recovery.ts\<close>).
\<close>

subsection \<open>Repository policy\<close>

definition policy_phases :: "int list" where
  "policy_phases = [0, 1, 2, 3, 4, 5, 6, 7, 8]"

definition disabledExperimentalEngines :: "string list" where
  "disabledExperimentalEngines = [''VLLM-Omni'']"

definition deferredApplicationTests :: "string list" where
  "deferredApplicationTests = [''hermes'']"

definition deferredLiveWorkflows :: "string list" where
  "deferredLiveWorkflows = [''applications'', ''modules'', ''credentials'']"

definition policy_scopes :: "string list" where
  "policy_scopes = [''gpu'', ''identity'', ''kubernetes'', ''license'', ''api-restart'', ''first-license'', ''modules'', ''amd-profile'',
     ''federation'', ''mesh'', ''realtime'', ''cache'', ''reboot'', ''unmanaged-key'', ''host-drills'']"

definition policy_namespace :: string where
  "policy_namespace = ''magicstick-regression''"

definition policy_marker :: string where
  "policy_marker = ''registered-lab''"

definition engineRegressionEnabled :: "string \<Rightarrow> bool" where
  "engineRegressionEnabled engine \<longleftrightarrow> engine \<notin> set disabledExperimentalEngines"

definition realtimeRegressionEnabled :: bool where
  "realtimeRegressionEnabled \<longleftrightarrow> engineRegressionEnabled ''VLLM-Omni''"

definition liveWorkflowEnabled :: "string \<Rightarrow> bool" where
  "liveWorkflowEnabled workflow \<longleftrightarrow> workflow \<notin> set deferredLiveWorkflows"

definition applicationFixtureEnabled :: "string \<Rightarrow> bool" where
  "applicationFixtureEnabled application \<longleftrightarrow> application \<notin> set deferredApplicationTests"

definition applicationRegressionEnabled :: "string \<Rightarrow> bool" where
  "applicationRegressionEnabled application \<longleftrightarrow> liveWorkflowEnabled ''applications'' \<and> applicationFixtureEnabled application"

definition workflowLabels :: "(string \<times> string) list" where
  "workflowLabels =
     [(''applications'', ''phase5/applications-live (deferred to separate regression)''),
      (''modules'', ''phase5/services-live (deferred to separate regression)''),
      (''credentials'', ''phase5/service-credentials-live (deferred to separate regression)'')]"

definition legacyApplicationSteps :: "string list" where
  "legacyApplicationSteps =
     map (\<lambda>application. ''phase5/'' @ application @ ''-live (deferred to separate regression)'') deferredApplicationTests"

definition deferredApplicationSteps :: "int list \<Rightarrow> string list" where
  "deferredApplicationSteps phases =
     (if 5 \<notin> set phases then []
      else map snd (filter (\<lambda>p. \<not> liveWorkflowEnabled (fst p)) workflowLabels) @
        (if liveWorkflowEnabled ''applications'' then legacyApplicationSteps else []))"

definition deferredApplicationStep :: "string \<Rightarrow> bool" where
  "deferredApplicationStep step \<longleftrightarrow> step \<in> set (map snd workflowLabels) \<or> step \<in> set legacyApplicationSteps"

subsection \<open>Test modes and steps\<close>

datatype RegressionTestMode = NonDestructive | Full

definition testMode :: "jsval option \<Rightarrow> RegressionTestMode result" where
  "testMode value = (case value of
     None \<Rightarrow> Inr Full
   | Some v \<Rightarrow> if v = JStr ''full'' then Inr Full
       else if v = JStr ''non-destructive'' then Inr NonDestructive else Inl (hard R_CONFIG))"

definition phaseSteps :: "int \<Rightarrow> string list" where
  "phaseSteps phase =
     (if phase = 0 then [''selftest'', ''preflight'', ''locktest'', ''foundations'', ''preflight'']
      else if phase = 1 then [''selftest'', ''smoke-fast'', ''smoke-fixtures'', ''preflight'', ''session-smoke'', ''core-smoke'', ''preflight'']
      else if phase = 2 then [''selftest'', ''phase2-fast'', ''phase2-fixtures'', ''preflight'', ''phase2-readonly'', ''phase2-models'',
        ''phase2-faults'', ''preflight'']
      else if phase = 3 then [''selftest'', ''phase3-fast'', ''phase3-fixtures'', ''preflight'', ''phase3-gpu'', ''phase3-validation'', ''preflight'']
      else if phase = 4 then [''selftest'', ''phase4-fast'', ''phase4-fixtures'', ''preflight'', ''phase4-sharing'', ''preflight'']
      else if phase = 5 then [''selftest'', ''phase5-fast'', ''phase5-fixtures'', ''preflight'', ''phase5-live'', ''preflight'']
      else if phase = 6 then [''selftest'', ''phase6-fast'', ''phase6-fixtures'', ''preflight'', ''phase6-live'', ''preflight'']
      else if phase = 7 then [''selftest'', ''phase7-fast'', ''phase7-fixtures'', ''preflight'', ''phase7-live'', ''preflight'']
      else if phase = 8 then [''selftest'', ''phase8-fast'', ''phase8-fixtures'', ''preflight'', ''phase8-live'', ''preflight'']
      else [])"

text \<open>\<open>/^(?:smoke|phase[2-8])-(?:fast|fixtures)$/\<close>\<close>

definition isolated_pattern :: "string list" where
  "isolated_pattern = concat (map (\<lambda>family. [family @ ''-fast'', family @ ''-fixtures''])
     (''smoke'' # map (\<lambda>n. ''phase'' @ show_nat n) [2..<9]))"

definition isolatedStep :: "string \<Rightarrow> bool" where
  "isolatedStep step \<longleftrightarrow> step = ''selftest'' \<or> step \<in> set isolated_pattern"

definition selectedSteps :: "int \<Rightarrow> RegressionTestMode \<Rightarrow> string list result" where
  "selectedSteps phase mode = safely (0 \<le> phase \<and> phase \<le> 8) R_CONFIG
     (Inr (case mode of Full \<Rightarrow> phaseSteps phase | NonDestructive \<Rightarrow> filter isolatedStep (phaseSteps phase) @ [''non-destructive-live'']))"

definition excludedSteps :: "RegressionTestMode \<Rightarrow> int list \<Rightarrow> string list result" where
  "excludedSteps mode phases =
     rbind (case mode of Full \<Rightarrow> Inr []
        | NonDestructive \<Rightarrow> traverse (\<lambda>phase. rbind (selectedSteps phase mode) (\<lambda>_.
            Inr (map (\<lambda>step. ''phase'' @ show_int phase @ ''/'' @ step) (filter (\<lambda>step. \<not> isolatedStep step) (phaseSteps phase))))) phases)
     (\<lambda>modeExclusions. Inr (uniques (concat modeExclusions @ deferredApplicationSteps phases)))"

definition requireSafeStep :: "string \<Rightarrow> RegressionTestMode \<Rightarrow> unit result" where
  "requireSafeStep step mode = safely (mode = Full \<or> isolatedStep step \<or> step = ''non-destructive-live'' \<or> step = ''all'' \<or>
     step \<in> set (map (\<lambda>n. ''phase'' @ show_nat n) [0..<9]) \<or> step = ''typecheck'') R_MUTATION (Inr ())"

subsection \<open>Modules and contexts of applications\<close>

definition protectedModule :: "string \<Rightarrow> bool" where
  "protectedModule ident \<longleftrightarrow> ident \<in> {''identity'', ''dashboard'', ''basis'', ''kubeai'', ''gpu'', ''amd-gpu'', ''nvidia-gpu'', ''intel-gpu'', ''litellm'',
     ''private-mesh'', ''model-catalog'', ''magicstick-operator'', ''regression''}"

definition catalog_entry :: "jsval \<Rightarrow> string \<Rightarrow> string \<Rightarrow> jsval option" where
  "catalog_entry modules section ident =
     Option.bind (Option.bind (jget modules ''catalogJson'') (\<lambda>c. jget c section)) (\<lambda>s. jget s ident)"

definition required_modules :: "jsval \<Rightarrow> string \<Rightarrow> string list result" where
  "required_modules modules type =
     (case array_items (Option.bind (catalog_entry modules ''applications'' type) (\<lambda>d. jget d ''requiredModules'')) of
        None \<Rightarrow> Inl (hard R_PREREQUISITE)
      | Some ids \<Rightarrow> traverse (\<lambda>v. let ident = js_to_string v in
          safely (chars_between 1 63 is_name_char ident \<and> truthy_opt (catalog_entry modules ''modules'' ident)) R_CONFIG (Inr ident)) ids)"

definition applicationModuleIds :: "jsval \<Rightarrow> string list \<Rightarrow> string list result" where
  "applicationModuleIds modules types =
     rbind (traverse (required_modules modules) types) (\<lambda>ids. Inr (sort (uniques (concat ids))))"

definition fixtureModuleIds :: "jsval \<Rightarrow> string option \<Rightarrow> string list \<Rightarrow> string list result" where
  "fixtureModuleIds modules moduleId fixtureTypes =
     (let service = (case moduleId of Some m \<Rightarrow> if liveWorkflowEnabled ''modules'' \<and> m \<noteq> [] then [m] else [] | None \<Rightarrow> []);
          types = (if liveWorkflowEnabled ''applications'' then filter applicationRegressionEnabled fixtureTypes else [])
      in rbind (applicationModuleIds modules types) (\<lambda>ids. Inr (uniques (service @ ids))))"

definition contextStep :: int where "contextStep = 256"

definition maximumContext :: int where "maximumContext = 131072"

definition minimum_context :: "jsval \<Rightarrow> jsval" where
  "minimum_context d = (case nullish (jget d ''minimumModelContextTokens'') (Some (JInt 2048)) of Some v \<Rightarrow> v | None \<Rightarrow> JInt 2048)"

definition applicationContexts :: "jsval \<Rightarrow> string list \<Rightarrow> (int \<times> int) result" where
  "applicationContexts modules types =
     (let definitions = map (catalog_entry modules ''applications'') types;
          values = map (\<lambda>d. case d of None \<Rightarrow> JNull | Some x \<Rightarrow> minimum_context x) definitions
      in proven (types \<noteq> [] \<and> list_all truthy_opt definitions) R_PREREQUISITE
        (proven (list_all (\<lambda>v. int_between 256 max_safe (Some v)) values) R_CONFIG
          (let minimum = Max (set (map (\<lambda>v. case v of JInt i \<Rightarrow> i | _ \<Rightarrow> 0) values))
           in safely (minimum + contextStep \<le> maximumContext) R_APPLICATION_MODEL (Inr (minimum, minimum + contextStep)))))"

definition applicationEditContext :: "jsval \<Rightarrow> string list \<Rightarrow> int \<Rightarrow> int result" where
  "applicationEditContext modules types current = rbind (applicationContexts modules types) (\<lambda>(minimum, initial).
     proven (current = minimum \<or> current = initial) R_CONFLICT (Inr (if current = initial then minimum else initial)))"

subsection \<open>Test layers\<close>

datatype TestLayer = L_U | L_C | L_B | L_A | L_E | L_O | L_N

datatype TestEnvironment = Fixture | Live

definition environmentFor :: "TestLayer \<Rightarrow> TestEnvironment" where
  "environmentFor layer = (if layer \<in> {L_U, L_C, L_B} then Fixture else Live)"

definition layer_suffixes :: "(string \<times> TestLayer) list" where
  "layer_suffixes = [(''.unit.spec.ts'', L_U), (''.contract.spec.ts'', L_C), (''.browser.spec.ts'', L_B), (''.api.spec.ts'', L_A), (''.e2e.spec.ts'', L_E)]"

definition fileLayer :: "string \<Rightarrow> TestLayer option" where
  "fileLayer file = map_option snd (find (\<lambda>p. endsWith file (fst p)) layer_suffixes)"

subsection \<open>Inventories of repeated runs\<close>

definition controller_of :: "jsval \<Rightarrow> (jsval \<Rightarrow> bool) \<Rightarrow> jsval option" where
  "controller_of item p = Option.bind (array_items (Option.bind (jget item ''metadata'') (\<lambda>m. jget m ''ownerReferences'')))
     (find (\<lambda>r. truthy_opt (jget r ''controller'') \<and> p r))"

definition item_uid :: "jsval \<Rightarrow> jsval option" where
  "item_uid item = Option.bind (jget item ''metadata'') (\<lambda>m. jget m ''uid'')"

definition pod_identity :: "jsval list \<Rightarrow> jsval \<Rightarrow> string result" where
  "pod_identity replicaSets pod =
     proven (string_such (\<lambda>u. u \<noteq> []) (item_uid pod)) R_API
       (case controller_of pod (\<lambda>_. True) of
          None \<Rightarrow> Inr (''Pod:'' @ text_of (item_uid pod))
        | Some owner \<Rightarrow> proven (string_such (\<lambda>u. u \<noteq> []) (jget owner ''uid'')) R_API
            (let deployment = (if jget owner ''kind'' = Some (JStr ''ReplicaSet'')
                 then Option.bind (find (\<lambda>rs. item_uid rs = jget owner ''uid'') (rev replicaSets))
                   (\<lambda>rs. controller_of rs (\<lambda>r. jget r ''kind'' = Some (JStr ''Deployment'')))
                 else None)
             in Inr (if truthy_opt (Option.bind deployment (\<lambda>d. jget d ''uid''))
                then ''Deployment:'' @ text_of (Option.bind deployment (\<lambda>d. jget d ''uid''))
                else text_of (jget owner ''kind'') @ '':'' @ text_of (jget owner ''uid''))))"

definition workloadPodInventory :: "jsval list \<Rightarrow> jsval list \<Rightarrow> string result" where
  "workloadPodInventory pods replicaSets = rbind (traverse (pod_identity replicaSets) pods) (\<lambda>ids. Inr (join '','' (sort ids)))"

definition inventory_keys :: "string list" where
  "inventory_keys = [''modelIds'', ''podIds'', ''intentIds'', ''claimIds'', ''routeIds'', ''keyIds'']"

definition repeatInventoryChanges :: "(string \<Rightarrow> string) \<Rightarrow> (string \<Rightarrow> string) \<Rightarrow> string list" where
  "repeatInventoryChanges before after = filter (\<lambda>key. before key \<noteq> after key) inventory_keys"

subsection \<open>The confirmed recovery lock\<close>

record RecoveryLock =
  rl_uid :: string
  rl_resourceVersion :: string
  rl_runId :: string
  rl_released :: bool

definition is_uuid_text :: "string \<Rightarrow> bool" where
  "is_uuid_text s \<longleftrightarrow> chars_between 36 36 is_hex_dash s"

definition parseRecoveryLock :: "jsval \<Rightarrow> RecoveryLock result" where
  "parseRecoveryLock v =
     (let released = (jget v ''released'' = Some (JBool True))
      in case (jget v ''uid'', jget v ''resourceVersion'', jget v ''runId'') of
           (Some (JStr uid), Some (JStr rv), Some (JStr runId)) \<Rightarrow>
             safely (exact_keys (if released then [''released'', ''resourceVersion'', ''runId'', ''uid''] else [''resourceVersion'', ''runId'', ''uid'']) v \<and>
               is_uuid_text uid \<and> chars_between 1 32 is_digit rv \<and> is_run_id runId) R_CONFIG
               (Inr \<lparr>rl_uid = uid, rl_resourceVersion = rv, rl_runId = runId, rl_released = released\<rparr>)
         | _ \<Rightarrow> Inl (hard R_CONFIG))"

definition recovery_lock_json :: "RecoveryLock \<Rightarrow> jsval" where
  "recovery_lock_json l = JObj ([(''uid'', JStr (rl_uid l)), (''resourceVersion'', JStr (rl_resourceVersion l)), (''runId'', JStr (rl_runId l))] @
     (if rl_released l then [(''released'', JBool True)] else []))"

text \<open>\<open>annotations?.['regression.magicstick.dev/run-id'] ?? holderIdentity\<close>\<close>

definition lease_run :: "Lease \<Rightarrow> string option" where
  "lease_run l = (case Option.bind (lm_annotations (le_metadata l)) (\<lambda>a. oget a ''regression.magicstick.dev/run-id'') of
     Some r \<Rightarrow> Some r | None \<Rightarrow> lease_holder l)"

definition exactRecoveryLock :: "Lease option \<Rightarrow> RecoveryLock \<Rightarrow> nat \<Rightarrow> unit result" where
  "exactRecoveryLock lease expected now = rbind (parseRecoveryLock (recovery_lock_json expected)) (\<lambda>_.
     case lease of
       None \<Rightarrow> Inl (hard R_CONFLICT)
     | Some l \<Rightarrow>
         safely (lease_uid l = Some (rl_uid expected) \<and> lease_version l = rl_resourceVersion expected \<and> lease_run l = Some (rl_runId expected) \<and>
           (if rl_released expected then no_holder l else \<not> no_holder l)) R_CONFLICT
         (if rl_released expected then Inr ()
          else safely (leaseHolderReason l now = Some R_LOCK_STALE \<and> drained l now) R_LOCK_STALE (Inr ())))"

subsection \<open>Lemmas\<close>

lemma phase_cases: "0 \<le> phase \<Longrightarrow> phase \<le> 8 \<Longrightarrow> phase \<in> set policy_phases"
  unfolding policy_phases_def by simp linarith

lemma contexts_bounds:
  assumes "applicationContexts modules types = Inr (minimum, initial)"
  shows "256 \<le> minimum \<and> initial = minimum + 256 \<and> initial \<le> 131072"
proof -
  let ?vs = "map (\<lambda>d. case d of None \<Rightarrow> JNull | Some x \<Rightarrow> minimum_context x) (map (catalog_entry modules ''applications'') types)"
  let ?ns = "map (\<lambda>v. case v of JInt i \<Rightarrow> i | _ \<Rightarrow> 0) ?vs"
  from assms have ne: "types \<noteq> []" and ok: "list_all (\<lambda>v. int_between 256 max_safe (Some v)) ?vs"
    and m: "minimum = Max (set ?ns)" "minimum + contextStep \<le> maximumContext" "initial = minimum + contextStep"
    by (auto simp: applicationContexts_def Let_def proven_Inr safely_Inr image_image)
  have "Max (set ?ns) \<in> set ?ns" using ne by (intro Max_in) auto
  moreover have "256 \<le> n" if "n \<in> set ?ns" for n
    using that ok by (auto simp: list_all_iff int_between_iff)
  ultimately have "256 \<le> minimum" using m(1) by blast
  with m show ?thesis by (simp add: contextStep_def maximumContext_def)
qed

subsection \<open>Properties\<close>

text \<open>
  The non-destructive mode runs only what it may: each step it selects for a phase passes the guard of
  the mode, and each step of the phase that it leaves out is reported as excluded.
\<close>

theorem non_destructive_steps:
  assumes "selectedSteps phase NonDestructive = Inr steps" and "excludedSteps NonDestructive [phase] = Inr excluded"
  shows "(\<forall>step \<in> set steps. requireSafeStep step NonDestructive = Inr ()) \<and>
    (\<forall>step \<in> set (phaseSteps phase). step \<in> set steps \<or> ''phase'' @ show_int phase @ ''/'' @ step \<in> set excluded)"
proof
  have steps: "steps = filter isolatedStep (phaseSteps phase) @ [''non-destructive-live'']"
    using assms(1) by (simp add: selectedSteps_def safely_Inr)
  then show "\<forall>step \<in> set steps. requireSafeStep step NonDestructive = Inr ()" by (auto simp: requireSafeStep_def safely_Inr)
  show "\<forall>step \<in> set (phaseSteps phase). step \<in> set steps \<or> ''phase'' @ show_int phase @ ''/'' @ step \<in> set excluded"
    using assms(2) unfolding steps by (auto simp: excludedSteps_def result_ok)
qed

theorem non_destructive_steps_witness:
  "\<exists>steps excluded. selectedSteps 2 NonDestructive = Inr steps \<and> excludedSteps NonDestructive [2] = Inr excluded \<and>
     (\<forall>step \<in> set (phaseSteps 2). step \<in> set steps \<or> ''phase'' @ show_int 2 @ ''/'' @ step \<in> set excluded)"
proof -
  obtain steps excluded where "selectedSteps 2 NonDestructive = Inr steps" "excludedSteps NonDestructive [2] = Inr excluded"
    by (simp add: selectedSteps_def excludedSteps_def safely_def)
  with non_destructive_steps [OF this] show ?thesis by blast
qed

text \<open>
  The context edit of an application alternates between two sizes. The size it proposes lies between
  256 and 131072 tokens, differs from the current one by one step, and editing again leads back.
\<close>

theorem application_edit_alternates:
  assumes "applicationEditContext modules types current = Inr next"
  shows "applicationEditContext modules types next = Inr current \<and> \<bar>next - current\<bar> = 256 \<and> 256 \<le> next \<and> next \<le> 131072"
proof -
  obtain m i where c: "applicationContexts modules types = Inr (m, i)"
    and cases: "current = m \<and> next = i \<or> current = i \<and> next = m"
    using assms by (auto simp: applicationEditContext_def result_ok split: if_splits)
  from contexts_bounds [OF c] cases c show ?thesis
    by (auto simp: applicationEditContext_def proven_def)
qed

definition sample_modules :: jsval where
  "sample_modules = JObj [(''catalogJson'', JObj [(''applications'', JObj [(''hermes'', JObj [(''minimumModelContextTokens'', JInt 4096)])])])]"

theorem application_edit_alternates_witness: "applicationEditContext sample_modules [''hermes''] 4352 = Inr 4096"
proof -
  have "applicationEditContext sample_modules [''hermes''] 4096 = Inr 4352"
    by (simp add: applicationEditContext_def applicationContexts_def sample_modules_def catalog_entry_def minimum_context_def nullish_def
        proven_def safely_def truthy_opt_def max_safe_def contextStep_def maximumContext_def)
  from application_edit_alternates [OF this] show ?thesis by simp
qed


definition expired_lease :: Lease where
  "expired_lease = \<lparr>le_apiVersion = ''coordination.k8s.io/v1'', le_kind = ''Lease'',
     le_metadata = \<lparr>lm_name = ''lab-lock'', lm_namespace = ''magicstick-regression'', lm_uid = Some ''00000000-0000-0000-0000-000000000000'',
       lm_resourceVersion = ''7'', lm_labels = [], lm_annotations = None\<rparr>,
     le_spec = \<lparr>ls_holderIdentity = Some ''reg-00000000-0000-0000-0000-000000000000'', ls_renewTime = Some (leaseTime 0), ls_leaseDurationSeconds = Some 60\<rparr>\<rparr>"

definition confirmed_lock :: RecoveryLock where
  "confirmed_lock = \<lparr>rl_uid = ''00000000-0000-0000-0000-000000000000'', rl_resourceVersion = ''7'',
     rl_runId = ''reg-00000000-0000-0000-0000-000000000000'', rl_released = False\<rparr>"


end
