(* ===== verification/Lab_Config.thy ===== *)
theory Lab_Config
  imports Run_Policy "HOL-Library.Multiset"
begin

text \<open>
  The private lab configuration (\<open>regression/core/config.ts\<close>) and the lab registration
  (\<open>regression/core/lab-policy.ts\<close>): the parsers that turn a JSON value into a typed configuration or refuse it.
  Parameters are the URL parser, \<open>path.resolve\<close>, the conversion \<open>Number(v)\<close> where the source applies it to an
  unchecked value, and \<open>Date.parse\<close> on free text.
\<close>

subsection \<open>Data\<close>

record LocalModelFixture =
  lf_engine :: string
  lf_computeTarget :: string
  lf_url :: string
  lf_memoryRequiredMi :: int
  lf_contextWindow :: int
  lf_kvCacheType :: "string option"

record GpuModelFixture =
  gf_engine :: string
  gf_computeTarget :: string
  gf_url :: string
  gf_memoryRequiredMi :: int
  gf_contextWindow :: int
  gf_kvCacheType :: string
  gf_automaticSizing :: bool

record GpuDevice =
  gd_id :: string
  gd_pciAddress :: string

record GpuLabProfile =
  gp_nodeName :: string
  gp_nodeUid :: string
  gp_bootId :: string
  gp_available :: bool
  gp_amd :: "GpuDevice option"
  gp_nvidia :: "GpuDevice option"
  gp_amdOllama :: "GpuModelFixture option"
  gp_amdVllm :: "GpuModelFixture option"
  gp_nvidiaOllama :: "GpuModelFixture option"
  gp_nvidiaVllm :: "GpuModelFixture option"

datatype ExternalModelFixture =
    OwnedOllama (xf_apiBase: string) (xf_contextWindow: int)
  | Configured (xf_apiBase: string) (xf_contextWindow: int) (xf_model: string) (xf_apiKeyFile: "string option")

record Phase2Config =
  p2_ollamaModel :: LocalModelFixture
  p2_vllmModel :: LocalModelFixture
  p2_failureModel :: LocalModelFixture
  p2_expectedReason :: string
  p2_externalModel :: ExternalModelFixture
  p2_query :: string
  p2_repo :: string
  p2_artifactUrl :: string

record NodeIdentity =
  ni_name :: string
  ni_uid :: string
  ni_bootId :: "string option"

record LabExpected =
  ex_applianceUid :: string
  ex_applianceNamespace :: string
  ex_applianceName :: string
  ex_nodes :: "NodeIdentity list"
  ex_capabilities :: "(string \<times> string list) list"
  ex_images :: "(string \<times> string \<times> string \<times> string) list"
  ex_flux :: "(string \<times> string \<times> string) option"

record LabConfig =
  lc_dashboardUrl :: string
  lc_identityUrl :: string
  lc_inferenceUrl :: "string option"
  lc_caFile :: "string option"
  lc_registrationFile :: "string option"
  lc_usernameFile :: string
  lc_passwordFile :: string
  lc_observerKubeconfig :: string
  lc_requestTimeoutMs :: int
  lc_loginTimeoutMs :: int
  lc_expected :: LabExpected
  lc_lockKubeconfig :: "string option"
  lc_modelCleanupKubeconfig :: "string option"
  lc_smokeModel :: "LocalModelFixture option"
  lc_phase2 :: "Phase2Config option"
  lc_gpu :: "GpuLabProfile option"

text \<open>What the parser uses of its environment.\<close>

record config_env =
  ce_url :: url_parser
  ce_resolve :: "string \<Rightarrow> string \<Rightarrow> string"
  ce_number :: "jsval option \<Rightarrow> int option"

subsection \<open>Values\<close>

definition config_object :: "jsval option \<Rightarrow> jsval result" where
  "config_object v = (case v of Some (JObj ob) \<Rightarrow> Inr (JObj ob) | _ \<Rightarrow> Inl (hard R_CONFIG))"

definition text_matching :: "(string \<Rightarrow> bool) \<Rightarrow> jsval option \<Rightarrow> string result" where
  "text_matching pattern v = (case v of
     Some (JStr s) \<Rightarrow> safely (pattern s \<and> \<not> sublist ''CHANGEME'' s) R_CONFIG (Inr s)
   | _ \<Rightarrow> Inl (hard R_CONFIG))"

definition plain_text_pattern :: "string \<Rightarrow> bool" where
  "plain_text_pattern s \<longleftrightarrow> first_then is_alnum 0 255 (is_alnum_or ''._:@/+-'') s"

abbreviation plain_value :: "jsval option \<Rightarrow> string result" where
  "plain_value \<equiv> text_matching plain_text_pattern"

definition no_space :: "string \<Rightarrow> bool" where
  "no_space s \<longleftrightarrow> s \<noteq> [] \<and> list_all (\<lambda>c. \<not> is_space c) s"

definition parsed_url :: "config_env \<Rightarrow> (string \<Rightarrow> bool) \<Rightarrow> jsval option \<Rightarrow> url result" where
  "parsed_url env pattern v = rbind (text_matching pattern v) (\<lambda>s. case ce_url env s of None \<Rightarrow> Inl (hard R_CONFIG) | Some u \<Rightarrow> Inr u)"

definition hostname :: "config_env \<Rightarrow> jsval option \<Rightarrow> string result" where
  "hostname env v = rbind (parsed_url env (after_prefix ''https://'' no_space) v) (\<lambda>u.
     safely (u_protocol u = ''https:'' \<and> plain_url u \<and> u_pathname u = ''/'') R_CONFIG (Inr (u_origin u)))"

text \<open>\<open>/^[a-z0-9-]+\.[a-z0-9-]+\.svc\.cluster\.local$/\<close>\<close>

definition is_cluster_service :: "string \<Rightarrow> bool" where
  "is_cluster_service s = (case split_on (CHR ''.'') s of
     [a, b, c, d, e] \<Rightarrow> a \<noteq> [] \<and> list_all is_name_char a \<and> b \<noteq> [] \<and> list_all is_name_char b \<and> c = ''svc'' \<and> d = ''cluster'' \<and> e = ''local''
   | _ \<Rightarrow> False)"

definition drop_slash :: "string \<Rightarrow> string" where
  "drop_slash s = (if s \<noteq> [] \<and> last s = CHR ''/'' then butlast s else s)"

definition endpoint :: "config_env \<Rightarrow> jsval option \<Rightarrow> bool \<Rightarrow> string result" where
  "endpoint env v ownedProvider =
     rbind (parsed_url env (\<lambda>s. after_prefix ''http://'' no_space s \<or> after_prefix ''https://'' no_space s) v) (\<lambda>u.
       let internalProvider = (ownedProvider \<and> u_protocol u = ''http:'' \<and> is_cluster_service (u_hostname u) \<and>
             (u_port u = [] \<or> u_port u = ''80'') \<and> u_pathname u = ''/openai/v1'')
       in safely ((u_protocol u = ''https:'' \<or> internalProvider) \<and> plain_url u \<and> startsWith (u_pathname u) ''/'' \<and> \<not> sublist ''//'' (u_pathname u))
            R_CONFIG (Inr (drop_slash (u_href u))))"

definition config_array :: "jsval option \<Rightarrow> jsval list result" where
  "config_array v = (case v of Some (JArr xs) \<Rightarrow> safely (length xs \<le> 64) R_CONFIG (Inr xs) | _ \<Rightarrow> Inl (hard R_CONFIG))"

definition config_path :: "config_env \<Rightarrow> string \<Rightarrow> jsval option \<Rightarrow> string result" where
  "config_path env directory v = (case v of
     Some (JStr s) \<Rightarrow> safely (0 < length s \<and> length s < 4096 \<and> list_all (\<lambda>c. (of_char c :: nat) \<notin> {0, 10, 13}) s) R_CONFIG
       (Inr (if startsWith s ''/'' then s else ce_resolve env directory s))
   | _ \<Rightarrow> Inl (hard R_CONFIG))"

definition config_timeout :: "jsval option \<Rightarrow> int \<Rightarrow> int \<Rightarrow> int result" where
  "config_timeout v fallback maximum = (case v of
     None \<Rightarrow> Inr fallback
   | Some (JInt i) \<Rightarrow> safely (100 \<le> i \<and> i \<le> maximum \<and> i \<le> max_safe) R_CONFIG (Inr i)
   | _ \<Rightarrow> Inl (hard R_CONFIG))"

definition config_int :: "int \<Rightarrow> int \<Rightarrow> jsval option \<Rightarrow> int result" where
  "config_int lo hi v = (case v of Some (JInt i) \<Rightarrow> safely (lo \<le> i \<and> i \<le> hi) R_CONFIG (Inr i) | _ \<Rightarrow> Inl (hard R_CONFIG))"

subsection \<open>Parts of the configuration\<close>

definition config_node :: "jsval \<Rightarrow> NodeIdentity result" where
  "config_node item = rbind (config_object (Some item)) (\<lambda>node.
     rbind (plain_value (jget node ''name'')) (\<lambda>name. rbind (plain_value (jget node ''uid'')) (\<lambda>uid.
     rbind (when_truthy (jget node ''bootId'') plain_value) (\<lambda>boot.
       Inr \<lparr>ni_name = name, ni_uid = uid, ni_bootId = boot\<rparr>))))"

definition config_capability :: "jsval \<Rightarrow> (string \<times> string list) result" where
  "config_capability item = rbind (config_object (Some item)) (\<lambda>capability.
     rbind (config_array (jget capability ''engines'')) (\<lambda>es. rbind (traverse (\<lambda>e. plain_value (Some e)) es) (\<lambda>engines.
     safely (engines \<noteq> []) R_CONFIG (rbind (plain_value (jget capability ''target'')) (\<lambda>target. Inr (target, engines))))))"

definition is_digest :: "string \<Rightarrow> bool" where
  "is_digest = after_prefix ''sha256:'' (chars_between 64 64 is_hex)"

definition config_image :: "jsval \<Rightarrow> (string \<times> string \<times> string \<times> string) result" where
  "config_image item = rbind (config_object (Some item)) (\<lambda>image.
     rbind (plain_value (jget image ''namespace'')) (\<lambda>ns. rbind (plain_value (jget image ''deployment'')) (\<lambda>deployment.
     rbind (plain_value (jget image ''container'')) (\<lambda>container. rbind (text_matching is_digest (jget image ''digest'')) (\<lambda>digest.
       Inr (ns, deployment, container, digest))))))"

definition config_flux :: "jsval option \<Rightarrow> (string \<times> string \<times> string) result" where
  "config_flux v = rbind (config_object v) (\<lambda>selection. rbind (plain_value (jget selection ''namespace'')) (\<lambda>ns.
     rbind (plain_value (jget selection ''name'')) (\<lambda>name. rbind (plain_value (jget selection ''revision'')) (\<lambda>revision. Inr (ns, name, revision)))))"

definition config_lock :: "config_env \<Rightarrow> string \<Rightarrow> jsval option \<Rightarrow> string result" where
  "config_lock env directory v = rbind (config_object v) (\<lambda>selection.
     safely (jget selection ''namespace'' = Some (JStr ''magicstick-regression'')) R_CONFIG
     (safely (jget selection ''name'' = Some (JStr ''lab-lock'')) R_CONFIG
       (config_path env directory (jget selection ''kubeconfig''))))"

definition model_url :: "string \<Rightarrow> string \<Rightarrow> bool" where
  "model_url engine = (if engine = ''OLlama'' then after_prefix ''ollama://'' (chars_between 1 200 (is_alnum_or ''._:/+-''))
     else after_prefix ''hf://'' (chars_between 3 200 (is_alnum_or ''._/+-'')))"

definition is_kv_cache_type :: "string \<Rightarrow> bool" where
  "is_kv_cache_type = chars_between 2 16 (\<lambda>c. is_lower c \<or> is_digit c \<or> c = CHR ''_'')"

definition config_localModel :: "jsval option \<Rightarrow> string \<Rightarrow> int \<Rightarrow> int \<Rightarrow> LocalModelFixture result" where
  "config_localModel v engine maximumMemoryMi maximumContextWindow = rbind (config_object v) (\<lambda>selection.
     safely (jget selection ''engine'' = Some (JStr engine) \<and> jget selection ''computeTarget'' = Some (JStr ''cpu'') \<and>
       jget selection ''maxNumSeqs'' = Some (JInt 1)) R_CONFIG
     (rbind (config_int 1024 maximumMemoryMi (jget selection ''memoryRequiredMi'')) (\<lambda>memory.
      rbind (config_int 256 maximumContextWindow (jget selection ''contextWindow'')) (\<lambda>context.
      rbind (case jget selection ''kvCacheType'' of None \<Rightarrow> Inr None
         | Some k \<Rightarrow> rbind (text_matching is_kv_cache_type (Some k)) (\<lambda>s. Inr (Some s))) (\<lambda>kv.
      rbind (text_matching (model_url engine) (jget selection ''url'')) (\<lambda>url.
        Inr \<lparr>lf_engine = engine, lf_computeTarget = ''cpu'', lf_url = url, lf_memoryRequiredMi = memory, lf_contextWindow = context,
             lf_kvCacheType = kv\<rparr>))))))"

definition config_external :: "config_env \<Rightarrow> string \<Rightarrow> jsval \<Rightarrow> ExternalModelFixture result" where
  "config_external env directory external =
     safely (jget external ''source'' = None \<or> one_of [''configured'', ''owned-ollama''] (jget external ''source'')) R_CONFIG
     (let ownedProvider = (jget external ''source'' = Some (JStr ''owned-ollama''))
      in safely (ownedProvider \<longrightarrow> jget external ''model'' = None \<and> jget external ''apiKeyFile'' = None) R_CONFIG
        (rbind (if ownedProvider then Inr [] else plain_value (jget external ''model'')) (\<lambda>model.
         rbind (endpoint env (jget external ''apiBase'') ownedProvider) (\<lambda>apiBase.
         rbind (if ownedProvider then Inr None else when_truthy (jget external ''apiKeyFile'') (config_path env directory)) (\<lambda>keyFile.
           case ce_number env (jget external ''contextWindow'') of
             None \<Rightarrow> Inl (hard R_CONFIG)
           | Some context \<Rightarrow> safely (256 \<le> context \<and> context \<le> 1048576) R_CONFIG
               (Inr (if ownedProvider then OwnedOllama apiBase context else Configured apiBase context model keyFile)))))))"

definition is_repo_part :: "string \<Rightarrow> bool" where
  "is_repo_part = first_then is_alnum 0 99 (is_alnum_or ''._-'')"

definition is_repo :: "string \<Rightarrow> bool" where
  "is_repo s = (case split_on (CHR ''/'') s of [a, b] \<Rightarrow> is_repo_part a \<and> is_repo_part b | _ \<Rightarrow> False)"

definition config_phase2 :: "config_env \<Rightarrow> string \<Rightarrow> jsval option \<Rightarrow> Phase2Config result" where
  "config_phase2 env directory v = rbind (config_object v) (\<lambda>selection.
     safely (exact_keys [''discovery'', ''externalModel'', ''failureModel'', ''ollamaModel'', ''vllmModel''] selection) R_CONFIG
     (rbind (config_object (jget selection ''failureModel'')) (\<lambda>failure.
      rbind (config_object (jget selection ''externalModel'')) (\<lambda>external.
      rbind (config_object (jget selection ''discovery'')) (\<lambda>discovery.
      rbind (config_localModel (jget selection ''failureModel'') ''OLlama'' 32768 8192) (\<lambda>failureModel.
      rbind (text_matching (first_then is_alnum 2 159 (is_alnum_or '' ._:/()+-'')) (jget failure ''expectedReason'')) (\<lambda>expectedReason.
      rbind (config_external env directory external) (\<lambda>externalModel.
      rbind (text_matching (first_then is_alnum 1 79 (is_alnum_or '' ._:/+-'')) (jget discovery ''query'')) (\<lambda>query.
      rbind (text_matching is_repo (jget discovery ''repo'')) (\<lambda>repo.
      rbind (text_matching (after_prefix ''hf://'' (chars_between 3 200 (is_alnum_or ''._/+-''))) (jget discovery ''artifactUrl'')) (\<lambda>artifactUrl.
      rbind (config_localModel (jget selection ''ollamaModel'') ''OLlama'' 32768 8192) (\<lambda>ollamaModel.
      rbind (config_localModel (jget selection ''vllmModel'') ''VLLM'' 32768 8192) (\<lambda>vllmModel.
        Inr \<lparr>p2_ollamaModel = ollamaModel, p2_vllmModel = vllmModel, p2_failureModel = failureModel, p2_expectedReason = expectedReason,
             p2_externalModel = externalModel, p2_query = query, p2_repo = repo, p2_artifactUrl = artifactUrl\<rparr>)))))))))))))"

text \<open>\<open>/^[0-9a-f]{4}:[0-9a-f]{2}:[0-9a-f]{2}\.[0-7]$/\<close>\<close>

definition is_pci_address :: "string \<Rightarrow> bool" where
  "is_pci_address s \<longleftrightarrow> length s = 12 \<and> list_all is_hex (take 4 s) \<and> s ! 4 = CHR '':'' \<and> is_hex (s ! 5) \<and> is_hex (s ! 6) \<and> s ! 7 = CHR '':'' \<and>
     is_hex (s ! 8) \<and> is_hex (s ! 9) \<and> s ! 10 = CHR ''.'' \<and> code_in 48 55 (s ! 11)"

definition config_device :: "jsval option \<Rightarrow> GpuDevice result" where
  "config_device v = rbind (config_object v) (\<lambda>d. safely (exact_keys [''id'', ''pciAddress''] d) R_CONFIG
     (rbind (text_matching (chars_between 1 255 (is_alnum_or ''._:/-'')) (jget d ''id'')) (\<lambda>ident.
      rbind (text_matching is_pci_address (jget d ''pciAddress'')) (\<lambda>pci. Inr \<lparr>gd_id = ident, gd_pciAddress = pci\<rparr>))))"

definition gpuModelKeys :: "string list" where
  "gpuModelKeys = [''engine'', ''computeTarget'', ''url'', ''contextWindow'', ''maxNumSeqs'', ''memoryRequiredMi'', ''kvCacheType'', ''automaticSizing'']"

definition config_gpuModel :: "string \<Rightarrow> string \<Rightarrow> jsval option \<Rightarrow> GpuModelFixture result" where
  "config_gpuModel engine target v = rbind (config_object v) (\<lambda>m.
     safely (jget m ''engine'' = Some (JStr engine) \<and> jget m ''computeTarget'' = Some (JStr target) \<and> jget m ''maxNumSeqs'' = Some (JInt 1)) R_CONFIG
     (rbind (config_int 256 4096 (jget m ''contextWindow'')) (\<lambda>context.
      rbind (config_int 1024 32768 (jget m ''memoryRequiredMi'')) (\<lambda>memory.
      safely ((jget m ''automaticSizing'' = None \<or> jget m ''automaticSizing'' = Some (JBool True)) \<and> set (keys_of m) \<subseteq> set gpuModelKeys) R_CONFIG
      (rbind (text_matching (model_url engine) (jget m ''url'')) (\<lambda>url.
       safely (text_of (jget m ''kvCacheType'') \<in> {''f16'', ''q8_0'', ''auto'', ''fp8''}) R_CONFIG
         (Inr \<lparr>gf_engine = engine, gf_computeTarget = target, gf_url = url, gf_memoryRequiredMi = memory, gf_contextWindow = context,
           gf_kvCacheType = text_of (jget m ''kvCacheType''), gf_automaticSizing = (jget m ''automaticSizing'' = Some (JBool True))\<rparr>)))))))"

definition gpuModelNames :: "string list" where
  "gpuModelNames = [''amdOllama'', ''amdVllm'', ''nvidiaOllama'', ''nvidiaVllm'']"

definition gpu_shape :: "bool \<Rightarrow> jsval \<Rightarrow> jsval \<Rightarrow> jsval \<Rightarrow> bool" where
  "gpu_shape available selection devices models \<longleftrightarrow>
     (if available
      then exact_keys [''acknowledgeSharingTransitions'', ''bootId'', ''devices'', ''models'', ''nodeName'', ''nodeUid'', ''selection'', ''sharedSlots''] selection \<and>
        keys_of devices \<noteq> [] \<and> set (keys_of devices) \<subseteq> {''amd'', ''nvidia''} \<and> set (keys_of models) \<subseteq> set gpuModelNames
      else exact_keys [''acknowledgeSharingTransitions'', ''bootId'', ''devices'', ''models'', ''nodeName'', ''nodeUid'', ''sharedSlots''] selection \<and>
        exact_keys [''amd'', ''nvidia''] devices \<and> exact_keys gpuModelNames models)"

definition config_gpu :: "jsval \<Rightarrow> NodeIdentity list \<Rightarrow> jsval option \<Rightarrow> GpuLabProfile result" where
  "config_gpu source nodes v = rbind (config_object v) (\<lambda>selection.
     rbind (config_object (jget selection ''devices'')) (\<lambda>devices. rbind (config_object (jget selection ''models'')) (\<lambda>models.
     let available = (jget selection ''selection'' = Some (JStr ''available-providers'') \<and> string_such (\<lambda>_. True) (jget source ''registrationFile''))
     in safely (jget selection ''acknowledgeSharingTransitions'' = Some (JBool True) \<and> jget selection ''sharedSlots'' = Some (JInt 2) \<and>
          gpu_shape available selection devices models) R_CONFIG
     (rbind (plain_value (jget selection ''nodeName'')) (\<lambda>nodeName. rbind (plain_value (jget selection ''nodeUid'')) (\<lambda>nodeUid.
      rbind (plain_value (jget selection ''bootId'')) (\<lambda>bootId.
      rbind (when_truthy (jget devices ''amd'') config_device) (\<lambda>amd. rbind (when_truthy (jget devices ''nvidia'') config_device) (\<lambda>nvidia.
      rbind (when_truthy (jget models ''amdOllama'') (config_gpuModel ''OLlama'' ''amd-gpu'')) (\<lambda>amdOllama.
      rbind (when_truthy (jget models ''amdVllm'') (config_gpuModel ''VLLM'' ''amd-gpu'')) (\<lambda>amdVllm.
      rbind (when_truthy (jget models ''nvidiaOllama'') (config_gpuModel ''OLlama'' ''nvidia-gpu'')) (\<lambda>nvidiaOllama.
      rbind (when_truthy (jget models ''nvidiaVllm'') (config_gpuModel ''VLLM'' ''nvidia-gpu'')) (\<lambda>nvidiaVllm.
      safely ((amdOllama = None \<and> amdVllm = None \<or> amd \<noteq> None) \<and> (nvidiaOllama = None \<and> nvidiaVllm = None \<or> nvidia \<noteq> None)) R_CONFIG
      (safely (\<exists>n \<in> set nodes. ni_name n = nodeName \<and> ni_uid n = nodeUid \<and> ni_bootId n = Some bootId) R_CONFIG
        (Inr \<lparr>gp_nodeName = nodeName, gp_nodeUid = nodeUid, gp_bootId = bootId, gp_available = available, gp_amd = amd, gp_nvidia = nvidia,
           gp_amdOllama = amdOllama, gp_amdVllm = amdVllm, gp_nvidiaOllama = nvidiaOllama, gp_nvidiaVllm = nvidiaVllm\<rparr>)))))))))))))))"

definition config_expected :: "jsval \<Rightarrow> jsval \<Rightarrow> LabExpected result" where
  "config_expected source expected =
     rbind (rbind (config_array (jget expected ''nodes'')) (traverse config_node)) (\<lambda>nodes.
     safely (nodes \<noteq> [] \<and> distinct (map ni_name nodes)) R_CONFIG
     (rbind (rbind (config_array (jget expected ''capabilities'')) (traverse config_capability)) (\<lambda>capabilities.
      safely (capabilities \<noteq> [] \<or> string_such (\<lambda>_. True) (jget source ''registrationFile'')) R_CONFIG
      (rbind (rbind (config_array (nullish (jget expected ''images'') (Some (JArr [])))) (traverse config_image)) (\<lambda>images.
       rbind (when_truthy (jget expected ''flux'') config_flux) (\<lambda>flux.
       rbind (plain_value (jget expected ''applianceUid'')) (\<lambda>uid. rbind (plain_value (jget expected ''applianceNamespace'')) (\<lambda>ns.
       rbind (plain_value (jget expected ''applianceName'')) (\<lambda>name.
         Inr \<lparr>ex_applianceUid = uid, ex_applianceNamespace = ns, ex_applianceName = name, ex_nodes = nodes, ex_capabilities = capabilities,
              ex_images = images, ex_flux = flux\<rparr>)))))))))"

definition parseLabConfig :: "config_env \<Rightarrow> jsval option \<Rightarrow> string \<Rightarrow> LabConfig result" where
  "parseLabConfig env value directory =
     rbind (config_object value) (\<lambda>source. rbind (config_object (jget source ''expected'')) (\<lambda>expected.
     safely (jget source ''version'' = Some (JInt 1) \<and> jget source ''profile'' = Some (JStr ''preflight'') \<and>
       jget expected ''role'' = Some (JStr ''magicstick-admin'')) R_CONFIG
     (rbind (config_expected source expected) (\<lambda>ex.
      rbind (when_truthy (jget source ''lock'') (config_lock env directory)) (\<lambda>lock.
      rbind (when_truthy (jget source ''smokeModel'') (\<lambda>v. config_localModel v ''OLlama'' 8192 4096)) (\<lambda>smokeModel.
      rbind (when_truthy (jget source ''phase2'') (config_phase2 env directory)) (\<lambda>phase2.
      rbind (when_truthy (jget source ''gpu'') (config_gpu source (ex_nodes ex))) (\<lambda>gpu.
      rbind (hostname env (jget source ''dashboardUrl'')) (\<lambda>dashboardUrl. rbind (hostname env (jget source ''identityUrl'')) (\<lambda>identityUrl.
      rbind (when_truthy (jget source ''inferenceUrl'') (hostname env)) (\<lambda>inferenceUrl.
      rbind (when_truthy (jget source ''caFile'') (config_path env directory)) (\<lambda>caFile.
      rbind (when_truthy (jget source ''registrationFile'') (config_path env directory)) (\<lambda>registrationFile.
      rbind (config_path env directory (jget source ''usernameFile'')) (\<lambda>usernameFile.
      rbind (config_path env directory (jget source ''passwordFile'')) (\<lambda>passwordFile.
      rbind (config_path env directory (jget source ''observerKubeconfig'')) (\<lambda>observerKubeconfig.
      rbind (config_timeout (jget source ''requestTimeoutMs'') 15000 60000) (\<lambda>requestTimeoutMs.
      rbind (config_timeout (jget source ''loginTimeoutMs'') 90000 180000) (\<lambda>loginTimeoutMs.
      rbind (when_truthy (jget source ''modelCleanupKubeconfig'') (config_path env directory)) (\<lambda>modelCleanupKubeconfig.
        Inr \<lparr>lc_dashboardUrl = dashboardUrl, lc_identityUrl = identityUrl, lc_inferenceUrl = inferenceUrl, lc_caFile = caFile,
          lc_registrationFile = registrationFile, lc_usernameFile = usernameFile, lc_passwordFile = passwordFile,
          lc_observerKubeconfig = observerKubeconfig, lc_requestTimeoutMs = requestTimeoutMs, lc_loginTimeoutMs = loginTimeoutMs,
          lc_expected = ex, lc_lockKubeconfig = lock, lc_modelCleanupKubeconfig = modelCleanupKubeconfig, lc_smokeModel = smokeModel,
          lc_phase2 = phase2, lc_gpu = gpu\<rparr>)))))))))))))))))))"

text \<open>\<open>loadLabConfig\<close>: any error that is not one of the harness becomes \<open>CONFIG\<close>.\<close>

definition loadLabConfig :: "config_env \<Rightarrow> (string \<Rightarrow> ('w, js_error, jsval) act) \<Rightarrow> string \<Rightarrow> string \<Rightarrow> ('w, js_error, LabConfig) act" where
  "loadLabConfig env readJson filename directory =
     catch (bnd (readJson filename) (\<lambda>v. lift_result (parseLabConfig env (Some v) directory)))
       (\<lambda>err. case err of Harness e \<Rightarrow> throw (Harness e) | Other _ \<Rightarrow> throw (hard R_CONFIG))"

subsection \<open>The registration of a disposable lab\<close>

text \<open>
  A registration stays the parsed value it was. \<open>RegExp.test\<close>, \<open>Date.parse\<close> and \<open>new URL\<close> convert their argument to a
  string (\<open>text_of\<close>); two elements of \<open>nodeUids\<close> are the same for \<open>new Set\<close> when \<open>strict_eq\<close> says so.
\<close>

record registration_env =
  re_url :: url_parser
  re_dateParse :: "string \<Rightarrow> int option"

definition policy_version :: int where
  "policy_version = 1"

definition is_registered_uid :: "string \<Rightarrow> bool" where
  "is_registered_uid = chars_between 1 64 (is_alnum_or ''-'')"

definition js_distinct :: "jsval list \<Rightarrow> bool" where
  "js_distinct xs \<longleftrightarrow> (\<forall>i < length xs. \<forall>j < i. \<not> strict_eq (xs ! i) (xs ! j))"

definition registered_uids :: "jsval \<Rightarrow> jsval list" where
  "registered_uids r = (case jget r ''nodeUids'' of Some (JArr xs) \<Rightarrow> xs | _ \<Rightarrow> [])"

definition registered_origin :: "registration_env \<Rightarrow> jsval option \<Rightarrow> bool" where
  "registered_origin env v = (case re_url env (text_of v) of
     None \<Rightarrow> False
   | Some u \<Rightarrow> u_protocol u = ''https:'' \<and> v = Some (JStr (u_origin u)) \<and> u_username u = [] \<and> u_password u = [])"

definition parseRegistration :: "registration_env \<Rightarrow> jsval \<Rightarrow> jsval result" where
  "parseRegistration env r =
     (let uids = registered_uids r in
      safely (jget r ''version'' = Some (JInt 1) \<and> jget r ''kind'' = Some (JStr ''disposable-regression-lab'') \<and>
        jget r ''policyVersion'' = Some (JInt policy_version) \<and>
        chars_between 36 36 (\<lambda>c. is_hex c \<or> c = CHR ''-'') (text_of (jget r ''id'')) \<and>
        is_registered_uid (text_of (jget r ''applianceUid'')) \<and> uids \<noteq> [] \<and> length uids \<le> 64 \<and> js_distinct uids \<and>
        list_all (\<lambda>uid. is_registered_uid (js_to_string uid)) uids \<and> re_dateParse env (text_of (jget r ''createdAt'')) \<noteq> None) R_LAB
      (safely (registered_origin env (jget r ''dashboardUrl'')) R_LAB (safely (registered_origin env (jget r ''identityUrl'')) R_LAB (Inr r))))"

text \<open>The marker's \<open>metadata\<close> is read without optional chaining: its absence is a \<open>TypeError\<close>.\<close>

definition marker_matches :: "jsval \<Rightarrow> jsval \<Rightarrow> bool" where
  "marker_matches r marker \<longleftrightarrow>
     jat (Some marker) [''metadata'', ''namespace''] = Some (JStr policy_namespace) \<and>
     jat (Some marker) [''metadata'', ''name''] = Some (JStr policy_marker) \<and>
     strict_opt (jat (Some marker) [''metadata'', ''labels'', ''regression.magicstick.dev/appliance-uid'']) (jget r ''applianceUid'') \<and>
     strict_opt (jat (Some marker) [''data'', ''registrationId'']) (jget r ''id'') \<and>
     jat (Some marker) [''data'', ''policyVersion''] = Some (JStr (js_to_string (JInt policy_version))) \<and>
     strict_opt (jat (Some marker) [''data'', ''kind'']) (jget r ''kind'') \<and>
     jat (Some marker) [''data'', ''nodeUids''] = Some (JStr (join '','' (sort (map js_to_string (registered_uids r)))))"

definition verifyRegistration :: "jsval \<Rightarrow> LabConfig \<Rightarrow> jsval \<Rightarrow> unit result" where
  "verifyRegistration r config marker =
     safely (jget r ''applianceUid'' = Some (JStr (ex_applianceUid (lc_expected config))) \<and>
       jget r ''dashboardUrl'' = Some (JStr (lc_dashboardUrl config)) \<and> jget r ''identityUrl'' = Some (JStr (lc_identityUrl config)) \<and>
       length (registered_uids r) = length (ex_nodes (lc_expected config)) \<and>
       list_all (\<lambda>uid. list_ex (\<lambda>n. uid = JStr (ni_uid n)) (ex_nodes (lc_expected config))) (registered_uids r) \<and>
       jget marker ''immutable'' = Some (JBool True)) R_LAB
     (if jget marker ''metadata'' = None \<or> jget marker ''metadata'' = Some JNull then Inl (Other ''TypeError'')
      else safely (marker_matches r marker) R_LAB (Inr ()))"

definition registeredLab :: "registration_env \<Rightarrow> (string \<Rightarrow> ('w, js_error, jsval) act) \<Rightarrow> (string \<Rightarrow> string \<Rightarrow> string \<Rightarrow> ('w, js_error, jsval) act)
    \<Rightarrow> LabConfig \<Rightarrow> ('w, js_error, jsval) act" where
  "registeredLab env readJson observer_get config = (case lc_registrationFile config of
     None \<Rightarrow> throw (hard R_LAB)
   | Some file \<Rightarrow>
       bnd (readJson file) (\<lambda>v. bnd (lift_result (parseRegistration env v)) (\<lambda>r.
       bnd (observer_get ''configmaps'' policy_namespace policy_marker) (\<lambda>marker.
       bnd (lift_result (verifyRegistration r config marker)) (\<lambda>_. ret r)))))"

subsection \<open>Errors\<close>

lemma fails_config_object [intro!]: "fails_only R_CONFIG (config_object v)"
  by (auto simp: config_object_def split: option.split jsval.split)

lemma fails_text_matching [intro!]: "fails_only R_CONFIG (text_matching p v)"
  by (auto simp: text_matching_def split: option.split jsval.split)

lemma fails_parsed_url [intro!]: "fails_only R_CONFIG (parsed_url env p v)"
  by (auto simp: parsed_url_def split: option.split)

lemma fails_hostname [intro!]: "fails_only R_CONFIG (hostname env v)"
  by (auto simp: hostname_def)

lemma fails_endpoint [intro!]: "fails_only R_CONFIG (endpoint env v b)"
  by (auto simp: endpoint_def Let_def)

lemma fails_config_array [intro!]: "fails_only R_CONFIG (config_array v)"
  by (auto simp: config_array_def split: option.split jsval.split)

lemma fails_config_path [intro!]: "fails_only R_CONFIG (config_path env d v)"
  unfolding config_path_def by (auto split: option.split jsval.split)

lemma fails_config_timeout [intro!]: "fails_only R_CONFIG (config_timeout v d m)"
  by (auto simp: config_timeout_def split: option.split jsval.split)

lemma fails_config_int [intro!]: "fails_only R_CONFIG (config_int lo hi v)"
  by (auto simp: config_int_def split: option.split jsval.split)

lemma fails_config_localModel [intro!]: "fails_only R_CONFIG (config_localModel v e m c)"
  unfolding config_localModel_def by (auto split: option.split)

lemma fails_config_expected [intro!]: "fails_only R_CONFIG (config_expected source v)"
  unfolding config_expected_def config_node_def config_capability_def config_image_def config_flux_def
  by (intro fails_only_rbind fails_only_safely fails_only_Inr fails_only_when_truthy fails_only_traverse
      fails_config_object fails_text_matching fails_config_array)

lemma fails_config_external [intro!]: "fails_only R_CONFIG (config_external env d v)"
  unfolding config_external_def Let_def by (auto split: option.split)

lemma fails_config_phase2 [intro!]: "fails_only R_CONFIG (config_phase2 env d v)"
  unfolding config_phase2_def
  by (intro fails_only_rbind fails_only_safely fails_only_Inr fails_config_object fails_text_matching
      fails_config_localModel fails_config_external)

lemma fails_config_gpuModel [intro!]: "fails_only R_CONFIG (config_gpuModel e t v)"
  unfolding config_gpuModel_def
  by (intro fails_only_rbind fails_only_safely fails_only_Inr fails_config_object fails_text_matching fails_config_int)

lemma fails_config_device [intro!]: "fails_only R_CONFIG (config_device v)"
  unfolding config_device_def
  by (intro fails_only_rbind fails_only_safely fails_only_Inr fails_config_object fails_text_matching)

lemma fails_config_gpu [intro!]: "fails_only R_CONFIG (config_gpu source nodes v)"
  unfolding config_gpu_def Let_def
  by (intro fails_only_rbind fails_only_safely fails_only_Inr fails_only_when_truthy fails_config_object fails_text_matching
      fails_config_device fails_config_gpuModel)

lemma fails_config_lock [intro!]: "fails_only R_CONFIG (config_lock env d v)"
  unfolding config_lock_def by (intro fails_only_rbind fails_only_safely fails_config_object fails_config_path)

lemma fails_parseLabConfig: "fails_only R_CONFIG (parseLabConfig env v d)"
  unfolding parseLabConfig_def
  by (intro fails_only_rbind fails_only_safely fails_only_Inr fails_only_when_truthy fails_config_object fails_config_expected
      fails_config_lock fails_config_localModel fails_config_phase2 fails_config_gpu fails_hostname fails_config_path fails_config_timeout)

subsection \<open>Accepted configurations\<close>

text \<open>What the harness relies on in a configuration that was accepted.\<close>

definition fixture_within :: "int \<Rightarrow> int \<Rightarrow> LocalModelFixture \<Rightarrow> bool" where
  "fixture_within memory context m \<longleftrightarrow> lf_computeTarget m = ''cpu'' \<and> lf_memoryRequiredMi m \<in> {1024..memory} \<and>
     lf_contextWindow m \<in> {256..context} \<and> model_url (lf_engine m) (lf_url m)"

definition gpu_fixture_ok :: "string \<Rightarrow> GpuDevice option \<Rightarrow> GpuModelFixture option \<Rightarrow> bool" where
  "gpu_fixture_ok target device m = (case m of None \<Rightarrow> True
     | Some f \<Rightarrow> device \<noteq> None \<and> gf_computeTarget f = target \<and> gf_memoryRequiredMi f \<in> {1024..32768} \<and>
         gf_contextWindow f \<in> {256..4096} \<and> model_url (gf_engine f) (gf_url f))"

definition gpu_ok :: "NodeIdentity list \<Rightarrow> GpuLabProfile \<Rightarrow> bool" where
  "gpu_ok nodes g \<longleftrightarrow>
     (\<exists>n \<in> set nodes. ni_name n = gp_nodeName g \<and> ni_uid n = gp_nodeUid g \<and> ni_bootId n = Some (gp_bootId g)) \<and>
     gpu_fixture_ok ''amd-gpu'' (gp_amd g) (gp_amdOllama g) \<and> gpu_fixture_ok ''amd-gpu'' (gp_amd g) (gp_amdVllm g) \<and>
     gpu_fixture_ok ''nvidia-gpu'' (gp_nvidia g) (gp_nvidiaOllama g) \<and> gpu_fixture_ok ''nvidia-gpu'' (gp_nvidia g) (gp_nvidiaVllm g)"

definition phase2_ok :: "Phase2Config \<Rightarrow> bool" where
  "phase2_ok p \<longleftrightarrow> fixture_within 32768 8192 (p2_ollamaModel p) \<and> fixture_within 32768 8192 (p2_vllmModel p) \<and>
     fixture_within 32768 8192 (p2_failureModel p) \<and> xf_contextWindow (p2_externalModel p) \<in> {256..1048576} \<and> is_repo (p2_repo p)"

definition config_ok :: "LabConfig \<Rightarrow> bool" where
  "config_ok c \<longleftrightarrow>
     lc_requestTimeoutMs c \<in> {100..60000} \<and> lc_loginTimeoutMs c \<in> {100..180000} \<and>
     ex_nodes (lc_expected c) \<noteq> [] \<and> length (ex_nodes (lc_expected c)) \<le> 64 \<and> distinct (map ni_name (ex_nodes (lc_expected c))) \<and>
     list_all (\<lambda>(target, engines). engines \<noteq> []) (ex_capabilities (lc_expected c)) \<and>
     pred_option (fixture_within 8192 4096) (lc_smokeModel c) \<and> pred_option phase2_ok (lc_phase2 c) \<and>
     pred_option (gpu_ok (ex_nodes (lc_expected c))) (lc_gpu c)"

lemma text_matching_Inr: "text_matching p v = Inr s \<longleftrightarrow> v = Some (JStr s) \<and> p s \<and> \<not> sublist ''CHANGEME'' s"
  by (auto simp: text_matching_def result_ok split: option.splits jsval.splits)

lemma config_int_Inr: "config_int lo hi v = Inr i \<longleftrightarrow> v = Some (JInt i) \<and> lo \<le> i \<and> i \<le> hi"
  by (auto simp: config_int_def result_ok split: option.splits jsval.splits)

lemma config_array_Inr: "config_array v = Inr xs \<longleftrightarrow> v = Some (JArr xs) \<and> length xs \<le> 64"
  by (auto simp: config_array_def result_ok split: option.splits jsval.splits)

lemma config_timeout_bounds: "config_timeout v d m = Inr i \<Longrightarrow> d \<in> {100..m} \<Longrightarrow> i \<in> {100..m}"
  by (auto simp: config_timeout_def result_ok split: option.splits jsval.splits)

lemma config_localModel_within: "config_localModel v e m c = Inr f \<Longrightarrow> fixture_within m c f"
  by (auto simp: config_localModel_def fixture_within_def result_ok text_matching_Inr config_int_Inr)

lemma config_external_context: "config_external env d v = Inr x \<Longrightarrow> xf_contextWindow x \<in> {256..1048576}"
  by (auto simp: config_external_def Let_def result_ok split: option.splits if_splits)

lemma config_phase2_ok: "config_phase2 env d v = Inr p \<Longrightarrow> phase2_ok p"
  by (auto simp: config_phase2_def phase2_ok_def result_ok text_matching_Inr
      dest!: config_localModel_within config_external_context)

lemma config_gpuModel_ok: "config_gpuModel e t v = Inr f \<Longrightarrow> device \<noteq> None \<Longrightarrow> gpu_fixture_ok t device (Some f)"
  by (auto simp: config_gpuModel_def gpu_fixture_ok_def result_ok text_matching_Inr config_int_Inr)

lemma config_gpuModel_opt:
  assumes "when_truthy v (config_gpuModel e t) = Inr r"
  shows "r = None \<and> q = None \<or> device \<noteq> None \<Longrightarrow> gpu_fixture_ok t device r"
    "q = None \<and> r = None \<or> device \<noteq> None \<Longrightarrow> gpu_fixture_ok t device r"
  using assms
  by (cases r; auto simp: when_truthy_Inr gpu_fixture_ok_def [where m = None] split: if_splits dest: config_gpuModel_ok)+

lemma config_gpu_ok:
  assumes "config_gpu source nodes v = Inr g"
  shows "gpu_ok nodes g"
  using assms unfolding config_gpu_def Let_def result_ok gpu_ok_def
  apply (elim exE conjE)
  apply (drule sum.inject(2) [THEN iffD1], hypsubst, simp only: GpuLabProfile.select_convs)
  by (intro conjI TrueI) (erule config_gpuModel_opt, assumption)+

lemma config_expected_ok:
  assumes "config_expected source v = Inr ex"
  shows "ex_nodes ex \<noteq> []" "length (ex_nodes ex) \<le> 64" "distinct (map ni_name (ex_nodes ex))"
    "list_all (\<lambda>(target, engines). engines \<noteq> []) (ex_capabilities ex)"
    "ex_capabilities ex = [] \<Longrightarrow> string_such (\<lambda>_. True) (jget source ''registrationFile'')"
  using assms by (auto simp: config_expected_def config_capability_def result_ok config_array_Inr traverse_Inr list_all_length)

lemma config_gpu_opt: "when_truthy v (config_gpu source nodes) = Inr g \<Longrightarrow> pred_option (gpu_ok nodes) g"
  by (auto simp: when_truthy_Inr option.pred_set split: if_splits dest: config_gpu_ok)

lemma config_phase2_opt: "when_truthy v (config_phase2 env d) = Inr p \<Longrightarrow> pred_option phase2_ok p"
  by (auto simp: when_truthy_Inr option.pred_set split: if_splits dest: config_phase2_ok)

lemma config_smoke_opt: "when_truthy v (\<lambda>v. config_localModel v e m c) = Inr p \<Longrightarrow> pred_option (fixture_within m c) p"
  by (auto simp: when_truthy_Inr option.pred_set split: if_splits dest: config_localModel_within)

subsection \<open>Registered nodes\<close>

lemma js_distinct_strings: "js_distinct (map JStr xs) \<longleftrightarrow> distinct xs"
  by (auto simp: js_distinct_def distinct_conv_nth nat_neq_iff) (metis order.strict_trans)+

lemma strings_of_values:
  assumes "\<And>x. x \<in> set xs \<Longrightarrow> \<exists>s. x = JStr s"
  obtains ys where "xs = map JStr ys"
proof
  show "xs = map JStr (map (\<lambda>x. case x of JStr s \<Rightarrow> s | _ \<Rightarrow> []) xs)"
    using assms by (induction xs) force+
qed

text \<open>A list of distinct elements that is as long as \<open>ys\<close> and drawn from it is a permutation of \<open>ys\<close>.\<close>

lemma mset_eq_of_distinct:
  assumes "distinct xs" "set xs \<subseteq> set ys" "length xs = length ys"
  shows "mset xs = mset ys"
proof -
  have "card (set ys) \<le> length ys" by (rule card_length)
  then have "card (set xs) = card (set ys)"
    using assms card_mono [OF finite_set [of ys] assms(2)] distinct_card [of xs] by fastforce
  then have eq: "set xs = set ys" using assms(2) by (simp add: card_subset_eq)
  then have "distinct ys" using assms distinct_card [of xs] by (simp add: card_distinct)
  with eq assms(1) show ?thesis by (simp add: set_eq_iff_mset_eq_distinct)
qed

lemma verifyRegistration_nodes:
  assumes "js_distinct (registered_uids r)" "verifyRegistration r config marker = Inr ()"
  shows "\<exists>uids. registered_uids r = map JStr uids \<and> distinct uids \<and> mset uids = mset (map ni_uid (ex_nodes (lc_expected config)))"
proof -
  let ?nodes = "ex_nodes (lc_expected config)"
  have in_nodes: "\<And>x. x \<in> set (registered_uids r) \<Longrightarrow> \<exists>n \<in> set ?nodes. x = JStr (ni_uid n)"
    and len: "length (registered_uids r) = length ?nodes"
    using assms(2) by (auto simp: verifyRegistration_def result_ok list_all_iff list_ex_iff)
  obtain uids where uids: "registered_uids r = map JStr uids"
    using in_nodes strings_of_values by metis
  moreover have "distinct uids" using assms(1) uids by (simp add: js_distinct_strings)
  moreover have "set uids \<subseteq> set (map ni_uid ?nodes)" using in_nodes unfolding uids by force
  ultimately show ?thesis using len mset_eq_of_distinct [of uids "map ni_uid ?nodes"] by auto
qed

subsection \<open>Properties\<close>

text \<open>
  A configuration that the parser accepts has between one and 64 nodes with distinct names, time limits and
  model sizes within their bounds, at least one engine per capability, and GPU fixtures only for a device that is
  configured, on a node of the configuration with its boot identity.
\<close>

theorem lab_config_sound:
  assumes "parseLabConfig env v d = Inr c"
  shows "config_ok c"
proof -
  obtain source expected where ex: "config_expected source expected = Inr (lc_expected c)"
    and smoke: "when_truthy (jget source ''smokeModel'') (\<lambda>v. config_localModel v ''OLlama'' 8192 4096) = Inr (lc_smokeModel c)"
    and phase2: "when_truthy (jget source ''phase2'') (config_phase2 env d) = Inr (lc_phase2 c)"
    and gpu: "when_truthy (jget source ''gpu'') (config_gpu source (ex_nodes (lc_expected c))) = Inr (lc_gpu c)"
    and times: "config_timeout (jget source ''requestTimeoutMs'') 15000 60000 = Inr (lc_requestTimeoutMs c)"
      "config_timeout (jget source ''loginTimeoutMs'') 90000 180000 = Inr (lc_loginTimeoutMs c)"
    using assms unfolding parseLabConfig_def result_ok by (elim exE conjE) (drule sum.inject(2) [THEN iffD1], force)
  show ?thesis unfolding config_ok_def
    by (intro conjI config_timeout_bounds [OF times(1)] config_timeout_bounds [OF times(2)] config_expected_ok [OF ex]
        config_smoke_opt [OF smoke] config_phase2_opt [OF phase2] config_gpu_opt [OF gpu]) simp_all
qed

text \<open>
  Whatever value it is given, the parser either returns a configuration or fails with the reason \<open>CONFIG\<close>.
\<close>

theorem lab_config_errors:
  "(\<exists>c. parseLabConfig env v d = Inr c) \<or> parseLabConfig env v d = Inl (hard R_CONFIG)"
  using fails_parseLabConfig [of env v d] by (cases "parseLabConfig env v d") (auto simp: fails_only_def)

text \<open>
  When the registered lab is accepted, the registered node UIDs are exactly the node UIDs of the configuration
  (each one once), the registration names the configured appliance, and the immutable marker on the server names the
  same appliance and registration.
\<close>

theorem registered_lab_covers_nodes:
  assumes "registeredLab env readJson observer_get config s = (Inr r, t)"
  shows "(\<exists>uids. registered_uids r = map JStr uids \<and> distinct uids \<and> mset uids = mset (map ni_uid (ex_nodes (lc_expected config)))) \<and>
    jget r ''applianceUid'' = Some (JStr (ex_applianceUid (lc_expected config))) \<and>
    (\<exists>marker u w. observer_get ''configmaps'' policy_namespace policy_marker u = (Inr marker, w) \<and>
       jget marker ''immutable'' = Some (JBool True) \<and> marker_matches r marker)"
proof -
  obtain marker u w where parsed: "parseRegistration env r = Inr r" and verified: "verifyRegistration r config marker = Inr ()"
    and got: "observer_get ''configmaps'' policy_namespace policy_marker u = (Inr marker, w)"
    using assms by (auto simp: registeredLab_def bnd_def throw_def ret_def lift_result_def parseRegistration_def Let_def result_ok
        split: option.splits sum.splits prod.splits)
  have "js_distinct (registered_uids r)" using parsed by (simp add: parseRegistration_def Let_def result_ok)
  from verifyRegistration_nodes [OF this verified] got verified show ?thesis
    by (auto simp: verifyRegistration_def result_ok split: if_splits)
qed

subsection \<open>A concrete lab\<close>

definition example_url :: url_parser where
  "example_url s = (if startsWith s ''https://'' then Some \<lparr>u_protocol = ''https:'', u_username = [], u_password = [], u_host = drop 8 s,
     u_hostname = drop 8 s, u_port = [], u_pathname = ''/'', u_search = [], u_hash = [], u_origin = s, u_href = s @ ''/''\<rparr> else None)"

definition example_env :: config_env where
  "example_env = \<lparr>ce_url = example_url, ce_resolve = (\<lambda>d f. d @ ''/'' @ f), ce_number = (\<lambda>_. None)\<rparr>"

definition example_config :: jsval where
  "example_config = JObj [(''version'', JInt 1), (''profile'', JStr ''preflight''), (''dashboardUrl'', JStr ''https://lab''),
     (''identityUrl'', JStr ''https://id''), (''usernameFile'', JStr ''user''), (''passwordFile'', JStr ''/secret''),
     (''observerKubeconfig'', JStr ''/kube''), (''registrationFile'', JStr ''/reg''),
     (''expected'', JObj [(''role'', JStr ''magicstick-admin''), (''applianceUid'', JStr ''a1''), (''applianceNamespace'', JStr ''ai''),
        (''applianceName'', JStr ''main''), (''nodes'', JArr [JObj [(''name'', JStr ''n''), (''uid'', JStr ''u1'')]]), (''capabilities'', JArr [])])]"

definition example_lab :: LabConfig where
  "example_lab = \<lparr>lc_dashboardUrl = ''https://lab'', lc_identityUrl = ''https://id'', lc_inferenceUrl = None, lc_caFile = None,
     lc_registrationFile = Some ''/reg'', lc_usernameFile = ''/lab/user'', lc_passwordFile = ''/secret'', lc_observerKubeconfig = ''/kube'',
     lc_requestTimeoutMs = 15000, lc_loginTimeoutMs = 90000,
     lc_expected = \<lparr>ex_applianceUid = ''a1'', ex_applianceNamespace = ''ai'', ex_applianceName = ''main'',
       ex_nodes = [\<lparr>ni_name = ''n'', ni_uid = ''u1'', ni_bootId = None\<rparr>], ex_capabilities = [], ex_images = [], ex_flux = None\<rparr>,
     lc_lockKubeconfig = None, lc_modelCleanupKubeconfig = None, lc_smokeModel = None, lc_phase2 = None, lc_gpu = None\<rparr>"

definition example_registration :: jsval where
  "example_registration = JObj [(''version'', JInt 1), (''kind'', JStr ''disposable-regression-lab''), (''policyVersion'', JInt 1),
     (''id'', JStr ''00000000-0000-4000-8000-000000000000''), (''applianceUid'', JStr ''a1''), (''nodeUids'', JArr [JStr ''u1'']),
     (''dashboardUrl'', JStr ''https://lab''), (''identityUrl'', JStr ''https://id''), (''createdAt'', JStr ''2026-01-01'')]"

definition example_marker :: jsval where
  "example_marker = JObj [(''immutable'', JBool True),
     (''metadata'', JObj [(''namespace'', JStr ''magicstick-regression''), (''name'', JStr ''registered-lab''),
        (''labels'', JObj [(''regression.magicstick.dev/appliance-uid'', JStr ''a1'')])]),
     (''data'', JObj [(''registrationId'', JStr ''00000000-0000-4000-8000-000000000000''), (''policyVersion'', JStr ''1''),
        (''kind'', JStr ''disposable-regression-lab''), (''nodeUids'', JStr ''u1'')])]"

theorem lab_config_sound_witness:
  "parseLabConfig example_env (Some example_config) ''/lab'' = Inr example_lab \<and> config_ok example_lab"
proof -
  have "parseLabConfig example_env (Some example_config) ''/lab'' = Inr example_lab" by code_simp
  with lab_config_sound show ?thesis by blast
qed

theorem registered_lab_covers_nodes_witness:
  "\<exists>uids. registered_uids example_registration = map JStr uids \<and> distinct uids \<and> mset uids = mset [''u1'']"
proof -
  have "registeredLab \<lparr>re_url = example_url, re_dateParse = (\<lambda>_. Some 0)\<rparr> (\<lambda>_. ret example_registration) (\<lambda>_ _ _. ret example_marker)
      example_lab () = (Inr example_registration, ())" by code_simp
  from registered_lab_covers_nodes [OF this] show ?thesis by (simp add: example_lab_def)
qed

end
