(* ===== verification/Dashboard_Transports.thy ===== *)
theory Dashboard_Transports
  imports Request_Guards Lab_Config
begin

text \<open>
  The transports that the harness gives to the API client instead of \<open>fetch\<close>: read-only (\<open>regression/core/transport.ts\<close>),
  of the preparation (\<open>preparation-api.ts\<close>), of guarded administration writes (\<open>administration-api.ts\<close>) and of run-owned
  API keys (\<open>owned-key.ts\<close>). Parameters are the URL parser, \<open>URLSearchParams\<close>, \<open>JSON.parse\<close> and the request context of
  the browser, which sends; its answer is the status, the content type, the length and the text of the body.
\<close>

subsection \<open>Sending\<close>

record sent_request =
  sr_href :: string
  sr_method :: string
  sr_headers :: "string obj"
  sr_data :: "string option"

record raw_response =
  rr_status :: int
  rr_contentType :: string
  rr_length :: int
  rr_text :: string

record 'w network =
  nw_parse :: url_parser
  nw_params :: "url \<Rightarrow> (string \<times> string) list"
  nw_json :: "string \<Rightarrow> jsval option"
  nw_send :: "sent_request \<Rightarrow> ('w, js_error, raw_response) act"

type_synonym 'w transport = "http_request \<Rightarrow> ('w, js_error, http_response) act"

definition mebibytes :: "int \<Rightarrow> int" where
  "mebibytes n = n * 1024 * 1024"

definition is_json :: "raw_response \<Rightarrow> bool" where
  "is_json raw \<longleftrightarrow> sublist ''application/json'' (rr_contentType raw)"

text \<open>\<open>new Response(text, {status, headers})\<close>: a status outside of 200 to 599, or one that has no body, is a \<open>TypeError\<close>.\<close>

definition new_response :: "'w network \<Rightarrow> int \<Rightarrow> string \<Rightarrow> ('w, js_error, http_response) act" where
  "new_response net status text =
     (if 200 \<le> status \<and> status \<le> 599 \<and> status \<notin> {204, 205, 304}
      then ret \<lparr>hs_ok = (status \<le> 299), hs_status = status, hs_statusText = [], hs_contentType = Some ''application/json'',
        hs_json = nw_json net text, hs_text = Some text\<rparr>
      else throw (Other ''TypeError''))"

text \<open>\<open>new URL(\<dots>)\<close> of the request, which throws a \<open>TypeError\<close>.\<close>

definition target_url :: "'w network \<Rightarrow> http_request \<Rightarrow> ('w, js_error, url) act" where
  "target_url net r = (case nw_parse net (hr_url r) of None \<Rightarrow> throw (Other ''TypeError'') | Some url \<Rightarrow> ret url)"

text \<open>A body that is present and not empty.\<close>

definition has_body :: "http_request \<Rightarrow> bool" where
  "has_body r \<longleftrightarrow> given (hr_body r)"

text \<open>\<open>try { return await request.fetch(\<dots>) } catch { throw new HarnessError('API') }\<close>\<close>

definition send_or_api :: "'w network \<Rightarrow> sent_request \<Rightarrow> ('w, js_error, raw_response) act" where
  "send_or_api net r = catch (nw_send net r) (\<lambda>_. throw (hard R_API))"

definition body_data :: "http_request \<Rightarrow> string option" where
  "body_data r = (if has_body r then hr_body r else None)"

subsection \<open>The read-only transport\<close>

definition readable_paths :: "string list" where
  "readable_paths = [''/api/session'', ''/api/appliance'', ''/api/models'', ''/api/modules'', ''/api/instances'', ''/api/settings'', ''/api/status'',
     ''/api/host-management'', ''/api/hardware/gpu-sharing'']"

definition expired :: "url \<Rightarrow> raw_response \<Rightarrow> bool" where
  "expired url raw \<longleftrightarrow> u_pathname url = ''/api/session'' \<and> rr_status raw = 401"

abbreviation session_expired :: js_error where
  "session_expired \<equiv> Harness ((mkHarnessError R_AUTH (Some Failed) (Some S_login_session) None)\<lparr>he_class := DashboardSessionExpired\<rparr>)"

definition harness_or_api :: "('w, js_error, 'a) act \<Rightarrow> ('w, js_error, 'a) act" where
  "harness_or_api m = catch m (\<lambda>e. case e of Harness h \<Rightarrow> throw e | Other t \<Rightarrow> throw (hard R_API))"

definition readOnlyFetch :: "'w network \<Rightarrow> string \<Rightarrow> 'w transport" where
  "readOnlyFetch net origin r = bnd (target_url net r) (\<lambda>url.
     seq (requireSafe (plain_at url origin \<and> u_pathname url \<in> set readable_paths \<and> toUpperCase (hr_method r) = ''GET'' \<and> \<not> has_body r) R_MUTATION)
    (harness_or_api (bnd (nw_send net \<lparr>sr_href = u_href url, sr_method = ''GET'', sr_headers = [(''Accept'', ''application/json'')], sr_data = None\<rparr>) (\<lambda>raw.
       seq (if expired url raw then throw session_expired else ret ())
      (seq (requireSafe (rr_status raw = 200 \<and> is_json raw) R_API)
      (seq (requireSafe (rr_length raw < mebibytes 8) R_API) (new_response net 200 (rr_text raw))))))))"

subsection \<open>The transport of the preparation\<close>

definition discovery_paths :: "string list" where
  "discovery_paths = [''/api/model-discovery/search'', ''/api/model-discovery/artifacts'']"

definition discovery_keys :: "string list" where
  "discovery_keys = [''provider'', ''engine'', ''computeTarget'', ''modelType'', ''q'', ''repo'', ''cursor'', ''limit'']"

definition is_query :: "string \<Rightarrow> bool" where
  "is_query = first_then is_alnum 1 79 (is_alnum_or '' ._:/+-'')"

definition is_repo_char :: "char \<Rightarrow> bool" where
  "is_repo_char = is_alnum_or ''._-''"

definition is_repo_id :: "string \<Rightarrow> bool" where
  "is_repo_id s \<longleftrightarrow> (case split_on CHR ''/'' s of [a, b] \<Rightarrow> a \<noteq> [] \<and> b \<noteq> [] \<and> list_all is_repo_char a \<and> list_all is_repo_char b | _ \<Rightarrow> False)"

definition discovery_params :: "string \<Rightarrow> (string \<times> string) list \<Rightarrow> bool" where
  "discovery_params path ps \<longleftrightarrow> distinct (map fst ps) \<and> set (map fst ps) \<subseteq> set discovery_keys \<and>
     map_of ps ''provider'' = Some ''huggingface'' \<and> map_of ps ''engine'' = Some ''VLLM'' \<and> map_of ps ''computeTarget'' = Some ''cpu'' \<and>
     map_of ps ''modelType'' = Some ''chat'' \<and> map_of ps ''limit'' = Some ''20'' \<and>
     (if endsWith path ''/search''
      then \<not> given (map_of ps ''repo'') \<and> given (map_of ps ''q'') \<and> is_query (the (map_of ps ''q''))
      else \<not> given (map_of ps ''q'') \<and> given (map_of ps ''repo'') \<and> is_repo_id (the (map_of ps ''repo''))) \<and>
     (given (map_of ps ''cursor'') \<longrightarrow> length (the (map_of ps ''cursor'')) \<le> 4096)"

definition allowedPreparationRequest :: "'w network \<Rightarrow> (string \<Rightarrow> string \<Rightarrow> int) \<Rightarrow> url \<Rightarrow> string \<Rightarrow> jsval option \<Rightarrow> string \<Rightarrow> jsval list \<Rightarrow> bool" where
  "allowedPreparationRequest net compare url meth body origin estimates \<longleftrightarrow>
     u_origin url = origin \<and> u_username url = [] \<and> u_password url = [] \<and> u_hash url = [] \<and>
     (if meth = ''POST''
      then u_pathname url = ''/api/models/estimate-memory'' \<and> u_search url = [] \<and>
        list_ex (\<lambda>v. canonicalInput compare (Some v) = canonicalInput compare body) estimates
      else meth = ''GET'' \<and> \<not> truthy_opt body \<and> u_pathname url \<in> set discovery_paths \<and> discovery_params (u_pathname url) (nw_params net url))"

text \<open>\<open>init.body ? JSON.parse(String(init.body)) : undefined\<close>\<close>

definition parsed_body :: "'w network \<Rightarrow> http_request \<Rightarrow> js_error \<Rightarrow> ('w, js_error, jsval option) act" where
  "parsed_body net r err = (if has_body r then (case nw_json net (the (hr_body r)) of None \<Rightarrow> throw err | Some v \<Rightarrow> ret (Some v)) else ret None)"

definition preparation_headers :: "string \<Rightarrow> string \<Rightarrow> string obj" where
  "preparation_headers meth origin = [(''Accept'', ''application/json'')] @
     (if meth = ''POST'' then [(''Content-Type'', ''application/json''), (''X-MagicStick-CSRF'', ''dashboard''), (''Origin'', origin)] else [])"

definition preparationApi :: "'w network \<Rightarrow> (string \<Rightarrow> string \<Rightarrow> int) \<Rightarrow> string \<Rightarrow> jsval list \<Rightarrow> 'w transport" where
  "preparationApi net compare origin estimates r = bnd (target_url net r) (\<lambda>url.
     (let meth = toUpperCase (hr_method r)
      in if meth = ''GET'' \<and> u_pathname url \<notin> set discovery_paths then readOnlyFetch net origin r
         else bnd (parsed_body net r (hard R_MUTATION)) (\<lambda>body.
           seq (requireSafe (allowedPreparationRequest net compare url meth body origin estimates) R_MUTATION)
          (bnd (send_or_api net \<lparr>sr_href = u_href url, sr_method = meth, sr_headers = preparation_headers meth origin, sr_data = body_data r\<rparr>) (\<lambda>raw.
           seq (requireSafe (rr_status raw = 200 \<and> is_json raw) R_API)
          (seq (requireSafe (rr_length raw < mebibytes 8) R_API) (new_response net 200 (rr_text raw))))))))"

text \<open>The estimator requests of the CPU fixtures of a run.\<close>

type_synonym RuntimeModelFixture = "LocalModelFixture + GpuModelFixture"

definition fixture_target :: "RuntimeModelFixture \<Rightarrow> string" where
  "fixture_target f = (case f of Inl l \<Rightarrow> lf_computeTarget l | Inr g \<Rightarrow> gf_computeTarget g)"

definition estimate_json :: "string \<Rightarrow> string \<Rightarrow> string \<Rightarrow> int \<Rightarrow> string \<Rightarrow> jsval" where
  "estimate_json engine target address window cache = JObj [(''engine'', JStr engine), (''computeTarget'', JStr target), (''url'', JStr address),
     (''modelType'', JStr ''chat''), (''contextWindow'', JInt window), (''maxNumSeqs'', JInt 1), (''kvCacheType'', JStr cache)]"

definition estimateInput :: "RuntimeModelFixture \<Rightarrow> jsval" where
  "estimateInput f = (case f of
     Inl l \<Rightarrow> estimate_json (lf_engine l) (lf_computeTarget l) (lf_url l) (lf_contextWindow l) (case lf_kvCacheType l of None \<Rightarrow> ''auto'' | Some c \<Rightarrow> c)
   | Inr g \<Rightarrow> estimate_json (gf_engine g) (gf_computeTarget g) (gf_url g) (gf_contextWindow g) (gf_kvCacheType g))"

definition cpu_estimates :: "RuntimeModelFixture list \<Rightarrow> jsval list" where
  "cpu_estimates fs = map estimateInput (filter (\<lambda>f. fixture_target f = ''cpu'') fs)"

subsection \<open>Guarded administration writes\<close>

definition administration_collections :: "string list" where
  "administration_collections = [''/api/session'', ''/api/appliance'', ''/api/modules'', ''/api/instances'', ''/api/my-instances'', ''/api/models'', ''/api/status'',
     ''/api/host-management'', ''/api/hardware/gpu-sharing'', ''/api/license'', ''/api/license/export'', ''/api/federated-sso'', ''/api/api-access'', ''/api/users'',
     ''/api/kubernetes-access'', ''/api/mesh'', ''/api/settings'', ''/api/instance-principals'']"

text \<open>The two patterns of single resources, on the segments of the path.\<close>

definition is_detail_name :: "string \<Rightarrow> bool" where
  "is_detail_name = chars_between 1 63 (\<lambda>c. is_lower c \<or> is_digit c \<or> c = CHR ''-'')"

definition administration_detail :: "string \<Rightarrow> bool" where
  "administration_detail path \<longleftrightarrow> (case split_on CHR ''/'' path of
     [e, a, collection, name, view] \<Rightarrow> e = [] \<and> a = ''api'' \<and>
       (collection \<in> {''modules'', ''instances''} \<and> is_detail_name name \<and> view \<in> {''credentials'', ''access''} \<or>
        collection = ''kubernetes-access'' \<and> chars_between 1 64 (is_alnum_or ''-'') name \<and> view = ''kubeconfig'')
   | _ \<Rightarrow> False)"

definition paged_keys :: "string \<Rightarrow> string list" where
  "paged_keys path = [''search'', ''first'', ''max''] @ (if path = ''/api/instance-principals'' then [''kind''] else [])"

definition allowedAdministrationRead :: "'w network \<Rightarrow> url \<Rightarrow> string \<Rightarrow> bool" where
  "allowedAdministrationRead net url origin \<longleftrightarrow> u_origin url = origin \<and> u_hash url = [] \<and>
     (u_pathname url \<in> set administration_collections \<or> administration_detail (u_pathname url)) \<and>
     (u_search url = [] \<or> u_pathname url \<in> {''/api/users'', ''/api/kubernetes-access'', ''/api/instance-principals''} \<and>
        set (map fst (nw_params net url)) \<subseteq> set (paged_keys (u_pathname url)))"

record 'w AdministrationApi =
  aa_permits :: "ExactDashboardRequest list"
  aa_beforeSend :: "('w, js_error, unit) act option"

type_synonym ('w, 'a) admin_act = "('w AdministrationApi, 'w, 'a) obj_act"

text \<open>The permit found, with the rest after \<open>splice\<close>; finding and removing it are one synchronous step.\<close>

definition permits :: "string \<Rightarrow> string \<Rightarrow> jsval \<Rightarrow> ExactDashboardRequest \<Rightarrow> bool" where
  "permits path meth body item \<longleftrightarrow> ed_path item = path \<and> ed_method item = meth \<and> stringify (ed_body item) = stringify body"

definition take_permit :: "url \<Rightarrow> string \<Rightarrow> string \<Rightarrow> jsval \<Rightarrow> ('w, unit) admin_act" where
  "take_permit url origin meth body = bnd own (\<lambda>t. case List.extract (permits (u_pathname url) meth body) (aa_permits t) of
     Some (xs, item, ys) \<Rightarrow> seq (requireSafe (plain_at url origin) R_MUTATION) (assign (\<lambda>t. t\<lparr>aa_permits := xs @ ys\<rparr>))
   | None \<Rightarrow> throw (hard R_MUTATION))"

definition before_send :: "('w, unit) admin_act" where
  "before_send = bnd own (\<lambda>t. case aa_beforeSend t of None \<Rightarrow> ret () | Some m \<Rightarrow> via m)"

definition admin_checks :: "'w network \<Rightarrow> string \<Rightarrow> ('w, js_error, unit) act \<Rightarrow> url \<Rightarrow> string \<Rightarrow> http_request \<Rightarrow> ('w, string obj) admin_act" where
  "admin_checks net origin guard url meth r =
     (if meth = ''GET''
      then seq (requireSafe (allowedAdministrationRead net url origin \<and> \<not> has_body r) R_MUTATION) (ret (hr_headers r))
      else bnd (via (parsed_body net r (Other ''SyntaxError''))) (\<lambda>body.
        seq (take_permit url origin meth (case body of None \<Rightarrow> JNull | Some v \<Rightarrow> v))
       (seq (via guard) (seq before_send (ret (set_header ''Origin'' origin (hr_headers r)))))))"

definition admin_transport :: "'w network \<Rightarrow> string \<Rightarrow> ('w, js_error, unit) act \<Rightarrow> http_request \<Rightarrow> ('w, http_response) admin_act" where
  "admin_transport net origin guard r = bnd (via (target_url net r)) (\<lambda>url.
     (let meth = toUpperCase (hr_method r)
      in bnd (admin_checks net origin guard url meth r) (\<lambda>headers.
         bnd (via (send_or_api net \<lparr>sr_href = u_href url, sr_method = meth, sr_headers = headers, sr_data = body_data r\<rparr>)) (\<lambda>raw.
         seq (requireSafe (rr_length raw < mebibytes 2 \<and> is_json raw) R_API)
           (via (new_response net (rr_status raw) (rr_text raw)))))))"

text \<open>An error of an action: of the transport, or of the API client.\<close>

datatype client_error = Of_transport js_error | Of_client thrown

definition administration_rejected :: "int \<Rightarrow> js_error" where
  "administration_rejected status = Harness ((mkHarnessError R_API None None None)\<lparr>he_class := AdministrationRejected status\<rparr>)"

definition write_error :: "client_error \<Rightarrow> js_error" where
  "write_error e = (case e of
     Of_client (ApiError message status details) \<Rightarrow> administration_rejected status
   | Of_transport (Harness h) \<Rightarrow> Harness h
   | _ \<Rightarrow> hard R_API)"

definition close_permits :: "'w AdministrationApi \<Rightarrow> 'w AdministrationApi" where
  "close_permits t = t\<lparr>aa_permits := [], aa_beforeSend := None\<rparr>"

definition admin_write :: "ExactDashboardRequest \<Rightarrow> ('w, js_error, unit) act option \<Rightarrow> ('w AdministrationApi \<times> 'w, client_error, 'a) act \<Rightarrow> ('w, 'a) admin_act" where
  "admin_write permit beforeSend action = bnd own (\<lambda>t.
     seq (requireSafe (aa_permits t = []) R_MUTATION)
    (seq (assign (\<lambda>t. t\<lparr>aa_permits := aa_permits t @ [permit], aa_beforeSend := beforeSend\<rparr>))
      (\<lambda>s. case action s of (r, t, w) \<Rightarrow> (map_sum write_error id r, close_permits t, w))))"

text \<open>An operation of the API client over a transport.\<close>

definition client_call :: "(http_request \<Rightarrow> ('s, js_error, http_response) act) \<Rightarrow> string \<Rightarrow> api_call \<Rightarrow> ('s, client_error, jsval) act" where
  "client_call transport base call = (\<lambda>s. case transport (http_request_of base call None) s of
     (Inl e, t) \<Rightarrow> (Inl (Of_transport e), t)
   | (Inr response, t) \<Rightarrow> (map_sum Of_client id (read_response response), t))"

subsection \<open>What administration writes send\<close>

text \<open>The requests sent so far can be read off the world: sending adds one, and other ports add none.\<close>

definition records_requests :: "('w \<Rightarrow> sent_request list) \<Rightarrow> 'w network \<Rightarrow> bool" where
  "records_requests log net \<longleftrightarrow> (\<forall>r w. log (snd (nw_send net r w)) = log w @ [r])"

definition sends_nothing :: "('w \<Rightarrow> sent_request list) \<Rightarrow> ('w, js_error, unit) act \<Rightarrow> bool" where
  "sends_nothing log m \<longleftrightarrow> (\<forall>w. log (snd (m w)) = log w)"

definition writes_of :: "sent_request list \<Rightarrow> sent_request list" where
  "writes_of rs = filter (\<lambda>r. sr_method r \<noteq> ''GET'') rs"

lemma writes_of_append [simp]: "writes_of (a @ b) = writes_of a @ writes_of b"
  by (simp add: writes_of_def)

text \<open>The request that a permit is for.\<close>

definition sent_for :: "'w network \<Rightarrow> string \<Rightarrow> ExactDashboardRequest \<Rightarrow> sent_request \<Rightarrow> bool" where
  "sent_for net origin item s \<longleftrightarrow> (\<exists>url body. sr_href s = u_href url \<and> plain_at url origin \<and> u_pathname url = ed_path item \<and>
     sr_method s = ed_method item \<and> stringify (ed_body item) = stringify body \<and>
     (case sr_data s of None \<Rightarrow> body = JNull | Some text \<Rightarrow> nw_json net text = Some body))"

definition quiet_before :: "('w \<Rightarrow> sent_request list) \<Rightarrow> 'w AdministrationApi \<Rightarrow> bool" where
  "quiet_before log t \<longleftrightarrow> (case aa_beforeSend t of None \<Rightarrow> True | Some m \<Rightarrow> sends_nothing log m)"

definition never_granted :: "('w, js_error, unit) act \<Rightarrow> bool" where
  "never_granted guard \<longleftrightarrow> (\<forall>w. isl (fst (guard w)))"

text \<open>Permits are only used up, each by at most the one write it is for, and none while the guard refuses.\<close>

definition spends :: "'w network \<Rightarrow> string \<Rightarrow> ('w, js_error, unit) act \<Rightarrow> ('w \<Rightarrow> sent_request list) \<Rightarrow> 'w AdministrationApi \<times> 'w \<Rightarrow> 'w AdministrationApi \<times> 'w \<Rightarrow> bool" where
  "spends net origin guard log s s' \<longleftrightarrow> (quiet_before log (fst s) \<longrightarrow> aa_beforeSend (fst s') = aa_beforeSend (fst s) \<and>
     (\<exists>sent used items. log (snd s') = log (snd s) @ sent \<and> mset (aa_permits (fst s)) = mset used + mset (aa_permits (fst s')) \<and>
        mset items \<subseteq># mset used \<and> list_all2 (sent_for net origin) items (writes_of sent) \<and> (never_granted guard \<longrightarrow> writes_of sent = [])))"

lemma spends_refl: "spends net origin guard log s s"
  unfolding spends_def by (intro impI conjI refl exI [of _ "[]"]) (simp_all add: writes_of_def)

lemma spends_trans: "spends net origin guard log s t \<Longrightarrow> spends net origin guard log t u \<Longrightarrow> spends net origin guard log s u"
  unfolding spends_def
proof (intro impI)
  assume st: "quiet_before log (fst s) \<longrightarrow> aa_beforeSend (fst t) = aa_beforeSend (fst s) \<and> (\<exists>sent used items. log (snd t) = log (snd s) @ sent \<and>
      mset (aa_permits (fst s)) = mset used + mset (aa_permits (fst t)) \<and> mset items \<subseteq># mset used \<and> list_all2 (sent_for net origin) items (writes_of sent) \<and>
      (never_granted guard \<longrightarrow> writes_of sent = []))"
    and tu: "quiet_before log (fst t) \<longrightarrow> aa_beforeSend (fst u) = aa_beforeSend (fst t) \<and> (\<exists>sent used items. log (snd u) = log (snd t) @ sent \<and>
      mset (aa_permits (fst t)) = mset used + mset (aa_permits (fst u)) \<and> mset items \<subseteq># mset used \<and> list_all2 (sent_for net origin) items (writes_of sent) \<and>
      (never_granted guard \<longrightarrow> writes_of sent = []))"
    and quiet: "quiet_before log (fst s)"
  from st quiet obtain sent used items where same: "aa_beforeSend (fst t) = aa_beforeSend (fst s)" and a: "log (snd t) = log (snd s) @ sent"
    "mset (aa_permits (fst s)) = mset used + mset (aa_permits (fst t))" "mset items \<subseteq># mset used" "list_all2 (sent_for net origin) items (writes_of sent)"
    "never_granted guard \<longrightarrow> writes_of sent = []" by blast
  have "quiet_before log (fst t)" using same quiet by (simp add: quiet_before_def)
  with tu obtain sent' used' items' where same': "aa_beforeSend (fst u) = aa_beforeSend (fst t)" and b: "log (snd u) = log (snd t) @ sent'"
    "mset (aa_permits (fst t)) = mset used' + mset (aa_permits (fst u))" "mset items' \<subseteq># mset used'" "list_all2 (sent_for net origin) items' (writes_of sent')"
    "never_granted guard \<longrightarrow> writes_of sent' = []" by blast
  show "aa_beforeSend (fst u) = aa_beforeSend (fst s) \<and> (\<exists>sent used items. log (snd u) = log (snd s) @ sent \<and>
      mset (aa_permits (fst s)) = mset used + mset (aa_permits (fst u)) \<and> mset items \<subseteq># mset used \<and> list_all2 (sent_for net origin) items (writes_of sent) \<and>
      (never_granted guard \<longrightarrow> writes_of sent = []))"
    using same same' a b
    by (intro conjI exI [of _ "sent @ sent'"] exI [of _ "used @ used'"] exI [of _ "items @ items'"])
      (auto simp: subset_mset.add_mono intro: list_all2_appendI)
qed

interpretation spending: step_contract "spends net origin guard log" for net origin guard log
  by unfold_locales (rule spends_refl, rule spends_trans)

lemma quiet_via: "sends_nothing log m \<Longrightarrow> m w = (r, w') \<Longrightarrow> log w' = log w"
  unfolding sends_nothing_def by (metis snd_conv)

lemma before_send_run:
  assumes "quiet_before log t" and "before_send (t, w) = (x, (t', w'))"
  shows "t' = t \<and> log w' = log w"
  using assms by (auto simp: before_send_def bnd_def quiet_before_def ret_def dest: quiet_via split: option.splits prod.splits)

lemma parsed_body_run:
  obtains x where "parsed_body net r e w = (x, w)"
    and "\<And>b. x = Inr b \<Longrightarrow> (case body_data r of None \<Rightarrow> b = None | Some text \<Rightarrow> b \<noteq> None \<and> nw_json net text = b)"
proof -
  have "\<exists>x. parsed_body net r e w = (x, w) \<and> (\<forall>b. x = Inr b \<longrightarrow> (case body_data r of None \<Rightarrow> b = None | Some text \<Rightarrow> b \<noteq> None \<and> nw_json net text = b))"
    by (auto simp: parsed_body_def body_data_def has_body_def given_def ret_def throw_def split: option.split)
  with that show thesis by blast
qed

text \<open>The checks send nothing; they let a write pass only for a permit that they take, and only past the guard.\<close>

lemma admin_checks_run:
  assumes "sends_nothing log guard" and "quiet_before log t" and "admin_checks net origin guard url meth r (t, w) = (x, (t', w'))"
  shows "log w' = log w \<and> aa_beforeSend t' = aa_beforeSend t \<and> (meth \<noteq> ''GET'' \<and> never_granted guard \<longrightarrow> isl x) \<and>
    (aa_permits t' = aa_permits t \<and> (isl x \<or> meth = ''GET'') \<or>
     (\<exists>a item b. aa_permits t = a @ item # b \<and> aa_permits t' = a @ b \<and>
        sent_for net origin item \<lparr>sr_href = u_href url, sr_method = meth, sr_headers = hs, sr_data = body_data r\<rparr>))"
proof (cases "meth = ''GET''")
  case True
  then show ?thesis using assms(3) by (auto simp: admin_checks_def bnd_def seq_def ret_def split: if_splits)
next
  case mutating: False
  obtain pb where pb: "parsed_body net r (Other ''SyntaxError'') w = (pb, w)"
    and body: "\<And>b. pb = Inr b \<Longrightarrow> (case body_data r of None \<Rightarrow> b = None | Some text \<Rightarrow> b \<noteq> None \<and> nw_json net text = b)"
    using parsed_body_run [of net r "Other ''SyntaxError''" w] by blast
  show ?thesis
  proof (cases pb)
    case (Inl e)
    then show ?thesis using assms(3) pb mutating by (auto simp: admin_checks_def bnd_def)
  next
    case (Inr b)
    let ?body = "case b of None \<Rightarrow> JNull | Some v \<Rightarrow> v"
    show ?thesis
    proof (cases "List.extract (permits (u_pathname url) meth ?body) (aa_permits t)")
      case None
      then show ?thesis using assms(3) pb Inr mutating by (auto simp: admin_checks_def bnd_def seq_def take_permit_def throw_def)
    next
      case (Some p)
      obtain xs item ys where p: "p = (xs, item, ys)" by (cases p)
      have item: "aa_permits t = xs @ item # ys" "permits (u_pathname url) meth ?body item" using Some p by (auto dest: extract_SomeE)
      show ?thesis
      proof (cases "plain_at url origin")
        case False
        then show ?thesis using assms(3) pb Inr mutating Some p by (auto simp: admin_checks_def bnd_def seq_def take_permit_def)
      next
        case plain: True
        have "sent_for net origin item \<lparr>sr_href = u_href url, sr_method = meth, sr_headers = hs, sr_data = body_data r\<rparr>"
          using item(2) plain body [OF Inr] unfolding sent_for_def permits_def
          by (intro exI [of _ url] exI [of _ ?body]) (auto split: option.splits)
        then have taken: "\<exists>a item b. aa_permits t = a @ item # b \<and> xs @ ys = a @ b \<and>
            sent_for net origin item \<lparr>sr_href = u_href url, sr_method = meth, sr_headers = hs, sr_data = body_data r\<rparr>" using item(1) by blast
        let ?t = "t\<lparr>aa_permits := xs @ ys\<rparr>"
        obtain gr gw where g: "guard w = (gr, gw)" by (metis surj_pair)
        obtain br bt bw where before: "before_send (?t, gw) = (br, (bt, bw))" by (metis surj_pair)
        have quiet: "log gw = log w" "bt = ?t" "log bw = log gw"
          using quiet_via [OF assms(1) g] before_send_run [of log, OF _ before] assms(2) by (auto simp: quiet_before_def)
        have refused: "never_granted guard \<Longrightarrow> isl gr" using g unfolding never_granted_def by (metis fst_conv)
        show ?thesis
          using assms(3) pb Inr mutating Some p plain g before quiet refused taken
          by (cases gr; cases br) (auto simp: admin_checks_def bnd_def seq_def take_permit_def ret_def)
      qed
    qed
  qed
qed

lemma send_or_api_log:
  assumes "records_requests log net" and "send_or_api net s w = (x, w')"
  shows "log w' = log w @ [s]"
proof -
  obtain y v where send: "nw_send net s w = (y, v)" by (metis surj_pair)
  have "log v = log w @ [s]" using assms(1) send unfolding records_requests_def by (metis snd_conv)
  then show ?thesis using assms(2) send by (cases y) (auto simp: send_or_api_def catch_def throw_def)
qed

lemma admin_sends:
  fixes log :: "'w \<Rightarrow> sent_request list"
  assumes "records_requests log net" and "sends_nothing log guard"
  shows "along (spends net origin guard log) (admin_transport net origin guard r)"
  unfolding along_def
proof
  fix s :: "'w AdministrationApi \<times> 'w"
  obtain t w where s: "s = (t, w)" by (cases s)
  let ?final = "snd (admin_transport net origin guard r (t, w))"
  have "spends net origin guard log (t, w) ?final"
  proof (cases "nw_parse net (hr_url r)")
    case None
    then show ?thesis by (simp add: admin_transport_def target_url_def bnd_def throw_def spends_refl)
  next
    case (Some url)
    let ?meth = "toUpperCase (hr_method r)"
    obtain x t1 w1 where checks: "admin_checks net origin guard url ?meth r (t, w) = (x, (t1, w1))" by (metis surj_pair)
    show ?thesis
    proof (cases "quiet_before log t")
      case False
      then show ?thesis by (simp add: spends_def)
    next
      case quiet: True
      note run = admin_checks_run [OF assms(2) quiet checks]
      show ?thesis
      proof (cases x)
        case (Inl e)
        then have last: "?final = (t1, w1)" using Some checks by (simp add: admin_transport_def target_url_def bnd_def ret_def Let_def)
        have "\<exists>used. mset (aa_permits t) = mset used + mset (aa_permits t1)" using run [of "[]"] by (auto intro: exI [of _ "[]"] exI [of _ "[_]"])
        then show ?thesis unfolding last spends_def using run [of "[]"]
          by (auto intro!: exI [of _ "[]"] simp: writes_of_def)
      next
        case (Inr hs)
        let ?s = "\<lparr>sr_href = u_href url, sr_method = ?meth, sr_headers = hs, sr_data = body_data r\<rparr>"
        obtain y w2 where sent: "send_or_api net ?s w1 = (y, w2)" by (metis surj_pair)
        have ends: "fst ?final = t1 \<and> log (snd ?final) = log w2"
          using Some checks Inr sent
          by (cases y) (auto simp: admin_transport_def target_url_def bnd_def seq_def ret_def Let_def new_response_def throw_def split: prod.split if_splits)
        have grown: "log (snd ?final) = log w @ [?s]" using send_or_api_log [OF assms(1) sent] run [of hs] ends by simp
        from run [of hs] Inr consider "aa_permits t1 = aa_permits t" "?meth = ''GET''"
          | a item b where "aa_permits t = a @ item # b" "aa_permits t1 = a @ b" "sent_for net origin item ?s" by auto
        then show ?thesis
        proof cases
          case 1
          then show ?thesis unfolding spends_def using run [of hs] ends grown
            by (intro impI conjI exI [of _ "[?s]"] exI [of _ "[]"]) (simp_all add: writes_of_def)
        next
          case (2 a item b)
          then show ?thesis unfolding spends_def using run [of hs] ends grown Inr
            by (intro impI conjI exI [of _ "[?s]"] exI [of _ "[item]"] exI [of _ "if ?meth = ''GET'' then [] else [item]"]) (auto simp: writes_of_def)
        qed
      qed
    qed
  qed
  then show "spends net origin guard log s (snd (admin_transport net origin guard r s))" by (simp add: s)
qed

text \<open>An action that reaches the network only through the transport it is given.\<close>

definition reaches :: "('q \<Rightarrow> ('s, js_error, 'b) act) \<Rightarrow> ('s, 'e, 'a) act \<Rightarrow> bool" where
  "reaches transport action \<longleftrightarrow> (\<forall>R. reflp R \<longrightarrow> transp R \<longrightarrow> (\<forall>r. along R (transport r)) \<longrightarrow> along R action)"

lemma client_call_reaches: "reaches transport (client_call transport base call)"
proof -
  have "snd (client_call transport base call s) = snd (transport (http_request_of base call None) s)" for s
    by (auto simp: client_call_def split: prod.split sum.split)
  then show ?thesis by (simp add: reaches_def along_def)
qed

text \<open>
  C20: A guarded administration write lets out at most one write, and exactly the request of its permit: whatever requests
  the action makes through the transport, at most one of those sent is not a GET, it has the method, the origin, the path
  and the body of the permit, and none is sent while the guard refuses. No permit is left behind for a later action. While
  another write is open it is refused and nothing happens.
\<close>

theorem admin_write_is_exact:
  assumes "records_requests log net" and "sends_nothing log guard" and "quiet_before log \<lparr>aa_permits = [], aa_beforeSend = beforeSend\<rparr>"
    and "reaches (admin_transport net origin guard) action" and "admin_write permit beforeSend action (t, w) = (x, (t', w'))"
  shows "if aa_permits t \<noteq> [] then x = Inl (hard R_MUTATION) \<and> t' = t \<and> w' = w
    else aa_permits t' = [] \<and> aa_beforeSend t' = None \<and>
      (\<exists>sent. log w' = log w @ sent \<and> length (writes_of sent) \<le> 1 \<and> list_all (sent_for net origin permit) (writes_of sent) \<and>
         (never_granted guard \<longrightarrow> writes_of sent = []))"
proof (cases "aa_permits t = []")
  case False
  then show ?thesis using assms(5) by (simp add: admin_write_def bnd_def seq_def)
next
  case True
  let ?t = "t\<lparr>aa_permits := [permit], aa_beforeSend := beforeSend\<rparr>"
  let ?R = "spends net origin guard log"
  obtain y u where run: "action (?t, w) = (y, (u, w'))" and t': "t' = close_permits u"
  proof -
    obtain y u v where "action (?t, w) = (y, (u, v))" by (metis surj_pair)
    then show ?thesis using that assms(5) True by (simp add: admin_write_def bnd_def seq_def)
  qed
  have "along ?R action" using assms(4) admin_sends [OF assms(1,2)] spending.preorder unfolding reaches_def by blast
  then have "?R (?t, w) (u, w')" using run by (rule alongD)
  moreover have "quiet_before log ?t" using assms(3) by (simp add: quiet_before_def)
  ultimately obtain sent used items where sent: "log w' = log w @ sent" "{#permit#} = mset used + mset (aa_permits u)" "mset items \<subseteq># mset used"
    "list_all2 (sent_for net origin) items (writes_of sent)" "never_granted guard \<longrightarrow> writes_of sent = []"
    unfolding spends_def by auto
  have "mset items \<subseteq># {#permit#}" using sent(2,3) by (metis subset_mset.order_trans mset_subset_eq_add_left)
  then have "length items \<le> 1" "set items \<subseteq> {permit}" by (auto dest: size_mset_mono mset_subset_eqD)
  then have "items = [] \<or> items = [permit]" by (cases items) auto
  then have "length (writes_of sent) \<le> 1 \<and> list_all (sent_for net origin permit) (writes_of sent)"
    using sent(4) by (auto simp: list_all2_Cons1)
  then show ?thesis using True t' sent(1,5) by (auto simp: close_permits_def)
qed

subsection \<open>What the preparation sends\<close>

text \<open>A read of a fixed path or of model discovery, or an estimate for one of the CPU fixtures of the run.\<close>

definition preparation_request :: "'w network \<Rightarrow> (string \<Rightarrow> string \<Rightarrow> int) \<Rightarrow> string \<Rightarrow> jsval list \<Rightarrow> sent_request \<Rightarrow> bool" where
  "preparation_request net compare origin estimates s \<longleftrightarrow> (\<exists>url. sr_href s = u_href url \<and> u_origin url = origin \<and> u_hash url = [] \<and>
     (sr_method s = ''GET'' \<and> (u_pathname url \<in> set readable_paths \<and> u_search url = [] \<and> sr_data s = None \<or>
        u_pathname url \<in> set discovery_paths \<and> discovery_params (u_pathname url) (nw_params net url)) \<or>
      sr_method s = ''POST'' \<and> u_pathname url = ''/api/models/estimate-memory'' \<and> u_search url = [] \<and>
        (\<exists>v \<in> set estimates. canonicalInput compare (Some v) = canonicalInput compare (case sr_data s of None \<Rightarrow> None | Some t \<Rightarrow> nw_json net t))))"

definition sends_at_most :: "('w \<Rightarrow> sent_request list) \<Rightarrow> (sent_request \<Rightarrow> bool) \<Rightarrow> 'w \<Rightarrow> 'w \<Rightarrow> bool" where
  "sends_at_most log p w w' \<longleftrightarrow> log w' = log w \<or> (\<exists>s. log w' = log w @ [s] \<and> p s)"

lemma nw_send_log: "records_requests log net \<Longrightarrow> nw_send net s w = (x, w') \<Longrightarrow> log w' = log w @ [s]"
  unfolding records_requests_def by (metis snd_conv)

lemma readOnlyFetch_sends:
  assumes "records_requests log net" and "readOnlyFetch net origin r w = (x, w')"
  shows "sends_at_most log (\<lambda>s. \<exists>url. s = \<lparr>sr_href = u_href url, sr_method = ''GET'', sr_headers = [(''Accept'', ''application/json'')], sr_data = None\<rparr> \<and>
      plain_at url origin \<and> u_pathname url \<in> set readable_paths) w w'"
proof (cases "nw_parse net (hr_url r)")
  case None
  then show ?thesis using assms(2) by (auto simp: readOnlyFetch_def target_url_def bnd_def throw_def sends_at_most_def)
next
  case (Some url)
  let ?ok = "plain_at url origin \<and> u_pathname url \<in> set readable_paths \<and> toUpperCase (hr_method r) = ''GET'' \<and> \<not> has_body r"
  let ?s = "\<lparr>sr_href = u_href url, sr_method = ''GET'', sr_headers = [(''Accept'', ''application/json'')], sr_data = None\<rparr>"
  show ?thesis
  proof (cases ?ok)
    case False
    then show ?thesis using assms(2) Some by (auto simp: readOnlyFetch_def target_url_def bnd_def seq_def ret_def sends_at_most_def)
  next
    case True
    obtain y v where send: "nw_send net ?s w = (y, v)" by (metis surj_pair)
    have "w' = v" using assms(2) Some True send
      by (cases y) (auto simp: readOnlyFetch_def target_url_def harness_or_api_def new_response_def bnd_def seq_def ret_def throw_def catch_def
          split: js_error.splits if_splits)
    then show ?thesis using nw_send_log [OF assms(1) send] True by (auto simp: sends_at_most_def)
  qed
qed

text \<open>
  The preparation changes nothing: whatever the API client asks of its transport, at most one request leaves, to the
  origin of the dashboard, and it is a GET of one of the fixed paths, a model search or artifact list with the fixed
  parameters, or the memory estimate of a CPU fixture of the run, the only POST.
\<close>

theorem preparation_sends_only_reads:
  assumes "records_requests log net" and "preparationApi net compare origin estimates r w = (x, w')"
  shows "sends_at_most log (preparation_request net compare origin estimates) w w'"
proof (cases "nw_parse net (hr_url r)")
  case None
  then show ?thesis using assms(2) by (auto simp: preparationApi_def target_url_def bnd_def throw_def sends_at_most_def)
next
  case (Some url)
  let ?meth = "toUpperCase (hr_method r)"
  show ?thesis
  proof (cases "?meth = ''GET'' \<and> u_pathname url \<notin> set discovery_paths")
    case True
    then have "readOnlyFetch net origin r w = (x, w')" using assms(2) Some
      by (simp add: preparationApi_def target_url_def bnd_def ret_def)
    from readOnlyFetch_sends [OF assms(1) this] show ?thesis
      unfolding sends_at_most_def preparation_request_def plain_at_def by fastforce
  next
    case False
    obtain pb where pb: "parsed_body net r (hard R_MUTATION) w = (pb, w)"
      and body: "\<And>b. pb = Inr b \<Longrightarrow> (case body_data r of None \<Rightarrow> b = None | Some t \<Rightarrow> b \<noteq> None \<and> nw_json net t = b)"
      using parsed_body_run [of net r "hard R_MUTATION" w] by blast
    have run: "(case pb of Inl e \<Rightarrow> (Inl e, w) | Inr b \<Rightarrow> (seq (requireSafe (allowedPreparationRequest net compare url ?meth b origin estimates) R_MUTATION)
          (bnd (send_or_api net \<lparr>sr_href = u_href url, sr_method = ?meth, sr_headers = preparation_headers ?meth origin, sr_data = body_data r\<rparr>) (\<lambda>raw.
           seq (requireSafe (rr_status raw = 200 \<and> is_json raw) R_API)
          (seq (requireSafe (rr_length raw < mebibytes 8) R_API) (new_response net 200 (rr_text raw)))))) w) = (x, w')"
      using assms(2) Some False pb by (cases pb) (simp_all add: preparationApi_def target_url_def bnd_def ret_def Let_def)
    show ?thesis
    proof (cases pb)
      case (Inl e)
      then show ?thesis using run by (simp add: sends_at_most_def)
    next
      case (Inr b)
      let ?s = "\<lparr>sr_href = u_href url, sr_method = ?meth, sr_headers = preparation_headers ?meth origin, sr_data = body_data r\<rparr>"
      have data: "(case sr_data ?s of None \<Rightarrow> None | Some t \<Rightarrow> nw_json net t) = b" using body [OF Inr] by (simp split: option.splits)
      show ?thesis
      proof (cases "allowedPreparationRequest net compare url ?meth b origin estimates")
        case refused: False
        then show ?thesis using run Inr by (simp add: seq_def bnd_def sends_at_most_def)
      next
        case True
        obtain y v where send: "send_or_api net ?s w = (y, v)" by (metis surj_pair)
        have "w' = v" using run Inr True send
          by (cases y) (auto simp: bnd_def seq_def new_response_def ret_def throw_def split: if_splits)
        moreover have "preparation_request net compare origin estimates ?s"
          unfolding preparation_request_def data
          by (rule exI [of _ url]) (use True in \<open>auto simp: allowedPreparationRequest_def list_ex_iff split: if_splits\<close>)
        ultimately show ?thesis using send_or_api_log [OF assms(1) send] by (auto simp: sends_at_most_def)
      qed
    qed
  qed
qed

subsection \<open>A concrete network\<close>

text \<open>The world is the list of the requests sent; \<open>JSON.parse\<close> knows the texts of the values given.\<close>

definition known_json :: "jsval list \<Rightarrow> string \<Rightarrow> jsval option" where
  "known_json vs t = find (\<lambda>v. stringify v = t) vs"

definition wire :: "jsval list \<Rightarrow> sent_request list network" where
  "wire vs = \<lparr>nw_parse = (\<lambda>s. map_option site_url (strip_prefix ''https://m'' s)), nw_params = (\<lambda>_. []), nw_json = known_json vs,
     nw_send = (\<lambda>s. seq (modify (\<lambda>l. l @ [s])) (ret \<lparr>rr_status = 200, rr_contentType = ''application/json'', rr_length = 2, rr_text = ''{}''\<rparr>))\<rparr>"

lemma wire_records: "records_requests (\<lambda>l. l) (wire vs)"
  by (simp add: records_requests_def wire_def seq_def bnd_def modify_def ret_def)

definition key_body :: jsval where
  "key_body = JObj [(''name'', JStr ''reg-a'')]"

definition key_permit :: ExactDashboardRequest where
  "key_permit = \<lparr>ed_method = ''POST'', ed_path = ''/api/api-access'', ed_body = key_body, ed_mutating = None\<rparr>"

definition no_permits :: "'w AdministrationApi" where
  "no_permits = \<lparr>aa_permits = [], aa_beforeSend = None\<rparr>"

definition create_action :: "(sent_request list AdministrationApi \<times> sent_request list, client_error, jsval) act" where
  "create_action = client_call (admin_transport (wire [key_body]) ''https://m'' (ret ())) ''https://m'' (api_createApiKey ''reg-a'')"

theorem admin_write_is_exact_witness:
  "\<exists>x t l. admin_write key_permit None create_action (no_permits, []) = (x, (t, l)) \<and> length (writes_of l) = 1 \<and>
     list_all (sent_for (wire [key_body]) ''https://m'' key_permit) (writes_of l) \<and> aa_permits t = []"
proof -
  obtain x t l where run: "admin_write key_permit None create_action (no_permits, []) = (x, (t, l))" and one: "length (writes_of l) = 1"
  proof -
    have "length (writes_of (snd (snd (admin_write key_permit None create_action (no_permits, []))))) = 1" by code_simp
    then show ?thesis using that by (metis prod.collapse)
  qed
  have "sends_nothing (\<lambda>l. l) (ret ())" "quiet_before (\<lambda>l. l) \<lparr>aa_permits = [], aa_beforeSend = None\<rparr>"
    by (simp_all add: sends_nothing_def ret_def quiet_before_def)
  moreover have "reaches (admin_transport (wire [key_body]) ''https://m'' (ret ())) create_action"
    unfolding create_action_def by (rule client_call_reaches)
  ultimately have "aa_permits t = [] \<and> list_all (sent_for (wire [key_body]) ''https://m'' key_permit) (writes_of l)"
    using admin_write_is_exact [OF wire_records _ _ _ run] by (auto simp: no_permits_def)
  then show ?thesis using run one by blast
qed

theorem preparation_sends_only_reads_witness:
  "\<exists>x l. preparationApi (wire []) (\<lambda>_ _. 0) ''https://m'' [] (http_request_of ''https://m'' api_status None) [] = (x, l) \<and>
     length l = 1 \<and> list_all (preparation_request (wire []) (\<lambda>_ _. 0) ''https://m'' []) l"
proof -
  obtain x l where run: "preparationApi (wire []) (\<lambda>_ _. 0) ''https://m'' [] (http_request_of ''https://m'' api_status None) [] = (x, l)" and one: "length l = 1"
  proof -
    have "length (snd (preparationApi (wire []) (\<lambda>_ _. 0) ''https://m'' [] (http_request_of ''https://m'' api_status None) [])) = 1" by code_simp
    then show ?thesis using that by (metis prod.collapse)
  qed
  from preparation_sends_only_reads [OF wire_records run] one have "list_all (preparation_request (wire []) (\<lambda>_ _. 0) ''https://m'' []) l"
    by (auto simp: sends_at_most_def)
  then show ?thesis using run one by blast
qed

end
