(* ===== verification/Owned_Keys.thy ===== *)
theory Owned_Keys
  imports Dashboard_Transports Resource_Journal
begin

text \<open>
  The client of run-owned API keys (\<open>regression/core/owned-key.ts\<close>): a transport that lets out only the collection,
  creations under the prefix of the run and deletions of owned ids, the operations over it and the adapter of the
  journal's cleanup. The state of an action is the client beside the world of the network.
\<close>

subsection \<open>Data\<close>

record key_request =
  kq_method :: string
  kq_httpStatus :: "int option"
  kq_requestAttempted :: bool

record OwnedKeyClient =
  ok_prefix :: string
  ok_ownedIds :: "string list"
  ok_lastRequest :: "key_request option"

record 'w key_ports =
  kp_network :: "'w network"
  kp_base :: string
  kp_origin :: string
  kp_guard :: "('w, js_error, unit) act"

type_synonym ('w, 'a) key_act = "(OwnedKeyClient, 'w, 'a) obj_act"

text \<open>\<open>Set.add\<close>\<close>

definition own_id :: "string \<Rightarrow> OwnedKeyClient \<Rightarrow> OwnedKeyClient" where
  "own_id ident c = c\<lparr>ok_ownedIds := (if ident \<in> set (ok_ownedIds c) then ok_ownedIds c else ok_ownedIds c @ [ident])\<rparr>"

definition owned_entry :: "string \<Rightarrow> JournalEntry \<Rightarrow> bool" where
  "owned_entry pre e \<longleftrightarrow> je_kind e = K_key \<and> given (je_uid e) \<and> startsWith (je_name e) pre"

definition newOwnedKeyClient :: "string \<Rightarrow> JournalEntry list \<Rightarrow> OwnedKeyClient" where
  "newOwnedKeyClient pre journal = fold (\<lambda>e. own_id (the (je_uid e))) (filter (owned_entry pre) journal)
     \<lparr>ok_prefix = pre, ok_ownedIds = [], ok_lastRequest = None\<rparr>"

subsection \<open>The transport\<close>

definition key_payload :: "string \<Rightarrow> jsval \<Rightarrow> bool" where
  "key_payload pre v \<longleftrightarrow> is_object v \<and> length (keys_of v) = 1 \<and> string_such (\<lambda>n. startsWith n pre) (jget v ''name'')"

definition deleted_id :: "url \<Rightarrow> string option" where
  "deleted_id url = (case strip_prefix ''/api/api-access/'' (u_pathname url) of None \<Rightarrow> None | Some i \<Rightarrow> if is_key_id i then Some i else None)"

definition key_request_allowed :: "'w network \<Rightarrow> string \<Rightarrow> OwnedKeyClient \<Rightarrow> url \<Rightarrow> string \<Rightarrow> http_request \<Rightarrow> bool" where
  "key_request_allowed net origin c url meth r \<longleftrightarrow> plain_at url origin \<and>
     (if meth = ''GET'' then u_pathname url = ''/api/api-access'' \<and> \<not> has_body r
      else if meth = ''POST'' then u_pathname url = ''/api/api-access'' \<and>
        (case hr_body r of None \<Rightarrow> False | Some text \<Rightarrow> (case nw_json net text of None \<Rightarrow> False | Some v \<Rightarrow> key_payload (ok_prefix c) v))
      else meth = ''DELETE'' \<and> (case deleted_id url of None \<Rightarrow> False | Some i \<Rightarrow> i \<in> set (ok_ownedIds c)) \<and> \<not> has_body r)"

definition note_request :: "key_request option \<Rightarrow> ('w, unit) key_act" where
  "note_request q = assign (\<lambda>c. c\<lparr>ok_lastRequest := q\<rparr>)"

definition key_transport :: "'w key_ports \<Rightarrow> http_request \<Rightarrow> ('w, http_response) key_act" where
  "key_transport ports r = (let net = kp_network ports; meth = toUpperCase (hr_method r) in
     bnd (via (target_url net r)) (\<lambda>url. bnd own (\<lambda>c.
     seq (requireSafe (key_request_allowed net (kp_origin ports) c url meth r) R_MUTATION)
    (seq (note_request (Some \<lparr>kq_method = meth, kq_httpStatus = None, kq_requestAttempted = False\<rparr>))
    (seq (if meth = ''GET'' then ret () else via (kp_guard ports))
    (seq (note_request (Some \<lparr>kq_method = meth, kq_httpStatus = None, kq_requestAttempted = True\<rparr>))
    (bnd (via (send_or_api net \<lparr>sr_href = u_href url, sr_method = meth,
         sr_headers = (if meth = ''GET'' then hr_headers r else set_header ''Origin'' (kp_origin ports) (hr_headers r)), sr_data = body_data r\<rparr>)) (\<lambda>raw.
     seq (note_request (Some \<lparr>kq_method = meth, kq_httpStatus = Some (rr_status raw), kq_requestAttempted = True\<rparr>))
    (seq (requireSafe (200 \<le> rr_status raw \<and> rr_status raw < 300 \<and> is_json raw) R_API)
    (seq (requireSafe (rr_length raw < mebibytes 2) R_API) (via (new_response net (rr_status raw) (rr_text raw)))))))))))))"

subsection \<open>Operations\<close>

text \<open>\<open>try { \<dots> } catch (error) { if (error instanceof HarnessError) throw error; throw new HarnessError(code); }\<close>\<close>

definition key_error :: "ReasonCode \<Rightarrow> client_error \<Rightarrow> js_error" where
  "key_error code e = (case e of Of_transport (Harness h) \<Rightarrow> Harness h | _ \<Rightarrow> hard code)"

definition key_call :: "'w key_ports \<Rightarrow> ReasonCode \<Rightarrow> api_call \<Rightarrow> ('w, jsval) key_act" where
  "key_call ports code call = (\<lambda>s. case client_call (key_transport ports) (kp_base ports) call s of (x, t) \<Rightarrow> (map_sum (key_error code) id x, t))"

definition list_keys :: "'w key_ports \<Rightarrow> ('w, jsval list) key_act" where
  "list_keys ports = bnd (key_call ports R_API api_apiAccess) (\<lambda>result. case array_items (jget result ''items'') of
     None \<Rightarrow> throw (hard R_API) | Some items \<Rightarrow> ret items)"

definition key_name_ok :: "OwnedKeyClient \<Rightarrow> string \<Rightarrow> bool" where
  "key_name_ok c name \<longleftrightarrow> startsWith name (ok_prefix c) \<and> is_key_name name"

definition adoptable :: "string \<Rightarrow> jsval \<Rightarrow> bool" where
  "adoptable name v \<longleftrightarrow> (let item = jat (Some v) [''item''] in
     truthy_opt item \<and> string_such is_key_id (jat item [''id'']) \<and> jat item [''name''] = Some (JStr name) \<and>
     string_such (\<lambda>k. startsWith k ''sk-'') (jat (Some v) [''key'']))"

definition adoptCredential :: "string \<Rightarrow> jsval \<Rightarrow> ('w, string \<times> string) key_act" where
  "adoptCredential name v = bnd own (\<lambda>c. seq (requireSafe (key_name_ok c name) R_OWNERSHIP)
    (seq (requireSafe (adoptable name v) R_API)
       (let ident = text_of (jat (Some v) [''item'', ''id'']) in
        seq (assign (own_id ident)) (ret (ident, text_of (jat (Some v) [''key'']))))))"

definition createCredential :: "'w key_ports \<Rightarrow> string \<Rightarrow> ('w, string \<times> string) key_act" where
  "createCredential ports name = bnd own (\<lambda>c. seq (requireSafe (key_name_ok c name) R_OWNERSHIP)
     (bnd (key_call ports R_API (api_createApiKey name)) (adoptCredential name)))"

definition create_key :: "'w key_ports \<Rightarrow> string \<Rightarrow> ('w, string) key_act" where
  "create_key ports name = bnd (createCredential ports name) (\<lambda>p. ret (fst p))"

subsection \<open>The cleanup adapter\<close>

definition requestDiagnostic :: "OwnedKeyClient \<Rightarrow> jsval obj" where
  "requestDiagnostic c = (case ok_lastRequest c of None \<Rightarrow> [] | Some q \<Rightarrow>
     [(''method'', JStr (kq_method q)), (''endpoint'', JStr ''api-key''),
      (''httpStatus'', case kq_httpStatus q of None \<Rightarrow> JNull | Some s \<Rightarrow> JInt s), (''requestAttempted'', JBool (kq_requestAttempted q))])"

text \<open>\<open>this.lastRequest = undefined; try { m } finally { await observe({operation, state: 'running', \<dots>}) }\<close>\<close>

definition observed_key :: "(jsval obj \<Rightarrow> ('w, js_error, unit) act) \<Rightarrow> string \<Rightarrow> ('w, 'a) key_act \<Rightarrow> ('w, 'a) key_act" where
  "observed_key observe operation m = seq (note_request None) (\<lambda>s. case m s of (x, t) \<Rightarrow>
     (case bnd own (\<lambda>c. via (observe ([(''operation'', JStr operation), (''state'', JStr ''running'')] @ requestDiagnostic c))) t of
        (Inl e, u) \<Rightarrow> (Inl e, u) | (Inr _, u) \<Rightarrow> (x, u)))"

text \<open>\<open>items.filter(p)\<close> and \<open>items.some(p)\<close> read properties of each item they reach; \<open>null\<close> has none.\<close>

definition filter_items :: "(jsval \<Rightarrow> bool) \<Rightarrow> jsval list \<Rightarrow> js_error + jsval list" where
  "filter_items p xs = (if JNull \<in> set xs then Inl (Other ''TypeError'') else Inr (filter p xs))"

definition some_item :: "(jsval \<Rightarrow> bool) \<Rightarrow> jsval list \<Rightarrow> js_error + bool" where
  "some_item p xs = (case dropWhile (\<lambda>x. x \<noteq> JNull \<and> \<not> p x) xs of [] \<Rightarrow> Inr False | x # _ \<Rightarrow> if x = JNull then Inl (Other ''TypeError'') else Inr True)"

definition named_key :: "JournalEntry \<Rightarrow> jsval \<Rightarrow> bool" where
  "named_key e item \<longleftrightarrow> jget item ''name'' = Some (JStr (je_name e))"

text \<open>The UID of the only match; \<open>null\<close> is \<open>None\<close>.\<close>

definition lookup_key :: "'w key_ports \<Rightarrow> JournalEntry \<Rightarrow> (jsval obj \<Rightarrow> ('w, js_error, unit) act) \<Rightarrow> ('w, jsval option option) key_act" where
  "lookup_key ports e observe = bnd own (\<lambda>c. seq (requireSafe (je_kind e = K_key \<and> startsWith (je_name e) (ok_prefix c)) R_OWNERSHIP)
     (bnd (observed_key observe ''lookup'' (bnd (list_keys ports) (\<lambda>items. lift_result (filter_items (named_key e) items)))) (\<lambda>matches.
        seq (requireSafe (length matches \<le> 1) R_OWNERSHIP) (ret (case matches of [] \<Rightarrow> None | m # _ \<Rightarrow> Some (jget m ''id''))))))"

definition remove_key :: "'w key_ports \<Rightarrow> JournalEntry \<Rightarrow> string \<Rightarrow> (jsval obj \<Rightarrow> ('w, js_error, unit) act) \<Rightarrow> ('w, unit) key_act" where
  "remove_key ports e uid observe = bnd own (\<lambda>c. seq (requireSafe (je_uid e = Some uid \<and> uid \<in> set (ok_ownedIds c)) R_OWNERSHIP)
     (observed_key observe ''remove'' (bnd (key_call ports R_CLEANUP (api_revokeApiKey uid)) (\<lambda>_. ret ()))))"

definition same_key :: "JournalEntry \<Rightarrow> jsval \<Rightarrow> bool" where
  "same_key e item \<longleftrightarrow> strict_opt (jget item ''id'') (map_option JStr (je_uid e)) \<or> named_key e item"

definition verify_key_removed :: "'w key_ports \<Rightarrow> JournalEntry \<Rightarrow> (jsval obj \<Rightarrow> ('w, js_error, unit) act) \<Rightarrow> ('w, bool) key_act" where
  "verify_key_removed ports e observe =
     observed_key observe ''verify'' (bnd (list_keys ports) (\<lambda>items. bnd (lift_result (some_item (same_key e) items)) (\<lambda>found. ret (\<not> found))))"

subsection \<open>What leaves the client\<close>

text \<open>The requests that the keys of the run justify.\<close>

definition key_request_of :: "'w network \<Rightarrow> string \<Rightarrow> OwnedKeyClient \<Rightarrow> sent_request \<Rightarrow> bool" where
  "key_request_of net origin c s \<longleftrightarrow> (\<exists>url. sr_href s = u_href url \<and> plain_at url origin \<and>
     (sr_method s = ''GET'' \<and> u_pathname url = ''/api/api-access'' \<or>
      sr_method s = ''POST'' \<and> u_pathname url = ''/api/api-access'' \<and>
        (\<exists>text v. sr_data s = Some text \<and> nw_json net text = Some v \<and> key_payload (ok_prefix c) v) \<or>
      sr_method s = ''DELETE'' \<and> (\<exists>i \<in> set (ok_ownedIds c). u_pathname url = ''/api/api-access/'' @ i)))"

definition key_steps :: "'w network \<Rightarrow> string \<Rightarrow> ('w \<Rightarrow> sent_request list) \<Rightarrow> OwnedKeyClient \<times> 'w \<Rightarrow> OwnedKeyClient \<times> 'w \<Rightarrow> bool" where
  "key_steps net origin log s s' \<longleftrightarrow> ok_prefix (fst s') = ok_prefix (fst s) \<and> set (ok_ownedIds (fst s)) \<subseteq> set (ok_ownedIds (fst s')) \<and>
     (\<exists>sent. log (snd s') = log (snd s) @ sent \<and> list_all (key_request_of net origin (fst s')) sent)"

lemma key_request_grows:
  "key_request_of net origin c s \<Longrightarrow> ok_prefix c' = ok_prefix c \<Longrightarrow> set (ok_ownedIds c) \<subseteq> set (ok_ownedIds c') \<Longrightarrow> key_request_of net origin c' s"
  unfolding key_request_of_def by (elim exE, rule exI) auto

interpretation keying: step_contract "key_steps net origin log" for net origin log
proof
  show "key_steps net origin log s s" for s by (simp add: key_steps_def)
  show "key_steps net origin log s u" if "key_steps net origin log s t" "key_steps net origin log t u" for s t u
    using that unfolding key_steps_def by (auto simp: list_all_iff) (metis key_request_grows)
qed

lemma keying_via:
  fixes m :: "('w, js_error, unit) act"
  assumes "sends_nothing log m"
  shows "along (key_steps net origin log) (via m)"
  unfolding along_def
proof
  fix s :: "OwnedKeyClient \<times> 'w"
  obtain c w where s: "s = (c, w)" by (cases s)
  obtain x w' where "m w = (x, w')" by (metis surj_pair)
  then show "key_steps net origin log s (snd (via m s))" using quiet_via [OF assms] s by (auto simp: key_steps_def)
qed

lemma keying_note: "along (key_steps net origin log) (note_request q)"
  by (auto simp: along_def note_request_def key_steps_def assign_def modify_def)

lemma keying_own: "(\<And>c. along (key_steps net origin log) (f c)) \<Longrightarrow> along (key_steps net origin log) (bnd own f)"
  by (intro keying.along_bnd) (auto simp: along_def own_def gets_def keying.step_refl)

lemma deleted_id_path: "deleted_id url = Some i \<Longrightarrow> u_pathname url = ''/api/api-access/'' @ i"
  unfolding deleted_id_def strip_prefix_def startsWith_def by (auto elim!: prefixE split: if_splits)

lemma sent_keys:
  assumes "nw_json net [] = None" and "key_request_allowed net origin c url meth r"
  shows "key_request_of net origin c \<lparr>sr_href = u_href url, sr_method = meth, sr_headers = hs, sr_data = body_data r\<rparr>"
proof -
  have plain: "plain_at url origin" using assms(2) by (simp add: key_request_allowed_def)
  show ?thesis
  proof (cases "meth = ''GET''")
    case True
    then show ?thesis using assms(2) plain by (auto simp: key_request_of_def key_request_allowed_def)
  next
    case get: False
    show ?thesis
    proof (cases "meth = ''POST''")
      case True
      with assms(2) get obtain body v where "u_pathname url = ''/api/api-access''" "hr_body r = Some body" "nw_json net body = Some v" "key_payload (ok_prefix c) v"
        by (simp add: key_request_allowed_def split: option.splits)
      moreover from this(2,3) have "body_data r = Some body" using assms(1) by (auto simp: body_data_def has_body_def given_def)
      ultimately show ?thesis unfolding key_request_of_def using plain True by (intro exI [of _ url]) simp
    next
      case False
      with assms(2) get obtain i where i: "meth = ''DELETE''" "deleted_id url = Some i" "i \<in> set (ok_ownedIds c)"
        by (simp add: key_request_allowed_def split: option.splits)
      then show ?thesis unfolding key_request_of_def using plain deleted_id_path [OF i(2)] by (intro exI [of _ url]) simp
    qed
  qed
qed

text \<open>Inside a request the client only grows from the state \<open>c\<close> in which the request was allowed.\<close>

definition grown :: "OwnedKeyClient \<Rightarrow> OwnedKeyClient \<Rightarrow> bool" where
  "grown c d \<longleftrightarrow> ok_prefix d = ok_prefix c \<and> set (ok_ownedIds c) \<subseteq> set (ok_ownedIds d)"

definition key_since :: "'w network \<Rightarrow> string \<Rightarrow> ('w \<Rightarrow> sent_request list) \<Rightarrow> OwnedKeyClient \<Rightarrow> OwnedKeyClient \<times> 'w \<Rightarrow> OwnedKeyClient \<times> 'w \<Rightarrow> bool" where
  "key_since net origin log c s s' \<longleftrightarrow> (grown c (fst s) \<longrightarrow> key_steps net origin log s s')"

lemma key_steps_grown: "key_steps net origin log s s' \<Longrightarrow> grown c (fst s) \<Longrightarrow> grown c (fst s')"
  by (auto simp: key_steps_def grown_def)

interpretation since: step_contract "key_since net origin log c" for net origin log c
  by unfold_locales (auto simp: key_since_def keying.step_refl dest: key_steps_grown intro: keying.step_trans)

lemma since_steps: "along (key_steps net origin log) m \<Longrightarrow> along (key_since net origin log c) m"
  by (simp add: along_def key_since_def)

lemma keying_from: "(\<And>c. along (key_since net origin log c) (f c)) \<Longrightarrow> along (key_steps net origin log) (bnd own f)"
  unfolding along_def by (auto simp: key_since_def grown_def bnd_def)

lemma since_send:
  fixes log :: "'w \<Rightarrow> sent_request list"
  assumes "records_requests log net" and "key_request_of net origin c s"
  shows "along (key_since net origin log c) (via (send_or_api net s))"
  unfolding along_def
proof
  fix t :: "OwnedKeyClient \<times> 'w"
  obtain d w where t: "t = (d, w)" by (cases t)
  obtain x w' where run: "send_or_api net s w = (x, w')" by (metis surj_pair)
  have "key_request_of net origin d s" if "grown c d" using key_request_grows [OF assms(2)] that by (simp add: grown_def)
  then show "key_since net origin log c t (snd (via (send_or_api net s) t))"
    using send_or_api_log [OF assms(1) run] run t by (auto simp: key_since_def key_steps_def)
qed

lemma keying_pure: "(\<And>w. snd (m w) = w) \<Longrightarrow> along (key_steps net origin log) (via m)"
  unfolding along_def by (auto simp: keying.step_refl split: prod.split) (metis keying.step_refl snd_conv)

lemma since_checked: "(p \<Longrightarrow> along (key_since net origin log c) m) \<Longrightarrow> along (key_since net origin log c) (seq (requireSafe p code) m)"
  by (cases p) (auto simp: along_def seq_def bnd_def since.step_refl)

lemma key_transport_steps:
  fixes ports :: "'w key_ports"
  assumes "records_requests log (kp_network ports)" and "sends_nothing log (kp_guard ports)" and "nw_json (kp_network ports) [] = None"
  shows "along (key_steps (kp_network ports) (kp_origin ports) log) (key_transport ports r)"
proof -
  have pure: "snd (target_url net r w) = w" "snd (new_response net st body w) = w" for net :: "'w network" and w st body
    by (auto simp: target_url_def new_response_def ret_def throw_def split: option.split)
  show ?thesis unfolding key_transport_def Let_def
    by (intro keying.along_bnd [OF keying_pure [OF pure(1)]] keying_from since_checked since.along_seq since.along_bnd since.along_if
        since.along_steps since_steps [OF keying_note] since_steps [OF keying_via [OF assms(2)]] since_steps [OF keying_pure [OF pure(2)]]
        since_send [OF assms(1)] sent_keys [OF assms(3)])
qed

text \<open>The network records what it sends, the guard and the observer send nothing, and \<open>JSON.parse('')\<close> throws.\<close>

definition key_ports_ok :: "('w \<Rightarrow> sent_request list) \<Rightarrow> 'w key_ports \<Rightarrow> (jsval obj \<Rightarrow> ('w, js_error, unit) act) \<Rightarrow> bool" where
  "key_ports_ok log ports observe \<longleftrightarrow> records_requests log (kp_network ports) \<and> sends_nothing log (kp_guard ports) \<and>
     nw_json (kp_network ports) [] = None \<and> (\<forall>d. sends_nothing log (observe d))"

abbreviation steps_of :: "('w \<Rightarrow> sent_request list) \<Rightarrow> 'w key_ports \<Rightarrow> OwnedKeyClient \<times> 'w \<Rightarrow> OwnedKeyClient \<times> 'w \<Rightarrow> bool" where
  "steps_of log ports \<equiv> key_steps (kp_network ports) (kp_origin ports) log"

lemma key_call_steps: "key_ports_ok log ports observe \<Longrightarrow> along (steps_of log ports) (key_call ports code call)"
proof -
  assume ok: "key_ports_ok log ports observe"
  have "along (steps_of log ports) (client_call (key_transport ports) (kp_base ports) call)"
    using client_call_reaches [of "key_transport ports" "kp_base ports" call] key_transport_steps [of log ports] keying.preorder ok
    unfolding reaches_def key_ports_ok_def by blast
  moreover have "snd (key_call ports code call s) = snd (client_call (key_transport ports) (kp_base ports) call s)" for s
    by (simp add: key_call_def split: prod.split)
  ultimately show ?thesis by (simp add: along_def)
qed

lemma list_keys_steps: "key_ports_ok log ports observe \<Longrightarrow> along (steps_of log ports) (list_keys ports)"
  unfolding list_keys_def by (intro keying.along_bnd keying.along_option keying.along_steps key_call_steps)

lemma adopt_steps: "along (key_steps net origin log) (adoptCredential name v)"
  unfolding adoptCredential_def Let_def
  by (intro keying_own keying.along_seq keying.along_steps) (auto simp: along_def assign_def modify_def key_steps_def own_id_def)

lemma create_steps: "key_ports_ok log ports observe \<Longrightarrow> along (steps_of log ports) (create_key ports name)"
  unfolding create_key_def createCredential_def
  by (intro keying_own keying.along_bnd keying.along_seq keying.along_steps adopt_steps key_call_steps)

lemma observed_steps:
  assumes "key_ports_ok log ports observe" and "along (steps_of log ports) m"
  shows "along (steps_of log ports) (observed_key observe operation m)"
proof -
  let ?final = "bnd own (\<lambda>c. via (observe ([(''operation'', JStr operation), (''state'', JStr ''running'')] @ requestDiagnostic c)))"
  have last: "along (steps_of log ports) ?final"
    using assms(1) by (intro keying_own keying_via) (simp add: key_ports_ok_def)
  have "along (steps_of log ports) (\<lambda>s. case m s of (x, t) \<Rightarrow> (case ?final t of (Inl e, u) \<Rightarrow> (Inl e, u) | (Inr _, u) \<Rightarrow> (x, u)))"
    unfolding along_def
  proof
    fix s
    obtain x t where m: "m s = (x, t)" by (metis surj_pair)
    obtain y u where e: "?final t = (y, u)" by (metis surj_pair)
    have "steps_of log ports s u" using keying.step_trans alongD [OF assms(2) m] alongD [OF last e] by blast
    then show "steps_of log ports s (snd (case m s of (x, t) \<Rightarrow> (case ?final t of (Inl e, u) \<Rightarrow> (Inl e, u) | (Inr _, u) \<Rightarrow> (x, u))))"
      using m e by (simp split: sum.split)
  qed
  then show ?thesis unfolding observed_key_def by (intro keying.along_seq keying_note)
qed

datatype key_op = K_list | K_create string | K_lookup JournalEntry | K_remove JournalEntry string | K_verify JournalEntry

definition key_op_run :: "'w key_ports \<Rightarrow> (jsval obj \<Rightarrow> ('w, js_error, unit) act) \<Rightarrow> key_op \<Rightarrow> ('w, unit) key_act" where
  "key_op_run ports observe op = (case op of
     K_list \<Rightarrow> bnd (list_keys ports) (\<lambda>_. ret ())
   | K_create name \<Rightarrow> bnd (create_key ports name) (\<lambda>_. ret ())
   | K_lookup e \<Rightarrow> bnd (lookup_key ports e observe) (\<lambda>_. ret ())
   | K_remove e uid \<Rightarrow> remove_key ports e uid observe
   | K_verify e \<Rightarrow> bnd (verify_key_removed ports e observe) (\<lambda>_. ret ()))"

definition key_ops_run :: "'w key_ports \<Rightarrow> (jsval obj \<Rightarrow> ('w, js_error, unit) act) \<Rightarrow> key_op list \<Rightarrow> OwnedKeyClient \<times> 'w \<Rightarrow> OwnedKeyClient \<times> 'w" where
  "key_ops_run ports observe ops s = fold (\<lambda>op s. snd (key_op_run ports observe op s)) ops s"

lemma key_op_steps: "key_ports_ok log ports observe \<Longrightarrow> along (steps_of log ports) (key_op_run ports observe op)"
  unfolding key_op_run_def lookup_key_def remove_key_def verify_key_removed_def
  by (cases op) (auto intro!: keying_own keying.along_bnd keying.along_seq keying.along_steps observed_steps list_keys_steps create_steps key_call_steps)

text \<open>The ids of the journal's own keys.\<close>

definition journal_key_ids :: "string \<Rightarrow> JournalEntry list \<Rightarrow> string set" where
  "journal_key_ids pre journal = {i. \<exists>e \<in> set journal. owned_entry pre e \<and> je_uid e = Some i}"

lemma new_client_ids: "set (ok_ownedIds (newOwnedKeyClient pre journal)) = journal_key_ids pre journal \<and> ok_prefix (newOwnedKeyClient pre journal) = pre"
proof -
  have "set (ok_ownedIds (fold (\<lambda>e. own_id (the (je_uid e))) es c)) = (\<lambda>e. the (je_uid e)) ` set es \<union> set (ok_ownedIds c) \<and>
      ok_prefix (fold (\<lambda>e. own_id (the (je_uid e))) es c) = ok_prefix c" for es :: "JournalEntry list" and c
    by (induction es arbitrary: c) (auto simp: own_id_def)
  moreover have "owned_entry pre e \<Longrightarrow> je_uid e = Some (the (je_uid e))" for e by (cases "je_uid e") (simp_all add: owned_entry_def given_def)
  then have "(\<lambda>e. the (je_uid e)) ` set (filter (owned_entry pre) journal) = journal_key_ids pre journal"
    unfolding journal_key_ids_def by (auto simp: image_iff) (metis option.sel)
  ultimately show ?thesis by (simp add: newOwnedKeyClient_def)
qed

text \<open>
  C21: Whatever operations run and whatever the server answers, the client of the run's keys lets out only reads of the
  collection, creations of a single name under the prefix of the run, and deletions of ids it owns: those of the run's
  journal and those of credentials it created since; it never forgets one.
\<close>

theorem owned_keys_only:
  assumes "key_ports_ok log ports observe" and "key_ops_run ports observe ops (newOwnedKeyClient pre journal, w) = (c, w')"
  shows "ok_prefix c = pre \<and> journal_key_ids pre journal \<subseteq> set (ok_ownedIds c) \<and>
    (\<exists>sent. log w' = log w @ sent \<and> list_all (key_request_of (kp_network ports) (kp_origin ports) c) sent)"
proof -
  have "steps_of log ports s (key_ops_run ports observe ops s)" for s
  proof (induction ops rule: rev_induct)
    case (snoc op ops)
    have "steps_of log ports (key_ops_run ports observe ops s) (snd (key_op_run ports observe op (key_ops_run ports observe ops s)))"
      using key_op_steps [OF assms(1)] unfolding along_def by blast
    then show ?case using snoc keying.step_trans by (simp add: key_ops_run_def) blast
  qed (simp add: key_ops_run_def keying.step_refl)
  from this [of "(newOwnedKeyClient pre journal, w)"] show ?thesis
    using assms(2) new_client_ids [of pre journal] by (auto simp: key_steps_def)
qed

subsection \<open>A concrete client\<close>

definition wired_keys :: "sent_request list key_ports" where
  "wired_keys = \<lparr>kp_network = wire [JObj []], kp_base = ''https://m'', kp_origin = ''https://m'', kp_guard = ret ()\<rparr>"

definition wired_entry :: JournalEntry where
  "wired_entry = \<lparr>je_kind = K_key, je_name = ''reg-a'', je_uid = Some ''key-0123456789ab'', je_state = E_owned, je_generation = None, je_cleanupFailure = None\<rparr>"

definition silent :: "jsval obj \<Rightarrow> (sent_request list, js_error, unit) act" where
  "silent d = ret ()"

theorem owned_keys_only_witness:
  "\<exists>c l. key_ops_run wired_keys silent [K_lookup wired_entry, K_remove wired_entry ''key-0123456789ab'', K_remove wired_entry ''key-other'']
     (newOwnedKeyClient ''reg-'' [wired_entry], []) = (c, l) \<and> map sr_method l = [''GET'', ''DELETE''] \<and>
     list_all (key_request_of (kp_network wired_keys) ''https://m'' c) l"
proof -
  let ?run = "key_ops_run wired_keys silent [K_lookup wired_entry, K_remove wired_entry ''key-0123456789ab'', K_remove wired_entry ''key-other'']
     (newOwnedKeyClient ''reg-'' [wired_entry], [])"
  obtain c l where run: "?run = (c, l)" and sent: "map sr_method l = [''GET'', ''DELETE'']"
  proof -
    have "map sr_method (snd ?run) = [''GET'', ''DELETE'']" by code_simp
    then show ?thesis using that by (metis prod.collapse)
  qed
  have "key_ports_ok (\<lambda>l. l) wired_keys silent"
    using wire_records [of "[JObj []]"] by (simp add: key_ports_ok_def wired_keys_def sends_nothing_def silent_def ret_def wire_def known_json_def)
  from owned_keys_only [OF this run] run sent show ?thesis by (auto simp: wired_keys_def)
qed

end
