(* ===== verification/Private_Files.thy ===== *)
theory Private_Files
  imports Borrowing Lab_Lease Cleanup_Diagnostic
begin

text \<open>
  The private run files (\<open>regression/core/private-files.ts\<close>). A disk is the list of its nodes by absolute path, in the
  order in which \<open>readdir\<close> returns them; strings are sequences of bytes. Reads see one state of the disk. Writing goes
  through a temporary file that replaces the old one: \<open>dk_write\<close> is the part before the replacement, \<open>dk_sync\<close> the
  part after it, and both may fail. \<open>JSON.parse\<close> is the parameter \<open>dk_parse\<close>, \<open>Date.now\<close> the parameter \<open>dk_now\<close>.
\<close>

subsection \<open>Paths and nodes\<close>

datatype node = Directory nat | PlainFile nat string | Link

type_synonym disk = "node obj"

abbreviation slash :: char where
  "slash \<equiv> CHR ''/''"

definition basename :: "string \<Rightarrow> string" where
  "basename path = rev (takeWhile (\<lambda>c. c \<noteq> slash) (rev path))"

definition in_directory :: "string \<Rightarrow> string \<Rightarrow> string" where
  "in_directory directory name = directory @ slash # name"

definition readdir :: "disk \<Rightarrow> string \<Rightarrow> string list" where
  "readdir d path = map (basename \<circ> fst) (filter (\<lambda>(p, n). slash \<in> set p \<and> dirname p = path) d)"

text \<open>\<open>(stat.mode & 0o077) === 0\<close>\<close>

definition owner_only :: "nat \<Rightarrow> bool" where
  "owner_only mode \<longleftrightarrow> mode mod 64 = 0"

text \<open>\<open>stat.isDirectory() && !stat.isSymbolicLink() && (stat.mode & 0o077) === 0\<close> after \<open>lstat\<close>.\<close>

definition private_dir :: "node \<Rightarrow> bool" where
  "private_dir n \<longleftrightarrow> (case n of Directory mode \<Rightarrow> owner_only mode | _ \<Rightarrow> False)"

subsection \<open>Reading\<close>

definition default_bytes :: int where
  "default_bytes = 1048576"

definition readPrivate :: "disk \<Rightarrow> string \<Rightarrow> int \<Rightarrow> string result" where
  "readPrivate d path maxBytes = safely (0 < maxBytes \<and> maxBytes \<le> 8388608) R_PRIVATE_FILE
     (case oget d path of
        Some (PlainFile mode body) \<Rightarrow> safely (owner_only mode \<and> int (length body) \<le> maxBytes) R_PRIVATE_FILE (Inr body)
      | _ \<Rightarrow> Inl (hard R_PRIVATE_FILE))"

definition type_error :: js_error where
  "type_error = Other ''TypeError''"

definition parsed :: "(string \<Rightarrow> jsval option) \<Rightarrow> string \<Rightarrow> jsval result" where
  "parsed parse body = (case parse body of None \<Rightarrow> Inl (Other ''SyntaxError'') | Some v \<Rightarrow> Inr v)"

text \<open>\<open>JSON.parse(await readPrivate(path))\<close>\<close>

definition read_json :: "(string \<Rightarrow> jsval option) \<Rightarrow> disk \<Rightarrow> string \<Rightarrow> jsval result" where
  "read_json parse d path = rbind (readPrivate d path default_bytes) (parsed parse)"

text \<open>The value whose property is read next: \<open>null\<close> has none.\<close>

definition not_null :: "jsval \<Rightarrow> unit result" where
  "not_null v = (if v = JNull then Inl type_error else Inr ())"

subsection \<open>Text of a receipt\<close>

text \<open>\<open>JSON.stringify(value, null, 2)\<close> at a depth of indentation.\<close>

definition newline :: string where
  "newline = [char_of (10 :: nat)]"

definition indented :: "nat \<Rightarrow> char \<Rightarrow> char \<Rightarrow> string list \<Rightarrow> string" where
  "indented depth open_mark close_mark items =
     (if items = [] then [open_mark, close_mark]
      else open_mark # newline @
        join ('','' @ newline) (map (\<lambda>item. replicate (2 * depth + 2) (CHR '' '') @ item) items) @
        newline @ replicate (2 * depth) (CHR '' '') @ [close_mark])"

fun pretty :: "nat \<Rightarrow> jsval \<Rightarrow> string" where
  "pretty depth (JArr xs) = indented depth (CHR ''['') (CHR '']'') (map (pretty (Suc depth)) xs)"
| "pretty depth (JObj ob) = indented depth (CHR ''{'') (CHR ''}'')
     (map (\<lambda>(k, v). json_quote k @ '': '' @ pretty (Suc depth) v) ob)"
| "pretty depth JNull = stringify JNull"
| "pretty depth (JBool b) = stringify (JBool b)"
| "pretty depth (JInt i) = stringify (JInt i)"
| "pretty depth (JFloat s) = stringify (JFloat s)"
| "pretty depth (JStr s) = stringify (JStr s)"

text \<open>\<open>typeof value === 'string' ? value : JSON.stringify(value, null, 2) + '\n'\<close>\<close>

definition file_text :: "jsval \<Rightarrow> string" where
  "file_text v = (case v of JStr s \<Rightarrow> s | _ \<Rightarrow> pretty 0 v @ newline)"

subsection \<open>Writing\<close>

record 'w disk_env =
  dk_parse :: "string \<Rightarrow> jsval option"
  dk_now :: "'w \<Rightarrow> nat \<times> 'w"
  dk_write :: "string \<Rightarrow> ('w, js_error, unit) act"
  dk_sync :: "string \<Rightarrow> ('w, js_error, unit) act"

type_synonym ('w, 'a) disk_act = "(disk, 'w, 'a) obj_act"

text \<open>The directories above a path and the path itself, from the root.\<close>

definition path_ancestors :: "string \<Rightarrow> string list" where
  "path_ancestors path =
     map (\<lambda>i. take i path) (filter (\<lambda>i. i < length path \<longrightarrow> path ! i = slash) [1..<Suc (length path)])"

text \<open>\<open>privateDirectory\<close>: \<open>mkdir(path, {recursive: true, mode: 0o700})\<close> and the check of the result.\<close>

definition privateDirectory :: "disk \<Rightarrow> string \<Rightarrow> disk result" where
  "privateDirectory d path =
     (if \<exists>p \<in> set (path_ancestors path). case oget d p of Some (PlainFile mode body) \<Rightarrow> True | _ \<Rightarrow> False
      then Inl (Other ''EEXIST'')
      else let made = d @ map (\<lambda>p. (p, Directory 448)) (filter (\<lambda>p. oget d p = None) (path_ancestors path))
           in safely (case oget made path of None \<Rightarrow> False | Some n \<Rightarrow> private_dir n) R_PRIVATE_FILE (Inr made))"

text \<open>What \<open>lstat\<close> of the target allows.\<close>

definition replaceable :: "disk \<Rightarrow> string \<Rightarrow> bool \<Rightarrow> bool" where
  "replaceable d path exclusive \<longleftrightarrow> (case oget d path of None \<Rightarrow> True
     | Some (PlainFile mode body) \<Rightarrow> \<not> exclusive | _ \<Rightarrow> False)"

text \<open>\<open>if (error instanceof HarnessError) throw error; throw new HarnessError('PRIVATE_FILE')\<close>\<close>

definition as_private :: "('s, js_error, 'a) act \<Rightarrow> ('s, js_error, 'a) act" where
  "as_private m = catch m (\<lambda>e. throw (case e of Harness h \<Rightarrow> e | Other msg \<Rightarrow> hard R_PRIVATE_FILE))"

definition writePrivate :: "'w disk_env \<Rightarrow> string \<Rightarrow> jsval \<Rightarrow> bool \<Rightarrow> ('w, unit) disk_act" where
  "writePrivate env path v exclusive =
     bnd own (\<lambda>d. bnd (lift_result (privateDirectory d (dirname path))) (\<lambda>made. seq (assign (\<lambda>_. made))
    (seq (requireSafe (replaceable made path exclusive) R_PRIVATE_FILE)
      (as_private (seq (via (dk_write env path))
        (seq (assign (oset path (PlainFile 384 (file_text v)))) (via (dk_sync env path))))))))"

definition journalFile :: "string \<Rightarrow> string \<Rightarrow> string result" where
  "journalFile filename name = safely (is_journal_file_name name) R_PRIVATE_FILE (Inr (in_directory (dirname filename) name))"

subsection \<open>Lemmas\<close>

lemma dirname_tl: "dirname p = rev (tl (dropWhile (\<lambda>c. c \<noteq> slash) (rev p)))"
  by (simp add: dirname_def drop_Suc)

lemma basename_in_directory: "slash \<notin> set name \<Longrightarrow> basename (in_directory dir name) = name"
  by (simp add: basename_def in_directory_def takeWhile_append)

lemma dirname_in_directory: "slash \<notin> set name \<Longrightarrow> dirname (in_directory dir name) = dir"
  by (simp add: dirname_tl in_directory_def dropWhile_append)

lemma join_dirname: "slash \<in> set p \<Longrightarrow> in_directory (dirname p) (basename p) = p"
proof -
  assume s: "slash \<in> set p"
  let ?r = "dropWhile (\<lambda>c. c \<noteq> slash) (rev p)"
  have ne: "?r \<noteq> []" using s by simp
  have hd: "hd ?r = slash" using hd_dropWhile [OF ne] by simp
  have "rev p = takeWhile (\<lambda>c. c \<noteq> slash) (rev p) @ slash # tl ?r"
    using takeWhile_dropWhile_id [of "\<lambda>c. c \<noteq> slash" "rev p"] ne hd by (metis list.collapse)
  then have "p = rev (takeWhile (\<lambda>c. c \<noteq> slash) (rev p) @ slash # tl ?r)" by (metis rev_rev_ident)
  then show ?thesis by (simp add: in_directory_def dirname_tl basename_def)
qed

lemma in_readdir: "name \<in> set (readdir d dir) \<longleftrightarrow> (\<exists>p n. (p, n) \<in> set d \<and> slash \<in> set p \<and> p = in_directory dir name \<and> slash \<notin> set name)"
proof
  assume "name \<in> set (readdir d dir)"
  then obtain p n where p: "(p, n) \<in> set d" "slash \<in> set p" "dirname p = dir" "basename p = name"
    by (auto simp: readdir_def)
  have "slash \<notin> set (basename p)" using set_takeWhileD by (fastforce simp: basename_def)
  then show "\<exists>p n. (p, n) \<in> set d \<and> slash \<in> set p \<and> p = in_directory dir name \<and> slash \<notin> set name"
    using p join_dirname [OF p(2)] by auto
next
  assume "\<exists>p n. (p, n) \<in> set d \<and> slash \<in> set p \<and> p = in_directory dir name \<and> slash \<notin> set name"
  then show "name \<in> set (readdir d dir)"
    by (force simp: readdir_def dirname_in_directory basename_in_directory)
qed

lemma readPrivate_Inr: "readPrivate d path n = Inr body \<Longrightarrow> \<exists>mode. oget d path = Some (PlainFile mode body) \<and> owner_only mode"
  by (auto simp: readPrivate_def result_ok split: option.splits node.splits)

lemma read_json_Inr: "read_json parse d path = Inr v \<Longrightarrow>
    \<exists>mode body. oget d path = Some (PlainFile mode body) \<and> owner_only mode \<and> parse body = Some v"
  by (auto simp: read_json_def parsed_def result_ok dest!: readPrivate_Inr split: option.splits)

lemma not_null_Inr [simp]: "not_null v = Inr u \<longleftrightarrow> v \<noteq> JNull"
  by (simp add: not_null_def)

text \<open>A write that returns leaves exactly its text under its path and every other file as it was.\<close>

lemma privateDirectory_keeps: "privateDirectory d path = Inr made \<Longrightarrow> oget d p = Some n \<Longrightarrow> oget made p = Some n"
  by (auto simp: privateDirectory_def result_ok Let_def oget_append split: if_splits option.splits)

lemma privateDirectory_new: "privateDirectory d path = Inr made \<Longrightarrow> oget made p = None \<Longrightarrow> oget d p = None"
  using privateDirectory_keeps by (cases "oget d p") fastforce+

text \<open>The outcomes of a write: nothing but directories changed, or the file has the new text.\<close>

lemma writePrivate_cases:
  assumes "writePrivate env path v exclusive (d, w) = (r, (d', w'))"
  obtains "d' = d" "r \<noteq> Inr ()"
  | made where "privateDirectory d (dirname path) = Inr made" "d' = made" "r \<noteq> Inr ()"
  | made where "privateDirectory d (dirname path) = Inr made" "replaceable made path exclusive"
      "d' = oset path (PlainFile 384 (file_text v)) made"
  using assms unfolding writePrivate_def as_private_def
  by (auto simp: bnd_def seq_def lift_result_def requireSafe_def ret_def throw_def catch_def
      split: sum.splits prod.splits if_splits)

lemma writePrivate_ok:
  assumes "writePrivate env path v exclusive (d, w) = (Inr (), (d', w'))"
  shows "oget d' path = Some (PlainFile 384 (file_text v))"
    and "p \<noteq> path \<Longrightarrow> oget d p = Some n \<Longrightarrow> oget d' p = Some n"
    and "exclusive \<Longrightarrow> oget d path = None"
  using assms
  by (auto elim!: writePrivate_cases simp: replaceable_def
      intro: privateDirectory_keeps privateDirectory_new split: option.splits node.splits)

text \<open>Whatever fails, a file is only ever its old content or the new one.\<close>

lemma writePrivate_atomic:
  assumes "writePrivate env path v exclusive (d, w) = (r, (d', w'))" and "oget d p = Some (PlainFile mode body)"
  shows "oget d' p = Some (PlainFile mode body) \<or> p = path \<and> \<not> exclusive \<and> oget d' p = Some (PlainFile 384 (file_text v))"
  using assms(1)
proof (cases rule: writePrivate_cases)
  case (3 made)
  then have "oget made p = Some (PlainFile mode body)" using assms(2) privateDirectory_keeps by blast
  with 3 show ?thesis by (auto simp: replaceable_def)
qed (use assms(2) privateDirectory_keeps in auto)

end
