(* ===== verification/Recovery_Inventory.thy ===== *)
theory Recovery_Inventory
  imports Private_Files Resource_Journal
begin

text \<open>
  What a run may have left behind (\<open>regression/core/recovery-inventory.ts\<close>): the journals, borrowed modules, sharing
  journals, lease receipts and transactions in the directory of a run and in those of its workers. The inventory only
  reads; it is a function of the disk. \<open>sha256\<close> and \<open>localeCompare\<close> are parameters of the fingerprint.
\<close>

subsection \<open>Directories of a run\<close>

definition fold_result :: "('b \<Rightarrow> 'a \<Rightarrow> 'a result) \<Rightarrow> 'b list \<Rightarrow> 'a \<Rightarrow> 'a result" where
  "fold_result f xs a = foldl (\<lambda>m x. rbind m (f x)) (Inr a) xs"

text \<open>\<open>/^worker-(?:[1-9]|[1-5][0-9]|6[0-4])$/\<close>\<close>

definition is_worker_name :: "string \<Rightarrow> bool" where
  "is_worker_name name \<longleftrightarrow> (case strip_prefix ''worker-'' name of None \<Rightarrow> False | Some ds \<Rightarrow>
     (length ds = 1 \<or> length ds = 2) \<and> list_all is_digit ds \<and> hd ds \<noteq> CHR ''0'' \<and> digits_value ds \<le> 64)"

definition private_directory_at :: "disk \<Rightarrow> string \<Rightarrow> bool" where
  "private_directory_at d path \<longleftrightarrow> (case oget d path of None \<Rightarrow> False | Some n \<Rightarrow> private_dir n)"

definition worker_path :: "disk \<Rightarrow> string \<Rightarrow> string \<Rightarrow> string list \<Rightarrow> string list result" where
  "worker_path d directory name paths =
     (if startsWith name ''worker-''
      then safely (is_worker_name name) R_RECOVERY
        (safely (private_directory_at d (in_directory directory name)) R_RECOVERY (Inr (paths @ [in_directory directory name])))
      else Inr paths)"

definition recoveryPaths :: "disk \<Rightarrow> string \<Rightarrow> string list result" where
  "recoveryPaths d directory = (case oget d directory of
     None \<Rightarrow> Inl (Other ''ENOENT'')
   | Some n \<Rightarrow> safely (private_dir n) R_RECOVERY (fold_result (worker_path d directory) (readdir d directory) [directory]))"

subsection \<open>Receipts by name\<close>

text \<open>The part of a name between a prefix and a suffix.\<close>

definition between :: "string \<Rightarrow> string \<Rightarrow> string \<Rightarrow> string option" where
  "between pre suf name =
     (if startsWith name pre \<and> endsWith name suf \<and> length pre + length suf \<le> length name
      then Some (take (length name - length pre - length suf) (drop (length pre) name)) else None)"

definition auxiliary_kinds :: "string list" where
  "auxiliary_kinds = [''ollama'', ''vllm'', ''unsupported'', ''sanitized'', ''risk-reject'', ''risk-accept'', ''external'', ''provider'']"

text \<open>The run that a name of the pattern \<open>auxiliary\<close> contains.\<close>

definition auxiliary_run :: "string \<Rightarrow> string option" where
  "auxiliary_run name =
     Option.bind (find (\<lambda>k. (case between (k @ ''-'') ''.journal.json'' name of None \<Rightarrow> False | Some run \<Rightarrow> is_run_id run)) auxiliary_kinds)
       (\<lambda>k. between (k @ ''-'') ''.journal.json'' name)"

text \<open>\<open>/^borrowed-module(?:-[a-z0-9-]{1,63})?\.json$/\<close>\<close>

definition is_module_receipt :: "string \<Rightarrow> bool" where
  "is_module_receipt name \<longleftrightarrow> name = ''borrowed-module.json'' \<or>
     (case between ''borrowed-module-'' ''.json'' name of None \<Rightarrow> False | Some s \<Rightarrow> chars_between 1 63 is_name_char s)"

definition is_sharing_receipt :: "string \<Rightarrow> bool" where
  "is_sharing_receipt name \<longleftrightarrow> name \<in> set [''gpu-sharing.json'', ''mesh-sharing.json'', ''cache-sharing.json'', ''realtime-sharing.json'']"

definition is_lease_receipt :: "string \<Rightarrow> bool" where
  "is_lease_receipt name \<longleftrightarrow> (case between ''lease-'' ''.json'' name of None \<Rightarrow> False | Some s \<Rightarrow> is_run_id s)"

definition is_transaction :: "string \<Rightarrow> bool" where
  "is_transaction name \<longleftrightarrow> (case between [] ''.json'' name of None \<Rightarrow> False | Some s \<Rightarrow>
     s \<in> set [''borrowed-amd-profile'', ''license-transaction'', ''license-transaction-lic-02'', ''license-transaction-lic-03'',
       ''license-transaction-lic-04'', ''license-baseline'', ''license-baseline-lic-01'', ''license-baseline-sso-01'', ''federation'',
       ''mesh-membership'', ''unmanaged-key-fixture'', ''network-baseline-restore'', ''kube-configmaps'', ''kube-secrets'',
       ''kube-moduleactivations'', ''kube-appinstances'', ''kube-modelactivations''] \<or>
     after_prefix ''host-drill-'' (\<lambda>t. t \<noteq> [] \<and> list_all is_name_char t) s)"

definition protected_words :: "string list" where
  "protected_words = [''identity'', ''dashboard'', ''basis'', ''kubeai'', ''gpu'', ''amd'', ''nvidia'', ''intel'', ''litellm'', ''private-mesh'',
     ''model-catalog'', ''magicstick-operator'', ''regression'']"

subsection \<open>The inventory\<close>

record RecoveryIdentity =
  ri_applianceUid :: string
  ri_nodeUids :: "string list"

record ModuleReceipt =
  mr_filename :: string
  mr_original :: jsval
  mr_applied :: "jsval option"
  mr_restored :: "jsval option"
  mr_state :: string

record SharingReceipt =
  sr_filename :: string
  sr_runId :: jsval
  sr_targetUid :: string
  sr_nodeName :: string
  sr_nodeUid :: string
  sr_pending :: bool

record lease_receipt =
  lx_filename :: string
  lx_state :: string
  lx_value :: jsval

record inventory =
  iv_paths :: "string list"
  iv_journals :: "ResourceJournal list"
  iv_modules :: "ModuleReceipt list"
  iv_sharing :: "SharingReceipt list"
  iv_leases :: "lease_receipt list"
  iv_unfinished :: nat
  iv_files :: "string obj"

definition resume_from :: "(string \<Rightarrow> jsval option) \<Rightarrow> disk \<Rightarrow> string \<Rightarrow> string \<Rightarrow> ResourceJournal result" where
  "resume_from parse d filename targetUid = (case read_json parse d filename of
     Inl e \<Rightarrow> Inl (hard R_OWNERSHIP)
   | Inr v \<Rightarrow> (case parseJournal targetUid v of
       None \<Rightarrow> Inl (hard R_OWNERSHIP)
     | Some data \<Rightarrow> Inr \<lparr>rj_filename = filename, rj_data = data, rj_recorders = []\<rparr>))"

text \<open>The files that the inventory has read, and the value in a file.\<close>

definition record_file :: "(string \<Rightarrow> jsval option) \<Rightarrow> disk \<Rightarrow> string \<Rightarrow> inventory \<Rightarrow> (inventory \<times> jsval) result" where
  "record_file parse d filename iv = rbind (readPrivate d filename default_bytes) (\<lambda>body.
     rbind (parsed parse body) (\<lambda>v. Inr (iv\<lparr>iv_files := oset filename body (iv_files iv)\<rparr>, v)))"

definition add_journal :: "ResourceJournal \<Rightarrow> inventory \<Rightarrow> inventory" where
  "add_journal j iv = iv\<lparr>iv_journals := iv_journals iv @ [j]\<rparr>"

definition journal_run :: "ResourceJournal \<Rightarrow> jsval" where
  "journal_run j = jd_runId (rj_data j)"

definition scan_auxiliary :: "(string \<Rightarrow> jsval option) \<Rightarrow> disk \<Rightarrow> RecoveryIdentity \<Rightarrow> string \<Rightarrow> string \<Rightarrow> inventory \<Rightarrow> inventory result" where
  "scan_auxiliary parse d ident name filename iv =
     safely (auxiliary_run name \<noteq> None \<and> length (iv_journals iv) < 128) R_RECOVERY
    (rbind (record_file parse d filename iv) (\<lambda>(iv, v). rbind (resume_from parse d filename (ri_applianceUid ident)) (\<lambda>extra.
     safely (journal_run extra = JStr (the (auxiliary_run name)) \<and> journal_run extra \<notin> journal_run ` set (iv_journals iv)) R_RECOVERY
       (Inr (add_journal extra iv)))))"

definition module_accepted :: "jsval \<Rightarrow> bool" where
  "module_accepted v \<longleftrightarrow> jget v ''version'' = Some (JInt 1) \<and>
     jat (Some v) [''original'', ''metadata'', ''namespace''] = Some (JStr ''ai-system'') \<and>
     (\<exists>b \<in> set_option (jat (Some v) [''original'', ''spec'', ''enabled'']). is_bool b) \<and>
     string_such (\<lambda>s. \<not> (\<exists>word \<in> set protected_words. sublist word s)) (jat (Some v) [''original'', ''spec'', ''module'']) \<and>
     one_of [''requested'', ''ambiguous'', ''applied'', ''unchanged'', ''restored''] (jget v ''state'')"

definition scan_module :: "string \<Rightarrow> jsval \<Rightarrow> inventory \<Rightarrow> inventory result" where
  "scan_module filename v iv = rbind (not_null v) (\<lambda>_. safely (module_accepted v) R_RECOVERY
     (Inr (iv\<lparr>iv_modules := iv_modules iv @ [\<lparr>mr_filename = filename, mr_original = the (jget v ''original''),
        mr_applied = jget v ''applied'', mr_restored = jget v ''restored'', mr_state = str_of (jget v ''state'')\<rparr>]\<rparr>)))"

text \<open>\<open>value.entries.every(\<dots>)\<close> stops at the first entry that fails; \<open>null\<close> has no property.\<close>

fun sharing_states_ok :: "jsval list \<Rightarrow> bool result" where
  "sharing_states_ok [] = Inr True"
| "sharing_states_ok (e # es) = rbind (not_null e) (\<lambda>_.
     if one_of [''borrowed'', ''pending'', ''restored''] (jget e ''state'') then sharing_states_ok es else Inr False)"

definition sharing_header :: "RecoveryIdentity \<Rightarrow> jsval \<Rightarrow> bool" where
  "sharing_header ident v \<longleftrightarrow> jget v ''version'' = Some (JInt 1) \<and> is_run_id (text_of (jget v ''runId'')) \<and>
     jget v ''targetUid'' = Some (JStr (ri_applianceUid ident)) \<and> one_of (ri_nodeUids ident) (jget v ''nodeUid'') \<and>
     string_such (\<lambda>_. True) (jget v ''nodeName'') \<and>
     (case items_of (jget v ''entries'') of None \<Rightarrow> False | Some es \<Rightarrow> length es \<le> 2)"

definition scan_sharing :: "RecoveryIdentity \<Rightarrow> string \<Rightarrow> jsval \<Rightarrow> inventory \<Rightarrow> inventory result" where
  "scan_sharing ident filename v iv = rbind (not_null v) (\<lambda>_. safely (sharing_header ident v) R_RECOVERY
     (let es = the (items_of (jget v ''entries''))
      in rbind (sharing_states_ok es) (\<lambda>ok. safely ok R_RECOVERY
     (Inr (iv\<lparr>iv_sharing := iv_sharing iv @ [\<lparr>sr_filename = filename,
        sr_runId = (case jget v ''runId'' of None \<Rightarrow> JNull | Some r \<Rightarrow> r), sr_targetUid = ri_applianceUid ident,
        sr_nodeName = str_of (jget v ''nodeName''), sr_nodeUid = str_of (jget v ''nodeUid''),
        sr_pending = (\<exists>e \<in> set es. jget e ''state'' \<noteq> Some (JStr ''restored''))\<rparr>]\<rparr>)))))"

definition lease_accepted :: "RecoveryIdentity \<Rightarrow> string \<Rightarrow> jsval \<Rightarrow> bool" where
  "lease_accepted ident name v \<longleftrightarrow> jget v ''version'' = Some (JInt 1) \<and> is_run_id (text_of (jget v ''runId'')) \<and>
     jget v ''targetUid'' = Some (JStr (ri_applianceUid ident)) \<and> string_such (\<lambda>_. True) (jget v ''leaseUid'') \<and>
     name = ''lease-'' @ text_of (jget v ''owner'') @ ''.json'' \<and> one_of [''requested'', ''released''] (jget v ''state'')"

definition scan_lease :: "RecoveryIdentity \<Rightarrow> string \<Rightarrow> string \<Rightarrow> jsval \<Rightarrow> inventory \<Rightarrow> inventory result" where
  "scan_lease ident name filename v iv = rbind (not_null v) (\<lambda>_. safely (lease_accepted ident name v) R_RECOVERY
     (Inr (iv\<lparr>iv_leases := iv_leases iv @ [\<lparr>lx_filename = filename, lx_state = str_of (jget v ''state''), lx_value = v\<rparr>]\<rparr>)))"

definition transaction_finished :: "jsval \<Rightarrow> bool" where
  "transaction_finished v \<longleftrightarrow> one_of [''restored'', ''removed'', ''verified''] (jget v ''state'')"

definition scan_transaction :: "jsval \<Rightarrow> inventory \<Rightarrow> inventory result" where
  "scan_transaction v iv = rbind (not_null v) (\<lambda>_. safely (jget v ''version'' = Some (JInt 1)) R_RECOVERY
     (Inr (if transaction_finished v then iv else iv\<lparr>iv_unfinished := Suc (iv_unfinished iv)\<rparr>)))"

text \<open>One name of a directory.\<close>

definition scan_name :: "(string \<Rightarrow> jsval option) \<Rightarrow> disk \<Rightarrow> RecoveryIdentity \<Rightarrow> string \<Rightarrow> string \<Rightarrow> inventory \<Rightarrow> inventory result" where
  "scan_name parse d ident path name iv =
     (let filename = in_directory path name; recorded = (\<lambda>f. rbind (record_file parse d filename iv) (\<lambda>(iv, v). f v iv))
      in if endsWith name ''.journal.json'' then scan_auxiliary parse d ident name filename iv
         else if is_module_receipt name then recorded (scan_module filename)
         else if is_sharing_receipt name then recorded (scan_sharing ident filename)
         else if is_lease_receipt name then recorded (scan_lease ident name filename)
         else if is_transaction name then recorded scan_transaction
         else Inr iv)"

definition scan_path :: "(string \<Rightarrow> jsval option) \<Rightarrow> disk \<Rightarrow> RecoveryIdentity \<Rightarrow> string \<Rightarrow> inventory \<Rightarrow> inventory result" where
  "scan_path parse d ident path iv =
     (let file = in_directory path ''journal.json''
      in rbind (record_file parse d file iv) (\<lambda>(iv, v). rbind (resume_from parse d file (ri_applianceUid ident)) (\<lambda>journal.
         fold_result (scan_name parse d ident path) (sort (readdir d path)) (add_journal journal iv))))"

definition lease_known :: "inventory \<Rightarrow> lease_receipt \<Rightarrow> bool" where
  "lease_known iv l \<longleftrightarrow> (\<exists>j \<in> set (iv_journals iv). strict_opt (Some (journal_run j)) (jget (lx_value l) ''runId'') \<and>
     dirname (rj_filename j) = dirname (lx_filename l))"

definition recoveryInventory :: "(string \<Rightarrow> jsval option) \<Rightarrow> disk \<Rightarrow> string \<Rightarrow> RecoveryIdentity \<Rightarrow> inventory result" where
  "recoveryInventory parse d directory ident = rbind (recoveryPaths d directory) (\<lambda>paths.
     rbind (fold_result (scan_path parse d ident) paths \<lparr>iv_paths = paths, iv_journals = [], iv_modules = [], iv_sharing = [],
       iv_leases = [], iv_unfinished = 0, iv_files = []\<rparr>) (\<lambda>iv.
     safely (list_all (lease_known iv) (iv_leases iv)) R_RECOVERY (Inr iv)))"

subsection \<open>What is open\<close>

definition module_open :: "ModuleReceipt \<Rightarrow> bool" where
  "module_open m \<longleftrightarrow> mr_state m \<noteq> ''restored''"

definition iv_open :: "inventory \<Rightarrow> nat" where
  "iv_open iv = sum_list (map (\<lambda>j. length (recoveryPlan j)) (iv_journals iv)) + length (filter module_open (iv_modules iv)) +
     length (filter sr_pending (iv_sharing iv)) + iv_unfinished iv"

definition iv_leasePending :: "inventory \<Rightarrow> nat" where
  "iv_leasePending iv = length (filter (\<lambda>l. lx_state l \<noteq> ''released'') (iv_leases iv))"

text \<open>The fingerprint of the files below a directory, or of those directly in it.\<close>

definition fingerprint :: "(string \<Rightarrow> string) \<Rightarrow> (string \<Rightarrow> string \<Rightarrow> int) \<Rightarrow> inventory \<Rightarrow> string \<Rightarrow> bool \<Rightarrow> string" where
  "fingerprint sha256 localeCompare iv scope recursive =
     (let nul = char_of (0 :: nat);
          chosen = filter (\<lambda>(f, body). if recursive then startsWith f (scope @ [slash]) else dirname f = scope)
            (sort_by (\<lambda>a b. localeCompare (fst a) (fst b)) (iv_files iv))
      in sha256 (concat (map (\<lambda>(f, body). drop (length scope + 1) f @ nul # body @ [nul]) chosen)))"

definition ownFingerprint :: "(string \<Rightarrow> string) \<Rightarrow> (string \<Rightarrow> string \<Rightarrow> int) \<Rightarrow> inventory \<Rightarrow> string \<Rightarrow> string" where
  "ownFingerprint sha256 localeCompare iv scope = fingerprint sha256 localeCompare iv scope False"

subsection \<open>Lemmas on folds\<close>

lemma fold_result_Inl: "foldl (\<lambda>m x. rbind m (f x)) (Inl e) xs = Inl e"
  by (induction xs) simp_all

lemma fold_result_simps [simp]:
  "fold_result f [] a = Inr a" "fold_result f (x # xs) a = rbind (f x a) (fold_result f xs)"
  by (simp add: fold_result_def) (cases "f x a", simp_all add: fold_result_def fold_result_Inl)

text \<open>What the last step needs is there after each step, when no step takes it away.\<close>

lemma fold_result_back:
  assumes "fold_result f xs a = Inr b" and "P b"
    and "\<And>x a b. x \<in> set xs \<Longrightarrow> f x a = Inr b \<Longrightarrow> P b \<Longrightarrow> P a \<and> Q x"
  shows "P a \<and> (\<forall>x \<in> set xs. Q x)"
  using assms
proof (induction xs arbitrary: a)
  case (Cons x xs)
  then obtain c where c: "f x a = Inr c" "fold_result f xs c = Inr b" by (auto simp: result_ok)
  have "P c \<and> (\<forall>x \<in> set xs. Q x)" using Cons.IH [OF c(2) Cons.prems(2)] Cons.prems(3) by auto
  then show ?case using Cons.prems(3) [of x a c] c(1) by auto
qed simp

lemma fold_result_keeps:
  assumes "fold_result f xs a = Inr b" and "P a" and "\<And>x a b. x \<in> set xs \<Longrightarrow> f x a = Inr b \<Longrightarrow> P a \<Longrightarrow> P b"
  shows "P b"
  using assms
proof (induction xs arbitrary: a)
  case (Cons x xs)
  then obtain c where c: "f x a = Inr c" "fold_result f xs c = Inr b" by (auto simp: result_ok)
  have "P c" using Cons.prems(2) Cons.prems(3) [of x a c] c(1) by simp
  show ?case by (rule Cons.IH [OF c(2) \<open>P c\<close>]) (use Cons.prems(3) in auto)
qed simp

subsection \<open>Closed receipts\<close>

text \<open>A file of the directory in which nothing is left to recover, by its content on the disk.\<close>

definition journal_closed :: "(string \<Rightarrow> jsval option) \<Rightarrow> disk \<Rightarrow> RecoveryIdentity \<Rightarrow> string \<Rightarrow> bool" where
  "journal_closed parse d ident filename \<longleftrightarrow> (case read_json parse d filename of Inl e \<Rightarrow> False | Inr v \<Rightarrow>
     (case parseJournal (ri_applianceUid ident) v of None \<Rightarrow> False | Some data \<Rightarrow> \<forall>e \<in> set (jd_entries data). je_state e = E_removed))"

definition entry_restored :: "jsval \<Rightarrow> bool" where
  "entry_restored e \<longleftrightarrow> jget e ''state'' = Some (JStr ''restored'')"

definition value_closed :: "string \<Rightarrow> jsval \<Rightarrow> bool" where
  "value_closed name v \<longleftrightarrow>
     (if is_module_receipt name then jget v ''state'' = Some (JStr ''restored'')
      else if is_sharing_receipt name then (\<exists>es. jget v ''entries'' = Some (JArr es) \<and> (\<forall>e \<in> set es. entry_restored e))
      else if is_lease_receipt name then jget v ''state'' = Some (JStr ''released'')
      else is_transaction name \<longrightarrow> transaction_finished v)"

definition file_closed :: "(string \<Rightarrow> jsval option) \<Rightarrow> disk \<Rightarrow> RecoveryIdentity \<Rightarrow> string \<Rightarrow> string \<Rightarrow> bool" where
  "file_closed parse d ident path name \<longleftrightarrow>
     (if endsWith name ''.journal.json'' then journal_closed parse d ident (in_directory path name)
      else if is_module_receipt name \<or> is_sharing_receipt name \<or> is_lease_receipt name \<or> is_transaction name
      then (\<exists>v. read_json parse d (in_directory path name) = Inr v \<and> value_closed name v)
      else True)"

definition directory_closed :: "(string \<Rightarrow> jsval option) \<Rightarrow> disk \<Rightarrow> RecoveryIdentity \<Rightarrow> string \<Rightarrow> bool" where
  "directory_closed parse d ident path \<longleftrightarrow> journal_closed parse d ident (in_directory path ''journal.json'') \<and>
     (\<forall>name \<in> set (readdir d path). file_closed parse d ident path name)"

text \<open>The directory of a run with those of its workers.\<close>

definition run_closed :: "(string \<Rightarrow> jsval option) \<Rightarrow> disk \<Rightarrow> RecoveryIdentity \<Rightarrow> string \<Rightarrow> bool" where
  "run_closed parse d ident directory \<longleftrightarrow> directory_closed parse d ident directory \<and>
     (\<forall>name \<in> set (readdir d directory). startsWith name ''worker-'' \<longrightarrow> directory_closed parse d ident (in_directory directory name))"

text \<open>Nothing counted so far.\<close>

definition settled_inventory :: "inventory \<Rightarrow> bool" where
  "settled_inventory iv \<longleftrightarrow> iv_open iv = 0 \<and> iv_leasePending iv = 0"

lemma settled_inventory_iff: "settled_inventory iv \<longleftrightarrow>
    (\<forall>j \<in> set (iv_journals iv). \<forall>e \<in> set (entries_of j). je_state e = E_removed) \<and>
    (\<forall>m \<in> set (iv_modules iv). mr_state m = ''restored'') \<and> (\<forall>s \<in> set (iv_sharing iv). \<not> sr_pending s) \<and>
    iv_unfinished iv = 0 \<and> (\<forall>l \<in> set (iv_leases iv). lx_state l = ''released'')"
  by (auto simp: settled_inventory_def iv_open_def iv_leasePending_def recoveryPlan_def module_open_def filter_empty_conv)

lemma record_file_Inr: "record_file parse d f iv = Inr (iv', v) \<Longrightarrow>
    read_json parse d f = Inr v \<and> (\<exists>body. readPrivate d f default_bytes = Inr body \<and> iv' = iv\<lparr>iv_files := oset f body (iv_files iv)\<rparr>)"
  by (auto simp: record_file_def read_json_def result_ok)

lemma resume_from_Inr: "resume_from parse d f t = Inr j \<Longrightarrow>
    \<exists>v. read_json parse d f = Inr v \<and> parseJournal t v = Some (rj_data j) \<and> rj_filename j = f"
  by (auto simp: resume_from_def split: sum.splits option.splits)

lemma sharing_states_ok_True: "sharing_states_ok es = Inr b \<Longrightarrow> b \<Longrightarrow> \<forall>e \<in> set es. \<exists>s. jget e ''state'' = Some (JStr s)"
  by (induction es) (auto simp: result_ok one_of_iff split: if_splits)

lemma journal_closedI:
  "resume_from parse d f (ri_applianceUid ident) = Inr j \<Longrightarrow> \<forall>e \<in> set (entries_of j). je_state e = E_removed \<Longrightarrow>
   journal_closed parse d ident f"
  by (auto simp: journal_closed_def dest: resume_from_Inr)

text \<open>One name: what is counted as open stays counted, and a file that adds nothing is closed.\<close>

lemma scan_auxiliary_back:
  assumes "scan_auxiliary parse d ident name f iv = Inr iv'" and "settled_inventory iv'"
  shows "settled_inventory iv \<and> journal_closed parse d ident f"
proof -
  obtain iv1 v j where r: "record_file parse d f iv = Inr (iv1, v)" "resume_from parse d f (ri_applianceUid ident) = Inr j" "iv' = add_journal j iv1"
    using assms(1) by (auto simp: scan_auxiliary_def result_ok split: prod.splits)
  have "\<forall>e \<in> set (entries_of j). je_state e = E_removed" using assms(2) r(3) by (simp add: settled_inventory_iff add_journal_def)
  then show ?thesis using assms(2) r(1,3) journal_closedI [OF r(2)] record_file_Inr [OF r(1)]
    by (auto simp: settled_inventory_iff add_journal_def)
qed

lemma scan_value_back:
  "scan_module f v iv = Inr iv' \<Longrightarrow> settled_inventory iv' \<Longrightarrow> settled_inventory iv \<and> jget v ''state'' = Some (JStr ''restored'')"
  "scan_sharing ident f v iv = Inr iv' \<Longrightarrow> settled_inventory iv' \<Longrightarrow>
     settled_inventory iv \<and> (\<exists>es. jget v ''entries'' = Some (JArr es) \<and> (\<forall>e \<in> set es. entry_restored e))"
  "scan_lease ident name f v iv = Inr iv' \<Longrightarrow> settled_inventory iv' \<Longrightarrow> settled_inventory iv \<and> jget v ''state'' = Some (JStr ''released'')"
  "scan_transaction v iv = Inr iv' \<Longrightarrow> settled_inventory iv' \<Longrightarrow> settled_inventory iv \<and> transaction_finished v"
proof -
  show "scan_module f v iv = Inr iv' \<Longrightarrow> settled_inventory iv' \<Longrightarrow> settled_inventory iv \<and> jget v ''state'' = Some (JStr ''restored'')"
    by (auto simp: scan_module_def result_ok module_accepted_def settled_inventory_iff one_of_iff)
  show "scan_lease ident name f v iv = Inr iv' \<Longrightarrow> settled_inventory iv' \<Longrightarrow> settled_inventory iv \<and> jget v ''state'' = Some (JStr ''released'')"
    by (auto simp: scan_lease_def result_ok lease_accepted_def settled_inventory_iff one_of_iff)
  show "scan_transaction v iv = Inr iv' \<Longrightarrow> settled_inventory iv' \<Longrightarrow> settled_inventory iv \<and> transaction_finished v"
    by (auto simp: scan_transaction_def result_ok settled_inventory_iff split: if_splits)
  assume s: "scan_sharing ident f v iv = Inr iv'" "settled_inventory iv'"
  then obtain es where es: "items_of (jget v ''entries'') = Some es"
    by (auto simp: scan_sharing_def result_ok sharing_header_def split: option.splits)
  then have "jget v ''entries'' = Some (JArr es)" by (cases "jget v ''entries''" rule: items_of.cases) auto
  moreover have "settled_inventory iv" "\<forall>e \<in> set es. entry_restored e"
    using s es by (auto simp: scan_sharing_def result_ok settled_inventory_iff entry_restored_def Let_def)
  ultimately show "settled_inventory iv \<and> (\<exists>es. jget v ''entries'' = Some (JArr es) \<and> (\<forall>e \<in> set es. entry_restored e))" by blast
qed

lemma settled_files [simp]: "settled_inventory (iv\<lparr>iv_files := fs\<rparr>) = settled_inventory iv"
  by (simp add: settled_inventory_iff)

lemma recorded_back:
  assumes "rbind (record_file parse d f iv) (\<lambda>(iv, v). g v iv) = Inr iv'" and "settled_inventory iv'"
    and "\<And>v iv. g v iv = Inr iv' \<Longrightarrow> settled_inventory iv \<and> P v"
  shows "settled_inventory iv \<and> (\<exists>v. read_json parse d f = Inr v \<and> P v)"
  using assms(1,2) assms(3) by (auto simp: result_ok dest!: record_file_Inr split: prod.splits) force+

lemma scan_name_back:
  assumes "scan_name parse d ident path name iv = Inr iv'" and "settled_inventory iv'"
  shows "settled_inventory iv \<and> file_closed parse d ident path name"
proof (cases "endsWith name ''.journal.json''")
  case True
  then show ?thesis using assms scan_auxiliary_back by (auto simp: scan_name_def file_closed_def Let_def)
next
  case j: False
  show ?thesis
  proof (cases "is_module_receipt name \<or> is_sharing_receipt name \<or> is_lease_receipt name \<or> is_transaction name")
    case True
    let ?f = "in_directory path name"
    obtain g where g: "rbind (record_file parse d ?f iv) (\<lambda>(iv, v). g v iv) = Inr iv'"
      "\<And>v iv. g v iv = Inr iv' \<Longrightarrow> settled_inventory iv \<and> value_closed name v"
      using assms True j scan_value_back that
      by (auto simp: scan_name_def Let_def value_closed_def split: if_splits)
    show ?thesis using recorded_back [OF g(1) assms(2) g(2)] True j by (simp add: file_closed_def)
  next
    case False
    then show ?thesis using assms j by (simp add: scan_name_def file_closed_def)
  qed
qed

lemma scan_path_back:
  assumes "scan_path parse d ident path iv = Inr iv'" and "settled_inventory iv'"
  shows "settled_inventory iv \<and> directory_closed parse d ident path"
proof -
  let ?f = "in_directory path ''journal.json''"
  obtain iv1 v j where r: "record_file parse d ?f iv = Inr (iv1, v)" "resume_from parse d ?f (ri_applianceUid ident) = Inr j"
    "fold_result (scan_name parse d ident path) (sort (readdir d path)) (add_journal j iv1) = Inr iv'"
    using assms(1) by (auto simp: scan_path_def result_ok Let_def split: prod.splits)
  have b: "settled_inventory (add_journal j iv1) \<and> (\<forall>name \<in> set (sort (readdir d path)). file_closed parse d ident path name)"
    using fold_result_back [OF r(3), of settled_inventory "file_closed parse d ident path"] assms(2) scan_name_back by blast
  then have "\<forall>e \<in> set (entries_of j). je_state e = E_removed" "settled_inventory iv"
    using record_file_Inr [OF r(1)] by (auto simp: settled_inventory_iff add_journal_def)
  then show ?thesis using b journal_closedI [OF r(2)] by (simp add: directory_closed_def)
qed

lemma recoveryPaths_all:
  assumes "recoveryPaths d directory = Inr paths"
  shows "directory \<in> set paths" and "name \<in> set (readdir d directory) \<Longrightarrow> startsWith name ''worker-'' \<Longrightarrow> in_directory directory name \<in> set paths"
proof -
  let ?step = "worker_path d directory"
  obtain p where p: "fold_result ?step (readdir d directory) [directory] = Inr p" "p = paths"
    using assms by (auto simp: recoveryPaths_def result_ok split: option.splits)
  have grow: "\<And>x a b q. ?step x a = Inr b \<Longrightarrow> q \<in> set a \<Longrightarrow> q \<in> set b"
    by (auto simp: worker_path_def result_ok split: if_splits)
  show "directory \<in> set paths" using fold_result_keeps [OF p(1), of "\<lambda>a. directory \<in> set a"] grow p(2) by auto
  have "fold_result ?step xs a = Inr b \<Longrightarrow> name \<in> set xs \<Longrightarrow> startsWith name ''worker-'' \<Longrightarrow> in_directory directory name \<in> set b"
    for xs a b
  proof (induction xs arbitrary: a)
    case (Cons x xs)
    then obtain c where c: "?step x a = Inr c" "fold_result ?step xs c = Inr b" by (auto simp: result_ok)
    show ?case
    proof (cases "name = x")
      case True
      then have "in_directory directory name \<in> set c" using c(1) Cons.prems(3) by (auto simp: worker_path_def result_ok)
      then show ?thesis using fold_result_keeps [OF c(2), of "\<lambda>a. in_directory directory name \<in> set a"] grow by auto
    qed (use Cons c in auto)
  qed simp
  then show "name \<in> set (readdir d directory) \<Longrightarrow> startsWith name ''worker-'' \<Longrightarrow> in_directory directory name \<in> set paths"
    using p by blast
qed

lemma inventory_settled_closed:
  assumes "recoveryInventory parse d directory ident = Inr iv" and "iv_open iv = 0" and "iv_leasePending iv = 0"
  shows "run_closed parse d ident directory"
proof -
  obtain paths iv0 where r: "recoveryPaths d directory = Inr paths" "fold_result (scan_path parse d ident) paths iv0 = Inr iv"
    using assms(1) by (auto simp: recoveryInventory_def result_ok)
  have "settled_inventory iv" using assms(2,3) by (simp add: settled_inventory_def)
  then have "\<forall>path \<in> set paths. directory_closed parse d ident path"
    using fold_result_back [OF r(2), of settled_inventory "directory_closed parse d ident"] scan_path_back by blast
  then show ?thesis using recoveryPaths_all [OF r(1)] by (simp add: run_closed_def)
qed

end
