(* ===== verification/Cleanup_State.thy ===== *)
theory Cleanup_State
  imports Recovery_Inventory Run_Policy
begin

text \<open>
  The cleanup state of a run (\<open>regression/core/cleanup-state.ts\<close>): \<open>attestCleanup\<close> writes the proof that nothing is
  left, \<open>verifyReservationReleased\<close> completes the receipts of a lease that was seen free, and \<open>assessCleanup\<close> decides
  from the private files alone what state the cleanup is in. All of it reads the disk; \<open>now\<close> is the clock when a
  function runs, \<open>sha256\<close> and \<open>localeCompare\<close> belong to the fingerprint.
\<close>

subsection \<open>Status\<close>

datatype cleanup_state = CS_unknown | CS_required | CS_running | CS_verified | CS_blocked

fun cleanup_state_name :: "cleanup_state \<Rightarrow> string" where
  "cleanup_state_name CS_unknown = ''unknown''"
| "cleanup_state_name CS_required = ''required''"
| "cleanup_state_name CS_running = ''running''"
| "cleanup_state_name CS_verified = ''verified''"
| "cleanup_state_name CS_blocked = ''blocked''"

definition cleanup_state_of :: "string \<Rightarrow> cleanup_state option" where
  "cleanup_state_of s = find (\<lambda>c. cleanup_state_name c = s) [CS_unknown, CS_required, CS_running, CS_verified, CS_blocked]"

record RegressionCleanup =
  rc_state :: cleanup_state
  rc_checkedAt :: "string option"
  rc_reason :: "ReasonCode option"
  rc_stage :: "Stage option"

definition cleanup_json :: "RegressionCleanup \<Rightarrow> jsval obj" where
  "cleanup_json c = [(''state'', JStr (cleanup_state_name (rc_state c)))] @ field ''checkedAt'' (map_option JStr (rc_checkedAt c)) @
     field ''reason'' (map_option (\<lambda>r. JStr (reason_name r)) (rc_reason c)) @ field ''stage'' (map_option (\<lambda>st. JStr (stage_name st)) (rc_stage c))"

text \<open>\<open>Date.parse(v)\<close>, which converts its argument to a string, and \<open>Number.isFinite\<close> of it.\<close>

definition js_date :: "jsval option \<Rightarrow> int option" where
  "js_date v = date_parse (text_of v)"

text \<open>\<open>new Date(ms).toISOString()\<close> for the years 0 to 9999; years before 1970 by the 400-year cycle of the calendar.\<close>

definition iso_text :: "int \<Rightarrow> string" where
  "iso_text ms = (if 0 \<le> ms then toISOString (nat ms)
     else let s = toISOString (nat (ms + 63113904000000)) in pad_nat 4 (digits_value (take 4 s) - 2000) @ drop 4 s)"

definition cleanupStatus :: "jsval \<Rightarrow> RegressionCleanup option" where
  "cleanupStatus v = (case Option.bind (case jget v ''state'' of Some (JStr s) \<Rightarrow> Some s | _ \<Rightarrow> None) cleanup_state_of of
     None \<Rightarrow> None
   | Some st \<Rightarrow> Some \<lparr>rc_state = st,
       rc_checkedAt = (case jget v ''checkedAt'' of
           Some (JStr s) \<Rightarrow> if length s \<le> 80 then map_option iso_text (date_parse s) else None
         | _ \<Rightarrow> None),
       rc_reason = (if truthy_opt (jget v ''reason'') then reason_of (text_of (jget v ''reason'')) else None),
       rc_stage = (case jget v ''stage'' of Some (JStr s) \<Rightarrow> stage_of s | _ \<Rightarrow> None)\<rparr>)"

subsection \<open>The proof of a cleanup\<close>

definition optionalJson :: "(string \<Rightarrow> jsval option) \<Rightarrow> disk \<Rightarrow> string \<Rightarrow> jsval option result" where
  "optionalJson parse d filename = (if oget d filename = None then Inr None
     else rbind (read_json parse d filename) (\<lambda>v. Inr (Some v)))"

text \<open>\<open>/^[a-f0-9]{64}$/\<close>\<close>

definition is_hash :: "string \<Rightarrow> bool" where
  "is_hash s \<longleftrightarrow> length s = 64 \<and> list_all is_hex s"

definition node_list_ok :: "jsval option \<Rightarrow> bool" where
  "node_list_ok v \<longleftrightarrow> (case items_of v of None \<Rightarrow> False | Some ns \<Rightarrow> length ns \<le> 64 \<and> list_all (\<lambda>n. string_such (\<lambda>s. s \<noteq> []) (Some n)) ns)"

definition proofHeader :: "jsval \<Rightarrow> jsval option \<Rightarrow> string \<Rightarrow> bool" where
  "proofHeader v runId targetUid \<longleftrightarrow> jget v ''version'' = Some (JInt 1) \<and> jget v ''state'' = Some (JStr ''verified'') \<and>
     strict_opt (jget v ''runId'') runId \<and> jget v ''targetUid'' = Some (JStr targetUid) \<and> is_hash (text_of (jget v ''fingerprint'')) \<and>
     (jget v ''ownFingerprint'' = None \<or> is_hash (text_of (jget v ''ownFingerprint''))) \<and> node_list_ok (jget v ''nodeUids'') \<and>
     js_date (jget v ''checkedAt'') \<noteq> None"

record proof_env =
  pv_parse :: "string \<Rightarrow> jsval option"
  pv_sha256 :: "string \<Rightarrow> string"
  pv_compare :: "string \<Rightarrow> string \<Rightarrow> int"

definition print_of :: "proof_env \<Rightarrow> inventory \<Rightarrow> string \<Rightarrow> string" where
  "print_of env iv scope = fingerprint (pv_sha256 env) (pv_compare env) iv scope True"

definition own_print_of :: "proof_env \<Rightarrow> inventory \<Rightarrow> string \<Rightarrow> string" where
  "own_print_of env iv scope = ownFingerprint (pv_sha256 env) (pv_compare env) iv scope"

abbreviation verification_file :: "string \<Rightarrow> string" where
  "verification_file path \<equiv> in_directory path ''cleanup-verification.json''"

definition cleanup_proof :: "proof_env \<Rightarrow> inventory \<Rightarrow> RecoveryIdentity \<Rightarrow> string \<Rightarrow> bool \<Rightarrow> nat \<Rightarrow> jsval" where
  "cleanup_proof env iv ident directory recovered now = JObj
     ([(''version'', JInt 1), (''runId'', journal_run (hd (iv_journals iv))), (''targetUid'', JStr (ri_applianceUid ident)),
       (''nodeUids'', JArr (map JStr (ri_nodeUids ident))), (''recovered'', JBool recovered),
       (''fingerprint'', JStr (print_of env iv directory)), (''ownFingerprint'', JStr (own_print_of env iv directory)),
       (''state'', JStr ''verified''), (''checkedAt'', JStr (toISOString now))])"

definition attestCleanup :: "'w disk_env \<Rightarrow> proof_env \<Rightarrow> string \<Rightarrow> RecoveryIdentity \<Rightarrow> bool \<Rightarrow> ('w, RegressionCleanup) disk_act" where
  "attestCleanup denv env directory ident recovered = bnd own (\<lambda>d.
     bnd (lift_result (recoveryInventory (pv_parse env) d directory ident)) (\<lambda>iv.
     seq (requireSafe (iv_open iv = 0 \<and> iv_leasePending iv = 0) R_CLEANUP) (bnd (via (\<lambda>w. case dk_now denv w of (t, w') \<Rightarrow> (Inr t, w'))) (\<lambda>now.
     seq (writePrivate denv (verification_file directory) (cleanup_proof env iv ident directory recovered now) False)
       (ret \<lparr>rc_state = CS_verified, rc_checkedAt = Some (toISOString now), rc_reason = None, rc_stage = None\<rparr>)))))"

subsection \<open>Releasing reservation receipts\<close>

definition release_receipt :: "'w disk_env \<Rightarrow> string option \<Rightarrow> lease_receipt \<Rightarrow> ('w, unit) disk_act" where
  "release_receipt denv leaseUid item =
     seq (requireSafe (jget (lx_value item) ''leaseUid'' = map_option JStr leaseUid) R_OWNERSHIP)
       (if lx_state item \<noteq> ''released''
        then writePrivate denv (lx_filename item) (JObj (oset ''state'' (JStr ''released'') (object_fields (Some (lx_value item))))) False
        else ret ())"

fun release_receipts :: "'w disk_env \<Rightarrow> string option \<Rightarrow> lease_receipt list \<Rightarrow> ('w, unit) disk_act" where
  "release_receipts denv leaseUid [] = ret ()"
| "release_receipts denv leaseUid (x # xs) = seq (release_receipt denv leaseUid x) (release_receipts denv leaseUid xs)"

definition free_lab_lease :: "Lease \<Rightarrow> string \<Rightarrow> bool" where
  "free_lab_lease lease applianceUid \<longleftrightarrow> (case lease_uid lease of None \<Rightarrow> False | Some u \<Rightarrow> u \<noteq> []) \<and> no_holder lease \<and>
     oget (lm_labels (le_metadata lease)) ''regression.magicstick.dev/appliance-uid'' = Some applianceUid"

definition verifyReservationReleased :: "'w disk_env \<Rightarrow> proof_env \<Rightarrow> string \<Rightarrow> RecoveryIdentity \<Rightarrow> ('w, js_error, Lease) act \<Rightarrow> ('w, unit) disk_act" where
  "verifyReservationReleased denv env directory ident read = bnd (via read) (\<lambda>lease.
     seq (requireSafe (free_lab_lease lease (ri_applianceUid ident)) R_CLEANUP) (bnd own (\<lambda>d.
     bnd (lift_result (recoveryInventory (pv_parse env) d directory ident)) (\<lambda>iv.
     release_receipts denv (lease_uid lease) (iv_leases iv)))))"

subsection \<open>Assessment of a directory\<close>

definition cleanup_status :: "nat \<Rightarrow> cleanup_state \<Rightarrow> ReasonCode \<Rightarrow> Stage \<Rightarrow> RegressionCleanup" where
  "cleanup_status now st r stage = \<lparr>rc_state = st, rc_checkedAt = Some (toISOString now), rc_reason = Some r, rc_stage = Some stage\<rparr>"

definition verified_status :: "nat \<Rightarrow> RegressionCleanup" where
  "verified_status now = \<lparr>rc_state = CS_verified, rc_checkedAt = Some (toISOString now), rc_reason = None, rc_stage = None\<rparr>"

text \<open>The journal of the directory, whose target is the identity of the run.\<close>

definition root_accepted :: "string \<Rightarrow> jsval \<Rightarrow> bool" where
  "root_accepted directory root \<longleftrightarrow> jget root ''version'' = Some (JInt 1) \<and> string_such (\<lambda>_. True) (jget root ''targetUid'') \<and>
     items_of (jget root ''entries'') \<noteq> None \<and>
     (startsWith (basename directory) ''reg-'' \<longrightarrow> jget root ''runId'' = Some (JStr (basename directory)))"

definition strings_in :: "jsval option \<Rightarrow> string list" where
  "strings_in v = (case items_of v of None \<Rightarrow> [] | Some xs \<Rightarrow> concat (map (\<lambda>x. case x of JStr s \<Rightarrow> [s] | _ \<Rightarrow> []) xs))"

definition worker_nodes :: "(string \<Rightarrow> jsval option) \<Rightarrow> disk \<Rightarrow> string \<Rightarrow> string \<Rightarrow> string list \<Rightarrow> string list result" where
  "worker_nodes parse d targetUid path nodes = rbind (optionalJson parse d (verification_file path)) (\<lambda>v. case v of
     None \<Rightarrow> Inr nodes
   | Some v \<Rightarrow> rbind (read_json parse d (in_directory path ''journal.json'')) (\<lambda>worker. rbind (not_null worker) (\<lambda>_.
       safely (proofHeader v (jget worker ''runId'') targetUid) R_RECOVERY (Inr (nodes @ strings_in (jget v ''nodeUids''))))))"

definition sharing_nodes :: "(string \<Rightarrow> jsval option) \<Rightarrow> disk \<Rightarrow> string \<Rightarrow> string list \<Rightarrow> string list result" where
  "sharing_nodes parse d path = fold_result (\<lambda>name nodes.
     if is_sharing_receipt name
     then rbind (read_json parse d (in_directory path name)) (\<lambda>v. rbind (not_null v) (\<lambda>_.
       Inr (case jget v ''nodeUid'' of Some (JStr s) \<Rightarrow> nodes @ [s] | _ \<Rightarrow> nodes)))
     else Inr nodes) (readdir d path)"

definition proof_nodes :: "(string \<Rightarrow> jsval option) \<Rightarrow> disk \<Rightarrow> string \<Rightarrow> string list \<Rightarrow> jsval option \<Rightarrow> string list result" where
  "proof_nodes parse d targetUid paths receipt =
     rbind (fold_result (worker_nodes parse d targetUid) (tl paths) (case receipt of None \<Rightarrow> [] | Some v \<Rightarrow> strings_in (jget v ''nodeUids'')))
       (\<lambda>nodes. rbind (fold_result (sharing_nodes parse d) paths nodes) (\<lambda>nodes. Inr (uniques nodes)))"

text \<open>\<open>matches(value, path, own)\<close>\<close>

definition proof_matches :: "proof_env \<Rightarrow> inventory \<Rightarrow> string \<Rightarrow> string \<Rightarrow> bool \<Rightarrow> jsval option \<Rightarrow> bool" where
  "proof_matches env iv targetUid path own_only receipt \<longleftrightarrow> (case receipt of None \<Rightarrow> False | Some v \<Rightarrow>
     jget v ''version'' = Some (JInt 1) \<and> jget v ''state'' = Some (JStr ''verified'') \<and> jget v ''targetUid'' = Some (JStr targetUid) \<and>
     (\<exists>j \<in> set (iv_journals iv). strict_opt (Some (journal_run j)) (jget v ''runId'') \<and> rj_filename j = in_directory path ''journal.json'') \<and>
     (if own_only then jget v ''ownFingerprint'' = Some (JStr (own_print_of env iv path))
      else jget v ''fingerprint'' = Some (JStr (print_of env iv path))) \<and>
     js_date (jget v ''checkedAt'') \<noteq> None)"

text \<open>A scope whose files ask for a proof of their own: anything but released leases and empty journals.\<close>

definition file_needs_proof :: "(string \<Rightarrow> jsval option) \<Rightarrow> inventory \<Rightarrow> string \<Rightarrow> string \<times> string \<Rightarrow> bool" where
  "file_needs_proof parse iv path = (\<lambda>(file, body). dirname file = path \<and>
     \<not> (\<exists>l \<in> set (iv_leases iv). lx_filename l = file \<and> lx_state l = ''released'') \<and>
     (endsWith file ''/journal.json'' \<or> endsWith file ''.journal.json'' \<longrightarrow>
        (case Option.bind (parse body) (\<lambda>v. items_of (jget v ''entries'')) of None \<Rightarrow> False | Some es \<Rightarrow> es \<noteq> [])))"

definition scope_proven :: "proof_env \<Rightarrow> disk \<Rightarrow> inventory \<Rightarrow> string \<Rightarrow> string \<Rightarrow> bool result" where
  "scope_proven env d iv targetUid path =
     (if list_ex (file_needs_proof (pv_parse env) iv path) (iv_files iv)
      then rbind (optionalJson (pv_parse env) d (verification_file path)) (\<lambda>v.
        Inr (proof_matches env iv targetUid path False v \<or> proof_matches env iv targetUid path True v))
      else Inr True)"

fun scopes_proven :: "proof_env \<Rightarrow> disk \<Rightarrow> inventory \<Rightarrow> string \<Rightarrow> string list \<Rightarrow> bool result" where
  "scopes_proven env d iv targetUid [] = Inr True"
| "scopes_proven env d iv targetUid (path # paths) =
     rbind (scope_proven env d iv targetUid path) (\<lambda>ok. if ok then scopes_proven env d iv targetUid paths else Inr False)"

definition session_accepted :: "jsval \<Rightarrow> jsval option \<Rightarrow> string \<Rightarrow> bool" where
  "session_accepted session runId targetUid \<longleftrightarrow> jget session ''version'' = Some (JInt 1) \<and> strict_opt (jget session ''runId'') runId \<and>
     jget session ''targetUid'' = Some (JStr targetUid) \<and> one_of [''finished'', ''running''] (jget session ''state'')"

definition session_over :: "jsval option \<Rightarrow> bool" where
  "session_over session \<longleftrightarrow> (case session of None \<Rightarrow> True | Some s \<Rightarrow>
     jget s ''state'' = Some (JStr ''finished'') \<and> jget s ''processesStopped'' \<noteq> Some (JBool False))"

text \<open>What follows when the inventory is closed.\<close>

definition assess_closed :: "proof_env \<Rightarrow> disk \<Rightarrow> string \<Rightarrow> bool \<Rightarrow> nat \<Rightarrow> jsval \<Rightarrow> string \<Rightarrow> jsval option \<Rightarrow> inventory \<Rightarrow> RegressionCleanup result" where
  "assess_closed env d directory processesStopped now root targetUid receipt iv =
     rbind (optionalJson (pv_parse env) d (in_directory directory ''runner-session.json'')) (\<lambda>session.
     rbind (case session of None \<Rightarrow> Inr () | Some s \<Rightarrow> rbind (not_null s) (\<lambda>_. safely (session_accepted s (jget root ''runId'') targetUid) R_RECOVERY (Inr ()))) (\<lambda>_.
     let matched = proof_matches env iv targetUid directory False receipt;
         recovered = (case receipt of None \<Rightarrow> False | Some v \<Rightarrow> jget v ''recovered'' = Some (JBool True))
     in if \<not> processesStopped \<or> \<not> session_over session \<and> \<not> (recovered \<and> matched)
        then Inr (cleanup_status now CS_unknown R_RECOVERY S_recovery_barrier)
        else if matched then Inr (verified_status now)
        else rbind (scopes_proven env d iv targetUid (iv_paths iv)) (\<lambda>ok.
          Inr (if ok then verified_status now else cleanup_status now CS_unknown R_RECOVERY S_recovery_journal))))"

definition assess_result :: "proof_env \<Rightarrow> disk \<Rightarrow> string \<Rightarrow> bool \<Rightarrow> nat \<Rightarrow> RegressionCleanup result" where
  "assess_result env d directory processesStopped now =
     (let parse = pv_parse env in
      rbind (recoveryPaths d directory) (\<lambda>paths.
      rbind (read_json parse d (in_directory directory ''journal.json'')) (\<lambda>root. rbind (not_null root) (\<lambda>_.
      safely (root_accepted directory root) R_RECOVERY
     (let targetUid = str_of (jget root ''targetUid'') in
      rbind (optionalJson parse d (verification_file directory)) (\<lambda>receipt.
      safely (case receipt of None \<Rightarrow> True | Some v \<Rightarrow> proofHeader v (jget root ''runId'') targetUid) R_RECOVERY
     (rbind (proof_nodes parse d targetUid paths receipt) (\<lambda>nodes.
      rbind (recoveryInventory parse d directory \<lparr>ri_applianceUid = targetUid, ri_nodeUids = nodes\<rparr>) (\<lambda>iv.
      if iv_open iv \<noteq> 0 \<or> iv_leasePending iv \<noteq> 0
      then Inr (cleanup_status now CS_required R_CLEANUP (if iv_open iv \<noteq> 0 then S_cleanup else S_recovery_barrier))
      else assess_closed env d directory processesStopped now root targetUid receipt iv)))))))))"

definition assessCleanup :: "proof_env \<Rightarrow> disk \<Rightarrow> string \<Rightarrow> bool \<Rightarrow> nat \<Rightarrow> RegressionCleanup" where
  "assessCleanup env d directory processesStopped now = (case assess_result env d directory processesStopped now of
     Inr c \<Rightarrow> c
   | Inl e \<Rightarrow> cleanup_status now CS_blocked (case e of Harness h \<Rightarrow> he_code h | Other m \<Rightarrow> R_RECOVERY) S_recovery_journal)"

subsection \<open>Runs with child runs\<close>

definition child_header :: "jsval \<Rightarrow> bool" where
  "child_header child \<longleftrightarrow> is_run_id (text_of (jget child ''runId'')) \<and>
     string_such (\<lambda>mode. jget child ''fixture'' = Some (JBool (isolatedStep mode))) (jget child ''mode'')"

text \<open>The directories of the children that are no fixtures.\<close>

fun child_directories :: "string \<Rightarrow> jsval list \<Rightarrow> string list result" where
  "child_directories output [] = Inr []"
| "child_directories output (child # children) = rbind (not_null child) (\<lambda>_. safely (child_header child) R_RECOVERY
     (if truthy_opt (jget child ''fixture'') then child_directories output children
      else case jget child ''runId'' of
          Some (JStr run) \<Rightarrow> rbind (child_directories output children) (\<lambda>ds. Inr (in_directory output run # ds))
        | _ \<Rightarrow> Inl type_error))"

definition child_runs :: "(string \<Rightarrow> jsval option) \<Rightarrow> disk \<Rightarrow> string \<Rightarrow> string \<Rightarrow> string list result" where
  "child_runs parse d output directory = rbind (read_json parse d (in_directory directory ''child-runs.json'')) (\<lambda>v. rbind (not_null v) (\<lambda>_.
     safely (jget v ''version'' = Some (JInt 1) \<and>
       (case items_of (jget v ''children'') of None \<Rightarrow> False | Some cs \<Rightarrow> cs \<noteq> [] \<and> length cs \<le> 1000)) R_RECOVERY
       (child_directories output (the (items_of (jget v ''children''))))))"

definition first_state :: "cleanup_state \<Rightarrow> RegressionCleanup list \<Rightarrow> RegressionCleanup option" where
  "first_state st = find (\<lambda>c. rc_state c = st)"

definition worst_cleanup :: "nat \<Rightarrow> RegressionCleanup list \<Rightarrow> RegressionCleanup" where
  "worst_cleanup now states = (case first_state CS_blocked states of Some c \<Rightarrow> c | None \<Rightarrow> (case first_state CS_required states of Some c \<Rightarrow> c | None \<Rightarrow>
     (case find (\<lambda>c. rc_state c \<noteq> CS_verified) states of Some c \<Rightarrow> c | None \<Rightarrow> verified_status now)))"

text \<open>
  The recursion over child runs. The first argument is the number of levels that \<open>ancestors.size < 10\<close> still
  allows: \<open>ancestors\<close> grows by one directory with every level.
\<close>

fun assess_levels :: "nat \<Rightarrow> proof_env \<Rightarrow> disk \<Rightarrow> string \<Rightarrow> bool \<Rightarrow> nat \<Rightarrow> string list \<Rightarrow> string \<Rightarrow> RegressionCleanup" where
  "assess_levels n env d output processesStopped now ancestors directory =
     (let own_state = (if oget d (in_directory directory ''journal.json'') = None then []
            else [assessCleanup env d directory processesStopped now]);
          lost = cleanup_status now CS_unknown R_RECOVERY S_recovery_journal
      in if oget d (in_directory directory ''child-runs.json'') = None then (case own_state of c # cs \<Rightarrow> c | [] \<Rightarrow> lost)
         else (case n of 0 \<Rightarrow> lost | Suc m \<Rightarrow> if directory \<in> set ancestors then lost else
           (case child_runs (pv_parse env) d output directory of
              Inl e \<Rightarrow> lost
            | Inr dirs \<Rightarrow> worst_cleanup now (own_state @ map (assess_levels m env d output processesStopped now (directory # ancestors)) dirs))))"

declare assess_levels.simps [simp del]

definition assessRunCleanup :: "proof_env \<Rightarrow> disk \<Rightarrow> string \<Rightarrow> string \<Rightarrow> bool \<Rightarrow> nat \<Rightarrow> RegressionCleanup" where
  "assessRunCleanup env d output directory processesStopped now = assess_levels 10 env d output processesStopped now [] directory"

subsection \<open>What a verified cleanup means\<close>

text \<open>A directory that the assessment may call clean.\<close>

definition session_ended :: "(string \<Rightarrow> jsval option) \<Rightarrow> disk \<Rightarrow> string \<Rightarrow> bool" where
  "session_ended parse d directory \<longleftrightarrow> (\<exists>session. optionalJson parse d (in_directory directory ''runner-session.json'') = Inr session \<and> session_over session)"

definition recovery_proven :: "proof_env \<Rightarrow> disk \<Rightarrow> inventory \<Rightarrow> string \<Rightarrow> string \<Rightarrow> bool" where
  "recovery_proven env d iv targetUid directory \<longleftrightarrow> (\<exists>v. optionalJson (pv_parse env) d (verification_file directory) = Inr (Some v) \<and>
     jget v ''recovered'' = Some (JBool True) \<and> proof_matches env iv targetUid directory False (Some v))"

definition scopes_covered :: "proof_env \<Rightarrow> disk \<Rightarrow> inventory \<Rightarrow> string \<Rightarrow> string \<Rightarrow> bool" where
  "scopes_covered env d iv targetUid directory \<longleftrightarrow>
     (\<exists>v. optionalJson (pv_parse env) d (verification_file directory) = Inr v \<and> proof_matches env iv targetUid directory False v) \<or>
     (\<forall>path \<in> set (iv_paths iv). list_ex (file_needs_proof (pv_parse env) iv path) (iv_files iv) \<longrightarrow>
        (\<exists>v. optionalJson (pv_parse env) d (verification_file path) = Inr v \<and>
           (proof_matches env iv targetUid path False v \<or> proof_matches env iv targetUid path True v)))"

definition clean_directory :: "proof_env \<Rightarrow> disk \<Rightarrow> string \<Rightarrow> bool" where
  "clean_directory env d directory \<longleftrightarrow> (\<exists>targetUid nodes iv.
     (\<exists>root. read_json (pv_parse env) d (in_directory directory ''journal.json'') = Inr root \<and> jget root ''targetUid'' = Some (JStr targetUid)) \<and>
     recoveryInventory (pv_parse env) d directory \<lparr>ri_applianceUid = targetUid, ri_nodeUids = nodes\<rparr> = Inr iv \<and>
     run_closed (pv_parse env) d \<lparr>ri_applianceUid = targetUid, ri_nodeUids = nodes\<rparr> directory \<and>
     (session_ended (pv_parse env) d directory \<or> recovery_proven env d iv targetUid directory) \<and>
     scopes_covered env d iv targetUid directory)"

lemma not_verified [simp]: "rc_state (cleanup_status now st r stage) = st" "rc_state (verified_status now) = CS_verified"
  by (simp_all add: cleanup_status_def verified_status_def)

lemma scopes_proven_True:
  "scopes_proven env d iv targetUid paths = Inr True \<Longrightarrow> path \<in> set paths \<Longrightarrow> scope_proven env d iv targetUid path = Inr True"
  by (induction paths) (auto simp: result_ok split: if_splits)

lemma scope_proven_True:
  "scope_proven env d iv targetUid path = Inr True \<Longrightarrow> list_ex (file_needs_proof (pv_parse env) iv path) (iv_files iv) \<Longrightarrow>
   \<exists>v. optionalJson (pv_parse env) d (verification_file path) = Inr v \<and>
     (proof_matches env iv targetUid path False v \<or> proof_matches env iv targetUid path True v)"
  by (auto simp: scope_proven_def result_ok)

lemma assess_closed_verified:
  assumes "assess_closed env d directory stopped now root targetUid receipt iv = Inr c" and "rc_state c = CS_verified"
    and "optionalJson (pv_parse env) d (verification_file directory) = Inr receipt"
  shows "stopped \<and> (session_ended (pv_parse env) d directory \<or> recovery_proven env d iv targetUid directory) \<and>
    scopes_covered env d iv targetUid directory"
proof -
  let ?matched = "proof_matches env iv targetUid directory False receipt"
  let ?recovered = "case receipt of None \<Rightarrow> False | Some v \<Rightarrow> jget v ''recovered'' = Some (JBool True)"
  obtain session where session: "optionalJson (pv_parse env) d (in_directory directory ''runner-session.json'') = Inr session"
    and over: "stopped \<and> (session_over session \<or> ?recovered \<and> ?matched)"
    and scopes: "?matched \<or> scopes_proven env d iv targetUid (iv_paths iv) = Inr True"
    using assms(1,2) by (auto simp: assess_closed_def result_ok Let_def split: if_splits)
  have "session_ended (pv_parse env) d directory \<or> recovery_proven env d iv targetUid directory"
    using over session assms(3) by (cases receipt) (auto simp: session_ended_def recovery_proven_def)
  moreover have "scopes_covered env d iv targetUid directory"
    using scopes assms(3) scopes_proven_True scope_proven_True unfolding scopes_covered_def by blast
  ultimately show ?thesis using over by simp
qed

lemma assess_result_steps:
  assumes "assess_result env d directory stopped now = Inr c" and "rc_state c = CS_verified"
  obtains root receipt nodes iv where "read_json (pv_parse env) d (in_directory directory ''journal.json'') = Inr root"
    and "root_accepted directory root" and "optionalJson (pv_parse env) d (verification_file directory) = Inr receipt"
    and "recoveryInventory (pv_parse env) d directory \<lparr>ri_applianceUid = str_of (jget root ''targetUid''), ri_nodeUids = nodes\<rparr> = Inr iv"
    and "iv_open iv = 0" and "iv_leasePending iv = 0"
    and "assess_closed env d directory stopped now root (str_of (jget root ''targetUid'')) receipt iv = Inr c"
  using assms by (auto simp: assess_result_def result_ok Let_def split: if_splits)

lemma assess_verified:
  assumes "rc_state (assessCleanup env d directory stopped now) = CS_verified"
  shows "stopped \<and> clean_directory env d directory"
proof -
  obtain c where c: "assess_result env d directory stopped now = Inr c" "rc_state c = CS_verified"
    using assms by (auto simp: assessCleanup_def split: sum.splits)
  obtain root receipt nodes iv where r: "read_json (pv_parse env) d (in_directory directory ''journal.json'') = Inr root"
    "root_accepted directory root" "optionalJson (pv_parse env) d (verification_file directory) = Inr receipt"
    "recoveryInventory (pv_parse env) d directory \<lparr>ri_applianceUid = str_of (jget root ''targetUid''), ri_nodeUids = nodes\<rparr> = Inr iv"
    "iv_open iv = 0" "iv_leasePending iv = 0"
    "assess_closed env d directory stopped now root (str_of (jget root ''targetUid'')) receipt iv = Inr c"
    using assess_result_steps [OF c] by blast
  have "jget root ''targetUid'' = Some (JStr (str_of (jget root ''targetUid'')))"
    using r(2) by (auto simp: root_accepted_def string_such_def split: option.splits jsval.splits)
  then show ?thesis
    using assess_closed_verified [OF r(7) c(2) r(3)] inventory_settled_closed [OF r(4,5,6)] r(1,4)
    unfolding clean_directory_def by blast
qed

subsection \<open>The tree of child runs\<close>

text \<open>\<open>child\<close> is the directory of a child run of \<open>directory\<close> that is no fixture.\<close>

definition child_run :: "(string \<Rightarrow> jsval option) \<Rightarrow> disk \<Rightarrow> string \<Rightarrow> string \<Rightarrow> string \<Rightarrow> bool" where
  "child_run parse d output directory child \<longleftrightarrow> oget d (in_directory directory ''child-runs.json'') \<noteq> None \<and>
     (\<exists>dirs. child_runs parse d output directory = Inr dirs \<and> child \<in> set dirs)"

lemma worst_verified: "rc_state (worst_cleanup now states) = CS_verified \<Longrightarrow> c \<in> set states \<Longrightarrow> rc_state c = CS_verified"
  by (auto simp: worst_cleanup_def first_state_def find_None_iff find_Some_iff split: option.splits)

lemma assess_levels_verified:
  assumes "rc_state (assess_levels n env d output stopped now ancestors directory) = CS_verified"
  shows "oget d (in_directory directory ''journal.json'') \<noteq> None \<Longrightarrow> rc_state (assessCleanup env d directory stopped now) = CS_verified"
    and "oget d (in_directory directory ''journal.json'') = None \<Longrightarrow> oget d (in_directory directory ''child-runs.json'') \<noteq> None"
  using assms by (auto simp: assess_levels.simps [of n] Let_def split: if_splits nat.splits sum.splits list.splits dest: worst_verified)

lemma assess_child_verified:
  assumes "rc_state (assess_levels n env d output stopped now ancestors directory) = CS_verified"
    and "child_run (pv_parse env) d output directory child"
  shows "\<exists>m. rc_state (assess_levels m env d output stopped now (directory # ancestors) child) = CS_verified"
proof -
  obtain dirs where dirs: "child_runs (pv_parse env) d output directory = Inr dirs" "child \<in> set dirs"
    "oget d (in_directory directory ''child-runs.json'') \<noteq> None" using assms(2) by (auto simp: child_run_def)
  obtain m xs where "xs = [] \<or> (\<exists>c. xs = [c])" and
    v: "rc_state (worst_cleanup now (xs @ map (assess_levels m env d output stopped now (directory # ancestors)) dirs)) = CS_verified"
    using assms(1) dirs by (cases "oget d (in_directory directory ''journal.json'')")
      (auto simp: assess_levels.simps [of n] Let_def split: if_splits nat.splits intro: that [of "[]"] that [of "[x]" for x])
  have "rc_state (assess_levels m env d output stopped now (directory # ancestors) child) = CS_verified"
    by (rule worst_verified [OF v]) (simp add: dirs(2))
  then show ?thesis by blast
qed

lemma run_tree_verified:
  assumes "(child_run (pv_parse env) d output)\<^sup>*\<^sup>* directory x"
    and "rc_state (assess_levels n env d output stopped now ancestors directory) = CS_verified"
  shows "if oget d (in_directory x ''journal.json'') = None then oget d (in_directory x ''child-runs.json'') \<noteq> None
    else stopped \<and> clean_directory env d x"
  using assms
proof (induction arbitrary: n ancestors rule: converse_rtranclp_induct)
  case base
  then show ?case using assess_levels_verified [OF base] by (auto dest: assess_verified)
next
  case (step y z)
  obtain m where "rc_state (assess_levels m env d output stopped now (y # ancestors) z) = CS_verified"
    using assess_child_verified [OF step.prems step.hyps(1)] by blast
  then show ?case by (rule step.IH)
qed


definition sample_run :: string where
  "sample_run = ''reg-11111111-2222-3333-4444-555555555555''"

text \<open>A parser that knows two texts, and a disk with one finished run.\<close>

definition sample_entry :: jsval where
  "sample_entry = JObj [(''kind'', JStr ''model''), (''name'', JStr ''reg-11111111-222-a''), (''uid'', JStr ''u-1''), (''state'', JStr ''removed'')]"

definition sample_root :: jsval where
  "sample_root = JObj [(''version'', JInt 1), (''runId'', JStr sample_run), (''targetUid'', JStr ''lab''), (''prefix'', JStr ''reg-11111111-222-''),
     (''entries'', JArr [sample_entry])]"

definition sample_session :: "string \<Rightarrow> jsval" where
  "sample_session stamp = JObj [(''version'', JInt 1), (''runId'', JStr sample_run), (''targetUid'', JStr ''lab''), (''state'', JStr ''finished''), (''updatedAt'', JStr stamp)]"

text \<open>The proof of the run, and the hash of the only inventory that occurs.\<close>

definition sample_proof :: "string \<Rightarrow> jsval" where
  "sample_proof stamp = JObj [(''version'', JInt 1), (''runId'', JStr sample_run), (''targetUid'', JStr ''lab''), (''nodeUids'', JArr []),
     (''fingerprint'', JStr (replicate 64 (CHR ''a''))), (''state'', JStr ''verified''), (''checkedAt'', JStr stamp)]"

definition sample_env :: "string \<Rightarrow> proof_env" where
  "sample_env stamp = \<lparr>pv_parse = (\<lambda>s. if s = ''J'' then Some sample_root else if s = ''S'' then Some (sample_session stamp)
       else if s = ''P'' then Some (sample_proof stamp) else None),
     pv_sha256 = (\<lambda>s. replicate 64 (if s = ''journal.json'' @ char_of (0::nat) # ''J'' @ char_of (0::nat) # ''runner-session.json'' then CHR ''b'' else CHR ''a'')),
     pv_compare = (\<lambda>a b. 0)\<rparr>"

abbreviation sample_directory :: string where
  "sample_directory \<equiv> ''/runs/'' @ sample_run"

definition sample_disk :: disk where
  "sample_disk = [(''/runs'', Directory 448), (sample_directory, Directory 448),
     (in_directory sample_directory ''journal.json'', PlainFile 384 ''J''), (in_directory sample_directory ''runner-session.json'', PlainFile 384 ''S''),
     (verification_file sample_directory, PlainFile 384 ''P'')]"

definition sample_inventory :: inventory where
  "sample_inventory = projr (recoveryInventory (pv_parse (sample_env [])) sample_disk sample_directory \<lparr>ri_applianceUid = ''lab'', ri_nodeUids = []\<rparr>)"

lemma sample_files:
  "recoveryPaths sample_disk sample_directory = Inr [sample_directory]"
  "read_json (pv_parse (sample_env stamp)) sample_disk (in_directory sample_directory ''journal.json'') = Inr sample_root"
  "optionalJson (pv_parse (sample_env stamp)) sample_disk (verification_file sample_directory) = Inr (Some (sample_proof stamp))"
  "optionalJson (pv_parse (sample_env stamp)) sample_disk (in_directory sample_directory ''runner-session.json'') = Inr (Some (sample_session stamp))"
  "oget sample_disk (in_directory sample_directory ''journal.json'') \<noteq> None"
  "oget sample_disk (in_directory sample_directory ''child-runs.json'') = None"
  by code_simp+

lemma sample_contents:
  "not_null sample_root = Inr ()" "not_null (sample_session stamp) = Inr ()" "str_of (jget sample_root ''targetUid'') = ''lab''"
  "root_accepted sample_directory sample_root" "session_accepted (sample_session stamp) (jget sample_root ''runId'') ''lab''" "session_over (Some (sample_session stamp))"
  "proof_nodes (pv_parse (sample_env stamp)) sample_disk ''lab'' [sample_directory] (Some (sample_proof stamp)) = Inr []"
  by code_simp+

lemma sample_counts:
  "recoveryInventory (pv_parse (sample_env stamp)) sample_disk sample_directory \<lparr>ri_applianceUid = ''lab'', ri_nodeUids = []\<rparr> = Inr sample_inventory"
  "iv_open sample_inventory = 0" "iv_leasePending sample_inventory = 0"
  by code_simp+

lemma sample_proven:
  "proofHeader (sample_proof (toISOString 0)) (jget sample_root ''runId'') ''lab''"
  "proof_matches (sample_env (toISOString 0)) sample_inventory ''lab'' sample_directory False (Some (sample_proof (toISOString 0)))"
proof -
  have fields: "jget (sample_proof stamp) ''version'' = Some (JInt 1)" "jget (sample_proof stamp) ''state'' = Some (JStr ''verified'')"
    "jget (sample_proof stamp) ''runId'' = Some (JStr sample_run)" "jget (sample_proof stamp) ''targetUid'' = Some (JStr ''lab'')"
    "jget (sample_proof stamp) ''fingerprint'' = Some (JStr (replicate 64 (CHR ''a'')))" "jget (sample_proof stamp) ''ownFingerprint'' = None"
    "jget (sample_proof stamp) ''nodeUids'' = Some (JArr [])" "jget (sample_proof stamp) ''checkedAt'' = Some (JStr stamp)" for stamp
    by (simp_all add: sample_proof_def)
  have date: "js_date (Some (JStr (toISOString 0))) \<noteq> None" using date_parse_toISOString [of 0] by (simp add: js_date_def)
  have hash: "is_hash (replicate 64 (CHR ''a''))" by code_simp
  have print: "print_of (sample_env stamp) sample_inventory sample_directory = replicate 64 (CHR ''a'')" for stamp by code_simp
  have run: "strict_opt (Some (JStr sample_run)) (jget sample_root ''runId'')" by code_simp
  have journal: "\<exists>j \<in> set (iv_journals sample_inventory). strict_opt (Some (journal_run j)) (Some (JStr sample_run)) \<and>
      rj_filename j = in_directory sample_directory ''journal.json''" by code_simp
  show "proofHeader (sample_proof (toISOString 0)) (jget sample_root ''runId'') ''lab''"
    using date hash run by (simp add: proofHeader_def fields node_list_ok_def)
  show "proof_matches (sample_env (toISOString 0)) sample_inventory ''lab'' sample_directory False (Some (sample_proof (toISOString 0)))"
    using date print journal by (simp add: proof_matches_def fields)
qed

lemma sample_verified:
  "rc_state (assessRunCleanup (sample_env (toISOString 0)) sample_disk ''/runs'' sample_directory True 0) = CS_verified"
  unfolding assessRunCleanup_def assess_levels.simps [of "10::nat"] assessCleanup_def assess_result_def assess_closed_def
  by (simp only: sample_files sample_contents sample_counts sample_proven safely_def Let_def rbind_simps if_True if_False not_True_eq_False
      not_False_eq_True option.case list.case sum.case simp_thms not_verified append_Nil2)


text \<open>
  C14: The proof of a cleanup is written only for a run whose journals, receipts and transactions are all closed, and it
  then holds the fingerprint of what was read; for any other run the disk stays as it was.
\<close>

theorem attest_only_closed:
  assumes "attestCleanup denv env directory ident recovered (d, w) = (r, (d', w'))"
  shows "(run_closed (pv_parse env) d ident directory \<or> d' = d) \<and>
    (case r of Inl e \<Rightarrow> True | Inr c \<Rightarrow> run_closed (pv_parse env) d ident directory \<and>
      (\<exists>iv now. recoveryInventory (pv_parse env) d directory ident = Inr iv \<and> c = verified_status now \<and>
         oget d' (verification_file directory) = Some (PlainFile 384 (file_text (cleanup_proof env iv ident directory recovered now)))))"
proof (cases "recoveryInventory (pv_parse env) d directory ident")
  case (Inl e)
  then show ?thesis using assms by (auto simp: attestCleanup_def bnd_def lift_result_def)
next
  case (Inr iv)
  show ?thesis
  proof (cases "iv_open iv = 0 \<and> iv_leasePending iv = 0")
    case False
    then show ?thesis using assms Inr by (auto simp: attestCleanup_def bnd_def seq_def lift_result_def requireSafe_def throw_def)
  next
    case True
    then have closed: "run_closed (pv_parse env) d ident directory" using inventory_settled_closed [OF Inr] by simp
    obtain now w1 where now: "dk_now denv w = (now, w1)" by (cases "dk_now denv w")
    obtain x d2 w2 where wr: "writePrivate denv (verification_file directory) (cleanup_proof env iv ident directory recovered now) False (d, w1) = (x, (d2, w2))"
      by (metis surj_pair)
    have "d' = d2" "case x of Inl e \<Rightarrow> r = Inl e | Inr u \<Rightarrow> r = Inr (verified_status now)"
      using assms Inr True now wr
      by (auto simp: attestCleanup_def bnd_def seq_def lift_result_def requireSafe_def ret_def verified_status_def split: sum.splits)
    then show ?thesis using closed Inr wr by (cases x) (auto dest: writePrivate_ok(1))
  qed
qed

definition sample_disk_env :: "unit disk_env" where
  "sample_disk_env = \<lparr>dk_parse = pv_parse (sample_env []), dk_now = (\<lambda>u. (0, u)), dk_write = (\<lambda>p. ret ()), dk_sync = (\<lambda>p. ret ())\<rparr>"

theorem attest_only_closed_witness:
  "\<exists>r d' w'. attestCleanup sample_disk_env (sample_env []) sample_directory \<lparr>ri_applianceUid = ''lab'', ri_nodeUids = []\<rparr> True (sample_disk, ()) = (r, (d', w')) \<and>
    (run_closed (pv_parse (sample_env [])) sample_disk \<lparr>ri_applianceUid = ''lab'', ri_nodeUids = []\<rparr> sample_directory \<or> d' = sample_disk)"
proof -
  obtain r d' w' where e: "attestCleanup sample_disk_env (sample_env []) sample_directory \<lparr>ri_applianceUid = ''lab'', ri_nodeUids = []\<rparr> True
      (sample_disk, ()) = (r, (d', w'))" by (metis surj_pair)
  show ?thesis using e attest_only_closed [OF e] by blast
qed

subsection \<open>What the release of receipts may change\<close>

lemma release_receipts_changes:
  assumes "release_receipts denv u xs (d, w) = (r, (d', w'))" and "oget d p = Some (PlainFile mode body)"
  shows "oget d' p = Some (PlainFile mode body) \<or> (\<exists>l \<in> set xs. lx_filename l = p \<and> jget (lx_value l) ''leaseUid'' = map_option JStr u \<and>
    oget d' p = Some (PlainFile 384 (file_text (JObj (oset ''state'' (JStr ''released'') (object_fields (Some (lx_value l))))))))"
  using assms
proof (induction xs arbitrary: d w mode body)
  case (Cons x xs)
  obtain q d1 w1 where q: "release_receipt denv u x (d, w) = (q, (d1, w1))" by (metis surj_pair)
  have first: "oget d1 p = Some (PlainFile mode body) \<or> lx_filename x = p \<and> jget (lx_value x) ''leaseUid'' = map_option JStr u \<and>
      oget d1 p = Some (PlainFile 384 (file_text (JObj (oset ''state'' (JStr ''released'') (object_fields (Some (lx_value x)))))))"
    using q Cons.prems(2)
    by (auto simp: release_receipt_def seq_def bnd_def requireSafe_def ret_def throw_def split: if_splits dest: writePrivate_atomic)
  show ?case
  proof (cases q)
    case (Inl e)
    then show ?thesis using Cons.prems(1) q first by (auto simp: seq_def bnd_def)
  next
    case (Inr u')
    then have rest: "release_receipts denv u xs (d1, w1) = (r, (d', w'))" using Cons.prems(1) q by (simp add: seq_def bnd_def)
    from first show ?thesis using Cons.IH [OF rest] by (auto 0 4)
  qed
qed (simp add: ret_def)

text \<open>
  Completing the reservation receipts touches nothing but receipts of the lease that was just seen free: any file is as it
  was or such a receipt with the state \<open>released\<close>.
\<close>

theorem release_touches_receipts_only:
  assumes "verifyReservationReleased denv env directory ident read (d, w) = (r, (d', w'))" and "oget d p = Some (PlainFile mode body)"
  shows "oget d' p = Some (PlainFile mode body) \<or> (\<exists>lease iv l w1. read w = (Inr lease, w1) \<and> free_lab_lease lease (ri_applianceUid ident) \<and>
    recoveryInventory (pv_parse env) d directory ident = Inr iv \<and> l \<in> set (iv_leases iv) \<and> lx_filename l = p \<and>
    jget (lx_value l) ''leaseUid'' = map_option JStr (lease_uid lease) \<and>
    oget d' p = Some (PlainFile 384 (file_text (JObj (oset ''state'' (JStr ''released'') (object_fields (Some (lx_value l))))))))"
proof (cases "read w")
  case (Pair x w1)
  show ?thesis
  proof (cases "x = Inl (projl x) \<or> d' = d")
    case True
    then show ?thesis using assms Pair
      by (cases x) (auto simp: verifyReservationReleased_def bnd_def)
  next
    case False
    then obtain lease where lease: "x = Inr lease" "d' \<noteq> d" by (cases x) auto
    then obtain iv where iv: "free_lab_lease lease (ri_applianceUid ident)" "recoveryInventory (pv_parse env) d directory ident = Inr iv"
      "release_receipts denv (lease_uid lease) (iv_leases iv) (d, w1) = (r, (d', w'))"
      using assms(1) Pair
      by (auto simp: verifyReservationReleased_def bnd_def seq_def requireSafe_def ret_def throw_def lift_result_def split: if_splits sum.splits)
    show ?thesis using release_receipts_changes [OF iv(3) assms(2)] iv(1,2) lease Pair by blast
  qed
qed

end
