(* ===== verification/Kubernetes_Termination.thy ===== *)
theory Kubernetes_Termination
  imports Recovery_Inventory
begin

text \<open>
  Proof that an execution on Kubernetes has ended (\<open>regression/core/kubernetes-termination.ts\<close>). A runner whose session
  never finished may be recovered only when its exact Pod and Job were seen terminated, twice with the same revisions.
  The reads of the cluster are parameters that may also see the disk change; objects are the parsed JSON of the API.
\<close>

subsection \<open>Ports\<close>

record 'w kube_reader =
  kr_get :: "string \<Rightarrow> string \<Rightarrow> string \<Rightarrow> ('w, jsval) disk_act"
  kr_list :: "string \<Rightarrow> string \<Rightarrow> ('w, jsval list) disk_act"

record termination_options =
  to_root :: string
  to_reports :: string
  to_runId :: string
  to_runtimeRunUid :: string
  to_accountRunUid :: string
  to_currentRunUid :: string
  to_identity :: RecoveryIdentity

definition run_uid_label :: string where
  "run_uid_label = ''regression.magicstick.dev/run-uid''"

definition runner_namespace :: string where
  "runner_namespace = ''magicstick-regression''"

definition terminal_phases :: "string list" where
  "terminal_phases = [''Passed'', ''Failed'', ''Blocked'', ''Cancelled'']"

subsection \<open>Reading a proof\<close>

text \<open>\<open>JSON.stringify([...nodeUids].sort())\<close>; the default order is that of the strings.\<close>

definition sorted_text :: "jsval list \<Rightarrow> string" where
  "sorted_text xs = stringify (JArr (sort_key js_to_string xs))"

definition same_nodes :: "jsval option \<Rightarrow> RecoveryIdentity \<Rightarrow> bool" where
  "same_nodes v ident \<longleftrightarrow> (case items_of v of None \<Rightarrow> False | Some xs \<Rightarrow> sorted_text xs = sorted_text (map JStr (ri_nodeUids ident)))"

text \<open>\<open>/^[a-f0-9-]{36}$/\<close>\<close>

definition is_uid_text :: "string \<Rightarrow> bool" where
  "is_uid_text s \<longleftrightarrow> length s = 36 \<and> list_all is_hex_dash s"

definition some_text :: "jsval option \<Rightarrow> bool" where
  "some_text v \<longleftrightarrow> string_such (\<lambda>s. s \<noteq> []) v"

definition finite_date :: "jsval option \<Rightarrow> bool" where
  "finite_date v \<longleftrightarrow> date_parse (text_of v) \<noteq> None"

definition termination_accepted :: "(string \<Rightarrow> string) \<Rightarrow> string \<Rightarrow> RecoveryIdentity \<Rightarrow> string \<Rightarrow> jsval \<Rightarrow> bool" where
  "termination_accepted sha256 runId ident session v \<longleftrightarrow>
     jget v ''version'' = Some (JInt 1) \<and> jget v ''kind'' = Some (JStr ''kubernetes-termination'') \<and> jget v ''runId'' = Some (JStr runId) \<and>
     jget v ''targetUid'' = Some (JStr (ri_applianceUid ident)) \<and> same_nodes (jget v ''nodeUids'') ident \<and>
     is_uid_text (text_of (jget v ''runtimeRunUid'')) \<and> some_text (jget v ''jobUid'') \<and> some_text (jget v ''podUid'') \<and>
     some_text (jget v ''containerId'') \<and> finite_date (jget v ''finishedAt'') \<and> finite_date (jget v ''checkedAt'') \<and>
     jget v ''sessionHash'' = Some (JStr (sha256 session))"

abbreviation session_file :: "string \<Rightarrow> string" where
  "session_file directory \<equiv> in_directory directory ''runner-session.json''"

abbreviation termination_file :: "string \<Rightarrow> string" where
  "termination_file directory \<equiv> in_directory directory ''runner-termination.json''"

text \<open>Any error means that there is no proof.\<close>

definition verifiedKubernetesTermination :: "(string \<Rightarrow> jsval option) \<Rightarrow> (string \<Rightarrow> string) \<Rightarrow> disk \<Rightarrow> string \<Rightarrow> string \<Rightarrow> RecoveryIdentity \<Rightarrow> bool" where
  "verifiedKubernetesTermination parse sha256 d directory runId ident =
     (case (read_json parse d (termination_file directory), readPrivate d (session_file directory) default_bytes) of
        (Inr v, Inr session) \<Rightarrow> v \<noteq> JNull \<and> termination_accepted sha256 runId ident session v
      | _ \<Rightarrow> False)"

subsection \<open>Attestation\<close>

definition options_ok :: "termination_options \<Rightarrow> bool" where
  "options_ok opts \<longleftrightarrow> is_run_id (to_runId opts) \<and> is_uid_text (to_runtimeRunUid opts) \<and> is_uid_text (to_accountRunUid opts) \<and>
     to_runtimeRunUid opts \<noteq> to_currentRunUid opts"

definition session_of_run :: "termination_options \<Rightarrow> jsval \<Rightarrow> bool" where
  "session_of_run opts v \<longleftrightarrow> jget v ''version'' = Some (JInt 1) \<and> jget v ''runId'' = Some (JStr (to_runId opts)) \<and>
     jget v ''targetUid'' = Some (JStr (ri_applianceUid (to_identity opts)))"

definition status_owns_run :: "termination_options \<Rightarrow> jsval \<Rightarrow> bool" where
  "status_owns_run opts v \<longleftrightarrow> jget v ''version'' = Some (JInt 1) \<and> jget v ''runUid'' = Some (JStr (to_runtimeRunUid opts)) \<and>
     (case items_of (jat (Some v) [''progress'', ''ownedRunIds'']) of None \<Rightarrow> False
      | Some ids \<Rightarrow> length ids \<le> 1000 \<and> JStr (to_runId opts) \<in> set ids)"

definition run_terminal :: "termination_options \<Rightarrow> jsval \<Rightarrow> bool" where
  "run_terminal opts run \<longleftrightarrow> some_text (jat (Some run) [''metadata'', ''name'']) \<and>
     jat (Some run) [''metadata'', ''namespace''] = Some (JStr ''ai-system'') \<and> some_text (jat (Some run) [''metadata'', ''resourceVersion'']) \<and>
     jat (Some run) [''spec'', ''applianceUid''] = Some (JStr (ri_applianceUid (to_identity opts))) \<and>
     one_of terminal_phases (jat (Some run) [''status'', ''phase''])"

definition run_of_account :: "termination_options \<Rightarrow> jsval \<Rightarrow> bool" where
  "run_of_account opts run \<longleftrightarrow>
     nullish (jat (Some run) [''spec'', ''accountRunUid'']) (Some (JStr (to_runtimeRunUid opts))) = Some (JStr (to_accountRunUid opts)) \<and>
     same_nodes (jat (Some run) [''spec'', ''nodeUids'']) (to_identity opts)"

definition job_idle :: "termination_options \<Rightarrow> jsval \<Rightarrow> bool" where
  "job_idle opts job \<longleftrightarrow> some_text (jat (Some job) [''metadata'', ''uid'']) \<and>
     jat (Some job) [''metadata'', ''namespace''] = Some (JStr runner_namespace) \<and> some_text (jat (Some job) [''metadata'', ''resourceVersion'']) \<and>
     jat (Some job) [''metadata'', ''labels'', run_uid_label] = Some (JStr (to_runtimeRunUid opts)) \<and>
     \<not> truthy_opt (jat (Some job) [''status'', ''active''])"

definition pod_of_job :: "jsval \<Rightarrow> jsval \<Rightarrow> bool" where
  "pod_of_job job pod \<longleftrightarrow> some_text (jat (Some pod) [''metadata'', ''uid'']) \<and> some_text (jat (Some pod) [''metadata'', ''name'']) \<and>
     jat (Some pod) [''metadata'', ''namespace''] = Some (JStr runner_namespace) \<and> some_text (jat (Some pod) [''metadata'', ''resourceVersion'']) \<and>
     (case items_of (jat (Some pod) [''metadata'', ''ownerReferences'']) of None \<Rightarrow> False
      | Some refs \<Rightarrow> list_ex (\<lambda>ref. jget ref ''kind'' = Some (JStr ''Job'') \<and>
          strict_opt (jget ref ''uid'') (jat (Some job) [''metadata'', ''uid'']) \<and> jget ref ''controller'' = Some (JBool True)) refs)"

text \<open>\<open>/^[a-z][a-z0-9-]*:\/\/[a-zA-Z0-9_.-]{1,256}$/\<close>\<close>

definition is_container_id :: "string \<Rightarrow> bool" where
  "is_container_id s \<longleftrightarrow>
     (let scheme = takeWhile (\<lambda>c. c \<noteq> CHR '':'') s
      in scheme \<noteq> [] \<and> is_lower (hd scheme) \<and> list_all is_name_char (tl scheme) \<and>
         after_prefix ''://'' (chars_between 1 256 (is_alnum_or ''_.-'')) (drop (length scheme) s))"

text \<open>\<open>/@sha256:[a-f0-9]{64}$/\<close>\<close>

definition is_pinned_image :: "string \<Rightarrow> bool" where
  "is_pinned_image s \<longleftrightarrow> 72 \<le> length s \<and>
     after_prefix ''@sha256:'' (\<lambda>t. list_all is_hex t) (drop (length s - 72) s)"

definition first_of :: "jsval option \<Rightarrow> jsval option" where
  "first_of v = (case items_of v of Some (x # xs) \<Rightarrow> Some x | _ \<Rightarrow> None)"

definition single :: "jsval option \<Rightarrow> bool" where
  "single v \<longleftrightarrow> (case items_of v of Some [x] \<Rightarrow> True | _ \<Rightarrow> False)"

text \<open>\<open>(v ?? []).length\<close> is zero.\<close>

definition none_in :: "jsval option \<Rightarrow> bool" where
  "none_in v \<longleftrightarrow> (case nullish v (Some (JArr [])) of Some (JArr xs) \<Rightarrow> xs = [] | _ \<Rightarrow> False)"

definition pod_confined :: "jsval \<Rightarrow> jsval \<Rightarrow> bool" where
  "pod_confined run pod \<longleftrightarrow>
     (let spec = jget pod ''spec''; runner = first_of (jat spec [''containers'']); sec = jat runner [''securityContext'']
      in truthy_opt spec \<and> jat spec [''hostPID''] \<noteq> Some (JBool True) \<and> jat spec [''shareProcessNamespace''] \<noteq> Some (JBool True) \<and>
         jat spec [''securityContext'', ''runAsNonRoot''] = Some (JBool True) \<and> single (jat spec [''containers'']) \<and>
         jat runner [''name''] = Some (JStr ''runner'') \<and> string_such is_pinned_image (jat (Some run) [''spec'', ''image'']) \<and>
         strict_opt (jat runner [''image'']) (jat (Some run) [''spec'', ''image'']) \<and>
         jat sec [''allowPrivilegeEscalation''] = Some (JBool False) \<and> jat sec [''privileged''] \<noteq> Some (JBool True) \<and>
         none_in (jat sec [''capabilities'', ''add'']) \<and>
         (case items_of (jat sec [''capabilities'', ''drop'']) of None \<Rightarrow> False | Some xs \<Rightarrow> JStr ''ALL'' \<in> set xs) \<and>
         (case nullish (jat spec [''volumes'']) (Some (JArr [])) of
            Some (JArr vs) \<Rightarrow> \<not> list_ex (\<lambda>volume. truthy_opt (jget volume ''hostPath'')) vs | _ \<Rightarrow> False) \<and>
         none_in (jat spec [''initContainers'']) \<and> none_in (jat spec [''ephemeralContainers'']))"

definition container_statuses :: "jsval \<Rightarrow> jsval option" where
  "container_statuses pod = jat (Some pod) [''status'', ''containerStatuses'']"

definition container_ended :: "jsval \<Rightarrow> jsval option" where
  "container_ended pod = jat (first_of (container_statuses pod)) [''state'', ''terminated'']"

definition ended_at :: "jsval \<Rightarrow> int option" where
  "ended_at pod = date_parse (case jat (container_ended pod) [''finishedAt''] of None \<Rightarrow> [] | Some v \<Rightarrow> js_to_string v)"

definition pod_ended :: "nat \<Rightarrow> jsval \<Rightarrow> jsval \<Rightarrow> bool" where
  "pod_ended now session pod \<longleftrightarrow>
     (let container = first_of (container_statuses pod)
      in one_of [''Succeeded'', ''Failed''] (jat (Some pod) [''status'', ''phase'']) \<and> single (container_statuses pod) \<and>
         jat container [''name''] = Some (JStr ''runner'') \<and> \<not> truthy_opt (jat container [''state'', ''running'']) \<and>
         \<not> truthy_opt (jat container [''state'', ''waiting'']) \<and>
         (case jat (container_ended pod) [''exitCode''] of Some (JInt i) \<Rightarrow> True | _ \<Rightarrow> False) \<and>
         string_such is_container_id (jat container [''containerID'']) \<and>
         (case (ended_at pod, date_parse (text_of (jget session ''updatedAt''))) of
            (Some finished, Some updated) \<Rightarrow> finished \<le> int now \<and> updated \<le> finished | _ \<Rightarrow> False))"

definition node_of_pod :: "RecoveryIdentity \<Rightarrow> jsval \<Rightarrow> jsval list \<Rightarrow> bool" where
  "node_of_pod ident pod nodes \<longleftrightarrow> list_ex (\<lambda>node. strict_opt (jat (Some node) [''metadata'', ''name'']) (jat (Some pod) [''spec'', ''nodeName'']) \<and>
     one_of (ri_nodeUids ident) (jat (Some node) [''metadata'', ''uid''])) nodes"

definition same_revision_of :: "jsval \<Rightarrow> jsval \<Rightarrow> bool" where
  "same_revision_of again first \<longleftrightarrow> strict_opt (jat (Some again) [''metadata'', ''uid'']) (jat (Some first) [''metadata'', ''uid'']) \<and>
     strict_opt (jat (Some again) [''metadata'', ''resourceVersion'']) (jat (Some first) [''metadata'', ''resourceVersion''])"

definition termination_proof :: "(string \<Rightarrow> string) \<Rightarrow> termination_options \<Rightarrow> string \<Rightarrow> jsval \<Rightarrow> jsval \<Rightarrow> nat \<Rightarrow> jsval" where
  "termination_proof sha256 opts session job pod now = JObj
     ([(''version'', JInt 1), (''kind'', JStr ''kubernetes-termination''), (''runId'', JStr (to_runId opts)),
       (''targetUid'', JStr (ri_applianceUid (to_identity opts))), (''nodeUids'', JArr (map JStr (ri_nodeUids (to_identity opts)))),
       (''runtimeRunUid'', JStr (to_runtimeRunUid opts)), (''accountRunUid'', JStr (to_accountRunUid opts))] @
      field ''jobUid'' (jat (Some job) [''metadata'', ''uid'']) @ field ''podUid'' (jat (Some pod) [''metadata'', ''uid'']) @
      field ''containerId'' (jat (first_of (container_statuses pod)) [''containerID'']) @
      field ''finishedAt'' (jat (container_ended pod) [''finishedAt'']) @
      [(''checkedAt'', JStr (toISOString now)), (''sessionHash'', JStr (sha256 session))])"

definition now_of :: "'w disk_env \<Rightarrow> ('w, nat) disk_act" where
  "now_of denv = via (\<lambda>w. case dk_now denv w of (t, w') \<Rightarrow> (Inr t, w'))"

definition on_disk :: "(disk \<Rightarrow> 'a result) \<Rightarrow> ('w, 'a) disk_act" where
  "on_disk f = bnd own (\<lambda>d. lift_result (f d))"

definition name_in :: "jsval \<Rightarrow> string" where
  "name_in ob = str_of (jat (Some ob) [''metadata'', ''name''])"

text \<open>The repeated reads and the write.\<close>

definition attest_unchanged :: "'w disk_env \<Rightarrow> (string \<Rightarrow> string) \<Rightarrow> 'w kube_reader \<Rightarrow> termination_options \<Rightarrow> string \<Rightarrow> jsval \<Rightarrow> jsval \<Rightarrow> jsval \<Rightarrow> ('w, unit) disk_act" where
  "attest_unchanged denv sha256 reader opts session run job pod =
     (let directory = in_directory (to_root opts) (to_runId opts) in
      bnd (kr_get reader ''pods'' runner_namespace (name_in pod)) (\<lambda>again.
      bnd (kr_get reader ''jobs.batch'' runner_namespace (name_in run)) (\<lambda>jobAgain.
      bnd (kr_get reader ''regressionruns.appliance.magicstick.dev'' ''ai-system'' (name_in run)) (\<lambda>runAgain.
      seq (requireSafe (same_revision_of again pod \<and> same_revision_of jobAgain job \<and> same_revision_of runAgain run \<and>
          map_option stringify (container_statuses again) = map_option stringify (container_statuses pod)) R_CONFLICT)
     (bnd (on_disk (\<lambda>d. readPrivate d (session_file directory) default_bytes)) (\<lambda>sessionAgain.
      seq (requireSafe (sessionAgain = session) R_CONFLICT) (bnd (now_of denv) (\<lambda>now.
      writePrivate denv (termination_file directory) (termination_proof sha256 opts session job pod now) False))))))))"

definition attest_pod :: "'w disk_env \<Rightarrow> (string \<Rightarrow> string) \<Rightarrow> 'w kube_reader \<Rightarrow> termination_options \<Rightarrow> string \<Rightarrow> jsval \<Rightarrow> jsval \<Rightarrow> jsval \<Rightarrow> ('w, unit) disk_act" where
  "attest_pod denv sha256 reader opts session value run job =
     bnd (kr_list reader ''pods'' runner_namespace) (\<lambda>all. let pods = filter (\<lambda>pod. jat (Some pod) [''metadata'', ''labels'', run_uid_label] = Some (JStr (to_runtimeRunUid opts))) all in
     seq (requireSafe (length pods = 1) R_PROCESS_STATE) (let pod = hd pods in
     seq (requireSafe (pod_of_job job pod) R_OWNERSHIP)
    (bnd (kr_list reader ''nodes'' []) (\<lambda>nodes. seq (requireSafe (node_of_pod (to_identity opts) pod nodes) R_IDENTITY)
    (bnd (now_of denv) (\<lambda>now. seq (requireSafe (pod_confined run pod \<and> pod_ended now value pod) R_PROCESS_STATE)
      (attest_unchanged denv sha256 reader opts session run job pod)))))))"

definition attestKubernetesTermination :: "'w disk_env \<Rightarrow> (string \<Rightarrow> string) \<Rightarrow> 'w kube_reader \<Rightarrow> termination_options \<Rightarrow> ('w, unit) disk_act" where
  "attestKubernetesTermination denv sha256 reader opts =
     (let directory = in_directory (to_root opts) (to_runId opts) in
      seq (requireSafe (options_ok opts) R_RECOVERY)
     (bnd (on_disk (\<lambda>d. readPrivate d (session_file directory) default_bytes)) (\<lambda>session.
      bnd (lift_result (parsed (dk_parse denv) session)) (\<lambda>value. seq (lift_result (not_null value))
     (seq (requireSafe (session_of_run opts value) R_RECOVERY)
     (bnd (on_disk (\<lambda>d. rbind (readPrivate d (in_directory (in_directory (to_reports opts) (to_runtimeRunUid opts)) ''status.json'') 8388608)
         (parsed (dk_parse denv)))) (\<lambda>st. seq (lift_result (not_null st))
     (seq (requireSafe (status_owns_run opts st) R_OWNERSHIP)
     (bnd (kr_list reader ''regressionruns.appliance.magicstick.dev'' ''ai-system'') (\<lambda>all.
      let runs = filter (\<lambda>run. jat (Some run) [''metadata'', ''uid''] = Some (JStr (to_runtimeRunUid opts))) all in
      seq (requireSafe (length runs = 1) R_OWNERSHIP) (let run = hd runs in
      seq (requireSafe (run_terminal opts run) R_PROCESS_STATE) (seq (requireSafe (run_of_account opts run) R_OWNERSHIP)
     (bnd (kr_get reader ''jobs.batch'' runner_namespace (name_in run)) (\<lambda>job.
      seq (requireSafe (job_idle opts job) R_OWNERSHIP) (attest_pod denv sha256 reader opts session value run job)))))))))))))))"

subsection \<open>Reconciling a session\<close>

record kube_session =
  ks_root :: string
  ks_runId :: string
  ks_identity :: RecoveryIdentity
  ks_runtimeRunUid :: "string option"
  ks_reports :: "string option"
  ks_environment :: "string \<Rightarrow> string option"

definition or_else :: "'a option \<Rightarrow> 'a \<Rightarrow> 'a" where
  "or_else v x = (case v of None \<Rightarrow> x | Some y \<Rightarrow> y)"

definition session_options :: "kube_session \<Rightarrow> termination_options" where
  "session_options ks =
     (let account = ks_environment ks ''REGRESSION_ACCOUNT_RUN_UID''; run = ks_environment ks ''REGRESSION_RUN_UID''
      in \<lparr>to_root = ks_root ks, to_reports = or_else (ks_reports ks) ''/state/reports'', to_runId = ks_runId ks,
          to_runtimeRunUid = or_else (ks_runtimeRunUid ks) (or_else account []), to_accountRunUid = or_else account (or_else run []),
          to_currentRunUid = or_else run [], to_identity = ks_identity ks\<rparr>)"

text \<open>\<open>reader\<close> is the one over \<open>command\<close>: fixed reads of the bootstrap context.\<close>

definition reconcileKubernetesSession :: "'w disk_env \<Rightarrow> (string \<Rightarrow> string) \<Rightarrow> 'w kube_reader \<Rightarrow> kube_session \<Rightarrow> ('w, unit) disk_act" where
  "reconcileKubernetesSession denv sha256 reader ks =
     (let directory = in_directory (ks_root ks) (ks_runId ks) in
      if ks_environment ks ''REGRESSION_EXECUTION'' \<noteq> Some ''kubernetes'' then ret ()
      else bnd (on_disk (\<lambda>d. read_json (dk_parse denv) d (session_file directory))) (\<lambda>session. seq (lift_result (not_null session))
        (if jget session ''state'' = Some (JStr ''finished'') \<and> jget session ''processesStopped'' \<noteq> Some (JBool False) then ret ()
         else seq (attestKubernetesTermination denv sha256 reader (session_options ks))
           (bnd own (\<lambda>d. requireSafe (verifiedKubernetesTermination (dk_parse denv) sha256 d directory (ks_runId ks) (ks_identity ks)) R_PROCESS_STATE)))))"

text \<open>The reader over a command: \<open>get resource [name] [-n namespace] -o json\<close>.\<close>

definition command_reader :: "(string list \<Rightarrow> ('w, jsval) disk_act) \<Rightarrow> 'w kube_reader" where
  "command_reader command =
     (let scope = (\<lambda>ns. if ns = [] then [] else [''-n'', ns])
      in \<lparr>kr_get = (\<lambda>resource ns name. command ([''get'', resource, name] @ scope ns @ [''-o'', ''json''])),
          kr_list = (\<lambda>resource ns. bnd (command ([''get'', resource] @ scope ns @ [''-o'', ''json''])) (\<lambda>v.
            case items_of (jget v ''items'') of None \<Rightarrow> throw type_error | Some xs \<Rightarrow> ret xs))\<rparr>)"

subsection \<open>The proof is what verification accepts\<close>

lemma own_bnd_run: "bnd own f (t, w) = f t (t, w)"
  by (simp add: bnd_def)

lemma on_disk_ok: "on_disk f (d, w) = (Inr x, u) \<longleftrightarrow> f d = Inr x \<and> u = (d, w)"
  by (auto simp: on_disk_def own_bnd_run lift_result_def)

lemma now_of_ok: "now_of denv (d, w) = (Inr x, u) \<Longrightarrow> \<exists>w'. u = (d, w')"
  by (auto simp: now_of_def split: prod.splits)

lemma writePrivate_keeps_private:
  assumes "writePrivate env path v exclusive (d, w) = (Inr (), (d', w'))" and "p \<noteq> path" and "readPrivate d p n = Inr body"
  shows "readPrivate d' p n = Inr body"
proof -
  obtain mode where m: "oget d p = Some (PlainFile mode body)" using readPrivate_Inr [OF assms(3)] by blast
  then have "oget d' p = Some (PlainFile mode body)" using writePrivate_ok(2) [OF assms(1,2)] by blast
  then show ?thesis using assms(3) m by (simp add: readPrivate_def)
qed

lemma different_files: "termination_file directory \<noteq> session_file directory"
  by (simp add: in_directory_def)

lemma container_id_text: "string_such is_container_id v \<Longrightarrow> some_text v"
  by (auto simp: some_text_def string_such_def is_container_id_def Let_def split: option.splits jsval.splits)

lemma date_parse_Nil [simp]: "date_parse [] = None"
  by (simp add: date_parse_def)

lemma pod_ended_date:
  assumes "pod_ended now value pod"
  shows "finite_date (jat (container_ended pod) [''finishedAt''])" and "jat (container_ended pod) [''finishedAt''] \<noteq> None"
proof -
  obtain t where t: "ended_at pod = Some t" using assms by (auto simp: pod_ended_def Let_def split: option.splits)
  then show some: "jat (container_ended pod) [''finishedAt''] \<noteq> None"
    by (cases "jat (container_ended pod) [''finishedAt'']") (simp_all add: ended_at_def)
  then show "finite_date (jat (container_ended pod) [''finishedAt''])"
    using t by (auto simp: ended_at_def finite_date_def)
qed

lemma same_nodes_self: "same_nodes (Some (JArr (map JStr (ri_nodeUids ident)))) ident"
  by (simp add: same_nodes_def)

lemma some_text_iff: "some_text v \<longleftrightarrow> (\<exists>s. v = Some (JStr s) \<and> s \<noteq> [])"
  by (auto simp: some_text_def string_such_def split: option.splits jsval.splits)

lemma termination_proof_accepted:
  assumes "options_ok opts" and "job_idle opts job" and "pod_of_job job pod" and "pod_ended now0 value pod" and "now < 2930950 * 86400000"
  shows "termination_accepted sha256 (to_runId opts) (to_identity opts) session (termination_proof sha256 opts session job pod now)"
proof -
  obtain j where j: "jat (Some job) [''metadata'', ''uid''] = Some (JStr j)" "j \<noteq> []"
    using assms(2) by (auto simp: job_idle_def some_text_iff)
  obtain q where q: "jat (Some pod) [''metadata'', ''uid''] = Some (JStr q)" "q \<noteq> []"
    using assms(3) by (auto simp: pod_of_job_def some_text_iff)
  obtain c where c: "jat (first_of (container_statuses pod)) [''containerID''] = Some (JStr c)" "c \<noteq> []"
    using assms(4) container_id_text by (auto simp: pod_ended_def Let_def some_text_iff)
  obtain f where f: "jat (container_ended pod) [''finishedAt''] = Some f" "finite_date (Some f)"
    using pod_ended_date [OF assms(4)] by auto
  have now: "finite_date (Some (JStr (toISOString now)))" using date_parse_toISOString [OF assms(5)] by (simp add: finite_date_def)
  have run: "is_uid_text (to_runtimeRunUid opts)" using assms(1) by (simp add: options_ok_def)
  show ?thesis
    unfolding termination_accepted_def termination_proof_def j(1) q(1) c(1) f(1) some_text_iff
    using j(2) q(2) c(2) f(2) now run by (simp add: field_def same_nodes_self)
qed

lemma lift_result_ok [ok_iffs]: "lift_result r s = (Inr x, u) \<longleftrightarrow> r = Inr x \<and> u = s"
  by (auto simp: lift_result_def)

lemma attest_unchanged_ok:
  assumes "attest_unchanged denv sha256 reader opts session run job pod s = (Inr (), (d', w'))"
  shows "\<exists>d1 w1 v. readPrivate d1 (session_file (in_directory (to_root opts) (to_runId opts))) default_bytes = Inr session \<and>
    writePrivate denv (termination_file (in_directory (to_root opts) (to_runId opts)))
      (termination_proof sha256 opts session job pod (fst (dk_now denv v))) False (d1, w1) = (Inr (), (d', w'))"
proof -
  let ?dir = "in_directory (to_root opts) (to_runId opts)"
  obtain s1 s2 now where s: "on_disk (\<lambda>d. readPrivate d (session_file ?dir) default_bytes) s1 = (Inr session, s1)" "now_of denv s1 = (Inr now, s2)"
    "writePrivate denv (termination_file ?dir) (termination_proof sha256 opts session job pod now) False s2 = (Inr (), (d', w'))"
    using assms unfolding attest_unchanged_def Let_def
    by (auto simp: ok_iffs on_disk_def simp del: via_run requireSafe_run own_run)
  obtain d1 w1 where d1: "s1 = (d1, w1)" by (cases s1)
  have "s2 = (d1, snd (dk_now denv w1))" "now = fst (dk_now denv w1)"
    using s(2) d1 by (auto simp: now_of_def split: prod.splits)
  then show ?thesis using s d1 by (auto simp: on_disk_ok)
qed

lemma attest_ok:
  assumes "attestKubernetesTermination denv sha256 reader opts s = (Inr (), (d', w'))"
  shows "\<exists>session value run job pod now t. options_ok opts \<and> session_of_run opts value \<and> run_terminal opts run \<and> run_of_account opts run \<and> job_idle opts job \<and>
    pod_of_job job pod \<and> pod_confined run pod \<and> pod_ended now value pod \<and>
    attest_unchanged denv sha256 reader opts session run job pod t = (Inr (), (d', w'))"
  using assms unfolding attestKubernetesTermination_def attest_pod_def Let_def
  by (simp add: ok_iffs on_disk_def Let_def del: via_run requireSafe_run own_run) blast

text \<open>
  When the attestation of a terminated execution returns, the file it wrote is a proof that recovery accepts: it names this
  run, this appliance and these nodes and fits the unchanged session. Recovery verifies it whenever the text is read back as
  it was written and is no longer than a private file may be.
\<close>

theorem attested_termination_verifies:
  assumes "attestKubernetesTermination denv sha256 reader opts (d, w) = (Inr (), (d', w'))"
    and "\<And>v. fst (dk_now denv v) < 2930950 * 86400000"
  shows "\<exists>v. oget d' (termination_file (in_directory (to_root opts) (to_runId opts))) = Some (PlainFile 384 (file_text v)) \<and>
    (verifiedKubernetesTermination (dk_parse denv) sha256 d' (in_directory (to_root opts) (to_runId opts)) (to_runId opts) (to_identity opts) \<or>
     dk_parse denv (file_text v) \<noteq> Some v \<or> default_bytes < int (length (file_text v)))"
proof -
  let ?dir = "in_directory (to_root opts) (to_runId opts)"
  obtain session v0 run job pod now0 t where a: "options_ok opts" "job_idle opts job" "pod_of_job job pod" "pod_ended now0 v0 pod"
    "attest_unchanged denv sha256 reader opts session run job pod t = (Inr (), (d', w'))"
    using attest_ok [OF assms(1)] by blast
  obtain d1 w1 u where b: "readPrivate d1 (session_file ?dir) default_bytes = Inr session"
    "writePrivate denv (termination_file ?dir) (termination_proof sha256 opts session job pod (fst (dk_now denv u))) False (d1, w1) = (Inr (), (d', w'))"
    using attest_unchanged_ok [OF a(5)] by blast
  note s = a(1-4) b
  let ?v = "termination_proof sha256 opts session job pod (fst (dk_now denv u))"
  have wrote: "oget d' (termination_file ?dir) = Some (PlainFile 384 (file_text ?v))" by (rule writePrivate_ok(1) [OF s(6)])
  have session: "readPrivate d' (session_file ?dir) default_bytes = Inr session"
    by (rule writePrivate_keeps_private [OF s(6) different_files [symmetric] s(5)])
  have acc: "termination_accepted sha256 (to_runId opts) (to_identity opts) session ?v"
    by (rule termination_proof_accepted [OF s(1-4) assms(2)])
  have "read_json (dk_parse denv) d' (termination_file ?dir) = Inr ?v"
    if "dk_parse denv (file_text ?v) = Some ?v" "\<not> default_bytes < int (length (file_text ?v))"
    using that wrote by (simp add: read_json_def parsed_def readPrivate_def safely_def owner_only_def default_bytes_def)
  then have "verifiedKubernetesTermination (dk_parse denv) sha256 d' ?dir (to_runId opts) (to_identity opts) \<or>
      dk_parse denv (file_text ?v) \<noteq> Some ?v \<or> default_bytes < int (length (file_text ?v))"
    using session acc by (auto simp: verifiedKubernetesTermination_def termination_proof_def)
  with wrote show ?thesis by blast
qed

subsection \<open>A terminated execution\<close>

definition ended_uid :: string where
  "ended_uid = ''aaaaaaaa-0000-0000-0000-000000000000''"

definition ended_run_id :: string where
  "ended_run_id = ''reg-11111111-2222-3333-4444-555555555555''"

definition ended_options :: termination_options where
  "ended_options = \<lparr>to_root = ''/r'', to_reports = ''/q'', to_runId = ended_run_id, to_runtimeRunUid = ended_uid,
     to_accountRunUid = ended_uid, to_currentRunUid = [], to_identity = \<lparr>ri_applianceUid = ''lab'', ri_nodeUids = [''n-1'']\<rparr>\<rparr>"

definition ended_metadata :: "string \<Rightarrow> string \<Rightarrow> string \<Rightarrow> jsval obj \<Rightarrow> string \<times> jsval" where
  "ended_metadata name uid ns owners = (''metadata'', JObj ([(''name'', JStr name), (''uid'', JStr uid), (''namespace'', JStr ns), (''resourceVersion'', JStr ''1''),
     (''labels'', JObj [(run_uid_label, JStr ended_uid)])] @ owners))"

definition ended_image :: string where
  "ended_image = ''r@sha256:'' @ replicate 64 (CHR ''a'')"

definition ended_runner :: jsval where
  "ended_runner = JObj [(''name'', JStr ''runner''), (''image'', JStr ended_image), (''securityContext'', JObj [(''allowPrivilegeEscalation'', JBool False),
     (''capabilities'', JObj [(''drop'', JArr [JStr ''ALL''])])])]"

definition ended_object :: "string \<Rightarrow> string \<Rightarrow> jsval" where
  "ended_object stamp resource =
     (if resource = ''jobs.batch'' then JObj [ended_metadata ''run'' ''j-1'' runner_namespace []]
      else if resource = ''nodes'' then JObj [ended_metadata ''node'' ''n-1'' [] []]
      else if resource = ''pods'' then JObj [ended_metadata ''pod'' ''p-1'' runner_namespace
          [(''ownerReferences'', JArr [JObj [(''kind'', JStr ''Job''), (''uid'', JStr ''j-1''), (''controller'', JBool True)]])],
        (''spec'', JObj [(''nodeName'', JStr ''node''), (''securityContext'', JObj [(''runAsNonRoot'', JBool True)]), (''containers'', JArr [ended_runner])]),
        (''status'', JObj [(''phase'', JStr ''Failed''), (''containerStatuses'', JArr [JObj [(''name'', JStr ''runner''), (''containerID'', JStr ''containerd://a1''),
          (''state'', JObj [(''terminated'', JObj [(''exitCode'', JInt 1), (''finishedAt'', JStr stamp)])])]])])]
      else JObj [ended_metadata ''run'' ended_uid ''ai-system'' [], (''spec'', JObj [(''applianceUid'', JStr ''lab''), (''nodeUids'', JArr [JStr ''n-1'']),
        (''image'', JStr ended_image)]), (''status'', JObj [(''phase'', JStr ''Failed'')])])"

definition ended_session :: "string \<Rightarrow> jsval" where
  "ended_session stamp = JObj [(''version'', JInt 1), (''runId'', JStr ended_run_id), (''targetUid'', JStr ''lab''), (''state'', JStr ''running''), (''updatedAt'', JStr stamp)]"

definition ended_status :: jsval where
  "ended_status = JObj [(''version'', JInt 1), (''runUid'', JStr ended_uid), (''progress'', JObj [(''ownedRunIds'', JArr [JStr ended_run_id])])]"

definition ended_env :: "string \<Rightarrow> unit disk_env" where
  "ended_env stamp = \<lparr>dk_parse = (\<lambda>s. if s = ''S'' then Some (ended_session stamp) else if s = ''T'' then Some ended_status else None),
     dk_now = (\<lambda>u. (0, u)), dk_write = (\<lambda>p. ret ()), dk_sync = (\<lambda>p. ret ())\<rparr>"

definition ended_reader :: "string \<Rightarrow> unit kube_reader" where
  "ended_reader stamp = \<lparr>kr_get = (\<lambda>resource ns name. ret (ended_object stamp resource)), kr_list = (\<lambda>resource ns. ret [ended_object stamp resource])\<rparr>"

definition ended_disk :: disk where
  "ended_disk = [(''/r'', Directory 448), (in_directory ''/r'' ended_run_id, Directory 448), (session_file (in_directory ''/r'' ended_run_id), PlainFile 384 ''S''),
     (in_directory (in_directory ''/q'' ended_uid) ''status.json'', PlainFile 384 ''T'')]"

lemma ended_reads:
  "readPrivate ended_disk (session_file (in_directory ''/r'' ended_run_id)) default_bytes = Inr ''S''"
  "readPrivate ended_disk (in_directory (in_directory ''/q'' ended_uid) ''status.json'') 8388608 = Inr ''T''"
  "parsed (dk_parse (ended_env stamp)) ''S'' = Inr (ended_session stamp)" "parsed (dk_parse (ended_env stamp)) ''T'' = Inr ended_status"
  "not_null (ended_session stamp) = Inr ()" "not_null ended_status = Inr ()"
  "privateDirectory ended_disk (dirname (termination_file (in_directory ''/r'' ended_run_id))) = Inr ended_disk"
  "replaceable ended_disk (termination_file (in_directory ''/r'' ended_run_id)) False"
  by code_simp+

lemma ended_checks:
  "options_ok ended_options" "session_of_run ended_options (ended_session stamp)" "status_owns_run ended_options ended_status"
  "run_terminal ended_options (ended_object stamp ''regressionruns.appliance.magicstick.dev'')"
  "run_of_account ended_options (ended_object stamp ''regressionruns.appliance.magicstick.dev'')"
  "job_idle ended_options (ended_object stamp ''jobs.batch'')" "pod_of_job (ended_object stamp ''jobs.batch'') (ended_object stamp ''pods'')"
  "node_of_pod (to_identity ended_options) (ended_object stamp ''pods'') [ended_object stamp ''nodes'']"
  "pod_confined (ended_object stamp ''regressionruns.appliance.magicstick.dev'') (ended_object stamp ''pods'')"
  "jat (jget (ended_object stamp ''regressionruns.appliance.magicstick.dev'') ''metadata'') [''uid''] = Some (JStr ended_uid)"
  "jat (jget (ended_object stamp ''pods'') ''metadata'') [''labels'', run_uid_label] = Some (JStr ended_uid)"
  "same_revision_of (ended_object stamp ''pods'') (ended_object stamp ''pods'')" "same_revision_of (ended_object stamp ''jobs.batch'') (ended_object stamp ''jobs.batch'')"
  "same_revision_of (ended_object stamp ''regressionruns.appliance.magicstick.dev'') (ended_object stamp ''regressionruns.appliance.magicstick.dev'')"
  by code_simp+

lemma ended_pod: "pod_ended 0 (ended_session (toISOString 0)) (ended_object (toISOString 0) ''pods'')"
proof -
  have parts: "container_statuses (ended_object stamp ''pods'') = Some (JArr [JObj [(''name'', JStr ''runner''), (''containerID'', JStr ''containerd://a1''),
          (''state'', JObj [(''terminated'', JObj [(''exitCode'', JInt 1), (''finishedAt'', JStr stamp)])])]])"
    "jat (jget (ended_object stamp ''pods'') ''status'') [''phase''] = Some (JStr ''Failed'')" "jget (ended_session stamp) ''updatedAt'' = Some (JStr stamp)"
    "is_container_id ''containerd://a1''" for stamp by code_simp+
  have "date_parse (toISOString 0) = Some 0" using date_parse_toISOString [of 0] by simp
  then show ?thesis
    by (simp add: pod_ended_def ended_at_def container_ended_def parts first_of_def single_def string_such_def truthy_opt_def Let_def)
qed

lemma ended_attested: "\<exists>d' w'. attestKubernetesTermination (ended_env (toISOString 0)) (\<lambda>s. s) (ended_reader (toISOString 0)) ended_options (ended_disk, ()) = (Inr (), (d', w'))"
proof -
  have opts: "to_root ended_options = ''/r''" "to_reports ended_options = ''/q''" "to_runId ended_options = ended_run_id" "to_runtimeRunUid ended_options = ended_uid"
    by (simp_all add: ended_options_def)
  have env: "dk_now (ended_env stamp) u = (0, u)" "dk_write (ended_env stamp) q = ret ()" "dk_sync (ended_env stamp) q = ret ()" for stamp u q
    by (simp_all add: ended_env_def)
  have reader: "kr_get (ended_reader stamp) resource ns name = ret (ended_object stamp resource)" "kr_list (ended_reader stamp) resource ns = ret [ended_object stamp resource]"
    for stamp resource ns name by (simp_all add: ended_reader_def)
  show ?thesis
    unfolding attestKubernetesTermination_def attest_pod_def attest_unchanged_def writePrivate_def as_private_def on_disk_def now_of_def
    by (simp add: opts env reader ended_reads ended_checks ended_pod Let_def bnd_def seq_def ret_def catch_def lift_result_def requireSafe_def own_def gets_def
        split del: if_split)
qed

theorem attested_termination_verifies_witness:
  "\<exists>d' v. oget d' (termination_file (in_directory (to_root ended_options) (to_runId ended_options))) = Some (PlainFile 384 (file_text v)) \<and>
    (verifiedKubernetesTermination (dk_parse (ended_env (toISOString 0))) (\<lambda>s. s) d' (in_directory (to_root ended_options) (to_runId ended_options))
       (to_runId ended_options) (to_identity ended_options) \<or>
     dk_parse (ended_env (toISOString 0)) (file_text v) \<noteq> Some v \<or> default_bytes < int (length (file_text v)))"
proof -
  obtain d' w' where run: "attestKubernetesTermination (ended_env (toISOString 0)) (\<lambda>s. s) (ended_reader (toISOString 0)) ended_options (ended_disk, ()) = (Inr (), (d', w'))"
    using ended_attested by blast
  have "fst (dk_now (ended_env (toISOString 0)) v) < 2930950 * 86400000" for v by (simp add: ended_env_def)
  from attested_termination_verifies [OF run this] show ?thesis by blast
qed

end
