(* ===== verification/Recovery_Prepare.thy ===== *)
theory Recovery_Prepare
  imports Cleanup_State Kubernetes_Termination Poll
begin

text \<open>
  The first half of \<open>regression/core/automatic-recovery.ts\<close>: a campaign waits until the lease of its finished child is
  free or stale (\<open>campaignRecoveryLease\<close>), and \<open>AutomaticRecovery.prepare\<close> decides from the lease and the private files
  of exactly the run that the lease names whether it may be recovered at all. It never looks at another run.
\<close>

subsection \<open>The lease of a finished child\<close>

definition appliance_label :: string where
  "appliance_label = ''regression.magicstick.dev/appliance-uid''"

definition annotation :: "Lease \<Rightarrow> string \<Rightarrow> string option" where
  "annotation lease key = Option.bind (lm_annotations (le_metadata lease)) (\<lambda>a. oget a key)"

definition lease_of_child :: "string \<Rightarrow> string \<Rightarrow> Lease \<Rightarrow> bool" where
  "lease_of_child runId targetUid lease \<longleftrightarrow> oget (lm_labels (le_metadata lease)) appliance_label = Some targetUid \<and>
     annotation lease ''regression.magicstick.dev/run-id'' = Some runId"

definition child_session_ok :: "string \<Rightarrow> string \<Rightarrow> jsval \<Rightarrow> bool" where
  "child_session_ok runId targetUid v \<longleftrightarrow> jget v ''version'' = Some (JInt 1) \<and> jget v ''runId'' = Some (JStr runId) \<and>
     jget v ''targetUid'' = Some (JStr targetUid)"

definition session_finished :: "jsval \<Rightarrow> bool" where
  "session_finished v \<longleftrightarrow> jget v ''state'' = Some (JStr ''finished'') \<and> jget v ''processesStopped'' \<noteq> Some (JBool False)"

definition barrier_error :: "ReasonCode \<Rightarrow> Outcome \<Rightarrow> js_error" where
  "barrier_error code outcome = Harness (mkHarnessError code (Some outcome) (Some S_recovery_barrier) None)"

text \<open>
  One read of the lease with the verdict on it: \<open>None\<close> for the lease of another run, which ends the wait with an error. The
  clock is read for a held lease only, twice as in the source.
\<close>

definition lease_verdict :: "('s, js_error, nat) act \<Rightarrow> string \<Rightarrow> string \<Rightarrow> Lease \<Rightarrow> ('s, js_error, bool option) act" where
  "lease_verdict now runId targetUid lease =
     (if \<not> lease_of_child runId targetUid lease then ret None
      else if no_holder lease then ret (Some True)
      else bnd now (\<lambda>t1. if leaseHolderReason lease t1 = Some R_LOCK_STALE then bnd now (\<lambda>t2. ret (Some (drained lease t2))) else ret (Some False)))"

definition is_deadline :: "js_error \<Rightarrow> bool" where
  "is_deadline e \<longleftrightarrow> (case e of Harness h \<Rightarrow> he_code h = R_DEADLINE | Other m \<Rightarrow> False)"

definition wait_for_lease :: "'s poll_env \<Rightarrow> ('s, js_error, Lease) act \<Rightarrow> ('s, js_error, nat) act \<Rightarrow> string \<Rightarrow> string \<Rightarrow> nat \<Rightarrow> nat \<Rightarrow> ('s, js_error, Lease) act" where
  "wait_for_lease timer read now runId targetUid timeoutMs intervalMs = catch
     (bnd (poll_act timer (bnd read (\<lambda>lease. bnd (lease_verdict now runId targetUid lease) (\<lambda>v. ret (lease, v))))
         (\<lambda>(lease, v). v \<noteq> Some False) timeoutMs intervalMs (Some S_recovery_barrier)) (\<lambda>(lease, v).
       seq (requireSafe (v \<noteq> None) R_RECOVERY) (ret lease)))
     (\<lambda>e. throw (if is_deadline e then barrier_error R_LOCK_STALE Blocked else e))"

definition campaignRecoveryLease :: "'w disk_env \<Rightarrow> 'w poll_env \<Rightarrow> ('w, js_error, Lease) act \<Rightarrow> string \<Rightarrow> string \<Rightarrow> string \<Rightarrow> nat \<Rightarrow> nat \<Rightarrow>
    ('w, Lease) disk_act" where
  "campaignRecoveryLease denv timer read root runId targetUid timeoutMs intervalMs =
     seq (requireSafe (is_run_id runId) R_RECOVERY)
    (bnd (on_disk (\<lambda>d. read_json (dk_parse denv) d (session_file (in_directory root runId)))) (\<lambda>session. seq (lift_result (not_null session))
    (seq (requireSafe (child_session_ok runId targetUid session) R_RECOVERY)
    (seq (if session_finished session then ret () else throw (barrier_error R_PROCESS_STATE Failed))
      (via (wait_for_lease timer read (\<lambda>w. case dk_now denv w of (t, w') \<Rightarrow> (Inr t, w')) runId targetUid timeoutMs intervalMs))))))"

subsection \<open>Preparation\<close>

record AutomaticRecovery =
  ar_runId :: string
  ar_directory :: string
  ar_expected :: Lease
  ar_registration :: RecoveryIdentity
  ar_journals :: "ResourceJournal list"
  ar_modules :: "ModuleReceipt list"
  ar_sharing :: "SharingReceipt list"

definition recoverable_lease :: "Lease \<Rightarrow> nat \<Rightarrow> bool" where
  "recoverable_lease lease now \<longleftrightarrow> no_holder lease \<or> leaseHolderReason lease now = Some R_LOCK_STALE \<and> drained lease now"

definition live_session_ok :: "string \<Rightarrow> string \<Rightarrow> nat \<Rightarrow> jsval \<Rightarrow> bool" where
  "live_session_ok runId targetUid now v \<longleftrightarrow> child_session_ok runId targetUid v \<and> one_of [''running'', ''finished''] (jget v ''state'') \<and>
     (case js_date (jget v ''updatedAt'') of None \<Rightarrow> False | Some t \<Rightarrow> t \<le> int now)"

text \<open>The runner has ended: its session says so, its termination is proven, or it has been silent for three minutes.\<close>

definition session_quiet :: "jsval \<Rightarrow> nat \<Rightarrow> bool" where
  "session_quiet v now \<longleftrightarrow> (case js_date (jget v ''updatedAt'') of None \<Rightarrow> False | Some t \<Rightarrow> t + 180000 \<le> int now)"

record prepare_env =
  pp_proof :: proof_env
  pp_modified :: "string \<Rightarrow> int"

definition check_session :: "prepare_env \<Rightarrow> disk \<Rightarrow> string \<Rightarrow> string \<Rightarrow> RecoveryIdentity \<Rightarrow> nat \<Rightarrow> bool \<Rightarrow> jsval \<Rightarrow> unit result" where
  "check_session env d directory runId ident now requireTermination session =
     rbind (not_null session) (\<lambda>_. safely (live_session_ok runId (ri_applianceUid ident) now session) R_RECOVERY
       (let finished = session_finished session;
            terminated = requireTermination \<and> \<not> finished \<and>
              verifiedKubernetesTermination (pv_parse (pp_proof env)) (pv_sha256 (pp_proof env)) d directory runId ident
        in if requireTermination \<and> \<not> finished \<and> \<not> terminated then Inl (barrier_error R_PROCESS_STATE Failed)
           else safely (finished \<or> terminated \<or> session_quiet session now) R_LOCK_BUSY (Inr ())))"

text \<open>A run from before the sessions must have left its report, and that for a minute.\<close>

definition check_report :: "prepare_env \<Rightarrow> disk \<Rightarrow> string \<Rightarrow> string \<Rightarrow> nat \<Rightarrow> unit result" where
  "check_report env d directory runId now =
     (let file = in_directory directory ''summary.json''
      in rbind (read_json (pv_parse (pp_proof env)) d file) (\<lambda>summary. rbind (not_null summary) (\<lambda>_.
         safely (jget summary ''version'' = Some (JInt 2) \<and> jget summary ''runId'' = Some (JStr runId) \<and> pp_modified env file + 60000 \<le> int now) R_RECOVERY (Inr ()))))"

definition check_ended :: "prepare_env \<Rightarrow> disk \<Rightarrow> string \<Rightarrow> string \<Rightarrow> RecoveryIdentity \<Rightarrow> nat \<Rightarrow> bool \<Rightarrow> unit result" where
  "check_ended env d directory runId ident now requireTermination =
     (if oget d (session_file directory) = None then check_report env d directory runId now
      else rbind (read_json (pv_parse (pp_proof env)) d (session_file directory)) (check_session env d directory runId ident now requireTermination))"

definition recovery_file :: "string \<Rightarrow> string" where
  "recovery_file directory = in_directory directory ''automatic-recovery.json''"

definition previous_accepted :: "string \<Rightarrow> RecoveryIdentity \<Rightarrow> Lease \<Rightarrow> jsval \<Rightarrow> bool" where
  "previous_accepted runId ident lease v \<longleftrightarrow> jget v ''version'' = Some (JInt 1) \<and> jget v ''runId'' = Some (JStr runId) \<and>
     jget v ''targetUid'' = Some (JStr (ri_applianceUid ident)) \<and> strict_opt (jget v ''leaseUid'') (map_option JStr (lease_uid lease)) \<and>
     is_run_id (text_of (jget v ''recoveryOwner''))"

definition previous_owner :: "prepare_env \<Rightarrow> disk \<Rightarrow> string \<Rightarrow> string \<Rightarrow> RecoveryIdentity \<Rightarrow> Lease \<Rightarrow> jsval option result" where
  "previous_owner env d directory runId ident lease =
     (if oget d (recovery_file directory) = None then Inr None
      else rbind (read_json (pv_parse (pp_proof env)) d (recovery_file directory)) (\<lambda>v. rbind (not_null v) (\<lambda>_.
        safely (previous_accepted runId ident lease v) R_RECOVERY (Inr (jget v ''recoveryOwner'')))))"

definition some_journal :: "ResourceJournal list \<Rightarrow> jsval option \<Rightarrow> bool" where
  "some_journal journals run \<longleftrightarrow> (\<exists>j \<in> set journals. strict_opt (Some (journal_run j)) run)"

text \<open>The holder is a run of these journals, the recovery that this run had before, or a recovery of one of them.\<close>

definition holder_explained :: "Lease \<Rightarrow> string \<Rightarrow> ResourceJournal list \<Rightarrow> jsval option \<Rightarrow> bool" where
  "holder_explained lease runId journals recoveryOwner \<longleftrightarrow>
     some_journal journals (map_option JStr (lease_holder lease)) \<or> strict_opt recoveryOwner (map_option JStr (lease_holder lease)) \<or>
     annotation lease ''regression.magicstick.dev/recovering'' = Some ''true'' \<and>
       some_journal journals (map_option JStr (annotation lease ''regression.magicstick.dev/recovery-original-owner'')) \<or>
     no_holder lease \<and> some_journal journals (Some (JStr runId))"

definition prepareJournal :: "prepare_env \<Rightarrow> disk \<Rightarrow> string \<Rightarrow> Lease \<Rightarrow> RecoveryIdentity \<Rightarrow> nat \<Rightarrow> bool \<Rightarrow> AutomaticRecovery result" where
  "prepareJournal env d root lease ident now requireTermination =
     safely (oget (lm_labels (le_metadata lease)) appliance_label = Some (ri_applianceUid ident)) R_LAB
    (safely (recoverable_lease lease now) R_LOCK_STALE
    (case lease_run lease of None \<Rightarrow> Inl (hard R_RECOVERY) | Some runId \<Rightarrow> safely (is_run_id runId) R_RECOVERY
    (let directory = in_directory root runId in
     safely (private_directory_at d directory) R_RECOVERY
    (rbind (check_ended env d directory runId ident now requireTermination) (\<lambda>_.
     rbind (recoveryInventory (pv_parse (pp_proof env)) d directory ident) (\<lambda>iv.
     safely (iv_journals iv \<noteq> [] \<and> journal_run (hd (iv_journals iv)) = JStr runId) R_RECOVERY
    (safely (iv_unfinished iv = 0) R_RECOVERY
    (let modules = filter module_open (iv_modules iv); sharing = filter sr_pending (iv_sharing iv) in
     rbind (previous_owner env d directory runId ident lease) (\<lambda>owner.
     safely (holder_explained lease runId (iv_journals iv) owner) R_RECOVERY
    (safely (no_holder lease \<longrightarrow> (\<forall>j \<in> set (iv_journals iv). recoveryPlan j = []) \<and> modules = [] \<and> sharing = []) R_RECOVERY
    (Inr \<lparr>ar_runId = runId, ar_directory = directory, ar_expected = lease, ar_registration = ident, ar_journals = iv_journals iv,
       ar_modules = modules, ar_sharing = sharing\<rparr>)))))))))))"

definition prepareRecovery :: "prepare_env \<Rightarrow> string \<Rightarrow> Lease \<Rightarrow> RecoveryIdentity \<Rightarrow> nat \<Rightarrow> bool \<Rightarrow> ('w, AutomaticRecovery) disk_act" where
  "prepareRecovery env root lease ident now requireTermination =
     atStage S_recovery_journal (on_disk (\<lambda>d. prepareJournal env d root lease ident now requireTermination))"

subsection \<open>What is recovered\<close>

text \<open>Evidence on the disk that the processes of a run are gone; silence counts only when no termination is required.\<close>

definition runner_ended :: "prepare_env \<Rightarrow> disk \<Rightarrow> string \<Rightarrow> string \<Rightarrow> RecoveryIdentity \<Rightarrow> nat \<Rightarrow> bool \<Rightarrow> bool" where
  "runner_ended env d directory runId ident now requireTermination \<longleftrightarrow>
     (if oget d (session_file directory) = None then pp_modified env (in_directory directory ''summary.json'') + 60000 \<le> int now
      else (\<exists>session. read_json (pv_parse (pp_proof env)) d (session_file directory) = Inr session \<and>
        (session_finished session \<or> requireTermination \<and>
           verifiedKubernetesTermination (pv_parse (pp_proof env)) (pv_sha256 (pp_proof env)) d directory runId ident \<or>
         \<not> requireTermination \<and> session_quiet session now)))"

text \<open>All that the inventory counts as open, of which the recovery has to dispose.\<close>

definition left_to_do :: "AutomaticRecovery \<Rightarrow> nat" where
  "left_to_do r = sum_list (map (\<lambda>j. length (recoveryPlan j)) (ar_journals r)) + length (ar_modules r) + length (ar_sharing r)"

lemma check_ended_Inr:
  assumes "check_ended env d directory runId ident now requireTermination = Inr u"
  shows "runner_ended env d directory runId ident now requireTermination"
  using assms
  by (auto simp: check_ended_def check_report_def check_session_def runner_ended_def result_ok Let_def split: if_splits)


definition stale_lease :: Lease where
  "stale_lease = \<lparr>le_apiVersion = ''coordination.k8s.io/v1'', le_kind = ''Lease'', le_metadata = \<lparr>lm_name = ''lab-lock'',
     lm_namespace = ''magicstick-regression'', lm_uid = Some ''l-1'', lm_resourceVersion = ''7'',
     lm_labels = [(appliance_label, ''lab'')], lm_annotations = Some [(''regression.magicstick.dev/run-id'', sample_run)]\<rparr>,
     le_spec = \<lparr>ls_holderIdentity = Some sample_run, ls_renewTime = Some (leaseTime 0), ls_leaseDurationSeconds = Some 120\<rparr>\<rparr>"

definition sample_identity :: RecoveryIdentity where
  "sample_identity = \<lparr>ri_applianceUid = ''lab'', ri_nodeUids = []\<rparr>"

definition sample_prepare :: prepare_env where
  "sample_prepare = \<lparr>pp_proof = sample_env (toISOString 0), pp_modified = (\<lambda>p. 0)\<rparr>"

lemma stale_lease_ok:
  "oget (lm_labels (le_metadata stale_lease)) appliance_label = Some (ri_applianceUid sample_identity)" "lease_run stale_lease = Some sample_run"
  "\<not> no_holder stale_lease" "recoverable_lease stale_lease 200000"
proof -
  show "oget (lm_labels (le_metadata stale_lease)) appliance_label = Some (ri_applianceUid sample_identity)"
    by (simp add: stale_lease_def sample_identity_def)
  show "lease_run stale_lease = Some sample_run" by (simp add: lease_run_def stale_lease_def)
  have t: "renewed_at stale_lease = Some 0" using date_parse_leaseTime [of 0] by (simp add: renewed_at_def stale_lease_def)
  show held: "\<not> no_holder stale_lease" by (simp add: no_holder_def stale_lease_def sample_run_def)
  then show "recoverable_lease stale_lease 200000"
    using t by (simp add: recoverable_lease_def leaseHolderReason_def drained_def) (simp add: stale_lease_def)
qed

lemma stale_run_parts:
  "private_directory_at sample_disk sample_directory" "oget sample_disk (session_file sample_directory) \<noteq> None"
  "read_json (pv_parse (sample_env stamp)) sample_disk (session_file sample_directory) = Inr (sample_session stamp)"
  "child_session_ok sample_run ''lab'' (sample_session stamp)" "session_finished (sample_session stamp)"
  "one_of [''running'', ''finished''] (jget (sample_session stamp) ''state'')" "jget (sample_session stamp) ''updatedAt'' = Some (JStr stamp)"
  "iv_journals sample_inventory \<noteq> []" "journal_run (hd (iv_journals sample_inventory)) = JStr sample_run" "iv_unfinished sample_inventory = 0"
  "oget sample_disk (recovery_file sample_directory) = None" "some_journal (iv_journals sample_inventory) (Some (JStr sample_run))"
  "is_run_id sample_run" "in_directory ''/runs'' sample_run = sample_directory"
  by code_simp+

lemma stale_run_prepared: "\<exists>r. prepareJournal sample_prepare sample_disk ''/runs'' stale_lease sample_identity 200000 True = Inr r"
proof -
  have "js_date (Some (JStr (toISOString 0))) = Some 0" using date_parse_toISOString [of 0] by (simp add: js_date_def)
  then have session: "check_ended sample_prepare sample_disk sample_directory sample_run sample_identity 200000 True = Inr ()"
    unfolding check_ended_def check_session_def live_session_ok_def sample_prepare_def sample_identity_def
    by (simp add: stale_run_parts sample_contents safely_def Let_def del: append.simps)
  have owner: "previous_owner sample_prepare sample_disk sample_directory sample_run sample_identity stale_lease = Inr None"
    unfolding previous_owner_def by (simp only: stale_run_parts simp_thms if_True)
  have holder: "holder_explained stale_lease sample_run (iv_journals sample_inventory) None"
    using stale_run_parts(12) by (simp add: holder_explained_def stale_lease_def)
  have inventory: "recoveryInventory (pv_parse (pp_proof sample_prepare)) sample_disk sample_directory sample_identity = Inr sample_inventory"
    using sample_counts(1) by (simp add: sample_prepare_def sample_identity_def)
  show ?thesis
    unfolding prepareJournal_def
    by (simp only: stale_lease_ok stale_run_parts session owner holder inventory safely_def Let_def rbind_simps option.case simp_thms if_True)
      blast
qed


lemma verdict_ok:
  assumes "lease_verdict now runId targetUid lease s = (Inr (Some True), t)"
  shows "lease_of_child runId targetUid lease \<and> (no_holder lease \<or> (\<exists>t1 t2. returns now t1 \<and> returns now t2 \<and>
    leaseHolderReason lease t1 = Some R_LOCK_STALE \<and> drained lease t2))"
proof (cases "lease_of_child runId targetUid lease \<and> \<not> no_holder lease")
  case True
  then obtain t1 t2 s2 where "now s = (Inr t1, s2)" "leaseHolderReason lease t1 = Some R_LOCK_STALE" "now s2 = (Inr t2, t)" "drained lease t2"
    using assms by (auto simp: lease_verdict_def bnd_def ret_def split: if_splits prod.splits sum.splits)
  then show ?thesis using True by (blast intro: returnsI)
qed (use assms in \<open>auto simp: lease_verdict_def ret_def split: if_splits\<close>)

lemma returns_bnd: "returns (bnd m f) y \<Longrightarrow> \<exists>x s s' t. m s = (Inr x, s') \<and> f x s' = (Inr y, t)"
proof -
  assume "returns (bnd m f) y"
  then obtain s t where b: "bnd m f s = (Inr y, t)" by (auto simp: returns_def)
  obtain r s' where m: "m s = (r, s')" by (cases "m s")
  with b obtain x where "r = Inr x" by (cases r) (auto simp: bnd_def)
  with b m show ?thesis by (auto simp: bnd_def)
qed

text \<open>
  A campaign gets a lease back only for its own child on this appliance, when it is free or was read as stale for longer
  than the drain.
\<close>

theorem campaign_waits_for_expiry:
  assumes "wait_for_lease timer read now runId targetUid timeoutMs intervalMs s = (Inr lease, t)"
  shows "returns read lease \<and> lease_of_child runId targetUid lease \<and>
    (no_holder lease \<or> (\<exists>t1 t2. returns now t1 \<and> returns now t2 \<and> leaseHolderReason lease t1 = Some R_LOCK_STALE \<and> drained lease t2))"
proof -
  obtain v s1 where p: "poll_act timer (bnd read (\<lambda>lease. bnd (lease_verdict now runId targetUid lease) (\<lambda>v. ret (lease, v))))
         (\<lambda>(lease, v). v \<noteq> Some False) timeoutMs intervalMs (Some S_recovery_barrier) s = (Inr (lease, v), s1)" "v \<noteq> None"
    using assms unfolding wait_for_lease_def
    by (auto simp: catch_def throw_def bnd_def seq_def requireSafe_def ret_def split: prod.splits sum.splits if_splits)
  then have "v = Some True" "returns (bnd read (\<lambda>lease. bnd (lease_verdict now runId targetUid lease) (\<lambda>v. ret (lease, v)))) (lease, v)"
    using poll_act_read [OF p(1)] by auto
  then obtain x u u1 u2 where r: "read u = (Inr x, u1)" "bnd (lease_verdict now runId targetUid x) (\<lambda>v. ret (x, v)) u1 = (Inr (lease, v), u2)"
    using returns_bnd by fastforce
  then have "x = lease" "lease_verdict now runId targetUid lease u1 = (Inr (Some True), u2)"
    using \<open>v = Some True\<close> by (auto simp: bnd_def ret_def split: prod.splits sum.splits)
  then show ?thesis using returnsI [of read u lease u1] r(1) verdict_ok [of now runId targetUid lease u1 u2] by simp
qed

end
