(* ===== verification/Recovery_Execution.thy ===== *)
theory Recovery_Execution
  imports Recovery_Prepare Borrowed_Module Borrowed_Sharing Lease_Protocol
begin

text \<open>
  The second half of \<open>regression/core/automatic-recovery.ts\<close>: \<open>AutomaticRecovery.execute\<close> verifies everything without a
  write, claims the stale lease, removes and restores what the run left, proves that nothing is left and releases the
  lease; \<open>verifyRecoveryClosed\<close> is its independent check. The state is the object of the running recovery beside the
  disk and the world of the ports. Timers (the heartbeat and the deadline of \<open>bounded\<close>) fire where a guard looks, in the
  order that \<open>re_events\<close> chooses; after the deadline every guard fails and the outcome is the deadline error. Progress
  events are not modelled.
\<close>

subsection \<open>State and ports\<close>

datatype recovery_event = HeartbeatTimer | DeadlineTimer

text \<open>\<open>rr_armed\<close>: the deadline runs, and whether it retires the guard.\<close>

record RecoveryRun =
  rr_lease :: LabLease
  rr_beat :: HeartbeatLoop
  rr_journals :: "ResourceJournal list"
  rr_retired :: bool
  rr_stage :: Stage
  rr_armed :: "bool option"
  rr_expired :: "js_error option"

type_synonym 'w recovery_state = "RecoveryRun \<times> (disk \<times> 'w)"

type_synonym ('w, 'a) recovery_act = "(RecoveryRun, disk \<times> 'w, 'a) obj_act"

record 's module_adapter =
  ma_read :: "('s, js_error, jsval) act"
  ma_set :: "bool \<Rightarrow> jsval obj \<Rightarrow> ('s, js_error, unit) act"

record 's sharing_adapter =
  sa_read :: "string \<Rightarrow> ('s, js_error, SharingSnapshot) act"
  sa_apply :: "GpuSharingRequest \<Rightarrow> ('s, js_error, unit) act"

record 'w recovery_adapters =
  ra_verifyTarget :: "('w, js_error, unit) act"
  ra_cleanup :: "ResourceJournal \<Rightarrow> ('w, unit) recovery_act \<Rightarrow> ResourceKind \<Rightarrow> 'w recovery_state cleanup_adapter"
  ra_module :: "jsval \<Rightarrow> ('w, unit) recovery_act \<Rightarrow> 'w recovery_state module_adapter"
  ra_sharing :: "SharingReceipt \<Rightarrow> ('w, unit) recovery_act \<Rightarrow> 'w recovery_state sharing_adapter"
  ra_cancel :: "('w, js_error, unit) act"

record 'w recovery_env =
  re_lease :: "'w lease_env"
  re_disk :: "'w disk_env"
  re_proof :: proof_env
  re_diag :: "'w recovery_state diag_env"
  re_clock :: "'w recovery_state poll_env"
  re_events :: "'w \<Rightarrow> recovery_event list \<times> 'w"
  re_uuid :: string

definition on_lease :: "('w, 'a) lease_act \<Rightarrow> ('w, 'a) recovery_act" where
  "on_lease m = (\<lambda>(rr, (d, w)). case m (rr_lease rr, w) of (x, (l, w')) \<Rightarrow> (x, (rr\<lparr>rr_lease := l\<rparr>, (d, w'))))"

text \<open>An action of the cluster alone.\<close>

definition remote :: "('w, js_error, 'a) act \<Rightarrow> ('w, 'a) recovery_act" where
  "remote m = via (via m)"

text \<open>An action of a local object, and what is left of the object.\<close>

definition with_object :: "'o \<Rightarrow> ('o \<times> 's, js_error, 'a) act \<Rightarrow> ('s, js_error, 'a \<times> 'o) act" where
  "with_object b m = (\<lambda>s. case m (b, s) of (Inl e, (b', s')) \<Rightarrow> (Inl e, s') | (Inr x, (b', s')) \<Rightarrow> (Inr (x, b'), s'))"

definition with_journal :: "nat \<Rightarrow> (ResourceJournal \<times> 'w recovery_state, js_error, 'a) act \<Rightarrow> ('w, 'a) recovery_act" where
  "with_journal i m = (\<lambda>(rr, v). case m (rr_journals rr ! i, (rr, v)) of
     (x, (j, (rr', v'))) \<Rightarrow> (x, (rr'\<lparr>rr_journals := (rr_journals rr')[i := j]\<rparr>, v')))"

definition set_stage :: "Stage \<Rightarrow> ('w, unit) recovery_act" where
  "set_stage st = assign (\<lambda>rr. rr\<lparr>rr_stage := st\<rparr>)"

definition store_read :: "'w recovery_env \<Rightarrow> ('w, Lease) recovery_act" where
  "store_read env = remote (env_read (re_lease env))"

definition clock_text :: "'w recovery_env \<Rightarrow> ('w, string) recovery_act" where
  "clock_text env = via (\<lambda>(d, w). case dk_now (re_disk env) w of (t, w') \<Rightarrow> (Inr (toISOString t), (d, w')))"

abbreviation the_parse :: "'w recovery_env \<Rightarrow> string \<Rightarrow> jsval option" where
  "the_parse env \<equiv> pv_parse (re_proof env)"

subsection \<open>Timers and guards\<close>

definition fire_heartbeat :: "'w recovery_env \<Rightarrow> 'w recovery_state \<Rightarrow> 'w recovery_state" where
  "fire_heartbeat env = (\<lambda>(rr, v). case timerEvent (on_lease (heartbeatInternal (re_lease env))) (rr_beat rr, (rr, v)) of
     (h, (rr', v')) \<Rightarrow> (rr'\<lparr>rr_beat := h\<rparr>, v'))"

definition deadline_of :: "RecoveryRun \<Rightarrow> js_error" where
  "deadline_of rr = Harness (mkHarnessError R_DEADLINE (Some Failed) (Some (rr_stage rr)) None)"

text \<open>The deadline fires once; \<open>cancel\<close> runs and its error is dropped.\<close>

definition fire_deadline :: "'w recovery_adapters \<Rightarrow> 'w recovery_state \<Rightarrow> 'w recovery_state" where
  "fire_deadline adapters = (\<lambda>(rr, v). case (rr_armed rr, rr_expired rr) of
     (Some retires, None) \<Rightarrow> snd (remote (ra_cancel adapters) (rr\<lparr>rr_expired := Some (deadline_of rr), rr_retired := rr_retired rr \<or> retires\<rparr>, v))
   | _ \<Rightarrow> (rr, v))"

fun fire :: "'w recovery_env \<Rightarrow> 'w recovery_adapters \<Rightarrow> recovery_event \<Rightarrow> 'w recovery_state \<Rightarrow> 'w recovery_state" where
  "fire env adapters HeartbeatTimer = fire_heartbeat env"
| "fire env adapters DeadlineTimer = fire_deadline adapters"

definition timers :: "'w recovery_env \<Rightarrow> 'w recovery_adapters \<Rightarrow> ('w, unit) recovery_act" where
  "timers env adapters = (\<lambda>(rr, (d, w)). case re_events env w of (evs, w') \<Rightarrow> (Inr (), fold (fire env adapters) evs (rr, (d, w'))))"

definition recovery_guard :: "'w recovery_env \<Rightarrow> 'w recovery_adapters \<Rightarrow> ('w, unit) recovery_act" where
  "recovery_guard env adapters = seq (timers env adapters) (bnd own (\<lambda>rr.
     seq (requireSafe (\<not> rr_retired rr) R_LOCK_LOST) (seq (requireSafe (hb_failure (rr_beat rr) = None) R_LOCK_LOST)
       (on_lease (assertHeldInternal (re_lease env))))))"

text \<open>\<open>bounded(action, 600_000, stage, cancel)\<close>\<close>

definition bounded :: "'w recovery_env \<Rightarrow> 'w recovery_adapters \<Rightarrow> bool \<Rightarrow> ('w, unit) recovery_act \<Rightarrow> ('w, unit) recovery_act" where
  "bounded env adapters retires m = (\<lambda>(rr, v).
     case m (rr\<lparr>rr_armed := Some retires, rr_expired := None\<rparr>, v) of (x, s1) \<Rightarrow>
     (case snd (timers env adapters s1) of (rr2, v2) \<Rightarrow>
        ((case rr_expired rr2 of Some e \<Rightarrow> Inl e | None \<Rightarrow> x), (rr2\<lparr>rr_armed := None\<rparr>, v2))))"

subsection \<open>Adapters over files\<close>

definition put_json :: "'w recovery_env \<Rightarrow> string \<Rightarrow> jsval \<Rightarrow> bool \<Rightarrow> ('w, unit) recovery_act" where
  "put_json env path v exclusive = via (writePrivate (re_disk env) path v exclusive)"

definition get_json :: "'w recovery_env \<Rightarrow> string \<Rightarrow> ('w, jsval) recovery_act" where
  "get_json env path = via (on_disk (\<lambda>d. read_json (the_parse env) d path))"

definition recovery_journal_env :: "'w recovery_env \<Rightarrow> 'w recovery_state journal_env" where
  "recovery_journal_env env = \<lparr>jv_write = put_json env, jv_readJson = get_json env, jv_diag = re_diag env\<rparr>"

definition module_ports_at :: "'w recovery_env \<Rightarrow> 'w recovery_adapters \<Rightarrow> ('w, unit) recovery_act \<Rightarrow> ModuleReceipt \<Rightarrow> 'w recovery_state module_ports" where
  "module_ports_at env adapters guard item =
     (let adapter = ra_module adapters (mr_original item) guard
      in \<lparr>mp_read = ma_read adapter, mp_set = ma_set adapter, mp_guard = guard, mp_write = (\<lambda>v. put_json env (mr_filename item) v False),
          mp_receipt = get_json env (mr_filename item), mp_clock = re_clock env, mp_compare = pv_compare (re_proof env)\<rparr>)"

fun sharing_state_name :: "entry_state \<Rightarrow> string" where
  "sharing_state_name E_borrowed = ''borrowed''"
| "sharing_state_name E_pending = ''pending''"
| "sharing_state_name E_restored = ''restored''"

definition sharing_entry_json :: "BorrowedEntry \<Rightarrow> jsval" where
  "sharing_entry_json e = JObj ([(''provider'', JStr (be_provider e)), (''uid'', be_uid e), (''originalSpec'', JObj (be_originalSpec e)),
     (''originalMode'', JStr (be_originalMode e)), (''originalCount'', be_originalCount e)] @
     field ''originalBackend'' (map_option JStr (be_originalBackend e)) @ field ''originalDefaults'' (be_originalDefaults e) @
     [(''generation'', be_generation e), (''lastSpec'', JObj (be_lastSpec e)), (''state'', JStr (sharing_state_name (be_state e)))])"

definition sharing_json :: "SharingData \<Rightarrow> jsval" where
  "sharing_json data = JObj [(''version'', JInt 1), (''runId'', JStr (sd_runId data)), (''targetUid'', JStr (sd_targetUid data)),
     (''nodeName'', JStr (sd_nodeName data)), (''nodeUid'', JStr (sd_nodeUid data)), (''entries'', JArr (map sharing_entry_json (sd_entries data)))]"

definition sharing_ports_at :: "'w recovery_env \<Rightarrow> 'w recovery_adapters \<Rightarrow> ('w, unit) recovery_act \<Rightarrow> SharingReceipt \<Rightarrow> 'w recovery_state sharing_ports" where
  "sharing_ports_at env adapters guard item =
     (let adapter = ra_sharing adapters item guard
      in \<lparr>sp_read = sa_read adapter, sp_apply = sa_apply adapter, sp_held = guard,
          sp_write = (\<lambda>data. put_json env (sr_filename item) (sharing_json data) False),
          sp_create = (\<lambda>data. put_json env (sr_filename item) (sharing_json data) True), sp_stored = get_json env (sr_filename item),
          sp_stage = set_stage, sp_clock = re_clock env, sp_compare = pv_compare (re_proof env)\<rparr>)"

definition sharing_identity :: "SharingReceipt \<Rightarrow> SharingData" where
  "sharing_identity item = \<lparr>sd_runId = js_to_string (sr_runId item), sd_targetUid = sr_targetUid item, sd_nodeName = sr_nodeName item,
     sd_nodeUid = sr_nodeUid item, sd_entries = []\<rparr>"

text \<open>\<open>for (const x of xs) await f(x)\<close>\<close>

fun each :: "('a \<Rightarrow> ('s, 'e, unit) act) \<Rightarrow> 'a list \<Rightarrow> ('s, 'e, unit) act" where
  "each f [] = ret ()"
| "each f (x # xs) = seq (f x) (each f xs)"

definition silent :: "jsval obj \<Rightarrow> ('s, js_error, unit) act" where
  "silent v = ret ()"

subsection \<open>Closure\<close>

definition verify_entry :: "'w recovery_adapters \<Rightarrow> ('w, unit) recovery_act \<Rightarrow> ResourceJournal \<Rightarrow> JournalEntry \<Rightarrow> ('w, unit) recovery_act" where
  "verify_entry adapters guard j e = seq guard
     (bnd (with_object j (ca_verifyRemoved (ra_cleanup adapters j guard (je_kind e)) e silent)) (\<lambda>(ok, j'). requireSafe ok R_CLEANUP))"

definition number_above :: "jsval option \<Rightarrow> jsval option \<Rightarrow> bool" where
  "number_above a b \<longleftrightarrow> (case (a, b) of (Some (JInt i), Some (JInt j)) \<Rightarrow> j < i | _ \<Rightarrow> False)"

definition last_object :: "ModuleReceipt \<Rightarrow> jsval" where
  "last_object m = the (nullish (mr_restored m) (Some (mr_original m)))"

text \<open>The newest receipt of each module, by UID.\<close>

definition newest_modules :: "ModuleReceipt list \<Rightarrow> ModuleReceipt obj" where
  "newest_modules items = fold (\<lambda>m latest. let uid = text_of (object_uid (mr_original m)) in
     case oget latest uid of
       None \<Rightarrow> oset uid m latest
     | Some previous \<Rightarrow> if number_above (object_generation (last_object m)) (object_generation (last_object previous)) then oset uid m latest else latest)
     items []"

definition verify_module :: "'w recovery_env \<Rightarrow> 'w recovery_adapters \<Rightarrow> ('w, unit) recovery_act \<Rightarrow> ModuleReceipt \<Rightarrow> ('w, unit) recovery_act" where
  "verify_module env adapters guard m = seq guard (bnd (ma_read (ra_module adapters (mr_original m) guard)) (\<lambda>current.
     requireSafe (strict_opt (object_uid current) (object_uid (last_object m)) \<and>
       strict_opt (object_generation current) (object_generation (last_object m)) \<and>
       spec_text (pv_compare (re_proof env)) current = spec_text (pv_compare (re_proof env)) (mr_original m)) R_CONFLICT))"

definition newest_entries :: "SharingReceipt \<Rightarrow> BorrowedEntry list \<Rightarrow> (SharingReceipt \<times> string \<times> jsval) obj \<Rightarrow> (SharingReceipt \<times> string \<times> jsval) obj" where
  "newest_entries item es latest = fold (\<lambda>e latest. let key = be_provider e @ '':'' @ js_to_string (be_uid e) in
     case oget latest key of
       None \<Rightarrow> oset key (item, be_provider e, be_generation e) latest
     | Some (r, p, g) \<Rightarrow> if number_above (Some (be_generation e)) (Some g) then oset key (item, be_provider e, be_generation e) latest else latest)
     es latest"

fun collect_sharing :: "'w recovery_env \<Rightarrow> 'w recovery_adapters \<Rightarrow> ('w, unit) recovery_act \<Rightarrow> SharingReceipt list \<Rightarrow>
    (SharingReceipt \<times> string \<times> jsval) obj \<Rightarrow> ('w, (SharingReceipt \<times> string \<times> jsval) obj) recovery_act" where
  "collect_sharing env adapters guard [] latest = ret latest"
| "collect_sharing env adapters guard (item # items) latest =
     bnd (resume_sharing (sharing_ports_at env adapters guard item) (sharing_identity item)) (\<lambda>data.
       collect_sharing env adapters guard items (newest_entries item (sd_entries data) latest))"

definition verify_sharing :: "'w recovery_env \<Rightarrow> 'w recovery_adapters \<Rightarrow> ('w, unit) recovery_act \<Rightarrow> SharingReceipt \<times> string \<times> jsval \<Rightarrow> ('w, unit) recovery_act" where
  "verify_sharing env adapters guard = (\<lambda>(item, provider, g). let ports = sharing_ports_at env adapters guard item in
     bnd (resume_sharing ports (sharing_identity item)) (\<lambda>data. bnd (with_object data (verifyRestored ports [provider])) (\<lambda>_. ret ())))"

definition verifyRecoveryClosed :: "'w recovery_env \<Rightarrow> 'w recovery_adapters \<Rightarrow> ('w, unit) recovery_act \<Rightarrow> string \<Rightarrow> RecoveryIdentity \<Rightarrow> ('w, unit) recovery_act" where
  "verifyRecoveryClosed env adapters guard directory ident =
     bnd (via (on_disk (\<lambda>d. recoveryInventory (the_parse env) d directory ident))) (\<lambda>iv. seq (requireSafe (iv_open iv = 0) R_CLEANUP)
    (seq (each (\<lambda>j. each (verify_entry adapters guard j) (entries_of j)) (iv_journals iv))
    (seq (each (verify_module env adapters guard) (map snd (newest_modules (iv_modules iv))))
    (bnd (collect_sharing env adapters guard (iv_sharing iv) []) (\<lambda>latest. each (verify_sharing env adapters guard) (map snd latest))))))"

subsection \<open>Verification before the claim\<close>

definition readonly :: "('w, unit) recovery_act" where
  "readonly = ret ()"

definition planned :: "ResourceJournal \<Rightarrow> JournalEntry list" where
  "planned j = map fst (recoveryPlan j)"

definition check_owned :: "'w recovery_adapters \<Rightarrow> nat \<Rightarrow> JournalEntry \<Rightarrow> ('w, unit) recovery_act" where
  "check_owned adapters i e = atStage S_recovery_resource (bnd own (\<lambda>rr.
     bnd (with_journal i (ca_lookup (ra_cleanup adapters (rr_journals rr ! i) readonly (je_kind e)) e silent)) (\<lambda>current.
       requireSafe (case current of None \<Rightarrow> True | Some c \<Rightarrow> je_uid e \<noteq> None \<and> Some (fo_uid c) = map_option JStr (je_uid e)) R_OWNERSHIP)))"

definition check_journal :: "'w recovery_adapters \<Rightarrow> nat \<Rightarrow> ('w, unit) recovery_act" where
  "check_journal adapters i = bnd own (\<lambda>rr. each (check_owned adapters i) (planned (rr_journals rr ! i)))"

definition applied_object :: "ModuleReceipt \<Rightarrow> jsval" where
  "applied_object m = the (nullish (mr_applied m) (Some (mr_original m)))"

definition check_module :: "'w recovery_env \<Rightarrow> 'w recovery_adapters \<Rightarrow> ModuleReceipt \<Rightarrow> ('w, unit) recovery_act" where
  "check_module env adapters m = atStage S_recovery_module
     (bnd (resume_module (module_ports_at env adapters readonly m)) (\<lambda>b. bnd (ma_read (ra_module adapters (mr_original m) readonly)) (\<lambda>current.
       requireSafe (strict_opt (object_uid current) (object_uid (applied_object m)) \<and>
         strict_opt (object_generation current) (object_generation (applied_object m)) \<and>
         spec_text (pv_compare (re_proof env)) current = spec_text (pv_compare (re_proof env)) (applied_object m)) R_CONFLICT)))"

definition check_sharing :: "'w recovery_env \<Rightarrow> 'w recovery_adapters \<Rightarrow> SharingReceipt \<Rightarrow> ('w, unit) recovery_act" where
  "check_sharing env adapters item = atStage S_recovery_sharing (let ports = sharing_ports_at env adapters readonly item in
     bnd (resume_sharing ports (sharing_identity item)) (\<lambda>data. bnd (with_object data (verifyRecoverable ports)) (\<lambda>_. ret ())))"

definition verify_all :: "'w recovery_env \<Rightarrow> 'w recovery_adapters \<Rightarrow> AutomaticRecovery \<Rightarrow> ('w, unit) recovery_act" where
  "verify_all env adapters r =
     seq (each (check_journal adapters) [0..<length (ar_journals r)])
    (seq (each (check_module env adapters) (ar_modules r)) (each (check_sharing env adapters) (ar_sharing r)))"

subsection \<open>Removing and restoring\<close>

definition adapters_of :: "'w recovery_adapters \<Rightarrow> ('w, unit) recovery_act \<Rightarrow> ResourceJournal \<Rightarrow> ResourceKind \<Rightarrow> 'w recovery_state cleanup_adapter option" where
  "adapters_of adapters guard j = (\<lambda>kind. Some (ra_cleanup adapters j guard kind))"

text \<open>A request without an answer: nothing of its name may exist, and then its entry is closed.\<close>

definition settle_unknown :: "'w recovery_env \<Rightarrow> 'w recovery_state cleanup_adapter \<Rightarrow> ('w, unit) recovery_act \<Rightarrow> JournalEntry \<Rightarrow>
    (ResourceJournal \<times> 'w recovery_state, js_error, unit) act" where
  "settle_unknown env adapter guard e =
     (if je_uid e \<noteq> None then ret ()
      else seq (jr_world guard) (bnd (ca_lookup adapter e silent) (\<lambda>current. seq (requireSafe (current = None) R_OWNERSHIP)
        (bnd (ca_verifyRemoved adapter e silent) (\<lambda>ok. seq (requireSafe ok R_CLEANUP)
          (recoveredAbsent (recovery_journal_env env) (je_kind e) (je_name e)))))))"

definition clean_journal :: "'w recovery_env \<Rightarrow> 'w recovery_adapters \<Rightarrow> ('w, unit) recovery_act \<Rightarrow> nat \<Rightarrow> ('w, unit) recovery_act" where
  "clean_journal env adapters guard i = seq (set_stage S_recovery_resource) (bnd own (\<lambda>rr.
     let j = rr_journals rr ! i
     in seq (with_journal i (each (\<lambda>e. settle_unknown env (ra_cleanup adapters j guard (je_kind e)) guard e) (planned j)))
       (atStage S_recovery_resource (with_journal i (cleanup (recovery_journal_env env) (adapters_of adapters guard j) (jr_world guard) None)))))"

definition give_back_module :: "'w recovery_env \<Rightarrow> 'w recovery_adapters \<Rightarrow> ('w, unit) recovery_act \<Rightarrow> ModuleReceipt \<Rightarrow> ('w, unit) recovery_act" where
  "give_back_module env adapters guard m = seq (set_stage S_recovery_module) (let ports = module_ports_at env adapters guard m in
     bnd (resume_module ports) (\<lambda>b. atStage S_recovery_module
       (bnd (with_object b (seq (reconcileUnchanged ports) (restore_module ports))) (\<lambda>_. ret ()))))"

definition entry_ready :: "BorrowedEntry \<Rightarrow> SharingSnapshot \<Rightarrow> bool" where
  "entry_ready e v \<longleftrightarrow> strict_opt (object_uid (sn_object v)) (Some (be_uid e)) \<and> gs_phase (sn_state v) = ''Ready'' \<and>
     gs_mode (sn_state v) = be_originalMode e \<and> strict_eq (gs_maxModels (sn_state v)) (be_originalCount e)"

definition await_entry :: "'w recovery_env \<Rightarrow> 'w recovery_state sharing_adapter \<Rightarrow> BorrowedEntry \<Rightarrow> ('w, unit) recovery_act" where
  "await_entry env adapter e = bnd (poll_act (re_clock env) (sa_read adapter (be_provider e)) (entry_ready e) 180000 1000 (Some S_gpu_backend)) (\<lambda>_. ret ())"

definition give_back_sharing :: "'w recovery_env \<Rightarrow> 'w recovery_adapters \<Rightarrow> ('w, unit) recovery_act \<Rightarrow> SharingReceipt \<Rightarrow> ('w, unit) recovery_act" where
  "give_back_sharing env adapters guard item = seq (set_stage S_recovery_sharing) (let ports = sharing_ports_at env adapters guard item in
     bnd (resume_sharing ports (sharing_identity item)) (\<lambda>data.
     bnd (atStage S_recovery_sharing (with_object data (seq (reconcile_sharing ports) (restore_sharing ports)))) (\<lambda>(u, data').
     seq (set_stage S_gpu_backend) (each (await_entry env (ra_sharing adapters item guard)) (sd_entries data')))))"

subsection \<open>The receipt of the recovery\<close>

definition recovery_receipt :: "AutomaticRecovery \<Rightarrow> string \<Rightarrow> string \<Rightarrow> string \<Rightarrow> jsval obj \<Rightarrow> jsval" where
  "recovery_receipt r owner state updated details = JObj
     ([(''version'', JInt 1), (''runId'', JStr (ar_runId r)), (''targetUid'', JStr (ri_applianceUid (ar_registration r)))] @
     field ''leaseUid'' (map_option JStr (lease_uid (ar_expected r))) @
     [(''recoveryOwner'', JStr owner), (''state'', JStr state), (''updatedAt'', JStr updated)] @ details)"

definition write_recovery :: "'w recovery_env \<Rightarrow> AutomaticRecovery \<Rightarrow> string \<Rightarrow> string \<Rightarrow> jsval obj \<Rightarrow> ('w, unit) recovery_act" where
  "write_recovery env r owner state details = bnd (clock_text env) (\<lambda>t.
     put_json env (recovery_file (ar_directory r)) (recovery_receipt r owner state t details) False)"

text \<open>An earlier receipt is kept under the name of the new owner.\<close>

definition keep_previous :: "'w recovery_env \<Rightarrow> AutomaticRecovery \<Rightarrow> string \<Rightarrow> ('w, unit) recovery_act" where
  "keep_previous env r owner = bnd (via own) (\<lambda>d. if oget d (recovery_file (ar_directory r)) = None then ret ()
     else bnd (get_json env (recovery_file (ar_directory r))) (\<lambda>v.
       put_json env (in_directory (ar_directory r) (''automatic-recovery-'' @ owner @ ''.json'')) v True))"

text \<open>\<open>{state: 'blocked', reason, stage}\<close>\<close>

definition blocked_details :: "js_error \<Rightarrow> jsval obj" where
  "blocked_details e = (case e of
     Harness h \<Rightarrow> [(''reason'', JStr (reason_name (he_code h))), (''stage'', JStr (stage_name (case he_stage h of None \<Rightarrow> S_cleanup | Some st \<Rightarrow> st)))]
   | Other m \<Rightarrow> [(''reason'', JStr (reason_name R_RECOVERY)), (''stage'', JStr (stage_name S_cleanup))])"

definition recovery_failure :: "js_error \<Rightarrow> js_error" where
  "recovery_failure e = (case e of Harness h \<Rightarrow> e | Other m \<Rightarrow> hard R_RECOVERY)"

subsection \<open>Execution\<close>

text \<open>The reservation receipts and the proof of the cleanup, the last steps of both paths.\<close>

definition prove_clean :: "'w recovery_env \<Rightarrow> AutomaticRecovery \<Rightarrow> ('w, unit) recovery_act" where
  "prove_clean env r =
     seq (via (verifyReservationReleased (re_disk env) (re_proof env) (ar_directory r) (ar_registration r) (env_read (re_lease env))))
       (bnd (via (attestCleanup (re_disk env) (re_proof env) (ar_directory r) (ar_registration r) True)) (\<lambda>_. ret ()))"

definition still_free :: "'w recovery_env \<Rightarrow> AutomaticRecovery \<Rightarrow> ('w, unit) recovery_act" where
  "still_free env r = bnd (store_read env) (\<lambda>current. requireSafe (lease_uid current = lease_uid (ar_expected r) \<and>
     lease_version current = lease_version (ar_expected r) \<and> no_holder current) R_LOCK_BUSY)"

text \<open>A free lease: exact journals and independent absence must agree.\<close>

definition confirm_free :: "'w recovery_env \<Rightarrow> 'w recovery_adapters \<Rightarrow> AutomaticRecovery \<Rightarrow> ('w, unit) recovery_act" where
  "confirm_free env adapters r = (let free = still_free env r in seq (set_stage S_cleanup)
     (seq (bounded env adapters False (seq free (seq (verifyRecoveryClosed env adapters free (ar_directory r) (ar_registration r))
       (seq (remote (ra_verifyTarget adapters)) free)))) (prove_clean env r)))"

definition recover_all :: "'w recovery_env \<Rightarrow> 'w recovery_adapters \<Rightarrow> AutomaticRecovery \<Rightarrow> string \<Rightarrow> ('w, unit) recovery_act" where
  "recover_all env adapters r owner = (let guard = recovery_guard env adapters in
     seq (each (clean_journal env adapters guard) (rev [0..<length (ar_journals r)]))
    (seq (each (give_back_module env adapters guard) (ar_modules r))
    (seq (each (give_back_sharing env adapters guard) (ar_sharing r))
    (seq (set_stage S_cleanup) (seq (remote (ra_verifyTarget adapters)) (seq guard
    (bnd own (\<lambda>rr. seq (requireSafe (list_all (\<lambda>j. recoveryPlan j = []) (rr_journals rr)) R_CLEANUP)
    (seq (verifyRecoveryClosed env adapters guard (ar_directory r) (ar_registration r))
    (seq (write_recovery env r owner ''restored'' [])
    (seq (on_lease (releaseInternal (re_lease env)))
    (seq (write_recovery env r owner ''released'' []) (prove_clean env r)))))))))))))"

definition claim :: "'w recovery_env \<Rightarrow> AutomaticRecovery \<Rightarrow> ('w, unit) recovery_act" where
  "claim env r = on_lease (acquireRecoveryInternal (re_lease env) (ar_expected r) (ar_runId r))"

text \<open>What runs under the claim: \<open>try\<close>, \<open>catch\<close> and \<open>finally\<close>.\<close>

definition under_claim :: "'w recovery_env \<Rightarrow> 'w recovery_adapters \<Rightarrow> AutomaticRecovery \<Rightarrow> string \<Rightarrow> string \<Rightarrow> ('w, unit) recovery_act" where
  "under_claim env adapters r owner verified_at = catch
     (seq (keep_previous env r owner)
     (seq (put_json env (recovery_file (ar_directory r)) (recovery_receipt r owner ''verified'' verified_at []) False)
       (bounded env adapters True (recover_all env adapters r owner))))
     (\<lambda>e. seq (write_recovery env r owner ''blocked'' (blocked_details e)) (throw (recovery_failure e)))"

definition retire :: "('w, unit) recovery_act \<Rightarrow> ('w, unit) recovery_act" where
  "retire m = (\<lambda>s. case m s of (x, (rr, v)) \<Rightarrow> (x, (rr\<lparr>rr_retired := True, rr_beat := stopLoop (rr_beat rr)\<rparr>, v)))"

definition recover_claimed :: "'w recovery_env \<Rightarrow> 'w recovery_adapters \<Rightarrow> AutomaticRecovery \<Rightarrow> string \<Rightarrow> ('w, unit) recovery_act" where
  "recover_claimed env adapters r owner = seq (verify_all env adapters r) (bnd (clock_text env) (\<lambda>t. seq (claim env r)
     (seq (assign (\<lambda>rr. rr\<lparr>rr_beat := startLoop newHeartbeatLoop\<rparr>)) (retire (under_claim env adapters r owner t)))))"

definition new_run :: "AutomaticRecovery \<Rightarrow> string \<Rightarrow> RecoveryRun" where
  "new_run r owner = \<lparr>rr_lease = newLabLease owner (ri_applianceUid (ar_registration r)) 120 None, rr_beat = newHeartbeatLoop,
     rr_journals = ar_journals r, rr_retired = False, rr_stage = S_recovery_journal, rr_armed = None, rr_expired = None\<rparr>"

definition execute_run :: "'w recovery_env \<Rightarrow> 'w recovery_adapters \<Rightarrow> AutomaticRecovery \<Rightarrow> string \<Rightarrow> ('w, string) recovery_act" where
  "execute_run env adapters r owner = seq (remote (ra_verifyTarget adapters))
     (seq (if no_holder (ar_expected r) then confirm_free env adapters r else recover_claimed env adapters r owner) (ret (ar_runId r)))"

definition execute :: "'w recovery_env \<Rightarrow> 'w recovery_adapters \<Rightarrow> AutomaticRecovery \<Rightarrow> ('w, string) disk_act" where
  "execute env adapters r v = (let owner = newRunId (re_uuid env) in
     case execute_run env adapters r owner (new_run r owner, v) of (x, (rr, v')) \<Rightarrow> (x, v'))"

subsection \<open>The guard\<close>

text \<open>What no timer undoes: a retired run and a failed heartbeat.\<close>

definition out_of_time :: "RecoveryRun \<Rightarrow> bool" where
  "out_of_time rr \<longleftrightarrow> rr_retired rr \<or> hb_failure (rr_beat rr) \<noteq> None"

text \<open>An armed deadline that has passed retired the run.\<close>

definition deadline_retires :: "RecoveryRun \<Rightarrow> bool" where
  "deadline_retires rr \<longleftrightarrow> rr_armed rr = Some True \<and> (rr_expired rr \<noteq> None \<longrightarrow> rr_retired rr)"

lemma timerEvent_failed: "hb_failure h = Some e \<Longrightarrow> hb_failure (fst (timerEvent renew (h, w))) = Some e"
  by (auto simp: timerEvent_def tickLoop_def checkLoop_def act_simps split: prod.splits sum.splits)

lemma timerEvent_world: "timerEvent renew (h, w) = (h', w') \<Longrightarrow> w' = w \<or> w' = snd (renew w)"
  by (auto simp: timerEvent_def tickLoop_def checkLoop_def act_simps split: prod.splits sum.splits if_splits)

text \<open>What the lease does not touch.\<close>

definition same_rest :: "RecoveryRun \<Rightarrow> RecoveryRun \<Rightarrow> bool" where
  "same_rest rr rr' \<longleftrightarrow> rr_journals rr' = rr_journals rr \<and> rr_retired rr' = rr_retired rr \<and> rr_stage rr' = rr_stage rr \<and>
     rr_armed rr' = rr_armed rr \<and> rr_expired rr' = rr_expired rr"

lemma same_rest_refl [simp]: "same_rest rr rr"
  by (simp add: same_rest_def)

lemma on_lease_frame: "on_lease m (rr, (d, w)) = (x, (rr', (d', w'))) \<Longrightarrow> d' = d \<and> same_rest rr rr'"
  by (auto simp: on_lease_def same_rest_def split: prod.splits)

lemma fire_heartbeat_frame:
  assumes "fire_heartbeat env (rr, (d, w)) = (rr', (d', w'))"
  shows "d' = d \<and> same_rest rr rr' \<and> (out_of_time rr \<longrightarrow> out_of_time rr')"
proof -
  let ?renew = "on_lease (heartbeatInternal (re_lease env))"
  obtain h rr1 d1 w1 where e: "timerEvent ?renew (rr_beat rr, (rr, (d, w))) = (h, (rr1, (d1, w1)))" by (metis surj_pair)
  obtain x rr2 d2 w2 where r: "?renew (rr, (d, w)) = (x, (rr2, (d2, w2)))" by (metis surj_pair)
  have f: "d1 = d \<and> same_rest rr rr1" using timerEvent_world [OF e] on_lease_frame [OF r] r by auto
  have "rr' = rr1\<lparr>rr_beat := h\<rparr>" "d' = d1" using assms e by (auto simp: fire_heartbeat_def)
  moreover have "hb_failure h \<noteq> None" if "hb_failure (rr_beat rr) \<noteq> None"
    using that timerEvent_failed [of "rr_beat rr" _ ?renew "(rr, (d, w))"] e by auto
  ultimately show ?thesis using f by (auto simp: out_of_time_def same_rest_def)
qed

lemma fire_deadline_frame:
  assumes "fire_deadline adapters (rr, (d, w)) = (rr', (d', w'))"
  shows "d' = d \<and> (out_of_time rr \<longrightarrow> out_of_time rr') \<and> (deadline_retires rr \<longrightarrow> deadline_retires rr')"
  using assms by (auto simp: fire_deadline_def remote_def out_of_time_def deadline_retires_def split: option.splits prod.splits)

lemma fire_frame:
  assumes "fire env adapters ev (rr, (d, w)) = (rr', (d', w'))"
  shows "d' = d \<and> (out_of_time rr \<longrightarrow> out_of_time rr') \<and> (deadline_retires rr \<longrightarrow> deadline_retires rr')"
proof (cases ev)
  case HeartbeatTimer
  then show ?thesis using fire_heartbeat_frame [of env rr d w rr' d' w'] assms by (auto simp: same_rest_def deadline_retires_def)
next
  case DeadlineTimer
  then show ?thesis using fire_deadline_frame [of adapters rr d w rr' d' w'] assms by simp
qed

lemma fires_frame:
  "fold (fire env adapters) evs (rr, (d, w)) = (rr', (d', w')) \<Longrightarrow>
   d' = d \<and> (out_of_time rr \<longrightarrow> out_of_time rr') \<and> (deadline_retires rr \<longrightarrow> deadline_retires rr')"
proof (induction evs arbitrary: rr d w)
  case (Cons ev evs)
  obtain rr1 d1 w1 where f: "fire env adapters ev (rr, (d, w)) = (rr1, (d1, w1))" by (metis surj_pair)
  then have "d' = d1 \<and> (out_of_time rr1 \<longrightarrow> out_of_time rr') \<and> (deadline_retires rr1 \<longrightarrow> deadline_retires rr')"
    using Cons.prems by (intro Cons.IH [of rr1 d1 w1]) simp
  then show ?case using fire_frame [OF f] by blast
qed simp

lemma timers_frame:
  assumes "timers env adapters (rr, (d, w)) = (x, (rr', (d', w')))"
  shows "x = Inr () \<and> d' = d \<and> (out_of_time rr \<longrightarrow> out_of_time rr') \<and> (deadline_retires rr \<longrightarrow> deadline_retires rr')"
proof -
  obtain evs w1 where e: "re_events env w = (evs, w1)" by (cases "re_events env w")
  show ?thesis using assms e fires_frame [of env adapters evs rr d w1 rr' d' w'] by (simp add: timers_def)
qed

text \<open>
  C11: A guard of a recovery passes only while the runner may still write: nothing has retired it, its heartbeat has
  never failed, the deadline of the recovery has not passed, and the lease is held and unfenced.
\<close>

theorem guard_fences:
  assumes "recovery_guard env adapters (rr, (d, w)) = (Inr (), (rr', (d', w')))"
  shows "d' = d \<and> \<not> rr_retired rr \<and> hb_failure (rr_beat rr) = None \<and> \<not> rr_retired rr' \<and> hb_failure (rr_beat rr') = None \<and>
    (deadline_retires rr \<longrightarrow> rr_expired rr' = None) \<and> ll_held (rr_lease rr') \<and> \<not> ll_fenced (rr_lease rr')"
proof -
  obtain x rr1 d1 w1 where t: "timers env adapters (rr, (d, w)) = (x, (rr1, (d1, w1)))" by (metis surj_pair)
  have g: "\<not> out_of_time rr1" "on_lease (assertHeldInternal (re_lease env)) (rr1, (d1, w1)) = (Inr (), (rr', (d', w')))"
    using assms t by (auto simp: recovery_guard_def seq_def bnd_def requireSafe_def ret_def throw_def out_of_time_def split: sum.splits if_splits prod.splits)
  then show ?thesis using timers_frame [OF t] 
    by (auto simp: on_lease_def out_of_time_def deadline_retires_def dest!: assertHeld_ok split: prod.splits)
qed

subsection \<open>The end of a recovery\<close>

text \<open>The disk holds a proof of a cleanup of a closed run, and its lease was seen free.\<close>

definition proven_clean :: "'w recovery_env \<Rightarrow> AutomaticRecovery \<Rightarrow> disk \<Rightarrow> bool" where
  "proven_clean env r d \<longleftrightarrow>
     (\<exists>w lease w'. env_read (re_lease env) w = (Inr lease, w') \<and> free_lab_lease lease (ri_applianceUid (ar_registration r))) \<and>
     (\<exists>before iv now. recoveryInventory (the_parse env) before (ar_directory r) (ar_registration r) = Inr iv \<and>
        run_closed (the_parse env) before (ar_registration r) (ar_directory r) \<and>
        oget d (verification_file (ar_directory r)) =
          Some (PlainFile 384 (file_text (cleanup_proof (re_proof env) iv (ar_registration r) (ar_directory r) True now))))"

lemma attest_proven:
  assumes "attestCleanup denv env directory ident recovered (d, w) = (Inr c, (d', w'))"
  shows "\<exists>iv now. recoveryInventory (pv_parse env) d directory ident = Inr iv \<and> run_closed (pv_parse env) d ident directory \<and>
    oget d' (verification_file directory) = Some (PlainFile 384 (file_text (cleanup_proof env iv ident directory recovered now)))"
proof -
  obtain now w1 where now: "dk_now denv w = (now, w1)" by (cases "dk_now denv w")
  obtain iv where iv: "recoveryInventory (pv_parse env) d directory ident = Inr iv" "iv_open iv = 0" "iv_leasePending iv = 0"
    and wr: "writePrivate denv (verification_file directory) (cleanup_proof env iv ident directory recovered now) False (d, w1) = (Inr (), (d', w'))"
    using assms now by (auto simp: attestCleanup_def ok_iffs lift_result_def ret_def throw_def split: sum.splits simp del: via_run requireSafe_run own_run)
  show ?thesis using iv inventory_settled_closed [OF iv] writePrivate_ok(1) [OF wr] by blast
qed

lemma release_sees_free:
  "verifyReservationReleased denv env directory ident read (d, w) = (Inr u, t) \<Longrightarrow>
   \<exists>lease w'. read w = (Inr lease, w') \<and> free_lab_lease lease (ri_applianceUid ident)"
  by (auto simp: verifyReservationReleased_def ok_iffs simp del: via_run own_run requireSafe_run)

lemma prove_clean_ok:
  assumes "prove_clean env r s = (Inr u, (rr, (d, w)))"
  shows "proven_clean env r d"
proof -
  obtain rr0 d0 w0 where s: "s = (rr0, (d0, w0))" by (metis surj_pair)
  obtain d1 w1 c where v: "verifyReservationReleased (re_disk env) (re_proof env) (ar_directory r) (ar_registration r) (env_read (re_lease env)) (d0, w0) = (Inr (), (d1, w1))"
    and a: "attestCleanup (re_disk env) (re_proof env) (ar_directory r) (ar_registration r) True (d1, w1) = (Inr c, (d, w))"
    using assms s by (auto simp: prove_clean_def ok_iffs simp del: via_run own_run)
  then show ?thesis unfolding proven_clean_def using release_sees_free [OF v] attest_proven [OF a] by blast
qed

lemma bounded_ok:
  assumes "bounded env adapters retires m s = (Inr u, (rr, (d, w)))"
  shows "\<exists>s0 rr1 w1. m s0 = (Inr u, (rr1, (d, w1)))"
proof -
  obtain rr0 v0 where s: "s = (rr0, v0)" by (cases s)
  obtain x rr1 d1 w1 where m: "m (rr0\<lparr>rr_armed := Some retires, rr_expired := None\<rparr>, v0) = (x, (rr1, (d1, w1)))" by (metis surj_pair)
  obtain y rr2 d2 w2 where t: "timers env adapters (rr1, (d1, w1)) = (y, (rr2, (d2, w2)))" by (metis surj_pair)
  have "x = Inr u" "d = d2" using assms s m t by (auto simp: bounded_def split: option.splits)
  then show ?thesis using m timers_frame [OF t] by blast
qed

lemma recover_all_ok: "recover_all env adapters r owner s = (Inr u, t) \<Longrightarrow> \<exists>s'. prove_clean env r s' = (Inr u, t)"
  unfolding recover_all_def Let_def by (simp only: ok_iffs) blast

lemma under_claim_ok:
  assumes "under_claim env adapters r owner at s = (Inr u, (rr, (d, w)))"
  shows "proven_clean env r d"
proof -
  have no: "seq m (throw e) v \<noteq> (Inr y, v')" for m :: "('a, unit) recovery_act" and e y v v'
    by (auto simp: seq_def bnd_def throw_def split: prod.splits sum.splits)
  obtain s1 where b: "bounded env adapters True (recover_all env adapters r owner) s1 = (Inr u, (rr, (d, w)))"
    using assms no by (auto simp: under_claim_def ok_iffs simp del: via_run own_run)
  then obtain s2 rr1 w1 where "recover_all env adapters r owner s2 = (Inr u, (rr1, (d, w1)))" using bounded_ok [OF b] by auto
  from recover_all_ok [OF this] obtain s3 where "prove_clean env r s3 = (Inr u, (rr1, (d, w1)))" by auto
  from prove_clean_ok [OF this] show ?thesis .
qed

text \<open>
  C6: An automatic recovery reports success only after it has seen the lease of the lab free and has proven the cleanup:
  the disk then holds the proof of a recovered run, with the fingerprint of files in which every journal, receipt and
  transaction of the run is closed. This holds with and without a holder, and whatever the timers do.
\<close>

theorem recovery_ends_proven:
  assumes "execute env adapters r (d, w) = (Inr run, (d', w'))"
  shows "run = ar_runId r \<and> proven_clean env r d'"
proof -
  obtain rr where e: "execute_run env adapters r (newRunId (re_uuid env)) (new_run r (newRunId (re_uuid env)), (d, w)) = (Inr run, (rr, (d', w')))"
    using assms by (auto simp: execute_def Let_def split: prod.splits)
  then obtain s where run: "run = ar_runId r" and
    s: "(if no_holder (ar_expected r) then confirm_free env adapters r else recover_claimed env adapters r (newRunId (re_uuid env))) s = (Inr (), (rr, (d', w')))"
    unfolding execute_run_def by (auto simp: ok_iffs ret_def simp del: via_run own_run)
  show ?thesis
  proof (cases "no_holder (ar_expected r)")
    case True
    then obtain s1 where p: "prove_clean env r s1 = (Inr (), (rr, (d', w')))"
      using s by (auto simp: confirm_free_def Let_def ok_iffs simp del: via_run own_run)
    show ?thesis using run prove_clean_ok [OF p] by simp
  next
    case False
    then obtain s1 t where "retire (under_claim env adapters r (newRunId (re_uuid env)) t) s1 = (Inr (), (rr, (d', w')))"
      using s by (auto simp: recover_claimed_def ok_iffs simp del: via_run own_run)
    then obtain rr1 where u: "under_claim env adapters r (newRunId (re_uuid env)) t s1 = (Inr (), (rr1, (d', w')))"
      by (auto simp: retire_def split: prod.splits)
    show ?thesis using run under_claim_ok [OF u] by simp
  qed
qed

subsection \<open>Before the claim\<close>

definition untouched :: "LabLease \<Rightarrow> disk \<Rightarrow> ('w \<Rightarrow> bool) \<Rightarrow> 'w recovery_state \<Rightarrow> bool" where
  "untouched l d P = (\<lambda>(rr, (d', w)). rr_lease rr = l \<and> d' = d \<and> P w)"

text \<open>The requests that read leave the cluster in \<open>P\<close> and do not touch the files and the lease of the runner.\<close>

definition reading_ports :: "('w \<Rightarrow> bool) \<Rightarrow> 'w recovery_env \<Rightarrow> 'w recovery_adapters \<Rightarrow> bool" where
  "reading_ports P env adapters \<longleftrightarrow> keeps P (ra_verifyTarget adapters) \<and> (\<forall>w. P w \<longrightarrow> P (snd (dk_now (re_disk env) w))) \<and>
     (\<forall>l d j kind e. keeps (\<lambda>(j, s). untouched l d P s) (ca_lookup (ra_cleanup adapters j readonly kind) e silent)) \<and>
     (\<forall>l d ob. keeps (untouched l d P) (ma_read (ra_module adapters ob readonly))) \<and>
     (\<forall>l d item p. keeps (untouched l d P) (sa_read (ra_sharing adapters item readonly) p))"

lemma keepsI: "(\<And>s x t. I s \<Longrightarrow> m s = (x, t) \<Longrightarrow> I t) \<Longrightarrow> keeps I m"
  unfolding keeps_def by (metis surj_pair snd_conv)

lemma keeps_step: "keeps I m \<Longrightarrow> m s = (x, t) \<Longrightarrow> I s \<Longrightarrow> I t"
  by (drule (1) keepsD) simp

lemma keeps_each: "(\<And>x. x \<in> set xs \<Longrightarrow> keeps I (f x)) \<Longrightarrow> keeps I (each f xs)"
  by (induction xs) (auto intro!: keeps_intros)

lemma keeps_own_object: "(\<And>t. keeps I (f t)) \<Longrightarrow> keeps I (bnd own f)"
  by (intro keeps_bnd) (auto simp: keeps_def own_def gets_def)

lemma keeps_with_object: 
  assumes "keeps (\<lambda>(b, s). I s) m"
  shows "keeps I (with_object b m)"
proof (rule keepsI)
  fix s x t assume I: "I s" and e: "with_object b m s = (x, t)"
  obtain y b' t' where m: "m (b, s) = (y, (b', t'))" by (metis surj_pair)
  then have "I t'" using keeps_step [OF assms m] I by simp
  then show "I t" using e m by (auto simp: with_object_def split: sum.splits)
qed

lemma keeps_with_journal:
  assumes "keeps (\<lambda>(j, s). untouched l d P s) m"
  shows "keeps (untouched l d P) (with_journal i m)"
proof (rule keepsI)
  fix s x t assume I: "untouched l d P s" and e: "with_journal i m s = (x, t)"
  obtain rr v where s: "s = (rr, v)" by (cases s)
  obtain y j rr' v' where m: "m (rr_journals rr ! i, s) = (y, (j, (rr', v')))" by (metis surj_pair)
  then have "untouched l d P (rr', v')" using keeps_step [OF assms m] I by simp
  then show "untouched l d P t" using e m s by (auto simp: with_journal_def untouched_def)
qed

lemma keeps_remote:
  assumes "keeps P m"
  shows "keeps (untouched l d P) (remote m)"
proof (rule keepsI)
  fix s x t assume I: "untouched l d P s" and e: "remote m s = (x, t)"
  obtain rr d1 w where s: "s = (rr, (d1, w))" by (metis surj_pair)
  obtain y w' where m: "m w = (y, w')" by (cases "m w")
  then show "untouched l d P t" using e m s I keeps_step [OF assms m] by (auto simp: remote_def untouched_def)
qed

lemma keeps_lifted: "keeps I (lift_result x)"
  by (auto simp: keeps_def lift_result_def split: sum.split)

lemma keeps_get_json: "keeps (untouched l d P) (get_json env path)"
  by (auto simp: keeps_def get_json_def on_disk_def untouched_def bnd_def lift_result_def split: sum.splits)

lemma keeps_via_object:
  assumes "keeps I m"
  shows "keeps (\<lambda>(b, s). I s) (via m)"
proof (rule keepsI)
  fix s x t assume I: "case s of (b, s) \<Rightarrow> I s" and e: "via m s = (x, t)"
  obtain b s1 where s: "s = (b, s1)" by (cases s)
  obtain y s2 where m: "m s1 = (y, s2)" by (cases "m s1")
  then show "case t of (b, s) \<Rightarrow> I s" using e m s I keeps_step [OF assms m] by auto
qed

lemma keeps_resume_module: "keeps I (mp_receipt ports) \<Longrightarrow> keeps I (resume_module ports)"
  unfolding resume_module_def by (intro keeps_intros keeps_lifted)

lemma keeps_resume_sharing: "keeps I (sp_stored ports) \<Longrightarrow> keeps I (resume_sharing ports ident)"
  unfolding resume_sharing_def by (intro keeps_intros keeps_lifted)

lemma keeps_over_entries: "(\<And>p. keeps I (f p)) \<Longrightarrow> keeps I m \<Longrightarrow> keeps I (fold (\<lambda>p m. seq m (f p)) ps m)"
proof (induction ps arbitrary: m)
  case (Cons p ps)
  have "keeps I (seq m (f p))" using Cons.prems by (intro keeps_seq)
  then show ?case using Cons.IH Cons.prems(1) by simp
qed simp

lemma keeps_with_entry: "(\<And>e. keeps I (f e)) \<Longrightarrow> keeps I (with_entry p f)"
  unfolding with_entry_def by (intro keeps_own_object keeps_option keeps_basic)

lemma keeps_verifyRecoverable:
  assumes "keeps I (sp_held ports)" and "\<And>p. keeps I (sp_read ports p)"
  shows "keeps (\<lambda>(b, s). I s) (verifyRecoverable ports)"
proof -
  have "keeps (\<lambda>(b, s). I s) (current_sharing ports p)" for p
    unfolding current_sharing_def by (intro keeps_intros keeps_own_object keeps_with_entry keeps_via_object assms)
  then show ?thesis unfolding verifyRecoverable_def over_entries_def
    by (intro keeps_own_object keeps_over_entries keeps_intros keeps_with_entry)
qed

lemma keeps_verify_all:
  assumes "reading_ports P env adapters"
  shows "keeps (untouched l d P) (verify_all env adapters r)"
proof -
  have ro: "keeps I readonly" for I :: "'a recovery_state \<Rightarrow> bool" by (simp add: readonly_def keeps_basic)
  have owned: "keeps (untouched l d P) (check_journal adapters i)" for i
    unfolding check_journal_def check_owned_def using assms
    by (intro keeps_own_object keeps_each keeps_atStage keeps_bnd keeps_with_journal keeps_requireSafe) (simp add: reading_ports_def)
  have mod: "keeps (untouched l d P) (check_module env adapters m)" for m
    unfolding check_module_def using assms
    by (intro keeps_atStage keeps_bnd keeps_resume_module keeps_requireSafe) (simp_all add: reading_ports_def module_ports_at_def keeps_get_json Let_def)
  have sha: "keeps (untouched l d P) (check_sharing env adapters m)" for m
    unfolding check_sharing_def Let_def using assms
    by (intro keeps_atStage keeps_bnd keeps_resume_sharing keeps_with_object keeps_verifyRecoverable keeps_basic)
      (simp_all add: reading_ports_def sharing_ports_at_def keeps_get_json ro Let_def)
  show ?thesis unfolding verify_all_def by (intro keeps_seq keeps_each owned mod sha)
qed

definition claimed_first :: "'w recovery_env \<Rightarrow> AutomaticRecovery \<Rightarrow> LabLease \<Rightarrow> disk \<Rightarrow> ('w \<Rightarrow> bool) \<Rightarrow> js_error + unit \<Rightarrow> disk \<Rightarrow> 'w \<Rightarrow> bool" where
  "claimed_first env r l d P x d' w' \<longleftrightarrow> d' = d \<and> P w' \<or>
     (\<exists>w1 y l' w2. P w1 \<and> acquireRecoveryInternal (re_lease env) (ar_expected r) (ar_runId r) (l, w1) = (y, (l', w2)) \<and>
        (\<forall>e. y = Inl e \<longrightarrow> x = Inl e \<and> d' = d \<and> w' = w2))"

lemma recover_claimed_first:
  assumes ro: "reading_ports P env adapters" and I: "untouched l d P s"
    and run: "recover_claimed env adapters r owner s = (x, (rr', (d', w')))"
  shows "claimed_first env r l d P x d' w'"
proof -
  obtain y s1 where v: "verify_all env adapters r s = (y, s1)" by (cases "verify_all env adapters r s")
  have I1: "untouched l d P s1" using keeps_step [OF keeps_verify_all [OF ro] v I] .
  show ?thesis
  proof (cases y)
    case (Inl e)
    then show ?thesis using run v I1 by (auto simp: recover_claimed_def seq_def bnd_def untouched_def claimed_first_def)
  next
    case (Inr u)
    obtain rr1 w1 where s1: "s1 = (rr1, (d, w1))" "rr_lease rr1 = l" "P w1" using I1 by (cases s1) (auto simp: untouched_def)
    obtain t w2 where t: "dk_now (re_disk env) w1 = (t, w2)" by (cases "dk_now (re_disk env) w1")
    have P2: "P w2" using ro s1(3) t by (fastforce simp: reading_ports_def)
    obtain z l' w3 where a: "acquireRecoveryInternal (re_lease env) (ar_expected r) (ar_runId r) (l, w2) = (z, (l', w3))" by (metis surj_pair)
    have "x = Inl e \<and> d' = d \<and> w' = w3" if "z = Inl e" for e
      using run v Inr s1 t a that
      by (auto simp: recover_claimed_def seq_def bnd_def clock_text_def claim_def on_lease_def)
    then show ?thesis using P2 a unfolding claimed_first_def by blast
  qed
qed

text \<open>
  C5: An automatic recovery of a held lease changes nothing before it has claimed that lease: if any file or anything in
  the cluster has changed, then the claim was made, on a cluster that the recovery had not yet changed, and when the claim
  failed then its error is the result and nothing happened after it.
\<close>

theorem recovery_claims_first:
  assumes "reading_ports P env adapters" and "\<not> no_holder (ar_expected r)" and "P w"
    and "execute env adapters r (d, w) = (x, (d', w'))"
  shows "d' = d \<and> P w' \<or> (\<exists>w1 y l' w2. P w1 \<and> acquireRecoveryInternal (re_lease env) (ar_expected r) (ar_runId r)
      (newLabLease (newRunId (re_uuid env)) (ri_applianceUid (ar_registration r)) 120 None, w1) = (y, (l', w2)) \<and>
    (\<forall>e. y = Inl e \<longrightarrow> x = Inl e \<and> d' = d \<and> w' = w2))"
proof -
  let ?owner = "newRunId (re_uuid env)" let ?s = "(new_run r ?owner, (d, w))"
  let ?l = "newLabLease ?owner (ri_applianceUid (ar_registration r)) 120 None"
  have I: "untouched ?l d P ?s" using assms(3) by (simp add: untouched_def new_run_def)
  obtain rr where e: "execute_run env adapters r ?owner ?s = (x, (rr, (d', w')))"
    using assms(4) by (auto simp: execute_def Let_def split: prod.splits)
  obtain y s1 where v: "remote (ra_verifyTarget adapters) ?s = (y, s1)" by (cases "remote (ra_verifyTarget adapters) ?s")
  have I1: "untouched ?l d P s1" using keeps_step [OF keeps_remote v I] assms(1) by (simp add: reading_ports_def)
  show ?thesis
  proof (cases y)
    case (Inl er)
    then have "s1 = (rr, (d', w'))" using e v by (simp add: execute_run_def seq_def bnd_def)
    then show ?thesis using I1 by (simp add: untouched_def)
  next
    case (Inr u)
    obtain z rr2 d2 w2 where c: "recover_claimed env adapters r ?owner s1 = (z, (rr2, (d2, w2)))" by (metis surj_pair)
    have "d2 = d' \<and> w2 = w'" "\<And>er. z = Inl er \<Longrightarrow> x = Inl er"
      using e v c Inr assms(2) by (auto simp: execute_run_def seq_def bnd_def ret_def split: sum.splits)
    then show ?thesis using recover_claimed_first [OF assms(1) I1 c] unfolding claimed_first_def by metis
  qed
qed

subsection \<open>A concrete recovery\<close>

text \<open>Files and clock of a quiet machine, a cluster in which everything is gone, and the store of one lease.\<close>

definition idle_disk :: "kept_world disk_env" where
  "idle_disk = \<lparr>dk_parse = pv_parse (sample_env []), dk_now = (\<lambda>w. (kw_time w, w)), dk_write = (\<lambda>p. ret ()), dk_sync = (\<lambda>p. ret ())\<rparr>"

definition idle_env :: "kept_world recovery_env" where
  "idle_env = \<lparr>re_lease = kept_env, re_disk = idle_disk, re_proof = sample_env [], re_diag = undefined, re_clock = undefined,
     re_events = (\<lambda>w. ([], w)), re_uuid = ''11111111-2222-3333-4444-666666666666''\<rparr>"

definition idle_adapters :: "kept_world recovery_adapters" where
  "idle_adapters = \<lparr>ra_verifyTarget = ret (),
     ra_cleanup = (\<lambda>j guard kind. \<lparr>ca_lookup = (\<lambda>e observe. ret None), ca_removeIfUid = (\<lambda>e uid observe. ret ()), ca_verifyRemoved = (\<lambda>e observe. ret True)\<rparr>),
     ra_module = (\<lambda>ob guard. \<lparr>ma_read = ret ob, ma_set = (\<lambda>b p. ret ())\<rparr>),
     ra_sharing = (\<lambda>item guard. \<lparr>sa_read = (\<lambda>p. throw (hard R_CONFLICT)), sa_apply = (\<lambda>q. ret ())\<rparr>), ra_cancel = ret ()\<rparr>"

definition unheld_lease :: Lease where
  "unheld_lease = stale_lease\<lparr>le_spec := (le_spec stale_lease)\<lparr>ls_holderIdentity := None\<rparr>\<rparr>"

definition sample_recovery :: "Lease \<Rightarrow> AutomaticRecovery" where
  "sample_recovery lease = \<lparr>ar_runId = Cleanup_State.sample_run, ar_directory = sample_directory, ar_expected = lease, ar_registration = sample_identity,
     ar_journals = iv_journals sample_inventory, ar_modules = [], ar_sharing = []\<rparr>"

theorem guard_fences_witness:
  "ll_held (rr_lease ((new_run (sample_recovery stale_lease) ''A'')\<lparr>rr_lease := holding_runner\<rparr>))"
proof -
  let ?rr = "(new_run (sample_recovery stale_lease) ''A'')\<lparr>rr_lease := holding_runner\<rparr>"
  let ?w = "kept_start (lease_of_run ''A'' 5000 60) 6000"
  have "assertHeldInternal kept_env (holding_runner, ?w) = (Inr (), (holding_runner, ?w))" using holding_runner_check by simp
  then have "recovery_guard idle_env idle_adapters (?rr, ([], ?w)) = (Inr (), (?rr, ([], ?w)))"
    by (simp add: recovery_guard_def seq_def bnd_def timers_def idle_env_def on_lease_def new_run_def newHeartbeatLoop_def)
  from guard_fences [OF this] show ?thesis by simp
qed

lemma idle_reads_only: "reading_ports P idle_env idle_adapters"
  by (simp add: reading_ports_def idle_env_def idle_adapters_def idle_disk_def keeps_basic)

lemma lost_claim:
  assumes "kw_current w = unheld_lease"
    and "acquireRecoveryInternal kept_env stale_lease run (newLabLease owner target 120 None, w) = (y, (l, w'))"
  shows "w' = w \<and> (\<exists>e. y = Inl e)"
proof -
  have "\<not> same_claim unheld_lease stale_lease" by (simp add: same_claim_def unheld_lease_def stale_lease_def)
  then show ?thesis using assms
    by (auto simp: acquireRecoveryInternal_def readValid_def storeRead_def validate_def kept_env_def act_simps newLabLease_def split: if_splits)
qed

theorem recovery_claims_first_witness:
  "\<exists>x d' w'. execute idle_env idle_adapters (sample_recovery stale_lease) (sample_disk, kept_start unheld_lease 200000) = (x, (d', w')) \<and>
     d' = sample_disk \<and> kw_current w' = unheld_lease"
proof -
  let ?w = "kept_start unheld_lease 200000"
  obtain x d' w' where e: "execute idle_env idle_adapters (sample_recovery stale_lease) (sample_disk, ?w) = (x, (d', w'))" by (metis surj_pair)
  have held: "\<not> no_holder (ar_expected (sample_recovery stale_lease))" using stale_lease_ok by (simp add: sample_recovery_def)
  have parts: "re_lease idle_env = kept_env" "ar_expected (sample_recovery stale_lease) = stale_lease"
    by (simp_all add: idle_env_def sample_recovery_def)
  have "d' = sample_disk \<and> kw_current w' = unheld_lease"
    using recovery_claims_first [OF idle_reads_only [of "\<lambda>w. kw_current w = unheld_lease"] held _ e] lost_claim
    unfolding parts by (auto simp: kept_start_def) (metis lost_claim)+
  then show ?thesis using e by blast
qed

lemma each_idle: "(\<And>x. x \<in> set xs \<Longrightarrow> f x s = (Inr (), s)) \<Longrightarrow> each f xs s = (Inr (), s)"
  by (induction xs) (auto simp: ret_def seq_def bnd_def)

lemma sample_inventory_parts: "iv_modules sample_inventory = []" "iv_sharing sample_inventory = []" "iv_leases sample_inventory = []"
  by code_simp+

lemma sample_written: "\<exists>d'. writePrivate idle_disk (verification_file sample_directory) v False (sample_disk, w) = (Inr (), (d', w))"
proof -
  have p: "privateDirectory sample_disk (dirname (verification_file sample_directory)) = Inr sample_disk"
    "replaceable sample_disk (verification_file sample_directory) False" by code_simp+
  then show ?thesis by (simp add: writePrivate_def bnd_def seq_def lift_result_def ret_def as_private_def catch_def idle_disk_def)
qed

theorem recovery_ends_proven_witness:
  "\<exists>run d' w'. execute idle_env idle_adapters (sample_recovery unheld_lease) (sample_disk, kept_start unheld_lease 200000) = (Inr run, (d', w')) \<and>
     proven_clean idle_env (sample_recovery unheld_lease) d'"
proof -
  let ?r = "sample_recovery unheld_lease" let ?w = "kept_start unheld_lease 200000"
  have free: "no_holder unheld_lease" "ar_expected ?r = unheld_lease" by (simp_all add: no_holder_def unheld_lease_def sample_recovery_def)
  have reads: "still_free idle_env ?r (rr, (sample_disk, ?w)) = (Inr (), (rr, (sample_disk, ?w)))" for rr
    using free by (simp add: still_free_def store_read_def remote_def idle_env_def kept_env_def kept_start_def bnd_def)
  have inv: "recoveryInventory (pv_parse (re_proof idle_env)) sample_disk (ar_directory ?r) (ar_registration ?r) = Inr sample_inventory"
    using sample_counts(1) [of "[]"] by (simp add: idle_env_def sample_recovery_def sample_identity_def appliance_label_def)
  have closed: "verifyRecoveryClosed idle_env idle_adapters (still_free idle_env ?r) (ar_directory ?r) (ar_registration ?r) (rr, (sample_disk, ?w)) =
      (Inr (), (rr, (sample_disk, ?w)))" for rr
  proof -
    have "verify_entry idle_adapters (still_free idle_env ?r) j e (rr, (sample_disk, ?w)) = (Inr (), (rr, (sample_disk, ?w)))" for j e
      by (simp add: verify_entry_def seq_def bnd_def reads with_object_def idle_adapters_def ret_def)
    then have "each (\<lambda>j. each (verify_entry idle_adapters (still_free idle_env ?r) j) (entries_of j)) js (rr, (sample_disk, ?w)) = (Inr (), (rr, (sample_disk, ?w)))" for js
      by (intro each_idle) simp
    then show ?thesis using inv sample_counts sample_inventory_parts
      by (simp add: verifyRecoveryClosed_def seq_def bnd_def on_disk_def lift_result_def newest_modules_def ret_def)
  qed
  obtain d' where wr: "attestCleanup idle_disk (sample_env []) (ar_directory ?r) (ar_registration ?r) True (sample_disk, ?w) = (Inr (verified_status 200000), (d', ?w))"
  proof -
    obtain d' where "writePrivate idle_disk (verification_file sample_directory) (cleanup_proof (sample_env []) sample_inventory sample_identity sample_directory True 200000) False (sample_disk, ?w) = (Inr (), (d', ?w))"
      using sample_written by blast
    then show ?thesis using that inv sample_counts
      by (simp add: attestCleanup_def bnd_def seq_def lift_result_def idle_disk_def kept_start_def idle_env_def sample_recovery_def ret_def verified_status_def)
  qed
  have rel: "verifyReservationReleased idle_disk (sample_env []) (ar_directory ?r) (ar_registration ?r) (env_read kept_env) (sample_disk, ?w) = (Inr (), (sample_disk, ?w))"
    using inv free by (simp add: verifyReservationReleased_def bnd_def seq_def lift_result_def idle_env_def kept_env_def kept_start_def
      sample_inventory_parts ret_def) (simp add: free_lab_lease_def unheld_lease_def stale_lease_def sample_recovery_def sample_identity_def appliance_label_def)
  have clean: "prove_clean idle_env ?r (rr, (sample_disk, ?w)) = (Inr (), (rr, (d', ?w)))" for rr
    using rel wr by (simp add: prove_clean_def seq_def bnd_def idle_env_def ret_def)
  have quiet: "timers idle_env idle_adapters (rr, (d, w)) = (Inr (), (rr, (d, w)))" for rr d w
    by (simp add: timers_def idle_env_def)
  have target: "remote (ra_verifyTarget idle_adapters) (rr, (d, w)) = (Inr (), (rr, (d, w)))" for rr d w
    by (simp add: remote_def idle_adapters_def ret_def)
  have "\<exists>w'. execute idle_env idle_adapters ?r (sample_disk, ?w) = (Inr Cleanup_State.sample_run, (d', w'))"
    using free by (simp add: execute_def execute_run_def confirm_free_def set_stage_def bounded_def seq_def bnd_def target reads closed quiet clean ret_def Let_def)
      (simp add: sample_recovery_def new_run_def)
  then show ?thesis using recovery_ends_proven [of idle_env idle_adapters ?r sample_disk ?w] by blast
qed

end
