(* ===== verification/Process_Group.thy ===== *)
theory Process_Group
  imports Js_Library
begin

text \<open>
  \<open>regression/core/process-group.ts\<close>: whether the process group of a run has stopped, read from \<open>/proc\<close>. The directory
  and the files are parameters whose answers may change with every read; \<open>Number\<close> on a text is a parameter that gives the
  safe integers. A verdict that the group has stopped is right for a table of processes that stands still; the theory
  also has a chain of forks that both scans miss.
\<close>

subsection \<open>Data\<close>

record ProcessMember =
  pm_pid :: int
  pm_group :: int
  pm_session :: int
  pm_state :: char
  pm_started :: string
  pm_threads :: "int option"

datatype group_state = G_stopped | G_live | G_unknown

datatype group_detail = D_unreadable | D_identity | D_overflow

record ProcessGroupState =
  pg_state :: group_state
  pg_members :: "ProcessMember list"
  pg_detail :: "group_detail option"

text \<open>\<open>gone(error)\<close>: \<open>ENOENT\<close> and \<open>ESRCH\<close>; any other error, also one of the parser, is not.\<close>

datatype proc_error = Gone | Unreadable

record 'w proc_env =
  pe_list :: "('w, proc_error, string list) act"
  pe_read :: "string \<Rightarrow> string \<Rightarrow> ('w, proc_error, string) act"
  pe_number :: "string \<Rightarrow> int option"

definition unknown_group :: "ProcessMember list \<Rightarrow> group_detail \<Rightarrow> ProcessGroupState" where
  "unknown_group members d = \<lparr>pg_state = G_unknown, pg_members = members, pg_detail = Some d\<rparr>"

subsection \<open>The stat line\<close>

definition lastIndexOf :: "char \<Rightarrow> string \<Rightarrow> nat option" where
  "lastIndexOf c s = (if c \<in> set s then Some (length s - Suc (length (takeWhile (\<lambda>x. x \<noteq> c) (rev s)))) else None)"

text \<open>\<open>s.trim().split(/\s+/)\<close>\<close>

definition split_spaces :: "string \<Rightarrow> string list" where
  "split_spaces s = (let t = trim s in if t = [] then [[]]
     else filter (\<lambda>x. x \<noteq> []) (split_on (CHR '' '') (map (\<lambda>c. if is_space c then CHR '' '' else c) t)))"

definition field_at :: "string list \<Rightarrow> nat \<Rightarrow> string option" where
  "field_at cols n = (if n < length cols then Some (cols ! n) else None)"

text \<open>\<open>body.slice(0, body.indexOf(' '))\<close>, where an absent space cuts off the last character.\<close>

definition pid_text :: "string \<Rightarrow> string" where
  "pid_text body = (case indexOf (CHR '' '') body of None \<Rightarrow> butlast body | Some i \<Rightarrow> take i body)"

definition stat_fields :: "string \<Rightarrow> string list" where
  "stat_fields body = split_spaces (drop (case lastIndexOf (CHR '')'') body of None \<Rightarrow> 1 | Some i \<Rightarrow> i + 2) body)"

definition processStat :: "(string \<Rightarrow> int option) \<Rightarrow> string \<Rightarrow> ProcessMember option" where
  "processStat number body = (let cols = stat_fields body in
     case (lastIndexOf (CHR '')'') body, number (pid_text body), Option.bind (field_at cols 2) number, Option.bind (field_at cols 3) number,
           field_at cols 0, field_at cols 19) of
       (Some i, Some pid, Some gr, Some session, Some [c], Some started) \<Rightarrow>
         if 1 \<le> pid \<and> 0 \<le> gr \<and> 0 \<le> session \<and> c \<in> set ''RSDZTtXxKWPI'' \<and> started \<noteq> [] \<and> list_all is_digit started
         then Some \<lparr>pm_pid = pid, pm_group = gr, pm_session = session, pm_state = c, pm_started = started, pm_threads = None\<rparr> else None
     | _ \<Rightarrow> None)"

definition read_stat :: "'w proc_env \<Rightarrow> string \<Rightarrow> ('w, proc_error, ProcessMember) act" where
  "read_stat env name = bnd (pe_read env name ''stat'') (\<lambda>body.
     case processStat (pe_number env) body of None \<Rightarrow> throw Unreadable | Some m \<Rightarrow> ret m)"

definition processBirth :: "'w proc_env \<Rightarrow> int \<Rightarrow> 'w \<Rightarrow> string option \<times> 'w" where
  "processBirth env pid w = (case read_stat env (show_int pid) w of
     (Inr m, w') \<Rightarrow> (if pm_pid m = pid then Some (pm_started m) else None, w')
   | (Inl e, w') \<Rightarrow> (None, w'))"

subsection \<open>Threads of an exited leader\<close>

definition line_end :: "char \<Rightarrow> bool" where
  "line_end c \<longleftrightarrow> c = CHR 0x0A \<or> c = CHR 0x0D"

definition line_tails :: "string \<Rightarrow> string list" where
  "line_tails s = map (\<lambda>i. drop i s) (filter (\<lambda>i. i = 0 \<or> line_end (s ! (i - 1))) [0..<Suc (length s)])"

text \<open>\<open>/^Threads:\s+(\d+)\s*$/m\<close> at the start of a line.\<close>

definition thread_digits :: "string \<Rightarrow> string option" where
  "thread_digits s = (case strip_prefix ''Threads:'' s of None \<Rightarrow> None | Some a \<Rightarrow>
     (let b = dropWhile is_space a; ds = takeWhile is_digit b; c = dropWhile is_digit b
      in if b \<noteq> a \<and> ds \<noteq> [] \<and> (dropWhile is_space c = [] \<or> list_ex line_end (takeWhile is_space c)) then Some ds else None))"

definition thread_count :: "(string \<Rightarrow> int option) \<Rightarrow> string \<Rightarrow> int option" where
  "thread_count number status = (case filter (\<lambda>x. x \<noteq> None) (map thread_digits (line_tails status)) of
     Some ds # rest \<Rightarrow> (case number ds of Some n \<Rightarrow> if 1 \<le> n then Some n else None | None \<Rightarrow> None)
   | _ \<Rightarrow> None)"

text \<open>\<open>None\<close>: the process went away between its two files.\<close>

definition thread_state :: "'w proc_env \<Rightarrow> string \<Rightarrow> ('w, proc_error, int option) act" where
  "thread_state env name w = (case pe_read env name ''status'' w of
     (Inr status, w1) \<Rightarrow> (case thread_count (pe_number env) status of None \<Rightarrow> Inl Unreadable | Some n \<Rightarrow> Inr (Some n), w1)
   | (Inl Unreadable, w1) \<Rightarrow> (Inl Unreadable, w1)
   | (Inl Gone, w1) \<Rightarrow> (case pe_read env name ''stat'' w1 of (Inl Gone, w2) \<Rightarrow> (Inr None, w2) | (_, w2) \<Rightarrow> (Inl Gone, w2)))"

subsection \<open>One scan\<close>

definition exited :: "ProcessMember \<Rightarrow> bool" where
  "exited m \<longleftrightarrow> pm_state m \<in> set ''ZXx''"

datatype scan_step = Skip | Stop ProcessGroupState | Push ProcessMember

definition push_member :: "ProcessMember list \<Rightarrow> ProcessMember \<Rightarrow> scan_step" where
  "push_member members m = (if 128 \<le> length members then Stop (unknown_group members D_overflow) else Push m)"

definition foreign :: "int \<Rightarrow> string option \<Rightarrow> ProcessMember \<Rightarrow> bool" where
  "foreign pid started m \<longleftrightarrow> pm_session m \<noteq> pid \<or> pm_pid m = pid \<and> Some (pm_started m) \<noteq> started"

definition scan_member :: "'w proc_env \<Rightarrow> int \<Rightarrow> string option \<Rightarrow> ProcessMember list \<Rightarrow> string \<Rightarrow> ProcessMember \<Rightarrow> ('w, proc_error, scan_step) act" where
  "scan_member env pid started members name m =
     (if Some (pm_pid m) \<noteq> pe_number env name then throw Unreadable
      else if pm_group m \<noteq> pid then ret Skip
      else if foreign pid started m then ret (Stop (unknown_group members D_identity))
      else if exited m then bnd (thread_state env name) (\<lambda>t. ret (case t of None \<Rightarrow> Skip | Some n \<Rightarrow> push_member members (m\<lparr>pm_threads := Some n\<rparr>)))
      else ret (push_member members m))"

definition scan_process :: "'w proc_env \<Rightarrow> int \<Rightarrow> string option \<Rightarrow> ProcessMember list \<Rightarrow> string \<Rightarrow> ('w, proc_error, scan_step) act" where
  "scan_process env pid started members name w = (case read_stat env name w of
     (Inl Gone, w1) \<Rightarrow> (Inr Skip, w1)
   | (Inl Unreadable, w1) \<Rightarrow> (Inl Unreadable, w1)
   | (Inr m, w1) \<Rightarrow> scan_member env pid started members name m w1)"

text \<open>The loop over the names: an early verdict, or the members. Any error ends as \<open>unreadable\<close> with the members so far.\<close>

fun scan_names :: "'w proc_env \<Rightarrow> int \<Rightarrow> string option \<Rightarrow> string list \<Rightarrow> ProcessMember list \<Rightarrow> 'w \<Rightarrow> (ProcessGroupState + ProcessMember list) \<times> 'w" where
  "scan_names env pid started [] members w = (Inr members, w)"
| "scan_names env pid started (name # names) members w = (case scan_process env pid started members name w of
     (Inl e, w1) \<Rightarrow> (Inl (unknown_group members D_unreadable), w1)
   | (Inr Skip, w1) \<Rightarrow> scan_names env pid started names members w1
   | (Inr (Stop r), w1) \<Rightarrow> (Inl r, w1)
   | (Inr (Push m), w1) \<Rightarrow> scan_names env pid started names (members @ [m]) w1)"

definition may_write :: "ProcessMember \<Rightarrow> bool" where
  "may_write m \<longleftrightarrow> \<not> exited m \<or> (case pm_threads m of None \<Rightarrow> False | Some n \<Rightarrow> 1 < n)"

definition group_verdict :: "string option \<Rightarrow> ProcessMember list \<Rightarrow> ProcessGroupState" where
  "group_verdict started members =
     (if members \<noteq> [] \<and> (started = None \<or> started = Some []) then unknown_group members D_identity
      else \<lparr>pg_state = (if list_ex may_write members then G_live else G_stopped), pg_members = members, pg_detail = None\<rparr>)"

definition scan_leader :: "'w proc_env \<Rightarrow> int \<Rightarrow> string option \<Rightarrow> ProcessMember list \<Rightarrow> 'w \<Rightarrow> ProcessGroupState \<times> 'w" where
  "scan_leader env pid started members w = (case read_stat env (show_int pid) w of
     (Inr m, w1) \<Rightarrow> (if pm_pid m \<noteq> pid \<or> Some (pm_started m) \<noteq> started \<or> pm_group m \<noteq> pid \<or> pm_session m \<noteq> pid
        then unknown_group members D_identity else group_verdict started members, w1)
   | (Inl Gone, w1) \<Rightarrow> (group_verdict started members, w1)
   | (Inl Unreadable, w1) \<Rightarrow> (unknown_group members D_unreadable, w1))"

definition process_names :: "string list \<Rightarrow> string list" where
  "process_names names = filter (\<lambda>name. name \<noteq> [] \<and> list_all is_digit name) names"

definition scanLinuxGroup :: "'w proc_env \<Rightarrow> int \<Rightarrow> string option \<Rightarrow> 'w \<Rightarrow> ProcessGroupState \<times> 'w" where
  "scanLinuxGroup env pid started w = (case pe_list env w of
     (Inl e, w1) \<Rightarrow> (unknown_group [] D_unreadable, w1)
   | (Inr names, w1) \<Rightarrow> if 65536 < length (process_names names) then (unknown_group [] D_overflow, w1)
       else (case scan_names env pid started (process_names names) [] w1 of
         (Inl r, w2) \<Rightarrow> (r, w2)
       | (Inr members, w2) \<Rightarrow> scan_leader env pid started members w2))"

definition known_member :: "ProcessMember list \<Rightarrow> ProcessMember \<Rightarrow> bool" where
  "known_member olds m \<longleftrightarrow> (\<exists>x \<in> set olds. pm_pid x = pm_pid m \<and> pm_started x = pm_started m)"

definition inspectLinuxGroup :: "'w proc_env \<Rightarrow> int \<Rightarrow> string option \<Rightarrow> 'w \<Rightarrow> ProcessGroupState \<times> 'w" where
  "inspectLinuxGroup env pid started w = (case scanLinuxGroup env pid started w of (first, w1) \<Rightarrow>
     if pg_state first \<noteq> G_stopped then (first, w1)
     else (case scanLinuxGroup env pid started w1 of (second, w2) \<Rightarrow>
       if pg_state second \<noteq> G_stopped then (second, w2)
       else if \<not> list_all (known_member (pg_members first)) (pg_members second)
         then (unknown_group (pg_members second) D_identity, w2)
       else (second, w2)))"

subsection \<open>What the inspection keeps\<close>

text \<open>A predicate of the world that no read breaks is kept by the inspection.\<close>

definition proc_keeps :: "('w \<Rightarrow> bool) \<Rightarrow> 'w proc_env \<Rightarrow> bool" where
  "proc_keeps I env \<longleftrightarrow> keeps I (pe_list env) \<and> (\<forall>name f. keeps I (pe_read env name f))"

lemma keeps_out: "keeps I m \<Longrightarrow> m w = (x, w') \<Longrightarrow> I w \<Longrightarrow> I w'"
  by (drule (1) keepsD) simp

lemma keeps_from: "(\<And>w x w'. m w = (x, w') \<Longrightarrow> I w \<Longrightarrow> I w') \<Longrightarrow> keeps I m"
  unfolding keeps_def by (metis surj_pair snd_conv)

lemma keeps_read_stat: "proc_keeps I env \<Longrightarrow> keeps I (read_stat env name)"
  unfolding read_stat_def proc_keeps_def by (intro keeps_bnd keeps_option keeps_basic) auto

lemma keeps_thread_state:
  assumes "proc_keeps I env"
  shows "keeps I (thread_state env name)"
proof (rule keeps_from)
  fix w x w' assume run: "thread_state env name w = (x, w')" and I: "I w"
  have read: "keeps I (pe_read env name f)" for f using assms by (simp add: proc_keeps_def)
  obtain y u where y: "pe_read env name ''status'' w = (y, u)" by (metis surj_pair)
  obtain z v where z: "pe_read env name ''stat'' u = (z, v)" by (metis surj_pair)
  have "I u" "I v" using keeps_out [OF read y I] keeps_out [OF read z] by simp_all
  then show "I w'" using run y z by (auto simp: thread_state_def split: sum.splits proc_error.splits)
qed

lemma keeps_scan_process:
  assumes "proc_keeps I env"
  shows "keeps I (scan_process env pid started members name)"
proof (rule keeps_from)
  fix w x w' assume run: "scan_process env pid started members name w = (x, w')" and I: "I w"
  obtain y u where y: "read_stat env name w = (y, u)" by (metis surj_pair)
  have u: "I u" using keeps_out [OF keeps_read_stat [OF assms] y I] .
  have "keeps I (scan_member env pid started members name m)" for m
    unfolding scan_member_def by (intro keeps_if keeps_bnd keeps_basic keeps_thread_state assms)
  then show "I w'" using run y u by (auto simp: scan_process_def split: sum.splits proc_error.splits dest: keeps_out)
qed

lemma keeps_scan_names:
  "proc_keeps I env \<Longrightarrow> scan_names env pid started names members w = (x, w') \<Longrightarrow> I w \<Longrightarrow> I w'"
proof (induction names arbitrary: members w)
  case (Cons name names)
  obtain y u where y: "scan_process env pid started members name w = (y, u)" by (metis surj_pair)
  have "I u" using keeps_out [OF keeps_scan_process [OF Cons.prems(1)] y Cons.prems(3)] .
  then show ?case using Cons y by (auto split: sum.splits scan_step.splits)
qed simp

lemma scan_keeps:
  assumes "proc_keeps I env" and "scanLinuxGroup env pid started w = (r, w')" and "I w"
  shows "I w'"
proof -
  obtain y u where y: "pe_list env w = (y, u)" by (metis surj_pair)
  have u: "I u" using assms(1,3) y keeps_out by (metis proc_keeps_def)
  show ?thesis
  proof (cases y)
    case (Inr names)
    obtain z v where z: "scan_names env pid started (process_names names) [] u = (z, v)" by (metis surj_pair)
    have v: "I v" using keeps_scan_names [OF assms(1) z u] .
    obtain l q where l: "read_stat env (show_int pid) v = (l, q)" by (metis surj_pair)
    have "I q" using keeps_out [OF keeps_read_stat [OF assms(1)] l v] .
    then show ?thesis using assms(2) Inr y u v z l
      by (auto simp: scanLinuxGroup_def scan_leader_def split: sum.splits if_splits proc_error.splits)
  qed (use assms(2) y u in \<open>simp add: scanLinuxGroup_def\<close>)
qed

lemma inspect_keeps:
  assumes "proc_keeps I env" and "inspectLinuxGroup env pid started w = (r, w')" and "I w"
  shows "I w'"
proof -
  obtain r1 w1 where a: "scanLinuxGroup env pid started w = (r1, w1)" by (metis surj_pair)
  obtain r2 w2 where b: "scanLinuxGroup env pid started w1 = (r2, w2)" by (metis surj_pair)
  have "I w1" using scan_keeps [OF assms(1) a assms(3)] .
  then have "I w2" using scan_keeps [OF assms(1) b] by simp
  then show ?thesis using \<open>I w1\<close> assms(2) a b by (auto simp: inspectLinuxGroup_def split: if_splits)
qed

subsection \<open>A table that stands still\<close>

text \<open>No read changes what the next read says.\<close>

definition frozen :: "'w proc_env \<Rightarrow> 'w \<Rightarrow> bool" where
  "frozen env w \<longleftrightarrow> (\<forall>name f. snd (pe_read env name f w) = w) \<and> snd (pe_list env w) = w"

lemma frozen_keeps: "frozen env w \<Longrightarrow> proc_keeps (\<lambda>v. v = w) env"
  by (auto simp: frozen_def proc_keeps_def keeps_def)

lemma frozen_read: "frozen env w \<Longrightarrow> pe_read env name f w = (x, w1) \<Longrightarrow> w1 = w"
  unfolding frozen_def by (metis snd_conv)

lemma frozen_stat: "frozen env w \<Longrightarrow> read_stat env name w = (x, w1) \<Longrightarrow> w1 = w"
  using keeps_out [OF keeps_read_stat [OF frozen_keeps]] by fastforce

lemma frozen_threads: "frozen env w \<Longrightarrow> thread_state env name w = (x, w1) \<Longrightarrow> w1 = w"
  using keeps_out [OF keeps_thread_state [OF frozen_keeps]] by fastforce

lemma frozen_process: "frozen env w \<Longrightarrow> scan_process env pid started members name w = (x, w1) \<Longrightarrow> w1 = w"
  using keeps_out [OF keeps_scan_process [OF frozen_keeps]] by fastforce

lemma frozen_names: "frozen env w \<Longrightarrow> scan_names env pid started names members w = (x, w1) \<Longrightarrow> w1 = w"
  using keeps_scan_names [OF frozen_keeps] by fastforce

lemma frozen_scan: "frozen env w \<Longrightarrow> scanLinuxGroup env pid started w = (r, w1) \<Longrightarrow> w1 = w"
  using scan_keeps [OF frozen_keeps] by fastforce

text \<open>A process that can be read did not go away between its two files.\<close>

lemma frozen_exited_threads:
  assumes "frozen env w" and "read_stat env name w = (Inr m, w)" and "thread_state env name w = (Inr t, w)"
  shows "t \<noteq> None"
proof -
  obtain y u where y: "pe_read env name ''status'' w = (y, u)" by (metis surj_pair)
  obtain z v where z: "pe_read env name ''stat'' w = (z, v)" by (metis surj_pair)
  have "u = w" "v = w" using frozen_read [OF assms(1)] y z by simp_all
  then show ?thesis using assms(2,3) y z
    by (cases "thread_count (pe_number env) (projr y)")
      (auto simp: thread_state_def read_stat_def act_simps split: sum.splits proc_error.splits option.splits)
qed

text \<open>What a completed loop has seen of a name.\<close>

definition accounted :: "'w proc_env \<Rightarrow> 'w \<Rightarrow> ProcessMember list \<Rightarrow> int \<Rightarrow> string \<Rightarrow> bool" where
  "accounted env w members pid name \<longleftrightarrow> read_stat env name w \<noteq> (Inl Unreadable, w) \<and>
     (\<forall>m. read_stat env name w = (Inr m, w) \<longrightarrow> pm_group m = pid \<longrightarrow>
        (\<exists>x \<in> set members. pm_state x = pm_state m \<and> (exited m \<longrightarrow> thread_state env name w = (Inr (pm_threads x), w) \<and> pm_threads x \<noteq> None)))"

lemma scan_process_accounted:
  assumes "frozen env w" and "scan_process env pid started members name w = (Inr s, w)" and "\<And>r. s \<noteq> Stop r"
  shows "accounted env w (members @ (case s of Push m \<Rightarrow> [m] | _ \<Rightarrow> [])) pid name"
proof (cases "read_stat env name w")
  case (Pair y w1)
  then have w1: "w1 = w" using frozen_stat [OF assms(1)] by simp
  show ?thesis
  proof (cases y)
    case (Inl e)
    then show ?thesis using assms(2) Pair w1 by (cases e) (auto simp: accounted_def scan_process_def)
  next
    case (Inr m)
    show ?thesis
    proof (cases "pm_group m = pid")
      case False
      then show ?thesis using Inr Pair w1 by (auto simp: accounted_def)
    next
      case True
      have run: "scan_member env pid started members name m w = (Inr s, w)" using assms(2) Pair Inr w1 by (simp add: scan_process_def)
      show ?thesis
      proof (cases "exited m")
        case False
        then show ?thesis using run True assms(3) Pair Inr w1
          by (auto simp: scan_member_def push_member_def accounted_def act_simps split: if_splits)
      next
        case ex: True
        obtain t w2 where t: "thread_state env name w = (t, w2)" by (cases "thread_state env name w")
        then have w2: "w2 = w" using frozen_threads [OF assms(1)] by simp
        show ?thesis
        proof (cases t)
          case (Inl e)
          then show ?thesis using run True ex t assms(3) by (auto simp: scan_member_def act_simps split: if_splits)
        next
          case t': (Inr t0)
          then obtain n where "t0 = Some n" using frozen_exited_threads [OF assms(1)] Pair Inr w1 t w2 by blast
          then show ?thesis using run True ex t t' w2 assms(3) Pair Inr w1
            by (auto simp: scan_member_def push_member_def accounted_def act_simps split: if_splits)
        qed
      qed
    qed
  qed
qed

lemma accounted_mono: "accounted env w members pid name \<Longrightarrow> set members \<subseteq> set members' \<Longrightarrow> accounted env w members' pid name"
  unfolding accounted_def by blast

lemma scan_names_accounted:
  assumes "frozen env w"
  shows "scan_names env pid started names acc w = (Inr members, w) \<Longrightarrow>
    set acc \<subseteq> set members \<and> (\<forall>name \<in> set names. accounted env w members pid name)"
proof (induction names arbitrary: acc)
  case (Cons name names)
  obtain y w1 where y: "scan_process env pid started acc name w = (y, w1)" by (cases "scan_process env pid started acc name w")
  have w1: "w1 = w" using frozen_process [OF assms y] .
  obtain s where s: "y = Inr s" "\<And>r. s \<noteq> Stop r" using Cons.prems y by (cases y) (auto split: scan_step.splits)
  let ?acc = "acc @ (case s of Push m \<Rightarrow> [m] | _ \<Rightarrow> [])"
  have "scan_names env pid started names ?acc w = (Inr members, w)" using Cons.prems y s w1 by (auto split: scan_step.splits)
  note ih = Cons.IH [OF this]
  have "accounted env w ?acc pid name" using scan_process_accounted [OF assms _ s(2)] y s(1) w1 by simp
  then have "accounted env w members pid name" by (rule accounted_mono) (use ih in simp)
  then show ?case using ih by simp
qed simp

lemma scan_stopped:
  assumes "frozen env w" and "scanLinuxGroup env pid started w = (r, w')" and "pg_state r = G_stopped"
  shows "\<exists>names. pe_list env w = (Inr names, w) \<and> (\<forall>name \<in> set (process_names names). accounted env w (pg_members r) pid name) \<and>
    \<not> list_ex may_write (pg_members r)"
proof -
  obtain y w1 where l: "pe_list env w = (y, w1)" by (cases "pe_list env w")
  have w1: "w1 = w" using assms(1) l by (simp add: frozen_def)
  obtain names where names: "y = Inr names" "length (process_names names) \<le> 65536"
    using assms(2,3) l by (cases y) (auto simp: scanLinuxGroup_def unknown_group_def split: if_splits)
  obtain z w2 where z: "scan_names env pid started (process_names names) [] w = (z, w2)" by (metis surj_pair)
  have w2: "w2 = w" using frozen_names [OF assms(1) z] .
  have early: "pg_state q \<noteq> G_stopped" if "scan_names env pid started ns acc v = (Inl q, v')" for q ns acc v v'
    using that by (induction ns arbitrary: acc v) (auto simp: scan_process_def scan_member_def push_member_def unknown_group_def act_simps
      split: prod.splits sum.splits scan_step.splits if_splits proc_error.splits option.splits)
  obtain members where m: "z = Inr members" using assms(2,3) l names w1 z early by (cases z) (auto simp: scanLinuxGroup_def)
  have "scan_leader env pid started members w = (r, w')" using assms(2) l names w1 z m w2 by (simp add: scanLinuxGroup_def)
  then have r: "pg_members r = members" "\<not> list_ex may_write members"
    using assms(3) by (auto simp: scan_leader_def group_verdict_def unknown_group_def split: prod.splits sum.splits proc_error.splits if_splits)
  show ?thesis using scan_names_accounted [OF assms(1), of pid started "process_names names" "[]" members] z m w2 l names w1 r by simp
qed

text \<open>
  C17: When the table of processes stands still, a group that is reported as stopped has no process that could still write:
  the table was listed, every listed process could be read or was gone, and each one in the group has exited and has no
  other thread.
\<close>

theorem stopped_group_has_no_writers:
  assumes "frozen env w" and "inspectLinuxGroup env pid started w = (r, w')" and "pg_state r = G_stopped"
  shows "\<exists>names. pe_list env w = (Inr names, w) \<and> (\<forall>name \<in> set (process_names names). read_stat env name w \<noteq> (Inl Unreadable, w) \<and>
    (\<forall>m. read_stat env name w = (Inr m, w) \<and> pm_group m = pid \<longrightarrow> exited m \<and> (\<exists>n. thread_state env name w = (Inr (Some n), w) \<and> n \<le> 1)))"
proof -
  obtain r1 w1 where a: "scanLinuxGroup env pid started w = (r1, w1)" by (cases "scanLinuxGroup env pid started w")
  have w1: "w1 = w" using frozen_scan [OF assms(1) a] .
  obtain r2 w2 where b: "scanLinuxGroup env pid started w = (r2, w2)" "r = r2"
    using assms(2,3) a w1 by (auto simp: inspectLinuxGroup_def unknown_group_def split: if_splits prod.splits)
  obtain names where n: "pe_list env w = (Inr names, w)" "\<forall>name \<in> set (process_names names). accounted env w (pg_members r2) pid name"
    "\<not> list_ex may_write (pg_members r2)" using scan_stopped [OF assms(1) b(1)] assms(3) b(2) by blast
  have "exited m \<and> (\<exists>n. thread_state env name w = (Inr (Some n), w) \<and> n \<le> 1)"
    if name: "name \<in> set (process_names names)" "read_stat env name w = (Inr m, w)" "pm_group m = pid" for name m
  proof -
    obtain x where x: "x \<in> set (pg_members r2)" "pm_state x = pm_state m"
      "exited m \<longrightarrow> thread_state env name w = (Inr (pm_threads x), w) \<and> pm_threads x \<noteq> None"
      using n(2) name unfolding accounted_def by blast
    have "\<not> may_write x" using n(3) x(1) by (auto simp: list_ex_iff)
    then show ?thesis using x(2,3) by (auto simp: may_write_def exited_def)
  qed
  moreover have "read_stat env name w \<noteq> (Inl Unreadable, w)" if "name \<in> set (process_names names)" for name
    using n(2) that unfolding accounted_def by blast
  ultimately show ?thesis using n(1) by blast
qed

subsection \<open>Two tables\<close>

text \<open>A reading of \<open>Number\<close> for numerals, and the stat line of process \<open>p\<close> of the group 10 in a state.\<close>

definition numeral_value :: "string \<Rightarrow> int option" where
  "numeral_value s = (if s \<noteq> [] \<and> list_all is_digit s then Some (int (digits_value s)) else None)"

definition stat_line :: "nat \<Rightarrow> char \<Rightarrow> string" where
  "stat_line p c = show_nat p @ '' (node worker) '' @ [c] @ '' 1 10 10 0 0 0 0 0 0 0 0 0 0 0 0 0 0 0 77 0''"

definition line_member :: "nat \<Rightarrow> char \<Rightarrow> ProcessMember" where
  "line_member p c = \<lparr>pm_pid = int p, pm_group = 10, pm_session = 10, pm_state = c, pm_started = ''77'', pm_threads = None\<rparr>"

lemma line_parsed:
  "processStat numeral_value (stat_line 11 (CHR ''Z'')) = Some (line_member 11 (CHR ''Z''))"
  "processStat numeral_value (stat_line 11 (CHR ''S'')) = Some (line_member 11 (CHR ''S''))"
  "processStat numeral_value (stat_line 12 (CHR ''S'')) = Some (line_member 12 (CHR ''S''))"
  "processStat numeral_value (stat_line 13 (CHR ''S'')) = Some (line_member 13 (CHR ''S''))"
  by code_simp+

lemma names_parsed:
  "numeral_value ''11'' = Some 11" "show_int 10 = ''10''" "show_nat 11 = ''11''" "show_nat 12 = ''12''" "show_nat 13 = ''13''"
  "process_names [''self'', ''11''] = [''11'']" "process_names [''11''] = [''11'']" "process_names [''12''] = [''12'']"
  "thread_count numeral_value (''Name: node'' @ [CHR 0x0A] @ ''Threads: 1'' @ [CHR 0x0A]) = Some 1"
  by code_simp+

definition still_env :: "unit proc_env" where
  "still_env = \<lparr>pe_list = ret [''self'', ''11''], pe_read = (\<lambda>name f. if name \<noteq> ''11'' then throw Gone
     else if f = ''stat'' then ret (stat_line 11 (CHR ''Z'')) else ret (''Name: node'' @ [CHR 0x0A] @ ''Threads: 1'' @ [CHR 0x0A])), pe_number = numeral_value\<rparr>"

lemma still_stopped: "pg_state (fst (inspectLinuxGroup still_env 10 (Some ''77'') ())) = G_stopped"
proof -
  let ?m = "(line_member 11 (CHR ''Z''))\<lparr>pm_threads := Some 1\<rparr>"
  have read: "read_stat still_env ''11'' () = (Inr (line_member 11 (CHR ''Z'')), ())" "read_stat still_env ''10'' () = (Inl Gone, ())"
    by (simp_all add: read_stat_def act_simps still_env_def line_parsed)
  have threads: "thread_state still_env ''11'' () = (Inr (Some 1), ())"
    using names_parsed(9) by (simp add: thread_state_def still_env_def act_simps)
  have "scan_process still_env 10 (Some ''77'') [] ''11'' () = (Inr (Push ?m), ())"
    using read threads names_parsed(1)
    by (simp add: scan_process_def scan_member_def push_member_def foreign_def exited_def act_simps line_member_def)
      (simp add: still_env_def)
  moreover have "pe_list still_env () = (Inr [''self'', ''11''], ())" by (simp add: still_env_def ret_def)
  moreover have "scan_leader still_env 10 (Some ''77'') [?m] () = (\<lparr>pg_state = G_stopped, pg_members = [?m], pg_detail = None\<rparr>, ())"
    using read by (simp add: scan_leader_def names_parsed group_verdict_def may_write_def exited_def line_member_def)
  ultimately show ?thesis by (simp add: inspectLinuxGroup_def scanLinuxGroup_def names_parsed known_member_def)
qed

theorem stopped_group_has_no_writers_witness:
  "\<exists>names. pe_list still_env () = (Inr names, ()) \<and> (\<forall>name \<in> set (process_names names). read_stat still_env name () \<noteq> (Inl Unreadable, ()) \<and>
    (\<forall>m. read_stat still_env name () = (Inr m, ()) \<and> pm_group m = 10 \<longrightarrow> exited m \<and> (\<exists>n. thread_state still_env name () = (Inr (Some n), ()) \<and> n \<le> 1)))"
proof -
  have "frozen still_env ()" by (simp add: frozen_def)
  moreover obtain r w' where r: "inspectLinuxGroup still_env 10 (Some ''77'') () = (r, w')" by (metis surj_pair)
  moreover have "pg_state r = G_stopped" using still_stopped r by simp
  ultimately show ?thesis by (rule stopped_group_has_no_writers)
qed

text \<open>Every read takes a moment. Process 11 starts 12 and ends, 12 starts 13 and ends; ended processes are reaped.\<close>

definition chain_at :: "nat \<Rightarrow> nat" where
  "chain_at t = (if t = 0 then 11 else if t \<le> 3 then 12 else 13)"

definition chain_env :: "nat proc_env" where
  "chain_env = \<lparr>pe_list = (\<lambda>t. (Inr [show_nat (chain_at t)], Suc t)),
     pe_read = (\<lambda>name f t. (if name = show_nat (chain_at t) \<and> f = ''stat'' then Inr (stat_line (chain_at t) (CHR ''S'')) else Inl Gone, Suc t)),
     pe_number = numeral_value\<rparr>"

text \<open>
  C35: Two scans do not exclude later writers. A chain of processes in which each one starts the next and ends between the
  listing and the reading of its entry is reported as stopped, while at every moment one process of the group runs.
\<close>

theorem fork_chain_escapes_inspection:
  "pg_state (fst (inspectLinuxGroup chain_env 10 (Some ''77'') 0)) = G_stopped \<and>
   (case read_stat chain_env (show_nat (chain_at t)) t of (Inr m, t') \<Rightarrow> pm_group m = 10 \<and> pm_session m = 10 \<and> \<not> exited m | _ \<Rightarrow> False)"
proof -
  have "processStat numeral_value (stat_line (chain_at t) (CHR ''S'')) = Some (line_member (chain_at t) (CHR ''S''))"
    by (simp add: chain_at_def line_parsed)
  then have runs: "case read_stat chain_env (show_nat (chain_at t)) t of (Inr m, t') \<Rightarrow> pm_group m = 10 \<and> pm_session m = 10 \<and> \<not> exited m | _ \<Rightarrow> False"
    by (simp add: read_stat_def act_simps chain_env_def exited_def line_member_def)
  have gone: "read_stat chain_env ''11'' 1 = (Inl Gone, 2)" "read_stat chain_env ''10'' 2 = (Inl Gone, 3)"
    "read_stat chain_env ''12'' 4 = (Inl Gone, 5)" "read_stat chain_env ''10'' 5 = (Inl Gone, 6)"
    by (simp_all add: read_stat_def act_simps chain_env_def chain_at_def names_parsed)
  have listed: "pe_list chain_env 0 = (Inr [''11''], 1)" "pe_list chain_env 3 = (Inr [''12''], 4)"
    by (simp_all add: chain_env_def chain_at_def names_parsed)
  have "scanLinuxGroup chain_env 10 (Some ''77'') 0 = (\<lparr>pg_state = G_stopped, pg_members = [], pg_detail = None\<rparr>, 3)"
    "scanLinuxGroup chain_env 10 (Some ''77'') 3 = (\<lparr>pg_state = G_stopped, pg_members = [], pg_detail = None\<rparr>, 6)"
    using gone listed by (simp_all add: scanLinuxGroup_def scan_leader_def scan_process_def names_parsed group_verdict_def del: One_nat_def)
  then have "pg_state (fst (inspectLinuxGroup chain_env 10 (Some ''77'') 0)) = G_stopped" by (simp add: inspectLinuxGroup_def)
  then show ?thesis using runs by blast
qed

end
