(* ===== verification/Process_Supervisor.thy ===== *)
theory Process_Supervisor
  imports Process_Group
begin

text \<open>
  \<open>regression/core/process-supervisor.ts\<close>: \<open>supervisedProcess\<close> after the process was spawned. The object is the closure of
  its flags and timers; the process, its signals, the clock and the table of processes are ports. Timers and calls of
  \<open>stop\<close> take effect during a pause of the supervisor, in the order that \<open>su_events\<close> chooses. Waiting loops have fuel; that
  enough fuel exists is proved.
\<close>

subsection \<open>State and ports\<close>

datatype platform = Linux | Windows | OtherUnix

datatype process_signal = SIGINT | SIGKILL | OtherSignal string

text \<open>\<open>process.kill(\<dots>, 0)\<close>: \<open>ESRCH\<close> is \<open>NoProcess\<close>, another error \<open>Denied\<close>.\<close>

datatype probe_result = Reachable | NoProcess | Denied

datatype super_event = TimeoutTimer | HardTimer | ForceTimer | StopCall process_signal

record Supervisor =
  sv_forced :: bool
  sv_timedOut :: bool
  sv_interrupted :: bool
  sv_orphaned :: bool
  sv_closed :: bool
  sv_graceEnds :: nat
  sv_timer :: bool
  sv_hard :: bool
  sv_force :: bool

record 'w super_env =
  su_platform :: platform
  su_pid :: "int option"
  su_started :: "string option"
  su_proc :: "'w proc_env"
  su_probe :: "'w \<Rightarrow> probe_result \<times> 'w"
  su_signal :: "process_signal \<Rightarrow> 'w \<Rightarrow> 'w"
  su_childKill :: "process_signal \<Rightarrow> 'w \<Rightarrow> 'w"
  su_now :: "'w \<Rightarrow> nat \<times> 'w"
  su_sleep :: "nat \<Rightarrow> 'w \<Rightarrow> 'w"
  su_events :: "'w \<Rightarrow> super_event list \<times> 'w"
  su_grace :: nat
  su_drain :: nat

text \<open>The timers that the budget of the caller arms.\<close>

definition new_supervisor :: "bool \<Rightarrow> bool \<Rightarrow> Supervisor" where
  "new_supervisor timeout hard_stop = \<lparr>sv_forced = False, sv_timedOut = False, sv_interrupted = False, sv_orphaned = False, sv_closed = False,
     sv_graceEnds = 0, sv_timer = timeout, sv_hard = hard_stop, sv_force = False\<rparr>"

type_synonym 'w super_step = "Supervisor \<times> 'w \<Rightarrow> Supervisor \<times> 'w"

subsection \<open>Inspection and signals\<close>

definition linux_group :: "'w super_env \<Rightarrow> int \<Rightarrow> 'w \<Rightarrow> ProcessGroupState \<times> 'w" where
  "linux_group env pid = inspectLinuxGroup (su_proc env) pid (su_started env)"

definition bare_state :: "group_state \<Rightarrow> ProcessGroupState" where
  "bare_state st = \<lparr>pg_state = st, pg_members = [], pg_detail = None\<rparr>"

definition inspect :: "'w super_env \<Rightarrow> 'w \<Rightarrow> ProcessGroupState \<times> 'w" where
  "inspect env w = (case su_pid env of
     None \<Rightarrow> (bare_state G_stopped, w)
   | Some pid \<Rightarrow> (case su_probe env w of
       (NoProcess, w1) \<Rightarrow> (bare_state G_stopped, w1)
     | (Denied, w1) \<Rightarrow> (unknown_group [] D_unreadable, w1)
     | (Reachable, w1) \<Rightarrow> if su_platform env = Linux then linux_group env pid w1 else (bare_state G_live, w1)))"

definition alive :: "'w super_env \<Rightarrow> 'w \<Rightarrow> bool \<times> 'w" where
  "alive env w = (case inspect env w of (r, w1) \<Rightarrow> (pg_state r \<noteq> G_stopped, w1))"

text \<open>A group that cannot be verified gets no signal; the unreaped direct child still may.\<close>

definition send_signal :: "'w super_env \<Rightarrow> process_signal \<Rightarrow> 'w super_step" where
  "send_signal env v = (\<lambda>(sv, w). case su_pid env of
     None \<Rightarrow> (sv, w)
   | Some pid \<Rightarrow> if su_platform env = Linux
       then (case linux_group env pid w of (r, w1) \<Rightarrow>
         if pg_state r = G_unknown then (sv, if sv_closed sv then w1 else su_childKill env v w1) else (sv, su_signal env v w1))
       else (sv, su_signal env v w))"

definition stop :: "'w super_env \<Rightarrow> process_signal \<Rightarrow> 'w super_step" where
  "stop env v = (\<lambda>(sv, w). if sv_interrupted sv then (sv, w)
     else let sv1 = sv\<lparr>sv_interrupted := True\<rparr> in
       (case (if sv_closed sv then send_signal env v (sv1, w) else (sv1, su_childKill env v w)) of (sv2, w1) \<Rightarrow>
       (case su_now env w1 of (t, w2) \<Rightarrow> (sv2\<lparr>sv_graceEnds := t + su_grace env, sv_force := True\<rparr>, w2))))"

definition force_kill :: "'w super_env \<Rightarrow> 'w super_step" where
  "force_kill env = (\<lambda>(sv, w). send_signal env SIGKILL (sv\<lparr>sv_forced := True\<rparr>, w))"

fun on_event :: "'w super_env \<Rightarrow> super_event \<Rightarrow> 'w super_step" where
  "on_event env TimeoutTimer (sv, w) = (if sv_timer sv then stop env SIGINT (sv\<lparr>sv_timer := False, sv_timedOut := True\<rparr>, w) else (sv, w))"
| "on_event env HardTimer (sv, w) = (if sv_hard sv then force_kill env (sv\<lparr>sv_hard := False, sv_timedOut := True\<rparr>, w) else (sv, w))"
| "on_event env ForceTimer (sv, w) = (if sv_force sv then force_kill env (sv\<lparr>sv_force := False\<rparr>, w) else (sv, w))"
| "on_event env (StopCall v) (sv, w) = stop env v (sv, w)"

definition super_pause :: "'w super_env \<Rightarrow> 'w super_step" where
  "super_pause env = (\<lambda>(sv, w). case su_events env (su_sleep env 20 w) of (evs, w1) \<Rightarrow> fold (on_event env) evs (sv, w1))"

subsection \<open>Completion\<close>

text \<open>\<open>while (before && alive() && after && Date.now() < limit) await pause\<close>\<close>

fun wait_while :: "nat \<Rightarrow> 'w super_env \<Rightarrow> (Supervisor \<Rightarrow> bool) \<Rightarrow> (Supervisor \<Rightarrow> bool) \<Rightarrow> nat \<Rightarrow> Supervisor \<times> 'w \<Rightarrow> (Supervisor \<times> 'w) option" where
  "wait_while 0 env before after limit s = None"
| "wait_while (Suc n) env before after limit s = (if \<not> before (fst s) then Some s
     else case alive env (snd s) of (a, w1) \<Rightarrow> if \<not> a \<or> \<not> after (fst s) then Some (fst s, w1)
     else case su_now env w1 of (t, w2) \<Rightarrow> if t < limit then wait_while n env before after limit (super_pause env (fst s, w2)) else Some (fst s, w2))"

record super_result =
  st_exitCode :: int
  st_processesStopped :: bool
  st_timedOut :: bool
  st_interrupted :: bool
  st_forced :: bool
  st_orphaned :: bool
  st_processState :: ProcessGroupState

definition super_result_of :: "Supervisor \<Rightarrow> int option \<Rightarrow> bool \<Rightarrow> ProcessGroupState \<Rightarrow> super_result" where
  "super_result_of sv code signalled r = \<lparr>
     st_exitCode = (if sv_timedOut sv \<or> sv_orphaned sv then 1 else if signalled then 2 else case code of None \<Rightarrow> 1 | Some c \<Rightarrow> c),
     st_processesStopped = (pg_state r = G_stopped), st_timedOut = sv_timedOut sv, st_interrupted = sv_interrupted sv,
     st_forced = sv_forced sv, st_orphaned = sv_orphaned sv, st_processState = r\<rparr>"

text \<open>A writer outlived the child.\<close>

definition end_orphans :: "nat \<Rightarrow> 'w super_env \<Rightarrow> Supervisor \<times> 'w \<Rightarrow> (Supervisor \<times> 'w) option" where
  "end_orphans n env s =
     (let s1 = (if \<not> sv_interrupted (fst s) \<and> \<not> sv_forced (fst s) then stop env SIGINT ((fst s)\<lparr>sv_orphaned := True\<rparr>, snd s) else s) in
      case wait_while n env (\<lambda>_. True) (\<lambda>sv. \<not> sv_forced sv) (sv_graceEnds (fst s1)) s1 of None \<Rightarrow> None | Some (sv2, w2) \<Rightarrow>
      (case alive env w2 of (a, w3) \<Rightarrow>
      (case (if a \<and> \<not> sv_forced sv2 then force_kill env (sv2, w3) else (sv2, w3)) of (sv4, w4) \<Rightarrow>
      (case su_now env w4 of (t, w5) \<Rightarrow> wait_while n env (\<lambda>_. True) (\<lambda>_. True) (t + min (su_drain env) 30000) (sv4, w5)))))"

definition complete :: "nat \<Rightarrow> 'w super_env \<Rightarrow> int option \<Rightarrow> bool \<Rightarrow> Supervisor \<times> 'w \<Rightarrow> (super_result \<times> Supervisor \<times> 'w) option" where
  "complete n env code signalled = (\<lambda>(sv, w). case su_now env w of (t, w1) \<Rightarrow>
     (case wait_while n env (\<lambda>sv. \<not> sv_interrupted sv \<and> \<not> sv_forced sv) (\<lambda>_. True) (t + min (su_drain env) 1000) (sv\<lparr>sv_closed := True\<rparr>, w1) of
        None \<Rightarrow> None
      | Some (sv2, w2) \<Rightarrow> (case alive env w2 of (a, w3) \<Rightarrow>
          (case (if a then end_orphans n env (sv2, w3) else Some (sv2, w3)) of
             None \<Rightarrow> None
           | Some (sv4, w4) \<Rightarrow> (case inspect env w4 of (r, w5) \<Rightarrow>
               Some (super_result_of sv4 code signalled r, sv4\<lparr>sv_timer := False, sv_hard := False, sv_force := False\<rparr>, w5))))))"

subsection \<open>What a completion keeps\<close>

text \<open>The ports other than signals to the group keep \<open>I\<close>.\<close>

definition super_keeps :: "('w \<Rightarrow> bool) \<Rightarrow> 'w super_env \<Rightarrow> bool" where
  "super_keeps I env \<longleftrightarrow> proc_keeps I (su_proc env) \<and> (\<forall>w. I w \<longrightarrow> I (snd (su_probe env w))) \<and> (\<forall>v w. I w \<longrightarrow> I (su_childKill env v w)) \<and>
     (\<forall>w. I w \<longrightarrow> I (snd (su_now env w))) \<and> (\<forall>n w. I w \<longrightarrow> I (su_sleep env n w)) \<and> (\<forall>w. I w \<longrightarrow> I (snd (su_events env w)))"

text \<open>A world that an inspection has just left without the verdict \<open>unknown\<close>.\<close>

definition just_verified :: "'w super_env \<Rightarrow> 'w \<Rightarrow> bool" where
  "just_verified env w \<longleftrightarrow> (\<exists>pid w0 r. su_pid env = Some pid \<and> linux_group env pid w0 = (r, w) \<and> pg_state r \<noteq> G_unknown)"

definition signal_keeps :: "('w \<Rightarrow> bool) \<Rightarrow> 'w super_env \<Rightarrow> bool" where
  "signal_keeps I env \<longleftrightarrow> (\<forall>v w. (su_platform env = Linux \<longrightarrow> just_verified env w) \<longrightarrow> I w \<longrightarrow> I (su_signal env v w))"

lemma group_keeps: "super_keeps I env \<Longrightarrow> linux_group env pid w = (r, w') \<Longrightarrow> I w \<Longrightarrow> I w'"
  unfolding linux_group_def super_keeps_def by (blast intro: inspect_keeps)

lemma probe_keeps: "super_keeps I env \<Longrightarrow> su_probe env w = (x, w') \<Longrightarrow> I w \<Longrightarrow> I w'"
  unfolding super_keeps_def by (metis snd_conv)

lemma now_keeps: "super_keeps I env \<Longrightarrow> su_now env w = (t, w') \<Longrightarrow> I w \<Longrightarrow> I w'"
  unfolding super_keeps_def by (metis snd_conv)

lemma alive_keeps: "super_keeps I env \<Longrightarrow> alive env w = (a, w') \<Longrightarrow> I w \<Longrightarrow> I w'"
  by (auto simp: alive_def inspect_def split: prod.splits option.splits probe_result.splits if_splits dest: group_keeps probe_keeps)

lemma inspect_super_keeps: "super_keeps I env \<Longrightarrow> inspect env w = (r, w') \<Longrightarrow> I w \<Longrightarrow> I w'"
  using alive_keeps [of I env w _ w'] by (simp add: alive_def)

lemma send_keeps:
  assumes "super_keeps I env" and "signal_keeps I env" and "I (snd s)"
  shows "I (snd (send_signal env v s))"
proof -
  obtain sv w where s: "s = (sv, w)" by (cases s)
  show ?thesis
  proof (cases "su_pid env")
    case (Some pid)
    obtain r w1 where g: "linux_group env pid w = (r, w1)" by (metis surj_pair)
    have "I w1" using group_keeps [OF assms(1) g] assms(3) s by simp
    moreover have "just_verified env w1" if "pg_state r \<noteq> G_unknown" using that g Some by (auto simp: just_verified_def)
    ultimately show ?thesis using assms s Some g by (auto simp: send_signal_def signal_keeps_def super_keeps_def)
  qed (use assms(3) s in \<open>simp add: send_signal_def\<close>)
qed

lemma stop_keeps:
  assumes "super_keeps I env" and "signal_keeps I env" and "I (snd s)"
  shows "I (snd (stop env v s))"
proof -
  obtain sv w where s: "s = (sv, w)" by (cases s)
  obtain sv2 w2 where p: "(if sv_closed sv then send_signal env v (sv\<lparr>sv_interrupted := True\<rparr>, w) else (sv\<lparr>sv_interrupted := True\<rparr>, su_childKill env v w)) = (sv2, w2)"
    by (metis surj_pair)
  have "I w2" using p send_keeps [OF assms(1,2), of "(sv\<lparr>sv_interrupted := True\<rparr>, w)" v] assms(1,3) s
    by (auto simp: super_keeps_def split: if_splits)
  then show ?thesis using s p assms(3) now_keeps [OF assms(1)] by (auto simp: stop_def Let_def split: prod.splits)
qed

lemma force_keeps: "super_keeps I env \<Longrightarrow> signal_keeps I env \<Longrightarrow> I (snd s) \<Longrightarrow> I (snd (force_kill env s))"
  using send_keeps [of I env "((fst s)\<lparr>sv_forced := True\<rparr>, snd s)" SIGKILL] by (cases s) (simp add: force_kill_def)

lemma event_keeps: "super_keeps I env \<Longrightarrow> signal_keeps I env \<Longrightarrow> I (snd s) \<Longrightarrow> I (snd (on_event env ev s))"
proof -
  assume k: "super_keeps I env" "signal_keeps I env" "I (snd s)"
  obtain sv w where s: "s = (sv, w)" by (cases s)
  have "I (snd (stop env v (x, w)))" "I (snd (force_kill env (x, w)))" for v x
    using stop_keeps [OF k(1,2), of "(x, w)" v] force_keeps [OF k(1,2), of "(x, w)"] k(3) s by simp_all
  then show ?thesis using k(3) s by (cases ev) simp_all
qed

lemma events_keep: "super_keeps I env \<Longrightarrow> signal_keeps I env \<Longrightarrow> I (snd s) \<Longrightarrow> I (snd (fold (on_event env) evs s))"
proof (induction evs arbitrary: s)
  case (Cons ev evs)
  have "I (snd (on_event env ev s))" using event_keeps [OF Cons.prems] .
  then show ?case using Cons.IH [OF Cons.prems(1,2)] by simp
qed simp

lemma pause_keeps: "super_keeps I env \<Longrightarrow> signal_keeps I env \<Longrightarrow> I (su_sleep env 20 (snd s)) \<Longrightarrow> I (snd (super_pause env s))"
proof -
  assume k: "super_keeps I env" "signal_keeps I env" "I (su_sleep env 20 (snd s))"
  obtain evs w1 where e: "su_events env (su_sleep env 20 (snd s)) = (evs, w1)" by (metis surj_pair)
  have "I w1" using k(1,3) e unfolding super_keeps_def by (metis snd_conv)
  then show ?thesis using events_keep [OF k(1,2), of "(fst s, w1)" evs] e by (cases s) (simp add: super_pause_def)
qed

lemma wait_keeps:
  assumes "super_keeps I env" and "signal_keeps I env"
  shows "wait_while n env before after limit s = Some s' \<Longrightarrow> I (snd s) \<Longrightarrow> I (snd s')"
proof (induction n arbitrary: s)
  case (Suc n)
  obtain a w1 where a: "alive env (snd s) = (a, w1)" by (metis surj_pair)
  obtain t w2 where t: "su_now env w1 = (t, w2)" by (metis surj_pair)
  have w: "I w1" "I w2" using alive_keeps [OF assms(1) a] now_keeps [OF assms(1) t] Suc.prems(2) by simp_all
  have "I (su_sleep env 20 w2)" using assms(1) w(2) unfolding super_keeps_def by blast
  then have "I (snd (super_pause env (fst s, w2)))" using pause_keeps [OF assms(1,2), of "(fst s, w2)"] by simp
  then have next_ok: "I (snd s')" if "wait_while n env before after limit (super_pause env (fst s, w2)) = Some s'"
    using Suc.IH [OF that] by simp
  show ?case
  proof (cases "before (fst s) \<and> a \<and> after (fst s) \<and> t < limit")
    case True
    then show ?thesis using Suc.prems(1) a t next_ok by simp
  next
    case False
    then have "s' = s \<or> snd s' = w1 \<or> snd s' = w2" using Suc.prems(1) a t by (auto split: if_splits)
    then show ?thesis using w Suc.prems(2) by auto
  qed
qed simp

lemma orphans_keep:
  assumes "super_keeps I env" and "signal_keeps I env" and "end_orphans n env s = Some s'" and "I (snd s)"
  shows "I (snd s')"
proof -
  let ?s1 = "if \<not> sv_interrupted (fst s) \<and> \<not> sv_forced (fst s) then stop env SIGINT ((fst s)\<lparr>sv_orphaned := True\<rparr>, snd s) else s"
  have s1: "I (snd ?s1)" using assms(4) stop_keeps [OF assms(1,2), of "((fst s)\<lparr>sv_orphaned := True\<rparr>, snd s)"] by simp
  obtain sv2 w2 where l: "wait_while n env (\<lambda>_. True) (\<lambda>sv. \<not> sv_forced sv) (sv_graceEnds (fst ?s1)) ?s1 = Some (sv2, w2)"
    using assms(3) by (auto simp: end_orphans_def Let_def split: option.splits)
  have w2: "I w2" using wait_keeps [OF assms(1,2) l s1] by simp
  obtain a w3 where a: "alive env w2 = (a, w3)" by (metis surj_pair)
  have w3: "I w3" using alive_keeps [OF assms(1) a w2] .
  obtain sv4 w4 where f: "(if a \<and> \<not> sv_forced sv2 then force_kill env (sv2, w3) else (sv2, w3)) = (sv4, w4)" by (metis surj_pair)
  have w4: "I w4" using f force_keeps [OF assms(1,2), of "(sv2, w3)"] w3 by (auto split: if_splits)
  obtain t w5 where t: "su_now env w4 = (t, w5)" by (metis surj_pair)
  have w5: "I w5" using now_keeps [OF assms(1) t w4] .
  have "wait_while n env (\<lambda>_. True) (\<lambda>_. True) (t + min (su_drain env) 30000) (sv4, w5) = Some s'"
    using assms(3) l a f t by (simp add: end_orphans_def Let_def)
  from wait_keeps [OF assms(1,2) this] show ?thesis using w5 by simp
qed

lemma complete_keeps:
  assumes "super_keeps I env" and "signal_keeps I env" and "complete n env code signalled (sv, w) = Some (res, sv', w')" and "I w"
  shows "I w'"
proof -
  obtain t w1 where t: "su_now env w = (t, w1)" by (metis surj_pair)
  obtain sv2 w2 where l: "wait_while n env (\<lambda>sv. \<not> sv_interrupted sv \<and> \<not> sv_forced sv) (\<lambda>_. True) (t + min (su_drain env) 1000) (sv\<lparr>sv_closed := True\<rparr>, w1) = Some (sv2, w2)"
    using assms(3) t by (auto simp: complete_def split: option.splits)
  have w2: "I w2" using wait_keeps [OF assms(1,2) l] now_keeps [OF assms(1) t assms(4)] by simp
  obtain a w3 where a: "alive env w2 = (a, w3)" by (metis surj_pair)
  have w3: "I w3" using alive_keeps [OF assms(1) a w2] .
  obtain sv4 w4 where o: "(if a then end_orphans n env (sv2, w3) else Some (sv2, w3)) = Some (sv4, w4)"
    using assms(3) t l a by (auto simp: complete_def split: option.splits)
  have w4: "I w4" using o orphans_keep [OF assms(1,2), of n "(sv2, w3)" "(sv4, w4)"] w3 by (auto split: if_splits)
  obtain r w5 where r: "inspect env w4 = (r, w5)" by (metis surj_pair)
  have "w' = w5" using assms(3) t l a o r by (simp add: complete_def)
  then show ?thesis using inspect_super_keeps [OF assms(1) r w4] by simp
qed

subsection \<open>Termination\<close>

text \<open>Time does not go back, and a pause takes some.\<close>

definition super_clock :: "'w super_env \<Rightarrow> ('w \<Rightarrow> nat) \<Rightarrow> bool" where
  "super_clock env time \<longleftrightarrow> (\<forall>w. fst (su_now env w) = time w) \<and> (\<forall>t. super_keeps (\<lambda>w. t \<le> time w) env) \<and>
     (\<forall>v w. time w \<le> time (su_signal env v w)) \<and> (\<forall>w. time w < time (su_sleep env 20 w))"

lemma clock_keeps:
  assumes "super_clock env time"
  shows "super_keeps (\<lambda>w. t \<le> time w) env" and "signal_keeps (\<lambda>w. t \<le> time w) env"
  using assms unfolding super_clock_def signal_keeps_def by (blast, fastforce intro: order_trans)

lemma wait_mono: "wait_while n env before after limit s = Some r \<Longrightarrow> n \<le> m \<Longrightarrow> wait_while m env before after limit s = Some r"
proof (induction n arbitrary: m s)
  case (Suc n)
  then obtain k where k: "m = Suc k" "n \<le> k" by (cases m) auto
  obtain a w1 where a: "alive env (snd s) = (a, w1)" by (metis surj_pair)
  obtain t w2 where t: "su_now env w1 = (t, w2)" by (metis surj_pair)
  show ?case using Suc.prems(1) Suc.IH [OF _ k(2), of "super_pause env (fst s, w2)"] k(1) a t by (auto split: if_splits)
qed simp

lemma wait_returns:
  assumes "super_clock env time"
  shows "\<exists>n r. wait_while n env before after limit s = Some r"
proof (induction "limit - time (snd s)" arbitrary: s rule: less_induct)
  case less
  note keeps_time = clock_keeps(1) [OF assms]
  obtain a w1 where a: "alive env (snd s) = (a, w1)" by (metis surj_pair)
  obtain t w2 where t: "su_now env w1 = (t, w2)" by (metis surj_pair)
  have le: "time (snd s) \<le> time w1" "time w1 \<le> time w2" "t = time w1"
    using alive_keeps [OF keeps_time a] now_keeps [OF keeps_time t] assms t by (auto simp: super_clock_def) (metis fst_conv)
  show ?case
  proof (cases "before (fst s) \<and> a \<and> after (fst s) \<and> t < limit")
    case True
    let ?s = "super_pause env (fst s, w2)"
    have "time w2 < time (su_sleep env 20 w2)" using assms by (simp add: super_clock_def)
    then have "Suc (time w2) \<le> time (snd ?s)"
      using pause_keeps [OF clock_keeps [OF assms], of "Suc (time w2)" "(fst s, w2)"] by simp
    then have "limit - time (snd ?s) < limit - time (snd s)" using le True by linarith
    from less [OF this] obtain n r where "wait_while n env before after limit ?s = Some r" by blast
    then have "wait_while (Suc n) env before after limit s = Some r" using True a t by simp
    then show ?thesis by blast
  next
    case False
    then have "\<exists>r. wait_while (Suc 0) env before after limit s = Some r" using a t by auto
    then show ?thesis by blast
  qed
qed

lemma orphans_return:
  assumes "super_clock env time"
  shows "\<exists>n r. \<forall>m \<ge> n. end_orphans m env s = Some r"
proof -
  let ?s1 = "if \<not> sv_interrupted (fst s) \<and> \<not> sv_forced (fst s) then stop env SIGINT ((fst s)\<lparr>sv_orphaned := True\<rparr>, snd s) else s"
  obtain n2 sv2 w2 where l: "wait_while n2 env (\<lambda>_. True) (\<lambda>sv. \<not> sv_forced sv) (sv_graceEnds (fst ?s1)) ?s1 = Some (sv2, w2)"
    using wait_returns [OF assms] by (metis surj_pair)
  obtain a w3 where a: "alive env w2 = (a, w3)" by (metis surj_pair)
  obtain sv4 w4 where f: "(if a \<and> \<not> sv_forced sv2 then force_kill env (sv2, w3) else (sv2, w3)) = (sv4, w4)" by (metis surj_pair)
  obtain t w5 where t: "su_now env w4 = (t, w5)" by (metis surj_pair)
  obtain n5 r where r: "wait_while n5 env (\<lambda>_. True) (\<lambda>_. True) (t + min (su_drain env) 30000) (sv4, w5) = Some r"
    using wait_returns [OF assms] by blast
  have "end_orphans m env s = Some r" if "max n2 n5 \<le> m" for m
    using wait_mono [OF l, of m] wait_mono [OF r, of m] that a f t by (simp add: end_orphans_def Let_def)
  then show ?thesis by blast
qed

lemma complete_returns:
  assumes "super_clock env time"
  shows "\<exists>n sv4 r sv' w1 w'. inspect env w1 = (r, w') \<and> (\<forall>m \<ge> n. complete m env code signalled (sv, w) = Some (super_result_of sv4 code signalled r, sv', w'))"
proof -
  obtain t w1 where t: "su_now env w = (t, w1)" by (metis surj_pair)
  obtain n2 sv2 w2 where l: "wait_while n2 env (\<lambda>sv. \<not> sv_interrupted sv \<and> \<not> sv_forced sv) (\<lambda>_. True) (t + min (su_drain env) 1000) (sv\<lparr>sv_closed := True\<rparr>, w1) = Some (sv2, w2)"
    using wait_returns [OF assms] by (metis surj_pair)
  obtain a w3 where a: "alive env w2 = (a, w3)" by (metis surj_pair)
  obtain n4 sv4 w4 where o: "\<And>m. n4 \<le> m \<Longrightarrow> (if a then end_orphans m env (sv2, w3) else Some (sv2, w3)) = Some (sv4, w4)"
  proof (cases a)
    case True
    obtain n4 q where q: "\<forall>m \<ge> n4. end_orphans m env (sv2, w3) = Some q" using orphans_return [OF assms] by blast
    show thesis by (rule that [of n4 "fst q" "snd q"]) (use True q in simp)
  next
    case False
    show thesis by (rule that [of 0 sv2 w3]) (use False in simp)
  qed
  obtain r w5 where r: "inspect env w4 = (r, w5)" by (metis surj_pair)
  have "complete m env code signalled (sv, w) = Some (super_result_of sv4 code signalled r, sv4\<lparr>sv_timer := False, sv_hard := False, sv_force := False\<rparr>, w5)"
    if "max n2 n4 \<le> m" for m
    using wait_mono [OF l, of m] o [of m] that t a r by (simp add: complete_def)
  then show ?thesis using r by blast
qed

text \<open>
  C16: Waiting for a process group always ends, whatever the group, the timers and the caller do, as long as pauses take
  time: with enough fuel the completion returns one result. It reports the verdict of its last inspection, and success
  only for a child that ended with code 0 without a signal, in time and without leaving a writer behind.
\<close>

theorem completion_returns:
  assumes "super_clock env time"
  shows "\<exists>n res sv' w1 w'. (\<forall>m \<ge> n. complete m env code signalled (sv, w) = Some (res, sv', w')) \<and>
    inspect env w1 = (st_processState res, w') \<and> (st_processesStopped res \<longleftrightarrow> pg_state (st_processState res) = G_stopped) \<and>
    (st_exitCode res = 0 \<longrightarrow> code = Some 0 \<and> \<not> signalled \<and> \<not> st_timedOut res \<and> \<not> st_orphaned res)"
proof -
  obtain n sv4 r sv' w1 w' where c: "inspect env w1 = (r, w')"
    "\<forall>m \<ge> n. complete m env code signalled (sv, w) = Some (super_result_of sv4 code signalled r, sv', w')"
    using complete_returns [OF assms] by blast
  have "st_processState (super_result_of sv4 code signalled r) = r" "st_processesStopped (super_result_of sv4 code signalled r) \<longleftrightarrow> pg_state r = G_stopped"
    "st_exitCode (super_result_of sv4 code signalled r) = 0 \<longrightarrow> code = Some 0 \<and> \<not> signalled \<and>
       \<not> st_timedOut (super_result_of sv4 code signalled r) \<and> \<not> st_orphaned (super_result_of sv4 code signalled r)"
    by (auto simp: super_result_of_def split: option.splits)
  then show ?thesis using c by metis
qed

text \<open>A machine whose \<open>/proc\<close> cannot be listed: the time, and how many signals the group got.\<close>

definition blind_env :: "(nat \<times> nat) super_env" where
  "blind_env = \<lparr>su_platform = Linux, su_pid = Some 10, su_started = Some ''77'',
     su_proc = \<lparr>pe_list = throw Unreadable, pe_read = (\<lambda>name f. throw Unreadable), pe_number = (\<lambda>s. None)\<rparr>,
     su_probe = (\<lambda>w. (Reachable, w)), su_signal = (\<lambda>v (t, n). (t, Suc n)), su_childKill = (\<lambda>v w. w), su_now = (\<lambda>(t, n). (t, (t, n))),
     su_sleep = (\<lambda>k (t, n). (t + k, n)), su_events = (\<lambda>w. ([], w)), su_grace = 5000, su_drain = 60000\<rparr>"

lemma blind_clock: "super_clock blind_env fst"
  by (auto simp: super_clock_def super_keeps_def proc_keeps_def blind_env_def keeps_def throw_def)

theorem completion_returns_witness:
  "\<exists>n res sv' w'. complete n blind_env (Some 0) False (new_supervisor True True, (0, 0)) = Some (res, sv', w') \<and>
     (st_processesStopped res \<longleftrightarrow> pg_state (st_processState res) = G_stopped)"
  using completion_returns [OF blind_clock, of "Some 0" False "new_supervisor True True" "(0, 0)"] by (metis order_refl)

text \<open>
  C15: On Linux a signal reaches the process group only directly after an inspection that verified it: whatever the other
  requests keep and such a signal keeps, a completion keeps, with all its timers and calls of \<open>stop\<close>. A group that cannot
  be read or that belongs to a recycled process gets no signal.
\<close>

theorem signals_need_verification:
  assumes "su_platform env = Linux" and "super_keeps I env" and "\<And>v w. just_verified env w \<Longrightarrow> I w \<Longrightarrow> I (su_signal env v w)"
    and "I w" and "complete n env code signalled (sv, w) = Some (res, sv', w')"
  shows "I w'"
proof -
  have "signal_keeps I env" using assms(1,3) by (simp add: signal_keeps_def)
  then show ?thesis using complete_keeps [OF assms(2) _ assms(5,4)] by blast
qed

theorem signals_need_verification_witness:
  "\<exists>n res sv' w'. complete n blind_env (Some 0) False (new_supervisor True True, (0, 0)) = Some (res, sv', w') \<and> snd w' = 0"
proof -
  obtain n res sv' w' where c: "complete n blind_env (Some 0) False (new_supervisor True True, (0, 0)) = Some (res, sv', w')"
    using complete_returns [OF blind_clock, of "Some 0" False "new_supervisor True True" "(0, 0)"] by (metis order_refl)
  have unknown: "pg_state (fst (linux_group blind_env pid v)) = G_unknown" for pid v
    by (simp add: linux_group_def inspectLinuxGroup_def scanLinuxGroup_def blind_env_def throw_def unknown_group_def)
  then have "\<not> just_verified blind_env v" for v unfolding just_verified_def by (metis fst_conv)
  moreover have "su_platform blind_env = Linux" "super_keeps (\<lambda>w. snd w = 0) blind_env"
    by (auto simp: super_keeps_def proc_keeps_def blind_env_def keeps_def throw_def)
  ultimately have "snd w' = 0" using signals_need_verification [OF _ _ _ _ c, of "\<lambda>w. snd w = 0"] by simp
  then show ?thesis using c by blast
qed

end
