(* ===== verification/Spec2Isabelle.thy ===== *)
theory Spec2Isabelle
  imports Lease_Protocol Model_Cleanup Blocking_Causes Local_Model Cli_Commands License_Transaction Borrowed_Module Borrowed_Sharing Owned_Keys Recovery_Execution Process_Supervisor
begin

text \<open>
  Verification of the dashboard client and the regression harness of AIppliance Magic Stick.

  The program. The dashboard (\<open>src/dashboard\<close>) is a web interface and a command line over one control API.
  Its packages hold the shared logic: \<open>packages/core\<close> (what is shown and which drafts and edits are sent),
  \<open>packages/api-client\<close> (the HTTP requests) and \<open>packages/contracts\<close> (types and two schemas). The command line
  (\<open>apps/cli/src\<close>) parses arguments, signs in, and runs commands over the client. The regression harness
  (\<open>apps/web/regression/core\<close>) tests a real appliance in a shared lab and must leave it as it found it: it takes a
  lease on the lab, writes every resource it creates into a journal, borrows settings and gives them back, lets only
  requests out that a run may send, and cleans up with bounded attempts. These guarantees are what is verified here,
  with the parts of the dashboard that build requests.

  Conventions. JavaScript strings are lists of code units 0 to 255 (\<open>Prelude\<close>), parsed JSON is \<open>jsval\<close> (\<open>Json\<close>), whose
  objects are association lists in insertion order. Asynchronous methods are actions \<open>('s, 'e, 'a) act\<close>: functions
  from a state to an error or a value and a new state, so that every \<open>throw\<close> and early return is a branch. A class
  is a record of its private fields; the state of its methods is that record beside the world \<open>'w\<close>, which
  only the ports (parameters) reach. Errors of the harness are \<open>HarnessError\<close> values with reason, outcome, stage and
  class (\<open>Harness_Errors\<close>).

  Theories and sources.
  \<^item> \<open>Prelude\<close>, \<open>Json\<close>, \<open>Js_Library\<close>, \<open>Iso_Time\<close>: strings, objects, actions with their preservation rules, JSON and
    its text, the parts of the language's library that the source uses. \<open>Harness_Errors\<close>: \<open>core/errors.ts\<close>.
  \<^item> \<open>Lab_Lease\<close>, \<open>Lease_Protocol\<close>: \<open>core/lease.ts\<close>. The methods of \<open>LabLease\<close> over the store, and the lock as a step
    relation between runners that they refine; exclusion, finality of the fence, no stealing.
  \<^item> \<open>Kubernetes_Command\<close>, \<open>Cleanup_Diagnostic\<close>: \<open>core/kubernetes-command.ts\<close>, \<open>core/cleanup-diagnostic.ts\<close>. What of a
    failed command may be kept, and the bounded diagnostics of a cleanup.
  \<^item> \<open>Resource_Journal\<close>, \<open>Kubectl_Observer\<close>, \<open>Model_Cleanup\<close>: \<open>core/journal.ts\<close>, \<open>core/observer.ts\<close>,
    \<open>core/model-cleanup.ts\<close>. The journal file, its history, cleanup by adapters under the locales \<open>quiet_adapters\<close> and
    \<open>guarded_cleanup\<close>, which the model adapter interprets; the reviews of credentials.
  \<^item> \<open>Poll\<close>: \<open>core/poll.ts\<close> and \<open>core/run-lifecycle.ts\<close>. Termination, acceptance before the deadline, the heartbeat.
  \<^item> \<open>Run_Policy\<close>, \<open>Blocking_Causes\<close>, \<open>Lab_Config\<close>: selection of steps and modules, causes of blocked cases, the
    private configuration and the registration of a lab (\<open>core/lab-policy.ts\<close>, \<open>core/test-mode.ts\<close>,
    \<open>core/blocking.ts\<close>, \<open>core/config.ts\<close> and others named in these theories).
  \<^item> \<open>Borrowing\<close>: what borrowed settings share, and the contracts \<open>object_contract\<close> and \<open>step_contract\<close>: a preorder on
    states along which every step of an action moves, whatever its outcome. \<open>License_Transaction\<close>, \<open>Borrowed_Module\<close>,
    \<open>Borrowed_Sharing\<close>: \<open>core/license-transaction.ts\<close>, \<open>core/borrowed-module.ts\<close>, \<open>core/borrowed-sharing.ts\<close>. A change
    adopts only what was read back, a lost answer is never adopted, restoration gives the original back.
  \<^item> \<open>Request_Guards\<close>, \<open>Dashboard_Transports\<close>, \<open>Owned_Keys\<close>: \<open>core/auth.ts\<close>, \<open>core/transport.ts\<close>,
    \<open>core/preparation-api.ts\<close>, \<open>core/administration-api.ts\<close>, \<open>core/owned-key.ts\<close>. Which requests leave the harness: the
    world records the requests sent, and each theorem bounds them.
  \<^item> \<open>Private_Files\<close>, \<open>Recovery_Inventory\<close>, \<open>Cleanup_State\<close>, \<open>Kubernetes_Termination\<close>: \<open>core/private-files.ts\<close>,
    \<open>core/recovery-inventory.ts\<close>, \<open>core/cleanup-state.ts\<close>, \<open>core/kubernetes-termination.ts\<close>. The disk is an association list
    of paths, beside the world; what a run left on it, when that counts as closed, the proofs of a cleanup and of the end
    of the processes, and what an assessment as verified means.
  \<^item> \<open>Recovery_Prepare\<close>, \<open>Recovery_Execution\<close>: \<open>core/automatic-recovery.ts\<close>, the composition of lease, journals, borrowed
    modules and sharing, and files. Whom a recovery may touch, that it claims the lease before it changes anything, that
    its guard never passes again once it failed, and that it reports success only with a proven cleanup. The state is the
    running recovery (\<open>RecoveryRun\<close>) beside the disk and the cluster.
  \<^item> \<open>Process_Group\<close>, \<open>Process_Supervisor\<close>: \<open>core/process-group.ts\<close>, \<open>core/process-supervisor.ts\<close>. Whether the processes
    of a run have stopped, and how they are ended: verified signals only, in bounded time; with a chain of forks that the
    inspection misses.
  \<^item> \<open>Dashboard_Core\<close>, \<open>Local_Model\<close>, \<open>Api_Client\<close>: the packages. \<open>Cli_Args\<close>, \<open>Cli_Session\<close>, \<open>Cli_Commands\<close>: the
    command line.
  \<^item> This theory holds what spans components: a module write that the API rejects, reported by the administration
    API, settles the change of the borrowed module.

  Fuel. \<open>poll_fuel\<close> is the timeout in milliseconds plus one and \<open>device_fuel\<close> the time that is left plus one: both loops
  pause at least one millisecond per pass, so that a clock that pauses advance reaches the deadline first; that they
  return is proved (\<open>poll_terminates\<close>, \<open>device_login_ends\<close>). The waiting loops of the supervisor take any fuel, and that some
  fuel is enough is proved (\<open>completion_returns\<close>). Reading a license file takes one piece more than its limit.
  The recursion over child runs has the ten levels that the source allows. Other loops of the source are structural.

  Parameters stand for code that is not part of the repository or that touches the system: the network, \<open>kubectl\<close>,
  files, clocks, browsers, \<open>JSON.parse\<close>, the URL parser, \<open>localeCompare\<close>, SHA-256. What theorems need of them are named
  hypotheses (for example \<open>timely\<close>: a pause advances the clock; \<open>records_requests\<close>: sending a request is recorded), each
  with a witness on concrete functions.

  Not modelled. The interactive screens of the command line and the web interface, which present the modelled logic;
  the test specifications and the scenarios that drive a browser in a lab; reports and their rendering; the launchers,
  processes, certificates and sign-in pages; the collection of logs from a cluster. Of the harness, the adapters of
  owned models, apps and identities (\<open>core/owned-model.ts\<close>, \<open>core/owned-app.ts\<close>, \<open>core/owned-identity.ts\<close>), the adapters that a
  recovery gets (\<open>core/recovery-adapters.ts\<close>, here parameters) and the preparation of inputs
  (\<open>core/input-preparation.ts\<close>) are not modelled: they drive pages and commands whose answers are not in the repository.
  The Python services, Ansible roles and manifests are in other languages.
  Concurrent calls on one object are not modelled: a method runs as one action of its object, as the source chains or
  awaits them. A timer that races a promise (the heartbeat and the deadline of \<open>bounded\<close>) fires where a guard looks and
  where \<open>bounded\<close> ends; an action that the deadline abandons runs to its end before the error is reported.
\<close>

subsection \<open>Rejected module writes\<close>

text \<open>A module that stands still while its guard, its reads and its receipt work.\<close>

definition module_stands :: "'w module_ports \<Rightarrow> jsval \<Rightarrow> bool" where
  "module_stands ports ob \<longleftrightarrow> (\<forall>w. \<exists>w'. mp_guard ports w = (Inr (), w')) \<and> (\<forall>w. \<exists>w'. mp_read ports w = (Inr ob, w')) \<and>
     (\<forall>v w. \<exists>w'. mp_write ports v w = (Inr (), w'))"

lemma standing_current:
  assumes "module_stands ports ob" and "same_object ports ob (expected_object b)"
  shows "\<exists>w'. current_module ports (b, w) = (Inr ob, (b, w'))"
proof -
  obtain u where g: "mp_guard ports w = (Inr (), u)" using assms(1) unfolding module_stands_def by blast
  obtain v where "mp_read ports u = (Inr ob, v)" using assms(1) unfolding module_stands_def by blast
  then show ?thesis using g assms(2) by (simp add: current_module_def seq_def bnd_def ret_def)
qed

lemma standing_receipt: "module_stands ports ob \<Longrightarrow> \<exists>w'. write_receipt ports f (b, w) = (Inr (), (b, w'))"
  unfolding module_stands_def by (simp add: write_receipt_def bnd_def) (metis (no_types, lifting) old.prod.case)

text \<open>
  C29: A module write that the API rejects settles the change. When \<open>AdministrationApi.write\<close> reports the answer of the
  API (400, 403, 409 or 422) and the module still stands as last recorded, \<open>change\<close> ends with that error, the change is
  resolved, nothing is adopted, and the receipt no longer blocks \<open>restore\<close>.
\<close>

theorem rejected_module_write_settles:
  assumes "module_stands ports ob" and "same_object ports ob (expected_object b)" and "status \<in> {400, 403, 409, 422}"
    and "\<And>w. \<exists>w'. mp_set ports enabled parameters w = (Inl (write_error (Of_client (ApiError message status details))), w')"
  shows "\<exists>b' w'. change_module ports enabled parameters None (b, w) = (Inl (administration_rejected status), (b', w')) \<and>
    \<not> bm_unresolved b' \<and> bm_applied b' = bm_applied b \<and> expected_object b' = expected_object b"
proof -
  let ?e = "administration_rejected status"
  let ?b1 = "b\<lparr>bm_unresolved := True, bm_acknowledged := False\<rparr>" and ?b2 = "b\<lparr>bm_unresolved := False, bm_acknowledged := True\<rparr>"
  have proven: "proven_no_write ?e" using assms(3) by (auto simp: proven_no_write_def administration_rejected_def)
  have same: "same_object ports ob (expected_object b')" if "bm_applied b' = bm_applied b" "bm_restored b' = bm_restored b" "bm_original b' = bm_original b" for b'
    using assms(2) that by (simp add: expected_object_def cong: option.case_cong)
  obtain w1 where c1: "current_module ports (b, w) = (Inr ob, (b, w1))" using standing_current [OF assms(1,2)] by blast
  obtain w2 where r1: "write_receipt ports (\<lambda>b. module_receipt b ''requested'') (b\<lparr>bm_unresolved := True\<rparr>, w1) = (Inr (), (b\<lparr>bm_unresolved := True\<rparr>, w2))"
    using standing_receipt [OF assms(1)] by blast
  obtain w3 where s: "mp_set ports enabled parameters w2 = (Inl ?e, w3)" using assms(4) [of w2] by (auto simp: write_error_def)
  obtain w4 where c2: "current_module ports (?b1, w3) = (Inr ob, (?b1, w4))" using standing_current [OF assms(1) same] by fastforce
  obtain w5 where r2: "write_receipt ports (\<lambda>b. module_receipt b (settled_state b)) (?b2, w4) = (Inr (), (?b2, w5))"
    using standing_receipt [OF assms(1)] by blast
  have body: "catch (submitted ports ob enabled parameters None) (rejected_change ports) (?b1, w2) = (Inl ?e, (?b2, w5))"
    using s c2 r2 proven by (simp add: catch_def submitted_def rejected_change_def seq_def bnd_def ret_def throw_def)
  have "change_module ports enabled parameters None (b, w) = (Inl ?e, (?b2, w5))"
    using c1 r1 body by (simp add: change_module_def finally_ambiguous_def seq_def bnd_def ret_def)
  then show ?thesis by (auto simp: expected_object_def cong: option.case_cong)
qed

text \<open>A shelf that stands still and whose writes the API answers with a conflict.\<close>

definition refusing_ports :: "shelf module_ports" where
  "refusing_ports = shelf_ports\<lparr>mp_read := ret (shelf_object 1 False), mp_set := (\<lambda>_ _. throw (write_error (Of_client (ApiError ''conflict'' 409 JNull))))\<rparr>"

theorem rejected_module_write_settles_witness:
  "\<exists>b' w'. change_module refusing_ports True [] None (shelf_module None, (shelf_object 1 False, 0)) = (Inl (administration_rejected 409), (b', w')) \<and>
     \<not> bm_unresolved b' \<and> bm_applied b' = None"
proof -
  have "module_stands refusing_ports (shelf_object 1 False)"
    by (auto simp: module_stands_def refusing_ports_def shelf_ports_def ret_def)
  moreover have "same_object refusing_ports (shelf_object 1 False) (expected_object (shelf_module None))" "bm_applied (shelf_module None) = None"
    by code_simp+
  moreover have "\<exists>w'. mp_set refusing_ports True [] w = (Inl (write_error (Of_client (ApiError ''conflict'' 409 JNull))), w')" for w
    by (simp add: refusing_ports_def throw_def)
  ultimately show ?thesis
    using rejected_module_write_settles [of refusing_ports "shelf_object 1 False" "shelf_module None" 409 True "[]"] by fastforce
qed

end
